(* ===== verification/Go_Prelude.thy ===== *)
theory Go_Prelude
  imports Main "HOL-Library.Sublist"
begin

text \<open>
  Shared library of the development: the functions of Go's packages \<open>strings\<close> and
  \<open>strconv\<close> the program calls, 64-bit integers, and the interfaces (locales) several
  components implement.

  Go strings are byte sequences. They are modelled as \<^typ>\<open>string\<close> on ASCII text, where
  bytes, runes and characters coincide; case mapping and white space are those of ASCII.
  Separators of \<open>strings.Split\<close> are single characters, as in every call of the program.
\<close>

named_theorems go_str \<open>unfolding of the string functions\<close>
named_theorems store_simps \<open>reading a store after an update\<close>

section \<open>Characters and case mapping\<close>

definition is_space :: "char \<Rightarrow> bool" where
  "is_space c = (c \<in> {CHR '' '', CHR 0x09, CHR 0x0A, CHR 0x0B, CHR 0x0C, CHR 0x0D})"

definition lower_char :: "char \<Rightarrow> char" where
  "lower_char c = (if 65 \<le> (of_char c :: nat) \<and> (of_char c :: nat) \<le> 90 then char_of ((of_char c :: nat) + 32) else c)"

definition upper_char :: "char \<Rightarrow> char" where
  "upper_char c = (if 97 \<le> (of_char c :: nat) \<and> (of_char c :: nat) \<le> 122 then char_of ((of_char c :: nat) - 32) else c)"

definition is_digit :: "char \<Rightarrow> bool" where
  "is_digit c = (48 \<le> (of_char c :: nat) \<and> (of_char c :: nat) \<le> 57)"

definition is_letter :: "char \<Rightarrow> bool" where
  "is_letter c = ((65 \<le> (of_char c :: nat) \<and> (of_char c :: nat) \<le> 90) \<or>
                  (97 \<le> (of_char c :: nat) \<and> (of_char c :: nat) \<le> 122))"

definition to_lower :: "string \<Rightarrow> string" where
  "to_lower s = map lower_char s"

definition to_upper :: "string \<Rightarrow> string" where
  "to_upper s = map upper_char s"

definition equal_fold :: "string \<Rightarrow> string \<Rightarrow> bool" where
  "equal_fold a b = (to_lower a = to_lower b)"

section \<open>Trimming, splitting, joining\<close>

definition trim_space :: "string \<Rightarrow> string" where
  "trim_space s = rev (dropWhile is_space (rev (dropWhile is_space s)))"

definition has_prefix :: "string \<Rightarrow> string \<Rightarrow> bool" where
  "has_prefix s p = prefix p s"

definition has_suffix :: "string \<Rightarrow> string \<Rightarrow> bool" where
  "has_suffix s p = suffix p s"

definition contains :: "string \<Rightarrow> string \<Rightarrow> bool" where
  "contains s sub = sublist sub s"

definition trim_prefix :: "string \<Rightarrow> string \<Rightarrow> string" where
  "trim_prefix s p = (if has_prefix s p then drop (length p) s else s)"

definition trim_suffix :: "string \<Rightarrow> string \<Rightarrow> string" where
  "trim_suffix s p = (if has_suffix s p then take (length s - length p) s else s)"

fun split_on :: "char \<Rightarrow> string \<Rightarrow> string list" where
  "split_on c [] = [[]]"
| "split_on c (x # xs) =
     (if x = c then [] # split_on c xs
      else (case split_on c xs of [] \<Rightarrow> [[x]] | w # ws \<Rightarrow> (x # w) # ws))"

fun join :: "string \<Rightarrow> string list \<Rightarrow> string" where
  "join sep [] = []"
| "join sep [x] = x"
| "join sep (x # y # zs) = x @ sep @ join sep (y # zs)"

fun fields_aux :: "string \<Rightarrow> string \<Rightarrow> string list" where
  "fields_aux [] cur = (if cur = [] then [] else [rev cur])"
| "fields_aux (c # cs) cur =
     (if is_space c then (if cur = [] then fields_aux cs [] else rev cur # fields_aux cs [])
      else fields_aux cs (c # cur))"

definition fields :: "string \<Rightarrow> string list" where
  "fields s = fields_aux s []"

text \<open>\<open>strings.ReplaceAll\<close> for a non-empty pattern: leftmost, non-overlapping.\<close>

function replace_all :: "string \<Rightarrow> string \<Rightarrow> string \<Rightarrow> string" where
  "replace_all s old new =
     (if s = [] \<or> old = [] then s
      else if has_prefix s old then new @ replace_all (drop (length old) s) old new
      else hd s # replace_all (tl s) old new)"
  by pat_completeness auto
termination
proof (relation "measure (\<lambda>(s, old, new). length s)", goal_cases)
  case 1
  show ?case by simp
next
  case (2 s old new)
  then show ?case by (cases old; cases s) auto
next
  case (3 s old new)
  then show ?case by (cases s) auto
qed

declare replace_all.simps [simp del]

section \<open>Integers\<close>

abbreviation max_int64 :: int where "max_int64 \<equiv> 9223372036854775807"
abbreviation min_int64 :: int where "min_int64 \<equiv> - 9223372036854775808"

text \<open>Two's complement wrap-around of a 64-bit \<open>int\<close>.\<close>

definition wrap64 :: "int \<Rightarrow> int" where
  "wrap64 x = (x + 9223372036854775808) mod 18446744073709551616 - 9223372036854775808"

definition int64_range :: "int \<Rightarrow> bool" where
  "int64_range x = (min_int64 \<le> x \<and> x \<le> max_int64)"

definition digit_char :: "nat \<Rightarrow> char" where
  "digit_char d = char_of (48 + d)"

fun nat_show :: "nat \<Rightarrow> string" where
  "nat_show n = (if n < 10 then [digit_char n] else nat_show (n div 10) @ [digit_char (n mod 10)])"

declare nat_show.simps [simp del]

definition itoa :: "int \<Rightarrow> string" where
  "itoa n = (if n < 0 then CHR ''-'' # nat_show (nat (- n)) else nat_show (nat n))"

fun digits_value :: "nat \<Rightarrow> string \<Rightarrow> nat option" where
  "digits_value acc [] = Some acc"
| "digits_value acc (c # cs) =
     (if is_digit c then digits_value (10 * acc + (of_char c - 48)) cs else None)"

definition parse_nat :: "string \<Rightarrow> nat option" where
  "parse_nat s = (if s = [] then None else digits_value 0 s)"

text \<open>\<open>strconv.Atoi\<close>: an optional sign, decimal digits, and the range of \<open>int\<close>.\<close>

definition atoi :: "string \<Rightarrow> int option" where
  "atoi s =
     (let neg = (s \<noteq> [] \<and> hd s = CHR ''-'');
          body = (if s \<noteq> [] \<and> (hd s = CHR ''-'' \<or> hd s = CHR ''+'') then tl s else s)
      in case parse_nat body of None \<Rightarrow> None
         | Some n \<Rightarrow> (let v = (if neg then - int n else int n)
                      in if int64_range v then Some v else None))"

text \<open>\<open>strconv.ParseUint\<close> in base 10 with 64 bits.\<close>

definition parse_uint64 :: "string \<Rightarrow> nat option" where
  "parse_uint64 s = (case parse_nat s of None \<Rightarrow> None
     | Some n \<Rightarrow> if n < 18446744073709551616 then Some n else None)"

section \<open>Lemmas on strings\<close>

lemma is_space_simps [simp]:
  "is_space (CHR '' '')" "\<not> is_space (CHR ''*'')" "\<not> is_space (CHR ''.'')"
  by (simp_all add: is_space_def)

lemma lower_char_idem [simp]: "lower_char (lower_char c) = lower_char c"
proof (cases "65 \<le> (of_char c :: nat) \<and> (of_char c :: nat) \<le> 90")
  case True
  then have "(of_char (char_of ((of_char c :: nat) + 32) :: char) :: nat) = of_char c + 32"
    by (simp add: of_char_of)
  with True show ?thesis by (simp add: lower_char_def)
next
  case False
  then show ?thesis by (auto simp: lower_char_def)
qed

lemma to_lower_idem [simp]: "to_lower (to_lower s) = to_lower s"
  by (simp add: to_lower_def)

lemma length_to_lower [simp]: "length (to_lower s) = length s"
  by (simp add: to_lower_def)

lemma length_to_upper [simp]: "length (to_upper s) = length s"
  by (simp add: to_upper_def)

lemma to_lower_Nil [simp]: "to_lower s = [] \<longleftrightarrow> s = []"
  by (simp add: to_lower_def)

lemma to_lower_append: "to_lower (a @ b) = to_lower a @ to_lower b"
  by (simp add: to_lower_def)

lemma equal_fold_refl [simp, intro]: "equal_fold a a"
  by (simp add: equal_fold_def)

lemma equal_fold_sym: "equal_fold a b \<longleftrightarrow> equal_fold b a"
  by (auto simp: equal_fold_def)

lemma equal_fold_trans: "equal_fold a b \<Longrightarrow> equal_fold b c \<Longrightarrow> equal_fold a c"
  by (simp add: equal_fold_def)

lemma dropWhile_twice: "dropWhile P (dropWhile P xs) = dropWhile P xs"
  by (induction xs) auto

lemma dropWhile_idem_rev:
  "dropWhile P (rev (dropWhile P (rev (dropWhile P xs)))) = rev (dropWhile P (rev (dropWhile P xs)))"
proof (cases "rev (dropWhile P (rev (dropWhile P xs)))")
  case Nil
  show ?thesis unfolding Nil by simp
next
  case (Cons y ys)
  let ?zs = "dropWhile P xs"
  have "takeWhile P (rev ?zs) @ dropWhile P (rev ?zs) = rev ?zs" by simp
  then have "rev (dropWhile P (rev ?zs)) @ rev (takeWhile P (rev ?zs)) = ?zs"
    by (metis rev_append rev_rev_ident)
  with Cons have "?zs \<noteq> [] \<and> hd ?zs = y" by (metis append_Cons list.sel(1) list.distinct(1))
  then have "\<not> P y" using hd_dropWhile by metis
  with Cons show ?thesis by simp
qed

lemma trim_space_idem [simp]: "trim_space (trim_space s) = trim_space s"
proof -
  let ?t = "dropWhile is_space (rev (dropWhile is_space s))"
  have "dropWhile is_space (rev ?t) = rev ?t" by (rule dropWhile_idem_rev)
  then have "trim_space (trim_space s) = rev (dropWhile is_space ?t)"
    by (simp add: trim_space_def)
  also have "\<dots> = rev ?t" by (simp add: dropWhile_twice)
  finally show ?thesis by (simp add: trim_space_def)
qed

lemma trim_space_Nil [simp]: "trim_space [] = []"
  by (simp add: trim_space_def)

lemma length_trim_space: "length (trim_space s) \<le> length s"
  unfolding trim_space_def
  by (metis (no_types, lifting) length_dropWhile_le length_rev order_trans)

lemma trim_space_id:
  "s \<noteq> [] \<Longrightarrow> \<not> is_space (hd s) \<Longrightarrow> \<not> is_space (last s) \<Longrightarrow> trim_space s = s"
proof -
  assume s: "s \<noteq> []" "\<not> is_space (hd s)" "\<not> is_space (last s)"
  then have "dropWhile is_space s = s" by (cases s) auto
  moreover have "dropWhile is_space (rev s) = rev s"
    using s by (cases "rev s") (auto simp: hd_rev[symmetric])
  ultimately show ?thesis by (simp add: trim_space_def)
qed

lemma split_on_nonempty [simp]: "split_on c s \<noteq> []"
  by (induction s) (auto split: list.splits)

lemma split_on_no_sep: "w \<in> set (split_on c s) \<Longrightarrow> c \<notin> set w"
proof (induction s arbitrary: w)
  case Nil
  then show ?case by simp
next
  case (Cons x xs)
  then show ?case by (cases "split_on c xs") (auto split: if_splits)
qed

lemma split_on_no_occurrence: "c \<notin> set s \<Longrightarrow> split_on c s = [s]"
  by (induction s) auto

text \<open>Splitting and joining on the same character are inverse.\<close>

lemma join_split_on: "join [c] (split_on c s) = s"
proof (induction s)
  case Nil
  then show ?case by simp
next
  case (Cons x xs)
  obtain w ws where w: "split_on c xs = w # ws"
    using split_on_nonempty [of c xs] by (cases "split_on c xs") auto
  have "join [c] ((x # w) # ws) = x # join [c] (w # ws)" by (cases ws) auto
  with Cons w show ?case by (cases "x = c") auto
qed

lemma fields_aux_no_space:
  "\<forall>c \<in> set cur. \<not> is_space c \<Longrightarrow> w \<in> set (fields_aux s cur) \<Longrightarrow> w \<noteq> [] \<and> (\<forall>c \<in> set w. \<not> is_space c)"
proof (induction s arbitrary: cur)
  case Nil
  then show ?case by (cases "cur = []") auto
next
  case (Cons c cs)
  show ?case
  proof (cases "is_space c \<and> cur \<noteq> [] \<and> w = rev cur")
    case True
    with Cons.prems(1) show ?thesis by simp
  next
    case False
    with Cons.prems have "w \<in> set (fields_aux cs (if is_space c then [] else c # cur))"
      by (cases "is_space c"; cases "cur = []") simp_all
    moreover have "\<forall>d \<in> set (if is_space c then [] else c # cur). \<not> is_space d"
      using Cons.prems(1) by simp
    ultimately show ?thesis by (rule Cons.IH [rotated])
  qed
qed

lemma fields_words: "w \<in> set (fields s) \<Longrightarrow> w \<noteq> [] \<and> (\<forall>c \<in> set w. \<not> is_space c)"
  unfolding fields_def by (rule fields_aux_no_space) auto

section \<open>Lemmas on integers\<close>

lemma wrap64_id: "int64_range x \<Longrightarrow> wrap64 x = x"
  by (simp add: wrap64_def int64_range_def)

lemma wrap64_range [simp]: "int64_range (wrap64 x)"
proof -
  have "0 \<le> (x + 9223372036854775808) mod 18446744073709551616"
    and "(x + 9223372036854775808) mod 18446744073709551616 < 18446744073709551616"
    by simp_all
  then show ?thesis by (simp add: wrap64_def int64_range_def)
qed

lemma of_char_digit_char: "d < 10 \<Longrightarrow> (of_char (digit_char d) :: nat) = 48 + d"
  by (simp add: digit_char_def of_char_of)

lemma is_digit_digit_char: "d < 10 \<Longrightarrow> is_digit (digit_char d)"
  by (simp add: is_digit_def of_char_digit_char)

lemma digits_value_append:
  "digits_value acc (xs @ ys) = (case digits_value acc xs of None \<Rightarrow> None | Some a \<Rightarrow> digits_value a ys)"
  by (induction xs arbitrary: acc) auto

lemma digits_value_nat_show: "digits_value 0 (nat_show n) = Some n"
proof (induction n rule: nat_show.induct)
  case (1 n)
  show ?case
  proof (cases "n < 10")
    case True
    then show ?thesis
      by (subst nat_show.simps) (simp add: is_digit_digit_char of_char_digit_char)
  next
    case False
    with 1 have "digits_value 0 (nat_show (n div 10)) = Some (n div 10)" by simp
    with False show ?thesis
      by (subst nat_show.simps)
         (simp add: digits_value_append is_digit_digit_char of_char_digit_char)
  qed
qed

lemma nat_show_nonempty [simp]: "nat_show n \<noteq> []"
  by (subst nat_show.simps) simp

lemma nat_show_digits: "c \<in> set (nat_show n) \<Longrightarrow> is_digit c"
proof (induction n rule: nat_show.induct)
  case (1 n)
  then show ?case
    by (subst (asm) (2) nat_show.simps) (auto simp: is_digit_digit_char split: if_splits)
qed

lemma parse_nat_nat_show: "parse_nat (nat_show n) = Some n"
  by (simp add: parse_nat_def digits_value_nat_show)

lemma hd_nat_show: "hd (nat_show n) \<noteq> CHR ''-'' \<and> hd (nat_show n) \<noteq> CHR ''+''"
proof -
  have "is_digit (hd (nat_show n))" by (intro nat_show_digits [of _ n] hd_in_set) simp
  then show ?thesis by (auto simp: is_digit_def)
qed

text \<open>\<open>strconv.Atoi\<close> reads back what \<open>strconv.Itoa\<close> prints.\<close>

lemma atoi_itoa: "int64_range n \<Longrightarrow> atoi (itoa n) = Some n"
  using hd_nat_show [of "nat n"]
  by (auto simp: atoi_def itoa_def parse_nat_nat_show Let_def)

lemma atoi_range: "atoi s = Some v \<Longrightarrow> int64_range v"
  by (auto simp: atoi_def Let_def split: option.splits if_splits)

lemma parse_uint64_nat_show: "n < 18446744073709551616 \<Longrightarrow> parse_uint64 (nat_show n) = Some n"
  by (simp add: parse_uint64_def parse_nat_nat_show)

section \<open>Interfaces\<close>

text \<open>A history of statuses that follows an \<open>allowed\<close> table, from status \<open>a\<close>.\<close>

fun status_history :: "('s \<Rightarrow> 's \<Rightarrow> bool) \<Rightarrow> 's \<Rightarrow> 's list \<Rightarrow> bool" where
  "status_history allowed a [] = True"
| "status_history allowed a (b # bs) = (allowed a b \<and> status_history allowed b bs)"

text \<open>The answers of a sequence of attempts at a conditional update.\<close>

fun attempt_outcomes :: "('c \<Rightarrow> 's \<Rightarrow> bool \<times> 's) \<Rightarrow> 'c list \<Rightarrow> 's \<Rightarrow> bool list" where
  "attempt_outcomes attempt [] s = []"
| "attempt_outcomes attempt (c # cs) s = fst (attempt c s) # attempt_outcomes attempt cs (snd (attempt c s))"

lemma status_history_append:
  "status_history al a (xs @ ys) \<longleftrightarrow> status_history al a xs \<and> status_history al (last (a # xs)) ys"
  by (induction xs arbitrary: a) auto

text \<open>
  A status machine given by an \<open>allowed\<close> table: the contract of the two transition tables
  of the program (tickets and online DDL runs). The client lemmas speak about whole
  histories of a status.
\<close>

locale status_machine =
  fixes allowed :: "'s \<Rightarrow> 's \<Rightarrow> bool"
    and terminal :: "'s \<Rightarrow> bool"
  assumes terminal_stuck: "terminal a \<Longrightarrow> \<not> allowed a b"
    and nonterminal_moves: "\<not> terminal a \<Longrightarrow> \<exists>b. allowed a b"
begin

lemma terminal_only_last:
  "status_history allowed a (xs @ b # ys) \<Longrightarrow> terminal b \<Longrightarrow> ys = []"
  by (cases ys) (auto simp: status_history_append terminal_stuck)

lemma terminal_no_history: "terminal a \<Longrightarrow> status_history allowed a xs \<Longrightarrow> xs = []"
  by (cases xs) (auto simp: terminal_stuck)

lemma stuck_iff_terminal: "(\<forall>b. \<not> allowed a b) \<longleftrightarrow> terminal a"
  using terminal_stuck nonterminal_moves by blast

end

text \<open>
  A conditional update (optimistic concurrency): it reports whether it was applied, leaves
  the store alone when it was not, and disables itself when it was. Every
  \<open>UPDATE ... WHERE status = ?\<close> of the program that claims work has this contract.
\<close>

locale one_shot =
  fixes attempt :: "'c \<Rightarrow> 's \<Rightarrow> bool \<times> 's"
  assumes rejected_unchanged: "\<not> fst (attempt c s) \<Longrightarrow> snd (attempt c s) = s"
    and taken_once: "fst (attempt c s) \<Longrightarrow> \<not> fst (attempt d (snd (attempt c s)))"
begin

lemma outcomes_after_taken:
  "(\<And>d. \<not> fst (attempt d s)) \<Longrightarrow> True \<notin> set (attempt_outcomes attempt cs s)"
proof (induction cs arbitrary: s)
  case Nil
  then show ?case by simp
next
  case (Cons c cs)
  then show ?case using rejected_unchanged [of c s] by auto
qed

lemma at_most_one_winner: "length (filter (\<lambda>b. b) (attempt_outcomes attempt cs s)) \<le> 1"
proof (induction cs arbitrary: s)
  case Nil
  then show ?case by simp
next
  case (Cons c cs)
  show ?case
  proof (cases "fst (attempt c s)")
    case True
    then have "True \<notin> set (attempt_outcomes attempt cs (snd (attempt c s)))"
      by (intro outcomes_after_taken) (rule taken_once)
    then have "filter (\<lambda>b. b) (attempt_outcomes attempt cs (snd (attempt c s))) = []"
      by (auto simp: filter_empty_conv)
    with True show ?thesis by simp
  next
    case False
    with Cons.IH [of s] show ?thesis by (simp add: rejected_unchanged)
  qed
qed

end

text \<open>
  A registry of exclusive holders by key: acquiring a held key fails and changes nothing,
  releasing frees the key and no other.
\<close>

locale exclusive_registry =
  fixes acquire :: "'k \<Rightarrow> 'v \<Rightarrow> 's \<Rightarrow> bool \<times> 's"
    and release :: "'k \<Rightarrow> 's \<Rightarrow> 's"
    and holder :: "'s \<Rightarrow> 'k \<Rightarrow> 'v option"
    and usable :: "'k \<Rightarrow> bool"
  assumes acquire_ok: "fst (acquire k v s) \<longleftrightarrow> usable k \<and> holder s k = None"
    and acquire_holds: "fst (acquire k v s) \<Longrightarrow> holder (snd (acquire k v s)) = (holder s)(k \<mapsto> v)"
    and acquire_refused: "\<not> fst (acquire k v s) \<Longrightarrow> snd (acquire k v s) = s"
    and release_frees: "holder (release k s) = (holder s)(k := None)"
begin

lemma acquire_exclusive:
  "fst (acquire k v s) \<Longrightarrow> \<not> fst (acquire k w (snd (acquire k v s)))"
  by (simp add: acquire_ok acquire_holds)

lemma acquire_other: "j \<noteq> k \<Longrightarrow> holder (snd (acquire k v s)) j = holder s j"
  using acquire_holds [of k v s] acquire_refused [of k v s]
  by (cases "fst (acquire k v s)") auto

lemma reacquire_after_release:
  "usable k \<Longrightarrow> fst (acquire k w (release k s))"
  by (simp add: acquire_ok release_frees)

lemma acquire_release: "fst (acquire k v s) \<Longrightarrow> holder (release k (snd (acquire k v s))) = holder s"
  by (auto simp: release_frees acquire_holds acquire_ok)

end

end
