(* ===== verification/Sql_Table.thy ===== *)
theory Sql_Table
  imports Go_Prelude "HOL-Library.Char_ord" "HOL-Library.List_Lexorder"
begin

text \<open>
  Tables of the program's own MySQL database as lists of rows, and the statements its
  repositories send: \<open>UPDATE ... WHERE\<close>, \<open>DELETE ... WHERE\<close>, \<open>SELECT DISTINCT ... ORDER BY\<close>.
  The number of affected rows is the number of rows the condition selects; strings are compared
  by value. A statement that fails, and a transaction that is rolled back, leave the tables as
  they are.
\<close>

section \<open>Statements\<close>

definition update_where :: "('r \<Rightarrow> bool) \<Rightarrow> ('r \<Rightarrow> 'r) \<Rightarrow> 'r list \<Rightarrow> 'r list" where
  "update_where P f rows = map (\<lambda>r. if P r then f r else r) rows"

definition affected :: "('r \<Rightarrow> bool) \<Rightarrow> 'r list \<Rightarrow> bool" where
  "affected P rows = list_ex P rows"

definition delete_where :: "('r \<Rightarrow> bool) \<Rightarrow> 'r list \<Rightarrow> 'r list" where
  "delete_where P rows = filter (\<lambda>r. \<not> P r) rows"

definition select_distinct :: "'k::linorder list \<Rightarrow> 'k list" where
  "select_distinct ks = sort (remdups ks)"

definition coalesce :: "'a option \<Rightarrow> 'a option \<Rightarrow> 'a option" where
  "coalesce a b = (case a of None \<Rightarrow> b | Some x \<Rightarrow> Some x)"

section \<open>Lemmas\<close>

text \<open>Membership in the result of a query written as a list comprehension.\<close>

named_theorems in_query \<open>membership in a comprehension\<close>

lemma in_concat_map [in_query]: "x \<in> set (concat (map f xs)) \<longleftrightarrow> (\<exists>r \<in> set xs. x \<in> set (f r))"
  by simp

lemma in_if_guard [in_query]: "x \<in> set (if P then ys else []) \<longleftrightarrow> P \<and> x \<in> set ys"
  by simp

lemma in_append [in_query]: "x \<in> set (xs @ ys) \<longleftrightarrow> x \<in> set xs \<or> x \<in> set ys"
  by simp

lemma in_singleton [in_query]: "x \<in> set [y] \<longleftrightarrow> x = y"
  by simp

lemma set_select_distinct [simp]: "set (select_distinct ks) = set ks"
  by (simp add: select_distinct_def)

lemma in_select_distinct [in_query]: "x \<in> set (select_distinct ks) \<longleftrightarrow> x \<in> set ks"
  by simp

lemma in_sort [in_query]: "x \<in> set (sort ks) \<longleftrightarrow> x \<in> set ks"
  by simp

lemma find_key_Some_iff:
  "distinct (map k rows) \<Longrightarrow> find (\<lambda>r. k r = i) rows = Some r \<longleftrightarrow> r \<in> set rows \<and> k r = i"
  by (induction rows) (auto simp: image_iff)

lemma find_key_and:
  "distinct (map k rows) \<Longrightarrow> find (\<lambda>r. k r = i) rows = Some r \<Longrightarrow> P r \<Longrightarrow> find (\<lambda>r. k r = i \<and> P r) rows = Some r"
  by (induction rows) (auto simp: find_Some_iff split: if_splits)

lemma distinct_select_distinct [simp]: "distinct (select_distinct ks)"
  by (simp add: select_distinct_def)

lemma sorted_select_distinct [simp]: "sorted (select_distinct ks)"
  by (simp add: select_distinct_def)

lemma select_distinct_eqI: "set xs = set ys \<Longrightarrow> select_distinct xs = select_distinct ys"
  by (metis distinct_select_distinct set_select_distinct sorted_distinct_set_unique sorted_select_distinct)

lemma set_update_where: "set (update_where P f rows) = {r \<in> set rows. \<not> P r} \<union> f ` {r \<in> set rows. P r}"
  by (auto simp: update_where_def)

lemma bex_update_where:
  "(\<exists>r \<in> set (update_where P f rows). Q r) \<longleftrightarrow> (\<exists>r \<in> set rows. if P r then Q (f r) else Q r)"
  by (auto simp: update_where_def)

lemma set_delete_where [simp]: "set (delete_where P rows) = {r \<in> set rows. \<not> P r}"
  by (auto simp: delete_where_def)

lemma affected_iff: "affected P rows \<longleftrightarrow> (\<exists>r \<in> set rows. P r)"
  by (simp add: affected_def list_ex_iff)

lemma update_where_none: "\<not> affected P rows \<Longrightarrow> update_where P f rows = rows"
  by (auto simp: update_where_def affected_iff intro: map_idI)

lemma update_where_key:
  "(\<And>r. k (f r) = k r) \<Longrightarrow> map k (update_where P f rows) = map k rows"
  by (simp add: update_where_def)

lemma update_where_disables:
  "(\<And>r. P r \<Longrightarrow> \<not> Q (f r)) \<Longrightarrow> (\<And>r. Q r \<Longrightarrow> P r) \<Longrightarrow> \<not> affected Q (update_where P f rows)"
  by (auto simp: affected_iff set_update_where)

lemma find_update_where:
  assumes "\<And>r. k (f r) = k r"
  shows "find (\<lambda>r. k r = i) (update_where P f rows)
       = map_option (\<lambda>r. if P r then f r else r) (find (\<lambda>r. k r = i) rows)"
  by (induction rows) (auto simp: update_where_def assms)

lemma find_update_where_on:
  assumes "\<And>r. P r \<Longrightarrow> k (f r) = k r"
  shows "find (\<lambda>r. k r = i) (update_where P f rows)
       = map_option (\<lambda>r. if P r then f r else r) (find (\<lambda>r. k r = i) rows)"
  by (induction rows) (auto simp: update_where_def assms)

lemma coalesce_simps [simp]:
  "coalesce None b = b" "coalesce (Some x) b = Some x"
  by (simp_all add: coalesce_def)

lemma coalesce_None_iff [simp]: "coalesce a b = None \<longleftrightarrow> a = None \<and> b = None"
  by (cases a) auto

section \<open>Interfaces\<close>

text \<open>
  An update guarded by a condition on the row that the update itself falsifies. The guard is the
  same for every caller \<open>c\<close>; every such update is a \<open>one_shot\<close>.
\<close>

locale guarded_update =
  fixes guard :: "'r \<Rightarrow> bool"
    and upd :: "'c \<Rightarrow> 'r \<Rightarrow> 'r"
    and rows :: "'s \<Rightarrow> 'r list"
    and attempt :: "'c \<Rightarrow> 's \<Rightarrow> bool \<times> 's"
  assumes disables: "guard r \<Longrightarrow> \<not> guard (upd c r)"
    and attempt_ok: "fst (attempt c s) \<longleftrightarrow> affected guard (rows s)"
    and attempt_rows: "rows (snd (attempt c s)) = update_where guard (upd c) (rows s)"
    and attempt_same: "\<not> affected guard (rows s) \<Longrightarrow> snd (attempt c s) = s"

sublocale guarded_update \<subseteq> one_shot attempt
proof
  show "snd (attempt c s) = s" if "\<not> fst (attempt c s)" for c s
    using that by (simp add: attempt_ok attempt_same)
  show "\<not> fst (attempt d (snd (attempt c s)))" if "fst (attempt c s)" for c d s
    unfolding attempt_ok attempt_rows by (rule update_where_disables) (auto simp: disables)
qed

text \<open>
  A table of grants: a grant holds from the time it is given until it is revoked, and no
  operation touches another key. The client lemma: the last event on a key decides.
\<close>

datatype 'k grant_event = Grant 'k | Revoke 'k

fun last_event :: "'k \<Rightarrow> 'k grant_event list \<Rightarrow> bool option" where
  "last_event k [] = None"
| "last_event k (Grant j # es) = (case last_event k es of None \<Rightarrow> if j = k then Some True else None | Some b \<Rightarrow> Some b)"
| "last_event k (Revoke j # es) = (case last_event k es of None \<Rightarrow> if j = k then Some False else None | Some b \<Rightarrow> Some b)"

fun run_events :: "('k \<Rightarrow> 's \<Rightarrow> 's) \<Rightarrow> ('k \<Rightarrow> 's \<Rightarrow> 's) \<Rightarrow> 'k grant_event list \<Rightarrow> 's \<Rightarrow> 's" where
  "run_events g r [] s = s"
| "run_events g r (Grant k # es) s = run_events g r es (g k s)"
| "run_events g r (Revoke k # es) s = run_events g r es (r k s)"

locale grant_registry =
  fixes grant :: "'k \<Rightarrow> 's \<Rightarrow> 's"
    and revoke :: "'k \<Rightarrow> 's \<Rightarrow> 's"
    and holds :: "'s \<Rightarrow> 'k \<Rightarrow> bool"
    and inv :: "'s \<Rightarrow> bool"
  assumes holds_grant: "inv s \<Longrightarrow> holds (grant k s) j \<longleftrightarrow> j = k \<or> holds s j"
    and holds_revoke: "inv s \<Longrightarrow> holds (revoke k s) j \<longleftrightarrow> j \<noteq> k \<and> holds s j"
    and inv_grant: "inv s \<Longrightarrow> inv (grant k s)"
    and inv_revoke: "inv s \<Longrightarrow> inv (revoke k s)"
begin

lemma last_event_decides:
  "inv s \<Longrightarrow> holds (run_events grant revoke es s) k =
     (case last_event k es of None \<Rightarrow> holds s k | Some b \<Rightarrow> b)"
proof (induction es arbitrary: s)
  case Nil
  then show ?case by simp
next
  case (Cons e es)
  then show ?case
    by (cases e) (auto simp: holds_grant holds_revoke inv_grant inv_revoke split: option.splits)
qed

lemma inv_run_events: "inv s \<Longrightarrow> inv (run_events grant revoke es s)"
proof (induction es arbitrary: s)
  case Nil
  then show ?case by simp
next
  case (Cons e es)
  then show ?case by (cases e) (auto simp: inv_grant inv_revoke)
qed

end

end
