(* ===== verification/Ticket_State.thy ===== *)
theory Ticket_State
  imports Go_Prelude
begin

text \<open>
  The data of tickets (\<open>internal/model/ticket.go\<close>) and the transition table of their status
  (\<open>internal/ticket/state_machine.go\<close>). Identifiers are natural numbers (\<open>uint64\<close> keys that
  the code only compares), times are integers, a nil pointer is \<open>None\<close>. A value outside the
  named constants of a Go string type is \<open>OtherStatus\<close> or \<open>OtherType\<close>.
\<close>

section \<open>Data\<close>

datatype ticket_status =
    PendingReview | Approved | Rejected | Withdrawn | PendingExecution | Executing
  | Completed | Failed | Stopped | Interrupted | NeedsAdminAttention | OtherStatus string

datatype ticket_type =
    DDL | DML | RedisCommand | SQLExport | SensitiveQueryAccess | QueryAccess | OtherType string

type_synonym id64 = nat
type_synonym timestamp = int

record ticket =
  t_id :: id64
  t_ticket_no :: string
  t_title :: string
  t_description :: "string option"
  t_sql_content :: string
  t_type :: ticket_type
  t_contains_sensitive :: "bool option"
  t_db_connection_id :: "id64 option"
  t_database_name :: "string option"
  t_schema_name :: "string option"
  t_status :: ticket_status
  t_submitter_id :: id64
  t_reviewer_id :: "id64 option"
  t_executor_id :: "id64 option"
  t_review_comment :: "string option"
  t_approved_at :: "timestamp option"
  t_review_rejected_at :: "timestamp option"
  t_pending_execution_at :: "timestamp option"
  t_execution_requested_at :: "timestamp option"
  t_execution_run_mode :: "string option"
  t_dml_execution_mode :: "string option"
  t_execution_rejected_at :: "timestamp option"
  t_withdrawn_at :: "timestamp option"
  t_rejection_reason :: "string option"
  t_scheduled_at :: "timestamp option"
  t_started_at :: "timestamp option"
  t_completed_at :: "timestamp option"
  t_approved_duration_minutes :: "int option"
  t_approved_until :: "timestamp option"
  t_revoked_at :: "timestamp option"
  t_revoked_by :: "id64 option"
  t_created_at :: timestamp
  t_updated_at :: timestamp

text \<open>The status of one statement of a ticket (\<open>ticket_executions.status\<close>).\<close>

datatype exec_status = ExPending | ExRunning | ExCompleted | ExFailed | ExStopped

record execution =
  e_id :: id64
  e_ticket_id :: id64
  e_seq :: int
  e_sql_stmt :: string
  e_status :: exec_status
  e_rows_affected :: "int option"
  e_error_msg :: "string option"
  e_started_at :: "timestamp option"
  e_completed_at :: "timestamp option"
  e_duration_ms :: "int option"
  e_sent_to_db_at :: "timestamp option"
  e_db_process_type :: "string option"
  e_db_process_id :: "id64 option"
  e_interruption_reason :: "string option"
  e_outcome_confidence :: "string option"

definition run_mode_batch :: string where "run_mode_batch = ''batch''"
definition run_mode_workflow_auto :: string where "run_mode_workflow_auto = ''workflow_auto''"
definition run_mode_manual_statement :: string where "run_mode_manual_statement = ''manual_statement''"
definition run_mode_whole_ticket :: string where "run_mode_whole_ticket = ''whole_ticket''"
definition dml_mode_per_statement :: string where "dml_mode_per_statement = ''per_statement''"
definition dml_mode_whole_ticket :: string where "dml_mode_whole_ticket = ''whole_ticket''"

lemmas run_mode_defs = run_mode_batch_def run_mode_workflow_auto_def run_mode_manual_statement_def
  run_mode_whole_ticket_def dml_mode_per_statement_def dml_mode_whole_ticket_def

section \<open>The transition table\<close>

fun allowedTransitions :: "ticket_status \<Rightarrow> ticket_status list option" where
  "allowedTransitions PendingReview = Some [Approved, Rejected, Withdrawn, NeedsAdminAttention]"
| "allowedTransitions NeedsAdminAttention = Some [PendingReview, Approved]"
| "allowedTransitions Approved = Some [PendingExecution, Rejected]"
| "allowedTransitions PendingExecution = Some [Rejected, Executing, Stopped]"
| "allowedTransitions Executing = Some [Completed, Failed, Stopped, Interrupted]"
| "allowedTransitions Rejected = Some []"
| "allowedTransitions Withdrawn = Some []"
| "allowedTransitions Completed = Some []"
| "allowedTransitions Failed = Some []"
| "allowedTransitions Stopped = Some []"
| "allowedTransitions Interrupted = Some []"
| "allowedTransitions (OtherStatus _) = None"

definition CanTransition :: "ticket_status \<Rightarrow> ticket_status \<Rightarrow> bool" where
  "CanTransition from to =
     (case allowedTransitions from of None \<Rightarrow> False | Some allowed \<Rightarrow> List.member allowed to)"

datatype transition_error = TransitionError ticket_status ticket_status

definition ValidateTransition :: "ticket_status \<Rightarrow> ticket_status \<Rightarrow> transition_error option" where
  "ValidateTransition from to = (if \<not> CanTransition from to then Some (TransitionError from to) else None)"

definition terminal_status :: "ticket_status \<Rightarrow> bool" where
  "terminal_status s = (case s of PendingReview \<Rightarrow> False | NeedsAdminAttention \<Rightarrow> False
     | Approved \<Rightarrow> False | PendingExecution \<Rightarrow> False | Executing \<Rightarrow> False | _ \<Rightarrow> True)"

section \<open>Lemmas\<close>

lemma CanTransition_iff:
  "CanTransition a b \<longleftrightarrow>
     (a = PendingReview \<and> b \<in> {Approved, Rejected, Withdrawn, NeedsAdminAttention}) \<or>
     (a = NeedsAdminAttention \<and> b \<in> {PendingReview, Approved}) \<or>
     (a = Approved \<and> b \<in> {PendingExecution, Rejected}) \<or>
     (a = PendingExecution \<and> b \<in> {Rejected, Executing, Stopped}) \<or>
     (a = Executing \<and> b \<in> {Completed, Failed, Stopped, Interrupted})"
  by (cases a) (auto simp: CanTransition_def)

interpretation tsm: status_machine CanTransition terminal_status
proof
  show "\<not> CanTransition a b" if "terminal_status a" for a b
    using that by (cases a) (auto simp: terminal_status_def CanTransition_iff)
  show "\<exists>b. CanTransition a b" if "\<not> terminal_status a" for a
    using that by (cases a) (auto simp: terminal_status_def CanTransition_iff)
qed

text \<open>Every step towards execution passes the stage before it.\<close>

lemma history_completed_stages:
  assumes "status_history CanTransition PendingReview xs" and "Executing \<in> set xs"
  shows "Approved \<in> set xs \<and> PendingExecution \<in> set xs"
proof -
  have step: "status_history CanTransition a ys \<Longrightarrow> b \<in> set ys \<Longrightarrow> b \<noteq> a \<Longrightarrow>
      \<exists>p. CanTransition p b \<and> (p = a \<or> p \<in> set ys)" for a b ys
    by (induction ys arbitrary: a) auto
  from step [OF assms] have "PendingExecution \<in> set xs" by (auto simp: CanTransition_iff)
  moreover from step [OF assms(1) this] have "Approved \<in> set xs" by (auto simp: CanTransition_iff)
  ultimately show ?thesis by simp
qed

end
