(* ===== verification/Identity.thy ===== *)
theory Identity
  imports Sql_Table Ticket_State
begin

text \<open>
  Users, their groups, permissions and database connections: the authorisation queries of
  \<open>internal/repository/user.go\<close>. Membership lives in two tables, \<open>user_auth_groups\<close> (by group
  id) and the older \<open>auth_group_memberships\<close> (by group key); every query reads both. Columns the
  queries never read (who granted, when) are left out.
\<close>

section \<open>Tables\<close>

record user =
  u_id :: id64
  u_username :: string
  u_is_active :: bool
  u_is_protected :: bool

record auth_group_row =
  ag_id :: id64
  ag_key :: string
  ag_all_permissions :: bool
  ag_name :: string
  ag_description :: string
  ag_is_system :: bool
  ag_is_protected :: bool

record permission_row =
  p_id :: id64
  p_key :: string

record user_auth_group =
  uag_user :: id64
  uag_group :: id64
  uag_expires_at :: "timestamp option"

record membership =
  agm_user :: id64
  agm_group :: string
  agm_expires_at :: "timestamp option"

record identity =
  i_users :: "user list"
  i_groups :: "auth_group_row list"
  i_permissions :: "permission_row list"
  i_user_groups :: "user_auth_group list"
  i_memberships :: "membership list"
  i_user_permissions :: "(id64 \<times> id64) list"
  i_group_permissions :: "(id64 \<times> id64) list"
  i_connections :: "(id64 \<times> bool) list"
  i_user_connections :: "(id64 \<times> id64) list"
  i_group_connections :: "(id64 \<times> id64) list"
  i_next_group :: id64

definition AuthGroupAdmin :: string where "AuthGroupAdmin = ''admin''"

definition not_expired :: "timestamp \<Rightarrow> timestamp option \<Rightarrow> bool" where
  "not_expired now e = (case e of None \<Rightarrow> True | Some t \<Rightarrow> now < t)"

section \<open>Queries\<close>

definition GetByID :: "identity \<Rightarrow> id64 \<Rightarrow> user option" where
  "GetByID db u = find (\<lambda>r. u_id r = u) (i_users db)"

definition GetAuthGroups :: "timestamp \<Rightarrow> identity \<Rightarrow> id64 \<Rightarrow> string list" where
  "GetAuthGroups now db u = select_distinct
     ([ag_key g. uag \<leftarrow> i_user_groups db, g \<leftarrow> i_groups db, ag_id g = uag_group uag,
                 uag_user uag = u \<and> not_expired now (uag_expires_at uag)] @
      [agm_group m. m \<leftarrow> i_memberships db, agm_user m = u \<and> not_expired now (agm_expires_at m)])"

definition RequiresMFA :: "timestamp \<Rightarrow> identity \<Rightarrow> user option \<Rightarrow> bool" where
  "RequiresMFA now db ou = (case ou of None \<Rightarrow> False
     | Some u \<Rightarrow> if u_is_protected u then True else AuthGroupAdmin \<in> set (GetAuthGroups now db (u_id u)))"

definition GetEffectiveAuthGroupIDs :: "timestamp \<Rightarrow> identity \<Rightarrow> id64 \<Rightarrow> id64 list" where
  "GetEffectiveAuthGroupIDs now db u = select_distinct
     ([ag_id g. g \<leftarrow> i_groups db, uag \<leftarrow> i_user_groups db, uag_group uag = ag_id g,
                uag_user uag = u \<and> not_expired now (uag_expires_at uag)] @
      [ag_id g. g \<leftarrow> i_groups db, m \<leftarrow> i_memberships db, agm_group m = ag_key g,
                agm_user m = u \<and> not_expired now (agm_expires_at m)])"

definition HasAllPermissions :: "timestamp \<Rightarrow> identity \<Rightarrow> id64 \<Rightarrow> bool" where
  "HasAllPermissions now db u =
     (if (case GetByID db u of None \<Rightarrow> False | Some r \<Rightarrow> u_is_protected r) then True
      else list_ex (\<lambda>g. ag_all_permissions g \<and>
             (list_ex (\<lambda>uag. uag_group uag = ag_id g \<and> uag_user uag = u \<and> not_expired now (uag_expires_at uag))
                (i_user_groups db) \<or>
              list_ex (\<lambda>m. agm_group m = ag_key g \<and> agm_user m = u \<and> not_expired now (agm_expires_at m))
                (i_memberships db)))
           (i_groups db))"

definition GetEffectivePermissionKeys :: "timestamp \<Rightarrow> identity \<Rightarrow> id64 \<Rightarrow> string list" where
  "GetEffectivePermissionKeys now db u =
     (if HasAllPermissions now db u then sort (map p_key (i_permissions db))
      else select_distinct
        ([p_key p. p \<leftarrow> i_permissions db, up \<leftarrow> i_user_permissions db, snd up = p_id p, fst up = u] @
         [p_key p. p \<leftarrow> i_permissions db, agp \<leftarrow> i_group_permissions db, snd agp = p_id p,
                   uag \<leftarrow> i_user_groups db, uag_group uag = fst agp,
                   uag_user uag = u \<and> not_expired now (uag_expires_at uag)] @
         [p_key p. p \<leftarrow> i_permissions db, agp \<leftarrow> i_group_permissions db, snd agp = p_id p,
                   g \<leftarrow> i_groups db, ag_id g = fst agp,
                   m \<leftarrow> i_memberships db, agm_group m = ag_key g,
                   agm_user m = u \<and> not_expired now (agm_expires_at m)]))"

text \<open>The subselect of \<open>ListActiveUserIDsByPermissionKeys\<close>, the union of its six branches.\<close>

definition permission_key_holders :: "timestamp \<Rightarrow> identity \<Rightarrow> string list \<Rightarrow> id64 list" where
  "permission_key_holders now db keys =
     [fst up. up \<leftarrow> i_user_permissions db, p \<leftarrow> i_permissions db, p_id p = snd up, p_key p \<in> set keys] @
     [uag_user uag. uag \<leftarrow> i_user_groups db, agp \<leftarrow> i_group_permissions db, fst agp = uag_group uag,
                    p \<leftarrow> i_permissions db, p_id p = snd agp,
                    p_key p \<in> set keys \<and> not_expired now (uag_expires_at uag)] @
     [agm_user m. m \<leftarrow> i_memberships db, g \<leftarrow> i_groups db, ag_key g = agm_group m,
                  agp \<leftarrow> i_group_permissions db, fst agp = ag_id g, p \<leftarrow> i_permissions db, p_id p = snd agp,
                  p_key p \<in> set keys \<and> not_expired now (agm_expires_at m)] @
     [u_id u. u \<leftarrow> i_users db, u_is_protected u \<and> u_is_active u] @
     [uag_user uag. uag \<leftarrow> i_user_groups db, g \<leftarrow> i_groups db, ag_id g = uag_group uag,
                    ag_all_permissions g \<and> not_expired now (uag_expires_at uag)] @
     [agm_user m. m \<leftarrow> i_memberships db, g \<leftarrow> i_groups db, ag_key g = agm_group m,
                  ag_all_permissions g \<and> not_expired now (agm_expires_at m)]"

definition ListActiveUserIDsByPermissionKeys :: "timestamp \<Rightarrow> identity \<Rightarrow> string list \<Rightarrow> id64 list" where
  "ListActiveUserIDsByPermissionKeys now db keys =
     (if keys = [] then []
      else select_distinct
        [u_id u. u \<leftarrow> i_users db, u_is_active u \<and> u_id u \<in> set (permission_key_holders now db keys)])"

definition GetEffectiveDBConnectionIDs :: "timestamp \<Rightarrow> identity \<Rightarrow> id64 \<Rightarrow> id64 list" where
  "GetEffectiveDBConnectionIDs now db u =
     (if HasAllPermissions now db u then sort [fst c. c \<leftarrow> i_connections db, \<not> snd c]
      else select_distinct
        ([snd udc. udc \<leftarrow> i_user_connections db, c \<leftarrow> i_connections db, fst c = snd udc \<and> \<not> snd c, fst udc = u] @
         [snd agdc. agdc \<leftarrow> i_group_connections db, c \<leftarrow> i_connections db, fst c = snd agdc \<and> \<not> snd c,
                    uag \<leftarrow> i_user_groups db, uag_group uag = fst agdc,
                    uag_user uag = u \<and> not_expired now (uag_expires_at uag)] @
         [snd agdc. agdc \<leftarrow> i_group_connections db, c \<leftarrow> i_connections db, fst c = snd agdc \<and> \<not> snd c,
                    g \<leftarrow> i_groups db, ag_id g = fst agdc, m \<leftarrow> i_memberships db, agm_group m = ag_key g,
                    agm_user m = u \<and> not_expired now (agm_expires_at m)]))"

definition ListUsersByAuthGroup :: "timestamp \<Rightarrow> identity \<Rightarrow> string \<Rightarrow> user list" where
  "ListUsersByAuthGroup now db grp =
     (let chosen =
        [uag_user uag. uag \<leftarrow> i_user_groups db, g \<leftarrow> i_groups db, ag_id g = uag_group uag,
                       ag_key g = grp \<and> not_expired now (uag_expires_at uag)] @
        [agm_user m. m \<leftarrow> i_memberships db, agm_group m = grp \<and> not_expired now (agm_expires_at m)]
      in sort_key u_username (filter (\<lambda>u. (u_id u) \<in> set chosen) (remdups (i_users db))))"

definition ListEffectiveUsersByDBConnection :: "timestamp \<Rightarrow> identity \<Rightarrow> id64 \<Rightarrow> (id64 \<times> string) list" where
  "ListEffectiveUsersByDBConnection now db conn =
     (let chosen =
        [fst udc. udc \<leftarrow> i_user_connections db, snd udc = conn] @
        [uag_user uag. agdc \<leftarrow> i_group_connections db, uag \<leftarrow> i_user_groups db, uag_group uag = fst agdc,
                       snd agdc = conn \<and> not_expired now (uag_expires_at uag)] @
        [agm_user m. agdc \<leftarrow> i_group_connections db, g \<leftarrow> i_groups db, ag_id g = fst agdc,
                     m \<leftarrow> i_memberships db, agm_group m = ag_key g,
                     snd agdc = conn \<and> not_expired now (agm_expires_at m)]
      in sort_key snd (remdups (map (\<lambda>u. (u_id u, u_username u))
           (filter (\<lambda>u. (u_id u) \<in> set chosen) (i_users db)))))"

section \<open>Updates\<close>

text \<open>\<open>uq_membership (user_id, auth_group)\<close> turns an insert of a present pair into an update.\<close>

definition AddMembership :: "id64 \<Rightarrow> string \<Rightarrow> timestamp option \<Rightarrow> identity \<Rightarrow> identity" where
  "AddMembership u grp expires db =
     (let same = (\<lambda>m. agm_user m = u \<and> agm_group m = grp)
      in if affected same (i_memberships db)
         then db\<lparr>i_memberships := update_where same (\<lambda>m. m\<lparr>agm_expires_at := expires\<rparr>) (i_memberships db)\<rparr>
         else db\<lparr>i_memberships := i_memberships db @ [\<lparr>agm_user = u, agm_group = grp, agm_expires_at = expires\<rparr>]\<rparr>)"

definition RemoveMembership :: "id64 \<Rightarrow> string \<Rightarrow> identity \<Rightarrow> identity" where
  "RemoveMembership u grp db = db\<lparr>
     i_memberships := delete_where (\<lambda>m. agm_user m = u \<and> agm_group m = grp) (i_memberships db),
     i_user_groups := delete_where (\<lambda>uag. uag_user uag = u \<and>
        list_ex (\<lambda>g. ag_id g = uag_group uag \<and> ag_key g = grp) (i_groups db)) (i_user_groups db)\<rparr>"

text \<open>The insert of a repeated group violates \<open>uq_membership\<close> and the transaction is rolled back.\<close>

definition ReplaceMemberships :: "id64 \<Rightarrow> string list \<Rightarrow> identity \<Rightarrow> bool \<times> identity" where
  "ReplaceMemberships u groups db =
     (if \<not> distinct groups then (False, db)
      else (True, db\<lparr>
        i_memberships := delete_where (\<lambda>m. agm_user m = u) (i_memberships db) @
          map (\<lambda>g. \<lparr>agm_user = u, agm_group = g, agm_expires_at = None\<rparr>) groups,
        i_user_groups := delete_where (\<lambda>uag. uag_user uag = u) (i_user_groups db)\<rparr>))"

definition AddDirectDBConnection :: "id64 \<Rightarrow> id64 \<Rightarrow> identity \<Rightarrow> identity" where
  "AddDirectDBConnection u c db =
     (if (u, c) \<in> set (i_user_connections db) then db
      else db\<lparr>i_user_connections := i_user_connections db @ [(u, c)]\<rparr>)"

definition RemoveDirectDBConnection :: "id64 \<Rightarrow> id64 \<Rightarrow> identity \<Rightarrow> identity" where
  "RemoveDirectDBConnection u c db =
     db\<lparr>i_user_connections := delete_where (\<lambda>r. r = (u, c)) (i_user_connections db)\<rparr>"

definition AddDirectPermission :: "id64 \<Rightarrow> string \<Rightarrow> identity \<Rightarrow> bool \<times> identity" where
  "AddDirectPermission u key db =
     (let new = [(u, p_id p). p \<leftarrow> i_permissions db, p_key p = key];
          fresh = filter (\<lambda>r. r \<notin> set (i_user_permissions db)) new
      in if fresh = [] \<and> \<not> list_ex (\<lambda>p. p_key p = key) (i_permissions db) then (False, db)
         else (True, db\<lparr>i_user_permissions := i_user_permissions db @ fresh\<rparr>))"

definition RemoveDirectPermission :: "id64 \<Rightarrow> string \<Rightarrow> identity \<Rightarrow> identity" where
  "RemoveDirectPermission u key db =
     db\<lparr>i_user_permissions := delete_where (\<lambda>r. fst r = u \<and>
        list_ex (\<lambda>p. p_id p = snd r \<and> p_key p = key) (i_permissions db)) (i_user_permissions db)\<rparr>"

section \<open>Membership of a group\<close>

definition member_by_id :: "timestamp \<Rightarrow> identity \<Rightarrow> id64 \<Rightarrow> id64 \<Rightarrow> bool" where
  "member_by_id now db u g = list_ex (\<lambda>uag. uag_user uag = u \<and> uag_group uag = g \<and>
     not_expired now (uag_expires_at uag)) (i_user_groups db)"

definition member_by_key :: "timestamp \<Rightarrow> identity \<Rightarrow> id64 \<Rightarrow> string \<Rightarrow> bool" where
  "member_by_key now db u k = list_ex (\<lambda>m. agm_user m = u \<and> agm_group m = k \<and>
     not_expired now (agm_expires_at m)) (i_memberships db)"

lemmas member_defs = member_by_id_def member_by_key_def list_ex_iff

lemma GetAuthGroups_iff:
  "k \<in> set (GetAuthGroups now db u) \<longleftrightarrow>
     (\<exists>g \<in> set (i_groups db). ag_key g = k \<and> member_by_id now db u (ag_id g)) \<or> member_by_key now db u k"
  unfolding GetAuthGroups_def member_defs in_query by fastforce

lemma GetByID_Some_iff:
  "distinct (map u_id (i_users db)) \<Longrightarrow> GetByID db u = Some r \<longleftrightarrow> r \<in> set (i_users db) \<and> u_id r = u"
  unfolding GetByID_def by (rule find_key_Some_iff)

lemma HasAllPermissions_iff:
  "HasAllPermissions now db u \<longleftrightarrow> (\<exists>r. GetByID db u = Some r \<and> u_is_protected r) \<or>
     (\<exists>g \<in> set (i_groups db). ag_all_permissions g \<and>
        (member_by_id now db u (ag_id g) \<or> member_by_key now db u (ag_key g)))"
  by (auto simp: HasAllPermissions_def member_defs split: option.splits)

text \<open>The permission \<open>p\<close> reaches the user directly or through a group.\<close>

definition granted_permission :: "timestamp \<Rightarrow> identity \<Rightarrow> id64 \<Rightarrow> id64 \<Rightarrow> bool" where
  "granted_permission now db u p \<longleftrightarrow> (u, p) \<in> set (i_user_permissions db) \<or>
     (\<exists>g. (g, p) \<in> set (i_group_permissions db) \<and> (member_by_id now db u g \<or>
        (\<exists>ag \<in> set (i_groups db). ag_id ag = g \<and> member_by_key now db u (ag_key ag))))"

lemma GetEffectivePermissionKeys_iff:
  "k \<in> set (GetEffectivePermissionKeys now db u) \<longleftrightarrow>
     (\<exists>p \<in> set (i_permissions db). p_key p = k \<and>
        (HasAllPermissions now db u \<or> granted_permission now db u (p_id p)))"
proof (cases "HasAllPermissions now db u")
  case True
  then show ?thesis by (auto simp: GetEffectivePermissionKeys_def)
next
  case False
  let ?P = "\<lambda>s. \<exists>p \<in> set (i_permissions db). p_key p = k \<and> s (p_id p)"
  have direct: "(\<exists>p \<in> set (i_permissions db). \<exists>up \<in> set (i_user_permissions db). snd up = p_id p \<and> fst up = u \<and> k = p_key p)
      \<longleftrightarrow> ?P (\<lambda>p. (u, p) \<in> set (i_user_permissions db))" by force
  have by_id: "(\<exists>p \<in> set (i_permissions db). \<exists>agp \<in> set (i_group_permissions db). snd agp = p_id p \<and>
        (\<exists>uag \<in> set (i_user_groups db). uag_group uag = fst agp \<and>
           (uag_user uag = u \<and> not_expired now (uag_expires_at uag)) \<and> k = p_key p))
      \<longleftrightarrow> ?P (\<lambda>p. \<exists>g. (g, p) \<in> set (i_group_permissions db) \<and> member_by_id now db u g)"
    unfolding member_defs by (intro iffI; clarsimp; force)
  have by_key: "(\<exists>p \<in> set (i_permissions db). \<exists>agp \<in> set (i_group_permissions db). snd agp = p_id p \<and>
        (\<exists>g \<in> set (i_groups db). ag_id g = fst agp \<and> (\<exists>m \<in> set (i_memberships db). agm_group m = ag_key g \<and>
           (agm_user m = u \<and> not_expired now (agm_expires_at m)) \<and> k = p_key p)))
      \<longleftrightarrow> ?P (\<lambda>p. \<exists>g. (g, p) \<in> set (i_group_permissions db) \<and>
            (\<exists>ag \<in> set (i_groups db). ag_id ag = g \<and> member_by_key now db u (ag_key ag)))"
    unfolding member_defs by (intro iffI; clarsimp; force)
  have "k \<in> set (GetEffectivePermissionKeys now db u) \<longleftrightarrow> ?P (granted_permission now db u)"
    unfolding GetEffectivePermissionKeys_def granted_permission_def if_not_P [OF False] in_query direct by_id by_key
    by blast
  with False show ?thesis by blast
qed

lemma permission_key_holders_iff:
  "u \<in> set (permission_key_holders now db keys) \<longleftrightarrow>
     (\<exists>p \<in> set (i_permissions db). p_key p \<in> set keys \<and> granted_permission now db u (p_id p)) \<or>
     (\<exists>r \<in> set (i_users db). u_id r = u \<and> u_is_active r \<and> u_is_protected r) \<or>
     (\<exists>g \<in> set (i_groups db). ag_all_permissions g \<and>
        (member_by_id now db u (ag_id g) \<or> member_by_key now db u (ag_key g)))"
proof -
  let ?P = "\<lambda>s. \<exists>p \<in> set (i_permissions db). p_key p \<in> set keys \<and> s (p_id p)"
  have direct: "(\<exists>up \<in> set (i_user_permissions db). \<exists>p \<in> set (i_permissions db). p_id p = snd up \<and> p_key p \<in> set keys \<and> u = fst up)
      \<longleftrightarrow> ?P (\<lambda>p. (u, p) \<in> set (i_user_permissions db))" by force
  have by_id: "(\<exists>uag \<in> set (i_user_groups db). \<exists>agp \<in> set (i_group_permissions db). fst agp = uag_group uag \<and>
        (\<exists>p \<in> set (i_permissions db). p_id p = snd agp \<and>
           (p_key p \<in> set keys \<and> not_expired now (uag_expires_at uag)) \<and> u = uag_user uag))
      \<longleftrightarrow> ?P (\<lambda>p. \<exists>g. (g, p) \<in> set (i_group_permissions db) \<and> member_by_id now db u g)"
    unfolding member_defs by (intro iffI; clarsimp; force)
  have by_key: "(\<exists>m \<in> set (i_memberships db). \<exists>g \<in> set (i_groups db). ag_key g = agm_group m \<and>
        (\<exists>agp \<in> set (i_group_permissions db). fst agp = ag_id g \<and> (\<exists>p \<in> set (i_permissions db). p_id p = snd agp \<and>
           (p_key p \<in> set keys \<and> not_expired now (agm_expires_at m)) \<and> u = agm_user m)))
      \<longleftrightarrow> ?P (\<lambda>p. \<exists>g. (g, p) \<in> set (i_group_permissions db) \<and>
            (\<exists>ag \<in> set (i_groups db). ag_id ag = g \<and> member_by_key now db u (ag_key ag)))"
    unfolding member_defs by (intro iffI; clarsimp; force)
  have all_id: "(\<exists>uag \<in> set (i_user_groups db). \<exists>g \<in> set (i_groups db). ag_id g = uag_group uag \<and>
        (ag_all_permissions g \<and> not_expired now (uag_expires_at uag)) \<and> u = uag_user uag)
      \<longleftrightarrow> (\<exists>g \<in> set (i_groups db). ag_all_permissions g \<and> member_by_id now db u (ag_id g))"
    unfolding member_defs by metis
  have all_key: "(\<exists>m \<in> set (i_memberships db). \<exists>g \<in> set (i_groups db). ag_key g = agm_group m \<and>
        (ag_all_permissions g \<and> not_expired now (agm_expires_at m)) \<and> u = agm_user m)
      \<longleftrightarrow> (\<exists>g \<in> set (i_groups db). ag_all_permissions g \<and> member_by_key now db u (ag_key g))"
    unfolding member_defs by metis
  have prot: "(\<exists>r \<in> set (i_users db). (u_is_protected r \<and> u_is_active r) \<and> u = u_id r)
      \<longleftrightarrow> (\<exists>r \<in> set (i_users db). u_id r = u \<and> u_is_active r \<and> u_is_protected r)" by blast
  show ?thesis
    unfolding permission_key_holders_def granted_permission_def in_query direct by_id by_key all_id all_key prot
    by blast
qed

lemma ListActive_iff:
  "u \<in> set (ListActiveUserIDsByPermissionKeys now db keys) \<longleftrightarrow> keys \<noteq> [] \<and>
     (\<exists>r \<in> set (i_users db). u_id r = u \<and> u_is_active r) \<and> u \<in> set (permission_key_holders now db keys)"
  by (auto simp: ListActiveUserIDsByPermissionKeys_def)

text \<open>
  C20: the users that \<open>ListActiveUserIDsByPermissionKeys\<close> returns for a workflow step are exactly
  the active users for whom the login query \<open>GetEffectivePermissionKeys\<close> yields one of the keys,
  or who hold all permissions: the two independent SQL queries agree.
\<close>

theorem permission_queries_agree:
  assumes "distinct (map u_id (i_users db))" and "keys \<noteq> []"
  shows "u \<in> set (ListActiveUserIDsByPermissionKeys now db keys) \<longleftrightarrow>
     (\<exists>r. GetByID db u = Some r \<and> u_is_active r) \<and>
     (HasAllPermissions now db u \<or> (\<exists>k \<in> set keys. k \<in> set (GetEffectivePermissionKeys now db u)))"
proof -
  have user: "(\<exists>r \<in> set (i_users db). u_id r = u \<and> P r) \<longleftrightarrow> (\<exists>r. GetByID db u = Some r \<and> P r)" for P
    using GetByID_Some_iff [OF assms(1)] by auto
  show ?thesis
    unfolding ListActive_iff permission_key_holders_iff GetEffectivePermissionKeys_iff user
    unfolding HasAllPermissions_iff using assms(2) by fastforce
qed

section \<open>Connections\<close>

text \<open>The connection \<open>c\<close> reaches the user directly or through a group, ignoring deletion.\<close>

definition granted_connection :: "timestamp \<Rightarrow> identity \<Rightarrow> id64 \<Rightarrow> id64 \<Rightarrow> bool" where
  "granted_connection now db u c \<longleftrightarrow> (u, c) \<in> set (i_user_connections db) \<or>
     (\<exists>g. (g, c) \<in> set (i_group_connections db) \<and> (member_by_id now db u g \<or>
        (\<exists>ag \<in> set (i_groups db). ag_id ag = g \<and> member_by_key now db u (ag_key ag))))"

lemma GetEffectiveDBConnectionIDs_iff:
  "c \<in> set (GetEffectiveDBConnectionIDs now db u) \<longleftrightarrow>
     (c, False) \<in> set (i_connections db) \<and> (HasAllPermissions now db u \<or> granted_connection now db u c)"
proof (cases "HasAllPermissions now db u")
  case True
  then show ?thesis by (force simp: GetEffectiveDBConnectionIDs_def)
next
  case False
  let ?L = "(c, False) \<in> set (i_connections db)"
  have direct: "(\<exists>r \<in> set (i_user_connections db). \<exists>x \<in> set (i_connections db). (fst x = snd r \<and> \<not> snd x) \<and> fst r = u \<and> c = snd r)
      \<longleftrightarrow> ?L \<and> (u, c) \<in> set (i_user_connections db)" by (intro iffI; clarsimp; force)
  have by_id: "(\<exists>r \<in> set (i_group_connections db). \<exists>x \<in> set (i_connections db). (fst x = snd r \<and> \<not> snd x) \<and>
        (\<exists>uag \<in> set (i_user_groups db). uag_group uag = fst r \<and>
           (uag_user uag = u \<and> not_expired now (uag_expires_at uag)) \<and> c = snd r))
      \<longleftrightarrow> ?L \<and> (\<exists>g. (g, c) \<in> set (i_group_connections db) \<and> member_by_id now db u g)"
    unfolding member_defs by (intro iffI; clarsimp; force)
  have by_key: "(\<exists>r \<in> set (i_group_connections db). \<exists>x \<in> set (i_connections db). (fst x = snd r \<and> \<not> snd x) \<and>
        (\<exists>g \<in> set (i_groups db). ag_id g = fst r \<and> (\<exists>m \<in> set (i_memberships db). agm_group m = ag_key g \<and>
           (agm_user m = u \<and> not_expired now (agm_expires_at m)) \<and> c = snd r)))
      \<longleftrightarrow> ?L \<and> (\<exists>g. (g, c) \<in> set (i_group_connections db) \<and>
            (\<exists>ag \<in> set (i_groups db). ag_id ag = g \<and> member_by_key now db u (ag_key ag)))"
    unfolding member_defs by (intro iffI; clarsimp; force)
  have "c \<in> set (GetEffectiveDBConnectionIDs now db u) \<longleftrightarrow> ?L \<and> granted_connection now db u c"
    unfolding GetEffectiveDBConnectionIDs_def granted_connection_def if_not_P [OF False] in_query direct by_id by_key
    by blast
  with False show ?thesis by blast
qed

lemma ListEffectiveUsers_iff:
  "(u, name) \<in> set (ListEffectiveUsersByDBConnection now db c) \<longleftrightarrow>
     (\<exists>r \<in> set (i_users db). u_id r = u \<and> u_username r = name) \<and> granted_connection now db u c"
proof -
  have direct: "(\<exists>r \<in> set (i_user_connections db). snd r = c \<and> u = fst r) \<longleftrightarrow> (u, c) \<in> set (i_user_connections db)"
    by force
  have by_id: "(\<exists>r \<in> set (i_group_connections db). \<exists>uag \<in> set (i_user_groups db). uag_group uag = fst r \<and>
        (snd r = c \<and> not_expired now (uag_expires_at uag)) \<and> u = uag_user uag)
      \<longleftrightarrow> (\<exists>g. (g, c) \<in> set (i_group_connections db) \<and> member_by_id now db u g)"
    unfolding member_defs by (intro iffI; clarsimp; force)
  have by_key: "(\<exists>r \<in> set (i_group_connections db). \<exists>g \<in> set (i_groups db). ag_id g = fst r \<and>
        (\<exists>m \<in> set (i_memberships db). agm_group m = ag_key g \<and>
           (snd r = c \<and> not_expired now (agm_expires_at m)) \<and> u = agm_user m))
      \<longleftrightarrow> (\<exists>g. (g, c) \<in> set (i_group_connections db) \<and>
            (\<exists>ag \<in> set (i_groups db). ag_id ag = g \<and> member_by_key now db u (ag_key ag)))"
    unfolding member_defs by (intro iffI; clarsimp; force)
  have names: "(u, name) \<in> set (sort_key snd (remdups (map (\<lambda>u. (u_id u, u_username u)) (filter (\<lambda>u. u_id u \<in> X) rows))))
      \<longleftrightarrow> (\<exists>r \<in> set rows. u_id r = u \<and> u_username r = name) \<and> u \<in> X" for X rows
    by auto
  show ?thesis
    unfolding ListEffectiveUsersByDBConnection_def Let_def names
    unfolding in_query direct by_id by_key granted_connection_def by blast
qed

section \<open>Grants and revocations\<close>

lemma member_by_key_AddMembership:
  "member_by_key now (AddMembership u g None db) v k \<longleftrightarrow> (v, k) = (u, g) \<or> member_by_key now db v k"
proof (cases "affected (\<lambda>m. agm_user m = u \<and> agm_group m = g) (i_memberships db)")
  case True
  then have "member_by_key now (AddMembership u g None db) v k \<longleftrightarrow>
      (\<exists>m \<in> set (i_memberships db). if agm_user m = u \<and> agm_group m = g then v = u \<and> k = g
         else agm_user m = v \<and> agm_group m = k \<and> not_expired now (agm_expires_at m))"
    by (auto simp: AddMembership_def member_defs Let_def bex_update_where not_expired_def cong: if_cong)
  also have "\<dots> \<longleftrightarrow> (v, k) = (u, g) \<or> member_by_key now db v k"
    using True by (cases "v = u \<and> k = g") (auto simp: member_defs affected_iff)
  finally show ?thesis .
next
  case False
  then show ?thesis by (auto simp: AddMembership_def member_defs Let_def not_expired_def)
qed

lemma member_by_id_AddMembership [simp]:
  "member_by_id now (AddMembership u g e db) v k = member_by_id now db v k"
  "i_groups (AddMembership u g e db) = i_groups db"
  by (simp_all add: AddMembership_def member_by_id_def Let_def)

text \<open>The keys of the tables: \<open>auth_groups.id\<close> and \<open>users.id\<close> are primary keys.\<close>

definition identity_keys :: "identity \<Rightarrow> bool" where
  "identity_keys db = (distinct (map ag_id (i_groups db)) \<and> distinct (map u_id (i_users db)))"

lemma member_by_id_RemoveMembership:
  assumes "identity_keys db" and "g \<in> set (i_groups db)"
  shows "member_by_id now (RemoveMembership u k db) v (ag_id g) \<longleftrightarrow>
    \<not> (v = u \<and> ag_key g = k) \<and> member_by_id now db v (ag_id g)"
proof -
  have "(\<exists>h \<in> set (i_groups db). ag_id h = ag_id g \<and> ag_key h = k) \<longleftrightarrow> ag_key g = k"
    using assms by (auto simp: identity_keys_def distinct_map inj_on_def)
  then have "(uag_user x = u \<and> uag_group x = ag_id g \<longrightarrow>
      \<not> (\<exists>h \<in> set (i_groups db). ag_id h = uag_group x \<and> ag_key h = k)) \<longleftrightarrow>
      (uag_user x = u \<and> uag_group x = ag_id g \<longrightarrow> ag_key g \<noteq> k)" for x
    by auto
  then show ?thesis by (simp add: RemoveMembership_def member_defs) blast
qed

lemma member_by_key_RemoveMembership:
  "member_by_key now (RemoveMembership u k db) v j \<longleftrightarrow> \<not> (v = u \<and> j = k) \<and> member_by_key now db v j"
  by (auto simp: RemoveMembership_def member_defs)

interpretation group_membership: grant_registry
    "\<lambda>(u, g). AddMembership u g None" "\<lambda>(u, g). RemoveMembership u g"
    "\<lambda>db (u, g). g \<in> set (GetAuthGroups now db u)" identity_keys for now
proof (unfold_locales, goal_cases)
  case (1 s k j)
  then show ?case by (cases j; cases k) (auto simp: GetAuthGroups_iff member_by_key_AddMembership)
next
  case (2 s k j)
  obtain u g v h where "k = (u, g)" "j = (v, h)" by (cases k; cases j) auto
  moreover have "i_groups (RemoveMembership u g s) = i_groups s" by (simp add: RemoveMembership_def)
  ultimately show ?case using 2
    by (auto simp: GetAuthGroups_iff member_by_id_RemoveMembership member_by_key_RemoveMembership)
next
  case (3 s k)
  then show ?case by (auto simp: identity_keys_def AddMembership_def Let_def split: prod.split)
next
  case (4 s k)
  then show ?case by (auto simp: identity_keys_def RemoveMembership_def split: prod.split)
qed

interpretation direct_connection: grant_registry
    "\<lambda>(u, c). AddDirectDBConnection u c" "\<lambda>(u, c). RemoveDirectDBConnection u c"
    "\<lambda>db k. k \<in> set (i_user_connections db)" "\<lambda>_. True"
proof (unfold_locales, goal_cases)
  case (1 s k j)
  then show ?case by (cases k) (auto simp: AddDirectDBConnection_def)
next
  case (2 s k j)
  then show ?case by (cases k) (auto simp: RemoveDirectDBConnection_def)
qed simp_all

text \<open>
  After any sequence of \<open>AddMembership\<close> (without expiry) and \<open>RemoveMembership\<close> calls, a user is
  in a group exactly when the last call on that user and group added it; without such a call,
  when the user was in it before. Removal also covers the second membership table.
\<close>

theorem membership_last_event_decides:
  assumes "identity_keys db"
  shows "g \<in> set (GetAuthGroups now
      (run_events (\<lambda>(u, g). AddMembership u g None) (\<lambda>(u, g). RemoveMembership u g) es db) u) =
    (case last_event (u, g) es of None \<Rightarrow> g \<in> set (GetAuthGroups now db u) | Some b \<Rightarrow> b)"
  using group_membership.last_event_decides [OF assms, of now es "(u, g)"] by (auto split: option.splits)

text \<open>
  For a connection that is not deleted, a user without all permissions may use it
  (\<open>GetEffectiveDBConnectionIDs\<close>) exactly when the connection's user list
  (\<open>ListEffectiveUsersByDBConnection\<close>) names the user.
\<close>

theorem connection_queries_agree:
  assumes "GetByID db u = Some r" and "(c, False) \<in> set (i_connections db)"
    and "\<not> HasAllPermissions now db u"
  shows "c \<in> set (GetEffectiveDBConnectionIDs now db u) \<longleftrightarrow>
     (\<exists>name. (u, name) \<in> set (ListEffectiveUsersByDBConnection now db c))"
proof -
  have "r \<in> set (i_users db) \<and> u_id r = u"
    using assms(1) by (auto simp: GetByID_def find_Some_iff)
  with assms show ?thesis
    unfolding GetEffectiveDBConnectionIDs_iff ListEffectiveUsers_iff by blast
qed

section \<open>A sample database\<close>

definition sample_identity :: identity where
  "sample_identity = \<lparr>
     i_users = [\<lparr>u_id = 1, u_username = ''root'', u_is_active = True, u_is_protected = True\<rparr>,
                \<lparr>u_id = 2, u_username = ''ann'', u_is_active = True, u_is_protected = False\<rparr>,
                \<lparr>u_id = 3, u_username = ''bob'', u_is_active = False, u_is_protected = False\<rparr>],
     i_groups = [\<lparr>ag_id = 1, ag_key = ''admin'', ag_all_permissions = True, ag_name = ''Admin'',
                  ag_description = [], ag_is_system = True, ag_is_protected = True\<rparr>,
                 \<lparr>ag_id = 2, ag_key = ''dba'', ag_all_permissions = False, ag_name = ''DBA'',
                  ag_description = [], ag_is_system = True, ag_is_protected = False\<rparr>],
     i_permissions = [\<lparr>p_id = 1, p_key = ''tickets.review''\<rparr>, \<lparr>p_id = 2, p_key = ''tickets.execute''\<rparr>],
     i_user_groups = [\<lparr>uag_user = 2, uag_group = 2, uag_expires_at = Some 100\<rparr>],
     i_memberships = [\<lparr>agm_user = 3, agm_group = ''dba'', agm_expires_at = None\<rparr>],
     i_user_permissions = [], i_group_permissions = [(2, 2)],
     i_connections = [(7, False), (8, True)], i_user_connections = [(2, 8)], i_group_connections = [(2, 7)],
     i_next_group = 3\<rparr>"

theorem permission_queries_agree_witness:
  "2 \<in> set (ListActiveUserIDsByPermissionKeys 50 sample_identity [''tickets.execute'']) \<and>
   ''tickets.execute'' \<in> set (GetEffectivePermissionKeys 50 sample_identity 2) \<and>
   2 \<notin> set (ListActiveUserIDsByPermissionKeys 100 sample_identity [''tickets.execute''])"
proof -
  have "distinct (map u_id (i_users sample_identity))" by code_simp
  note agree = permission_queries_agree [OF this, of "[''tickets.execute'']"]
  have "GetByID sample_identity 2 = Some \<lparr>u_id = 2, u_username = ''ann'', u_is_active = True, u_is_protected = False\<rparr>"
    by code_simp
  moreover have "''tickets.execute'' \<in> set (GetEffectivePermissionKeys 50 sample_identity 2)" by code_simp
  moreover have "\<not> HasAllPermissions 100 sample_identity 2" "GetEffectivePermissionKeys 100 sample_identity 2 = []"
    by code_simp+
  ultimately show ?thesis using agree by auto
qed

theorem membership_last_event_decides_witness:
  "''dba'' \<notin> set (GetAuthGroups 50 (run_events (\<lambda>(u, g). AddMembership u g None) (\<lambda>(u, g). RemoveMembership u g)
      [Grant (2, ''dba''), Revoke (2, ''dba''), Grant (2, ''admin'')] sample_identity) 2)"
proof -
  have "identity_keys sample_identity" by code_simp
  from membership_last_event_decides [OF this, of "''dba''" 50 "[Grant (2, ''dba''), Revoke (2, ''dba''), Grant (2, ''admin'')]" 2]
  show ?thesis by simp
qed

theorem connection_queries_agree_witness:
  "7 \<in> set (GetEffectiveDBConnectionIDs 50 sample_identity 2) \<and>
   (\<exists>name. (2, name) \<in> set (ListEffectiveUsersByDBConnection 50 sample_identity 7))"
proof -
  have "GetByID sample_identity 2 = Some \<lparr>u_id = 2, u_username = ''ann'', u_is_active = True, u_is_protected = False\<rparr>"
    and "(7, False) \<in> set (i_connections sample_identity)" and "\<not> HasAllPermissions 50 sample_identity 2"
    by code_simp+
  from connection_queries_agree [OF this] have
    "7 \<in> set (GetEffectiveDBConnectionIDs 50 sample_identity 2) \<longleftrightarrow>
     (\<exists>name. (2, name) \<in> set (ListEffectiveUsersByDBConnection 50 sample_identity 7))" .
  moreover have "7 \<in> set (GetEffectiveDBConnectionIDs 50 sample_identity 2)" by code_simp
  ultimately show ?thesis by simp
qed

end
