(* ===== verification/Workflow.thy ===== *)
theory Workflow
  imports Identity "HOL-Library.Monad_Syntax"
begin

text \<open>
  Workflow rules and their resolution to approvers and executors
  (\<open>internal/handler/workflow_resolution.go\<close>, \<open>SettingsRepo.MatchWorkflowRule\<close> of
  \<open>internal/repository/settings.go\<close>, \<open>internal/handler/permission_helpers.go\<close>).
  A function that returns an \<open>error\<close> in the code returns \<open>None\<close> here; which of the database
  reads fail is part of the environment.
\<close>

section \<open>Data\<close>

record workflow_rule =
  wr_id :: id64
  wr_name :: string
  wr_ticket_type :: ticket_type
  wr_db_connection_id :: "id64 option"
  wr_export_sensitivity :: "string option"
  wr_approval_enabled :: bool
  wr_execution_mode :: string
  wr_approval_groups :: "string list"
  wr_executor_groups :: "string list"
  wr_priority :: int
  wr_enabled :: bool

record excluded_user =
  xu_user_id :: id64
  xu_reason :: string
  xu_username :: string

record workflow_resolution =
  r_rule_id :: "id64 option"
  r_rule_name :: string
  r_ticket_type :: ticket_type
  r_db_connection_id :: "id64 option"
  r_export_sensitivity :: "string option"
  r_approval_enabled :: bool
  r_execution_mode :: string
  r_approval_users :: "id64 list"
  r_executor_users :: "id64 list"
  r_admin_users :: "id64 list"
  r_missing_approval_groups :: "string list"
  r_missing_executor_groups :: "string list"
  r_excluded_approval :: "excluded_user list"
  r_excluded_executor :: "excluded_user list"
  r_error_code :: string
  r_error_message :: string

record workflow_snapshot =
  sn_ticket_id :: id64
  sn_rule_id :: "id64 option"
  sn_rule_name :: string
  sn_approval_enabled :: bool
  sn_execution_mode :: string
  sn_approval_users :: "id64 list"
  sn_executor_users :: "id64 list"
  sn_admin_users :: "id64 list"
  sn_error_code :: string
  sn_error_message :: string
  sn_resolved_at :: timestamp
  sn_created_at :: timestamp
  sn_updated_at :: timestamp

datatype bypass_kind = MultiStep | SelfReview | SelfExecute

datatype workflow_query =
    QueryRules | QueryHolders "string list" | QueryGroup string | QueryUserGroups id64 | QueryBypass bypass_kind
  | QueryAllPermissions id64 | QuerySnapshot id64

record workflow_env =
  w_configured :: bool
  w_now :: timestamp
  w_identity :: identity
  w_rules :: "workflow_rule list"
  w_bypass :: "bypass_kind \<Rightarrow> id64 list \<times> string list"
  w_fails :: "workflow_query \<Rightarrow> bool"

definition read_db :: "workflow_env \<Rightarrow> workflow_query \<Rightarrow> 'a \<Rightarrow> 'a option" where
  "read_db env q x = (if w_fails env q then None else Some x)"

definition err_no_matching_rule :: string where "err_no_matching_rule = ''no_matching_rule''"
definition err_no_approvers :: string where "err_no_approvers = ''no_effective_approval_users''"
definition err_no_executors :: string where "err_no_executors = ''no_effective_executor_users''"
definition err_invalid_rule :: string where "err_invalid_rule = ''invalid_rule''"
definition mode_manual :: string where "mode_manual = ''manual''"
definition mode_auto :: string where "mode_auto = ''auto_after_approval''"

lemmas workflow_consts = err_no_matching_rule_def err_no_approvers_def err_no_executors_def
  err_invalid_rule_def mode_manual_def mode_auto_def

text \<open>The verb \<open>%q\<close> for text without characters that need an escape.\<close>

definition go_quote :: "string \<Rightarrow> string" where
  "go_quote s = CHR 0x22 # s @ [CHR 0x22]"

definition isExecutableTicketType :: "ticket_type \<Rightarrow> bool" where
  "isExecutableTicketType tt = (tt = DDL \<or> tt = DML \<or> tt = RedisCommand)"

section \<open>Matching a rule\<close>

definition rule_applies :: "ticket_type \<Rightarrow> id64 option \<Rightarrow> string option \<Rightarrow> workflow_rule \<Rightarrow> bool" where
  "rule_applies tt conn sens rule =
     (wr_enabled rule \<and> wr_ticket_type rule = tt \<and>
      (case wr_db_connection_id rule of None \<Rightarrow> True | Some c \<Rightarrow> conn = Some c) \<and>
      (case wr_export_sensitivity rule of None \<Rightarrow> True | Some e \<Rightarrow> sens = Some e))"

definition rule_score :: "workflow_rule \<Rightarrow> int" where
  "rule_score rule = (if wr_db_connection_id rule \<noteq> None then 2 else 0) +
                     (if wr_export_sensitivity rule \<noteq> None then 1 else 0)"

definition rule_beats :: "workflow_rule \<Rightarrow> workflow_rule \<Rightarrow> bool" where
  "rule_beats rule best =
     (rule_score rule > rule_score best \<or>
      (rule_score rule = rule_score best \<and>
        (wr_priority rule < wr_priority best \<or>
          (wr_priority rule = wr_priority best \<and> wr_id rule < wr_id best))))"

fun match_loop :: "ticket_type \<Rightarrow> id64 option \<Rightarrow> string option \<Rightarrow> workflow_rule option \<Rightarrow> workflow_rule list
    \<Rightarrow> workflow_rule option" where
  "match_loop tt conn sens best [] = best"
| "match_loop tt conn sens best (rule # rules) =
     (if \<not> rule_applies tt conn sens rule then match_loop tt conn sens best rules
      else if (case best of None \<Rightarrow> True | Some b \<Rightarrow> rule_beats rule b)
      then match_loop tt conn sens (Some rule) rules
      else match_loop tt conn sens best rules)"

definition MatchWorkflowRule :: "workflow_env \<Rightarrow> ticket_type \<Rightarrow> id64 option \<Rightarrow> string option
    \<Rightarrow> workflow_rule option option" where
  "MatchWorkflowRule env tt conn sens = do {
     rules \<leftarrow> read_db env QueryRules (w_rules env);
     Some (match_loop tt conn sens None rules)
   }"

section \<open>Resolving users\<close>

definition reviewPermissionsForTicket :: "ticket_type \<Rightarrow> string list" where
  "reviewPermissionsForTicket tt = (case tt of
     SQLExport \<Rightarrow> [''sql_editor.export_review'']
   | SensitiveQueryAccess \<Rightarrow> [''sql_editor.sensitive_review'']
   | _ \<Rightarrow> [''tickets.review''])"

definition normalizeWorkflowExecutionMode :: "string \<Rightarrow> string" where
  "normalizeWorkflowExecutionMode mode = (if mode = mode_auto then mode_auto else mode_manual)"

record user_choice =
  c_seen :: "id64 list"
  c_users :: "id64 list"
  c_missing :: "string list"
  c_excluded :: "excluded_user list"

fun choose_users :: "id64 list \<Rightarrow> user list \<Rightarrow> user_choice \<Rightarrow> user_choice" where
  "choose_users allowed [] c = c"
| "choose_users allowed (u # us) c =
     (if u_id u \<in> set (c_seen c) then choose_users allowed us c
      else let c' = c\<lparr>c_seen := u_id u # c_seen c\<rparr> in
        if \<not> u_is_active u then choose_users allowed us
          (c'\<lparr>c_excluded := c_excluded c' @ [\<lparr>xu_user_id = u_id u, xu_reason = ''inactive'', xu_username = u_username u\<rparr>]\<rparr>)
        else if u_id u \<notin> set allowed then choose_users allowed us
          (c'\<lparr>c_excluded := c_excluded c' @ [\<lparr>xu_user_id = u_id u, xu_reason = ''missing_permission'', xu_username = u_username u\<rparr>]\<rparr>)
        else choose_users allowed us (c'\<lparr>c_users := c_users c' @ [u_id u]\<rparr>))"

fun choose_groups :: "workflow_env \<Rightarrow> id64 list \<Rightarrow> string list \<Rightarrow> user_choice \<Rightarrow> user_choice option" where
  "choose_groups env allowed [] c = Some c"
| "choose_groups env allowed (g # gs) c = do {
     us \<leftarrow> read_db env (QueryGroup g) (ListUsersByAuthGroup (w_now env) (w_identity env) g);
     if us = [] then choose_groups env allowed gs (c\<lparr>c_missing := c_missing c @ [g]\<rparr>)
     else choose_groups env allowed gs (choose_users allowed us c)
   }"

definition resolveWorkflowUsers :: "workflow_env \<Rightarrow> string list \<Rightarrow> string list \<Rightarrow> user_choice option" where
  "resolveWorkflowUsers env groups required = do {
     allowed \<leftarrow> read_db env (QueryHolders required)
       (ListActiveUserIDsByPermissionKeys (w_now env) (w_identity env) required);
     choose_groups env allowed groups \<lparr>c_seen = [], c_users = [], c_missing = [], c_excluded = []\<rparr>
   }"

definition workflowAdminUserIDs :: "workflow_env \<Rightarrow> id64 list option" where
  "workflowAdminUserIDs env =
     (if \<not> w_configured env then Some []
      else do {
        admins \<leftarrow> read_db env (QueryGroup AuthGroupAdmin)
          (ListUsersByAuthGroup (w_now env) (w_identity env) AuthGroupAdmin);
        Some (map u_id (filter u_is_active admins))
      })"

definition with_error :: "workflow_env \<Rightarrow> string \<Rightarrow> string \<Rightarrow> workflow_resolution \<Rightarrow> workflow_resolution option" where
  "with_error env code message r = do {
     admins \<leftarrow> workflowAdminUserIDs env;
     Some (r\<lparr>r_admin_users := admins, r_error_code := code, r_error_message := message\<rparr>)
   }"

definition empty_resolution :: "ticket_type \<Rightarrow> id64 option \<Rightarrow> string option \<Rightarrow> workflow_resolution" where
  "empty_resolution tt conn sens =
     \<lparr>r_rule_id = None, r_rule_name = [], r_ticket_type = tt, r_db_connection_id = conn,
      r_export_sensitivity = sens, r_approval_enabled = True, r_execution_mode = mode_manual,
      r_approval_users = [], r_executor_users = [], r_admin_users = [],
      r_missing_approval_groups = [], r_missing_executor_groups = [], r_excluded_approval = [],
      r_excluded_executor = [], r_error_code = [], r_error_message = []\<rparr>"

definition staff_rule :: "workflow_env \<Rightarrow> ticket_type \<Rightarrow> workflow_rule \<Rightarrow> workflow_resolution
    \<Rightarrow> workflow_resolution option" where
  "staff_rule env tt rule r = do {
     approvers \<leftarrow> resolveWorkflowUsers env (wr_approval_groups rule) (reviewPermissionsForTicket tt);
     let r = r\<lparr>r_rule_id := Some (wr_id rule), r_rule_name := wr_name rule,
               r_approval_enabled := wr_approval_enabled rule,
               r_execution_mode := normalizeWorkflowExecutionMode (wr_execution_mode rule),
               r_approval_users := c_users approvers, r_missing_approval_groups := c_missing approvers,
               r_excluded_approval := c_excluded approvers\<rparr>;
     if r_execution_mode r = mode_auto then Some r
     else do {
       executors \<leftarrow> resolveWorkflowUsers env (wr_executor_groups rule) [''tickets.execute''];
       Some (r\<lparr>r_executor_users := c_users executors, r_missing_executor_groups := c_missing executors,
               r_excluded_executor := c_excluded executors\<rparr>)
     }
   }"

definition check_staffed :: "workflow_env \<Rightarrow> ticket_type \<Rightarrow> workflow_rule \<Rightarrow> workflow_resolution
    \<Rightarrow> workflow_resolution option" where
  "check_staffed env tt rule r =
     (if wr_approval_enabled rule \<and> r_approval_users r = []
      then with_error env err_no_approvers
             (''workflow rule '' @ go_quote (wr_name rule) @ '' has no effective approval users'') r
      else if isExecutableTicketType tt \<and> r_execution_mode r \<noteq> mode_auto \<and> r_executor_users r = []
      then with_error env err_no_executors
             (''workflow rule '' @ go_quote (wr_name rule) @ '' has no effective executor users'') r
      else Some r)"

definition resolveWorkflow :: "workflow_env \<Rightarrow> ticket_type \<Rightarrow> id64 option \<Rightarrow> string option
    \<Rightarrow> workflow_resolution option" where
  "resolveWorkflow env tt conn sens =
     (let r = empty_resolution tt conn sens
      in if \<not> w_configured env
         then Some (r\<lparr>r_error_code := err_invalid_rule, r_error_message := ''workflow resolver is not configured''\<rparr>)
         else do {
           match \<leftarrow> MatchWorkflowRule env tt conn sens;
           (case match of
              None \<Rightarrow> with_error env err_no_matching_rule ''no matching workflow rule'' r
            | Some rule \<Rightarrow> do {
                staffed \<leftarrow> staff_rule env tt rule r;
                check_staffed env tt rule staffed
              })
         })"

section \<open>Excluding the submitter\<close>

definition excludeWorkflowUserID :: "id64 list \<Rightarrow> id64 \<Rightarrow> id64 list \<times> bool" where
  "excludeWorkflowUserID ids x =
     (if x \<notin> set ids then (ids, False) else (filter (\<lambda>u. u \<noteq> x) ids, True))"

definition excluded_submitter :: "id64 \<Rightarrow> excluded_user" where
  "excluded_submitter u = \<lparr>xu_user_id = u, xu_reason = ''submitter'', xu_username = []\<rparr>"

definition exclude_approver :: "id64 \<Rightarrow> workflow_resolution \<Rightarrow> workflow_resolution" where
  "exclude_approver s r = (case excludeWorkflowUserID (r_approval_users r) s of (ids, hit) \<Rightarrow>
     if hit then r\<lparr>r_approval_users := ids, r_excluded_approval := r_excluded_approval r @ [excluded_submitter s]\<rparr>
     else r)"

definition exclude_executor :: "id64 \<Rightarrow> workflow_resolution \<Rightarrow> workflow_resolution" where
  "exclude_executor s r = (case excludeWorkflowUserID (r_executor_users r) s of (ids, hit) \<Rightarrow>
     if hit then r\<lparr>r_executor_users := ids, r_excluded_executor := r_excluded_executor r @ [excluded_submitter s]\<rparr>
     else r)"

definition excludeSubmitterFromWorkflowResolutionWithBypass ::
    "ticket \<Rightarrow> workflow_resolution \<Rightarrow> bool \<Rightarrow> bool \<Rightarrow> workflow_resolution" where
  "excludeSubmitterFromWorkflowResolutionWithBypass t r0 allowSelfReview allowSelfExecute =
     (if t_submitter_id t = 0 then r0
      else let r1 = (if allowSelfReview then r0 else exclude_approver (t_submitter_id t) r0);
               r = (if allowSelfExecute then r1 else exclude_executor (t_submitter_id t) r1)
        in if r_error_code r \<noteq> [] then r
           else if r_approval_enabled r \<and> r_approval_users r = []
           then r\<lparr>r_error_code := err_no_approvers,
                  r_error_message := ''workflow has no effective approval users after excluding the submitter''\<rparr>
           else if isExecutableTicketType (t_type t) \<and> r_execution_mode r \<noteq> mode_auto \<and> r_executor_users r = []
           then r\<lparr>r_error_code := err_no_executors,
                  r_error_message := ''workflow has no effective executor users after excluding the submitter''\<rparr>
           else r)"

definition workflowBypassAllowed :: "workflow_env \<Rightarrow> id64 \<Rightarrow> bypass_kind \<Rightarrow> bool option" where
  "workflowBypassAllowed env u kind =
     (if \<not> w_configured env \<or> u = 0 then Some False
      else do {
        (ids, groups) \<leftarrow> read_db env (QueryBypass kind) (w_bypass env kind);
        if u \<in> set ids then Some True
        else do {
          ugs \<leftarrow> read_db env (QueryUserGroups u) (GetAuthGroups (w_now env) (w_identity env) u);
          Some (list_ex (\<lambda>g. g \<in> set groups) ugs)
        }
      })"

definition workflowExportSensitivity :: "ticket \<Rightarrow> string option" where
  "workflowExportSensitivity t =
     (if t_type t \<noteq> SQLExport then None
      else map_option (\<lambda>b. if b then ''sensitive'' else ''normal'') (t_contains_sensitive t))"

definition resolveTicketWorkflow :: "workflow_env \<Rightarrow> ticket \<Rightarrow> workflow_resolution option" where
  "resolveTicketWorkflow env t = do {
     r \<leftarrow> resolveWorkflow env (t_type t) (t_db_connection_id t) (workflowExportSensitivity t);
     selfReview \<leftarrow> workflowBypassAllowed env (t_submitter_id t) SelfReview;
     selfExecute \<leftarrow> workflowBypassAllowed env (t_submitter_id t) SelfExecute;
     Some (excludeSubmitterFromWorkflowResolutionWithBypass t r selfReview selfExecute)
   }"

definition workflowResolutionFromSnapshot :: "ticket \<Rightarrow> workflow_snapshot \<Rightarrow> workflow_resolution" where
  "workflowResolutionFromSnapshot t sn =
     \<lparr>r_rule_id = sn_rule_id sn, r_rule_name = sn_rule_name sn, r_ticket_type = t_type t,
      r_db_connection_id = t_db_connection_id t, r_export_sensitivity = workflowExportSensitivity t,
      r_approval_enabled = sn_approval_enabled sn,
      r_execution_mode = normalizeWorkflowExecutionMode (sn_execution_mode sn),
      r_approval_users = sn_approval_users sn, r_executor_users = sn_executor_users sn,
      r_admin_users = sn_admin_users sn, r_missing_approval_groups = [], r_missing_executor_groups = [],
      r_excluded_approval = [], r_excluded_executor = [],
      r_error_code = sn_error_code sn, r_error_message = sn_error_message sn\<rparr>"

definition ticketWorkflowResolution :: "workflow_env \<Rightarrow> (id64 \<Rightarrow> workflow_snapshot option) \<Rightarrow> ticket
    \<Rightarrow> workflow_resolution option" where
  "ticketWorkflowResolution env snapshots t = do {
     stored \<leftarrow> read_db env (QuerySnapshot (t_id t)) (snapshots (t_id t));
     (case stored of
        Some sn \<Rightarrow> do {
          selfReview \<leftarrow> workflowBypassAllowed env (t_submitter_id t) SelfReview;
          selfExecute \<leftarrow> workflowBypassAllowed env (t_submitter_id t) SelfExecute;
          Some (excludeSubmitterFromWorkflowResolutionWithBypass t (workflowResolutionFromSnapshot t sn)
                  selfReview selfExecute)
        }
      | None \<Rightarrow> resolveTicketWorkflow env t)
   }"

section \<open>The rule chosen\<close>

definition best_rule :: "(workflow_rule \<Rightarrow> bool) \<Rightarrow> workflow_rule set \<Rightarrow> workflow_rule option \<Rightarrow> bool" where
  "best_rule P R res \<longleftrightarrow> (case res of None \<Rightarrow> \<forall>r \<in> R. \<not> P r
     | Some b \<Rightarrow> b \<in> R \<and> P b \<and> (\<forall>r \<in> R. P r \<longrightarrow> \<not> rule_beats r b))"

lemma rule_beats_trans: "rule_beats a b \<Longrightarrow> rule_beats b c \<Longrightarrow> rule_beats a c"
  by (auto simp: rule_beats_def)

lemma rule_beats_neg_trans: "\<not> rule_beats a b \<Longrightarrow> rule_beats c b \<Longrightarrow> \<not> rule_beats a c"
  by (auto simp: rule_beats_def)

lemma rule_beats_irrefl [simp]: "\<not> rule_beats a a"
  by (simp add: rule_beats_def)

lemma rule_beats_total: "wr_id a \<noteq> wr_id b \<Longrightarrow> rule_beats a b \<or> rule_beats b a"
  by (auto simp: rule_beats_def)

lemma match_loop_best:
  "best_rule (rule_applies tt conn sens) R best \<Longrightarrow>
   best_rule (rule_applies tt conn sens) (R \<union> set rules) (match_loop tt conn sens best rules)"
proof (induction rules arbitrary: best R)
  case Nil
  then show ?case by simp
next
  case (Cons rule rules)
  have "best_rule (rule_applies tt conn sens) (insert rule R)
      (if rule_applies tt conn sens rule \<and> (case best of None \<Rightarrow> True | Some b \<Rightarrow> rule_beats rule b)
       then Some rule else best)"
    using Cons.prems
    by (cases best) (auto simp: best_rule_def dest: rule_beats_neg_trans)
  from Cons.IH [OF this] show ?case
    by (auto split: option.splits if_splits)
qed

lemma best_rule_unique:
  assumes "\<And>a b. a \<in> R \<Longrightarrow> b \<in> R \<Longrightarrow> wr_id a = wr_id b \<Longrightarrow> a = b"
    and "best_rule P R x" and "best_rule P R y"
  shows "x = y"
proof (cases "x = None \<or> y = None")
  case True
  with assms(2,3) show ?thesis by (auto simp: best_rule_def split: option.splits)
next
  case False
  then obtain a b where "x = Some a" "y = Some b" by auto
  with assms(2,3) have "a \<in> R" "b \<in> R" "\<not> rule_beats a b" "\<not> rule_beats b a"
    by (auto simp: best_rule_def)
  with assms(1) rule_beats_total [of a b] \<open>x = Some a\<close> \<open>y = Some b\<close> show ?thesis by auto
qed

lemma match_loop_None_best: "best_rule (rule_applies tt conn sens) (set rules) (match_loop tt conn sens None rules)"
  using match_loop_best [of tt conn sens "{}" None rules] by (simp add: best_rule_def)

lemma not_beaten_iff:
  "\<not> rule_beats r b \<longleftrightarrow> rule_score r < rule_score b \<or> (rule_score r = rule_score b \<and>
     (wr_priority b < wr_priority r \<or> (wr_priority b = wr_priority r \<and> wr_id b \<le> wr_id r)))"
  by (auto simp: rule_beats_def)

text \<open>
  C21: \<open>MatchWorkflowRule\<close> returns an enabled rule that applies to the ticket and that no applicable
  rule beats on (specificity, priority, id), and nothing only if no rule applies.
\<close>

theorem match_workflow_rule_best:
  "MatchWorkflowRule env tt conn sens = Some res \<Longrightarrow>
   (case res of
      None \<Rightarrow> \<forall>r \<in> set (w_rules env). \<not> rule_applies tt conn sens r
    | Some b \<Rightarrow> b \<in> set (w_rules env) \<and> rule_applies tt conn sens b \<and>
        (\<forall>r \<in> set (w_rules env). rule_applies tt conn sens r \<longrightarrow>
           rule_score r < rule_score b \<or> (rule_score r = rule_score b \<and>
             (wr_priority b < wr_priority r \<or> (wr_priority b = wr_priority r \<and> wr_id b \<le> wr_id r)))))"
  using match_loop_None_best [of tt conn sens "w_rules env"]
  by (auto simp: MatchWorkflowRule_def read_db_def best_rule_def bind_eq_Some_conv not_beaten_iff [symmetric]
      split: if_splits option.splits)

text \<open>
  The rule chosen does not depend on the order in which the rules are stored.
\<close>

theorem match_workflow_rule_order_independent:
  assumes "distinct (map wr_id (w_rules env))" and "set rules' = set (w_rules env)"
  shows "MatchWorkflowRule (env\<lparr>w_rules := rules'\<rparr>) tt conn sens = MatchWorkflowRule env tt conn sens"
proof -
  have "match_loop tt conn sens None rules' = match_loop tt conn sens None (w_rules env)"
  proof (rule best_rule_unique)
    show "a = b" if "a \<in> set (w_rules env)" "b \<in> set (w_rules env)" "wr_id a = wr_id b" for a b
      using that assms(1) by (auto simp: distinct_map inj_on_def)
    show "best_rule (rule_applies tt conn sens) (set (w_rules env)) (match_loop tt conn sens None rules')"
      using match_loop_None_best [of tt conn sens rules'] assms(2) by simp
  qed (rule match_loop_None_best)
  then show ?thesis by (simp add: MatchWorkflowRule_def read_db_def)
qed

section \<open>Who is resolved\<close>

lemma choose_users_users:
  "set (c_users (choose_users allowed us c)) \<subseteq> set (c_users c) \<union> (set allowed \<inter> u_id ` {u \<in> set us. u_is_active u})"
proof (induction us arbitrary: c)
  case Nil
  then show ?case by simp
next
  case (Cons u us)
  show ?case
    by (auto simp: Let_def dest!: subsetD [OF Cons.IH])
qed

lemma choose_groups_users:
  "choose_groups env allowed gs c = Some c' \<Longrightarrow>
   set (c_users c') \<subseteq> set (c_users c) \<union> (set allowed \<inter>
     (\<Union>g \<in> set gs. u_id ` {u \<in> set (ListUsersByAuthGroup (w_now env) (w_identity env) g). u_is_active u}))"
proof (induction gs arbitrary: c)
  case Nil
  then show ?case by simp
next
  case (Cons g gs)
  let ?us = "ListUsersByAuthGroup (w_now env) (w_identity env) g"
  show ?case
  proof (cases "?us = []")
    case True
    with Cons.prems have "choose_groups env allowed gs (c\<lparr>c_missing := c_missing c @ [g]\<rparr>) = Some c'"
      by (auto simp: read_db_def split: if_splits)
    from Cons.IH [OF this] show ?thesis by auto
  next
    case False
    with Cons.prems have "choose_groups env allowed gs (choose_users allowed ?us c) = Some c'"
      by (auto simp: read_db_def split: if_splits)
    from Cons.IH [OF this] choose_users_users [of allowed ?us c] show ?thesis by auto
  qed
qed

lemma resolveWorkflowUsers_users:
  assumes "resolveWorkflowUsers env gs required = Some c"
  shows "set (c_users c) \<subseteq> set (ListActiveUserIDsByPermissionKeys (w_now env) (w_identity env) required)"
    and "set (c_users c) \<subseteq> (\<Union>g \<in> set gs. u_id ` set (ListUsersByAuthGroup (w_now env) (w_identity env) g))"
  using assms choose_groups_users [of env _ gs _ c]
  by (fastforce simp: resolveWorkflowUsers_def read_db_def bind_eq_Some_conv split: if_splits)+

lemma with_error_Some:
  "with_error env code msg r = Some r' \<Longrightarrow>
   r_approval_users r' = r_approval_users r \<and> r_executor_users r' = r_executor_users r \<and>
   r_approval_enabled r' = r_approval_enabled r \<and> r_execution_mode r' = r_execution_mode r \<and>
   r_error_code r' = code"
  by (auto simp: with_error_def bind_eq_Some_conv)

lemma staff_rule_users:
  assumes "staff_rule env tt rule r = Some r'" and "r_executor_users r = []"
  shows "set (r_approval_users r') \<subseteq>
      set (ListActiveUserIDsByPermissionKeys (w_now env) (w_identity env) (reviewPermissionsForTicket tt))"
    and "set (r_executor_users r') \<subseteq>
      set (ListActiveUserIDsByPermissionKeys (w_now env) (w_identity env) [''tickets.execute''])"
  using assms
  by (auto simp: staff_rule_def Let_def bind_eq_Some_conv split: if_splits
      dest: subsetD [OF resolveWorkflowUsers_users(1)])

lemma check_staffed_users:
  "check_staffed env tt rule r = Some r' \<Longrightarrow>
   r_approval_users r' = r_approval_users r \<and> r_executor_users r' = r_executor_users r"
  unfolding check_staffed_def by (auto dest: with_error_Some split: if_splits)

lemma resolveWorkflow_cases:
  assumes "resolveWorkflow env tt conn sens = Some r"
  obtains (empty) "r_approval_users r = []" "r_executor_users r = []"
    | (staffed) rule r0 where "staff_rule env tt rule (empty_resolution tt conn sens) = Some r0"
        "check_staffed env tt rule r0 = Some r"
  using assms
  by (auto simp: resolveWorkflow_def Let_def bind_eq_Some_conv empty_resolution_def
        dest!: with_error_Some split: if_splits option.splits)

lemma resolveWorkflow_users:
  assumes "resolveWorkflow env tt conn sens = Some r"
  shows "set (r_approval_users r) \<subseteq>
      set (ListActiveUserIDsByPermissionKeys (w_now env) (w_identity env) (reviewPermissionsForTicket tt))"
    and "set (r_executor_users r) \<subseteq>
      set (ListActiveUserIDsByPermissionKeys (w_now env) (w_identity env) [''tickets.execute''])"
  by (cases rule: resolveWorkflow_cases [OF assms];
      use staff_rule_users check_staffed_users in \<open>fastforce simp: empty_resolution_def\<close>)+

lemma exclude_simps [simp]:
  "r_approval_users (exclude_approver s r) = filter (\<lambda>u. u \<noteq> s) (r_approval_users r)"
  "r_executor_users (exclude_approver s r) = r_executor_users r"
  "r_approval_users (exclude_executor s r) = r_approval_users r"
  "r_executor_users (exclude_executor s r) = filter (\<lambda>u. u \<noteq> s) (r_executor_users r)"
  "r_error_code (exclude_approver s r) = r_error_code r"
  "r_error_code (exclude_executor s r) = r_error_code r"
  "r_approval_enabled (exclude_approver s r) = r_approval_enabled r"
  "r_approval_enabled (exclude_executor s r) = r_approval_enabled r"
  "r_execution_mode (exclude_approver s r) = r_execution_mode r"
  "r_execution_mode (exclude_executor s r) = r_execution_mode r"
  by (auto simp: exclude_approver_def exclude_executor_def excludeWorkflowUserID_def filter_id_conv
      intro!: filter_True [symmetric])

lemma excludeSubmitter_users:
  assumes "t_submitter_id t \<noteq> 0"
  shows "r_approval_users (excludeSubmitterFromWorkflowResolutionWithBypass t r a b) =
      (if a then r_approval_users r else filter (\<lambda>u. u \<noteq> t_submitter_id t) (r_approval_users r))"
    and "r_executor_users (excludeSubmitterFromWorkflowResolutionWithBypass t r a b) =
      (if b then r_executor_users r else filter (\<lambda>u. u \<noteq> t_submitter_id t) (r_executor_users r))"
  using assms by (simp_all add: excludeSubmitterFromWorkflowResolutionWithBypass_def Let_def)

lemma err_nonempty: "err_no_approvers \<noteq> []" "err_no_executors \<noteq> []"
  by (simp_all add: workflow_consts)

lemma excludeSubmitter_staffed:
  assumes "t_submitter_id t \<noteq> 0"
    and "r' = excludeSubmitterFromWorkflowResolutionWithBypass t r a b" and "r_error_code r' = []"
  shows "r_approval_enabled r' \<Longrightarrow> r_approval_users r' \<noteq> []"
    and "isExecutableTicketType (t_type t) \<Longrightarrow> r_execution_mode r' \<noteq> mode_auto \<Longrightarrow> r_executor_users r' \<noteq> []"
proof -
  let ?r1 = "if a then r else exclude_approver (t_submitter_id t) r"
  let ?r2 = "if b then ?r1 else exclude_executor (t_submitter_id t) ?r1"
  let ?noap = "r_approval_enabled ?r2 \<and> r_approval_users ?r2 = []"
  let ?noex = "isExecutableTicketType (t_type t) \<and> r_execution_mode ?r2 \<noteq> mode_auto \<and> r_executor_users ?r2 = []"
  have "r' = ?r2 \<and> \<not> ?noap \<and> \<not> ?noex"
    using assms err_nonempty unfolding excludeSubmitterFromWorkflowResolutionWithBypass_def Let_def
    by (cases "r_error_code ?r2 = []"; cases ?noap; cases ?noex) (simp_all only: if_True if_False simp_thms, auto)
  then show "r_approval_enabled r' \<Longrightarrow> r_approval_users r' \<noteq> []"
    and "isExecutableTicketType (t_type t) \<Longrightarrow> r_execution_mode r' \<noteq> mode_auto \<Longrightarrow> r_executor_users r' \<noteq> []"
    by simp_all
qed

text \<open>
  C4: separation of duties in a resolved workflow. The submitter is an approver (executor) only
  with a configured self-review (self-execute) bypass; every approver is an active user holding
  the review permission of the ticket type, every executor one holding \<open>tickets.execute\<close>; and a
  resolution without an error names at least one approver when approval is enabled and at
  least one executor when a statement has to be run by hand.
\<close>

theorem workflow_separation_of_duties:
  assumes "resolveTicketWorkflow env t = Some r" and "t_submitter_id t \<noteq> 0"
  shows "(t_submitter_id t \<in> set (r_approval_users r) \<longrightarrow>
            workflowBypassAllowed env (t_submitter_id t) SelfReview = Some True) \<and>
         (t_submitter_id t \<in> set (r_executor_users r) \<longrightarrow>
            workflowBypassAllowed env (t_submitter_id t) SelfExecute = Some True) \<and>
         set (r_approval_users r) \<subseteq> set (ListActiveUserIDsByPermissionKeys (w_now env) (w_identity env)
            (reviewPermissionsForTicket (t_type t))) \<and>
         set (r_executor_users r) \<subseteq> set (ListActiveUserIDsByPermissionKeys (w_now env) (w_identity env)
            [''tickets.execute'']) \<and>
         (r_error_code r = [] \<longrightarrow> (r_approval_enabled r \<longrightarrow> r_approval_users r \<noteq> []) \<and>
            (isExecutableTicketType (t_type t) \<and> r_execution_mode r \<noteq> mode_auto \<longrightarrow> r_executor_users r \<noteq> []))"
proof -
  obtain r0 a b where r0: "resolveWorkflow env (t_type t) (t_db_connection_id t) (workflowExportSensitivity t) = Some r0"
    and ab: "workflowBypassAllowed env (t_submitter_id t) SelfReview = Some a"
      "workflowBypassAllowed env (t_submitter_id t) SelfExecute = Some b"
    and r: "r = excludeSubmitterFromWorkflowResolutionWithBypass t r0 a b"
    using assms(1) by (auto simp: resolveTicketWorkflow_def bind_eq_Some_conv)
  note users = resolveWorkflow_users [OF r0] and shown = excludeSubmitter_users [OF assms(2), of r0 a b, folded r]
  show ?thesis
    using users shown ab excludeSubmitter_staffed [OF assms(2) r] by auto
qed

section \<open>Witnesses\<close>

definition sample_rule :: "id64 \<Rightarrow> id64 option \<Rightarrow> workflow_rule" where
  "sample_rule i conn = \<lparr>wr_id = i, wr_name = ''rule'', wr_ticket_type = DML, wr_db_connection_id = conn,
     wr_export_sensitivity = None, wr_approval_enabled = True, wr_execution_mode = ''manual'',
     wr_approval_groups = [''admin''], wr_executor_groups = [''dba'', ''admin''], wr_priority = 100, wr_enabled = True\<rparr>"

definition sample_env :: workflow_env where
  "sample_env = \<lparr>w_configured = True, w_now = 50,
     w_identity = sample_identity\<lparr>i_user_groups := [\<lparr>uag_user = 2, uag_group = 2, uag_expires_at = None\<rparr>,
        \<lparr>uag_user = 1, uag_group = 1, uag_expires_at = None\<rparr>]\<rparr>,
     w_rules = [sample_rule 1 None, sample_rule 2 (Some 7), sample_rule 3 (Some 8)],
     w_bypass = (\<lambda>_. ([], [])), w_fails = (\<lambda>_. False)\<rparr>"

definition sample_ticket :: ticket where
  "sample_ticket = \<lparr>t_id = 10, t_ticket_no = ''TK-1'', t_title = ''t'', t_description = None,
     t_sql_content = ''UPDATE t SET a = 1'', t_type = DML, t_contains_sensitive = None,
     t_db_connection_id = Some 7, t_database_name = None, t_schema_name = None, t_status = PendingReview,
     t_submitter_id = 5, t_reviewer_id = None, t_executor_id = None, t_review_comment = None,
     t_approved_at = None, t_review_rejected_at = None, t_pending_execution_at = None,
     t_execution_requested_at = None, t_execution_run_mode = None, t_dml_execution_mode = None,
     t_execution_rejected_at = None, t_withdrawn_at = None, t_rejection_reason = None, t_scheduled_at = None,
     t_started_at = None, t_completed_at = None, t_approved_duration_minutes = None, t_approved_until = None,
     t_revoked_at = None, t_revoked_by = None, t_created_at = 1, t_updated_at = 1\<rparr>"

theorem match_workflow_rule_best_witness:
  "MatchWorkflowRule sample_env DML (Some 7) None = Some (Some (sample_rule 2 (Some 7))) \<and>
   rule_score (sample_rule 1 None) < rule_score (sample_rule 2 (Some 7))"
proof -
  have m: "MatchWorkflowRule sample_env DML (Some 7) None = Some (Some (sample_rule 2 (Some 7)))" by code_simp
  have "sample_rule 1 None \<in> set (w_rules sample_env)" "rule_applies DML (Some 7) None (sample_rule 1 None)"
    by (simp_all add: sample_env_def sample_rule_def rule_applies_def)
  with match_workflow_rule_best [OF m] have
    "rule_score (sample_rule 1 None) < rule_score (sample_rule 2 (Some 7)) \<or>
     rule_score (sample_rule 1 None) = rule_score (sample_rule 2 (Some 7))" by auto
  with m show ?thesis by (simp add: rule_score_def sample_rule_def)
qed

theorem match_workflow_rule_order_independent_witness:
  "MatchWorkflowRule (sample_env\<lparr>w_rules := rev (w_rules sample_env)\<rparr>) DML (Some 7) None =
     Some (Some (sample_rule 2 (Some 7)))"
proof -
  have "distinct (map wr_id (w_rules sample_env))" by (simp add: sample_env_def sample_rule_def)
  from match_workflow_rule_order_independent [OF this, of "rev (w_rules sample_env)" DML "Some 7" None]
  have "MatchWorkflowRule (sample_env\<lparr>w_rules := rev (w_rules sample_env)\<rparr>) DML (Some 7) None =
    MatchWorkflowRule sample_env DML (Some 7) None" by simp
  also have "\<dots> = Some (Some (sample_rule 2 (Some 7)))" by code_simp
  finally show ?thesis .
qed

theorem workflow_separation_of_duties_witness:
  "map_option (\<lambda>r. (r_error_code r, r_approval_users r, r_executor_users r))
     (resolveTicketWorkflow sample_env sample_ticket) = Some ([], [1], [2, 1]) \<and>
   set [2, 1] \<subseteq> set (ListActiveUserIDsByPermissionKeys 50 (w_identity sample_env) [''tickets.execute''])"
proof -
  have ok: "map_option (\<lambda>r. (r_error_code r, r_approval_users r, r_executor_users r))
     (resolveTicketWorkflow sample_env sample_ticket) = Some ([], [1], [2, 1])" by code_simp
  then obtain r where r: "resolveTicketWorkflow sample_env sample_ticket = Some r" and "r_executor_users r = [2, 1]"
    by auto
  have "t_submitter_id sample_ticket \<noteq> 0" and "w_now sample_env = 50"
    by (simp_all add: sample_ticket_def sample_env_def)
  with workflow_separation_of_duties [OF r] \<open>r_executor_users r = [2, 1]\<close> ok show ?thesis by simp
qed

end
