(* ===== verification/Ticket_Store.thy ===== *)
theory Ticket_Store
  imports Workflow
begin

text \<open>
  The tables of tickets, their statements, scopes, workflow snapshots and query access grants, with
  the operations of \<open>internal/repository/ticket.go\<close> and of the ticket part of
  \<open>internal/repository/query_access.go\<close>. Each operation takes the clock reading \<open>now\<close> it uses. An
  operation that reports whether it changed a row returns that boolean with the new store.
\<close>

section \<open>Tables\<close>

record ticket_scope =
  ts_ticket_id :: id64
  ts_connection_id :: id64
  ts_database_name :: "string option"
  ts_schema_name :: "string option"
  ts_table_name :: "string option"
  ts_column_name :: string
  ts_is_sensitive :: bool
  ts_source_kind :: string

datatype access_effect = EffAllow | EffDeny | EffOther string
datatype access_subject = SubjUser | SubjAuthGroup

datatype scope_mode = ScopeDatabase | ScopeTable

record access_request =
  aq_ticket_id :: id64
  aq_effect :: access_effect
  aq_connection_id :: id64
  aq_database_pattern :: string
  aq_table_pattern :: string

record legacy_item =
  li_ticket_id :: id64
  li_connection_id :: id64
  li_scope_mode :: scope_mode
  li_database_name :: string
  li_table_name :: "string option"

record access_item =
  ai_ticket_id :: id64
  ai_connection_id :: id64
  ai_scope_mode :: scope_mode
  ai_database_name :: string
  ai_table_name :: "string option"
  ai_effect :: access_effect
  ai_database_pattern :: string
  ai_table_pattern :: string

record access_rule =
  ar_id :: id64
  ar_subject_type :: access_subject
  ar_subject_id :: id64
  ar_effect :: access_effect
  ar_connection_id :: id64
  ar_database_pattern :: string
  ar_table_pattern :: string
  ar_source_ticket_id :: "id64 option"
  ar_expires_at :: "timestamp option"
  ar_revoked_at :: "timestamp option"
  ar_revoked_by :: "id64 option"

record store =
  s_tickets :: "ticket list"
  s_next_ticket :: id64
  s_scopes :: "ticket_scope list"
  s_executions :: "execution list"
  s_next_execution :: id64
  s_snapshots :: "workflow_snapshot list"
  s_access_requests :: "access_request list"
  s_legacy_items :: "legacy_item list"
  s_access_rules :: "access_rule list"
  s_next_rule :: id64

definition update_tickets :: "(ticket \<Rightarrow> bool) \<Rightarrow> (ticket \<Rightarrow> ticket) \<Rightarrow> store \<Rightarrow> store" where
  "update_tickets P f s = s\<lparr>s_tickets := update_where P f (s_tickets s)\<rparr>"

definition update_executions :: "(execution \<Rightarrow> bool) \<Rightarrow> (execution \<Rightarrow> execution) \<Rightarrow> store \<Rightarrow> store" where
  "update_executions P f s = s\<lparr>s_executions := update_where P f (s_executions s)\<rparr>"

definition touched :: "(ticket \<Rightarrow> bool) \<Rightarrow> (ticket \<Rightarrow> ticket) \<Rightarrow> store \<Rightarrow> bool \<times> store" where
  "touched P f s = (affected P (s_tickets s), update_tickets P f s)"

section \<open>Tickets\<close>

definition GetTicket :: "store \<Rightarrow> id64 \<Rightarrow> ticket option" where
  "GetTicket s i = find (\<lambda>t. t_id t = i) (s_tickets s)"

definition CreateWithScopes :: "timestamp \<Rightarrow> string \<Rightarrow> ticket \<Rightarrow> ticket_scope list \<Rightarrow> store \<Rightarrow> id64 \<times> store" where
  "CreateWithScopes now ticketNo t scopes s =
     (let i = s_next_ticket s;
          row = \<lparr>t_id = i, t_ticket_no = ticketNo, t_title = t_title t, t_description = t_description t,
            t_sql_content = t_sql_content t, t_type = t_type t, t_contains_sensitive = t_contains_sensitive t,
            t_db_connection_id = t_db_connection_id t, t_database_name = t_database_name t,
            t_schema_name = t_schema_name t, t_status = PendingReview, t_submitter_id = t_submitter_id t,
            t_reviewer_id = None, t_executor_id = None, t_review_comment = None, t_approved_at = None,
            t_review_rejected_at = None, t_pending_execution_at = None, t_execution_requested_at = None,
            t_execution_run_mode = None, t_dml_execution_mode = None, t_execution_rejected_at = None,
            t_withdrawn_at = None, t_rejection_reason = None, t_scheduled_at = None, t_started_at = None,
            t_completed_at = None, t_approved_duration_minutes = t_approved_duration_minutes t,
            t_approved_until = t_approved_until t, t_revoked_at = t_revoked_at t, t_revoked_by = t_revoked_by t,
            t_created_at = now, t_updated_at = now\<rparr>;
          kept = filter (\<lambda>sc. trim_space (ts_column_name sc) \<noteq> []) scopes
      in (i, s\<lparr>s_tickets := s_tickets s @ [row], s_next_ticket := i + 1,
              s_scopes := s_scopes s @ map (\<lambda>sc. sc\<lparr>ts_ticket_id := i\<rparr>) kept\<rparr>))"

definition Delete :: "id64 \<Rightarrow> store \<Rightarrow> store" where
  "Delete i s = s\<lparr>s_tickets := delete_where (\<lambda>t. t_id t = i) (s_tickets s)\<rparr>"

definition SaveWorkflowSnapshot :: "timestamp \<Rightarrow> id64 \<Rightarrow> workflow_resolution \<Rightarrow> store \<Rightarrow> store" where
  "SaveWorkflowSnapshot now i r s =
     (let same = (\<lambda>sn. sn_ticket_id sn = i);
          mode = (if trim_space (r_execution_mode r) = mode_auto then mode_auto else mode_manual)
      in if affected same (s_snapshots s)
         then s\<lparr>s_snapshots := update_where same (\<lambda>sn. sn\<lparr>sn_rule_id := r_rule_id r, sn_rule_name := r_rule_name r,
                sn_approval_enabled := r_approval_enabled r, sn_execution_mode := mode,
                sn_approval_users := r_approval_users r, sn_executor_users := r_executor_users r,
                sn_admin_users := r_admin_users r, sn_error_code := r_error_code r,
                sn_error_message := r_error_message r, sn_resolved_at := now, sn_updated_at := now\<rparr>) (s_snapshots s)\<rparr>
         else s\<lparr>s_snapshots := s_snapshots s @
                [\<lparr>sn_ticket_id = i, sn_rule_id = r_rule_id r, sn_rule_name = r_rule_name r,
                  sn_approval_enabled = r_approval_enabled r, sn_execution_mode = mode,
                  sn_approval_users = r_approval_users r, sn_executor_users = r_executor_users r,
                  sn_admin_users = r_admin_users r, sn_error_code = r_error_code r,
                  sn_error_message = r_error_message r, sn_resolved_at = now, sn_created_at = now,
                  sn_updated_at = now\<rparr>]\<rparr>)"

definition GetWorkflowSnapshot :: "store \<Rightarrow> id64 \<Rightarrow> workflow_snapshot option" where
  "GetWorkflowSnapshot s i = map_option
     (\<lambda>sn. sn\<lparr>sn_execution_mode := (if trim_space (sn_execution_mode sn) = mode_auto then mode_auto else mode_manual)\<rparr>)
     (find (\<lambda>sn. sn_ticket_id sn = i) (s_snapshots s))"

definition status_stamp :: "timestamp \<Rightarrow> ticket_status \<Rightarrow> ticket_status \<Rightarrow> ticket \<Rightarrow> ticket" where
  "status_stamp now from to t = (case to of
     Approved \<Rightarrow> t\<lparr>t_approved_at := Some now\<rparr>
   | PendingExecution \<Rightarrow> t\<lparr>t_pending_execution_at := Some now\<rparr>
   | Rejected \<Rightarrow> if from = Approved \<or> from = PendingExecution then t\<lparr>t_execution_rejected_at := Some now\<rparr>
                 else t\<lparr>t_review_rejected_at := Some now\<rparr>
   | Withdrawn \<Rightarrow> t\<lparr>t_withdrawn_at := Some now\<rparr>
   | _ \<Rightarrow> t)"

definition UpdateStatus :: "timestamp \<Rightarrow> id64 \<Rightarrow> ticket_status \<Rightarrow> ticket_status \<Rightarrow> id64 option \<Rightarrow> string option
    \<Rightarrow> string option \<Rightarrow> store \<Rightarrow> bool \<times> store" where
  "UpdateStatus now i from to reviewer comment reason =
     touched (\<lambda>t. t_id t = i \<and> t_status t = from)
       (\<lambda>t. status_stamp now from to (t\<lparr>t_status := to, t_updated_at := now,
          t_reviewer_id := coalesce reviewer (t_reviewer_id t),
          t_review_comment := coalesce comment (t_review_comment t),
          t_rejection_reason := coalesce reason (t_rejection_reason t)\<rparr>))"

definition ApproveSensitiveAccess :: "timestamp \<Rightarrow> id64 \<Rightarrow> ticket_status \<Rightarrow> id64 \<Rightarrow> timestamp \<Rightarrow> store \<Rightarrow> bool \<times> store" where
  "ApproveSensitiveAccess now i from reviewer until =
     touched (\<lambda>t. t_id t = i \<and> t_status t = from \<and> t_type t = SensitiveQueryAccess)
       (\<lambda>t. t\<lparr>t_status := Approved, t_reviewer_id := Some reviewer, t_approved_at := Some now,
              t_approved_until := Some until, t_updated_at := now\<rparr>)"

definition revoke_guard :: "id64 \<Rightarrow> ticket_type \<Rightarrow> ticket \<Rightarrow> bool" where
  "revoke_guard i tt t = (t_id t = i \<and> t_type t = tt \<and> t_status t = Approved \<and> t_revoked_at t = None)"

definition revoke_row :: "timestamp \<Rightarrow> id64 \<Rightarrow> ticket \<Rightarrow> ticket" where
  "revoke_row now actor t = t\<lparr>t_status := Stopped, t_revoked_at := Some now, t_revoked_by := Some actor, t_updated_at := now\<rparr>"

definition RevokeSensitiveAccess :: "timestamp \<Rightarrow> id64 \<Rightarrow> id64 \<Rightarrow> store \<Rightarrow> bool \<times> store" where
  "RevokeSensitiveAccess now i actor = touched (revoke_guard i SensitiveQueryAccess) (revoke_row now actor)"

definition ListActiveSensitiveAccessScopes :: "timestamp \<Rightarrow> store \<Rightarrow> id64 \<Rightarrow> id64 \<Rightarrow> ticket_scope list" where
  "ListActiveSensitiveAccessScopes now s user conn =
     filter (\<lambda>sc. ts_connection_id sc = conn \<and>
       list_ex (\<lambda>t. t_id t = ts_ticket_id sc \<and> t_submitter_id t = user \<and> t_type t = SensitiveQueryAccess \<and>
          t_status t = Approved \<and> (case t_approved_until t of None \<Rightarrow> False | Some u \<Rightarrow> now < u) \<and>
          t_revoked_at t = None) (s_tickets s)) (s_scopes s)"

definition start_guard :: "id64 \<Rightarrow> ticket \<Rightarrow> bool" where
  "start_guard i t = (t_id t = i \<and> t_status t = PendingExecution)"

definition start_row :: "timestamp \<Rightarrow> id64 \<Rightarrow> string \<Rightarrow> string option \<Rightarrow> ticket \<Rightarrow> ticket" where
  "start_row now executor runMode dmlMode t =
     (let mode = (if trim_space runMode = [] then run_mode_batch else trim_space runMode);
          dml = (case dmlMode of None \<Rightarrow> None | Some v \<Rightarrow> if trim_space v = [] then None else Some (trim_space v))
      in t\<lparr>t_status := Executing, t_executor_id := Some executor,
           t_execution_requested_at := coalesce (t_execution_requested_at t) (Some now),
           t_execution_run_mode := Some mode, t_dml_execution_mode := coalesce dml (t_dml_execution_mode t),
           t_started_at := Some now, t_updated_at := now\<rparr>)"

definition StartExecution :: "timestamp \<Rightarrow> id64 \<Rightarrow> id64 \<Rightarrow> string \<Rightarrow> string option \<Rightarrow> store \<Rightarrow> bool \<times> store" where
  "StartExecution now i executor runMode dmlMode = touched (start_guard i) (start_row now executor runMode dmlMode)"

definition manual_row :: "timestamp \<Rightarrow> id64 \<Rightarrow> ticket \<Rightarrow> ticket" where
  "manual_row now executor t = t\<lparr>
     t_status := (if t_status t = PendingExecution then Executing else t_status t),
     t_executor_id := coalesce (t_executor_id t) (Some executor),
     t_execution_requested_at := coalesce (t_execution_requested_at t) (Some now),
     t_execution_run_mode := (case t_execution_run_mode t of None \<Rightarrow> Some run_mode_manual_statement
        | Some m \<Rightarrow> if m = [] then Some run_mode_manual_statement else Some m),
     t_started_at := coalesce (t_started_at t) (Some now), t_updated_at := now\<rparr>"

definition ClaimManualStatementExecution :: "timestamp \<Rightarrow> id64 \<Rightarrow> id64 \<Rightarrow> store \<Rightarrow> bool \<times> store" where
  "ClaimManualStatementExecution now i executor =
     touched (\<lambda>t. t_id t = i \<and> t_status t \<in> {PendingExecution, Executing} \<and>
        t_execution_run_mode t \<in> {None, Some [], Some run_mode_manual_statement})
       (manual_row now executor)"

definition MarkTicketExecuting :: "timestamp \<Rightarrow> id64 \<Rightarrow> id64 \<Rightarrow> store \<Rightarrow> store" where
  "MarkTicketExecuting now i executor =
     update_tickets (\<lambda>t. t_id t = i \<and> t_status t \<in> {PendingExecution, Executing}) (manual_row now executor)"

definition MarkCompleted :: "timestamp \<Rightarrow> id64 \<Rightarrow> ticket_status \<Rightarrow> store \<Rightarrow> store" where
  "MarkCompleted now i st = update_tickets (\<lambda>t. t_id t = i)
     (\<lambda>t. t\<lparr>t_status := st, t_completed_at := Some now, t_updated_at := now\<rparr>)"

definition SetExecutorIfEmpty :: "timestamp \<Rightarrow> id64 \<Rightarrow> id64 \<Rightarrow> store \<Rightarrow> store" where
  "SetExecutorIfEmpty now i executor = update_tickets (\<lambda>t. t_id t = i)
     (\<lambda>t. t\<lparr>t_executor_id := coalesce (t_executor_id t) (Some executor), t_updated_at := now\<rparr>)"

definition SetExecutionAggregateStatus :: "timestamp \<Rightarrow> id64 \<Rightarrow> ticket_status \<Rightarrow> store \<Rightarrow> store" where
  "SetExecutionAggregateStatus now i st =
     (if st \<in> {Completed, Failed, Stopped}
      then update_tickets (\<lambda>t. t_id t = i) (\<lambda>t. t\<lparr>t_status := st, t_completed_at := Some now, t_updated_at := now\<rparr>)
      else update_tickets (\<lambda>t. t_id t = i) (\<lambda>t. t\<lparr>t_status := st, t_updated_at := now\<rparr>))"

definition stop_guard :: "id64 \<Rightarrow> ticket \<Rightarrow> bool" where
  "stop_guard i t = (t_id t = i \<and> t_status t = Executing)"

definition MarkStopped :: "timestamp \<Rightarrow> id64 \<Rightarrow> store \<Rightarrow> bool \<times> store" where
  "MarkStopped now i = touched (stop_guard i)
     (\<lambda>t. t\<lparr>t_status := Stopped, t_completed_at := Some now, t_updated_at := now\<rparr>)"

definition SetScheduled :: "timestamp \<Rightarrow> id64 \<Rightarrow> id64 \<Rightarrow> timestamp \<Rightarrow> store \<Rightarrow> store" where
  "SetScheduled now i executor at = update_tickets (start_guard i)
     (\<lambda>t. t\<lparr>t_executor_id := Some executor, t_scheduled_at := Some at,
            t_execution_requested_at := coalesce (t_execution_requested_at t) (Some now), t_updated_at := now\<rparr>)"

definition GetDueScheduled :: "timestamp \<Rightarrow> store \<Rightarrow> ticket list" where
  "GetDueScheduled now s = filter (\<lambda>t. t_status t = PendingExecution \<and>
     (case t_scheduled_at t of None \<Rightarrow> False | Some at \<Rightarrow> at \<le> now)) (s_tickets s)"

section \<open>Statements of a ticket\<close>

definition new_execution :: "id64 \<Rightarrow> id64 \<Rightarrow> int \<times> string \<Rightarrow> execution" where
  "new_execution i tid st = \<lparr>e_id = i, e_ticket_id = tid, e_seq = fst st, e_sql_stmt = snd st, e_status = ExPending,
     e_rows_affected = None, e_error_msg = None, e_started_at = None, e_completed_at = None, e_duration_ms = None,
     e_sent_to_db_at = None, e_db_process_type = None, e_db_process_id = None, e_interruption_reason = None,
     e_outcome_confidence = None\<rparr>"

fun insert_executions :: "id64 \<Rightarrow> (int \<times> string) list \<Rightarrow> store \<Rightarrow> store" where
  "insert_executions tid [] s = s"
| "insert_executions tid (st # sts) s = insert_executions tid sts
     (s\<lparr>s_executions := s_executions s @ [new_execution (s_next_execution s) tid st],
        s_next_execution := s_next_execution s + 1\<rparr>)"

definition CreateExecution :: "id64 \<Rightarrow> int \<times> string \<Rightarrow> store \<Rightarrow> id64 \<times> store" where
  "CreateExecution tid st s = (s_next_execution s, insert_executions tid [st] s)"

definition EnsureExecutions :: "id64 \<Rightarrow> (int \<times> string) list \<Rightarrow> store \<Rightarrow> store" where
  "EnsureExecutions tid sts s =
     (if affected (\<lambda>e. e_ticket_id e = tid) (s_executions s) then s else insert_executions tid sts s)"

definition GetExecution :: "store \<Rightarrow> id64 \<Rightarrow> id64 \<Rightarrow> execution option" where
  "GetExecution s tid eid = find (\<lambda>e. e_id e = eid \<and> e_ticket_id e = tid) (s_executions s)"

definition ListExecutions :: "store \<Rightarrow> id64 \<Rightarrow> execution list" where
  "ListExecutions s tid = sort_key e_seq (filter (\<lambda>e. e_ticket_id e = tid) (s_executions s))"

definition clear_process :: "execution \<Rightarrow> execution" where
  "clear_process e = e\<lparr>e_sent_to_db_at := None, e_db_process_type := None, e_db_process_id := None,
     e_interruption_reason := None, e_outcome_confidence := None\<rparr>"

definition pending_guard :: "id64 \<Rightarrow> execution \<Rightarrow> bool" where
  "pending_guard i e = (e_id e = i \<and> e_status e = ExPending)"

definition running_row :: "timestamp \<Rightarrow> execution \<Rightarrow> execution" where
  "running_row now e = clear_process (e\<lparr>e_status := ExRunning, e_started_at := Some now, e_completed_at := None,
     e_error_msg := None, e_duration_ms := None\<rparr>)"

definition MarkExecutionRunningIfPending :: "timestamp \<Rightarrow> id64 \<Rightarrow> store \<Rightarrow> bool \<times> store" where
  "MarkExecutionRunningIfPending now i s =
     (affected (pending_guard i) (s_executions s), update_executions (pending_guard i) (running_row now) s)"

definition MarkExecutionRunning :: "timestamp \<Rightarrow> id64 \<Rightarrow> store \<Rightarrow> store" where
  "MarkExecutionRunning now i = update_executions (\<lambda>e. e_id e = i)
     (\<lambda>e. clear_process (e\<lparr>e_status := ExRunning, e_started_at := Some now\<rparr>))"

definition MarkExecutionSentToDB :: "timestamp \<Rightarrow> id64 \<Rightarrow> string \<Rightarrow> id64 \<Rightarrow> store \<Rightarrow> store" where
  "MarkExecutionSentToDB now i ptype pid = update_executions (\<lambda>e. e_id e = i \<and> e_status e = ExRunning)
     (\<lambda>e. e\<lparr>e_sent_to_db_at := coalesce (e_sent_to_db_at e) (Some now), e_db_process_type := Some ptype,
            e_db_process_id := Some pid, e_outcome_confidence := Some ''sent_to_db''\<rparr>)"

definition MarkExecutionStopped :: "timestamp \<Rightarrow> id64 \<Rightarrow> string \<Rightarrow> store \<Rightarrow> store" where
  "MarkExecutionStopped now i msg = update_executions (\<lambda>e. e_id e = i)
     (\<lambda>e. e\<lparr>e_status := ExStopped, e_error_msg := Some msg, e_completed_at := Some now, e_duration_ms := None,
            e_interruption_reason := Some ''manually_stopped'', e_outcome_confidence := Some ''manually_stopped''\<rparr>)"

definition MarkExecutionDone :: "timestamp \<Rightarrow> id64 \<Rightarrow> int option \<Rightarrow> int option \<Rightarrow> string option \<Rightarrow> store \<Rightarrow> store" where
  "MarkExecutionDone now i rows ms err = update_executions (\<lambda>e. e_id e = i)
     (\<lambda>e. e\<lparr>e_status := (if err = None then ExCompleted else ExFailed), e_rows_affected := rows, e_error_msg := err,
            e_completed_at := Some now, e_duration_ms := ms, e_interruption_reason := None,
            e_outcome_confidence := Some (if err = None then ''completed'' else ''failed'')\<rparr>)"

definition MarkExecutionFailedWithOutcome :: "timestamp \<Rightarrow> id64 \<Rightarrow> int option \<Rightarrow> string \<Rightarrow> string \<Rightarrow> string \<Rightarrow> store \<Rightarrow> store" where
  "MarkExecutionFailedWithOutcome now i ms err reason confidence = update_executions (\<lambda>e. e_id e = i)
     (\<lambda>e. e\<lparr>e_status := ExFailed, e_rows_affected := None, e_error_msg := Some err, e_completed_at := Some now,
            e_duration_ms := ms, e_interruption_reason := (if trim_space reason = [] then None else Some reason),
            e_outcome_confidence := Some confidence\<rparr>)"

definition MarkExecutionInterrupted :: "timestamp \<Rightarrow> id64 \<Rightarrow> string \<Rightarrow> string \<Rightarrow> string \<Rightarrow> store \<Rightarrow> store" where
  "MarkExecutionInterrupted now i msg reason confidence = update_executions (\<lambda>e. e_id e = i)
     (\<lambda>e. e\<lparr>e_status := ExFailed, e_rows_affected := None, e_error_msg := Some msg, e_completed_at := Some now,
            e_duration_ms := None, e_interruption_reason := Some reason, e_outcome_confidence := Some confidence\<rparr>)"

section \<open>The aggregate status and recovery after a restart\<close>

definition AggregateTicketStatusFromCounts :: "int \<Rightarrow> int \<Rightarrow> int \<Rightarrow> int \<Rightarrow> int \<Rightarrow> string option \<Rightarrow> ticket_status" where
  "AggregateTicketStatusFromCounts nrows pending running completed failed runMode =
     (if nrows = 0 then Failed
      else let mode = (case runMode of None \<Rightarrow> [] | Some m \<Rightarrow> trim_space m);
               isManual = (mode = run_mode_manual_statement);
               isBatchOrAuto = (mode = run_mode_batch \<or> mode = run_mode_workflow_auto \<or> mode = run_mode_whole_ticket)
        in if running > 0 then Executing
           else if pending = nrows then PendingExecution
           else if completed = nrows then Completed
           else if failed > 0 then (if isManual \<and> pending > 0 then Executing else Failed)
           else if pending > 0 \<and> completed > 0 then Executing
           else if isBatchOrAuto then Failed else Executing)"

definition count_status :: "exec_status \<Rightarrow> execution list \<Rightarrow> int" where
  "count_status st es = int (length (filter (\<lambda>e. e_status e = st) es))"

definition ticketExecutionRestartMessage :: "execution \<Rightarrow> string" where
  "ticketExecutionRestartMessage e =
     (if e_sent_to_db_at e = None then ''service restarted while statement was running; database send state unknown''
      else case (e_db_process_type e, e_db_process_id e) of
        (Some pt, Some pid) \<Rightarrow>
          if trim_space pt \<noteq> [] \<and> pid \<noteq> 0
          then ''service restarted during execution; database outcome unknown; last known '' @ trim_space pt @ ''='' @ nat_show pid
          else ''service restarted after statement was sent to database; database outcome unknown''
      | _ \<Rightarrow> ''service restarted after statement was sent to database; database outcome unknown'')"

record recovery =
  rv_ticket_id :: id64
  rv_status :: ticket_status
  rv_reason :: string
  rv_failed :: "execution list"

definition fail_restarted :: "timestamp \<Rightarrow> execution \<Rightarrow> execution" where
  "fail_restarted now e = e\<lparr>e_status := ExFailed, e_error_msg := Some (ticketExecutionRestartMessage e),
     e_completed_at := Some now, e_duration_ms := None, e_interruption_reason := Some ''service_restart'',
     e_outcome_confidence := Some ''outcome_unknown''\<rparr>"

text \<open>
  The loop over the running rows updates each by its id, which is the primary key: one update of
  all running rows of the ticket.
\<close>

definition recover_ticket :: "timestamp \<Rightarrow> id64 \<Rightarrow> store \<Rightarrow> recovery \<times> store" where
  "recover_ticket now i s =
     (let es = ListExecutions s i;
          mode = (case GetTicket s i of None \<Rightarrow> None | Some t \<Rightarrow> t_execution_run_mode t)
      in if es = [] then
           (\<lparr>rv_ticket_id = i, rv_status = Failed,
             rv_reason = ''service restarted during legacy execution; execution progress unknown'', rv_failed = []\<rparr>,
            update_tickets (\<lambda>t. t_id t = i) (\<lambda>t. t\<lparr>t_status := Failed, t_completed_at := Some now, t_updated_at := now\<rparr>) s)
         else
           let interrupted = filter (\<lambda>e. e_status e = ExRunning) es;
               running = (if interrupted \<noteq> [] then 0 else count_status ExRunning es);
               failed = count_status ExRunning es + count_status ExFailed es + count_status ExStopped es;
               s1 = (if interrupted \<noteq> []
                     then update_executions (\<lambda>e. e_ticket_id e = i \<and> e_status e = ExRunning) (fail_restarted now) s
                     else s);
               st = AggregateTicketStatusFromCounts (int (length es)) (count_status ExPending es) running
                      (count_status ExCompleted es) failed mode
           in (\<lparr>rv_ticket_id = i, rv_status = st,
                 rv_reason = (if interrupted \<noteq> [] then ''service restarted during execution; database outcome unknown''
                              else ''service restarted during execution; ticket execution state recovered''),
                 rv_failed = interrupted\<rparr>,
               SetExecutionAggregateStatus now i st s1))"

fun recover_all :: "timestamp \<Rightarrow> id64 list \<Rightarrow> store \<Rightarrow> recovery list \<times> store" where
  "recover_all now [] s = ([], s)"
| "recover_all now (i # is) s =
     (case recover_ticket now i s of (r, s1) \<Rightarrow> case recover_all now is s1 of (rs, s2) \<Rightarrow> (r # rs, s2))"

definition RecoverExecutingTickets :: "timestamp \<Rightarrow> store \<Rightarrow> recovery list \<times> store" where
  "RecoverExecutingTickets now s =
     recover_all now (map t_id (filter (\<lambda>t. t_status t = Executing) (s_tickets s))) s"

section \<open>Query access\<close>

definition normalizePattern :: "string \<Rightarrow> string" where
  "normalizePattern v = (let t = trim_space v in if t = [] \<or> t = ''ALL'' \<or> t = ''all'' then ''*'' else t)"

fun firstNonEmpty :: "string list \<Rightarrow> string" where
  "firstNonEmpty [] = []"
| "firstNonEmpty (v # vs) = (if trim_space v \<noteq> [] then v else firstNonEmpty vs)"

definition nullableString :: "string option \<Rightarrow> string" where
  "nullableString v = (case v of None \<Rightarrow> [] | Some x \<Rightarrow> x)"

definition normalizeQueryAccessEffect :: "access_effect \<Rightarrow> access_effect" where
  "normalizeQueryAccessEffect e = (if e = EffDeny then EffDeny else EffAllow)"

definition normalizeQueryAccessItem :: "access_item \<Rightarrow> access_item" where
  "normalizeQueryAccessItem item =
     (let db = normalizePattern (firstNonEmpty [ai_database_pattern item, ai_database_name item]);
          tb0 = normalizePattern (firstNonEmpty [ai_table_pattern item, nullableString (ai_table_name item)]);
          tb = (if tb0 = [] then ''*'' else tb0)
      in item\<lparr>ai_effect := normalizeQueryAccessEffect (ai_effect item), ai_database_pattern := db, ai_table_pattern := tb,
              ai_scope_mode := (if tb = ''*'' then ScopeDatabase else ScopeTable),
              ai_table_name := (if tb = ''*'' then None else Some tb), ai_database_name := db\<rparr>)"

text \<open>The loop stops with an error at the first item without a pattern; earlier rows stay.\<close>

fun CreateTicketItems :: "id64 \<Rightarrow> access_item list \<Rightarrow> store \<Rightarrow> bool \<times> store" where
  "CreateTicketItems i [] s = (True, s)"
| "CreateTicketItems i (item # items) s =
     (let r = normalizeQueryAccessItem item
      in if ai_database_pattern r = [] \<or> ai_table_pattern r = [] then (False, s)
         else CreateTicketItems i items (s\<lparr>s_access_requests := s_access_requests s @
           [\<lparr>aq_ticket_id = i, aq_effect = ai_effect r, aq_connection_id = ai_connection_id r,
             aq_database_pattern = ai_database_pattern r, aq_table_pattern = ai_table_pattern r\<rparr>]\<rparr>))"

definition ListTicketItems :: "store \<Rightarrow> id64 \<Rightarrow> access_item list" where
  "ListTicketItems s i =
     (let rules = filter (\<lambda>q. aq_ticket_id q = i) (s_access_requests s)
      in if rules \<noteq> [] then map (\<lambda>q. \<lparr>ai_ticket_id = i, ai_connection_id = aq_connection_id q,
              ai_scope_mode = (if aq_table_pattern q = ''*'' then ScopeDatabase else ScopeTable),
              ai_database_name = aq_database_pattern q,
              ai_table_name = (if aq_table_pattern q = ''*'' then None else Some (aq_table_pattern q)),
              ai_effect = aq_effect q, ai_database_pattern = aq_database_pattern q,
              ai_table_pattern = aq_table_pattern q\<rparr>) rules
         else map (\<lambda>l. \<lparr>ai_ticket_id = i, ai_connection_id = li_connection_id l, ai_scope_mode = li_scope_mode l,
              ai_database_name = li_database_name l, ai_table_name = li_table_name l, ai_effect = EffAllow,
              ai_database_pattern = li_database_name l,
              ai_table_pattern = (case li_table_name l of None \<Rightarrow> ''*'' | Some n \<Rightarrow> if n = [] then ''*'' else n)\<rparr>)
            (filter (\<lambda>l. li_ticket_id l = i) (s_legacy_items s)))"

fun insert_rules :: "id64 \<Rightarrow> id64 \<Rightarrow> timestamp option \<Rightarrow> access_item list \<Rightarrow> store \<Rightarrow> store" where
  "insert_rules i subject expires [] s = s"
| "insert_rules i subject expires (item # items) s = insert_rules i subject expires items
     (s\<lparr>s_access_rules := s_access_rules s @
          [\<lparr>ar_id = s_next_rule s, ar_subject_type = SubjUser, ar_subject_id = subject,
            ar_effect = normalizeQueryAccessEffect (ai_effect item), ar_connection_id = ai_connection_id item,
            ar_database_pattern = normalizePattern (firstNonEmpty [ai_database_pattern item, ai_database_name item]),
            ar_table_pattern = normalizePattern (firstNonEmpty [ai_table_pattern item, nullableString (ai_table_name item)]),
            ar_source_ticket_id = Some i, ar_expires_at = expires, ar_revoked_at = None, ar_revoked_by = None\<rparr>],
        s_next_rule := s_next_rule s + 1\<rparr>)"

definition createGrantsForTicketTx :: "id64 \<Rightarrow> id64 \<Rightarrow> timestamp option \<Rightarrow> store \<Rightarrow> store option" where
  "createGrantsForTicketTx i subject expires s =
     (let items = ListTicketItems s i in if items = [] then None else Some (insert_rules i subject expires items s))"

text \<open>\<open>None\<close> is an error; the transaction is then rolled back, as it is when no row matches.\<close>

definition ApproveTicket :: "timestamp \<Rightarrow> id64 \<Rightarrow> ticket_status \<Rightarrow> id64 \<Rightarrow> string option \<Rightarrow> id64 \<Rightarrow> timestamp option
    \<Rightarrow> store \<Rightarrow> bool option \<times> store" where
  "ApproveTicket now i from reviewer comment subject expires s =
     (case touched (\<lambda>t. t_id t = i \<and> t_status t = from \<and> t_type t = QueryAccess)
        (\<lambda>t. t\<lparr>t_status := Approved, t_updated_at := now, t_reviewer_id := Some reviewer, t_approved_at := Some now,
               t_review_comment := coalesce comment (t_review_comment t),
               t_approved_until := coalesce expires (t_approved_until t)\<rparr>) s of
        (ok, s1) \<Rightarrow> if \<not> ok then (Some False, s)
          else case createGrantsForTicketTx i subject expires s1 of
            None \<Rightarrow> (None, s) | Some s2 \<Rightarrow> (Some True, s2))"

definition grant_guard :: "id64 \<Rightarrow> access_rule \<Rightarrow> bool" where
  "grant_guard i r = (ar_source_ticket_id r = Some i \<and> ar_revoked_at r = None)"

definition revokeGrantsByTicketTx :: "timestamp \<Rightarrow> id64 \<Rightarrow> id64 \<Rightarrow> store \<Rightarrow> bool \<times> store" where
  "revokeGrantsByTicketTx now i actor s =
     (affected (grant_guard i) (s_access_rules s),
      s\<lparr>s_access_rules := update_where (grant_guard i)
          (\<lambda>r. r\<lparr>ar_revoked_at := Some now, ar_revoked_by := Some actor\<rparr>) (s_access_rules s)\<rparr>)"

definition RevokeTicket :: "timestamp \<Rightarrow> id64 \<Rightarrow> id64 \<Rightarrow> store \<Rightarrow> bool \<times> store" where
  "RevokeTicket now i actor s =
     (case revokeGrantsByTicketTx now i actor s of (ok, s1) \<Rightarrow>
        if \<not> ok then (False, s)
        else case touched (revoke_guard i QueryAccess) (revoke_row now actor) s1 of (rows, s2) \<Rightarrow>
          if \<not> rows then (False, s) else (True, s2))"

definition active_rule :: "timestamp \<Rightarrow> id64 \<Rightarrow> id64 list \<Rightarrow> id64 \<Rightarrow> access_rule \<Rightarrow> bool" where
  "active_rule now subject groups conn r =
     (((ar_subject_type r = SubjUser \<and> ar_subject_id r = subject) \<or>
       (ar_subject_type r = SubjAuthGroup \<and> ar_subject_id r \<in> set groups)) \<and>
      ar_connection_id r = conn \<and> ar_revoked_at r = None \<and> not_expired now (ar_expires_at r))"

definition ListActiveRules :: "timestamp \<Rightarrow> store \<Rightarrow> id64 \<Rightarrow> id64 list \<Rightarrow> id64 \<Rightarrow> access_rule list" where
  "ListActiveRules now s subject groups conn =
     sort_key (\<lambda>r. (if ar_effect r = EffDeny then 0 else 1 :: nat))
       (sort_key ar_id (filter (active_rule now subject groups conn) (s_access_rules s)))"

end
