(* ===== verification/Ticket_Access.thy ===== *)
theory Ticket_Access
  imports Ticket_Store
begin

text \<open>
  Who may see, review, execute, stop, reject, withdraw and revoke a ticket: the checks of
  \<open>internal/handler/ticket.go\<close> and \<open>HasPermission\<close> of \<open>internal/middleware/auth.go\<close>. A check
  returns \<open>None\<close> when one of its database reads fails.
\<close>

section \<open>The request\<close>

record request =
  q_user :: id64
  q_permissions :: "string list"
  q_now :: timestamp
  q_workflow :: workflow_env
  q_app_env :: string

definition HasPermission :: "request \<Rightarrow> string list \<Rightarrow> bool" where
  "HasPermission q keys = list_ex (\<lambda>k. k \<in> set keys) (q_permissions q)"

datatype approval_workflow =
    WfDDL | WfDML | WfRedisCommand | WfQueryAccess | WfSQLExportNormal | WfSQLExportSensitive
  | WfSensitiveQueryAccess | WfNone

definition approvalWorkflowForTicket :: "ticket \<Rightarrow> approval_workflow" where
  "approvalWorkflowForTicket t = (case t_type t of
     DDL \<Rightarrow> WfDDL | DML \<Rightarrow> WfDML | RedisCommand \<Rightarrow> WfRedisCommand | QueryAccess \<Rightarrow> WfQueryAccess
   | SQLExport \<Rightarrow> if t_contains_sensitive t = Some True then WfSQLExportSensitive else WfSQLExportNormal
   | SensitiveQueryAccess \<Rightarrow> WfSensitiveQueryAccess
   | OtherType _ \<Rightarrow> WfNone)"

definition reviewPermissionsForWorkflow :: "approval_workflow \<Rightarrow> string list" where
  "reviewPermissionsForWorkflow w = (case w of
     WfSQLExportNormal \<Rightarrow> [''sql_editor.export_review''] | WfSQLExportSensitive \<Rightarrow> [''sql_editor.export_review'']
   | WfSensitiveQueryAccess \<Rightarrow> [''sql_editor.sensitive_review'']
   | WfNone \<Rightarrow> []
   | _ \<Rightarrow> [''tickets.review''])"

definition canReviewWorkflowByPermission :: "request \<Rightarrow> approval_workflow \<Rightarrow> bool" where
  "canReviewWorkflowByPermission q w = list_ex (\<lambda>k. HasPermission q [k]) (reviewPermissionsForWorkflow w)"

definition isGeneralTicketApplyType :: "ticket_type \<Rightarrow> bool" where
  "isGeneralTicketApplyType tt = (tt = DDL \<or> tt = DML \<or> tt = RedisCommand \<or> tt = QueryAccess)"

definition isFullTicketExecutionRunMode :: "string option \<Rightarrow> bool" where
  "isFullTicketExecutionRunMode m = (case m of None \<Rightarrow> False
     | Some v \<Rightarrow> trim_space v \<in> {run_mode_batch, run_mode_workflow_auto, run_mode_whole_ticket})"

definition isDMLWholeTicketExecutionMode :: "string option \<Rightarrow> bool" where
  "isDMLWholeTicketExecutionMode m = (case m of None \<Rightarrow> False | Some v \<Rightarrow> trim_space v = dml_mode_whole_ticket)"

definition resolution_of :: "request \<Rightarrow> store \<Rightarrow> ticket \<Rightarrow> workflow_resolution option" where
  "resolution_of q s t = ticketWorkflowResolution (q_workflow q) (GetWorkflowSnapshot s) t"

section \<open>Checks\<close>

definition in_privileged_group :: "request \<Rightarrow> id64 \<Rightarrow> string list \<Rightarrow> bool option" where
  "in_privileged_group q user groups =
     (if \<not> w_configured (q_workflow q) \<or> user = 0 then Some False
      else do {
        full \<leftarrow> read_db (q_workflow q) (QueryAllPermissions user)
          (HasAllPermissions (w_now (q_workflow q)) (w_identity (q_workflow q)) user);
        if full then Some True
        else do {
          gs \<leftarrow> read_db (q_workflow q) (QueryUserGroups user)
            (GetAuthGroups (w_now (q_workflow q)) (w_identity (q_workflow q)) user);
          Some (list_ex (\<lambda>g. g \<in> set groups) gs)
        }
      })"

definition canViewFullTicketQueue :: "request \<Rightarrow> id64 \<Rightarrow> bool option" where
  "canViewFullTicketQueue q user = in_privileged_group q user [AuthGroupAdmin, ''dba'']"

definition canAdminOverrideTicketReview :: "request \<Rightarrow> id64 \<Rightarrow> bool option" where
  "canAdminOverrideTicketReview q user = in_privileged_group q user [AuthGroupAdmin]"

definition own_step_allowed :: "request \<Rightarrow> bool \<Rightarrow> id64 \<Rightarrow> bypass_kind \<Rightarrow> bool option" where
  "own_step_allowed q own user kind =
     (if own then workflowBypassAllowed (q_workflow q) user kind else Some True)"

definition canReviewTicket :: "request \<Rightarrow> store \<Rightarrow> ticket \<Rightarrow> id64 \<Rightarrow> bool option" where
  "canReviewTicket q s t user = do {
     own \<leftarrow> own_step_allowed q (t_submitter_id t = user) user SelfReview;
     if \<not> own then Some False
     else if \<not> canReviewWorkflowByPermission q (approvalWorkflowForTicket t) then Some False
     else do {
       r \<leftarrow> resolution_of q s t;
       if r_error_code r \<noteq> [] \<or> \<not> r_approval_enabled r then Some False
       else do {
         admin \<leftarrow> canAdminOverrideTicketReview q user;
         if admin then Some True else Some (user \<in> set (r_approval_users r))
       }
     }
   }"

definition canExecuteTicket :: "request \<Rightarrow> store \<Rightarrow> ticket \<Rightarrow> id64 \<Rightarrow> bool option" where
  "canExecuteTicket q s t user =
     (if \<not> isExecutableTicketType (t_type t) \<or> (t_status t \<noteq> PendingExecution \<and> t_status t \<noteq> Executing) then Some False
      else do {
        own \<leftarrow> own_step_allowed q (t_submitter_id t = user) user SelfExecute;
        if \<not> own then Some False
        else do {
          multi \<leftarrow> own_step_allowed q (t_reviewer_id t = Some user) user MultiStep;
          if \<not> multi then Some False
          else if \<not> HasPermission q [''tickets.execute''] then Some False
          else do {
            r \<leftarrow> resolution_of q s t;
            if r_error_code r \<noteq> [] then Some False else Some (user \<in> set (r_executor_users r))
          }
        }
      })"

definition canViewTicket :: "request \<Rightarrow> store \<Rightarrow> ticket \<Rightarrow> id64 \<Rightarrow> bool option" where
  "canViewTicket q s t user = do {
     full \<leftarrow> canViewFullTicketQueue q user;
     if full then Some True
     else if t_submitter_id t = user then Some True
     else do {
       review \<leftarrow> canReviewTicket q s t user;
       if review then Some True else canExecuteTicket q s t user
     }
   }"

definition canStopTicket :: "request \<Rightarrow> store \<Rightarrow> ticket \<Rightarrow> id64 \<Rightarrow> bool option" where
  "canStopTicket q s t user =
     (if \<not> HasPermission q [''tickets.execute''] then Some False
      else if t_executor_id t = Some user then Some True
      else do {
        ex \<leftarrow> canExecuteTicket q s t user;
        if ex then Some True else canViewFullTicketQueue q user
      })"

definition canRejectTicket :: "request \<Rightarrow> store \<Rightarrow> ticket \<Rightarrow> id64 \<Rightarrow> bool option" where
  "canRejectTicket q s t user = do {
     review \<leftarrow> canReviewTicket q s t user;
     if review then Some True
     else if t_type t \<in> {DDL, DML, RedisCommand} \<and> t_status t \<in> {Approved, PendingExecution}
     then canExecuteTicket q s t user
     else Some False
   }"

definition canWithdrawTicket :: "request \<Rightarrow> ticket \<Rightarrow> id64 \<Rightarrow> bool option" where
  "canWithdrawTicket q t user =
     (if \<not> HasPermission q [''tickets.apply''] then Some False
      else Some (t_submitter_id t = user \<and> t_status t = PendingReview))"

definition canRevokeTicket :: "request \<Rightarrow> ticket \<Rightarrow> id64 \<Rightarrow> bool option" where
  "canRevokeTicket q t user =
     (if t_type t \<noteq> SensitiveQueryAccess \<and> t_type t \<noteq> QueryAccess then Some False
      else if t_status t \<noteq> Approved then Some False
      else if t_type t = SensitiveQueryAccess then Some (HasPermission q [''sql_editor.sensitive_review''])
      else Some (HasPermission q [''tickets.review'']))"

definition validateTicketDBType :: "ticket_type \<Rightarrow> string \<Rightarrow> bool" where
  "validateTicketDBType tt dbType =
     (let n = to_lower (trim_space dbType)
      in case tt of
           RedisCommand \<Rightarrow> n = ''redis''
         | QueryAccess \<Rightarrow> n \<in> {''mysql'', ''postgres'', ''postgresql'', ''redis''}
         | OtherType _ \<Rightarrow> True
         | _ \<Rightarrow> n \<in> {''mysql'', ''postgres'', ''postgresql''})"

section \<open>Separation of duties\<close>

lemma own_step_allowed_True:
  "own_step_allowed q own user kind = Some True \<Longrightarrow> own \<Longrightarrow> workflowBypassAllowed (q_workflow q) user kind = Some True"
  by (simp add: own_step_allowed_def)

lemma canExecuteTicket_True:
  assumes "canExecuteTicket q s t user = Some True"
  shows "isExecutableTicketType (t_type t)" and "t_status t \<in> {PendingExecution, Executing}"
    and "HasPermission q [''tickets.execute'']"
    and "t_submitter_id t = user \<Longrightarrow> workflowBypassAllowed (q_workflow q) user SelfExecute = Some True"
    and "t_reviewer_id t = Some user \<Longrightarrow> workflowBypassAllowed (q_workflow q) user MultiStep = Some True"
    and "\<exists>r. resolution_of q s t = Some r \<and> r_error_code r = [] \<and> user \<in> set (r_executor_users r)"
  using assms
  by (auto simp: canExecuteTicket_def own_step_allowed_def bind_eq_Some_conv split: if_splits)

lemma canReviewTicket_True:
  assumes "canReviewTicket q s t user = Some True"
  shows "t_submitter_id t = user \<Longrightarrow> workflowBypassAllowed (q_workflow q) user SelfReview = Some True"
    and "canReviewWorkflowByPermission q (approvalWorkflowForTicket t)"
    and "\<exists>r. resolution_of q s t = Some r \<and> r_error_code r = [] \<and> r_approval_enabled r \<and>
          (canAdminOverrideTicketReview q user = Some True \<or> user \<in> set (r_approval_users r))"
  using assms
  by (auto simp: canReviewTicket_def own_step_allowed_def bind_eq_Some_conv split: if_splits)

end
