(* ===== verification/Runtime.thy ===== *)
theory Runtime
  imports Ticket_State
begin

text \<open>
  In-memory services of the server: the sliding-window limiter of forbidden requests
  (\<open>internal/handler/rate_limiter.go\<close>) and the event broker behind the browser's event stream
  (\<open>internal/realtime/broker.go\<close>). Both hold a mutex for each operation, so an operation is
  one step on the state. A buffered channel is the list of its waiting events.
\<close>

section \<open>Rate limiter\<close>

record limiter =
  l_limit :: int
  l_window :: int
  l_history :: "string \<Rightarrow> timestamp list"

definition Allow :: "string \<Rightarrow> timestamp \<Rightarrow> limiter \<Rightarrow> bool \<times> limiter" where
  "Allow key now l =
     (if key = [] \<or> l_limit l \<le> 0 \<or> l_window l \<le> 0 then (True, l)
      else let cutoff = now - l_window l;
               kept = filter (\<lambda>hit. hit > cutoff) (l_history l key)
        in if int (length kept) \<ge> l_limit l then (False, l\<lparr>l_history := (l_history l)(key := kept)\<rparr>)
           else (True, l\<lparr>l_history := (l_history l)(key := kept @ [now])\<rparr>))"

text \<open>The times at which calls for \<open>key\<close> were allowed, in a sequence of calls for any keys.\<close>

fun allowed_times :: "string \<Rightarrow> (string \<times> timestamp) list \<Rightarrow> limiter \<Rightarrow> timestamp list" where
  "allowed_times key [] l = []"
| "allowed_times key ((k, now) # calls) l =
     (case Allow k now l of (ok, l') \<Rightarrow>
        (if k = key \<and> ok then [now] else []) @ allowed_times key calls l')"

section \<open>Broker\<close>

record 'e subscription =
  sub_id :: id64
  sub_user :: id64
  sub_buffer :: nat
  sub_queue :: "'e list"

record 'e broker =
  b_next :: id64
  b_subs :: "'e subscription list"

definition Subscribe :: "id64 \<Rightarrow> int \<Rightarrow> 'e broker \<Rightarrow> id64 \<times> 'e broker" where
  "Subscribe user buffer b =
     (let i = b_next b + 1
      in (i, b\<lparr>b_next := i, b_subs := b_subs b @
           [\<lparr>sub_id = i, sub_user = user, sub_buffer = (if buffer \<le> 0 then 1 else nat buffer), sub_queue = []\<rparr>]\<rparr>))"

definition cancel_subscription :: "id64 \<Rightarrow> 'e broker \<Rightarrow> 'e broker" where
  "cancel_subscription i b = b\<lparr>b_subs := filter (\<lambda>s. sub_id s \<noteq> i) (b_subs b)\<rparr>"

fun dedupe_aux :: "id64 list \<Rightarrow> id64 list \<Rightarrow> id64 list" where
  "dedupe_aux seen [] = []"
| "dedupe_aux seen (u # us) =
     (if u = 0 \<or> u \<in> set seen then dedupe_aux seen us else u # dedupe_aux (u # seen) us)"

definition dedupeUserIDs :: "id64 list \<Rightarrow> id64 list" where
  "dedupeUserIDs us = dedupe_aux [] us"

text \<open>A send that finds the channel full drops the oldest event and sends again.\<close>

definition offer :: "'e \<Rightarrow> 'e subscription \<Rightarrow> 'e subscription" where
  "offer e s =
     (if length (sub_queue s) < sub_buffer s then s\<lparr>sub_queue := sub_queue s @ [e]\<rparr>
      else let q = tl (sub_queue s)
        in if length q < sub_buffer s then s\<lparr>sub_queue := q @ [e]\<rparr> else s\<lparr>sub_queue := q\<rparr>)"

definition deliver :: "'e \<Rightarrow> id64 \<Rightarrow> 'e broker \<Rightarrow> 'e broker" where
  "deliver e user b = b\<lparr>b_subs := map (\<lambda>s. if sub_user s = user then offer e s else s) (b_subs b)\<rparr>"

definition PublishToUsers :: "id64 list \<Rightarrow> string \<Rightarrow> 'e \<Rightarrow> (string \<times> 'e) broker \<Rightarrow> (string \<times> 'e) broker" where
  "PublishToUsers users eventType payload b =
     (if users = [] \<or> eventType = [] then b
      else fold (deliver (eventType, payload)) (dedupeUserIDs users) b)"

section \<open>Running queries\<close>

text \<open>
  The registry of running statements (\<open>activeSQLQueryRegistry\<close> of \<open>internal/handler/query.go\<close>). A cancel
  for a query that has not registered yet is kept for two minutes. Times are in seconds.
\<close>

record active_query =
  aq_user :: id64
  aq_conn :: id64
  aq_ticket :: id64
  aq_db_type :: string
  aq_thread :: nat
  aq_pid :: nat
  aq_statement :: string
  aq_has_opener :: bool

record pending_cancel =
  pc_user :: id64
  pc_created_at :: timestamp

record query_registry =
  qr_queries :: "string \<rightharpoonup> active_query"
  qr_pending :: "string \<rightharpoonup> pending_cancel"

definition pruneLocked :: "timestamp \<Rightarrow> query_registry \<Rightarrow> query_registry" where
  "pruneLocked now r = r\<lparr>qr_pending := (\<lambda>i. case qr_pending r i of None \<Rightarrow> None
     | Some p \<Rightarrow> if now - pc_created_at p > 120 then None else Some p)\<rparr>"

definition register_query :: "timestamp \<Rightarrow> string \<Rightarrow> active_query \<Rightarrow> query_registry \<Rightarrow> bool \<times> query_registry" where
  "register_query now i qy r =
     (if trim_space i = [] then (False, r)
      else let r1 = pruneLocked now r
        in case qr_pending r1 i of
             Some p \<Rightarrow>
               if pc_user p = 0 \<or> pc_user p = aq_user qy then (True, r1\<lparr>qr_pending := (qr_pending r1)(i := None)\<rparr>)
               else (False, r1\<lparr>qr_queries := (qr_queries r1)(i \<mapsto> qy)\<rparr>)
           | None \<Rightarrow> (False, r1\<lparr>qr_queries := (qr_queries r1)(i \<mapsto> qy)\<rparr>))"

definition remove_query :: "string \<Rightarrow> query_registry \<Rightarrow> query_registry" where
  "remove_query i r = (if trim_space i = [] then r else r\<lparr>qr_queries := (qr_queries r)(i := None)\<rparr>)"

definition cancel_query :: "timestamp \<Rightarrow> string \<Rightarrow> id64 \<Rightarrow> query_registry \<Rightarrow> active_query option \<times> query_registry" where
  "cancel_query now i user r =
     (if trim_space i = [] then (None, r)
      else let r1 = pruneLocked now r
        in case qr_queries r1 i of
             Some qy \<Rightarrow> if aq_user qy = user then (Some qy, r1\<lparr>qr_queries := (qr_queries r1)(i := None)\<rparr>) else (None, r1)
           | None \<Rightarrow> (None, r1\<lparr>qr_pending := (qr_pending r1)(i \<mapsto> \<lparr>pc_user = user, pc_created_at = now\<rparr>)\<rparr>))"

definition cancelAnyOrPending :: "timestamp \<Rightarrow> string \<Rightarrow> query_registry \<Rightarrow> active_query option \<times> query_registry" where
  "cancelAnyOrPending now i r =
     (if trim_space i = [] then (None, r)
      else let r1 = pruneLocked now r
        in case qr_queries r1 i of
             Some qy \<Rightarrow> (Some qy, r1\<lparr>qr_queries := (qr_queries r1)(i := None)\<rparr>)
           | None \<Rightarrow> (None, r1\<lparr>qr_pending := (qr_pending r1)(i \<mapsto> \<lparr>pc_user = 0, pc_created_at = now\<rparr>)\<rparr>))"

definition cancelAll :: "timestamp \<Rightarrow> query_registry \<Rightarrow> (string \<rightharpoonup> active_query) \<times> query_registry" where
  "cancelAll now r = (qr_queries r, (pruneLocked now r)\<lparr>qr_queries := (\<lambda>_. None)\<rparr>)"

section \<open>The limiter admits at most the limit in any window\<close>

lemma Allow_other: "k \<noteq> key \<Longrightarrow> l_history (snd (Allow k now l)) key = l_history l key"
  by (simp add: Allow_def Let_def)

lemma Allow_config [simp]:
  "l_limit (snd (Allow k now l)) = l_limit l" "l_window (snd (Allow k now l)) = l_window l"
  by (simp_all add: Allow_def Let_def)

text \<open>
  The history of the key holds every admitted time that is still inside the window, and every
  window of admitted times is within the limit. \<open>past\<close> are the times admitted so far.
\<close>

definition within :: "int \<Rightarrow> int \<Rightarrow> int list \<Rightarrow> int list" where
  "within T w ts = filter (\<lambda>t. T - w < t \<and> t \<le> T) ts"

definition limiter_inv :: "string \<Rightarrow> timestamp \<Rightarrow> timestamp list \<Rightarrow> limiter \<Rightarrow> bool" where
  "limiter_inv key prev past l \<longleftrightarrow>
     (\<forall>t \<in> set past. t \<le> prev) \<and>
     (\<forall>c \<ge> prev - l_window l. filter (\<lambda>t. t > c) (l_history l key) = filter (\<lambda>t. t > c) past) \<and>
     (\<forall>T. int (length (within T (l_window l) past)) \<le> l_limit l)"

lemma limiter_inv_later:
  "limiter_inv key prev past l \<Longrightarrow> prev \<le> now \<Longrightarrow> limiter_inv key now past l"
  by (force simp: limiter_inv_def)

lemma limiter_inv_hit:
  assumes inv: "limiter_inv key now past l" and ok: "key \<noteq> []" "0 < l_limit l" "0 < l_window l"
  shows "limiter_inv key now (past @ (if fst (Allow key now l) then [now] else [])) (snd (Allow key now l))"
proof (cases "fst (Allow key now l)")
  case False
  with inv ok show ?thesis
    by (auto simp: limiter_inv_def Allow_def Let_def filter_filter split: if_splits)
       (smt (verit, best) filter_cong)
next
  case True
  let ?kept = "filter (\<lambda>t. t > now - l_window l) (l_history l key)"
  have few: "int (length ?kept) < l_limit l" and h: "l_history (snd (Allow key now l)) key = ?kept @ [now]"
    using True ok by (auto simp: Allow_def Let_def split: if_splits)
  have kept: "?kept = filter (\<lambda>t. t > now - l_window l) past" using inv by (simp add: limiter_inv_def)
  have "filter (\<lambda>t. t > c) (?kept @ [now]) = filter (\<lambda>t. t > c) (past @ [now])" if "c \<ge> now - l_window l" for c
  proof -
    have "filter (\<lambda>t. t > c) ?kept = filter (\<lambda>t. t > c) past"
      unfolding kept using that by (simp add: filter_filter) (smt (verit, best) filter_cong)
    then show ?thesis by simp
  qed
  moreover have "int (length (within T (l_window l) (past @ [now]))) \<le> l_limit l" for T
  proof (cases "now \<le> T")
    case True
    have "length (within T (l_window l) past) \<le> length ?kept"
      unfolding kept within_def using True
      by (induction past) auto
    with few show ?thesis by (simp add: within_def)
  next
    case False
    with inv show ?thesis by (simp add: within_def limiter_inv_def)
  qed
  ultimately show ?thesis
    using inv True unfolding limiter_inv_def h by simp
qed

lemma allowed_times_within:
  assumes "key \<noteq> []" "0 < l_limit l" "0 < l_window l" "sorted (map snd calls)"
    and "limiter_inv key prev past l" and "\<forall>c \<in> set calls. prev \<le> snd c"
  shows "int (length (within T (l_window l) (past @ allowed_times key calls l))) \<le> l_limit l"
  using assms
proof (induction calls arbitrary: prev past l)
  case Nil
  then show ?case by (simp add: limiter_inv_def)
next
  case (Cons call calls)
  obtain k now where call: "call = (k, now)" by (cases call)
  let ?l' = "snd (Allow k now l)"
  let ?hit = "if k = key \<and> fst (Allow k now l) then [now] else []"
  have inv: "limiter_inv key now past l"
    using limiter_inv_later [OF Cons.prems(5)] Cons.prems(6) by (simp add: call)
  have "limiter_inv key now (past @ ?hit) ?l'"
  proof (cases "k = key")
    case True
    with limiter_inv_hit [OF inv Cons.prems(1-3)] show ?thesis by simp
  next
    case False
    with inv show ?thesis by (simp add: limiter_inv_def Allow_other)
  qed
  moreover have "\<forall>c \<in> set calls. now \<le> snd c" "sorted (map snd calls)" using Cons.prems(4) by (auto simp: call)
  ultimately have "int (length (within T (l_window ?l') ((past @ ?hit) @ allowed_times key calls ?l'))) \<le> l_limit ?l'"
    using Cons.prems(1-3) by (intro Cons.IH) auto
  moreover have "l_window ?l' = l_window l" "l_limit ?l' = l_limit l" by simp_all
  ultimately show ?case by (cases "Allow k now l") (auto simp: call split: if_splits)
qed

text \<open>
  C26: however requests of different callers interleave, the limiter admits at most \<open>limit\<close>
  requests of one caller in any window of the configured length.
\<close>

theorem limiter_window_bound:
  assumes "key \<noteq> []" and "0 < l_limit l" and "0 < l_window l" and "l_history l key = []"
    and "sorted (map snd calls)"
  shows "int (length (filter (\<lambda>t. T - l_window l < t \<and> t \<le> T) (allowed_times key calls l))) \<le> l_limit l"
proof (cases calls)
  case Nil
  with assms show ?thesis by simp
next
  case (Cons c cs)
  have "limiter_inv key (snd c) [] l" using assms by (simp add: limiter_inv_def within_def)
  moreover have "\<forall>d \<in> set calls. snd c \<le> snd d" using assms(5) by (auto simp: Cons)
  ultimately show ?thesis
    using allowed_times_within [OF assms(1-3,5), of "snd c" "[]"] by (simp add: within_def)
qed

theorem limiter_window_bound_witness:
  "allowed_times ''7:ip'' [(''7:ip'', 0), (''7:ip'', 1), (''8:ip'', 2), (''7:ip'', 3), (''7:ip'', 12)]
     \<lparr>l_limit = 2, l_window = 10, l_history = (\<lambda>_. [])\<rparr> = [0, 1, 12] \<and>
   int (length (filter (\<lambda>t. 9 - 10 < t \<and> t \<le> 9) [0, 1, 12 :: int])) \<le> 2"
  using limiter_window_bound [of "''7:ip''" "\<lparr>l_limit = 2, l_window = 10, l_history = (\<lambda>_. [])\<rparr>"
      "[(''7:ip'', 0), (''7:ip'', 1), (''8:ip'', 2), (''7:ip'', 3), (''7:ip'', 12)]" 9]
  by (simp add: Allow_def)

section \<open>A subscriber holds the newest events\<close>

definition newest :: "nat \<Rightarrow> 'e list \<Rightarrow> 'e list" where
  "newest n es = drop (length es - n) es"

definition broker_wf :: "'e broker \<Rightarrow> bool" where
  "broker_wf b \<longleftrightarrow> distinct (map sub_id (b_subs b)) \<and> (\<forall>s \<in> set (b_subs b). sub_id s \<le> b_next b \<and>
     1 \<le> sub_buffer s \<and> length (sub_queue s) \<le> sub_buffer s)"

lemma offer_frame [simp]:
  "sub_id (offer e s) = sub_id s" "sub_user (offer e s) = sub_user s" "sub_buffer (offer e s) = sub_buffer s"
  by (simp_all add: offer_def Let_def)

lemma offer_queue:
  "1 \<le> sub_buffer s \<Longrightarrow> length (sub_queue s) \<le> sub_buffer s \<Longrightarrow>
   sub_queue (offer e s) = newest (sub_buffer s) (sub_queue s @ [e])"
  by (cases "sub_queue s") (auto simp: offer_def newest_def Let_def)

lemma newest_length: "length es \<le> n \<Longrightarrow> newest n es = es"
  by (simp add: newest_def)

lemma newest_append: "newest n (newest n xs @ ys) = newest n (xs @ ys)"
  by (cases "length xs \<le> n") (simp_all add: newest_def add.commute)

lemma length_newest: "length (newest n es) \<le> n"
  by (simp add: newest_def)

lemma dedupe_aux_set: "set (dedupe_aux seen us) = set us - {0} - set seen"
  by (induction us arbitrary: seen) auto

lemma dedupe_aux_distinct: "distinct (dedupe_aux seen us)"
  by (induction us arbitrary: seen) (auto simp: dedupe_aux_set)

lemma dedupeUserIDs_set [simp]: "set (dedupeUserIDs us) = set us - {0}"
  by (simp add: dedupeUserIDs_def dedupe_aux_set)

lemma fold_deliver:
  "distinct us \<Longrightarrow> b_subs (fold (deliver e) us b) = map (\<lambda>s. if sub_user s \<in> set us then offer e s else s) (b_subs b)"
proof (induction us arbitrary: b)
  case Nil
  then show ?case by simp
next
  case (Cons u us)
  then show ?case by (auto simp: deliver_def)
qed

lemma b_next_fold_deliver [simp]: "b_next (fold (deliver e) us b) = b_next b"
  by (induction us arbitrary: b) (simp_all add: deliver_def)

lemma PublishToUsers_subs:
  "eventType \<noteq> [] \<Longrightarrow> b_subs (PublishToUsers users eventType payload b) =
     map (\<lambda>s. if sub_user s \<in> set users - {0} then offer (eventType, payload) s else s) (b_subs b)"
  using fold_deliver [OF dedupe_aux_distinct, of _ "[]" users b]
  by (auto simp: PublishToUsers_def dedupeUserIDs_def dedupe_aux_set)

lemma broker_wf_publish: "broker_wf b \<Longrightarrow> broker_wf (PublishToUsers users eventType payload b)"
proof (cases "users = [] \<or> eventType = []")
  case True
  then show "broker_wf b \<Longrightarrow> ?thesis" by (auto simp: PublishToUsers_def)
next
  case False
  have next_same: "b_next (PublishToUsers users eventType payload b) = b_next b"
    by (simp add: PublishToUsers_def)
  have ids: "map sub_id (map (\<lambda>s. if sub_user s \<in> set users - {0} then offer (eventType, payload) s else s) (b_subs b))
      = map sub_id (b_subs b)" by simp
  have len: "1 \<le> sub_buffer s \<Longrightarrow> length (sub_queue s) \<le> sub_buffer s \<Longrightarrow>
      length (sub_queue (offer (eventType, payload) s)) \<le> sub_buffer s" for s
    by (simp add: offer_queue length_newest)
  assume "broker_wf b"
  with False show ?thesis
    unfolding broker_wf_def next_same PublishToUsers_subs [OF False [unfolded de_Morgan_disj, THEN conjunct2]] ids
    using len by auto
qed

lemma broker_wf_subscribe: "broker_wf b \<Longrightarrow> broker_wf (snd (Subscribe user buffer b))"
  by (fastforce simp: broker_wf_def Subscribe_def Let_def)

lemma broker_wf_cancel: "broker_wf b \<Longrightarrow> broker_wf (cancel_subscription i b)"
  by (auto simp: broker_wf_def cancel_subscription_def distinct_map_filter)

text \<open>Publications as a sequence, and the events among them addressed to one user.\<close>

fun publish_all :: "(id64 list \<times> string \<times> 'e) list \<Rightarrow> (string \<times> 'e) broker \<Rightarrow> (string \<times> 'e) broker" where
  "publish_all [] b = b"
| "publish_all ((users, ty, payload) # ps) b = publish_all ps (PublishToUsers users ty payload b)"

fun events_for :: "id64 \<Rightarrow> (id64 list \<times> string \<times> 'e) list \<Rightarrow> (string \<times> 'e) list" where
  "events_for u [] = []"
| "events_for u ((users, ty, payload) # ps) =
     (if u \<noteq> 0 \<and> u \<in> set users \<and> ty \<noteq> [] then [(ty, payload)] else []) @ events_for u ps"

text \<open>
  A subscriber that has not read yet holds exactly the newest events addressed to its user, in the
  order of publication and as many as its buffer takes; publishing never blocks and a full buffer
  of one subscriber does not affect another.
\<close>

theorem broker_keeps_newest:
  assumes "broker_wf b" and "s \<in> set (b_subs b)"
  shows "\<exists>s' \<in> set (b_subs (publish_all ps b)). sub_id s' = sub_id s \<and>
     sub_queue s' = newest (sub_buffer s) (sub_queue s @ events_for (sub_user s) ps)"
  using assms
proof (induction ps arbitrary: b s)
  case Nil
  then show ?case by (auto simp: broker_wf_def newest_length)
next
  case (Cons p ps)
  obtain users ty payload where p: "p = (users, ty, payload)" by (cases p)
  let ?b = "PublishToUsers users ty payload b"
  let ?hit = "sub_user s \<noteq> 0 \<and> sub_user s \<in> set users \<and> ty \<noteq> []"
  let ?s = "if ?hit then offer (ty, payload) s else s"
  have "?s \<in> set (b_subs ?b)"
  proof (cases "ty = []")
    case True
    with Cons.prems(2) show ?thesis by (simp add: PublishToUsers_def)
  next
    case False
    with Cons.prems(2) show ?thesis by (auto simp: PublishToUsers_subs)
  qed
  from Cons.IH [OF broker_wf_publish [OF Cons.prems(1)] this] obtain s'
    where s': "s' \<in> set (b_subs (publish_all ps ?b))" "sub_id s' = sub_id s"
      "sub_queue s' = newest (sub_buffer s) (sub_queue ?s @ events_for (sub_user s) ps)"
    by (auto split: if_splits)
  have "1 \<le> sub_buffer s" "length (sub_queue s) \<le> sub_buffer s" using Cons.prems by (auto simp: broker_wf_def)
  then have "newest (sub_buffer s) (sub_queue ?s @ events_for (sub_user s) ps) =
      newest (sub_buffer s) (sub_queue s @ events_for (sub_user s) (p # ps))"
    using newest_append [of "sub_buffer s" "sub_queue s @ [(ty, payload)]" "events_for (sub_user s) ps"]
    by (simp add: p offer_queue)
  with s' show ?case by (auto simp: p)
qed

theorem broker_keeps_newest_witness:
  "\<exists>s' \<in> set (b_subs (publish_all [([2], ''a'', 1 :: int), ([2, 3], ''b'', 2), ([3], ''c'', 3), ([2], ''d'', 4)]
       \<lparr>b_next = 1, b_subs = [\<lparr>sub_id = 1, sub_user = 2, sub_buffer = 2, sub_queue = []\<rparr>]\<rparr>)).
     sub_queue s' = [(''b'', 2), (''d'', 4)]"
  using broker_keeps_newest [of "\<lparr>b_next = 1, b_subs = [\<lparr>sub_id = 1, sub_user = 2, sub_buffer = 2, sub_queue = []\<rparr>]\<rparr>"
      "\<lparr>sub_id = 1, sub_user = 2, sub_buffer = 2, sub_queue = []\<rparr>"
      "[([2], ''a'', 1 :: int), ([2, 3], ''b'', 2), ([3], ''c'', 3), ([2], ''d'', 4)]"]
  by (auto simp: broker_wf_def newest_def)

section \<open>A cancel is not lost\<close>



end
