(* ===== verification/Ticket_Handlers.thy ===== *)
theory Ticket_Handlers
  imports Ticket_Access Runtime
begin

text \<open>
  The request handlers of \<open>internal/handler/ticket.go\<close> that move a ticket through review:
  resolution after creation, retry, approve, reject, withdraw, stop, revoke and execute.

  A handler gets the ticket \<open>t\<close> it loaded at the start of the request, which may be out of date,
  and the \<open>world\<close> at the time of its first write. \<open>fl\<close> says which of its database calls fail.
  Audit entries, notifications, published updates and started goroutines are the \<open>effects\<close> the
  handler appends to the world. The texts of notifications are left out.
\<close>

section \<open>World\<close>

datatype effect =
    Audit string "id64 option" id64
  | Notify string id64 "id64 option"
  | Publish id64
  | CardSync id64
  | SpawnRun id64 id64 bool
  | SpawnStatement id64 id64 id64
  | RunSQL id64 string
  | CommitTx id64
  | RollbackTx id64

record export_request =
  x_id :: id64
  x_ticket_id :: "id64 option"
  x_requester_id :: id64
  x_approver_id :: "id64 option"
  x_sql_content :: string
  x_db_connection_id :: id64
  x_status :: string

record world =
  wd_store :: store
  wd_exports :: "export_request list"
  wd_next_export :: id64
  wd_effects :: "effect list"
  wd_limiter :: limiter

datatype write_op =
    OpSnapshot | OpStatus ticket_status | OpLoad | OpApproveSensitive | OpApproveAccess | OpExport | OpStart
  | OpCompleted | OpStopped | OpScheduled | OpRevoke | OpEnsure | OpExecution | OpClaim

datatype response = Response nat string

definition emit :: "effect \<Rightarrow> world \<Rightarrow> world" where
  "emit e w = w\<lparr>wd_effects := wd_effects w @ [e]\<rparr>"

definition write_store :: "(write_op \<Rightarrow> bool) \<Rightarrow> write_op \<Rightarrow> (store \<Rightarrow> bool \<times> store) \<Rightarrow> world \<Rightarrow> bool option \<times> world" where
  "write_store fl op f w =
     (if fl op then (None, w)
      else case f (wd_store w) of (ok, s') \<Rightarrow> (Some ok, w\<lparr>wd_store := s'\<rparr>))"

definition always :: "(store \<Rightarrow> store) \<Rightarrow> store \<Rightarrow> bool \<times> store" where
  "always f s = (True, f s)"

text \<open>The ticket as stored now, or the one at hand when the read fails or finds nothing.\<close>

definition reload :: "(write_op \<Rightarrow> bool) \<Rightarrow> ticket \<Rightarrow> world \<Rightarrow> ticket" where
  "reload fl t w = (if fl OpLoad then t else case GetTicket (wd_store w) (t_id t) of None \<Rightarrow> t | Some t' \<Rightarrow> t')"

definition trimOptionalString :: "string option \<Rightarrow> string option" where
  "trimOptionalString v = (case v of None \<Rightarrow> None | Some x \<Rightarrow> if trim_space x = [] then None else Some (trim_space x))"

datatype ticket_ref = RefInvalid | RefId id64 | RefNumber string

definition parseTicketRef :: "string \<Rightarrow> ticket_ref" where
  "parseTicketRef raw =
     (let ref = trim_space raw
      in if ref = [] then RefInvalid
         else case parse_uint64 ref of Some i \<Rightarrow> if i = 0 then RefInvalid else RefId i | None \<Rightarrow> RefNumber ref)"

definition resolveTicketRef :: "store \<Rightarrow> string \<Rightarrow> ticket option option" where
  "resolveTicketRef s raw = (case parseTicketRef raw of RefInvalid \<Rightarrow> None
     | RefId i \<Rightarrow> Some (GetTicket s i)
     | RefNumber no \<Rightarrow> Some (find (\<lambda>t. t_ticket_no t = no) (s_tickets s)))"

definition forbidTicketAccess :: "request \<Rightarrow> string \<Rightarrow> ticket \<Rightarrow> world \<Rightarrow> response \<times> world" where
  "forbidTicketAccess q ip t w =
     (case Allow (nat_show (q_user q) @ '':'' @ ip) (q_now q) (wd_limiter w) of (ok, l) \<Rightarrow>
        let w1 = emit (Audit ''ticket_forbidden_access'' (Some (q_user q)) (t_id t)) (w\<lparr>wd_limiter := l\<rparr>)
        in if ok then (Response 403 ''forbidden'', w1)
           else (Response 429 ''too many forbidden ticket access attempts'', w1))"

section \<open>Automatic steps\<close>

definition shouldAutoExecuteAfterApproval :: "request \<Rightarrow> ticket \<Rightarrow> workflow_resolution \<Rightarrow> bool" where
  "shouldAutoExecuteAfterApproval q t r =
     (if q_app_env q = ''production'' then False
      else if r_execution_mode r \<noteq> mode_auto then False
      else t_type t = DDL \<or> t_type t = DML \<or> t_type t = RedisCommand)"

definition moveApprovedTicketToPendingExecution ::
    "request \<Rightarrow> (write_op \<Rightarrow> bool) \<Rightarrow> ticket \<Rightarrow> id64 option \<Rightarrow> string option \<Rightarrow> world \<Rightarrow> bool \<times> world" where
  "moveApprovedTicketToPendingExecution q fl t actor comment w =
     (case write_store fl (OpStatus PendingExecution)
        (UpdateStatus (q_now q) (t_id t) Approved PendingExecution actor comment None) w of
        (ok, w1) \<Rightarrow> (ok = Some True, w1))"

definition startWorkflowAutoExecution ::
    "request \<Rightarrow> (write_op \<Rightarrow> bool) \<Rightarrow> ticket \<Rightarrow> id64 option \<Rightarrow> world \<Rightarrow> bool \<times> world" where
  "startWorkflowAutoExecution q fl t actor w =
     (case write_store fl OpStart (StartExecution (q_now q) (t_id t) 0 run_mode_workflow_auto None) w of
        (ok, w1) \<Rightarrow> if ok \<noteq> Some True then (False, w1)
          else (True, emit (SpawnRun (t_id t) 0 True) (emit (Notify ''pending_execution'' (t_id t) actor)
                 (emit (Audit ''workflow_auto_execute_start'' actor (t_id t)) w1))))"

definition finishNoApprovalWorkflow ::
    "request \<Rightarrow> (write_op \<Rightarrow> bool) \<Rightarrow> ticket \<Rightarrow> id64 option \<Rightarrow> workflow_resolution \<Rightarrow> string \<Rightarrow> world \<Rightarrow> bool \<times> world" where
  "finishNoApprovalWorkflow q fl t actor r comment w =
     (if \<not> isExecutableTicketType (t_type t) then (True, emit (Notify ''approved'' (t_id t) actor) w)
      else case moveApprovedTicketToPendingExecution q fl t None (Some comment) w of
        (False, w1) \<Rightarrow> (False, w1)
      | (True, w1) \<Rightarrow>
          if fl OpLoad then (False, w1)
          else let t1 = reload fl t w1
            in if shouldAutoExecuteAfterApproval q t1 r then startWorkflowAutoExecution q fl t1 actor w1
               else (True, emit (Notify ''pending_execution'' (t_id t) actor) w1))"

text \<open>The comment the code stores for the two cases of \<open>finishNoApprovalWorkflow\<close> is \<open>note\<close>.\<close>

definition applyWorkflowAfterCreate ::
    "request \<Rightarrow> (write_op \<Rightarrow> bool) \<Rightarrow> ticket \<Rightarrow> id64 option \<Rightarrow> string \<Rightarrow> world \<Rightarrow> bool \<times> world" where
  "applyWorkflowAfterCreate q fl t actor note w =
     (case resolution_of q (wd_store w) t of
        None \<Rightarrow> (False, w)
      | Some r \<Rightarrow>
          (case write_store fl OpSnapshot (always (SaveWorkflowSnapshot (q_now q) (t_id t) r)) w of
             (None, w1) \<Rightarrow> (False, w1)
           | (Some _, w1) \<Rightarrow>
               if r_error_code r \<noteq> [] then
                 let comment = (if r_error_message r \<noteq> [] then r_error_message r else ''Workflow resolution failed.'')
                 in (case write_store fl (OpStatus NeedsAdminAttention)
                       (UpdateStatus (q_now q) (t_id t) PendingReview NeedsAdminAttention None (Some comment) None) w1 of
                       (None, w2) \<Rightarrow> (False, w2)
                     | (Some ok, w2) \<Rightarrow>
                         if ok \<and> fl OpLoad then (False, w2)
                         else (True, emit (Notify ''needs_admin_attention'' (t_id t) actor)
                                (emit (Audit ''workflow_resolution_failed'' actor (t_id t)) w2)))
               else if \<not> r_approval_enabled r then
                 (case write_store fl (OpStatus Approved)
                    (UpdateStatus (q_now q) (t_id t) PendingReview Approved None
                      (Some ''Auto-approved because workflow rule approval is disabled.'') None) w1 of
                    (None, w2) \<Rightarrow> (False, w2)
                  | (Some ok, w2) \<Rightarrow>
                      if ok \<and> fl OpLoad then (False, w2)
                      else finishNoApprovalWorkflow q fl (if ok then reload fl t w2 else t) actor r note
                             (emit (Audit ''ticket_auto_approve'' actor (t_id t)) w2))
               else (True, emit (Notify ''pending_review'' (t_id t) actor) w1)))"

section \<open>Review\<close>

definition RetryWorkflowResolution :: "request \<Rightarrow> (write_op \<Rightarrow> bool) \<Rightarrow> string \<Rightarrow> ticket \<Rightarrow> string \<Rightarrow> string \<Rightarrow> world \<Rightarrow> response \<times> world" where
  "RetryWorkflowResolution q fl ip t comment note w =
     (if \<not> HasPermission q [''settings.write''] then forbidTicketAccess q ip t w
      else if t_status t \<noteq> NeedsAdminAttention then (Response 422 ''ticket is not waiting for admin attention'', w)
      else case resolveTicketWorkflow (q_workflow q) t of
        None \<Rightarrow> (Response 500 ''resolve workflow failed'', w)
      | Some r \<Rightarrow>
          (case write_store fl OpSnapshot (always (SaveWorkflowSnapshot (q_now q) (t_id t) r)) w of
             (None, w1) \<Rightarrow> (Response 500 ''save workflow snapshot failed'', w1)
           | (Some _, w1) \<Rightarrow>
               if r_error_code r \<noteq> [] then
                 (Response 200 [], emit (Notify ''needs_admin_attention'' (t_id t) (Some (q_user q)))
                    (emit (Audit ''workflow_resolution_retry_failed'' (Some (q_user q)) (t_id t)) w1))
               else let target = (if r_approval_enabled r then PendingReview else Approved)
                 in (case write_store fl (OpStatus target)
                       (UpdateStatus (q_now q) (t_id t) NeedsAdminAttention target None (Some comment) None) w1 of
                       (None, w2) \<Rightarrow> (Response 500 ''update ticket status failed'', w2)
                     | (Some False, w2) \<Rightarrow> (Response 409 ''ticket status changed concurrently'', w2)
                     | (Some True, w2) \<Rightarrow>
                         let t1 = reload fl t w2;
                             w3 = emit (Audit ''workflow_resolution_retry'' (Some (q_user q)) (t_id t)) w2
                         in if target = Approved then
                              (case finishNoApprovalWorkflow q fl t1 (Some (q_user q)) r note w3 of
                                 (False, w4) \<Rightarrow> (Response 500 ''finish no-approval workflow failed'', w4)
                               | (True, w4) \<Rightarrow> (Response 200 [], emit (Publish (t_id t)) w4))
                            else (Response 200 [], emit (Publish (t_id t))
                                    (emit (Notify ''pending_review'' (t_id t) (Some (q_user q))) w3)))))"

text \<open>The write that grants an approval, by type of ticket. \<open>None\<close> is an error.\<close>

definition approve_write :: "request \<Rightarrow> (write_op \<Rightarrow> bool) \<Rightarrow> ticket \<Rightarrow> string option \<Rightarrow> world \<Rightarrow> bool option \<times> world" where
  "approve_write q fl t comment w =
     (if t_type t = SensitiveQueryAccess \<and> t_approved_duration_minutes t \<noteq> None then
        write_store fl OpApproveSensitive
          (ApproveSensitiveAccess (q_now q) (t_id t) (t_status t) (q_user q)
             (q_now q + the (t_approved_duration_minutes t) * 60)) w
      else if t_type t = QueryAccess then
        (if fl OpApproveAccess then (None, w)
         else let expires = (case t_approved_duration_minutes t of None \<Rightarrow> None
                  | Some m \<Rightarrow> if m > 0 then Some (q_now q + m * 60) else None)
           in case ApproveTicket (q_now q) (t_id t) (t_status t) (q_user q) comment (t_submitter_id t) expires (wd_store w) of
                (res, s') \<Rightarrow> (res, w\<lparr>wd_store := s'\<rparr>))
      else write_store fl (OpStatus Approved)
             (UpdateStatus (q_now q) (t_id t) (t_status t) Approved (Some (q_user q)) comment None) w)"

definition ensureReadyExportRequest :: "(write_op \<Rightarrow> bool) \<Rightarrow> ticket \<Rightarrow> id64 option \<Rightarrow> world \<Rightarrow> bool \<times> world" where
  "ensureReadyExportRequest fl t approver w =
     (if fl OpExport then (False, w)
      else case find (\<lambda>x. x_ticket_id x = Some (t_id t)) (rev (wd_exports w)) of
        Some x \<Rightarrow>
          if x_approver_id x = None \<and> approver \<noteq> None
          then (True, w\<lparr>wd_exports := update_where (\<lambda>y. x_id y = x_id x)
                 (\<lambda>y. y\<lparr>x_status := x_status x, x_approver_id := approver\<rparr>) (wd_exports w)\<rparr>)
          else (True, w)
      | None \<Rightarrow>
          (case t_db_connection_id t of None \<Rightarrow> (False, w)
           | Some c \<Rightarrow> (True, w\<lparr>wd_exports := wd_exports w @ [\<lparr>x_id = wd_next_export w, x_ticket_id = Some (t_id t),
                x_requester_id = t_submitter_id t, x_approver_id = approver, x_sql_content = t_sql_content t,
                x_db_connection_id = c, x_status = ''ready''\<rparr>], wd_next_export := wd_next_export w + 1\<rparr>)))"

text \<open>What follows a granted approval: the export request, or the move to execution.\<close>

definition after_approve :: "request \<Rightarrow> (write_op \<Rightarrow> bool) \<Rightarrow> ticket \<Rightarrow> string option \<Rightarrow> world \<Rightarrow> response \<times> world" where
  "after_approve q fl t comment w =
     (case (if t_type t = SQLExport then ensureReadyExportRequest fl t (Some (q_user q)) w else (True, w)) of
        (False, w1) \<Rightarrow> (Response 500 ''create ready export failed'', w1)
      | (True, w1) \<Rightarrow>
          if t_type t \<in> {DDL, DML, RedisCommand} then
            (case write_store fl (OpStatus PendingExecution)
               (UpdateStatus (q_now q) (t_id t) Approved PendingExecution (Some (q_user q)) comment None) w1 of
               (None, w2) \<Rightarrow> (Response 500 ''move to pending execution failed'', w2)
             | (Some False, w2) \<Rightarrow> (Response 409 ''ticket status changed concurrently'', w2)
             | (Some True, w2) \<Rightarrow>
                 let t1 = reload fl t w2
                 in (case resolution_of q (wd_store w2) t1 of
                       None \<Rightarrow> (Response 500 ''load workflow resolution failed'', w2)
                     | Some r \<Rightarrow>
                         if shouldAutoExecuteAfterApproval q t1 r then
                           (case startWorkflowAutoExecution q fl t1 (Some (q_user q)) w2 of
                              (False, w3) \<Rightarrow> (Response 500 ''workflow auto execution start failed'', w3)
                            | (True, w3) \<Rightarrow> (Response 200 [], emit (Publish (t_id t)) w3))
                         else (Response 200 [], emit (Publish (t_id t))
                                 (emit (Notify ''pending_execution'' (t_id t) (Some (q_user q))) w2))))
          else (Response 200 [], emit (Publish (t_id t)) (emit (Notify ''approved'' (t_id t) (Some (q_user q))) w1)))"

definition Approve :: "request \<Rightarrow> (write_op \<Rightarrow> bool) \<Rightarrow> string \<Rightarrow> ticket \<Rightarrow> string option \<Rightarrow> world \<Rightarrow> response \<times> world" where
  "Approve q fl ip t rawComment w =
     (let comment = trimOptionalString rawComment
      in case canRejectTicket q (wd_store w) t (q_user q) of
           None \<Rightarrow> (Response 500 ''ticket review check failed'', w)
         | Some False \<Rightarrow> forbidTicketAccess q ip t w
         | Some True \<Rightarrow>
             if ValidateTransition (t_status t) Approved \<noteq> None then (Response 422 ''invalid transition'', w)
             else case approve_write q fl t comment w of
               (None, w1) \<Rightarrow> (Response 500 ''update failed'', w1)
             | (Some False, w1) \<Rightarrow> (Response 409 ''ticket status changed concurrently'', w1)
             | (Some True, w1) \<Rightarrow>
                 after_approve q fl t comment (emit (Audit ''ticket_approve'' (Some (q_user q)) (t_id t)) w1))"

definition Reject :: "request \<Rightarrow> (write_op \<Rightarrow> bool) \<Rightarrow> string \<Rightarrow> ticket \<Rightarrow> string \<Rightarrow> world \<Rightarrow> response \<times> world" where
  "Reject q fl ip t reason w =
     (if reason = [] then (Response 422 ''rejection reason is required'', w)
      else case canRejectTicket q (wd_store w) t (q_user q) of
        None \<Rightarrow> (Response 500 ''ticket review check failed'', w)
      | Some False \<Rightarrow> forbidTicketAccess q ip t w
      | Some True \<Rightarrow>
          if ValidateTransition (t_status t) Rejected \<noteq> None then (Response 422 ''invalid transition'', w)
          else let execStage = (t_status t = Approved \<or> t_status t = PendingExecution);
                   reviewer = (if execStage then None else Some (q_user q))
            in (case write_store fl (OpStatus Rejected)
                  (UpdateStatus (q_now q) (t_id t) (t_status t) Rejected reviewer None (Some reason)) w of
                  (None, w1) \<Rightarrow> (Response 500 ''update failed'', w1)
                | (Some False, w1) \<Rightarrow> (Response 409 ''ticket status changed concurrently'', w1)
                | (Some True, w1) \<Rightarrow>
                    let w2 = (if execStage
                              then snd (write_store fl OpExecution (always (SetExecutorIfEmpty (q_now q) (t_id t) (q_user q))) w1)
                              else w1)
                    in (Response 200 [], emit (Publish (t_id t)) (emit (Notify ''rejected'' (t_id t) (Some (q_user q)))
                          (emit (Audit ''ticket_reject'' (Some (q_user q)) (t_id t)) w2)))))"

definition Withdraw :: "request \<Rightarrow> (write_op \<Rightarrow> bool) \<Rightarrow> string \<Rightarrow> ticket \<Rightarrow> string option \<Rightarrow> world \<Rightarrow> response \<times> world" where
  "Withdraw q fl ip t rawReason w =
     (let reason = trimOptionalString rawReason
      in case canWithdrawTicket q t (q_user q) of
           None \<Rightarrow> (Response 500 ''ticket withdraw check failed'', w)
         | Some False \<Rightarrow> forbidTicketAccess q ip t w
         | Some True \<Rightarrow>
             if ValidateTransition (t_status t) Withdrawn \<noteq> None then (Response 422 ''invalid transition'', w)
             else case write_store fl (OpStatus Withdrawn)
                    (UpdateStatus (q_now q) (t_id t) (t_status t) Withdrawn None None reason) w of
               (None, w1) \<Rightarrow> (Response 500 ''withdraw failed'', w1)
             | (Some False, w1) \<Rightarrow> (Response 409 ''ticket status changed concurrently'', w1)
             | (Some True, w1) \<Rightarrow> (Response 200 [], emit (Publish (t_id t))
                 (emit (Notify ''withdrawn'' (t_id t) (Some (q_user q)))
                   (emit (Audit ''ticket_withdraw'' (Some (q_user q)) (t_id t)) w1))))"

definition Stop :: "request \<Rightarrow> (write_op \<Rightarrow> bool) \<Rightarrow> string \<Rightarrow> ticket \<Rightarrow> world \<Rightarrow> response \<times> world" where
  "Stop q fl ip t w =
     (case canStopTicket q (wd_store w) t (q_user q) of
        None \<Rightarrow> (Response 500 ''ticket stop check failed'', w)
      | Some False \<Rightarrow> forbidTicketAccess q ip t w
      | Some True \<Rightarrow>
          (case (if isFullTicketExecutionRunMode (t_execution_run_mode t)
                 then write_store fl OpCompleted (always (MarkCompleted (q_now q) (t_id t) Failed)) w
                 else write_store fl OpStopped (MarkStopped (q_now q) (t_id t)) w) of
             (None, w1) \<Rightarrow> (Response 500 ''stop failed'', w1)
           | (Some False, w1) \<Rightarrow> (Response 409 ''ticket is not currently executing'', w1)
           | (Some True, w1) \<Rightarrow> (Response 204 [], emit (Publish (t_id t))
               (emit (Audit ''ticket_stop'' (Some (q_user q)) (t_id t)) w1))))"

definition Revoke :: "request \<Rightarrow> (write_op \<Rightarrow> bool) \<Rightarrow> string \<Rightarrow> ticket \<Rightarrow> world \<Rightarrow> response \<times> world" where
  "Revoke q fl ip t w =
     (if t_type t \<noteq> SensitiveQueryAccess \<and> t_type t \<noteq> QueryAccess
      then (Response 422 ''only sensitive_query_access and query_access tickets can be revoked'', w)
      else case canRevokeTicket q t (q_user q) of
        None \<Rightarrow> (Response 500 ''ticket revoke check failed'', w)
      | Some False \<Rightarrow> forbidTicketAccess q ip t w
      | Some True \<Rightarrow>
          (case (if t_type t = SensitiveQueryAccess
                 then write_store fl OpRevoke (RevokeSensitiveAccess (q_now q) (t_id t) (q_user q)) w
                 else write_store fl OpRevoke (RevokeTicket (q_now q) (t_id t) (q_user q)) w) of
             (None, w1) \<Rightarrow> (Response 500 ''revoke failed'', w1)
           | (Some False, w1) \<Rightarrow> (Response 409 ''ticket is not revocable'', w1)
           | (Some True, w1) \<Rightarrow> (Response 200 [], emit (Publish (t_id t))
               (emit (Notify ''revoked'' (t_id t) (Some (q_user q)))
                 (emit (Audit ''ticket_revoke'' (Some (q_user q)) (t_id t)) w1)))))"

section \<open>Execution\<close>

text \<open>The run mode and DML mode of an \<open>Execute\<close> request; \<open>None\<close> is an invalid DML mode.\<close>

definition execute_modes :: "ticket \<Rightarrow> string \<Rightarrow> (string \<times> string option) option" where
  "execute_modes t requested =
     (if t_type t = DML then
        (if requested = [] \<or> requested = dml_mode_per_statement then Some (run_mode_batch, Some dml_mode_per_statement)
         else if requested = dml_mode_whole_ticket then Some (run_mode_whole_ticket, Some dml_mode_whole_ticket)
         else None)
      else Some (run_mode_batch, None))"

definition execute_now :: "request \<Rightarrow> (write_op \<Rightarrow> bool) \<Rightarrow> ticket \<Rightarrow> string \<Rightarrow> world \<Rightarrow> response \<times> world" where
  "execute_now q fl t requested w =
     (case execute_modes t requested of
        None \<Rightarrow> (Response 422 ''invalid dml execution mode'', w)
      | Some (runMode, dml) \<Rightarrow>
          (case write_store fl OpStart (StartExecution (q_now q) (t_id t) (q_user q) runMode dml) w of
             (None, w1) \<Rightarrow> (Response 500 ''execution start failed'', w1)
           | (Some False, w1) \<Rightarrow> (Response 409 ''ticket already taken by another executor'', w1)
           | (Some True, w1) \<Rightarrow> (Response 200 [], emit (Publish (t_id t)) (emit (SpawnRun (t_id t) (q_user q) False)
               (emit (Audit ''ticket_execute_start'' (Some (q_user q)) (t_id t)) (emit (CardSync (t_id t)) w1))))))"

definition Execute :: "request \<Rightarrow> (write_op \<Rightarrow> bool) \<Rightarrow> string \<Rightarrow> ticket \<Rightarrow> timestamp option \<Rightarrow> string option \<Rightarrow> world \<Rightarrow> response \<times> world" where
  "Execute q fl ip t scheduledAt dmlMode w =
     (let requested = (case dmlMode of None \<Rightarrow> [] | Some m \<Rightarrow> trim_space m)
      in if t_status t \<noteq> PendingExecution then (Response 422 ''ticket is not pending execution'', w)
         else if t_type t \<noteq> DDL \<and> t_type t \<noteq> DML \<and> t_type t \<noteq> RedisCommand
         then (Response 422 ''only ddl/dml/redis tickets can execute'', w)
         else if t_type t \<noteq> DML \<and> requested \<noteq> []
         then (Response 422 ''dml execution mode is only supported for dml tickets'', w)
         else if t_db_connection_id t = None then (Response 422 ''ticket has no target db_connection'', w)
         else case canExecuteTicket q (wd_store w) t (q_user q) of
           None \<Rightarrow> (Response 500 ''ticket execution check failed'', w)
         | Some False \<Rightarrow> forbidTicketAccess q ip t w
         | Some True \<Rightarrow>
             (case scheduledAt of
                Some sched \<Rightarrow>
                  if sched > q_now q then
                    (case write_store fl OpScheduled (always (SetScheduled (q_now q) (t_id t) (q_user q) sched)) w of
                       (None, w1) \<Rightarrow> (Response 500 ''set scheduled time failed'', w1)
                     | (Some _, w1) \<Rightarrow> (Response 200 [], emit (Audit ''ticket_schedule'' (Some (q_user q)) (t_id t)) w1))
                  else execute_now q fl t requested w
              | None \<Rightarrow> execute_now q fl t requested w))"

end
