(* ===== verification/Ticket_Store_Laws.thy ===== *)
theory Ticket_Store_Laws
  imports Ticket_Store
begin

text \<open>
  Laws of the ticket store: what a conditional update promises its callers, the well-formedness of
  the tables under every operation, the immutability of what was submitted, the effect of approving
  and revoking query access, and recovery after a restart.
\<close>

section \<open>Reading after an update\<close>

lemma GetTicket_update_tickets [store_simps]:
  "(\<And>t. t_id (f t) = t_id t) \<Longrightarrow>
   GetTicket (update_tickets P f s) i = map_option (\<lambda>t. if P t then f t else t) (GetTicket s i)"
  by (simp add: GetTicket_def update_tickets_def find_update_where)

lemma update_tickets_same: "\<not> affected P (s_tickets s) \<Longrightarrow> update_tickets P f s = s"
  by (simp add: update_tickets_def update_where_none)

lemma update_executions_same: "\<not> affected P (s_executions s) \<Longrightarrow> update_executions P f s = s"
  by (simp add: update_executions_def update_where_none)

lemma GetTicket_id: "GetTicket s i = Some t \<Longrightarrow> t_id t = i"
  by (auto simp: GetTicket_def find_Some_iff)

lemma update_tickets_frame [simp]:
  "s_tickets (update_tickets P f s) = update_where P f (s_tickets s)"
  "s_executions (update_tickets P f s) = s_executions s"
  "s_next_execution (update_tickets P f s) = s_next_execution s"
  "s_next_ticket (update_tickets P f s) = s_next_ticket s"
  "s_snapshots (update_tickets P f s) = s_snapshots s"
  "s_scopes (update_tickets P f s) = s_scopes s"
  "s_access_rules (update_tickets P f s) = s_access_rules s"
  "s_access_requests (update_tickets P f s) = s_access_requests s"
  "s_legacy_items (update_tickets P f s) = s_legacy_items s"
  "s_next_rule (update_tickets P f s) = s_next_rule s"
  by (simp_all add: update_tickets_def)

lemma update_executions_frame [simp]:
  "s_executions (update_executions P f s) = update_where P f (s_executions s)"
  "s_tickets (update_executions P f s) = s_tickets s"
  "s_next_execution (update_executions P f s) = s_next_execution s"
  "s_next_ticket (update_executions P f s) = s_next_ticket s"
  "s_snapshots (update_executions P f s) = s_snapshots s"
  "s_access_rules (update_executions P f s) = s_access_rules s"
  "s_next_rule (update_executions P f s) = s_next_rule s"
  by (simp_all add: update_executions_def)

lemma touched_simps [store_simps]:
  "fst (touched P f s) = affected P (s_tickets s)"
  "snd (touched P f s) = update_tickets P f s"
  by (simp_all add: touched_def)

lemma t_id_rows [simp]:
  "t_id (status_stamp now from to t) = t_id t" "t_id (start_row now e m d t) = t_id t"
  "t_id (manual_row now e t) = t_id t" "t_id (revoke_row now e t) = t_id t"
  by (auto simp: status_stamp_def start_row_def manual_row_def revoke_row_def Let_def split: ticket_status.split)

lemma status_stamp_status [simp]: "t_status (status_stamp now from to t) = t_status t"
  by (auto simp: status_stamp_def split: ticket_status.split)

lemma e_id_rows [simp]:
  "e_id (clear_process e) = e_id e" "e_id (running_row now e) = e_id e" "e_id (fail_restarted now e) = e_id e"
  "e_ticket_id (clear_process e) = e_ticket_id e" "e_ticket_id (running_row now e) = e_ticket_id e"
  "e_ticket_id (fail_restarted now e) = e_ticket_id e" "e_status (fail_restarted now e) = ExFailed"
  "e_status (clear_process e) = e_status e" "e_seq (fail_restarted now e) = e_seq e"
  by (simp_all add: clear_process_def running_row_def fail_restarted_def)

lemma affected_id_status:
  assumes "distinct (map t_id (s_tickets s))"
  shows "affected (\<lambda>t. t_id t = i \<and> P t) (s_tickets s) \<longleftrightarrow> (\<exists>t. GetTicket s i = Some t \<and> P t)"
  using find_key_Some_iff [OF assms] by (auto simp: affected_iff GetTicket_def)

section \<open>Conditional updates\<close>

interpretation start_execution: guarded_update "start_guard i" "\<lambda>(now, e, m, d). start_row now e m d" s_tickets
    "\<lambda>(now, e, m, d). StartExecution now i e m d" for i
  by unfold_locales
     (auto simp: start_guard_def start_row_def Let_def StartExecution_def touched_def
       update_tickets_same split: prod.splits)

interpretation mark_stopped: guarded_update "stop_guard i"
    "\<lambda>now t. t\<lparr>t_status := Stopped, t_completed_at := Some now, t_updated_at := now\<rparr>" s_tickets
    "\<lambda>now. MarkStopped now i" for i
  by unfold_locales
     (auto simp: stop_guard_def MarkStopped_def touched_def update_tickets_same)

interpretation revoke_sensitive: guarded_update "revoke_guard i SensitiveQueryAccess"
    "\<lambda>(now, actor). revoke_row now actor" s_tickets "\<lambda>(now, actor). RevokeSensitiveAccess now i actor" for i
  by unfold_locales
     (auto simp: revoke_guard_def revoke_row_def RevokeSensitiveAccess_def touched_def
       update_tickets_same split: prod.splits)

interpretation claim_statement: guarded_update "pending_guard i" running_row s_executions
    "\<lambda>now. MarkExecutionRunningIfPending now i" for i
  by unfold_locales
     (auto simp: pending_guard_def running_row_def clear_process_def MarkExecutionRunningIfPending_def
       update_executions_same)

text \<open>
  C8: of any sequence of \<open>StartExecution\<close> calls on one ticket, by whichever executors and in
  whichever run modes, at most one is told that it started the run.
\<close>

theorem start_execution_single_winner:
  "length (filter (\<lambda>won. won)
     (attempt_outcomes (\<lambda>(now, executor, mode, dml). StartExecution now i executor mode dml) calls s)) \<le> 1"
  by (rule start_execution.at_most_one_winner)

text \<open>
  Of any sequence of \<open>MarkExecutionRunningIfPending\<close> calls on one statement, at most one claims it.
\<close>

theorem statement_claimed_once:
  "length (filter (\<lambda>won. won) (attempt_outcomes (\<lambda>now. MarkExecutionRunningIfPending now i) calls s)) \<le> 1"
  by (rule claim_statement.at_most_one_winner)

text \<open>
  \<open>UpdateStatus\<close> is a compare-and-set on the status. It succeeds exactly when the stored
  ticket still has the expected status; then the ticket has the new status and every other ticket is
  as before, otherwise the store is unchanged.
\<close>

theorem update_status_compare_and_set:
  assumes "distinct (map t_id (s_tickets s))"
    and "UpdateStatus now i from to reviewer comment reason s = (ok, s')"
  shows "(ok \<longleftrightarrow> (\<exists>t. GetTicket s i = Some t \<and> t_status t = from)) \<and>
         (\<not> ok \<longrightarrow> s' = s) \<and>
         (ok \<longrightarrow> map_option t_status (GetTicket s' i) = Some to) \<and>
         (\<forall>j. j \<noteq> i \<longrightarrow> GetTicket s' j = GetTicket s j)"
proof -
  have ok: "ok \<longleftrightarrow> (\<exists>t. GetTicket s i = Some t \<and> t_status t = from)"
    using assms(2) affected_id_status [OF assms(1)] by (auto simp: UpdateStatus_def touched_def)
  have s': "s' = snd (UpdateStatus now i from to reviewer comment reason s)" using assms(2) by simp
  have "\<not> ok \<Longrightarrow> s' = s"
    using assms(2) by (auto simp: UpdateStatus_def touched_def update_tickets_same)
  moreover have "ok \<Longrightarrow> map_option t_status (GetTicket s' i) = Some to"
    using ok GetTicket_id [of s i] by (auto simp: s' UpdateStatus_def store_simps simp del: map_option_eq_Some)
  moreover have "j \<noteq> i \<Longrightarrow> GetTicket s' j = GetTicket s j" for j
    by (cases "GetTicket s j") (auto simp: s' UpdateStatus_def store_simps dest: GetTicket_id)
  ultimately show ?thesis using ok by blast
qed

section \<open>Every operation as a step\<close>

inductive store_step :: "store \<Rightarrow> store \<Rightarrow> bool" where
  create: "CreateWithScopes now no t scs s = (i, s') \<Longrightarrow> store_step s s'"
| delete: "store_step s (Delete i s)"
| snapshot: "store_step s (SaveWorkflowSnapshot now i r s)"
| status: "UpdateStatus now i from to rv c rs s = (ok, s') \<Longrightarrow> store_step s s'"
| approve_sensitive: "ApproveSensitiveAccess now i from rv until s = (ok, s') \<Longrightarrow> store_step s s'"
| revoke_sensitive: "RevokeSensitiveAccess now i actor s = (ok, s') \<Longrightarrow> store_step s s'"
| start: "StartExecution now i ex m d s = (ok, s') \<Longrightarrow> store_step s s'"
| claim_manual: "ClaimManualStatementExecution now i ex s = (ok, s') \<Longrightarrow> store_step s s'"
| executing: "store_step s (MarkTicketExecuting now i ex s)"
| completed: "store_step s (MarkCompleted now i st s)"
| executor: "store_step s (SetExecutorIfEmpty now i ex s)"
| aggregate: "store_step s (SetExecutionAggregateStatus now i st s)"
| stopped: "MarkStopped now i s = (ok, s') \<Longrightarrow> store_step s s'"
| scheduled: "store_step s (SetScheduled now i ex sched s)"
| create_execution: "CreateExecution i st s = (e, s') \<Longrightarrow> store_step s s'"
| ensure: "store_step s (EnsureExecutions i sts s)"
| claim: "MarkExecutionRunningIfPending now e s = (ok, s') \<Longrightarrow> store_step s s'"
| running: "store_step s (MarkExecutionRunning now e s)"
| sent: "store_step s (MarkExecutionSentToDB now e pt pid s)"
| stop_execution: "store_step s (MarkExecutionStopped now e msg s)"
| done_execution: "store_step s (MarkExecutionDone now e rows ms err s)"
| failed_execution: "store_step s (MarkExecutionFailedWithOutcome now e ms' err' rs' conf s)"
| interrupted: "store_step s (MarkExecutionInterrupted now e msg rs' conf s)"
| recover: "RecoverExecutingTickets now s = (rvs, s') \<Longrightarrow> store_step s s'"
| items: "CreateTicketItems i its s = (ok, s') \<Longrightarrow> store_step s s'"
| approve_access: "ApproveTicket now i from rv c subj ex' s = (res, s') \<Longrightarrow> store_step s s'"
| revoke_access: "RevokeTicket now i actor s = (ok, s') \<Longrightarrow> store_step s s'"

text \<open>
  What a step may do to the tables: an effect is an update that keeps the submitted part of each
  ticket, or an append of fresh rows, or a deletion.
\<close>

definition submitted :: "ticket \<Rightarrow> string \<times> string \<times> ticket_type \<times> id64 option \<times> string option \<times> string option \<times> id64 \<times> string" where
  "submitted t = (t_ticket_no t, t_sql_content t, t_type t, t_db_connection_id t, t_database_name t, t_schema_name t,
     t_submitter_id t, t_title t)"

definition keeps_submitted :: "(ticket \<Rightarrow> ticket) \<Rightarrow> bool" where
  "keeps_submitted f \<longleftrightarrow> (\<forall>t. t_id (f t) = t_id t \<and> submitted (f t) = submitted t)"

definition ticket_keys :: "store \<Rightarrow> bool" where
  "ticket_keys s \<longleftrightarrow> distinct (map t_id (s_tickets s)) \<and> (\<forall>t \<in> set (s_tickets s). t_id t < s_next_ticket s)"

definition execution_keys :: "store \<Rightarrow> bool" where
  "execution_keys s \<longleftrightarrow> distinct (map e_id (s_executions s)) \<and> (\<forall>e \<in> set (s_executions s). e_id e < s_next_execution s)"

definition store_wf :: "store \<Rightarrow> bool" where
  "store_wf s \<longleftrightarrow> ticket_keys s \<and> execution_keys s \<and> distinct (map sn_ticket_id (s_snapshots s))"

text \<open>A ticket that is still stored has the content it had.\<close>

definition tickets_kept :: "store \<Rightarrow> store \<Rightarrow> bool" where
  "tickets_kept s s' \<longleftrightarrow> s_next_ticket s \<le> s_next_ticket s' \<and>
     (\<forall>i < s_next_ticket s. case GetTicket s' i of None \<Rightarrow> True
        | Some t' \<Rightarrow> (\<exists>t. GetTicket s i = Some t \<and> submitted t' = submitted t))"

lemma tickets_kept_refl [simp]: "tickets_kept s s"
  by (auto simp: tickets_kept_def split: option.splits)

lemma tickets_kept_trans: "tickets_kept a b \<Longrightarrow> tickets_kept b c \<Longrightarrow> tickets_kept a c"
  unfolding tickets_kept_def by (auto split: option.splits) (metis option.inject option.distinct(1) order.strict_trans2)+

lemma tickets_kept_same:
  "s_tickets s' = s_tickets s \<Longrightarrow> s_next_ticket s' = s_next_ticket s \<Longrightarrow> tickets_kept s s'"
  by (auto simp: tickets_kept_def GetTicket_def split: option.splits)

lemma tickets_kept_update: "keeps_submitted f \<Longrightarrow> tickets_kept s (update_tickets P f s)"
  by (auto simp: tickets_kept_def keeps_submitted_def GetTicket_update_tickets split: option.splits if_splits)

lemma ticket_keys_update: "keeps_submitted f \<Longrightarrow> ticket_keys s \<Longrightarrow> ticket_keys (update_tickets P f s)"
  by (auto simp: ticket_keys_def keeps_submitted_def update_where_key set_update_where)

lemma execution_keys_update:
  "(\<And>e. e_id (f e) = e_id e) \<Longrightarrow> execution_keys s \<Longrightarrow> execution_keys (update_executions P f s)"
  by (auto simp: execution_keys_def update_where_key set_update_where)

lemma keys_frame [simp]:
  "ticket_keys (update_executions P f s) = ticket_keys s"
  "execution_keys (update_tickets Q g s) = execution_keys s"
  by (simp_all add: ticket_keys_def execution_keys_def)

lemma find_append: "find P (xs @ ys) = (case find P xs of None \<Rightarrow> find P ys | Some x \<Rightarrow> Some x)"
  by (induction xs) auto

definition good_step :: "store \<Rightarrow> store \<Rightarrow> bool" where
  "good_step s s' \<longleftrightarrow> (store_wf s \<longrightarrow> store_wf s' \<and> tickets_kept s s')"

lemma good_refl [simp]: "good_step s s"
  by (simp add: good_step_def)

lemma good_trans: "good_step a b \<Longrightarrow> good_step b c \<Longrightarrow> good_step a c"
  by (auto simp: good_step_def intro: tickets_kept_trans)

lemma good_update_tickets: "keeps_submitted f \<Longrightarrow> good_step s (update_tickets P f s)"
  by (simp add: good_step_def store_wf_def ticket_keys_update tickets_kept_update)

lemma good_touched: "keeps_submitted f \<Longrightarrow> touched P f s = (ok, s') \<Longrightarrow> good_step s s'"
  by (auto simp: touched_def good_update_tickets)

lemma good_update_executions: "(\<And>e. e_id (f e) = e_id e) \<Longrightarrow> good_step s (update_executions P f s)"
  by (simp add: good_step_def store_wf_def execution_keys_update) (rule impI, rule tickets_kept_same; simp)

lemma good_frame:
  "s_tickets s' = s_tickets s \<Longrightarrow> s_next_ticket s' = s_next_ticket s \<Longrightarrow> s_executions s' = s_executions s \<Longrightarrow>
   s_next_execution s' = s_next_execution s \<Longrightarrow> s_snapshots s' = s_snapshots s \<Longrightarrow> good_step s s'"
  by (auto simp: good_step_def store_wf_def ticket_keys_def execution_keys_def intro: tickets_kept_same)

lemma keeps_submitted_rows [simp]:
  "keeps_submitted (\<lambda>t. status_stamp now from to (t\<lparr>t_status := st, t_updated_at := now, t_reviewer_id := rv t,
     t_review_comment := c t, t_rejection_reason := rs t\<rparr>))"
  "keeps_submitted (start_row now ex m d)" "keeps_submitted (manual_row now ex)"
  "keeps_submitted (revoke_row now actor)"
  by (auto simp: keeps_submitted_def submitted_def status_stamp_def start_row_def manual_row_def revoke_row_def Let_def
      split: ticket_status.split)

lemma keeps_submitted_updates [simp]:
  "keeps_submitted (\<lambda>t. t\<lparr>t_status := a, t_completed_at := b, t_updated_at := c\<rparr>)"
  "keeps_submitted (\<lambda>t. t\<lparr>t_status := a, t_updated_at := c\<rparr>)"
  "keeps_submitted (\<lambda>t. t\<lparr>t_status := a, t_reviewer_id := d, t_approved_at := e, t_approved_until := g, t_updated_at := c\<rparr>)"
  "keeps_submitted (\<lambda>t. t\<lparr>t_executor_id := h t, t_updated_at := c\<rparr>)"
  "keeps_submitted (\<lambda>t. t\<lparr>t_executor_id := d, t_scheduled_at := b, t_execution_requested_at := k t, t_updated_at := c\<rparr>)"
  "keeps_submitted (\<lambda>t. t\<lparr>t_status := a, t_updated_at := c, t_reviewer_id := d, t_approved_at := e,
     t_review_comment := m t, t_approved_until := k t\<rparr>)"
  by (simp_all add: keeps_submitted_def submitted_def)

lemma good_append_ticket:
  assumes "s_tickets s' = s_tickets s @ [row]" and "t_id row = s_next_ticket s"
    and "s_next_ticket s' = s_next_ticket s + 1" and "s_executions s' = s_executions s"
    and "s_next_execution s' = s_next_execution s" and "s_snapshots s' = s_snapshots s"
  shows "good_step s s'"
proof -
  have "ticket_keys s \<Longrightarrow> ticket_keys s'"
    using assms(1-3) by (fastforce simp: ticket_keys_def)
  moreover have "tickets_kept s s'"
    using assms(1-3) by (auto simp: tickets_kept_def GetTicket_def find_append split: option.splits)
  ultimately show ?thesis
    using assms by (simp add: good_step_def store_wf_def execution_keys_def)
qed

lemma good_create: "CreateWithScopes now no t scs s = (i, s') \<Longrightarrow> good_step s s'"
  by (rule good_append_ticket) (auto simp: CreateWithScopes_def Let_def)

lemma good_delete: "good_step s (Delete i s)"
proof -
  have find_filter: "find (\<lambda>t. t_id t = j) (filter (\<lambda>t. t_id t \<noteq> i) ts) =
      (if j = i then None else find (\<lambda>t. t_id t = j) ts)" for j :: nat and ts :: "ticket list"
    by (induction ts) auto
  show ?thesis
    by (auto simp: Delete_def delete_where_def good_step_def store_wf_def ticket_keys_def execution_keys_def
        tickets_kept_def GetTicket_def find_filter distinct_map_filter split: option.splits)
qed

lemma good_snapshot: "good_step s (SaveWorkflowSnapshot now i r s)"
  by (auto simp: SaveWorkflowSnapshot_def Let_def good_step_def store_wf_def update_where_key affected_iff
      ticket_keys_def execution_keys_def tickets_kept_def GetTicket_def split: option.splits)

lemma good_insert_executions: "good_step s (insert_executions i sts s)"
proof (induction sts arbitrary: s)
  case Nil
  then show ?case by simp
next
  case (Cons st sts)
  let ?s1 = "s\<lparr>s_executions := s_executions s @ [new_execution (s_next_execution s) i st],
               s_next_execution := s_next_execution s + 1\<rparr>"
  have "good_step s ?s1"
    by (auto simp: good_step_def store_wf_def execution_keys_def new_execution_def ticket_keys_def intro: tickets_kept_same)
  with Cons.IH [of ?s1] show ?case by (auto intro: good_trans)
qed

lemma good_aggregate: "good_step s (SetExecutionAggregateStatus now i st s)"
  by (auto simp: SetExecutionAggregateStatus_def intro!: good_update_tickets)

lemma good_recover_ticket: "good_step s (snd (recover_ticket now i s))"
proof -
  have upd: "good_step s (update_executions (\<lambda>e. e_ticket_id e = i \<and> e_status e = ExRunning) (fail_restarted now) s)"
    by (rule good_update_executions) simp
  show ?thesis
    by (auto simp: recover_ticket_def Let_def
        intro: good_update_tickets good_aggregate good_trans [OF upd good_aggregate])
qed

lemma good_recover_all: "good_step s (snd (recover_all now is s))"
proof (induction "is" arbitrary: s)
  case Nil
  then show ?case by simp
next
  case (Cons i "is")
  from good_trans [OF good_recover_ticket Cons.IH] show ?case
    by (auto split: prod.splits) (metis snd_conv)
qed

lemma CreateTicketItems_frame:
  "CreateTicketItems i its s = (ok, s') \<Longrightarrow> good_step s s'"
proof (induction its arbitrary: s)
  case Nil
  then show ?case by simp
next
  case (Cons it its)
  let ?add = "\<lambda>q. s\<lparr>s_access_requests := s_access_requests s @ [q]\<rparr>"
  have "good_step s (?add q)" for q by (rule good_frame) simp_all
  with Cons show ?case by (auto simp: Let_def split: if_splits intro: good_trans)
qed

lemma good_insert_rules: "good_step s (insert_rules i subj ex its s)"
proof (induction its arbitrary: s)
  case Nil
  then show ?case by simp
next
  case (Cons it its)
  let ?add = "\<lambda>r. s\<lparr>s_access_rules := s_access_rules s @ [r], s_next_rule := s_next_rule s + 1\<rparr>"
  have "good_step s (?add r)" for r by (rule good_frame) simp_all
  with Cons.IH show ?case by (auto intro: good_trans)
qed

lemma good_approve_access: "ApproveTicket now i from rv c subj ex s = (res, s') \<Longrightarrow> good_step s s'"
  by (auto simp: ApproveTicket_def createGrantsForTicketTx_def Let_def touched_def
      split: if_splits option.splits intro!: good_trans [OF good_update_tickets good_insert_rules])

lemma good_revoke_access: "RevokeTicket now i actor s = (ok, s') \<Longrightarrow> good_step s s'"
proof -
  have "good_step s (s\<lparr>s_access_rules := X\<rparr>)" for X by (rule good_frame) simp_all
  then show "RevokeTicket now i actor s = (ok, s') \<Longrightarrow> good_step s s'"
    by (auto simp: RevokeTicket_def revokeGrantsByTicketTx_def touched_def split: if_splits
        intro: good_trans [OF _ good_update_tickets])
qed

lemma store_step_good: "store_step s s' \<Longrightarrow> good_step s s'"
proof (induction rule: store_step.induct)
  case create
  then show ?case by (rule good_create)
next
  case (recover now s rvs s')
  then show ?case using good_recover_all by (metis RecoverExecutingTickets_def snd_conv)
next
  case items
  then show ?case by (rule CreateTicketItems_frame)
next
  case approve_access
  then show ?case by (rule good_approve_access)
next
  case revoke_access
  then show ?case by (rule good_revoke_access)
qed (auto simp: good_delete good_snapshot good_aggregate CreateExecution_def EnsureExecutions_def
       UpdateStatus_def ApproveSensitiveAccess_def RevokeSensitiveAccess_def StartExecution_def
       ClaimManualStatementExecution_def MarkTicketExecuting_def MarkCompleted_def SetExecutorIfEmpty_def
       MarkStopped_def SetScheduled_def MarkExecutionRunningIfPending_def MarkExecutionRunning_def
       MarkExecutionSentToDB_def MarkExecutionStopped_def MarkExecutionDone_def
       MarkExecutionFailedWithOutcome_def MarkExecutionInterrupted_def
       intro!: good_insert_executions [of _ _ "[_]", simplified] good_insert_executions
       intro: good_touched [rotated] good_update_tickets good_update_executions)

lemma store_steps_good: "store_step\<^sup>*\<^sup>* s s' \<Longrightarrow> good_step s s'"
  by (induction rule: rtranclp_induct) (auto intro: good_trans store_step_good)


text \<open>
  C23: what was submitted is what is reviewed and executed. No sequence of repository operations
  changes the number, SQL text, type, connection, database, schema, submitter or title of a ticket.
\<close>

theorem submitted_content_immutable:
  assumes "store_wf s" and "store_step\<^sup>*\<^sup>* s s'"
    and "GetTicket s i = Some t" and "GetTicket s' i = Some t'"
  shows "submitted t' = submitted t"
proof -
  have "tickets_kept s s'" using assms(1,2) store_steps_good by (auto simp: good_step_def)
  moreover have "i < s_next_ticket s"
    using assms(1,3) by (auto simp: store_wf_def ticket_keys_def GetTicket_def find_Some_iff)
  ultimately show ?thesis using assms(3,4) by (auto simp: tickets_kept_def)
qed

section \<open>Recovery after a restart\<close>

lemma set_ListExecutions: "set (ListExecutions s i) = {e \<in> set (s_executions s). e_ticket_id e = i}"
  by (auto simp: ListExecutions_def)

lemma count_status_pos: "count_status st es > 0 \<longleftrightarrow> (\<exists>e \<in> set es. e_status e = st)"
  by (auto simp: count_status_def filter_empty_conv)

lemma count_status_sum:
  "count_status ExPending es + count_status ExRunning es + count_status ExCompleted es +
   count_status ExFailed es + count_status ExStopped es = int (length es)"
proof (induction es)
  case Nil
  then show ?case by (simp add: count_status_def)
next
  case (Cons e es)
  then show ?case by (cases "e_status e") (simp_all add: count_status_def)
qed

lemma count_status_nonneg [simp]: "0 \<le> count_status st es"
  by (simp add: count_status_def)

text \<open>
  The status of counts that add up: executing only while a statement runs or waits; completed only
  when all are; pending only when none started; and never another status.
\<close>

lemma AggregateTicketStatusFromCounts_cases:
  assumes "n = p + r + c + f" and "0 \<le> p" and "0 \<le> r" and "0 \<le> c" and "0 \<le> f"
  shows "AggregateTicketStatusFromCounts n p r c f mode =
    (if n = 0 then Failed else if r > 0 then Executing else if p = n then PendingExecution
     else if c = n then Completed
     else if f > 0 \<and> \<not> (mode \<noteq> None \<and> trim_space (the mode) = run_mode_manual_statement \<and> p > 0) then Failed
     else Executing)"
  using assms
  by (auto simp: AggregateTicketStatusFromCounts_def Let_def run_mode_defs split: option.splits)

lemma aggregate_executing:
  assumes "n = p + r + c + f" and "0 \<le> p" and "0 \<le> r" and "0 \<le> c" and "0 \<le> f"
    and "AggregateTicketStatusFromCounts n p r c f mode = Executing"
  shows "r > 0 \<or> p > 0"
  using assms(6) unfolding AggregateTicketStatusFromCounts_cases [OF assms(1-5)]
  using assms(1-5) by (auto split: if_splits)

lemma recover_ticket_executions:
  "s_executions (snd (recover_ticket now i s)) =
     update_where (\<lambda>e. e_ticket_id e = i \<and> e_status e = ExRunning) (fail_restarted now) (s_executions s)"
proof -
  have none: "update_where (\<lambda>e. e_ticket_id e = i \<and> e_status e = ExRunning) f (s_executions s) = s_executions s"
    if "filter (\<lambda>e. e_status e = ExRunning) (ListExecutions s i) = []" for f
    using that by (intro update_where_none) (auto simp: affected_iff filter_empty_conv set_ListExecutions)
  show ?thesis
    by (auto simp: recover_ticket_def Let_def SetExecutionAggregateStatus_def none)
qed

lemma recover_ticket_status:
  "\<exists>st. (st = Executing \<longrightarrow> (\<exists>e \<in> set (s_executions s). e_ticket_id e = i \<and> e_status e = ExPending)) \<and>
     s_tickets (snd (recover_ticket now i s)) = s_tickets (SetExecutionAggregateStatus now i st s)"
proof (cases "ListExecutions s i = []")
  case True
  then show ?thesis
    by (intro exI [of _ Failed]) (simp add: recover_ticket_def SetExecutionAggregateStatus_def Let_def)
next
  case False
  let ?es = "ListExecutions s i"
  let ?run = "if filter (\<lambda>e. e_status e = ExRunning) ?es \<noteq> [] then 0 else count_status ExRunning ?es"
  let ?fail = "count_status ExRunning ?es + count_status ExFailed ?es + count_status ExStopped ?es"
  let ?mode = "case GetTicket s i of None \<Rightarrow> None | Some t \<Rightarrow> t_execution_run_mode t"
  let ?st = "AggregateTicketStatusFromCounts (int (length ?es)) (count_status ExPending ?es) ?run
    (count_status ExCompleted ?es) ?fail ?mode"
  have run: "?run = 0" by (auto simp: count_status_def)
  have "?st = Executing \<Longrightarrow> count_status ExPending ?es > 0"
    using aggregate_executing [of "int (length ?es)" "count_status ExPending ?es" 0 "count_status ExCompleted ?es" ?fail ?mode]
      count_status_sum [of ?es] unfolding run by simp
  then have "?st = Executing \<Longrightarrow> \<exists>e \<in> set (s_executions s). e_ticket_id e = i \<and> e_status e = ExPending"
    by (auto simp: count_status_pos set_ListExecutions)
  moreover have "s_tickets (snd (recover_ticket now i s)) = s_tickets (SetExecutionAggregateStatus now i ?st s)"
    using False by (simp add: recover_ticket_def Let_def SetExecutionAggregateStatus_def)
  ultimately show ?thesis by blast
qed

lemma GetTicket_cong: "s_tickets a = s_tickets b \<Longrightarrow> GetTicket a i = GetTicket b i"
  by (simp add: GetTicket_def)

lemma GetTicket_aggregate:
  "GetTicket (SetExecutionAggregateStatus now i st s) j =
     (if j = i then map_option (\<lambda>t. t\<lparr>t_status := st, t_updated_at := now,
        t_completed_at := (if st \<in> {Completed, Failed, Stopped} then Some now else t_completed_at t)\<rparr>) (GetTicket s i)
      else GetTicket s j)"
proof -
  have "t_id t = j" if "GetTicket s j = Some t" for t using that by (rule GetTicket_id)
  then show ?thesis
    by (cases "GetTicket s j") (auto simp: SetExecutionAggregateStatus_def store_simps dest: GetTicket_id)
qed

lemma snd_recover_all_Cons [simp]:
  "snd (recover_all now (i # is) s) = snd (recover_all now is (snd (recover_ticket now i s)))"
  by (simp split: prod.split)

declare recover_all.simps(2) [simp del]

lemma recover_all_executions:
  "s_executions (snd (recover_all now is s)) =
     update_where (\<lambda>e. e_ticket_id e \<in> set is \<and> e_status e = ExRunning) (fail_restarted now) (s_executions s)"
proof (induction "is" arbitrary: s)
  case Nil
  then show ?case by (simp add: update_where_def)
next
  case (Cons i "is")
  show ?case
    unfolding snd_recover_all_Cons Cons.IH recover_ticket_executions by (auto simp: update_where_def)
qed

lemma recover_all_tickets:
  assumes "distinct is"
  shows "(j \<notin> set is \<longrightarrow> GetTicket (snd (recover_all now is s)) j = GetTicket s j) \<and>
    (j \<in> set is \<longrightarrow> (\<forall>t. GetTicket s j = Some t \<longrightarrow> (\<exists>t'. GetTicket (snd (recover_all now is s)) j = Some t' \<and>
       (t_status t' = Executing \<longrightarrow> (\<exists>e \<in> set (s_executions s). e_ticket_id e = j \<and> e_status e = ExPending)))))"
  using assms
proof (induction "is" arbitrary: s)
  case Nil
  then show ?case by simp
next
  case (Cons i "is")
  let ?s1 = "snd (recover_ticket now i s)"
  obtain st where st: "st = Executing \<longrightarrow> (\<exists>e \<in> set (s_executions s). e_ticket_id e = i \<and> e_status e = ExPending)"
    and tk: "s_tickets ?s1 = s_tickets (SetExecutionAggregateStatus now i st s)"
    using recover_ticket_status by blast
  note get1 = GetTicket_cong [OF tk]
  have pend: "(\<exists>e \<in> set (s_executions ?s1). e_ticket_id e = j \<and> e_status e = ExPending) \<Longrightarrow>
      (\<exists>e \<in> set (s_executions s). e_ticket_id e = j \<and> e_status e = ExPending)"
    unfolding recover_ticket_executions by (auto simp: set_update_where)
  show ?case
  proof (cases "j = i")
    case True
    with Cons.prems have "GetTicket (snd (recover_all now is ?s1)) j = GetTicket ?s1 j"
      using Cons.IH [of ?s1] by simp
    with True st show ?thesis by (cases "GetTicket s i") (simp_all add: get1 GetTicket_aggregate)
  next
    case False
    with Cons.prems Cons.IH [of ?s1] pend show ?thesis by (auto simp: get1 GetTicket_aggregate)
  qed
qed

text \<open>
  After \<open>RecoverExecutingTickets\<close> no statement of a ticket that was executing is marked running;
  tickets in another status are untouched; and a ticket that is still shown as executing has a
  statement left to run.
\<close>

theorem recovery_settles_tickets:
  assumes "store_wf s" and "RecoverExecutingTickets now s = (rvs, s')"
  shows "(\<forall>e \<in> set (s_executions s'). e_status e = ExRunning \<longrightarrow>
            \<not> (\<exists>t. GetTicket s (e_ticket_id e) = Some t \<and> t_status t = Executing)) \<and>
         (\<forall>i t. GetTicket s i = Some t \<and> t_status t \<noteq> Executing \<longrightarrow> GetTicket s' i = Some t) \<and>
         (\<forall>i t. GetTicket s i = Some t \<and> t_status t = Executing \<longrightarrow>
            (\<exists>t'. GetTicket s' i = Some t' \<and> (t_status t' = Executing \<longrightarrow>
               (\<exists>e \<in> set (s_executions s). e_ticket_id e = i \<and> e_status e = ExPending))))"
proof -
  let ?ex = "map t_id (filter (\<lambda>t. t_status t = Executing) (s_tickets s))"
  have s': "s' = snd (recover_all now ?ex s)" using assms(2) by (simp add: RecoverExecutingTickets_def)
  have dist: "distinct (map t_id (s_tickets s))" using assms(1) by (simp add: store_wf_def ticket_keys_def)
  then have "distinct ?ex" by (rule distinct_map_filter)
  have mem: "i \<in> set ?ex \<longleftrightarrow> (\<exists>t. GetTicket s i = Some t \<and> t_status t = Executing)" for i
    using find_key_Some_iff [OF dist] by (auto simp: GetTicket_def)
  have "\<forall>e \<in> set (s_executions s'). e_status e = ExRunning \<longrightarrow> e_ticket_id e \<notin> set ?ex"
    unfolding s' recover_all_executions by (auto simp: set_update_where)
  then show ?thesis
    using recover_all_tickets [OF \<open>distinct ?ex\<close>, of _ now s] unfolding s' [symmetric] mem by (auto split: option.splits)
qed

text \<open>
  A run of several statements (batch, automatic or whole ticket) that a restart interrupts
  between two statements stays in status executing although no runner continues it, and no
  operation starts it again: \<open>StartExecution\<close> wants a pending ticket and a manual claim wants the
  manual run mode.
\<close>

theorem recovered_batch_not_resumable:
  assumes "GetTicket s i = Some t" and "t_status t = Executing"
    and "t_execution_run_mode t \<in> {Some run_mode_batch, Some run_mode_workflow_auto, Some run_mode_whole_ticket}"
    and "distinct (map t_id (s_tickets s))"
  shows "AggregateTicketStatusFromCounts 2 1 0 1 0 (t_execution_run_mode t) = Executing \<and>
     \<not> fst (StartExecution now i ex m d s) \<and> \<not> fst (ClaimManualStatementExecution now i ex s)"
proof -
  have "AggregateTicketStatusFromCounts 2 1 0 1 0 (t_execution_run_mode t) = Executing"
    by (simp add: AggregateTicketStatusFromCounts_cases)
  moreover have "\<not> fst (StartExecution now i ex m d s)"
    using assms(1,2) unfolding StartExecution_def touched_simps start_guard_def affected_id_status [OF assms(4)]
    by simp
  moreover have "\<not> fst (ClaimManualStatementExecution now i ex s)"
    using affected_id_status [OF assms(4)] assms(1-3)
    by (auto simp: ClaimManualStatementExecution_def store_simps run_mode_defs)
  ultimately show ?thesis by blast
qed

section \<open>Query access grants\<close>

lemma normalizePattern_nonempty [simp]: "normalizePattern v \<noteq> []"
  by (auto simp: normalizePattern_def Let_def)

text \<open>The checks for a missing pattern in \<open>CreateTicketItems\<close> never fire.\<close>

lemma CreateTicketItems_succeeds: "fst (CreateTicketItems i items s)"
  by (induction items arbitrary: s) (simp_all add: Let_def normalizeQueryAccessItem_def)

lemma insert_rules_rules:
  "\<exists>new. s_access_rules (insert_rules i subj ex items s) = s_access_rules s @ new \<and> length new = length items \<and>
     (\<forall>r \<in> set new. ar_subject_type r = SubjUser \<and> ar_subject_id r = subj \<and> ar_source_ticket_id r = Some i \<and>
        ar_expires_at r = ex \<and> ar_revoked_at r = None \<and> ar_connection_id r \<in> ai_connection_id ` set items)"
proof (induction items arbitrary: s)
  case Nil
  then show ?case by simp
next
  case (Cons it its)
  let ?row = "\<lparr>ar_id = s_next_rule s, ar_subject_type = SubjUser, ar_subject_id = subj,
     ar_effect = normalizeQueryAccessEffect (ai_effect it), ar_connection_id = ai_connection_id it,
     ar_database_pattern = normalizePattern (firstNonEmpty [ai_database_pattern it, ai_database_name it]),
     ar_table_pattern = normalizePattern (firstNonEmpty [ai_table_pattern it, nullableString (ai_table_name it)]),
     ar_source_ticket_id = Some i, ar_expires_at = ex, ar_revoked_at = None, ar_revoked_by = None\<rparr>"
  from Cons.IH [of "s\<lparr>s_access_rules := s_access_rules s @ [?row], s_next_rule := s_next_rule s + 1\<rparr>"]
  obtain new where "s_access_rules (insert_rules i subj ex (it # its) s) = s_access_rules s @ ?row # new"
    and "length new = length its" and "\<forall>r \<in> set new. ar_subject_type r = SubjUser \<and> ar_subject_id r = subj \<and>
        ar_source_ticket_id r = Some i \<and> ar_expires_at r = ex \<and> ar_revoked_at r = None \<and>
        ar_connection_id r \<in> ai_connection_id ` set its"
    by auto
  then show ?case by (intro exI [of _ "?row # new"]) auto
qed

lemma insert_rules_tickets [simp]: "s_tickets (insert_rules i subj ex items s) = s_tickets s"
  by (induction items arbitrary: s) auto

lemma ListActiveRules_iff:
  "r \<in> set (ListActiveRules now s subj groups conn) \<longleftrightarrow>
     r \<in> set (s_access_rules s) \<and> active_rule now subj groups conn r"
  by (auto simp: ListActiveRules_def)


text \<open>
  A successful \<open>RevokeTicket\<close> leaves no active rule that came from the ticket, for any user,
  group or connection and at any later time; a refused one changes nothing.
\<close>

theorem revoke_access_complete:
  assumes "RevokeTicket now i actor s = (ok, s')"
  shows "(ok \<longrightarrow> (\<forall>later subj groups conn. \<forall>r \<in> set (ListActiveRules later s' subj groups conn).
             ar_source_ticket_id r \<noteq> Some i)) \<and> (\<not> ok \<longrightarrow> s' = s)"
  using assms
  by (auto simp: RevokeTicket_def revokeGrantsByTicketTx_def touched_def ListActiveRules_iff active_rule_def
      grant_guard_def set_update_where split: if_splits)

section \<open>Witnesses\<close>

definition sample_store :: store where
  "sample_store = \<lparr>s_tickets = [sample_ticket,
       sample_ticket\<lparr>t_id := 11, t_status := Executing, t_execution_run_mode := Some run_mode_batch\<rparr>,
       sample_ticket\<lparr>t_id := 12, t_type := QueryAccess\<rparr>],
     s_next_ticket = 13, s_scopes = [],
     s_executions = [(new_execution 1 11 (1, ''UPDATE a''))\<lparr>e_status := ExCompleted\<rparr>,
                     (new_execution 2 11 (2, ''UPDATE b''))\<lparr>e_status := ExRunning\<rparr>,
                     new_execution 3 11 (3, ''UPDATE c'')],
     s_next_execution = 4, s_snapshots = [],
     s_access_requests = [\<lparr>aq_ticket_id = 12, aq_effect = EffAllow, aq_connection_id = 7,
                            aq_database_pattern = ''shop'', aq_table_pattern = ''*''\<rparr>],
     s_legacy_items = [], s_access_rules = [], s_next_rule = 1\<rparr>"

lemma sample_store_wf: "store_wf sample_store"
  by (simp add: store_wf_def ticket_keys_def execution_keys_def sample_store_def sample_ticket_def new_execution_def)

lemma sample_store_keys: "distinct (map t_id (s_tickets sample_store))"
  using sample_store_wf by (simp add: store_wf_def ticket_keys_def)

theorem update_status_compare_and_set_witness:
  "fst (UpdateStatus 99 10 PendingReview Approved (Some 4) None None sample_store) \<and>
   map_option t_status (GetTicket (snd (UpdateStatus 99 10 PendingReview Approved (Some 4) None None sample_store)) 10)
     = Some Approved"
proof -
  obtain ok s' where u: "UpdateStatus 99 10 PendingReview Approved (Some 4) None None sample_store = (ok, s')"
    by (cases "UpdateStatus 99 10 PendingReview Approved (Some 4) None None sample_store") auto
  have "GetTicket sample_store 10 = Some sample_ticket" "t_status sample_ticket = PendingReview"
    by (simp_all add: GetTicket_def sample_store_def sample_ticket_def)
  then show ?thesis using update_status_compare_and_set [OF sample_store_keys u] by (auto simp: u simp del: map_option_eq_Some)
qed


theorem submitted_content_immutable_witness:
  "map_option submitted (GetTicket (MarkCompleted 9 10 Failed sample_store) 10) = Some (submitted sample_ticket)"
proof -
  have g: "GetTicket sample_store 10 = Some sample_ticket" by (simp add: GetTicket_def sample_store_def sample_ticket_def)
  have st: "store_step\<^sup>*\<^sup>* sample_store (MarkCompleted 9 10 Failed sample_store)"
    by (auto intro: store_step.completed)
  obtain t' where t': "GetTicket (MarkCompleted 9 10 Failed sample_store) 10 = Some t'"
    using g by (auto simp: MarkCompleted_def store_simps)
  show ?thesis using submitted_content_immutable [OF sample_store_wf st g t'] t' by (simp del: map_option_eq_Some)
qed

theorem recovery_settles_tickets_witness:
  "map e_status (s_executions (snd (RecoverExecutingTickets 8 sample_store))) = [ExCompleted, ExFailed, ExPending] \<and>
   map_option t_status (GetTicket (snd (RecoverExecutingTickets 8 sample_store)) 11) = Some Failed \<and>
   GetTicket (snd (RecoverExecutingTickets 8 sample_store)) 10 = Some sample_ticket"
proof -
  obtain rvs s' where r: "RecoverExecutingTickets 8 sample_store = (rvs, s')"
    by (cases "RecoverExecutingTickets 8 sample_store") auto
  have "GetTicket sample_store 10 = Some sample_ticket" "t_status sample_ticket \<noteq> Executing"
    by (simp_all add: GetTicket_def sample_store_def sample_ticket_def)
  with recovery_settles_tickets [OF sample_store_wf r] have "GetTicket s' 10 = Some sample_ticket" by blast
  moreover have "map e_status (s_executions (snd (RecoverExecutingTickets 8 sample_store))) = [ExCompleted, ExFailed, ExPending]"
    and "map_option t_status (GetTicket (snd (RecoverExecutingTickets 8 sample_store)) 11) = Some Failed"
    by code_simp+
  ultimately show ?thesis by (simp add: r)
qed

theorem recovered_batch_not_resumable_witness:
  "\<not> fst (StartExecution 5 11 2 ''batch'' None sample_store) \<and> \<not> fst (ClaimManualStatementExecution 5 11 2 sample_store)"
proof -
  let ?t = "sample_ticket\<lparr>t_id := 11, t_status := Executing, t_execution_run_mode := Some run_mode_batch\<rparr>"
  have "GetTicket sample_store 11 = Some ?t" by (simp add: GetTicket_def sample_store_def sample_ticket_def)
  from recovered_batch_not_resumable [OF this _ _ sample_store_keys] show ?thesis by simp
qed


theorem revoke_access_complete_witness:
  "fst (RevokeTicket 6 12 4 (snd (ApproveTicket 5 12 PendingReview 4 None 5 (Some 100) sample_store))) \<and>
   ListActiveRules 7 (snd (RevokeTicket 6 12 4 (snd (ApproveTicket 5 12 PendingReview 4 None 5 (Some 100) sample_store)))) 5 [] 7 = []"
proof -
  let ?s = "snd (ApproveTicket 5 12 PendingReview 4 None 5 (Some 100) sample_store)"
  obtain ok s' where r: "RevokeTicket 6 12 4 ?s = (ok, s')" by (cases "RevokeTicket 6 12 4 ?s") auto
  have "fst (RevokeTicket 6 12 4 ?s)" by code_simp
  moreover have "map ar_source_ticket_id (s_access_rules (snd (RevokeTicket 6 12 4 ?s))) = [Some 12]" by code_simp
  then have "\<forall>x \<in> set (s_access_rules s'). ar_source_ticket_id x = Some 12" by (auto simp: r)
  moreover have "set (ListActiveRules 7 s' 5 [] 7) = {}" if ok
    using revoke_access_complete [OF r] that \<open>\<forall>x \<in> set (s_access_rules s'). ar_source_ticket_id x = Some 12\<close>
    ListActiveRules_iff [of _ 7 s' 5 "[]" 7] by (metis equals0I)
  ultimately show ?thesis by (simp add: r)
qed

end
