(* ===== verification/Ticket_Handler_Laws.thy ===== *)
theory Ticket_Handler_Laws
  imports Ticket_Handlers Ticket_Store_Laws
begin

text \<open>
  Properties of the ticket handlers: the status of a ticket moves along the transition table,
  approvals need a reviewer, runs need an executor who is neither submitter nor reviewer, and nothing
  runs by itself in production.
\<close>

section \<open>The status table is respected\<close>

text \<open>Every stored ticket stays stored and its status moves along the transition table.\<close>

definition status_path :: "store \<Rightarrow> store \<Rightarrow> bool" where
  "status_path s s' \<longleftrightarrow> (\<forall>i t. GetTicket s i = Some t \<longrightarrow>
     (\<exists>t'. GetTicket s' i = Some t' \<and> CanTransition\<^sup>*\<^sup>* (t_status t) (t_status t')))"

lemma status_path_refl [simp]: "status_path s s"
  by (simp add: status_path_def)

lemma status_path_trans: "status_path a b \<Longrightarrow> status_path b c \<Longrightarrow> status_path a c"
  unfolding status_path_def by (meson rtranclp_trans)

lemma status_path_same: "s_tickets s' = s_tickets s \<Longrightarrow> status_path s s'"
  by (auto simp: status_path_def GetTicket_def)

lemma status_path_update:
  "(\<And>t. t_id (f t) = t_id t) \<Longrightarrow> (\<And>t. P t \<Longrightarrow> CanTransition\<^sup>*\<^sup>* (t_status t) (t_status (f t))) \<Longrightarrow>
   status_path s (update_tickets P f s)"
  by (auto simp: status_path_def store_simps)

lemma status_path_UpdateStatus:
  "CanTransition from to \<Longrightarrow> status_path s (snd (UpdateStatus now i from to rv c rs s))"
  unfolding UpdateStatus_def touched_simps by (rule status_path_update) auto

lemma status_path_start [simp]: "status_path s (snd (StartExecution now i ex m d s))"
  unfolding StartExecution_def touched_simps
  by (rule status_path_update)
     (auto simp: start_guard_def start_row_def Let_def CanTransition_iff intro!: r_into_rtranclp)

lemma status_path_writes [simp]:
  "status_path s (SetScheduled now i ex sched s)"
  "status_path s (SetExecutorIfEmpty now i ex s)"
  by (auto simp: SetScheduled_def SetExecutorIfEmpty_def intro!: status_path_update)

lemma status_path_snapshot [simp]: "status_path s (SaveWorkflowSnapshot now i r s)"
  by (rule status_path_same) (simp add: SaveWorkflowSnapshot_def Let_def)

lemma status_path_ApproveSensitive:
  "CanTransition from Approved \<Longrightarrow> status_path s (snd (ApproveSensitiveAccess now i from rv until s))"
  unfolding ApproveSensitiveAccess_def touched_simps by (rule status_path_update) auto

lemma status_path_ApproveTicket:
  assumes "CanTransition from Approved"
  shows "status_path s (snd (ApproveTicket now i from rv c subj ex s))"
proof -
  let ?P = "\<lambda>t. t_id t = i \<and> t_status t = from \<and> t_type t = QueryAccess"
  let ?f = "\<lambda>t. t\<lparr>t_status := Approved, t_updated_at := now, t_reviewer_id := Some rv, t_approved_at := Some now,
     t_review_comment := coalesce c (t_review_comment t), t_approved_until := coalesce ex (t_approved_until t)\<rparr>"
  have "status_path s (update_tickets ?P ?f s)" by (rule status_path_update) (use assms in auto)
  moreover have "status_path a (insert_rules i subj ex its a)" for its a by (rule status_path_same) simp
  ultimately show ?thesis
    by (auto simp: ApproveTicket_def touched_def createGrantsForTicketTx_def Let_def
        intro: status_path_trans split: option.splits if_splits)
qed

definition world_path :: "world \<Rightarrow> world \<Rightarrow> bool" where
  "world_path w w' \<longleftrightarrow> status_path (wd_store w) (wd_store w')"

lemma world_path_refl [simp]: "world_path w w"
  by (simp add: world_path_def)

lemma world_path_emit [simp]: "world_path w (emit e w') \<longleftrightarrow> world_path w w'"
  by (simp add: world_path_def emit_def)

lemma world_path_emit_left [simp]: "world_path (emit e w) w' \<longleftrightarrow> world_path w w'"
  by (simp add: world_path_def emit_def)

lemma world_path_trans: "world_path a b \<Longrightarrow> world_path b c \<Longrightarrow> world_path a c"
  by (auto simp: world_path_def intro: status_path_trans)

lemma world_path_write_store:
  "(\<And>s. status_path s (snd (f s))) \<Longrightarrow> write_store fl op f w = (ok, w') \<Longrightarrow> world_path w w'"
  by (auto simp: write_store_def world_path_def split: if_splits prod.splits) (metis snd_conv)

lemma snd_always [simp]: "snd (always f s) = f s"
  by (simp add: always_def)

lemma world_path_forbid: "forbidTicketAccess q ip t w = (r, w') \<Longrightarrow> world_path w w'"
  by (auto simp: forbidTicketAccess_def Let_def world_path_def emit_def split: prod.splits if_splits)

lemma world_path_start_auto: "startWorkflowAutoExecution q fl t a w = (ok, w') \<Longrightarrow> world_path w w'"
  by (auto simp: startWorkflowAutoExecution_def split: prod.splits if_splits
      dest!: world_path_write_store [rotated])

lemma world_path_move: "moveApprovedTicketToPendingExecution q fl t a c w = (ok, w') \<Longrightarrow> world_path w w'"
  by (auto simp: moveApprovedTicketToPendingExecution_def CanTransition_iff split: prod.splits
      dest!: world_path_write_store [rotated] intro: status_path_UpdateStatus)

lemma world_path_finish: "finishNoApprovalWorkflow q fl t a r c w = (ok, w') \<Longrightarrow> world_path w w'"
  by (auto simp: finishNoApprovalWorkflow_def Let_def split: prod.splits if_splits bool.splits
      dest!: world_path_move world_path_start_auto intro: world_path_trans)

lemmas world_path_status = world_path_write_store [OF status_path_UpdateStatus]

lemma world_path_approve_write:
  assumes "approve_write q fl t c w = (ok, w')" and "CanTransition (t_status t) Approved"
  shows "world_path w w'"
proof (cases "t_type t = QueryAccess")
  case True
  then have "w' = w \<or> (\<exists>now i rv c subj ex. wd_store w' =
      snd (ApproveTicket now i (t_status t) rv c subj ex (wd_store w)))"
    using assms(1) by (auto simp: approve_write_def Let_def split: if_splits prod.splits) (metis snd_conv)+
  then show ?thesis
    using status_path_ApproveTicket [OF assms(2)] by (auto simp: world_path_def)
next
  case False
  with assms show ?thesis
    by (auto simp: approve_write_def split: if_splits
        intro: world_path_status world_path_write_store [OF status_path_ApproveSensitive])
qed

lemma world_path_export: "ensureReadyExportRequest fl t a w = (ok, w') \<Longrightarrow> world_path w w'"
  by (auto simp: ensureReadyExportRequest_def world_path_def split: if_splits option.splits)

lemma world_path_after_approve:
  assumes "after_approve q fl t c w = (r, w')"
  shows "world_path w w'"
proof -
  obtain ok w1 where e: "(if t_type t = SQLExport then ensureReadyExportRequest fl t (Some (q_user q)) w else (True, w)) = (ok, w1)"
    by fastforce
  have p1: "world_path w w1" using e by (auto split: if_splits intro: world_path_export)
  obtain ok2 w2 where u: "write_store fl (OpStatus PendingExecution)
      (UpdateStatus (q_now q) (t_id t) Approved PendingExecution (Some (q_user q)) c None) w1 = (ok2, w2)"
    by fastforce
  have p2: "world_path w w2"
    using world_path_trans [OF p1 world_path_status [OF _ u]] by (simp add: CanTransition_iff)
  have "world_path w w3" if "startWorkflowAutoExecution q fl t1 a w2 = (x, w3)" for t1 a x w3
    using world_path_trans [OF p2 world_path_start_auto [OF that]] .
  then show ?thesis
    using assms p1 p2
    by (auto simp: after_approve_def e u Let_def split: bool.splits option.splits prod.splits if_splits)
qed

lemma world_path_Approve:
  assumes "Approve q fl ip t c w = (r, w')"
  shows "world_path w w'"
proof (cases "canRejectTicket q (wd_store w) t (q_user q) = Some True \<and> ValidateTransition (t_status t) Approved = None")
  case False
  with assms show ?thesis
    by (auto simp: Approve_def Let_def split: option.splits bool.splits if_splits dest: world_path_forbid)
next
  case True
  obtain ok w1 where a: "approve_write q fl t (trimOptionalString c) w = (ok, w1)" by fastforce
  have "world_path w w1"
    using True by (intro world_path_approve_write [OF a]) (simp add: ValidateTransition_def split: if_splits)
  with assms True show ?thesis
    by (auto simp: Approve_def Let_def a split: option.splits bool.splits
        dest!: world_path_after_approve intro: world_path_trans)
qed

lemma world_path_Reject:
  assumes "Reject q fl ip t rs w = (r, w')"
  shows "world_path w w'"
proof (cases "canRejectTicket q (wd_store w) t (q_user q) = Some True \<and> ValidateTransition (t_status t) Rejected = None \<and> rs \<noteq> []")
  case False
  with assms show ?thesis
    by (auto simp: Reject_def Let_def split: option.splits bool.splits if_splits dest: world_path_forbid)
next
  case True
  let ?rv = "if t_status t = Approved \<or> t_status t = PendingExecution then None else Some (q_user q)"
  obtain ok w1 where u: "write_store fl (OpStatus Rejected)
      (UpdateStatus (q_now q) (t_id t) (t_status t) Rejected ?rv None (Some rs)) w = (ok, w1)" by fastforce
  have p1: "world_path w w1"
    using True by (intro world_path_status [OF _ u]) (simp add: ValidateTransition_def split: if_splits)
  obtain ok2 w2 where e: "write_store fl OpExecution (always (SetExecutorIfEmpty (q_now q) (t_id t) (q_user q))) w1 = (ok2, w2)"
    by fastforce
  have "world_path w1 w2" by (rule world_path_write_store [OF _ e]) simp
  with p1 have "world_path w w2" by (rule world_path_trans)
  with assms True p1 show ?thesis
    unfolding Reject_def Let_def by (auto simp: u e split: option.splits bool.splits if_splits)
qed

lemma world_path_Withdraw:
  assumes "Withdraw q fl ip t rs w = (r, w')"
  shows "world_path w w'"
proof (cases "canWithdrawTicket q t (q_user q) = Some True \<and> ValidateTransition (t_status t) Withdrawn = None")
  case False
  with assms show ?thesis
    by (auto simp: Withdraw_def Let_def split: option.splits bool.splits if_splits dest: world_path_forbid)
next
  case True
  obtain ok w1 where u: "write_store fl (OpStatus Withdrawn)
      (UpdateStatus (q_now q) (t_id t) (t_status t) Withdrawn None None (trimOptionalString rs)) w = (ok, w1)" by fastforce
  have "world_path w w1"
    using True by (intro world_path_status [OF _ u]) (simp add: ValidateTransition_def split: if_splits)
  with assms True show ?thesis
    by (auto simp: Withdraw_def Let_def u split: option.splits bool.splits)
qed

lemma world_path_execute_now: "execute_now q fl t m w = (r, w') \<Longrightarrow> world_path w w'"
  by (auto simp: execute_now_def split: option.splits prod.splits bool.splits
      dest!: world_path_write_store [rotated])

lemma world_path_Execute: "Execute q fl ip t sched m w = (r, w') \<Longrightarrow> world_path w w'"
  by (auto simp: Execute_def Let_def split: if_splits option.splits bool.splits prod.splits
      dest!: world_path_forbid world_path_execute_now world_path_write_store [rotated])

lemma world_path_save_snapshot:
  "write_store fl OpSnapshot (always (SaveWorkflowSnapshot now i r)) w = (ok, w') \<Longrightarrow> world_path w w'"
  by (rule world_path_write_store) simp_all

lemma CanTransition_created [simp]:
  "CanTransition PendingReview NeedsAdminAttention" "CanTransition PendingReview Approved"
  "CanTransition NeedsAdminAttention PendingReview" "CanTransition NeedsAdminAttention Approved"
  by (simp_all add: CanTransition_iff)

lemma world_path_apply:
  assumes "applyWorkflowAfterCreate q fl t a n w = (ok, w')"
  shows "world_path w w'"
proof (cases "resolution_of q (wd_store w) t")
  case None
  with assms show ?thesis by (simp add: applyWorkflowAfterCreate_def)
next
  case (Some r)
  obtain x w1 where sn: "write_store fl OpSnapshot (always (SaveWorkflowSnapshot (q_now q) (t_id t) r)) w = (x, w1)" by fastforce
  have p1: "world_path w w1" using sn by (rule world_path_save_snapshot)
  have st: "world_path w w2" if "write_store fl (OpStatus to) (UpdateStatus now i PendingReview to rv c rs) w1 = (y, w2)"
    and "to \<in> {NeedsAdminAttention, Approved}" for to now i rv c rs y w2
    using world_path_trans [OF p1 world_path_status [OF _ that(1)]] that(2) by auto
  have "world_path w w3" if "finishNoApprovalWorkflow q fl t1 a r n (emit e w2) = (y, w3)" and "world_path w w2" for t1 e w2 y w3
    using world_path_trans [OF that(2)] world_path_finish [OF that(1)] by simp
  with assms p1 st show ?thesis
    by (auto simp: applyWorkflowAfterCreate_def Some sn Let_def split: option.splits prod.splits if_splits)
qed

lemma world_path_Retry:
  assumes "RetryWorkflowResolution q fl ip t c n w = (r, w')"
  shows "world_path w w'"
proof (cases "resolveTicketWorkflow (q_workflow q) t")
  case None
  with assms show ?thesis
    by (auto simp: RetryWorkflowResolution_def split: if_splits dest: world_path_forbid)
next
  case (Some res)
  obtain x w1 where sn: "write_store fl OpSnapshot (always (SaveWorkflowSnapshot (q_now q) (t_id t) res)) w = (x, w1)" by fastforce
  have p1: "world_path w w1" using sn by (rule world_path_save_snapshot)
  have st: "world_path w w2" if "write_store fl (OpStatus to) (UpdateStatus now i NeedsAdminAttention to rv c rs) w1 = (y, w2)"
    and "to \<in> {PendingReview, Approved}" for to now i rv c rs y w2
    using world_path_trans [OF p1 world_path_status [OF _ that(1)]] that(2) by auto
  have "world_path w w3" if "finishNoApprovalWorkflow q fl t1 a res n (emit e w2) = (z, w3)" and "world_path w w2" for t1 a e w2 z w3
    using world_path_trans [OF that(2)] world_path_finish [OF that(1)] by simp
  with assms p1 st show ?thesis
    by (auto simp: RetryWorkflowResolution_def Some sn Let_def
        split: option.splits prod.splits bool.splits if_splits dest: world_path_forbid)
qed


section \<open>Approval needs a reviewer, execution an executor\<close>

lemma forbid_store [simp]: "wd_store (snd (forbidTicketAccess q ip t w)) = wd_store w"
  by (simp add: forbidTicketAccess_def Let_def emit_def split: prod.split)

text \<open>
  C3: an approval that changes the store was requested by someone who may review the ticket. The
  handler asks \<open>canRejectTicket\<close>, which also lets an executor through; the transition check that
  follows closes that path, because an approved or pending ticket cannot be approved again.
\<close>

theorem approve_requires_reviewer:
  assumes "wd_store (snd (Approve q fl ip t comment w)) \<noteq> wd_store w"
  shows "canReviewTicket q (wd_store w) t (q_user q) = Some True \<and>
     t_status t \<in> {PendingReview, NeedsAdminAttention} \<and>
     (t_submitter_id t = q_user q \<longrightarrow> workflowBypassAllowed (q_workflow q) (q_user q) SelfReview = Some True)"
proof -
  have can: "canRejectTicket q (wd_store w) t (q_user q) = Some True" and tr: "ValidateTransition (t_status t) Approved = None"
    using assms by (auto simp: Approve_def Let_def split: option.splits bool.splits if_splits)
  from tr have st: "t_status t \<in> {PendingReview, NeedsAdminAttention}"
    by (auto simp: ValidateTransition_def CanTransition_iff split: if_splits)
  with can have "canReviewTicket q (wd_store w) t (q_user q) = Some True"
    by (auto simp: canRejectTicket_def bind_eq_Some_conv split: if_splits)
  with st canReviewTicket_True(1) [OF this] show ?thesis by blast
qed

text \<open>
  C2: four-eyes execution. A request that starts a run (or schedules one) comes from a user with
  the execute permission whom the ticket's workflow names as an executor, who did not submit the
  ticket and did not review it, unless the respective bypass is configured for that user; and the
  ticket it loaded was waiting for execution.
\<close>

theorem execute_four_eyes:
  assumes "wd_store (snd (Execute q fl ip t sched mode w)) \<noteq> wd_store w"
  shows "t_status t = PendingExecution \<and> isExecutableTicketType (t_type t) \<and> HasPermission q [''tickets.execute''] \<and>
     (\<exists>r. resolution_of q (wd_store w) t = Some r \<and> r_error_code r = [] \<and> q_user q \<in> set (r_executor_users r)) \<and>
     (t_submitter_id t = q_user q \<longrightarrow> workflowBypassAllowed (q_workflow q) (q_user q) SelfExecute = Some True) \<and>
     (t_reviewer_id t = Some (q_user q) \<longrightarrow> workflowBypassAllowed (q_workflow q) (q_user q) MultiStep = Some True)"
proof -
  have "t_status t = PendingExecution" "canExecuteTicket q (wd_store w) t (q_user q) = Some True"
    using assms by (auto simp: Execute_def Let_def split: option.splits bool.splits if_splits)
  then show ?thesis using canExecuteTicket_True [of q "wd_store w" t "q_user q"] by blast
qed

section \<open>No automatic runs in production\<close>

fun is_auto_run :: "effect \<Rightarrow> bool" where
  "is_auto_run (SpawnRun _ _ automated) = automated"
| "is_auto_run _ = False"

definition auto_runs :: "world \<Rightarrow> effect list" where
  "auto_runs w = filter is_auto_run (wd_effects w)"

lemma auto_runs_emit [simp]: "\<not> is_auto_run e \<Longrightarrow> auto_runs (emit e w) = auto_runs w"
  by (simp add: auto_runs_def emit_def)

lemma auto_runs_write_store: "write_store fl op f w = (ok, w') \<Longrightarrow> auto_runs w' = auto_runs w"
  by (auto simp: auto_runs_def write_store_def split: if_splits prod.splits)

lemma auto_runs_forbid: "forbidTicketAccess q ip t w = (r, w') \<Longrightarrow> auto_runs w' = auto_runs w"
  by (auto simp: auto_runs_def forbidTicketAccess_def Let_def emit_def split: prod.splits if_splits)

lemma auto_runs_approve_write: "approve_write q fl t c w = (ok, w') \<Longrightarrow> auto_runs w' = auto_runs w"
  by (auto simp: approve_write_def Let_def auto_runs_def split: if_splits prod.splits
      dest!: auto_runs_write_store [unfolded auto_runs_def])

lemma auto_runs_export: "ensureReadyExportRequest fl t a w = (ok, w') \<Longrightarrow> auto_runs w' = auto_runs w"
  by (auto simp: ensureReadyExportRequest_def auto_runs_def split: if_splits option.splits)

lemma production_no_auto: "q_app_env q = ''production'' \<Longrightarrow> \<not> shouldAutoExecuteAfterApproval q t r"
  by (simp add: shouldAutoExecuteAfterApproval_def)

lemma auto_runs_finish:
  "q_app_env q = ''production'' \<Longrightarrow> finishNoApprovalWorkflow q fl t a r c w = (ok, w') \<Longrightarrow> auto_runs w' = auto_runs w"
  by (auto simp: finishNoApprovalWorkflow_def moveApprovedTicketToPendingExecution_def production_no_auto Let_def
      split: prod.splits if_splits bool.splits dest!: auto_runs_write_store)

lemma auto_runs_after_approve:
  "q_app_env q = ''production'' \<Longrightarrow> after_approve q fl t c w = (r, w') \<Longrightarrow> auto_runs w' = auto_runs w"
  by (auto simp: after_approve_def production_no_auto Let_def
      split: prod.splits if_splits bool.splits option.splits dest!: auto_runs_write_store auto_runs_export)

lemma auto_runs_Approve:
  "q_app_env q = ''production'' \<Longrightarrow> Approve q fl ip t c w = (r, w') \<Longrightarrow> auto_runs w' = auto_runs w"
  by (auto simp: Approve_def Let_def split: prod.splits if_splits bool.splits option.splits
      dest!: auto_runs_forbid auto_runs_approve_write auto_runs_after_approve)

lemma auto_runs_apply:
  "q_app_env q = ''production'' \<Longrightarrow> applyWorkflowAfterCreate q fl t a n w = (ok, w') \<Longrightarrow> auto_runs w' = auto_runs w"
  by (auto simp: applyWorkflowAfterCreate_def Let_def split: prod.splits if_splits option.splits
      dest!: auto_runs_write_store auto_runs_finish)

lemma auto_runs_Retry:
  "q_app_env q = ''production'' \<Longrightarrow> RetryWorkflowResolution q fl ip t c n w = (r, w') \<Longrightarrow> auto_runs w' = auto_runs w"
  by (auto simp: RetryWorkflowResolution_def Let_def split: prod.splits if_splits bool.splits option.splits
      dest!: auto_runs_forbid auto_runs_write_store auto_runs_finish)

text \<open>
  In production no approval, creation or retry starts a run by itself, whatever the workflow rule
  says about automatic execution.
\<close>

theorem production_never_auto_executes:
  assumes "q_app_env q = ''production''"
  shows "auto_runs (snd (Approve q fl ip t comment w)) = auto_runs w \<and>
     auto_runs (snd (RetryWorkflowResolution q fl ip t c note w)) = auto_runs w \<and>
     auto_runs (snd (applyWorkflowAfterCreate q fl t actor note w)) = auto_runs w"
  by (intro conjI;
      (rule auto_runs_Approve [OF assms prod.collapse [symmetric]]
         auto_runs_Retry [OF assms prod.collapse [symmetric]]
         auto_runs_apply [OF assms prod.collapse [symmetric]]))

section \<open>Stopping\<close>

text \<open>
  \<open>Stop\<close> on a run of the whole ticket does not look at the status: an authorised request turns a
  ticket that has completed in the meantime into a failed one, which the transition table does not
  allow.
\<close>

theorem stop_overwrites_final_status:
  assumes "canStopTicket q (wd_store w) t (q_user q) = Some True"
    and "isFullTicketExecutionRunMode (t_execution_run_mode t)" and "\<not> fl OpCompleted"
    and "GetTicket (wd_store w) (t_id t) = Some stored" and "t_status stored = Completed"
  shows "fst (Stop q fl ip t w) = Response 204 [] \<and>
     map_option t_status (GetTicket (wd_store (snd (Stop q fl ip t w))) (t_id t)) = Some Failed \<and>
     \<not> CanTransition Completed Failed"
  using assms GetTicket_id [OF assms(4)]
  by (simp add: Stop_def write_store_def always_def MarkCompleted_def store_simps emit_def CanTransition_iff
      del: map_option_eq_Some)

section \<open>Witnesses\<close>

definition sample_request :: "id64 \<Rightarrow> request" where
  "sample_request u = \<lparr>q_user = u, q_permissions = [''tickets.review'', ''tickets.execute''], q_now = 60,
     q_workflow = sample_env, q_app_env = ''production''\<rparr>"

definition sample_world :: world where
  "sample_world = \<lparr>wd_store = sample_store, wd_exports = [], wd_next_export = 1, wd_effects = [],
     wd_limiter = \<lparr>l_limit = 3, l_window = 60, l_history = (\<lambda>_. [])\<rparr>\<rparr>"

definition waiting_ticket :: ticket where
  "waiting_ticket = sample_ticket\<lparr>t_status := PendingExecution, t_reviewer_id := Some 1\<rparr>"

definition waiting_world :: world where
  "waiting_world = sample_world\<lparr>wd_store := sample_store\<lparr>s_tickets := [waiting_ticket]\<rparr>\<rparr>"

definition status_of :: "world \<Rightarrow> id64 \<Rightarrow> ticket_status option" where
  "status_of w i = map_option t_status (GetTicket (wd_store w) i)"

lemma status_differs: "status_of w i \<noteq> status_of v i \<Longrightarrow> wd_store w \<noteq> wd_store v"
  by (auto simp: status_of_def)

theorem approve_requires_reviewer_witness:
  "status_of (snd (Approve (sample_request 1) (\<lambda>_. False) ''ip'' sample_ticket None sample_world)) 10 = Some PendingExecution \<and>
   canReviewTicket (sample_request 1) sample_store sample_ticket 1 = Some True"
proof -
  have st: "status_of (snd (Approve (sample_request 1) (\<lambda>_. False) ''ip'' sample_ticket None sample_world)) 10 = Some PendingExecution"
    by code_simp
  moreover have "status_of sample_world 10 = Some PendingReview" by code_simp
  ultimately have "wd_store (snd (Approve (sample_request 1) (\<lambda>_. False) ''ip'' sample_ticket None sample_world)) \<noteq> wd_store sample_world"
    by (intro status_differs [of _ 10]) simp
  from approve_requires_reviewer [OF this] st show ?thesis by (simp add: sample_world_def sample_request_def)
qed

theorem execute_four_eyes_witness:
  "status_of (snd (Execute (sample_request 2) (\<lambda>_. False) ''ip'' waiting_ticket None None waiting_world)) 10 = Some Executing \<and>
   HasPermission (sample_request 2) [''tickets.execute'']"
proof -
  have st: "status_of (snd (Execute (sample_request 2) (\<lambda>_. False) ''ip'' waiting_ticket None None waiting_world)) 10 = Some Executing"
    by code_simp
  moreover have "status_of waiting_world 10 = Some PendingExecution" by code_simp
  ultimately have "wd_store (snd (Execute (sample_request 2) (\<lambda>_. False) ''ip'' waiting_ticket None None waiting_world)) \<noteq> wd_store waiting_world"
    by (intro status_differs [of _ 10]) simp
  from execute_four_eyes [OF this] st show ?thesis by simp
qed

theorem production_never_auto_executes_witness:
  "auto_runs (snd (Approve (sample_request 1) (\<lambda>_. False) ''ip'' sample_ticket None
     (sample_world\<lparr>wd_effects := [SpawnRun 3 0 True]\<rparr>))) = [SpawnRun 3 0 True]"
  using production_never_auto_executes [of "sample_request 1" "\<lambda>_. False" "''ip''" sample_ticket None
      "sample_world\<lparr>wd_effects := [SpawnRun 3 0 True]\<rparr>"]
  by (simp add: sample_request_def auto_runs_def)

theorem stop_overwrites_final_status_witness:
  "status_of (snd (Stop (sample_request 2) (\<lambda>_. False) ''ip''
     (sample_ticket\<lparr>t_status := Executing, t_executor_id := Some 2, t_execution_run_mode := Some run_mode_batch\<rparr>)
     (sample_world\<lparr>wd_store := sample_store\<lparr>s_tickets := [sample_ticket\<lparr>t_status := Completed\<rparr>]\<rparr>\<rparr>))) 10 = Some Failed"
proof -
  let ?t = "sample_ticket\<lparr>t_status := Executing, t_executor_id := Some 2, t_execution_run_mode := Some run_mode_batch\<rparr>"
  let ?w = "sample_world\<lparr>wd_store := sample_store\<lparr>s_tickets := [sample_ticket\<lparr>t_status := Completed\<rparr>]\<rparr>\<rparr>"
  have "canStopTicket (sample_request 2) (wd_store ?w) ?t (q_user (sample_request 2)) = Some True"
    by (simp add: canStopTicket_def sample_request_def HasPermission_def)
  moreover have "isFullTicketExecutionRunMode (t_execution_run_mode ?t)"
    by (simp add: isFullTicketExecutionRunMode_def run_mode_defs trim_space_def is_space_def)
  moreover have "t_id ?t = 10" "GetTicket (wd_store ?w) 10 = Some (sample_ticket\<lparr>t_status := Completed\<rparr>)"
    by (simp_all add: GetTicket_def sample_ticket_def)
  ultimately show ?thesis
    using stop_overwrites_final_status [of "sample_request 2" ?w ?t "\<lambda>_. False" "sample_ticket\<lparr>t_status := Completed\<rparr>" "''ip''"]
    by (simp add: status_of_def del: map_option_eq_Some)
qed

end
