(* ===== verification/Ticket_Runs.thy ===== *)
theory Ticket_Runs
  imports Ticket_Handler_Laws
begin

text \<open>
  Running the statements of a ticket (\<open>internal/handler/ticket.go\<close>): the batch run
  \<open>runTicketSQL\<close>, one statement \<open>runTicketStatementExecution\<close>, the handlers for single statements,
  and how errors and panics are classified and recorded.

  The target database is a parameter: \<open>rn_exec\<close> is what it answers for a statement. Requests that other
  users send meanwhile are \<open>rn_before\<close> (served before a statement starts) and \<open>rn_during\<close> (served
  while the database works on it); both change the store only. The statement parser is a parameter
  too, through the rows it yields. Rollback capture is not modelled.
\<close>

section \<open>Outcomes\<close>

datatype db_error_kind = MySQLError | PgError | ContextCanceled | DeadlineExceeded | BadConn | NetError | PlainError

record db_error =
  de_kind :: db_error_kind
  de_message :: string

record exec_outcome =
  xo_rows :: "int option"
  xo_ms :: "int option"
  xo_sent :: bool
  xo_process :: "(string \<times> id64) option"
  xo_error :: "db_error option"

record statement_result =
  sr_ms :: "int option"
  sr_rows :: "int option"
  sr_err :: "string option"
  sr_reason :: string
  sr_confidence :: string
  sr_sent :: bool

definition connection_markers :: "string list" where
  "connection_markers = [''bad connection'', ''broken pipe'', ''connection refused'', ''connection reset'',
     ''connection was killed'', ''server closed the connection'', ''unexpected eof'']"

definition isExplicitDatabaseExecutionError :: "db_error \<Rightarrow> bool" where
  "isExplicitDatabaseExecutionError e =
     (if de_kind e = MySQLError \<or> de_kind e = PgError then True
      else if de_kind e = ContextCanceled \<or> de_kind e = DeadlineExceeded \<or> de_kind e = BadConn then False
      else if de_kind e = NetError then False
      else \<not> list_ex (\<lambda>m. contains (to_lower (de_message e)) m) connection_markers)"

definition classifyTicketStatementExecutionError :: "db_error option \<Rightarrow> bool \<Rightarrow> string \<times> string" where
  "classifyTicketStatementExecutionError err sent = (case err of
     None \<Rightarrow> ([], ''completed'')
   | Some e \<Rightarrow> if \<not> sent then (''not_sent'', ''not_sent'')
       else if isExplicitDatabaseExecutionError e then ([], ''failed'')
       else (''connection_interrupted'', ''outcome_unknown''))"

definition ticketExecutionQueryID :: "id64 \<Rightarrow> string" where
  "ticketExecutionQueryID i = ''ticket-execution-'' @ nat_show i"

definition ticketExecutionIDFromQueryID :: "string \<Rightarrow> id64 option" where
  "ticketExecutionIDFromQueryID qid =
     (let v = trim_prefix qid ''ticket-execution-''
      in if v = qid \<or> v = [] then None
         else case parse_uint64 v of None \<Rightarrow> None | Some i \<Rightarrow> if i = 0 then None else Some i)"

section \<open>Refreshing the ticket\<close>

definition refreshTicketStatusFromExecutions :: "timestamp \<Rightarrow> id64 \<Rightarrow> store \<Rightarrow> store" where
  "refreshTicketStatusFromExecutions now i s =
     (case GetTicket s i of None \<Rightarrow> s
      | Some t \<Rightarrow>
          let es = ListExecutions s i
          in if es = [] then s
             else SetExecutionAggregateStatus now i
               (AggregateTicketStatusFromCounts (int (length es)) (count_status ExPending es) (count_status ExRunning es)
                  (count_status ExCompleted es) (count_status ExFailed es + count_status ExStopped es)
                  (t_execution_run_mode t)) s)"

section \<open>One statement\<close>

record runner =
  rn_before :: "id64 \<Rightarrow> store \<Rightarrow> store"
  rn_during :: "id64 \<Rightarrow> store \<Rightarrow> store"
  rn_exec :: "execution \<Rightarrow> exec_outcome"

definition exec_status_name :: "exec_status \<Rightarrow> string" where
  "exec_status_name st = (case st of ExPending \<Rightarrow> ''pending'' | ExRunning \<Rightarrow> ''running'' | ExCompleted \<Rightarrow> ''completed''
     | ExFailed \<Rightarrow> ''failed'' | ExStopped \<Rightarrow> ''stopped'')"

definition failed_result :: "string \<Rightarrow> statement_result" where
  "failed_result msg = \<lparr>sr_ms = None, sr_rows = None, sr_err = Some msg, sr_reason = [], sr_confidence = [], sr_sent = False\<rparr>"

text \<open>\<open>executeTicketStatementSQL\<close>: the statement is recorded as sent once the session id is known.\<close>

definition send_statement :: "runner \<Rightarrow> timestamp \<Rightarrow> execution \<Rightarrow> world \<Rightarrow> exec_outcome \<times> world" where
  "send_statement rn now e w =
     (let o1 = rn_exec rn e;
          w1 = (case xo_process o1 of None \<Rightarrow> w
                | Some (pt, pid) \<Rightarrow> w\<lparr>wd_store := MarkExecutionSentToDB now (e_id e) pt pid (wd_store w)\<rparr>);
          w2 = (if xo_sent o1 then emit (RunSQL (e_id e) (e_sql_stmt e)) w1 else w1)
      in (o1, w2\<lparr>wd_store := rn_during rn (e_id e) (wd_store w2)\<rparr>))"

text \<open>Recording the outcome, unless someone stopped or failed the row meanwhile.\<close>

definition record_outcome :: "timestamp \<Rightarrow> id64 \<Rightarrow> execution \<Rightarrow> exec_outcome \<Rightarrow> world \<Rightarrow> statement_result \<times> world" where
  "record_outcome now tid e o1 w =
     (let err = map_option de_message (xo_error o1);
          cls = (case xo_error o1 of None \<Rightarrow> ([], []) | Some _ \<Rightarrow> classifyTicketStatementExecutionError (xo_error o1) (xo_sent o1));
          base = \<lparr>sr_ms = xo_ms o1, sr_rows = xo_rows o1, sr_err = err, sr_reason = fst cls, sr_confidence = snd cls,
                  sr_sent = xo_sent o1\<rparr>;
          override = (\<lambda>r c. r\<lparr>sr_reason := (case e_interruption_reason c of None \<Rightarrow> sr_reason r | Some x \<Rightarrow> x),
                              sr_confidence := (case e_outcome_confidence c of None \<Rightarrow> sr_confidence r | Some x \<Rightarrow> x)\<rparr>);
          finish = (if xo_error o1 \<noteq> None then
              let r = (if sr_confidence base = ''not_sent'' \<or> sr_confidence base = ''outcome_unknown''
                       then base\<lparr>sr_ms := None\<rparr> else base)
              in (r, w\<lparr>wd_store := MarkExecutionFailedWithOutcome now (e_id e) (sr_ms r)
                        (case err of None \<Rightarrow> [] | Some m \<Rightarrow> m) (sr_reason r) (sr_confidence r) (wd_store w)\<rparr>)
            else (base\<lparr>sr_confidence := ''completed''\<rparr>,
                  w\<lparr>wd_store := MarkExecutionDone now (e_id e) (sr_rows base) (sr_ms base) None (wd_store w)\<rparr>))
      in case GetExecution (wd_store w) tid (e_id e) of
           None \<Rightarrow> finish
         | Some c \<Rightarrow>
             if e_status c = ExStopped then (override (base\<lparr>sr_err := Some ''manually stopped''\<rparr>) c, w)
             else if e_status c = ExFailed then (override (base\<lparr>sr_err := e_error_msg c, sr_ms := e_duration_ms c\<rparr>) c, w)
             else finish)"

definition runTicketStatementExecution ::
    "runner \<Rightarrow> (write_op \<Rightarrow> bool) \<Rightarrow> timestamp \<Rightarrow> ticket \<Rightarrow> execution \<Rightarrow> id64 \<Rightarrow> bool \<Rightarrow> world \<Rightarrow> statement_result \<times> world" where
  "runTicketStatementExecution rn fl now t e executor manual w =
     (if t_db_connection_id t = None then (failed_result ''ticket has no target db_connection'', w)
      else case write_store fl OpStart (always (MarkTicketExecuting now (t_id t) executor)) w of
        (None, w1) \<Rightarrow> (failed_result ''mark executing failed'', w1)
      | (Some _, w1) \<Rightarrow>
          (case write_store fl OpClaim (MarkExecutionRunningIfPending now (e_id e)) w1 of
             (None, w2) \<Rightarrow> (failed_result ''claim failed'', w2)
           | (Some False, w2) \<Rightarrow>
               (failed_result (case GetExecution (wd_store w2) (t_id t) (e_id e) of None \<Rightarrow> ''statement is not pending''
                  | Some c \<Rightarrow> ''statement is '' @ exec_status_name (e_status c)), w2)
           | (Some True, w2) \<Rightarrow>
               let w3 = emit (Publish (t_id t)) w2;
                   w4 = (if manual then emit (Audit ''ticket_statement_execute_start'' (Some executor) (t_id t)) w3 else w3)
               in (case send_statement rn now e w4 of (o1, w5) \<Rightarrow>
                     case record_outcome now (t_id t) e o1 w5 of (r, w6) \<Rightarrow>
                       let w7 = (if manual then emit (Audit (if sr_err r = None then ''ticket_statement_execute_complete''
                                    else ''ticket_statement_execute_failed'') (Some executor) (t_id t)) w6 else w6);
                           w8 = w7\<lparr>wd_store := refreshTicketStatusFromExecutions now (t_id t) (wd_store w7)\<rparr>
                       in (r, emit (Publish (t_id t)) w8))))"

section \<open>A whole run\<close>

definition finishTicket :: "timestamp \<Rightarrow> id64 \<Rightarrow> ticket_status \<Rightarrow> store \<Rightarrow> store" where
  "finishTicket now i st s = MarkCompleted now i st s"

datatype run_end = RunStopped | RunFinished ticket_status

text \<open>The loop over the rows as they were listed at the start of the run.\<close>

fun run_statements :: "runner \<Rightarrow> (write_op \<Rightarrow> bool) \<Rightarrow> timestamp \<Rightarrow> ticket \<Rightarrow> id64 \<Rightarrow> execution list \<Rightarrow> world \<Rightarrow> run_end \<times> world" where
  "run_statements rn fl now t executor [] w = (RunFinished Completed, w)"
| "run_statements rn fl now t executor (e # es) w =
     (if e_status e \<noteq> ExPending then
        (if e_status e = ExFailed \<or> e_status e = ExStopped then (RunFinished Failed, w)
         else run_statements rn fl now t executor es w)
      else let w0 = w\<lparr>wd_store := rn_before rn (e_id e) (wd_store w)\<rparr>
        in if \<not> fl OpLoad \<and> (case GetTicket (wd_store w0) (t_id t) of None \<Rightarrow> False | Some c \<Rightarrow> t_status c = Stopped)
           then (RunStopped, w0)
           else case runTicketStatementExecution rn fl now t e executor False w0 of
             (r, w1) \<Rightarrow> if sr_err r \<noteq> None then (RunFinished Failed, w1)
               else run_statements rn fl now t executor es w1)"

definition run_event :: "bool \<Rightarrow> ticket_status \<Rightarrow> string" where
  "run_event automated st =
     (if automated then (if st = Completed then ''workflow_auto_execute_complete'' else ''workflow_auto_execute_failed'')
      else if st = Failed then ''ticket_execute_failed'' else ''ticket_execute_complete'')"

text \<open>\<open>rows\<close> are the statements the parser yields for the ticket, \<open>None\<close> when it fails.\<close>

definition ensureTicketExecutionRows :: "(ticket \<Rightarrow> (int \<times> string) list option) \<Rightarrow> (write_op \<Rightarrow> bool) \<Rightarrow> ticket \<Rightarrow> world \<Rightarrow> bool \<times> world" where
  "ensureTicketExecutionRows parse fl t w =
     (if t_db_connection_id t = None then (False, w)
      else case parse t of None \<Rightarrow> (False, w)
        | Some sts \<Rightarrow>
            let kept = [(fst st, trim_space (snd st)). st \<leftarrow> sts, trim_space (snd st) \<noteq> []]
            in (case write_store fl OpEnsure (always (EnsureExecutions (t_id t) kept)) w of (ok, w1) \<Rightarrow> (ok \<noteq> None, w1)))"

definition finishTicketExecutionStartFailure :: "timestamp \<Rightarrow> ticket \<Rightarrow> id64 \<Rightarrow> bool \<Rightarrow> world \<Rightarrow> world" where
  "finishTicketExecutionStartFailure now t actor automated w =
     emit (Publish (t_id t)) (emit (Notify ''execution_failed'' (t_id t) (Some actor))
       (emit (Audit (if automated then ''workflow_auto_execute_failed'' else ''ticket_execute_failed'') (Some actor) (t_id t))
         (w\<lparr>wd_store := finishTicket now (t_id t) Failed (wd_store w)\<rparr>)))"

definition finish_run :: "timestamp \<Rightarrow> ticket \<Rightarrow> id64 \<Rightarrow> bool \<Rightarrow> ticket_status \<Rightarrow> world \<Rightarrow> world" where
  "finish_run now t actor automated st w =
     emit (Publish (t_id t)) (emit (Notify (if st = Completed then ''completed'' else ''execution_failed'') (t_id t) (Some actor))
       (emit (Audit (run_event automated st) (Some actor) (t_id t)) (w\<lparr>wd_store := finishTicket now (t_id t) st (wd_store w)\<rparr>)))"

text \<open>
  One transaction for the whole ticket. \<open>wb_ready\<close> says whether the connection, the schema or database
  and the transaction could be set up, \<open>wb_session\<close> is the session of the connection, and
  \<open>wb_commit\<close> whether the commit succeeds. The result of the loop is the final status.
\<close>

record whole_db =
  wb_ready :: bool
  wb_session :: "(string \<times> id64) option"
  wb_commit :: bool

definition settled_by_others :: "store \<Rightarrow> id64 \<Rightarrow> id64 \<Rightarrow> bool" where
  "settled_by_others s tid eid = (case GetExecution s tid eid of None \<Rightarrow> False | Some c \<Rightarrow> e_status c \<in> {ExStopped, ExFailed})"

fun run_whole :: "runner \<Rightarrow> (write_op \<Rightarrow> bool) \<Rightarrow> timestamp \<Rightarrow> ticket \<Rightarrow> execution list \<Rightarrow> ticket_status \<Rightarrow> world \<Rightarrow> ticket_status \<times> world" where
  "run_whole rn fl now t [] st w = (st, w)"
| "run_whole rn fl now t (e # es) st w =
     (if e_status e \<noteq> ExPending then
        (if e_status e = ExFailed \<or> e_status e = ExStopped then (Failed, w) else run_whole rn fl now t es st w)
      else let w0 = w\<lparr>wd_store := rn_before rn (e_id e) (wd_store w)\<rparr>
        in if \<not> fl OpLoad \<and> (case GetTicket (wd_store w0) (t_id t) of None \<Rightarrow> False | Some c \<Rightarrow> t_status c = Stopped)
           then (Failed, w0)
           else case write_store fl OpClaim (MarkExecutionRunningIfPending now (e_id e)) w0 of
             (None, w1) \<Rightarrow> (Failed, w1)
           | (Some False, w1) \<Rightarrow> (Failed, w1)
           | (Some True, w1) \<Rightarrow>
               (case send_statement rn now e (emit (Publish (t_id t)) w1) of (o1, w2) \<Rightarrow>
                  case record_outcome now (t_id t) e o1 w2 of (r, w3) \<Rightarrow>
                    let st' = (if settled_by_others (wd_store w2) (t_id t) (e_id e) \<or> xo_error o1 \<noteq> None then Failed else st);
                        w4 = emit (Publish (t_id t)) w3
                    in if sr_err r \<noteq> None then (st', w4) else run_whole rn fl now t es st' w4))"

definition runTicketWholeTicketSQL :: "runner \<Rightarrow> whole_db \<Rightarrow> (ticket \<Rightarrow> (int \<times> string) list option) \<Rightarrow> (write_op \<Rightarrow> bool)
    \<Rightarrow> timestamp \<Rightarrow> ticket \<Rightarrow> id64 \<Rightarrow> bool \<Rightarrow> world \<Rightarrow> world" where
  "runTicketWholeTicketSQL rn db parse fl now t actor automated w =
     (case ensureTicketExecutionRows parse fl t w of
        (False, w1) \<Rightarrow> finishTicketExecutionStartFailure now t actor automated w1
      | (True, w1) \<Rightarrow>
          if fl OpExecution \<or> \<not> wb_ready db then finishTicketExecutionStartFailure now t actor automated w1
          else case run_whole (rn\<lparr>rn_exec := (\<lambda>e. (rn_exec rn e)\<lparr>xo_process := wb_session db\<rparr>)\<rparr>) fl now t
                      (ListExecutions (wd_store w1) (t_id t)) Completed w1 of
            (st, w2) \<Rightarrow>
              let commits = (st = Completed \<and> wb_commit db)
              in finish_run now t actor automated (if st = Completed \<and> \<not> wb_commit db then Failed else st)
                   (emit (if commits then CommitTx (t_id t) else RollbackTx (t_id t)) w2))"

text \<open>\<open>actor\<close> is the executor, or the reviewer for an automated run.\<close>

definition runTicketSQL :: "runner \<Rightarrow> whole_db \<Rightarrow> (ticket \<Rightarrow> (int \<times> string) list option) \<Rightarrow> (write_op \<Rightarrow> bool) \<Rightarrow> timestamp \<Rightarrow> ticket
    \<Rightarrow> id64 \<Rightarrow> id64 \<Rightarrow> bool \<Rightarrow> world \<Rightarrow> world" where
  "runTicketSQL rn db parse fl now t executor actor automated w =
     (if t_type t = DML \<and> isDMLWholeTicketExecutionMode (t_dml_execution_mode t)
      then runTicketWholeTicketSQL rn db parse fl now t actor automated w
      else case ensureTicketExecutionRows parse fl t w of
        (False, w1) \<Rightarrow> finishTicketExecutionStartFailure now t actor automated w1
      | (True, w1) \<Rightarrow>
          if fl OpExecution then finishTicketExecutionStartFailure now t actor automated w1
          else (case run_statements rn fl now t executor (ListExecutions (wd_store w1) (t_id t)) w1 of
            (RunStopped, w2) \<Rightarrow> w2
          | (RunFinished st, w2) \<Rightarrow> finish_run now t actor automated st w2))"

section \<open>Panics and shutdown\<close>

fun interrupt_running :: "timestamp \<Rightarrow> string \<Rightarrow> execution list \<Rightarrow> store \<Rightarrow> store" where
  "interrupt_running now msg [] s = s"
| "interrupt_running now msg (e # es) s = interrupt_running now msg es
     (if e_status e = ExRunning then MarkExecutionInterrupted now (e_id e) msg ''execution_panic'' ''outcome_unknown'' s else s)"

definition recoverTicketExecutionPanic :: "timestamp \<Rightarrow> ticket \<Rightarrow> id64 option \<Rightarrow> string \<Rightarrow> execution option \<Rightarrow> bool \<Rightarrow> world \<Rightarrow> world" where
  "recoverTicketExecutionPanic now t actor msg row automated w =
     (let i = t_id t;
          s1 = (case row of
                  Some e \<Rightarrow> if e_id e \<noteq> 0 then MarkExecutionInterrupted now (e_id e) msg ''execution_panic'' ''outcome_unknown'' (wd_store w)
                            else interrupt_running now msg (ListExecutions (wd_store w) i) (wd_store w)
                | None \<Rightarrow> interrupt_running now msg (ListExecutions (wd_store w) i) (wd_store w));
          s2 = (if row = None then finishTicket now i Failed s1 else refreshTicketStatusFromExecutions now i s1);
          action = (if automated then ''workflow_auto_execute_failed''
                    else if row \<noteq> None then ''ticket_statement_execute_failed'' else ''ticket_execute_failed'')
      in emit (Publish i) (emit (Notify ''execution_failed'' i actor) (emit (Audit action actor i) (w\<lparr>wd_store := s2\<rparr>))))"

text \<open>The shutdown step for one registered statement; \<open>failed\<close> is whether the database refused the cancel.\<close>

definition shutdown_execution :: "timestamp \<Rightarrow> string \<Rightarrow> active_query \<Rightarrow> bool \<Rightarrow> string \<Rightarrow> store \<Rightarrow> store" where
  "shutdown_execution now qid qy failed msg s =
     (case ticketExecutionIDFromQueryID qid of None \<Rightarrow> s
      | Some eid \<Rightarrow>
          let s1 = MarkExecutionInterrupted now eid msg ''service_shutdown''
                     (if failed then ''outcome_unknown'' else ''service_shutdown'') s
          in if aq_ticket qy = 0 then s1 else refreshTicketStatusFromExecutions now (aq_ticket qy) s1)"

section \<open>Handlers for single statements\<close>

definition ExecuteStatement ::
    "request \<Rightarrow> (write_op \<Rightarrow> bool) \<Rightarrow> (ticket \<Rightarrow> (int \<times> string) list option) \<Rightarrow> string \<Rightarrow> ticket \<Rightarrow> id64 \<Rightarrow> world \<Rightarrow> response \<times> world" where
  "ExecuteStatement q fl parse ip t eid w =
     (if eid = 0 then (Response 400 ''invalid execution id'', w)
      else if t_type t \<noteq> DDL \<and> t_type t \<noteq> DML then (Response 422 ''only ddl/dml statement executions are supported'', w)
      else if t_db_connection_id t = None then (Response 422 ''ticket has no target db_connection'', w)
      else if t_status t \<noteq> PendingExecution \<and> t_status t \<noteq> Executing then (Response 422 ''ticket is not executable'', w)
      else case canExecuteTicket q (wd_store w) t (q_user q) of
        None \<Rightarrow> (Response 500 ''ticket execution check failed'', w)
      | Some False \<Rightarrow> forbidTicketAccess q ip t w
      | Some True \<Rightarrow>
          if isFullTicketExecutionRunMode (t_execution_run_mode t) \<or> isDMLWholeTicketExecutionMode (t_dml_execution_mode t)
          then (Response 409 ''ticket is already running by full execution'', w)
          else case ensureTicketExecutionRows parse fl t w of
            (False, w1) \<Rightarrow> (Response 500 ''prepare statement executions failed'', w1)
          | (True, w1) \<Rightarrow>
              if fl OpExecution then (Response 500 ''load statement execution failed'', w1)
              else case GetExecution (wd_store w1) (t_id t) eid of
                None \<Rightarrow> (Response 404 ''statement execution not found'', w1)
              | Some e \<Rightarrow>
                  if e_status e \<noteq> ExPending then (Response 409 ''statement is not pending'', w1)
                  else (case write_store fl OpClaim (ClaimManualStatementExecution (q_now q) (t_id t) (q_user q)) w1 of
                    (None, w2) \<Rightarrow> (Response 500 ''statement execution start failed'', w2)
                  | (Some False, w2) \<Rightarrow> (Response 409 ''ticket is already running by full execution'', w2)
                  | (Some True, w2) \<Rightarrow> (Response 200 [],
                      emit (SpawnStatement (t_id t) eid (q_user q)) (emit (CardSync (t_id t)) w2))))"

text \<open>\<open>cancelled\<close> is whether the cancel of an active query on the database succeeded.\<close>

definition StopStatement ::
    "request \<Rightarrow> (write_op \<Rightarrow> bool) \<Rightarrow> string \<Rightarrow> ticket \<Rightarrow> id64 \<Rightarrow> bool \<Rightarrow> query_registry \<Rightarrow> world \<Rightarrow> response \<times> query_registry \<times> world" where
  "StopStatement q fl ip t eid cancelled reg w =
     (if eid = 0 then (Response 400 ''invalid execution id'', reg, w)
      else case canStopTicket q (wd_store w) t (q_user q) of
        None \<Rightarrow> (Response 500 ''ticket stop check failed'', reg, w)
      | Some False \<Rightarrow> (case forbidTicketAccess q ip t w of (r, w1) \<Rightarrow> (r, reg, w1))
      | Some True \<Rightarrow>
          if fl OpExecution then (Response 500 ''load statement execution failed'', reg, w)
          else case GetExecution (wd_store w) (t_id t) eid of
            None \<Rightarrow> (Response 404 ''statement execution not found'', reg, w)
          | Some e \<Rightarrow>
              if e_status e \<noteq> ExRunning then (Response 409 ''statement is not running'', reg, w)
              else case cancelAnyOrPending (q_now q) (ticketExecutionQueryID eid) reg of (hit, reg1) \<Rightarrow>
                if hit \<noteq> None \<and> \<not> cancelled then (Response 500 ''statement stop failed'', reg1, w)
                else let w1 = w\<lparr>wd_store := MarkExecutionStopped (q_now q) eid ''manually stopped'' (wd_store w)\<rparr>;
                         w2 = emit (Audit ''ticket_statement_stop'' (Some (q_user q)) (t_id t)) w1;
                         w3 = w2\<lparr>wd_store := refreshTicketStatusFromExecutions (q_now q) (t_id t) (wd_store w2)\<rparr>
                     in (Response 204 [], reg1, emit (Publish (t_id t)) w3))"

section \<open>Query identifiers\<close>

text \<open>
  The identifier under which a running statement is registered leads back to the statement, so a
  shutdown marks the statement it cancels.
\<close>

theorem execution_query_id_roundtrip:
  assumes "0 < i" and "i < 18446744073709551616"
  shows "ticketExecutionIDFromQueryID (ticketExecutionQueryID i) = Some i"
proof -
  have "trim_prefix (ticketExecutionQueryID i) ''ticket-execution-'' = nat_show i"
    by (simp add: ticketExecutionQueryID_def trim_prefix_def has_prefix_def)
  moreover have "nat_show i \<noteq> ticketExecutionQueryID i"
  proof
    assume "nat_show i = ticketExecutionQueryID i"
    then have "length (nat_show i) = length (ticketExecutionQueryID i)" by simp
    then show False by (simp add: ticketExecutionQueryID_def)
  qed
  ultimately show ?thesis
    using assms parse_uint64_nat_show [of i] by (simp add: ticketExecutionIDFromQueryID_def Let_def)
qed

theorem execution_query_id_roundtrip_witness: "ticketExecutionIDFromQueryID (ticketExecutionQueryID 42) = Some 42"
  using execution_query_id_roundtrip [of 42] by simp

section \<open>Statements run once and in order\<close>

fun is_run :: "effect \<Rightarrow> bool" where
  "is_run (RunSQL _ _) = True"
| "is_run _ = False"

definition sql_runs :: "world \<Rightarrow> effect list" where
  "sql_runs w = filter is_run (wd_effects w)"

definition run_of :: "execution \<Rightarrow> effect" where
  "run_of e = RunSQL (e_id e) (e_sql_stmt e)"

lemma sql_runs_simps [simp]:
  "sql_runs (emit e w) = sql_runs w @ (if is_run e then [e] else [])"
  "sql_runs (w\<lparr>wd_store := s\<rparr>) = sql_runs w"
  by (simp_all add: sql_runs_def emit_def)

lemma sql_runs_write_store: "write_store fl op f w = (ok, w') \<Longrightarrow> sql_runs w' = sql_runs w"
  by (auto simp: sql_runs_def write_store_def split: if_splits prod.splits)

lemma sql_runs_send: "send_statement rn now e w = (o1, w') \<Longrightarrow>
  o1 = rn_exec rn e \<and> sql_runs w' = sql_runs w @ (if xo_sent (rn_exec rn e) then [run_of e] else [])"
  by (auto simp: send_statement_def Let_def run_of_def split: option.splits prod.splits)

lemma sql_runs_record: "record_outcome now i e o1 w = (r, w') \<Longrightarrow> sql_runs w' = sql_runs w"
  by (auto simp: record_outcome_def Let_def split: option.splits if_splits)

lemma sql_runs_statement:
  "runTicketStatementExecution rn fl now t e ex manual w = (r, w') \<Longrightarrow>
   sql_runs w' = sql_runs w \<or> sql_runs w' = sql_runs w @ [run_of e]"
  by (auto simp: runTicketStatementExecution_def Let_def split: if_splits prod.splits option.splits bool.splits
      dest!: sql_runs_write_store sql_runs_send sql_runs_record)


section \<open>A run without interference\<close>

definition exec_of :: "store \<Rightarrow> id64 \<Rightarrow> execution option" where
  "exec_of s i = find (\<lambda>e. e_id e = i) (s_executions s)"

definition exec_keys :: "store \<Rightarrow> bool" where
  "exec_keys s \<longleftrightarrow> distinct (map e_id (s_executions s))"

lemma exec_of_update: "(\<And>e. e_id (f e) = e_id e) \<Longrightarrow>
  exec_of (update_executions P f s) i = map_option (\<lambda>e. if P e then f e else e) (exec_of s i)"
  by (simp add: exec_of_def find_update_where)

lemma exec_keys_update: "(\<And>e. e_id (f e) = e_id e) \<Longrightarrow> exec_keys (update_executions P f s) = exec_keys s"
  by (simp add: exec_keys_def update_where_key)

lemma exec_of_tickets [simp]:
  "exec_of (update_tickets P g s) i = exec_of s i" "exec_keys (update_tickets P g s) = exec_keys s"
  by (simp_all add: exec_of_def exec_keys_def)

lemma exec_of_id: "exec_of s i = Some e \<Longrightarrow> e_id e = i"
  by (auto simp: exec_of_def find_Some_iff)

lemma exec_of_iff: "exec_keys s \<Longrightarrow> exec_of s i = Some e \<longleftrightarrow> e \<in> set (s_executions s) \<and> e_id e = i"
  unfolding exec_of_def exec_keys_def by (rule find_key_Some_iff)

lemma GetExecution_exec_of:
  "exec_keys s \<Longrightarrow> exec_of s i = Some e \<Longrightarrow> e_ticket_id e = tid \<Longrightarrow> GetExecution s tid i = Some e"
  unfolding GetExecution_def exec_keys_def exec_of_def by (rule find_key_and)

lemma affected_pending:
  assumes "exec_keys s"
  shows "affected (pending_guard i) (s_executions s) \<longleftrightarrow> (\<exists>e. exec_of s i = Some e \<and> e_status e = ExPending)"
  using exec_of_iff [OF assms] by (auto simp: affected_iff pending_guard_def)

lemma exec_of_marks [simp]:
  "exec_of (MarkTicketExecuting now i ex s) j = exec_of s j" "exec_keys (MarkTicketExecuting now i ex s) = exec_keys s"
  "exec_of (SetExecutionAggregateStatus now i st s) j = exec_of s j"
  "exec_keys (SetExecutionAggregateStatus now i st s) = exec_keys s"
  "exec_of (MarkCompleted now i st s) j = exec_of s j"
  by (simp_all add: MarkTicketExecuting_def SetExecutionAggregateStatus_def MarkCompleted_def)

lemma exec_of_refresh [simp]:
  "exec_of (refreshTicketStatusFromExecutions now i s) j = exec_of s j"
  "exec_keys (refreshTicketStatusFromExecutions now i s) = exec_keys s"
  by (simp_all add: refreshTicketStatusFromExecutions_def Let_def split: option.split)

text \<open>A run during which other requests leave the statements alone and do not mark the ticket stopped.\<close>

definition quiet :: "(id64 \<Rightarrow> store \<Rightarrow> store) \<Rightarrow> (execution \<Rightarrow> exec_outcome) \<Rightarrow> runner" where
  "quiet b db = \<lparr>rn_before = b, rn_during = (\<lambda>_ s. s), rn_exec = db\<rparr>"

definition outcome_status :: "exec_outcome \<Rightarrow> exec_status" where
  "outcome_status x = (if xo_error x = None then ExCompleted else ExFailed)"

definition exec_statuses :: "store \<Rightarrow> id64 \<Rightarrow> (id64 \<times> exec_status) option" where
  "exec_statuses s i = map_option (\<lambda>e. (e_ticket_id e, e_status e)) (exec_of s i)"

definition never_stopped :: "store \<Rightarrow> id64 \<Rightarrow> bool" where
  "never_stopped s i \<longleftrightarrow> (case GetTicket s i of None \<Rightarrow> False | Some t \<Rightarrow> t_status t \<noteq> Stopped)"

lemma aggregate_not_stopped: "AggregateTicketStatusFromCounts n p r c f m \<noteq> Stopped"
  by (auto simp: AggregateTicketStatusFromCounts_def Let_def)

lemma never_stopped_refresh: "never_stopped s i \<Longrightarrow> never_stopped (refreshTicketStatusFromExecutions now i s) i"
  by (auto simp: never_stopped_def refreshTicketStatusFromExecutions_def Let_def GetTicket_aggregate aggregate_not_stopped
      split: option.splits)

lemma never_stopped_executing: "never_stopped s i \<Longrightarrow> never_stopped (MarkTicketExecuting now i ex s) i"
  by (auto simp: never_stopped_def MarkTicketExecuting_def store_simps manual_row_def split: option.splits)

lemma never_stopped_executions: "never_stopped (update_executions P f s) i = never_stopped s i"
  by (simp add: never_stopped_def GetTicket_def)

lemma exec_statuses_update:
  assumes "\<And>e. e_id (f e) = e_id e" and "\<And>e. e_ticket_id (f e) = e_ticket_id e" and "\<And>e. e_status (f e) = st"
    and "exec_of s i = Some c" and "P c" and "\<And>e. P e \<Longrightarrow> e_id e = i"
  shows "exec_statuses (update_executions P f s) = (exec_statuses s)(i \<mapsto> (e_ticket_id c, st))"
proof
  fix j
  show "exec_statuses (update_executions P f s) j = ((exec_statuses s)(i \<mapsto> (e_ticket_id c, st))) j"
  proof (cases "j = i")
    case True
    with assms show ?thesis by (simp add: exec_statuses_def exec_of_update)
  next
    case False
    have "\<not> P e" if "exec_of s j = Some e" for e
      using exec_of_id [OF that] assms(6) [of e] False by auto
    then show ?thesis using False assms(1) by (cases "exec_of s j") (simp_all add: exec_statuses_def exec_of_update)
  qed
qed

lemma exec_statuses_frame [simp]:
  "exec_statuses (MarkTicketExecuting now i ex s) = exec_statuses s"
  "exec_statuses (refreshTicketStatusFromExecutions now i s) = exec_statuses s"
  "exec_statuses (MarkCompleted now i st s) = exec_statuses s"
  by (simp_all add: exec_statuses_def fun_eq_iff)

text \<open>The claim of a pending row, the record of the session and the record of the outcome.\<close>

lemma claim_pending:
  assumes "exec_keys s" and "exec_of s i = Some c" and "e_status c = ExPending"
  shows "MarkExecutionRunningIfPending now i s = (True, update_executions (pending_guard i) (running_row now) s)"
    and "exec_of (update_executions (pending_guard i) (running_row now) s) i = Some (running_row now c)"
    and "exec_statuses (update_executions (pending_guard i) (running_row now) s) = (exec_statuses s)(i \<mapsto> (e_ticket_id c, ExRunning))"
proof -
  have c: "pending_guard i c" using assms exec_of_id by (simp add: pending_guard_def)
  show "MarkExecutionRunningIfPending now i s = (True, update_executions (pending_guard i) (running_row now) s)"
    using assms affected_pending by (simp add: MarkExecutionRunningIfPending_def)
  show "exec_of (update_executions (pending_guard i) (running_row now) s) i = Some (running_row now c)"
    using assms c by (simp add: exec_of_update)
  show "exec_statuses (update_executions (pending_guard i) (running_row now) s) = (exec_statuses s)(i \<mapsto> (e_ticket_id c, ExRunning))"
    by (rule exec_statuses_update) (use assms c in \<open>auto simp: running_row_def clear_process_def pending_guard_def\<close>)
qed

lemma send_quiet:
  assumes "exec_of (wd_store w) (e_id e) = Some c" and "e_status c = ExRunning" and "exec_keys (wd_store w)"
    and "never_stopped (wd_store w) tid"
  obtains c' w' where "send_statement (quiet b db) now e w = (db e, w')" and "exec_of (wd_store w') (e_id e) = Some c'"
    and "e_ticket_id c' = e_ticket_id c" and "e_status c' = ExRunning" and "exec_keys (wd_store w')"
    and "exec_statuses (wd_store w') = (exec_statuses (wd_store w))(e_id e \<mapsto> (e_ticket_id c, ExRunning))"
    and "never_stopped (wd_store w') tid"
proof (cases "xo_process (db e)")
  case None
  have "exec_statuses (wd_store w) = (exec_statuses (wd_store w))(e_id e \<mapsto> (e_ticket_id c, ExRunning))"
    using assms by (auto simp: exec_statuses_def fun_eq_iff)
  with None assms that show ?thesis by (auto simp: send_statement_def quiet_def Let_def emit_def)
next
  case (Some p)
  obtain pt pid where p: "p = (pt, pid)" by (cases p)
  let ?P = "\<lambda>x. e_id x = e_id e \<and> e_status x = ExRunning"
  let ?f = "\<lambda>x. x\<lparr>e_sent_to_db_at := coalesce (e_sent_to_db_at x) (Some now), e_db_process_type := Some pt,
    e_db_process_id := Some pid, e_outcome_confidence := Some ''sent_to_db''\<rparr>"
  let ?s = "update_executions ?P ?f (wd_store w)"
  have c: "?P c" using assms exec_of_id by simp
  have one: "exec_of ?s (e_id e) = Some (?f c)" using assms c by (simp add: exec_of_update)
  have keys: "exec_keys ?s" using assms by (simp add: exec_keys_update)
  have st: "exec_statuses ?s = (exec_statuses (wd_store w))(e_id e \<mapsto> (e_ticket_id c, ExRunning))"
    using assms c exec_of_id by (fastforce simp: exec_statuses_def fun_eq_iff exec_of_update option.map_comp comp_def
        intro!: map_option_cong [OF refl])
  have ns: "never_stopped ?s tid" using assms by (simp add: never_stopped_executions)
  obtain w' where w': "send_statement (quiet b db) now e w = (db e, w')" "wd_store w' = ?s"
    using Some p by (simp add: send_statement_def quiet_def Let_def emit_def MarkExecutionSentToDB_def)
  show ?thesis
    using assms(2) one keys st ns unfolding w'(2) [symmetric] by (intro that [OF w'(1), of "?f c"]) auto
qed

definition sets_status :: "exec_status \<Rightarrow> (execution \<Rightarrow> execution) \<Rightarrow> bool" where
  "sets_status st f \<longleftrightarrow> (\<forall>x. e_id (f x) = e_id x \<and> e_ticket_id (f x) = e_ticket_id x \<and> e_status (f x) = st)"

lemma done_sets_status: "\<exists>f. sets_status ExCompleted f \<and>
    MarkExecutionDone now i rows ms None s = update_executions (\<lambda>e. e_id e = i) f s"
  unfolding MarkExecutionDone_def by (rule exI, rule conjI [rotated], rule refl) (simp add: sets_status_def)

lemma failed_sets_status: "\<exists>f. sets_status ExFailed f \<and>
    MarkExecutionFailedWithOutcome now i ms err reason c s = update_executions (\<lambda>e. e_id e = i) f s"
  unfolding MarkExecutionFailedWithOutcome_def by (rule exI, rule conjI [rotated], rule refl) (simp add: sets_status_def)

lemma record_quiet:
  assumes "exec_of (wd_store w) (e_id e) = Some c" and "e_status c = ExRunning" and "e_ticket_id c = tid"
    and "exec_keys (wd_store w)" and "never_stopped (wd_store w) tid"
  obtains r w' where "record_outcome now tid e o1 w = (r, w')" and "sr_err r = map_option de_message (xo_error o1)"
    and "exec_keys (wd_store w')"
    and "exec_statuses (wd_store w') = (exec_statuses (wd_store w))(e_id e \<mapsto> (tid, outcome_status o1))"
    and "never_stopped (wd_store w') tid"
proof -
  have get: "GetExecution (wd_store w) tid (e_id e) = Some c" using assms by (intro GetExecution_exec_of)
  have "\<exists>f. sets_status (outcome_status o1) f \<and>
    wd_store (snd (record_outcome now tid e o1 w)) = update_executions (\<lambda>x. e_id x = e_id e) f (wd_store w)"
  proof (cases "xo_error o1")
    case None
    with get assms(2) done_sets_status show ?thesis by (simp add: record_outcome_def Let_def outcome_status_def)
  next
    case (Some x)
    with get assms(2) failed_sets_status show ?thesis by (simp add: record_outcome_def Let_def outcome_status_def)
  qed
  then obtain f where f: "\<And>x. e_id (f x) = e_id x" "\<And>x. e_ticket_id (f x) = e_ticket_id x" "\<And>x. e_status (f x) = outcome_status o1"
    "wd_store (snd (record_outcome now tid e o1 w)) = update_executions (\<lambda>x. e_id x = e_id e) f (wd_store w)"
    unfolding sets_status_def by blast
  have err: "sr_err (fst (record_outcome now tid e o1 w)) = map_option de_message (xo_error o1)"
    using get assms(2) by (cases "xo_error o1") (simp_all add: record_outcome_def Let_def)
  have "exec_statuses (update_executions (\<lambda>x. e_id x = e_id e) f (wd_store w)) =
    (exec_statuses (wd_store w))(e_id e \<mapsto> (e_ticket_id c, outcome_status o1))"
    by (rule exec_statuses_update) (use f assms(1) exec_of_id in auto)
  then show ?thesis
    using assms f err that [of "fst (record_outcome now tid e o1 w)" "snd (record_outcome now tid e o1 w)"]
    by (simp add: exec_keys_update never_stopped_executions)
qed

lemma statement_quiet:
  assumes "t_db_connection_id t \<noteq> None" and "exec_keys (wd_store w)" and "never_stopped (wd_store w) (t_id t)"
    and "exec_statuses (wd_store w) (e_id e) = Some (t_id t, ExPending)"
  obtains r w' where "runTicketStatementExecution (quiet b db) (\<lambda>_. False) now t e ex m w = (r, w')"
    and "sr_err r = map_option de_message (xo_error (db e))" and "exec_keys (wd_store w')"
    and "exec_statuses (wd_store w') = (exec_statuses (wd_store w))(e_id e \<mapsto> (t_id t, outcome_status (db e)))"
    and "never_stopped (wd_store w') (t_id t)"
proof -
  define s1 where "s1 = MarkTicketExecuting now (t_id t) ex (wd_store w)"
  define s2 where "s2 = update_executions (pending_guard (e_id e)) (running_row now) s1"
  obtain c where c: "exec_of s1 (e_id e) = Some c" "e_status c = ExPending" "e_ticket_id c = t_id t"
    using assms(4) by (auto simp: exec_statuses_def s1_def)
  have k1: "exec_keys s1" using assms(2) by (simp add: s1_def)
  note claim = claim_pending [OF k1 c(1,2), of now, folded s2_def]
  have k2: "exec_keys s2" using k1 by (simp add: s2_def exec_keys_update)
  have n2: "never_stopped s2 (t_id t)"
    using never_stopped_executing [OF assms(3)] by (simp add: s2_def s1_def never_stopped_executions)
  define w4 where "w4 = (let w3 = emit (Publish (t_id t)) (w\<lparr>wd_store := s2\<rparr>)
    in if m then emit (Audit ''ticket_statement_execute_start'' (Some ex) (t_id t)) w3 else w3)"
  have w4: "wd_store w4 = s2" by (simp add: w4_def Let_def emit_def)
  obtain c' w5 where w5: "send_statement (quiet b db) now e w4 = (db e, w5)" "exec_of (wd_store w5) (e_id e) = Some c'"
    "e_ticket_id c' = t_id t" "e_status c' = ExRunning" "exec_keys (wd_store w5)"
    "exec_statuses (wd_store w5) = (exec_statuses s2)(e_id e \<mapsto> (t_id t, ExRunning))" "never_stopped (wd_store w5) (t_id t)"
    using claim(2) k2 n2 c by (elim send_quiet [of w4 e "running_row now c" "t_id t" b db now, unfolded w4])
      (auto simp: running_row_def clear_process_def)
  obtain r w6 where w6: "record_outcome now (t_id t) e (db e) w5 = (r, w6)" "sr_err r = map_option de_message (xo_error (db e))"
    "exec_keys (wd_store w6)" "exec_statuses (wd_store w6) = (exec_statuses (wd_store w5))(e_id e \<mapsto> (t_id t, outcome_status (db e)))"
    "never_stopped (wd_store w6) (t_id t)"
    using record_quiet [OF w5(2,4,3,5,7), of now "db e"] by blast
  have st: "exec_statuses s2 = (exec_statuses (wd_store w))(e_id e \<mapsto> (t_id t, ExRunning))"
    using claim(3) c(3) by (simp add: s1_def)
  obtain w' where "runTicketStatementExecution (quiet b db) (\<lambda>_. False) now t e ex m w = (r, w')"
    "wd_store w' = refreshTicketStatusFromExecutions now (t_id t) (wd_store w6)"
    using assms(1) claim(1) w5(1) w6(1) unfolding w4_def
    by (auto simp: runTicketStatementExecution_def write_store_def always_def s1_def [symmetric] Let_def emit_def
        split: if_splits)
  then show ?thesis using w5 w6 st that by (simp add: never_stopped_refresh)
qed

text \<open>How many statements succeed before the first error, and the status this leaves a statement in.\<close>

definition ok_prefix :: "(execution \<Rightarrow> exec_outcome) \<Rightarrow> execution list \<Rightarrow> nat" where
  "ok_prefix db es = length (takeWhile (\<lambda>e. xo_error (db e) = None) es)"

definition position_status :: "nat \<Rightarrow> nat \<Rightarrow> exec_status" where
  "position_status n k = (if k < n then ExCompleted else if k = n then ExFailed else ExPending)"

definition unstopped_requests :: "id64 \<Rightarrow> (id64 \<Rightarrow> store \<Rightarrow> store) \<Rightarrow> bool" where
  "unstopped_requests tid b \<longleftrightarrow>
     (\<forall>k s. s_executions (b k s) = s_executions s \<and> (never_stopped s tid \<longrightarrow> never_stopped (b k s) tid))"

lemma run_quiet:
  assumes "t_db_connection_id t \<noteq> None" and "unstopped_requests (t_id t) b"
    and "exec_keys (wd_store w)" and "never_stopped (wd_store w) (t_id t)"
    and "distinct (map e_id es)" and "\<forall>e \<in> set es. e_status e = ExPending"
    and "\<forall>e \<in> set es. exec_statuses (wd_store w) (e_id e) = Some (t_id t, ExPending)"
  shows "\<exists>w'. run_statements (quiet b db) (\<lambda>_. False) now t ex es w
       = (RunFinished (if ok_prefix db es = length es then Completed else Failed), w') \<and> never_stopped (wd_store w') (t_id t) \<and>
     (\<forall>k < length es. exec_statuses (wd_store w') (e_id (es ! k)) = Some (t_id t, position_status (ok_prefix db es) k)) \<and>
     (\<forall>i. i \<notin> e_id ` set es \<longrightarrow> exec_statuses (wd_store w') i = exec_statuses (wd_store w) i)"
  using assms(3-)
proof (induction es arbitrary: w)
  case Nil
  then show ?case by (simp add: ok_prefix_def)
next
  case (Cons e es)
  define w0 where "w0 = w\<lparr>wd_store := b (e_id e) (wd_store w)\<rparr>"
  have b: "s_executions (wd_store w0) = s_executions (wd_store w)" and ns0: "never_stopped (wd_store w0) (t_id t)"
    using assms(2) Cons.prems(2) by (simp_all add: w0_def unstopped_requests_def)
  then have same: "exec_keys (wd_store w0) = exec_keys (wd_store w)" "exec_statuses (wd_store w0) = exec_statuses (wd_store w)"
    by (simp_all add: exec_keys_def exec_statuses_def exec_of_def fun_eq_iff)
  obtain r w1 where run: "runTicketStatementExecution (quiet b db) (\<lambda>_. False) now t e ex False w0 = (r, w1)"
    and err: "sr_err r = map_option de_message (xo_error (db e))" and keys: "exec_keys (wd_store w1)"
    and st: "exec_statuses (wd_store w1) = (exec_statuses (wd_store w))(e_id e \<mapsto> (t_id t, outcome_status (db e)))"
    and ns: "never_stopped (wd_store w1) (t_id t)"
    using Cons.prems assms(1) ns0 same by (elim statement_quiet [of t w0 e b db now ex False]) auto
  have go: "\<not> (case GetTicket (wd_store w0) (t_id t) of None \<Rightarrow> False | Some c \<Rightarrow> t_status c = Stopped)"
    using ns0 by (auto simp: never_stopped_def split: option.splits)
  have before: "w\<lparr>wd_store := rn_before (quiet b db) (e_id e) (wd_store w)\<rparr> = w0" by (simp add: w0_def quiet_def)
  have step: "run_statements (quiet b db) (\<lambda>_. False) now t ex (e # es) w =
      (if xo_error (db e) \<noteq> None then (RunFinished Failed, w1) else run_statements (quiet b db) (\<lambda>_. False) now t ex es w1)"
    using Cons.prems(4) go err by (simp only: run_statements.simps Let_def before) (simp add: run)
  have other: "e_id (es ! k) \<noteq> e_id e" if "k < length es" for k
    using Cons.prems(3) nth_mem [OF that] by (metis distinct.simps(2) image_eqI list.set_map list.simps(9))
  show ?case
  proof (cases "xo_error (db e)")
    case (Some x)
    then have n: "ok_prefix db (e # es) = 0" by (simp add: ok_prefix_def)
    have "exec_statuses (wd_store w1) (e_id ((e # es) ! k)) = Some (t_id t, position_status 0 k)" if "k < length (e # es)" for k
      using that other Cons.prems(5) Some st by (cases k) (auto simp: position_status_def outcome_status_def)
    with n Some st step ns show ?thesis by auto
  next
    case None
    then have n: "ok_prefix db (e # es) = Suc (ok_prefix db es)" by (simp add: ok_prefix_def)
    have rest: "\<forall>x \<in> set es. exec_statuses (wd_store w1) (e_id x) = Some (t_id t, ExPending)"
      using Cons.prems(3,5) st by (auto simp: image_iff)
    obtain w' where w': "run_statements (quiet b db) (\<lambda>_. False) now t ex es w1
         = (RunFinished (if ok_prefix db es = length es then Completed else Failed), w')" "never_stopped (wd_store w') (t_id t)"
      "\<forall>k < length es. exec_statuses (wd_store w') (e_id (es ! k)) = Some (t_id t, position_status (ok_prefix db es) k)"
      "\<forall>i. i \<notin> e_id ` set es \<longrightarrow> exec_statuses (wd_store w') i = exec_statuses (wd_store w1) i"
      using Cons.IH [OF keys ns _ _ rest] Cons.prems(3,4) by auto
    have "exec_statuses (wd_store w') (e_id ((e # es) ! k)) = Some (t_id t, position_status (Suc (ok_prefix db es)) k)"
      if "k < length (e # es)" for k
      using that Cons.prems(3) w' st None by (cases k) (auto simp: position_status_def outcome_status_def)
    with n None w' st step show ?thesis by auto
  qed
qed

lemma exec_statuses_listed:
  assumes "exec_keys s" and "e \<in> set (ListExecutions s i)"
  shows "exec_statuses s (e_id e) = Some (i, e_status e)"
  using assms exec_of_iff [OF assms(1), of "e_id e" e] by (auto simp: exec_statuses_def set_ListExecutions)

lemma distinct_listed: "exec_keys s \<Longrightarrow> distinct (map e_id (ListExecutions s i))"
  by (auto simp: exec_keys_def ListExecutions_def distinct_map intro: inj_on_subset)

lemma ensure_store:
  assumes "store_wf s"
  shows "exec_keys (EnsureExecutions i sts s)" and "s_tickets (EnsureExecutions i sts s) = s_tickets s"
proof -
  have "good_step s (EnsureExecutions i sts s)" by (simp add: EnsureExecutions_def good_insert_executions)
  with assms show "exec_keys (EnsureExecutions i sts s)"
    by (simp add: good_step_def store_wf_def execution_keys_def exec_keys_def)
  have "s_tickets (insert_executions i sts s) = s_tickets s" for s by (induction sts arbitrary: s) simp_all
  then show "s_tickets (EnsureExecutions i sts s) = s_tickets s" by (simp add: EnsureExecutions_def)
qed

definition kept_statements :: "(int \<times> string) list \<Rightarrow> (int \<times> string) list" where
  "kept_statements sts = [(fst st, trim_space (snd st)). st \<leftarrow> sts, trim_space (snd st) \<noteq> []]"

lemma status_finish_run:
  "never_stopped (wd_store w) (t_id t) \<Longrightarrow> status_of (finish_run now t actor auto st w) (t_id t) = Some st"
proof -
  assume "never_stopped (wd_store w) (t_id t)"
  then obtain c where c: "GetTicket (wd_store w) (t_id t) = Some c" by (auto simp: never_stopped_def split: option.splits)
  then show ?thesis using GetTicket_id [OF c]
    by (simp add: finish_run_def finishTicket_def status_of_def MarkCompleted_def emit_def store_simps del: map_option_eq_Some)
qed

lemma executions_finish_run: "exec_statuses (wd_store (finish_run now t actor auto st w)) = exec_statuses (wd_store w)"
  by (simp add: finish_run_def finishTicket_def emit_def)

lemma Stop_full_store:
  assumes "isFullTicketExecutionRunMode (t_execution_run_mode t)"
  shows "wd_store (snd (Stop q fl ip t w)) = wd_store w \<or>
    wd_store (snd (Stop q fl ip t w)) = MarkCompleted (q_now q) (t_id t) Failed (wd_store w)"
  using assms by (auto simp: Stop_def write_store_def always_def emit_def forbidTicketAccess_def Let_def
      split: option.splits bool.splits prod.splits)

lemma never_stopped_completed: "st \<noteq> Stopped \<Longrightarrow> never_stopped s i \<Longrightarrow> never_stopped (MarkCompleted now j st s) i"
  by (auto simp: never_stopped_def MarkCompleted_def store_simps split: option.splits)

lemma batch_run_main:
  fixes w db parse t
  defines "es \<equiv> ListExecutions (EnsureExecutions (t_id t) (kept_statements (the (parse t))) (wd_store w)) (t_id t)"
  assumes "store_wf (wd_store w)" and "never_stopped (wd_store w) (t_id t)" and "t_db_connection_id t \<noteq> None"
    and "parse t \<noteq> None" and "\<not> isDMLWholeTicketExecutionMode (t_dml_execution_mode t)"
    and "unstopped_requests (t_id t) b" and "\<forall>e \<in> set es. e_status e = ExPending"
  shows "status_of (runTicketSQL (quiet b db) wdb parse (\<lambda>_. False) now t ex actor auto w) (t_id t)
           = Some (if ok_prefix db es = length es then Completed else Failed) \<and>
    (\<forall>k < length es. exec_statuses (wd_store (runTicketSQL (quiet b db) wdb parse (\<lambda>_. False) now t ex actor auto w)) (e_id (es ! k))
           = Some (t_id t, position_status (ok_prefix db es) k))"
proof -
  define s1 where "s1 = EnsureExecutions (t_id t) (kept_statements (the (parse t))) (wd_store w)"
  define w1 where "w1 = w\<lparr>wd_store := s1\<rparr>"
  have es: "es = ListExecutions s1 (t_id t)" by (simp add: es_def s1_def)
  have keys: "exec_keys s1" and ns: "never_stopped s1 (t_id t)"
    using ensure_store [OF assms(2)] assms(3) by (simp_all add: s1_def never_stopped_def GetTicket_def)
  have ensured: "ensureTicketExecutionRows parse (\<lambda>_. False) t w = (True, w1)"
    using assms(4,5) by (auto simp: ensureTicketExecutionRows_def write_store_def always_def w1_def s1_def kept_statements_def Let_def)
  obtain w2 where w2: "run_statements (quiet b db) (\<lambda>_. False) now t ex es w1
       = (RunFinished (if ok_prefix db es = length es then Completed else Failed), w2)" "never_stopped (wd_store w2) (t_id t)"
    "\<forall>k < length es. exec_statuses (wd_store w2) (e_id (es ! k)) = Some (t_id t, position_status (ok_prefix db es) k)"
    using run_quiet [OF assms(4,7), of w1 es db now ex] keys ns assms(8) distinct_listed exec_statuses_listed
    by (auto simp: w1_def es)
  have "runTicketSQL (quiet b db) wdb parse (\<lambda>_. False) now t ex actor auto w
      = finish_run now t actor auto (if ok_prefix db es = length es then Completed else Failed) w2"
    using assms(6) ensured w2(1) by (simp add: runTicketSQL_def w1_def es)
  then show ?thesis using w2 by (simp add: status_finish_run executions_finish_run)
qed

text \<open>
  C9: a batch run in which no other request stops it runs the statements in order up to the first
  error: those before it are recorded completed, the failing one failed and the rest stays pending,
  and the ticket ends completed exactly when no statement failed.
\<close>

theorem batch_run_outcome:
  fixes w db parse t
  defines "es \<equiv> ListExecutions (EnsureExecutions (t_id t) (kept_statements (the (parse t))) (wd_store w)) (t_id t)"
  assumes "store_wf (wd_store w)" and "never_stopped (wd_store w) (t_id t)" and "t_db_connection_id t \<noteq> None"
    and "parse t \<noteq> None" and "\<not> isDMLWholeTicketExecutionMode (t_dml_execution_mode t)"
    and "unstopped_requests (t_id t) b" and "\<forall>e \<in> set es. e_status e = ExPending"
  shows "status_of (runTicketSQL (quiet b db) wdb parse (\<lambda>_. False) now t ex actor auto w) (t_id t)
           = Some (if ok_prefix db es = length es then Completed else Failed) \<and>
    (\<forall>k < length es. exec_statuses (wd_store (runTicketSQL (quiet b db) wdb parse (\<lambda>_. False) now t ex actor auto w)) (e_id (es ! k))
           = Some (t_id t, position_status (ok_prefix db es) k))"
  unfolding es_def using assms(8) by (intro batch_run_main assms) (simp_all add: es_def)

text \<open>
  C25: \<open>Stop\<close> does not stop a full run. The request marks the ticket failed, which the run does not look
  for: if requests to stop arrive before any or all of the statements, a run without database
  errors still executes every statement and records the ticket as completed.
\<close>

theorem stop_does_not_halt_full_run:
  fixes w db parse t
  defines "es \<equiv> ListExecutions (EnsureExecutions (t_id t) (kept_statements (the (parse t))) (wd_store w)) (t_id t)"
  assumes "store_wf (wd_store w)" and "never_stopped (wd_store w) (t_id t)" and "t_db_connection_id t \<noteq> None"
    and "parse t \<noteq> None" and "\<not> isDMLWholeTicketExecutionMode (t_dml_execution_mode t)"
    and "\<forall>e \<in> set es. e_status e = ExPending" and "\<forall>e \<in> set es. xo_error (db e) = None"
    and "isFullTicketExecutionRunMode (t_execution_run_mode t)"
    and "b = (\<lambda>k s. if stops k then wd_store (snd (Stop q (\<lambda>_. False) ip t (other\<lparr>wd_store := s\<rparr>))) else s)"
  shows "status_of (runTicketSQL (quiet b db) wdb parse (\<lambda>_. False) now t ex actor auto w) (t_id t) = Some Completed \<and>
    (\<forall>e \<in> set es. exec_statuses (wd_store (runTicketSQL (quiet b db) wdb parse (\<lambda>_. False) now t ex actor auto w)) (e_id e)
           = Some (t_id t, ExCompleted))"
proof -
  have "s_executions (b k s) = s_executions s \<and> (never_stopped s (t_id t) \<longrightarrow> never_stopped (b k s) (t_id t))" for k s
    using Stop_full_store [OF assms(9), of q "\<lambda>_. False" ip "other\<lparr>wd_store := s\<rparr>"] never_stopped_completed [of Failed s "t_id t"]
    unfolding assms(10) by (auto simp: MarkCompleted_def)
  then have b: "unstopped_requests (t_id t) b" by (simp add: unstopped_requests_def)
  have n: "ok_prefix db es = length es" using assms(8) by (simp add: ok_prefix_def takeWhile_eq_all_conv [THEN iffD2])
  note main = batch_run_main [where w = w and t = t and parse = parse and db = db, folded es_def, OF assms(2-6) b assms(7)]
  show ?thesis using main [of wdb now ex actor auto] n by (auto simp: in_set_conv_nth position_status_def)
qed

section \<open>One transaction for the whole ticket\<close>

fun is_commit :: "effect \<Rightarrow> bool" where
  "is_commit (CommitTx _) = True"
| "is_commit _ = False"

definition commits :: "world \<Rightarrow> nat" where
  "commits w = length (filter is_commit (wd_effects w))"

lemma commits_simps [simp]:
  "commits (emit e w) = commits w + (if is_commit e then 1 else 0)"
  "commits (w\<lparr>wd_store := s\<rparr>) = commits w"
  by (simp_all add: commits_def emit_def)

lemma commits_write_store: "write_store fl op f w = (ok, w') \<Longrightarrow> commits w' = commits w"
  by (auto simp: write_store_def split: if_splits prod.splits)

lemma commits_send: "send_statement rn now e w = (o1, w') \<Longrightarrow> commits w' = commits w"
  by (auto simp: send_statement_def Let_def split: option.splits prod.splits)

lemma commits_record: "record_outcome now i e o1 w = (r, w') \<Longrightarrow> commits w' = commits w"
  by (auto simp: record_outcome_def Let_def split: option.splits if_splits)

lemma record_error: "record_outcome now i e o1 w = (r, w') \<Longrightarrow> \<not> settled_by_others (wd_store w) i (e_id e) \<Longrightarrow>
   (sr_err r = None \<longleftrightarrow> xo_error o1 = None)"
  by (auto simp: record_outcome_def settled_by_others_def Let_def split: option.splits if_splits)

lemma run_whole_failed: "run_whole rn fl now t es Failed w = (st, w') \<Longrightarrow> st = Failed"
  by (induction es arbitrary: w) (auto simp: Let_def split: if_splits prod.splits option.splits bool.splits)

text \<open>What the loop sent when it ends with status completed.\<close>

lemma run_whole_completed:
  assumes "run_whole rn fl now t es st w = (Completed, w')"
  shows "commits w' = commits w \<and> (\<forall>e \<in> set es. e_status e \<notin> {ExFailed, ExStopped}) \<and>
    (\<forall>e \<in> set es. e_status e = ExPending \<longrightarrow> xo_error (rn_exec rn e) = None) \<and>
    sql_runs w' = sql_runs w @ map run_of (filter (\<lambda>e. e_status e = ExPending \<and> xo_sent (rn_exec rn e)) es)"
  using assms
proof (induction es arbitrary: st w)
  case Nil
  then show ?case by simp
next
  case (Cons e es)
  show ?case
  proof (cases "e_status e = ExPending")
    case False
    with Cons.prems have "run_whole rn fl now t es st w = (Completed, w')" "e_status e \<notin> {ExFailed, ExStopped}"
      by (simp_all split: if_splits)
    with Cons.IH [of st w] False show ?thesis by simp
  next
    case True
    let ?w0 = "w\<lparr>wd_store := rn_before rn (e_id e) (wd_store w)\<rparr>"
    obtain ok w1 where w1: "write_store fl OpClaim (MarkExecutionRunningIfPending now (e_id e)) ?w0 = (ok, w1)" by fastforce
    obtain o1 w2 where w2: "send_statement rn now e (emit (Publish (t_id t)) w1) = (o1, w2)" by fastforce
    obtain r w3 where w3: "record_outcome now (t_id t) e o1 w2 = (r, w3)" by fastforce
    let ?st = "if settled_by_others (wd_store w2) (t_id t) (e_id e) \<or> xo_error o1 \<noteq> None then Failed else st"
    have ok: "ok = Some True" and go: "(if sr_err r \<noteq> None then (?st, emit (Publish (t_id t)) w3)
        else run_whole rn fl now t es ?st (emit (Publish (t_id t)) w3)) = (Completed, w')"
      using Cons.prems True w1 w2 w3 by (auto simp: Let_def split: if_splits option.splits bool.splits)
    have fine: "\<not> settled_by_others (wd_store w2) (t_id t) (e_id e)" "xo_error o1 = None"
      using go run_whole_failed by (auto split: if_splits dest: run_whole_failed)
    then have rest: "run_whole rn fl now t es st (emit (Publish (t_id t)) w3) = (Completed, w')"
      using go record_error [OF w3] by simp
    have "commits w3 = commits w"
      using commits_write_store [OF w1] commits_send [OF w2] commits_record [OF w3] by simp
    moreover have "o1 = rn_exec rn e" "sql_runs w3 = sql_runs w @ (if xo_sent (rn_exec rn e) then [run_of e] else [])"
      using sql_runs_write_store [OF w1] sql_runs_send [OF w2] sql_runs_record [OF w3] by simp_all
    ultimately show ?thesis using Cons.IH [OF rest] fine True by simp
  qed
qed

lemma commits_run_whole: "run_whole rn fl now t es st w = (st', w') \<Longrightarrow> commits w' = commits w"
proof (induction es arbitrary: st w)
  case Nil
  then show ?case by simp
next
  case (Cons e es)
  then show ?case
    by (auto simp: Let_def split: if_splits prod.splits option.splits bool.splits
        dest!: commits_write_store commits_send commits_record)
qed

lemma whole_ensure:
  assumes "ensureTicketExecutionRows parse fl t w = (ok, w1)"
  shows "commits w1 = commits w" and "sql_runs w1 = sql_runs w"
  using assms by (auto simp: ensureTicketExecutionRows_def Let_def commits_def sql_runs_def write_store_def
      split: if_splits option.splits prod.splits)

text \<open>
  C10: a ticket in whole-ticket mode is all or nothing. Whatever other requests and the databases do,
  if the run commits then it had set up the transaction, no statement of the ticket was failed or
  stopped, and every pending statement was executed without error, in order and once; there is
  at most one commit.
\<close>

theorem whole_ticket_atomic:
  fixes w rn db parse fl now t actor auto
  defines "w' \<equiv> runTicketWholeTicketSQL rn db parse fl now t actor auto w"
    and "es \<equiv> ListExecutions (wd_store (snd (ensureTicketExecutionRows parse fl t w))) (t_id t)"
  assumes "commits w' \<noteq> commits w"
  shows "commits w' = commits w + 1 \<and> wb_ready db \<and>
    (\<forall>e \<in> set es. e_status e \<notin> {ExFailed, ExStopped}) \<and>
    (\<forall>e \<in> set es. e_status e = ExPending \<longrightarrow> xo_error (rn_exec rn e) = None) \<and>
    sql_runs w' = sql_runs w @ map run_of (filter (\<lambda>e. e_status e = ExPending \<and> xo_sent (rn_exec rn e)) es)"
proof -
  obtain ok w1 where w1: "ensureTicketExecutionRows parse fl t w = (ok, w1)" by fastforce
  let ?rn = "rn\<lparr>rn_exec := (\<lambda>e. (rn_exec rn e)\<lparr>xo_process := wb_session db\<rparr>)\<rparr>"
  obtain st w2 where w2: "run_whole ?rn fl now t es Completed w1 = (st, w2)" by fastforce
  have start: "commits (finishTicketExecutionStartFailure now t actor auto v) = commits v" for v
    by (simp add: finishTicketExecutionStartFailure_def)
  have same: "commits w1 = commits w" "sql_runs w1 = sql_runs w" using whole_ensure [OF w1] by simp_all
  have "commits w' = commits w" if "\<not> (ok \<and> \<not> fl OpExecution \<and> wb_ready db)"
    unfolding w'_def runTicketWholeTicketSQL_def w1 using that same start by (cases ok) simp_all
  with assms(3) have ok: "ok" "\<not> fl OpExecution" "wb_ready db" by blast+
  let ?fin = "emit (if st = Completed \<and> wb_commit db then CommitTx (t_id t) else RollbackTx (t_id t)) w2"
  have w': "w' = finish_run now t actor auto (if st = Completed \<and> \<not> wb_commit db then Failed else st) ?fin"
    using ok w1 w2 by (simp add: w'_def runTicketWholeTicketSQL_def es_def Let_def)
  have "st = Completed \<and> wb_commit db"
    using assms(3) same commits_run_whole [OF w2] by (simp add: w' finish_run_def split: if_splits)
  then show ?thesis
    using run_whole_completed [of ?rn fl now t es Completed w1 w2] w2 ok same by (simp add: w' finish_run_def)
qed

section \<open>Witnesses\<close>

definition sample_parse :: "ticket \<Rightarrow> (int \<times> string) list option" where
  "sample_parse _ = Some [(1, ''UPDATE a''), (2, ''UPDATE b ''), (3, '' '')]"

definition fine_db :: "execution \<Rightarrow> exec_outcome" where
  "fine_db e = \<lparr>xo_rows = Some 3, xo_ms = Some 2, xo_sent = True, xo_process = None, xo_error = None\<rparr>"

definition failing_db :: "execution \<Rightarrow> exec_outcome" where
  "failing_db e = (if e_seq e = 1 then fine_db e
     else (fine_db e)\<lparr>xo_error := Some \<lparr>de_kind = MySQLError, de_message = ''duplicate''\<rparr>\<rparr>)"

definition batch_ticket :: ticket where
  "batch_ticket = sample_ticket\<lparr>t_status := Executing, t_executor_id := Some 2, t_execution_run_mode := Some run_mode_batch\<rparr>"

definition batch_world :: world where
  "batch_world = sample_world\<lparr>wd_store := sample_store\<lparr>s_tickets := [batch_ticket]\<rparr>\<rparr>"

definition batch_rows :: "execution list" where
  "batch_rows = [new_execution 4 10 (1, ''UPDATE a''), new_execution 5 10 (2, ''UPDATE b'')]"

lemma batch_rows_listed:
  "ListExecutions (EnsureExecutions (t_id batch_ticket) (kept_statements (the (sample_parse batch_ticket))) (wd_store batch_world))
     (t_id batch_ticket) = batch_rows"
  by (simp add: ListExecutions_def EnsureExecutions_def kept_statements_def sample_parse_def batch_world_def batch_ticket_def
      sample_store_def sample_ticket_def affected_def new_execution_def batch_rows_def trim_space_def is_space_def)

lemma batch_ready:
  "store_wf (wd_store batch_world)" "never_stopped (wd_store batch_world) (t_id batch_ticket)"
  "t_db_connection_id batch_ticket \<noteq> None" "sample_parse batch_ticket \<noteq> None"
  "\<not> isDMLWholeTicketExecutionMode (t_dml_execution_mode batch_ticket)" "t_id batch_ticket = 10"
  "isFullTicketExecutionRunMode (t_execution_run_mode batch_ticket)" "\<forall>e \<in> set batch_rows. e_status e = ExPending"
  by (simp_all add: store_wf_def ticket_keys_def execution_keys_def batch_world_def batch_ticket_def sample_store_def
      sample_ticket_def new_execution_def never_stopped_def GetTicket_def sample_parse_def batch_rows_def
      isDMLWholeTicketExecutionMode_def isFullTicketExecutionRunMode_def run_mode_defs trim_space_def is_space_def)

lemma ok_prefix_samples: "ok_prefix failing_db batch_rows = 1" "length batch_rows = 2" "ok_prefix fine_db batch_rows = 2"
  by (simp_all add: ok_prefix_def failing_db_def fine_db_def batch_rows_def new_execution_def)

theorem batch_run_outcome_witness:
  "status_of (runTicketSQL (quiet (\<lambda>_ s. s) failing_db) \<lparr>wb_ready = True, wb_session = None, wb_commit = True\<rparr> sample_parse
     (\<lambda>_. False) 70 batch_ticket 2 2 False batch_world) 10 = Some Failed"
proof -
  have quiet: "unstopped_requests (t_id batch_ticket) (\<lambda>_ s. s)" by (simp add: unstopped_requests_def)
  note run = batch_run_outcome [where w = batch_world and t = batch_ticket and parse = sample_parse and db = failing_db,
      unfolded batch_rows_listed, OF batch_ready(1-5) quiet batch_ready(8)]
  from run [of "\<lparr>wb_ready = True, wb_session = None, wb_commit = True\<rparr>" 70 2 2 False]
  show ?thesis by (simp add: ok_prefix_samples batch_ready(6))
qed

theorem stop_does_not_halt_full_run_witness:
  "status_of (runTicketSQL (quiet (\<lambda>k s. if k = 5 then wd_store (snd (Stop (sample_request 2) (\<lambda>_. False) ''ip'' batch_ticket
       (sample_world\<lparr>wd_store := s\<rparr>))) else s) fine_db) \<lparr>wb_ready = True, wb_session = None, wb_commit = True\<rparr> sample_parse
     (\<lambda>_. False) 70 batch_ticket 2 2 False batch_world) 10 = Some Completed"
proof -
  have fine: "\<forall>e \<in> set batch_rows. xo_error (fine_db e) = None" by (simp add: fine_db_def)
  note run = stop_does_not_halt_full_run [where w = batch_world and t = batch_ticket and parse = sample_parse and db = fine_db,
      unfolded batch_rows_listed, OF batch_ready(1-5,8) fine batch_ready(7), where stops = "\<lambda>k. k = 5" and q = "sample_request 2"
        and ip = "''ip''" and other = sample_world, OF refl]
  from run [of "\<lparr>wb_ready = True, wb_session = None, wb_commit = True\<rparr>" 70 2 2 False]
  show ?thesis by (simp add: batch_ready(6))
qed

definition whole_db_ok :: whole_db where
  "whole_db_ok = \<lparr>wb_ready = True, wb_session = None, wb_commit = True\<rparr>"

definition whole_ticket :: ticket where
  "whole_ticket = batch_ticket\<lparr>t_execution_run_mode := Some run_mode_whole_ticket, t_dml_execution_mode := Some dml_mode_whole_ticket\<rparr>"

lemma whole_ensured:
  "ensureTicketExecutionRows sample_parse (\<lambda>_. False) whole_ticket batch_world
     = (True, batch_world\<lparr>wd_store := (wd_store batch_world)\<lparr>s_executions := s_executions (wd_store batch_world) @ batch_rows,
         s_next_execution := 6\<rparr>\<rparr>)"
  by (simp add: ensureTicketExecutionRows_def EnsureExecutions_def sample_parse_def batch_world_def batch_ticket_def whole_ticket_def
      sample_store_def sample_ticket_def affected_def new_execution_def batch_rows_def trim_space_def is_space_def write_store_def
      always_def) blast

lemma whole_rows:
  "ListExecutions ((wd_store batch_world)\<lparr>s_executions := s_executions (wd_store batch_world) @ batch_rows, s_next_execution := 6\<rparr>)
     (t_id whole_ticket) = batch_rows"
  by (simp add: ListExecutions_def batch_world_def batch_ticket_def whole_ticket_def sample_store_def sample_ticket_def new_execution_def
      batch_rows_def)

lemmas whole_eval = batch_world_def batch_ticket_def whole_ticket_def sample_store_def sample_ticket_def new_execution_def
  batch_rows_def GetTicket_def write_store_def MarkExecutionRunningIfPending_def affected_def pending_guard_def
  update_executions_def update_where_def running_row_def clear_process_def send_statement_def record_outcome_def GetExecution_def
  emit_def MarkExecutionDone_def quiet_def fine_db_def settled_by_others_def

lemma whole_run_completes:
  "fst (run_whole (quiet (\<lambda>_ s. s) fine_db) (\<lambda>_. False) 70 whole_ticket batch_rows Completed
     (batch_world\<lparr>wd_store := (wd_store batch_world)\<lparr>s_executions := s_executions (wd_store batch_world) @ batch_rows,
         s_next_execution := 6\<rparr>\<rparr>)) = Completed"
  by (simp add: whole_eval Let_def)

theorem whole_ticket_atomic_witness:
  "sql_runs (runTicketWholeTicketSQL (quiet (\<lambda>_ s. s) fine_db) whole_db_ok sample_parse (\<lambda>_. False) 70 whole_ticket 2 False batch_world)
     = [RunSQL 4 ''UPDATE a'', RunSQL 5 ''UPDATE b'']"
proof -
  let ?rn = "quiet (\<lambda>_ s. s) fine_db"
  have same: "?rn\<lparr>rn_exec := (\<lambda>e. (rn_exec ?rn e)\<lparr>xo_process := wb_session whole_db_ok\<rparr>)\<rparr> = ?rn"
    by (simp add: quiet_def fine_db_def whole_db_ok_def fun_eq_iff)
  obtain w2 where w2: "run_whole ?rn (\<lambda>_. False) 70 whole_ticket batch_rows Completed
       (snd (ensureTicketExecutionRows sample_parse (\<lambda>_. False) whole_ticket batch_world)) = (Completed, w2)"
    using whole_run_completes by (metis eq_fst_iff snd_conv whole_ensured)
  then have "commits (runTicketWholeTicketSQL ?rn whole_db_ok sample_parse (\<lambda>_. False) 70 whole_ticket 2 False batch_world) = commits batch_world + 1"
    using commits_run_whole [OF w2] same
    by (simp add: runTicketWholeTicketSQL_def whole_ensured whole_rows finish_run_def whole_db_ok_def)
  then show ?thesis
    using whole_ticket_atomic [of ?rn whole_db_ok sample_parse "\<lambda>_. False" 70 whole_ticket 2 False batch_world]
    by (simp add: whole_ensured whole_rows) (simp add: batch_rows_def new_execution_def quiet_def fine_db_def run_of_def
        sql_runs_def batch_world_def sample_world_def)
qed

text \<open>
  A rolled back transaction leaves its records: the first statement of this run is recorded as completed
  although the transaction it was part of is rolled back.
\<close>

lemma rolled_back_statement_recorded_completed:
  "let w' = runTicketWholeTicketSQL (quiet (\<lambda>_ s. s) failing_db) whole_db_ok sample_parse (\<lambda>_. False) 70 whole_ticket 2 False batch_world
   in RollbackTx 10 \<in> set (wd_effects w') \<and> exec_statuses (wd_store w') 4 = Some (10, ExCompleted)"
  by (simp add: runTicketWholeTicketSQL_def whole_ensured whole_rows)
     (simp add: whole_eval Let_def failing_db_def whole_db_ok_def finish_run_def exec_statuses_def exec_of_def finishTicket_def
      MarkCompleted_def update_tickets_def MarkExecutionFailedWithOutcome_def classifyTicketStatementExecutionError_def
      isExplicitDatabaseExecutionError_def)

end
