(* ===== verification/Online_DDL.thy ===== *)
theory Online_DDL
  imports Ticket_Store_Laws Complex_Main
begin

text \<open>
  Online schema changes: statuses (\<open>internal/onlineddl/types.go\<close>), parameters and their tuning
  (\<open>parameters.go\<close>, \<open>tuning.go\<close>), the table of runs and its events
  (\<open>internal/repository/online_ddl.go\<close>), the target locks and the controller of running tools
  (\<open>target_locks.go\<close>, \<open>control.go\<close>), the runner (\<open>runner.go\<close>) and the classification of outcomes
  (\<open>outcome.go\<close>, \<open>completion.go\<close>, \<open>managed_executor.go\<close>).

  JSON columns hold the value they encode. The tool process, the verification of the target table
  and the clock are parameters. The unique keys of the table (statement, active connection) are those
  of the schema; a violation rolls the statement back.
\<close>

section \<open>Statuses\<close>

datatype ddl_status =
    DdlPlanned | DdlQueued | DdlRunning | DdlPaused | DdlCancelRequested | DdlCompleted | DdlFailed | DdlInterrupted
  | DdlCompletedAfterCancel | DdlCancelled | DdlCancelledArtifacts | DdlOutcomeUnknown

datatype ddl_mode = ModeNative | ModeGhost | ModePTOSC

datatype ddl_error =
    ErrConflict | ErrStaleVersion | ErrInvalidTransition | ErrModeDisabled | ErrUnsupportedStatement | ErrPreflightChanged
  | ErrToolUnavailable | ErrInvalidParameters | ErrControlNotSupported | ErrToolProcessFailed | ErrCancelledArtifacts
  | ErrOutcomeUnknown | ErrOther string

fun error_code :: "ddl_error \<Rightarrow> string" where
  "error_code ErrConflict = ''online_ddl_conflict''"
| "error_code ErrStaleVersion = ''stale_control_version''"
| "error_code ErrInvalidTransition = ''invalid_online_ddl_transition''"
| "error_code ErrModeDisabled = ''mode_disabled''"
| "error_code ErrUnsupportedStatement = ''unsupported_statement''"
| "error_code ErrPreflightChanged = ''preflight_changed''"
| "error_code ErrToolUnavailable = ''tool_unavailable''"
| "error_code ErrInvalidParameters = ''invalid_tool_parameters''"
| "error_code ErrControlNotSupported = ''control_not_supported''"
| "error_code ErrToolProcessFailed = ''tool_process_failed''"
| "error_code ErrCancelledArtifacts = ''cancelled_with_artifacts''"
| "error_code ErrOutcomeUnknown = ''outcome_unknown''"
| "error_code (ErrOther msg) = msg"

definition IsActive :: "ddl_status \<Rightarrow> bool" where
  "IsActive st = (st = DdlQueued \<or> st = DdlRunning \<or> st = DdlPaused \<or> st = DdlCancelRequested)"

fun CanTransitionDDL :: "ddl_status \<Rightarrow> ddl_status \<Rightarrow> bool" where
  "CanTransitionDDL DdlPlanned to = (to = DdlQueued)"
| "CanTransitionDDL DdlQueued to = (to \<in> {DdlRunning, DdlCancelled, DdlFailed, DdlInterrupted})"
| "CanTransitionDDL DdlRunning to = (to \<in> {DdlPaused, DdlCancelRequested, DdlCompleted, DdlFailed, DdlInterrupted})"
| "CanTransitionDDL DdlPaused to = (to \<in> {DdlRunning, DdlCancelRequested, DdlFailed, DdlInterrupted})"
| "CanTransitionDDL DdlCancelRequested to = (to \<in> {DdlCompletedAfterCancel, DdlCancelled, DdlCancelledArtifacts,
     DdlOutcomeUnknown, DdlFailed, DdlInterrupted})"
| "CanTransitionDDL _ to = False"

definition onlineDDLTerminal :: "ddl_status \<Rightarrow> bool" where
  "onlineDDLTerminal st = (st \<in> {DdlCompleted, DdlFailed, DdlInterrupted, DdlCompletedAfterCancel, DdlCancelled,
     DdlCancelledArtifacts, DdlOutcomeUnknown})"

interpretation ddl_status_table: status_machine CanTransitionDDL onlineDDLTerminal
proof
  show "\<not> CanTransitionDDL a b" if "onlineDDLTerminal a" for a b
    using that by (cases a) (simp_all add: onlineDDLTerminal_def)
  show "\<exists>b. CanTransitionDDL a b" if "\<not> onlineDDLTerminal a" for a
    using that by (cases a) (auto simp: onlineDDLTerminal_def)
qed

section \<open>Parameters\<close>

text \<open>Floating point numbers as far as the checks tell them apart.\<close>

datatype go_float = NaN | PosInf | NegInf | Finite rat

fun float_less :: "go_float \<Rightarrow> go_float \<Rightarrow> bool" where
  "float_less NaN y = False"
| "float_less x NaN = False"
| "float_less PosInf y = False"
| "float_less NegInf y = (y \<noteq> NegInf)"
| "float_less (Finite a) PosInf = True"
| "float_less (Finite a) NegInf = False"
| "float_less (Finite a) (Finite b) = (a < b)"

record ghost_parameters =
  gp_max_load :: int
  gp_critical_load :: int
  gp_chunk_size :: int
  gp_dml_batch_size :: int
  gp_nice_ratio :: go_float
  gp_max_lag_millis :: int
  gp_cut_over_timeout :: int

record ptosc_parameters =
  pp_chunk_size :: "int option"
  pp_chunk_time :: "go_float option"
  pp_max_load :: int
  pp_critical_load :: int
  pp_max_lag_seconds :: int
  pp_check_interval :: int
  pp_alter_foreign_keys_method :: string

record parameters =
  pr_schema_version :: string
  pr_ghost :: "ghost_parameters option"
  pr_ptosc :: "ptosc_parameters option"

definition between :: "int \<Rightarrow> int \<Rightarrow> int \<Rightarrow> bool" where
  "between v lo hi = (v \<ge> lo \<and> v \<le> hi)"

definition DefaultParameters :: "ddl_mode \<Rightarrow> parameters" where
  "DefaultParameters mode = (case mode of
     ModeGhost \<Rightarrow> \<lparr>pr_schema_version = ''v1'', pr_ghost = Some \<lparr>gp_max_load = 10, gp_critical_load = 20, gp_chunk_size = 1000,
        gp_dml_batch_size = 50, gp_nice_ratio = Finite (2 / 10), gp_max_lag_millis = 1500, gp_cut_over_timeout = 3\<rparr>, pr_ptosc = None\<rparr>
   | ModePTOSC \<Rightarrow> \<lparr>pr_schema_version = ''v1'', pr_ghost = None, pr_ptosc = Some \<lparr>pp_chunk_size = Some 1000, pp_chunk_time = None,
        pp_max_load = 25, pp_critical_load = 50, pp_max_lag_seconds = 1, pp_check_interval = 1,
        pp_alter_foreign_keys_method = ''none''\<rparr>\<rparr>
   | ModeNative \<Rightarrow> \<lparr>pr_schema_version = [], pr_ghost = None, pr_ptosc = None\<rparr>)"

definition valid_ghost :: "ghost_parameters \<Rightarrow> bool" where
  "valid_ghost v = (\<not> (\<not> between (gp_max_load v) 1 10000 \<or> \<not> between (gp_critical_load v) 2 100000 \<or>
      gp_critical_load v \<le> gp_max_load v \<or> \<not> between (gp_chunk_size v) 100 100000 \<or> \<not> between (gp_dml_batch_size v) 1 100 \<or>
      gp_nice_ratio v = NaN \<or> gp_nice_ratio v \<in> {PosInf, NegInf} \<or> float_less (gp_nice_ratio v) (Finite 0) \<or>
      float_less (Finite 100) (gp_nice_ratio v) \<or> \<not> between (gp_max_lag_millis v) 100 60000 \<or>
      \<not> between (gp_cut_over_timeout v) 1 60))"

definition valid_ptosc :: "ptosc_parameters \<Rightarrow> bool" where
  "valid_ptosc v =
     (if (pp_chunk_size v = None) = (pp_chunk_time v = None) then False
      else if (case pp_chunk_size v of None \<Rightarrow> False | Some n \<Rightarrow> \<not> between n 100 100000) then False
      else if (case pp_chunk_time v of None \<Rightarrow> False
               | Some x \<Rightarrow> float_less x (Finite (1 / 10)) \<or> float_less (Finite 10) x) then False
      else if \<not> between (pp_max_load v) 1 10000 \<or> \<not> between (pp_critical_load v) 2 100000 \<or>
        pp_critical_load v \<le> pp_max_load v \<or> \<not> between (pp_max_lag_seconds v) 1 60 \<or> \<not> between (pp_check_interval v) 1 60 then False
      else pp_alter_foreign_keys_method v \<in> {''none'', ''auto'', ''rebuild_constraints'', ''drop_swap''})"

definition Validate :: "parameters \<Rightarrow> ddl_mode \<Rightarrow> bool" where
  "Validate p mode =
     (if pr_schema_version p \<noteq> ''v1'' then False
      else case mode of
        ModeGhost \<Rightarrow> (case pr_ghost p of None \<Rightarrow> False | Some v \<Rightarrow> pr_ptosc p = None \<and> valid_ghost v)
      | ModePTOSC \<Rightarrow> (case pr_ptosc p of None \<Rightarrow> False | Some v \<Rightarrow> pr_ghost p = None \<and> valid_ptosc v)
      | ModeNative \<Rightarrow> False)"

record tuning =
  tn_max_load :: "int option"
  tn_critical_load :: "int option"
  tn_chunk_size :: "int option"
  tn_dml_batch_size :: "int option"
  tn_nice_ratio :: "go_float option"
  tn_max_lag_millis :: "int option"

text \<open>The commands sent to the tool; their text is the name of the setting and the printed value.\<close>

datatype tool_command =
    SetMaxLoad int | SetCriticalLoad int | SetChunkSize int | SetDMLBatchSize int | SetNiceRatio go_float | SetMaxLagMillis int

definition set_count :: "tuning \<Rightarrow> nat" where
  "set_count p = length (filter id [tn_max_load p \<noteq> None, tn_critical_load p \<noteq> None, tn_chunk_size p \<noteq> None,
     tn_dml_batch_size p \<noteq> None, tn_nice_ratio p \<noteq> None, tn_max_lag_millis p \<noteq> None])"

definition tune_ghost :: "ghost_parameters \<Rightarrow> tuning \<Rightarrow> ghost_parameters \<times> tool_command option \<times> tool_command option" where
  "tune_ghost g p =
     (case tn_max_load p of Some n \<Rightarrow> (g\<lparr>gp_max_load := n\<rparr>, Some (SetMaxLoad n), Some (SetMaxLoad (gp_max_load g)))
      | None \<Rightarrow> (case tn_critical_load p of
          Some n \<Rightarrow> (g\<lparr>gp_critical_load := n\<rparr>, Some (SetCriticalLoad n), Some (SetCriticalLoad (gp_critical_load g)))
      | None \<Rightarrow> (case tn_chunk_size p of
          Some n \<Rightarrow> (g\<lparr>gp_chunk_size := n\<rparr>, Some (SetChunkSize n), Some (SetChunkSize (gp_chunk_size g)))
      | None \<Rightarrow> (case tn_dml_batch_size p of
          Some n \<Rightarrow> (g\<lparr>gp_dml_batch_size := n\<rparr>, Some (SetDMLBatchSize n), Some (SetDMLBatchSize (gp_dml_batch_size g)))
      | None \<Rightarrow> (case tn_nice_ratio p of
          Some x \<Rightarrow> (g\<lparr>gp_nice_ratio := x\<rparr>, Some (SetNiceRatio x), Some (SetNiceRatio (gp_nice_ratio g)))
      | None \<Rightarrow> (case tn_max_lag_millis p of
          Some n \<Rightarrow> (g\<lparr>gp_max_lag_millis := n\<rparr>, Some (SetMaxLagMillis n), Some (SetMaxLagMillis (gp_max_lag_millis g)))
      | None \<Rightarrow> (g, None, None)))))))"

definition ApplyRuntimeTuning :: "ddl_mode \<Rightarrow> parameters \<Rightarrow> tuning \<Rightarrow> ddl_error + (parameters \<times> tool_command \<times> tool_command)" where
  "ApplyRuntimeTuning mode current patch =
     (if mode \<noteq> ModeGhost then Inl ErrControlNotSupported
      else if \<not> Validate current ModeGhost then Inl ErrInvalidParameters
      else if set_count patch \<noteq> 1 then Inl ErrInvalidParameters
      else case pr_ghost current of None \<Rightarrow> Inl ErrInvalidParameters
        | Some g \<Rightarrow> (case tune_ghost g patch of
            (g', Some cmd, Some rb) \<Rightarrow>
              let p' = \<lparr>pr_schema_version = pr_schema_version current, pr_ghost = Some g', pr_ptosc = None\<rparr>
              in if Validate p' ModeGhost then Inr (p', cmd, rb) else Inl ErrInvalidParameters
          | _ \<Rightarrow> Inl ErrInvalidParameters))"

end
