(* ===== verification/Online_DDL_Store.thy ===== *)
theory Online_DDL_Store
  imports Online_DDL
begin

text \<open>
  The tables of online schema changes (\<open>internal/repository/online_ddl.go\<close>,
  \<open>internal/model/online_ddl.go\<close>): every operation on the runs and their events, the invariant that
  gives a connection to at most one active run, and the finality of a finished run.
\<close>

section \<open>Tables\<close>

record artifact =
  af_kind :: string
  af_name :: string
  af_exists :: bool

record ddl_run =
  dr_id :: id64
  dr_ticket_id :: id64
  dr_execution_id :: id64
  dr_connection_id :: id64
  dr_executor_id :: id64
  dr_mode :: ddl_mode
  dr_status :: ddl_status
  dr_phase :: "string option"
  dr_initial_parameters :: parameters
  dr_effective_parameters :: parameters
  dr_sql_sha256 :: string
  dr_preflight_sha256 :: string
  dr_tool_version :: string
  dr_progress_percent :: "string option"
  dr_copied_rows :: "nat option"
  dr_eta_display :: "string option"
  dr_replication_lag_ms :: "nat option"
  dr_threads_running :: "nat option"
  dr_throttle_reason :: "string option"
  dr_pause_requested :: bool
  dr_cancel_requested :: bool
  dr_outcome_confidence :: "string option"
  dr_artifact_summary :: "artifact list option"
  dr_error_code :: "string option"
  dr_active_connection :: "id64 option"
  dr_version :: nat
  dr_heartbeat_at :: "timestamp option"
  dr_started_at :: "timestamp option"
  dr_finished_at :: "timestamp option"
  dr_created_at :: timestamp
  dr_updated_at :: timestamp

record ddl_event =
  ev_id :: id64
  ev_run_id :: id64
  ev_actor_id :: "id64 option"
  ev_type :: string
  ev_phase :: "string option"
  ev_progress_percent :: "string option"
  ev_before :: "parameters option"
  ev_after :: "parameters option"
  ev_result :: "string option"
  ev_created_at :: timestamp

record ddl_store =
  dd_runs :: "ddl_run list"
  dd_next_run :: id64
  dd_events :: "ddl_event list"
  dd_next_event :: id64
  dd_executions :: "execution list"

record create_input =
  ci_ticket_id :: id64
  ci_execution_id :: id64
  ci_connection_id :: id64
  ci_executor_id :: id64
  ci_mode :: ddl_mode
  ci_sql_sha256 :: string
  ci_preflight_sha256 :: string
  ci_tool_version :: string
  ci_parameters :: parameters

record progress =
  pg_phase :: string
  pg_percent :: "string option"
  pg_copied_rows :: "nat option"
  pg_eta_display :: "string option"
  pg_replication_lag_ms :: "nat option"
  pg_threads_running :: "nat option"
  pg_throttle_reason :: string

definition update_runs :: "(ddl_run \<Rightarrow> bool) \<Rightarrow> (ddl_run \<Rightarrow> ddl_run) \<Rightarrow> ddl_store \<Rightarrow> bool \<times> ddl_store" where
  "update_runs P f s = (affected P (dd_runs s), s\<lparr>dd_runs := update_where P f (dd_runs s)\<rparr>)"

abbreviation bump :: "ddl_run \<Rightarrow> nat" where "bump r \<equiv> dr_version r + 1"

definition in_progress :: "ddl_status \<Rightarrow> bool" where
  "in_progress st = (st \<in> {DdlRunning, DdlPaused, DdlCancelRequested})"

section \<open>Creating and reading\<close>

definition new_run :: "timestamp \<Rightarrow> id64 \<Rightarrow> create_input \<Rightarrow> ddl_run" where
  "new_run now i c = \<lparr>dr_id = i, dr_ticket_id = ci_ticket_id c, dr_execution_id = ci_execution_id c,
     dr_connection_id = ci_connection_id c, dr_executor_id = ci_executor_id c, dr_mode = ci_mode c, dr_status = DdlQueued,
     dr_phase = None, dr_initial_parameters = ci_parameters c, dr_effective_parameters = ci_parameters c,
     dr_sql_sha256 = ci_sql_sha256 c, dr_preflight_sha256 = ci_preflight_sha256 c, dr_tool_version = ci_tool_version c,
     dr_progress_percent = None, dr_copied_rows = None, dr_eta_display = None, dr_replication_lag_ms = None,
     dr_threads_running = None, dr_throttle_reason = None, dr_pause_requested = False, dr_cancel_requested = False,
     dr_outcome_confidence = None, dr_artifact_summary = None, dr_error_code = None,
     dr_active_connection = Some (ci_connection_id c), dr_version = 1, dr_heartbeat_at = None, dr_started_at = None,
     dr_finished_at = None, dr_created_at = now, dr_updated_at = now\<rparr>"

text \<open>The two unique keys of the table besides its primary key.\<close>

definition duplicate_key :: "ddl_run \<Rightarrow> ddl_run list \<Rightarrow> bool" where
  "duplicate_key n rows = list_ex (\<lambda>r. dr_execution_id r = dr_execution_id n \<or>
     (dr_active_connection n \<noteq> None \<and> dr_active_connection r = dr_active_connection n)) rows"

definition CreateQueued :: "timestamp \<Rightarrow> create_input \<Rightarrow> ddl_store \<Rightarrow> (ddl_error + ddl_run) \<times> ddl_store" where
  "CreateQueued now c s =
     (let kept = delete_where (\<lambda>r. dr_ticket_id r = ci_ticket_id c \<and> dr_execution_id r = ci_execution_id c \<and>
                   dr_status r = DdlPlanned) (dd_runs s);
          n = new_run now (dd_next_run s) c;
          pending = (\<lambda>e. e_id e = ci_execution_id c \<and> e_ticket_id e = ci_ticket_id c \<and> e_status e = ExPending)
      in if duplicate_key n kept then (Inl ErrConflict, s)
         else if \<not> affected pending (dd_executions s) then (Inl ErrConflict, s)
         else (Inr n, s\<lparr>dd_runs := kept @ [n], dd_next_run := dd_next_run s + 1,
                dd_executions := update_where pending (\<lambda>e. e\<lparr>e_status := ExRunning,
                  e_started_at := coalesce (e_started_at e) (Some now), e_error_msg := None\<rparr>) (dd_executions s)\<rparr>))"

definition GetRun :: "ddl_store \<Rightarrow> id64 \<Rightarrow> ddl_run option" where
  "GetRun s i = find (\<lambda>r. dr_id r = i) (dd_runs s)"

definition GetByExecution :: "ddl_store \<Rightarrow> id64 \<Rightarrow> id64 \<Rightarrow> ddl_run option" where
  "GetByExecution s tid eid = find (\<lambda>r. dr_ticket_id r = tid \<and> dr_execution_id r = eid) (dd_runs s)"

definition ListByTicket :: "ddl_store \<Rightarrow> id64 \<Rightarrow> ddl_run list" where
  "ListByTicket s tid = sort_key dr_execution_id (filter (\<lambda>r. dr_ticket_id r = tid \<and> dr_status r \<noteq> DdlPlanned) (dd_runs s))"

definition ListQueued :: "ddl_store \<Rightarrow> nat \<Rightarrow> ddl_run list" where
  "ListQueued s limit = take (if limit = 0 \<or> limit > 100 then 100 else limit)
     (sort_key dr_created_at (sort_key dr_id (filter (\<lambda>r. dr_status r = DdlQueued) (dd_runs s))))"

definition ListActive :: "ddl_store \<Rightarrow> ddl_run list" where
  "ListActive s = sort_key dr_id (filter (\<lambda>r. IsActive (dr_status r)) (dd_runs s))"

section \<open>Running\<close>

definition claim_guard :: "id64 \<Rightarrow> nat \<Rightarrow> ddl_run \<Rightarrow> bool" where
  "claim_guard i v r = (dr_id r = i \<and> dr_status r = DdlQueued \<and> dr_version r = v)"

definition claim_row :: "timestamp \<Rightarrow> ddl_run \<Rightarrow> ddl_run" where
  "claim_row now r = r\<lparr>dr_status := DdlRunning, dr_phase := Some ''starting'', dr_heartbeat_at := Some now,
     dr_started_at := coalesce (dr_started_at r) (Some now), dr_version := bump r, dr_updated_at := now\<rparr>"

definition Claim :: "timestamp \<Rightarrow> id64 \<Rightarrow> nat \<Rightarrow> ddl_store \<Rightarrow> bool \<times> ddl_store" where
  "Claim now i v = update_runs (claim_guard i v) (claim_row now)"

definition Heartbeat :: "timestamp \<Rightarrow> id64 \<Rightarrow> ddl_store \<Rightarrow> bool \<times> ddl_store" where
  "Heartbeat now i = update_runs (\<lambda>r. dr_id r = i \<and> in_progress (dr_status r))
     (\<lambda>r. r\<lparr>dr_heartbeat_at := Some now, dr_updated_at := now\<rparr>)"

definition finished_row :: "timestamp \<Rightarrow> ddl_status \<Rightarrow> string \<Rightarrow> ddl_run \<Rightarrow> ddl_run" where
  "finished_row now st code r = r\<lparr>dr_status := st, dr_phase := Some ''finished'', dr_eta_display := None,
     dr_active_connection := None, dr_error_code := (if code \<noteq> [] then Some code else None), dr_version := bump r,
     dr_finished_at := Some now, dr_updated_at := now\<rparr>"

definition FinishRunning :: "timestamp \<Rightarrow> id64 \<Rightarrow> ddl_status \<Rightarrow> string \<Rightarrow> ddl_store \<Rightarrow> (ddl_error + bool) \<times> ddl_store" where
  "FinishRunning now i st code s =
     (if \<not> onlineDDLTerminal st then (Inl ErrInvalidTransition, s)
      else apfst Inr (update_runs (\<lambda>r. dr_id r = i \<and> in_progress (dr_status r)) (finished_row now st code) s))"

definition FinishOutcome ::
    "timestamp \<Rightarrow> id64 \<Rightarrow> ddl_status \<Rightarrow> string \<Rightarrow> string \<Rightarrow> artifact list \<Rightarrow> ddl_store \<Rightarrow> (ddl_error + bool) \<times> ddl_store" where
  "FinishOutcome now i st code confidence artifacts s =
     (if \<not> onlineDDLTerminal st then (Inl ErrInvalidTransition, s)
      else apfst Inr (update_runs (\<lambda>r. dr_id r = i \<and> in_progress (dr_status r))
        (\<lambda>r. (finished_row now st code r)\<lparr>dr_outcome_confidence := Some confidence, dr_artifact_summary := Some artifacts\<rparr>) s))"

section \<open>Events\<close>

definition event_cap :: nat where "event_cap = 1000"
definition event_retention :: int where "event_retention = 30 * 24 * 3600"

definition recent_ids :: "id64 \<Rightarrow> ddl_event list \<Rightarrow> id64 list" where
  "recent_ids i evs = map ev_id (take event_cap (rev (sort_key ev_created_at (sort_key ev_id (filter (\<lambda>v. ev_run_id v = i) evs)))))"

definition prune_events :: "timestamp \<Rightarrow> id64 \<Rightarrow> ddl_event list \<Rightarrow> ddl_event list" where
  "prune_events now i evs = (let recent = recent_ids i evs
     in delete_where (\<lambda>v. ev_created_at v < now - event_retention \<or> (ev_run_id v = i \<and> ev_id v \<notin> set recent)) evs)"

definition add_event :: "timestamp \<Rightarrow> ddl_event \<Rightarrow> ddl_store \<Rightarrow> ddl_store" where
  "add_event now v s = s\<lparr>dd_events := prune_events now (ev_run_id v)
       (dd_events s @ [v\<lparr>ev_id := dd_next_event s, ev_created_at := now\<rparr>]), dd_next_event := dd_next_event s + 1\<rparr>"

definition AppendEvent :: "timestamp \<Rightarrow> ddl_event \<Rightarrow> ddl_store \<Rightarrow> ddl_store" where
  "AppendEvent now v s = add_event now v s"

definition blank_event :: "id64 \<Rightarrow> string \<Rightarrow> ddl_event" where
  "blank_event i ty = \<lparr>ev_id = 0, ev_run_id = i, ev_actor_id = None, ev_type = ty, ev_phase = None, ev_progress_percent = None,
     ev_before = None, ev_after = None, ev_result = None, ev_created_at = 0\<rparr>"

definition nonempty :: "string \<Rightarrow> string option" where
  "nonempty x = (if x \<noteq> [] then Some x else None)"

definition SaveProgress :: "timestamp \<Rightarrow> id64 \<Rightarrow> progress \<Rightarrow> bool \<Rightarrow> ddl_store \<Rightarrow> bool \<times> ddl_store" where
  "SaveProgress now i p history s =
     (case update_runs (\<lambda>r. dr_id r = i \<and> in_progress (dr_status r))
        (\<lambda>r. r\<lparr>dr_phase := coalesce (nonempty (pg_phase p)) (dr_phase r), dr_progress_percent := pg_percent p,
          dr_copied_rows := pg_copied_rows p, dr_eta_display := pg_eta_display p,
          dr_replication_lag_ms := pg_replication_lag_ms p, dr_threads_running := pg_threads_running p,
          dr_throttle_reason := nonempty (pg_throttle_reason p), dr_heartbeat_at := Some now, dr_updated_at := now\<rparr>) s of
        (False, _) \<Rightarrow> (False, s)
      | (True, s1) \<Rightarrow> (True, if history then add_event now ((blank_event i ''progress'')\<lparr>ev_phase := nonempty (pg_phase p),
                            ev_progress_percent := pg_percent p\<rparr>) s1 else s1))"

section \<open>Control\<close>

definition SetPaused :: "timestamp \<Rightarrow> id64 \<Rightarrow> nat \<Rightarrow> bool \<Rightarrow> ddl_store \<Rightarrow> bool \<times> ddl_store" where
  "SetPaused now i v paused =
     (let from = (if paused then DdlRunning else DdlPaused); to = (if paused then DdlPaused else DdlRunning)
      in update_runs (\<lambda>r. dr_id r = i \<and> dr_status r = from \<and> dr_version r = v)
           (\<lambda>r. r\<lparr>dr_status := to, dr_pause_requested := paused, dr_version := bump r, dr_updated_at := now\<rparr>))"

definition RequestCancel :: "timestamp \<Rightarrow> id64 \<Rightarrow> nat \<Rightarrow> ddl_store \<Rightarrow> bool \<times> ddl_store" where
  "RequestCancel now i v = update_runs (\<lambda>r. dr_id r = i \<and> dr_status r \<in> {DdlRunning, DdlPaused} \<and> dr_version r = v)
     (\<lambda>r. r\<lparr>dr_status := DdlCancelRequested, dr_cancel_requested := True, dr_version := bump r, dr_updated_at := now\<rparr>)"

definition UpdateEffectiveParameters ::
    "timestamp \<Rightarrow> id64 \<Rightarrow> nat \<Rightarrow> id64 option \<Rightarrow> parameters \<Rightarrow> parameters \<Rightarrow> ddl_store \<Rightarrow> bool \<times> ddl_store" where
  "UpdateEffectiveParameters now i v actor before after s =
     (case update_runs (\<lambda>r. dr_id r = i \<and> dr_version r = v \<and> dr_status r \<in> {DdlRunning, DdlPaused})
        (\<lambda>r. r\<lparr>dr_effective_parameters := after, dr_version := bump r, dr_updated_at := now\<rparr>) s of
        (False, _) \<Rightarrow> (False, s)
      | (True, s1) \<Rightarrow> (True, add_event now ((blank_event i ''runtime_tune'')\<lparr>ev_actor_id := actor, ev_before := Some before,
                            ev_after := Some after, ev_result := Some ''succeeded''\<rparr>) s1))"

definition Transition :: "timestamp \<Rightarrow> id64 \<Rightarrow> nat \<Rightarrow> ddl_status \<Rightarrow> ddl_status \<Rightarrow> ddl_store \<Rightarrow> ddl_error option \<times> ddl_store" where
  "Transition now i v from to s =
     (if \<not> CanTransitionDDL from to then (Some ErrInvalidTransition, s)
      else let guard = (\<lambda>r. dr_id r = i \<and> dr_status r = from \<and> dr_version r = v);
               clash = list_ex (\<lambda>r. guard r \<and> IsActive to \<and>
                 list_ex (\<lambda>q. dr_id q \<noteq> dr_id r \<and> dr_active_connection q = Some (dr_connection_id r)) (dd_runs s)) (dd_runs s)
        in if clash then (Some ErrConflict, s)
           else case update_runs guard
             (\<lambda>r. r\<lparr>dr_status := to, dr_active_connection := (if IsActive to then Some (dr_connection_id r) else None),
               dr_version := bump r,
               dr_started_at := (if to = DdlRunning \<and> dr_started_at r = None then Some now else dr_started_at r),
               dr_finished_at := (if onlineDDLTerminal to then Some now else dr_finished_at r), dr_updated_at := now\<rparr>) s of
             (True, s1) \<Rightarrow> (None, s1)
           | (False, s1) \<Rightarrow> (Some ErrStaleVersion, s1))"

definition InterruptActive :: "timestamp \<Rightarrow> ddl_store \<Rightarrow> nat \<times> ddl_store" where
  "InterruptActive now s = (length (filter (\<lambda>r. IsActive (dr_status r)) (dd_runs s)),
     snd (update_runs (\<lambda>r. IsActive (dr_status r))
       (\<lambda>r. r\<lparr>dr_status := DdlInterrupted, dr_eta_display := None, dr_active_connection := None,
         dr_error_code := Some ''server_restarted'', dr_version := bump r, dr_finished_at := Some now, dr_updated_at := now\<rparr>) s))"

definition RecordRecovery :: "timestamp \<Rightarrow> id64 \<Rightarrow> string \<Rightarrow> artifact list \<Rightarrow> ddl_store \<Rightarrow> bool \<times> ddl_store" where
  "RecordRecovery now i confidence artifacts = update_runs (\<lambda>r. dr_id r = i \<and> dr_status r = DdlInterrupted)
     (\<lambda>r. r\<lparr>dr_outcome_confidence := Some confidence, dr_artifact_summary := Some artifacts, dr_updated_at := now\<rparr>)"

section \<open>Steps\<close>

inductive ddl_step :: "ddl_store \<Rightarrow> ddl_store \<Rightarrow> bool" where
  create: "CreateQueued now c s = (res, s') \<Longrightarrow> ddl_step s s'"
| claim: "Claim now i v s = (ok, s') \<Longrightarrow> ddl_step s s'"
| heartbeat: "Heartbeat now i s = (ok, s') \<Longrightarrow> ddl_step s s'"
| finish: "FinishRunning now i st code s = (res, s') \<Longrightarrow> ddl_step s s'"
| outcome: "FinishOutcome now i st code conf arts s = (res, s') \<Longrightarrow> ddl_step s s'"
| progress: "SaveProgress now i p h s = (ok, s') \<Longrightarrow> ddl_step s s'"
| pause: "SetPaused now i v b s = (ok, s') \<Longrightarrow> ddl_step s s'"
| cancel: "RequestCancel now i v s = (ok, s') \<Longrightarrow> ddl_step s s'"
| tune: "UpdateEffectiveParameters now i v actor before after s = (ok, s') \<Longrightarrow> ddl_step s s'"
| transition: "Transition now i v from to s = (err, s') \<Longrightarrow> ddl_step s s'"
| interrupt: "InterruptActive now s = (n, s') \<Longrightarrow> ddl_step s s'"
| recovery: "RecordRecovery now i conf arts s = (ok, s') \<Longrightarrow> ddl_step s s'"
| event: "AppendEvent now v s = s' \<Longrightarrow> ddl_step s s'"

definition run_ok :: "ddl_run \<Rightarrow> bool" where
  "run_ok r \<longleftrightarrow> dr_active_connection r = (if IsActive (dr_status r) then Some (dr_connection_id r) else None)"

definition runs_wf :: "ddl_run list \<Rightarrow> bool" where
  "runs_wf rows \<longleftrightarrow> distinct (map dr_id rows) \<and> distinct (map dr_execution_id rows) \<and> (\<forall>r \<in> set rows. run_ok r) \<and>
     (\<forall>r \<in> set rows. \<forall>q \<in> set rows. dr_active_connection r \<noteq> None \<and> dr_active_connection r = dr_active_connection q \<longrightarrow> dr_id r = dr_id q)"

definition ddl_wf :: "ddl_store \<Rightarrow> bool" where
  "ddl_wf s \<longleftrightarrow> runs_wf (dd_runs s) \<and> (\<forall>r \<in> set (dd_runs s). dr_id r < dd_next_run s)"

text \<open>
  An update of a table that keeps the keys of a run, takes no connection that another run holds and
  never leaves a final status.
\<close>

definition connection_free :: "ddl_run list \<Rightarrow> (ddl_run \<Rightarrow> bool) \<Rightarrow> ddl_run \<Rightarrow> id64 option \<Rightarrow> bool" where
  "connection_free rows P r c \<longleftrightarrow> (\<forall>q. P q \<longrightarrow> dr_id q = dr_id r) \<and>
     (\<forall>q \<in> set rows. dr_id q \<noteq> dr_id r \<longrightarrow> dr_active_connection q \<noteq> c)"

definition modest :: "ddl_run list \<Rightarrow> (ddl_run \<Rightarrow> bool) \<Rightarrow> (ddl_run \<Rightarrow> ddl_run) \<Rightarrow> bool" where
  "modest rows P f \<longleftrightarrow> (\<forall>r \<in> set rows. P r \<longrightarrow> dr_id (f r) = dr_id r \<and> dr_execution_id (f r) = dr_execution_id r \<and>
     (run_ok r \<longrightarrow> run_ok (f r) \<and> (dr_active_connection (f r) = None \<or> dr_active_connection (f r) = dr_active_connection r \<or>
        connection_free rows P r (dr_active_connection (f r)))) \<and>
     (onlineDDLTerminal (dr_status r) \<longrightarrow> dr_status (f r) = dr_status r))"

lemma terminal_inactive: "onlineDDLTerminal st \<Longrightarrow> \<not> IsActive st"
  by (auto simp: onlineDDLTerminal_def IsActive_def)

lemma runs_wf_same:
  "runs_wf rows \<Longrightarrow> r \<in> set rows \<Longrightarrow> q \<in> set rows \<Longrightarrow> dr_active_connection r \<noteq> None \<Longrightarrow>
   dr_active_connection r = dr_active_connection q \<Longrightarrow> dr_id r = dr_id q"
  unfolding runs_wf_def by blast

lemma runs_wf_update:
  assumes "modest rows P f" and "runs_wf rows"
  shows "runs_wf (update_where P f rows)"
proof -
  define g where "g r = (if P r then f r else r)" for r
  have g: "dr_id (g r) = dr_id r" "dr_execution_id (g r) = dr_execution_id r" "run_ok (g r)"
    "dr_active_connection (g r) = None \<or> dr_active_connection (g r) = dr_active_connection r \<or>
       (P r \<and> connection_free rows P r (dr_active_connection (g r)))" if "r \<in> set rows" for r
    using assms that by (auto simp: g_def modest_def runs_wf_def)
  have rows: "update_where P f rows = map g rows" by (simp add: update_where_def g_def)
  note old = runs_wf_same [OF assms(2)]
  have same: "dr_id r = dr_id q" if "r \<in> set rows" "q \<in> set rows" "dr_active_connection (g r) \<noteq> None"
    "dr_active_connection (g r) = dr_active_connection (g q)" for r q
    using g(4) [OF that(1)] g(4) [OF that(2)] old [OF that(1,2)] that unfolding connection_free_def by metis
  have keys: "map dr_id (map g rows) = map dr_id rows" "map dr_execution_id (map g rows) = map dr_execution_id rows"
    using g(1,2) by simp_all
  show ?thesis
    unfolding rows runs_wf_def keys
  proof (intro conjI ballI impI)
    show "distinct (map dr_id rows)" "distinct (map dr_execution_id rows)" using assms(2) by (simp_all add: runs_wf_def)
    show "run_ok r" if "r \<in> set (map g rows)" for r using that g(3) by auto
    show "dr_id r = dr_id q" if rq: "r \<in> set (map g rows)" "q \<in> set (map g rows)"
      "dr_active_connection r \<noteq> None \<and> dr_active_connection r = dr_active_connection q" for r q
    proof -
      obtain r0 q0 where eqs: "r = g r0" "q = g q0" and mem: "r0 \<in> set rows" "q0 \<in> set rows" using rq(1,2) by auto
      have "dr_id r0 = dr_id q0" using rq(3) same [OF mem] unfolding eqs by blast
      then show ?thesis unfolding eqs by (simp only: g(1) [OF mem(1)] g(1) [OF mem(2)])
    qed
  qed
qed

text \<open>What every step keeps: well-formedness, and the status of finished runs.\<close>

definition finished_kept :: "ddl_store \<Rightarrow> ddl_store \<Rightarrow> bool" where
  "finished_kept s s' \<longleftrightarrow> (\<forall>i r. GetRun s i = Some r \<longrightarrow> onlineDDLTerminal (dr_status r) \<longrightarrow>
     (\<exists>r'. GetRun s' i = Some r' \<and> dr_status r' = dr_status r))"

definition sound_step :: "ddl_store \<Rightarrow> ddl_store \<Rightarrow> bool" where
  "sound_step s s' \<longleftrightarrow> (ddl_wf s \<longrightarrow> ddl_wf s' \<and> finished_kept s s')"

lemma finished_kept_refl [simp]: "finished_kept s s"
  by (simp add: finished_kept_def)

lemma finished_kept_trans: "finished_kept a b \<Longrightarrow> finished_kept b c \<Longrightarrow> finished_kept a c"
  unfolding finished_kept_def by metis

lemma sound_refl [simp]: "sound_step s s"
  by (simp add: sound_step_def)

lemma sound_trans: "sound_step a b \<Longrightarrow> sound_step b c \<Longrightarrow> sound_step a c"
  using finished_kept_trans by (auto simp: sound_step_def)

lemma sound_same_runs:
  "dd_runs s' = dd_runs s \<Longrightarrow> dd_next_run s' = dd_next_run s \<Longrightarrow> sound_step s s'"
  by (simp add: sound_step_def ddl_wf_def finished_kept_def GetRun_def)

lemma sound_update_runs:
  assumes "modest (dd_runs s) P f"
  shows "sound_step s (snd (update_runs P f s))"
proof -
  have id: "r \<in> set (dd_runs s) \<Longrightarrow> P r \<Longrightarrow> dr_id (f r) = dr_id r" for r using assms by (simp add: modest_def)
  then have "find (\<lambda>r. dr_id r = i) (update_where P f rows) = map_option (\<lambda>r. if P r then f r else r) (find (\<lambda>r. dr_id r = i) rows)"
    if "set rows \<subseteq> set (dd_runs s)" for i rows
    using that by (induction rows) (auto simp: update_where_def)
  then have get: "GetRun (snd (update_runs P f s)) i = map_option (\<lambda>r. if P r then f r else r) (GetRun s i)" for i
    by (simp add: GetRun_def update_runs_def)
  show ?thesis
    unfolding sound_step_def
  proof (intro impI conjI)
    assume wf: "ddl_wf s"
    show "ddl_wf (snd (update_runs P f s))"
      using wf runs_wf_update [OF assms] id by (auto simp: ddl_wf_def update_runs_def set_update_where)
    show "finished_kept s (snd (update_runs P f s))"
      using assms by (auto simp: finished_kept_def get modest_def) (auto simp: GetRun_def find_Some_iff)
  qed
qed

lemma sound_add_event: "sound_step s (add_event now v s)"
  by (rule sound_same_runs) (simp_all add: add_event_def)

lemma runs_wf_snoc:
  assumes "runs_wf rows" and "run_ok n" and "\<And>r. r \<in> set rows \<Longrightarrow> dr_id r \<noteq> dr_id n"
    and "\<And>r. r \<in> set rows \<Longrightarrow> dr_execution_id r \<noteq> dr_execution_id n"
    and "\<And>r. r \<in> set rows \<Longrightarrow> dr_active_connection r \<noteq> dr_active_connection n"
  shows "runs_wf (rows @ [n])"
proof -
  note old = runs_wf_same [OF assms(1)]
  have "dr_id r = dr_id q" if "r \<in> set (rows @ [n])" "q \<in> set (rows @ [n])"
    "dr_active_connection r \<noteq> None \<and> dr_active_connection r = dr_active_connection q" for r q
  proof -
    consider "r \<in> set rows" "q \<in> set rows" | "r = n" "q = n" | "r \<in> set rows" "q = n" | "r = n" "q \<in> set rows"
      using \<open>r \<in> set (rows @ [n])\<close> \<open>q \<in> set (rows @ [n])\<close> by auto
    then show ?thesis using that(3) old assms(5) by cases (blast | metis)+
  qed
  moreover have "distinct (map dr_id (rows @ [n]))" "distinct (map dr_execution_id (rows @ [n]))"
    using assms(1) assms(3,4) [THEN not_sym] by (auto simp: runs_wf_def image_iff)
  moreover have "\<forall>r \<in> set (rows @ [n]). run_ok r" using assms(1,2) by (simp add: runs_wf_def)
  ultimately show ?thesis unfolding runs_wf_def by blast
qed

lemma sound_create:
  assumes "CreateQueued now c s = (res, s')"
  shows "sound_step s s'"
proof (cases res)
  case (Inl e)
  with assms have "s' = s" by (auto simp: CreateQueued_def Let_def split: if_splits)
  then show ?thesis by simp
next
  case (Inr n)
  define kept where "kept = delete_where (\<lambda>r. dr_ticket_id r = ci_ticket_id c \<and> dr_execution_id r = ci_execution_id c \<and>
    dr_status r = DdlPlanned) (dd_runs s)"
  have n: "n = new_run now (dd_next_run s) c" "dd_runs s' = kept @ [n]" "dd_next_run s' = dd_next_run s + 1" "\<not> duplicate_key n kept"
    using assms Inr by (auto simp: CreateQueued_def kept_def Let_def split: if_splits)
  have fields: "dr_id n = dd_next_run s" "run_ok n" "dr_active_connection n = Some (dr_connection_id n)"
    by (simp_all add: n(1) new_run_def run_ok_def IsActive_def)
  show ?thesis
    unfolding sound_step_def
  proof (intro impI conjI)
    assume wf: "ddl_wf s"
    have sub: "set kept \<subseteq> set (dd_runs s)" by (auto simp: kept_def)
    have old: "runs_wf kept" using wf sub unfolding ddl_wf_def runs_wf_def kept_def delete_where_def
      by (auto simp: distinct_map_filter)
    have fresh: "dr_id r < dd_next_run s" "dr_execution_id r \<noteq> dr_execution_id n" "dr_active_connection r \<noteq> dr_active_connection n"
      if "r \<in> set kept" for r
      using that wf sub n(4) fields(3) by (auto simp: ddl_wf_def duplicate_key_def list_ex_iff)
    have "runs_wf (kept @ [n])"
      by (intro runs_wf_snoc) (use old fields(1,2) fresh(2,3) in \<open>auto dest: fresh(1)\<close>)
    then show "ddl_wf s'" using wf sub fields(1) by (auto simp: ddl_wf_def n(2,3) less_Suc_eq)
    show "finished_kept s s'"
      unfolding finished_kept_def
    proof (intro allI impI)
      fix i r
      assume r: "GetRun s i = Some r" "onlineDDLTerminal (dr_status r)"
      have d: "distinct (map dr_id (dd_runs s))" using wf by (simp add: ddl_wf_def runs_wf_def)
      have "r \<in> set kept" "dr_id r = i"
        using r find_key_Some_iff [OF d, of i r] by (auto simp: GetRun_def kept_def onlineDDLTerminal_def)
      moreover have "distinct (map dr_id kept)" using d by (simp add: kept_def delete_where_def distinct_map_filter)
      ultimately have "find (\<lambda>r. dr_id r = i) kept = Some r" using find_key_Some_iff by metis
      then show "\<exists>r'. GetRun s' i = Some r' \<and> dr_status r' = dr_status r" by (simp add: GetRun_def n(2) find_append)
    qed
  qed
qed

lemmas modest_simps = modest_def run_ok_def IsActive_def onlineDDLTerminal_def in_progress_def

lemma modest_rows:
  "modest rows (claim_guard i v) (claim_row now)"
  "modest rows (\<lambda>r. dr_id r = i \<and> in_progress (dr_status r)) (\<lambda>r. r\<lparr>dr_heartbeat_at := Some now, dr_updated_at := now\<rparr>)"
  "onlineDDLTerminal st \<Longrightarrow> modest rows (\<lambda>r. dr_id r = i \<and> in_progress (dr_status r)) (finished_row now st code)"
  "onlineDDLTerminal st \<Longrightarrow> modest rows (\<lambda>r. dr_id r = i \<and> in_progress (dr_status r))
     (\<lambda>r. (finished_row now st code r)\<lparr>dr_outcome_confidence := Some conf, dr_artifact_summary := Some arts\<rparr>)"
  by (auto simp: modest_simps claim_guard_def claim_row_def finished_row_def)

lemma sound_progress: "SaveProgress now i p h s = (ok, s') \<Longrightarrow> sound_step s s'"
proof -
  assume save: "SaveProgress now i p h s = (ok, s')"
  let ?P = "\<lambda>r. dr_id r = i \<and> in_progress (dr_status r)"
  let ?f = "\<lambda>r. r\<lparr>dr_phase := coalesce (nonempty (pg_phase p)) (dr_phase r), dr_progress_percent := pg_percent p,
    dr_copied_rows := pg_copied_rows p, dr_eta_display := pg_eta_display p, dr_replication_lag_ms := pg_replication_lag_ms p,
    dr_threads_running := pg_threads_running p, dr_throttle_reason := nonempty (pg_throttle_reason p),
    dr_heartbeat_at := Some now, dr_updated_at := now\<rparr>"
  have "modest (dd_runs s) ?P ?f" by (auto simp: modest_simps)
  then have "sound_step s (snd (update_runs ?P ?f s))" by (rule sound_update_runs)
  with save show ?thesis
    by (auto simp: SaveProgress_def split: prod.splits bool.splits if_splits intro: sound_trans sound_add_event)
qed

lemma sound_control:
  "Claim now i v s = (ok, s') \<Longrightarrow> sound_step s s'"
  "Heartbeat now i s = (ok, s') \<Longrightarrow> sound_step s s'"
  "SetPaused now i v b s = (ok, s') \<Longrightarrow> sound_step s s'"
  "RequestCancel now i v s = (ok, s') \<Longrightarrow> sound_step s s'"
  "RecordRecovery now i conf arts s = (ok, s') \<Longrightarrow> sound_step s s'"
proof -
  have take: "modest (dd_runs s) P f \<Longrightarrow> update_runs P f s = (ok, s') \<Longrightarrow> sound_step s s'" for P f
    using sound_update_runs [of s P f] by simp
  show "Claim now i v s = (ok, s') \<Longrightarrow> sound_step s s'" unfolding Claim_def by (rule take [OF modest_rows(1)])
  show "Heartbeat now i s = (ok, s') \<Longrightarrow> sound_step s s'" unfolding Heartbeat_def by (rule take [OF modest_rows(2)])
  show "SetPaused now i v b s = (ok, s') \<Longrightarrow> sound_step s s'"
    unfolding SetPaused_def Let_def by (rule take) (auto simp: modest_simps)
  show "RequestCancel now i v s = (ok, s') \<Longrightarrow> sound_step s s'"
    unfolding RequestCancel_def by (rule take) (auto simp: modest_simps)
  show "RecordRecovery now i conf arts s = (ok, s') \<Longrightarrow> sound_step s s'"
    unfolding RecordRecovery_def by (rule take) (auto simp: modest_simps)
qed

lemma sound_finish:
  "FinishRunning now i st code s = (res, s') \<Longrightarrow> sound_step s s'"
  "FinishOutcome now i st code conf arts s = (res, s') \<Longrightarrow> sound_step s s'"
  using sound_update_runs [OF modest_rows(3) [where rows = "dd_runs s" and st = st and i = i and now = now and code = code]]
    sound_update_runs [OF modest_rows(4) [where rows = "dd_runs s" and st = st and i = i and now = now and code = code
      and conf = conf and arts = arts]]
  by (auto simp: FinishRunning_def FinishOutcome_def apfst_def map_prod_def split: if_splits prod.splits)

lemma sound_tune: "UpdateEffectiveParameters now i v actor before after s = (ok, s') \<Longrightarrow> sound_step s s'"
proof -
  assume tune: "UpdateEffectiveParameters now i v actor before after s = (ok, s')"
  let ?P = "\<lambda>r. dr_id r = i \<and> dr_version r = v \<and> dr_status r \<in> {DdlRunning, DdlPaused}"
  let ?f = "\<lambda>r. r\<lparr>dr_effective_parameters := after, dr_version := bump r, dr_updated_at := now\<rparr>"
  have "modest (dd_runs s) ?P ?f" by (auto simp: modest_simps)
  then have "sound_step s (snd (update_runs ?P ?f s))" by (rule sound_update_runs)
  with tune show ?thesis
    by (auto simp: UpdateEffectiveParameters_def split: prod.splits bool.splits intro: sound_trans sound_add_event)
qed

lemma sound_interrupt: "InterruptActive now s = (n, s') \<Longrightarrow> sound_step s s'"
proof -
  assume int: "InterruptActive now s = (n, s')"
  let ?f = "\<lambda>r. r\<lparr>dr_status := DdlInterrupted, dr_eta_display := None, dr_active_connection := None,
    dr_error_code := Some ''server_restarted'', dr_version := bump r, dr_finished_at := Some now, dr_updated_at := now\<rparr>"
  have "modest (dd_runs s) (\<lambda>r. IsActive (dr_status r)) ?f" by (auto simp: modest_simps)
  then have "sound_step s (snd (update_runs (\<lambda>r. IsActive (dr_status r)) ?f s))" by (rule sound_update_runs)
  with int show ?thesis by (simp add: InterruptActive_def)
qed

lemma sound_transition:
  assumes "Transition now i v from to s = (err, s')"
  shows "sound_step s s'"
proof (cases "s' = s")
  case False
  let ?P = "\<lambda>r. dr_id r = i \<and> dr_status r = from \<and> dr_version r = v"
  let ?f = "\<lambda>r. r\<lparr>dr_status := to, dr_active_connection := (if IsActive to then Some (dr_connection_id r) else None),
    dr_version := bump r, dr_started_at := (if to = DdlRunning \<and> dr_started_at r = None then Some now else dr_started_at r),
    dr_finished_at := (if onlineDDLTerminal to then Some now else dr_finished_at r), dr_updated_at := now\<rparr>"
  have ok: "CanTransitionDDL from to" "s' = snd (update_runs ?P ?f s)"
    "\<And>r q. r \<in> set (dd_runs s) \<Longrightarrow> ?P r \<Longrightarrow> IsActive to \<Longrightarrow> q \<in> set (dd_runs s) \<Longrightarrow> dr_id q \<noteq> dr_id r \<Longrightarrow>
       dr_active_connection q \<noteq> Some (dr_connection_id r)"
    using assms False by (auto simp: Transition_def Let_def list_ex_iff split: if_splits prod.splits bool.splits)
  have "modest (dd_runs s) ?P ?f"
    using ok(1,3) ddl_status_table.terminal_stuck [of "from" to] by (auto simp: modest_def run_ok_def connection_free_def)
  then show ?thesis unfolding ok(2) by (rule sound_update_runs)
qed simp

lemma ddl_step_sound:
  assumes "ddl_step s s'"
  shows "sound_step s s'"
  using assms
proof cases
  case create
  then show ?thesis by (rule sound_create)
next
  case finish
  then show ?thesis by (rule sound_finish)
next
  case outcome
  then show ?thesis by (rule sound_finish)
next
  case transition
  then show ?thesis by (rule sound_transition)
qed (auto dest: sound_control sound_progress sound_tune sound_interrupt simp: AppendEvent_def sound_add_event)

lemma ddl_steps_sound: "ddl_step\<^sup>*\<^sup>* s s' \<Longrightarrow> sound_step s s'"
  by (induction rule: rtranclp_induct) (auto intro: sound_trans ddl_step_sound)

interpretation claim_run: guarded_update "claim_guard i v" claim_row dd_runs "\<lambda>now. Claim now i v" for i v
  by unfold_locales (auto simp: claim_guard_def claim_row_def Claim_def update_runs_def update_where_none)

section \<open>Properties\<close>

text \<open>
  C29: in any sequence of operations on the runs, two active runs never share a connection: at most
  one schema change works on a connection at a time.
\<close>

theorem one_active_run_per_connection:
  assumes "ddl_wf s" and "ddl_step\<^sup>*\<^sup>* s s'"
    and "r \<in> set (dd_runs s')" and "q \<in> set (dd_runs s')" and "IsActive (dr_status r)" and "IsActive (dr_status q)"
    and "dr_connection_id r = dr_connection_id q"
  shows "r = q"
proof -
  have wf: "runs_wf (dd_runs s')" using ddl_steps_sound [OF assms(2)] assms(1) by (simp add: sound_step_def ddl_wf_def)
  then have "dr_active_connection r = Some (dr_connection_id r)" "dr_active_connection q = Some (dr_connection_id q)"
    using assms(3-6) by (auto simp: runs_wf_def run_ok_def)
  then have "dr_id r = dr_id q" using runs_wf_same [OF wf assms(3,4)] assms(7) by simp
  then show ?thesis using wf assms(3,4) by (auto simp: runs_wf_def distinct_map inj_on_def)
qed

text \<open>
  C30: a run that has reached a final status keeps it, whatever operations follow, and holds no
  connection.
\<close>

theorem finished_run_is_final:
  assumes "ddl_wf s" and "ddl_step\<^sup>*\<^sup>* s s'" and "GetRun s i = Some r" and "onlineDDLTerminal (dr_status r)"
  shows "\<exists>r'. GetRun s' i = Some r' \<and> dr_status r' = dr_status r \<and> dr_active_connection r' = None"
proof -
  have wf: "ddl_wf s'" and "finished_kept s s'" using ddl_steps_sound [OF assms(2)] assms(1) by (simp_all add: sound_step_def)
  then obtain r' where r': "GetRun s' i = Some r'" "dr_status r' = dr_status r"
    using assms(3,4) unfolding finished_kept_def by blast
  moreover have "run_ok r'" using wf r'(1) by (auto simp: ddl_wf_def runs_wf_def GetRun_def find_Some_iff)
  ultimately show ?thesis using assms(4) terminal_inactive by (auto simp: run_ok_def)
qed

text \<open>A queued run is claimed at most once, whichever workers try with the version they read.\<close>

theorem run_claimed_once:
  "length (filter (\<lambda>ok. ok) (attempt_outcomes (\<lambda>now. Claim now i v) nows s)) \<le> 1"
  by (rule claim_run.at_most_one_winner)

section \<open>Witnesses\<close>

definition sample_create :: "id64 \<Rightarrow> create_input" where
  "sample_create e = \<lparr>ci_ticket_id = 11, ci_execution_id = e, ci_connection_id = 7, ci_executor_id = 2, ci_mode = ModeGhost,
     ci_sql_sha256 = ''s'', ci_preflight_sha256 = ''p'', ci_tool_version = ''1.1'', ci_parameters = DefaultParameters ModeGhost\<rparr>"

definition sample_ddl_store :: ddl_store where
  "sample_ddl_store = \<lparr>dd_runs = [], dd_next_run = 2, dd_events = [], dd_next_event = 2,
     dd_executions = [new_execution 3 11 (1, ''ALTER TABLE a''), new_execution 4 11 (2, ''ALTER TABLE b'')]\<rparr>"

definition queued_store :: ddl_store where
  "queued_store = snd (CreateQueued 5 (sample_create 3) sample_ddl_store)"

lemma queued_store_runs: "dd_runs queued_store = [new_run 5 2 (sample_create 3)]"
  by (simp add: queued_store_def CreateQueued_def sample_ddl_store_def sample_create_def new_run_def delete_where_def duplicate_key_def
      affected_def new_execution_def Let_def)

lemma sample_ddl_wf: "ddl_wf sample_ddl_store"
  by (simp add: ddl_wf_def runs_wf_def sample_ddl_store_def)

lemma queued_step: "ddl_step sample_ddl_store queued_store"
  unfolding queued_store_def by (rule ddl_step.create) (rule surjective_pairing)

theorem one_active_run_per_connection_witness:
  "new_run 5 2 (sample_create 3) = hd (dd_runs queued_store) \<and> IsActive (dr_status (hd (dd_runs queued_store)))"
  using one_active_run_per_connection [OF sample_ddl_wf, of queued_store "new_run 5 2 (sample_create 3)" "hd (dd_runs queued_store)"]
    queued_step
  by (simp add: queued_store_runs new_run_def IsActive_def r_into_rtranclp)

theorem finished_run_is_final_witness:
  "map_option dr_status (GetRun (snd (Heartbeat 9 2 (snd (InterruptActive 8 queued_store)))) 2) = Some DdlInterrupted"
proof -
  let ?s = "snd (InterruptActive 8 queued_store)"
  have wf: "ddl_wf ?s"
    using ddl_step_sound [OF queued_step] sound_interrupt [of 8 queued_store "fst (InterruptActive 8 queued_store)" ?s] sample_ddl_wf
    by (simp add: sound_step_def)
  have st: "ddl_step\<^sup>*\<^sup>* ?s (snd (Heartbeat 9 2 ?s))"
    by (rule r_into_rtranclp, rule ddl_step.heartbeat) (rule surjective_pairing)
  obtain r where r: "GetRun ?s 2 = Some r" "dr_status r = DdlInterrupted"
    by (simp add: GetRun_def InterruptActive_def update_runs_def update_where_def queued_store_runs new_run_def IsActive_def)
  then show ?thesis using finished_run_is_final [OF wf st r(1)] by (auto simp: onlineDDLTerminal_def simp del: map_option_eq_Some)
qed

end
