(* ===== verification/Online_DDL_Runner.thy ===== *)
theory Online_DDL_Runner
  imports Online_DDL_Store
begin

text \<open>
  Running an online schema change: the locks on target servers (\<open>target_locks.go\<close>), the controller of
  running tools (\<open>control.go\<close>), the runner that claims queued runs (\<open>runner.go\<close>), the outcome of
  a tool (\<open>outcome.go\<close>, \<open>completion.go\<close>, \<open>managed_executor.go\<close>) and tuning at run time (\<open>tuning.go\<close>).

  A tool process is known by a number; what its calls answer is a parameter. Waiting, logging and progress
  sampling change none of the state modelled here and are left out.
\<close>

section \<open>Locks on target servers\<close>

record target_locks =
  tl_active :: "string \<Rightarrow> nat option"
  tl_next :: nat

definition targetLockKey :: "string \<Rightarrow> nat \<Rightarrow> string" where
  "targetLockKey host port = to_lower (trim_suffix (trim_space host) ''.'') @ '':'' @ nat_show port"

definition lock_key :: "string \<Rightarrow> target_locks \<Rightarrow> bool \<times> target_locks" where
  "lock_key key l =
     (if key = '':0'' then (False, l)
      else if tl_active l key \<noteq> None then (False, l)
      else (True, l\<lparr>tl_active := (tl_active l)(key \<mapsto> tl_next l), tl_next := tl_next l + 1\<rparr>))"

definition release_lock :: "string \<Rightarrow> nat \<Rightarrow> target_locks \<Rightarrow> target_locks" where
  "release_lock key tok l = (if tl_active l key = Some tok then l\<lparr>tl_active := (tl_active l)(key := None)\<rparr> else l)"

text \<open>The result is the token of the lock, with which it is released.\<close>

definition TryAcquire :: "string \<Rightarrow> nat \<Rightarrow> target_locks \<Rightarrow> nat option \<times> target_locks" where
  "TryAcquire host port l = (case lock_key (targetLockKey host port) l of
     (True, l') \<Rightarrow> (Some (tl_next l), l') | (False, l') \<Rightarrow> (None, l'))"

text \<open>One round of the waiting loop of \<open>Acquire\<close>: \<open>None\<close> when it waits for the holder.\<close>

definition acquire_round :: "bool \<Rightarrow> string \<Rightarrow> nat \<Rightarrow> target_locks \<Rightarrow> (ddl_error + nat) option \<times> target_locks" where
  "acquire_round cancelled host port l =
     (if targetLockKey host port = '':0'' then (Some (Inl ErrInvalidParameters), l)
      else case TryAcquire host port l of
        (Some tok, l') \<Rightarrow> (Some (Inr tok), l')
      | (None, l') \<Rightarrow> (if cancelled then Some (Inl (ErrOther ''context canceled'')) else None, l'))"

interpretation target_lock: exclusive_registry "\<lambda>k (_ :: unit). lock_key k"
    "\<lambda>k l. case tl_active l k of None \<Rightarrow> l | Some tok \<Rightarrow> release_lock k tok l"
    "\<lambda>l k. map_option (\<lambda>_. ()) (tl_active l k)" "\<lambda>k. k \<noteq> '':0''"
  by unfold_locales (auto simp: lock_key_def release_lock_def fun_eq_iff split: option.splits if_splits)

section \<open>Controlling a running tool\<close>

record controlled =
  cp_process :: nat
  cp_paused :: bool
  cp_cancelling :: bool

type_synonym controller = "id64 \<Rightarrow> controlled option"

datatype tool_call = CallPause | CallResume | CallCancel | CallTerminate | CallTune tool_command

definition Register :: "id64 \<Rightarrow> nat \<Rightarrow> controller \<Rightarrow> bool \<times> controller" where
  "Register i proc c = (if c i \<noteq> None then (False, c)
     else (True, c(i \<mapsto> \<lparr>cp_process = proc, cp_paused = False, cp_cancelling = False\<rparr>)))"

definition Unregister :: "id64 \<Rightarrow> controller \<Rightarrow> controller" where
  "Unregister i c = c(i := None)"

definition IsCancelling :: "id64 \<Rightarrow> controller \<Rightarrow> bool" where
  "IsCancelling i c = (case c i of None \<Rightarrow> False | Some p \<Rightarrow> cp_cancelling p)"

text \<open>The answers \<open>err\<close> of the process are parameters; the result lists the calls made to it.\<close>

definition Pause :: "ddl_error option \<Rightarrow> id64 \<Rightarrow> controller \<Rightarrow> ddl_error option \<times> tool_call list \<times> controller" where
  "Pause err i c = (case c i of None \<Rightarrow> (Some ErrInvalidTransition, [], c)
     | Some p \<Rightarrow> if cp_paused p then (None, [], c)
         else case err of Some e \<Rightarrow> (Some e, [CallPause], c)
           | None \<Rightarrow> (None, [CallPause], c(i \<mapsto> p\<lparr>cp_paused := True\<rparr>)))"

definition Resume :: "ddl_error option \<Rightarrow> id64 \<Rightarrow> controller \<Rightarrow> ddl_error option \<times> tool_call list \<times> controller" where
  "Resume err i c = (case c i of None \<Rightarrow> (Some ErrInvalidTransition, [], c)
     | Some p \<Rightarrow> if \<not> cp_paused p then (None, [], c)
         else case err of Some e \<Rightarrow> (Some e, [CallResume], c)
           | None \<Rightarrow> (None, [CallResume], c(i \<mapsto> p\<lparr>cp_paused := False\<rparr>)))"

datatype wait_result = WaitDone | WaitContext | WaitTimeout

definition Cancel :: "ddl_error option \<Rightarrow> wait_result \<Rightarrow> ddl_error option \<Rightarrow> id64 \<Rightarrow> controller \<Rightarrow> ddl_error option \<times> tool_call list \<times> controller" where
  "Cancel graceful wait term i c = (case c i of None \<Rightarrow> (Some ErrInvalidTransition, [], c)
     | Some p \<Rightarrow> if cp_cancelling p then (None, [], c)
         else case graceful of Some e \<Rightarrow> (Some e, [CallCancel], c)
           | None \<Rightarrow> let c' = c(i \<mapsto> p\<lparr>cp_cancelling := True\<rparr>)
               in (case wait of WaitDone \<Rightarrow> (None, [CallCancel], c')
                   | WaitContext \<Rightarrow> (Some (ErrOther ''context canceled''), [CallCancel, CallTerminate], c')
                   | WaitTimeout \<Rightarrow> (term, [CallCancel, CallTerminate], c')))"

definition WithTuning :: "id64 \<Rightarrow> (nat \<Rightarrow> ddl_error + 'a) \<Rightarrow> controller \<Rightarrow> ddl_error + 'a" where
  "WithTuning i tune c = (case c i of None \<Rightarrow> Inl ErrInvalidTransition
     | Some p \<Rightarrow> if cp_cancelling p then Inl ErrInvalidTransition else tune (cp_process p))"

interpretation tool_registry: exclusive_registry Register Unregister "\<lambda>c i. map_option cp_process (c i)" "\<lambda>_. True"
  by unfold_locales (auto simp: Register_def Unregister_def fun_eq_iff split: if_splits)

section \<open>Outcomes\<close>

record evidence =
  oe_cancel_requested :: bool
  oe_process_succeeded :: bool
  oe_verification_complete :: bool
  oe_target_applied :: bool
  oe_original_unchanged :: bool
  oe_artifacts :: "artifact list"

definition HasArtifacts :: "artifact list \<Rightarrow> bool" where
  "HasArtifacts items = list_ex af_exists items"

definition boundedObjectName :: "string \<Rightarrow> string \<Rightarrow> string" where
  "boundedObjectName base suff = (if length base + length suff > 64 then take (64 - length suff) base else base) @ suff"

definition toolObjectName :: "string \<Rightarrow> string \<Rightarrow> string" where
  "toolObjectName base suff = boundedObjectName (''_'' @ trim_prefix base ''_'') suff"

definition artifact_candidates :: "ddl_mode \<Rightarrow> string \<Rightarrow> string \<Rightarrow> (string \<times> string) list" where
  "artifact_candidates mode db tbl = (case mode of
     ModeGhost \<Rightarrow> [(''ghost_table'', toolObjectName tbl ''_gho''), (''old_table'', toolObjectName tbl ''_del''),
                   (''metadata_table'', toolObjectName tbl ''_ghc'')]
   | ModePTOSC \<Rightarrow> [(''new_table'', toolObjectName tbl ''_new''), (''old_table'', toolObjectName tbl ''_old''),
                   (''insert_trigger'', boundedObjectName (''pt_osc_'' @ db @ ''_'' @ tbl) ''_ins''),
                   (''update_trigger'', boundedObjectName (''pt_osc_'' @ db @ ''_'' @ tbl) ''_upd''),
                   (''delete_trigger'', boundedObjectName (''pt_osc_'' @ db @ ''_'' @ tbl) ''_del'')]
   | ModeNative \<Rightarrow> [])"

text \<open>\<open>probe trigger name\<close> looks up a trigger or a table of the database; \<open>None\<close> is a failed query.\<close>

fun probe_all :: "(bool \<Rightarrow> string \<Rightarrow> bool option) \<Rightarrow> (string \<times> string) list \<Rightarrow> artifact list option" where
  "probe_all probe [] = Some []"
| "probe_all probe ((kind, name) # cs) =
     (case probe (has_suffix kind ''trigger'') name of None \<Rightarrow> None
      | Some b \<Rightarrow> map_option (\<lambda>items. \<lparr>af_kind = kind, af_name = name, af_exists = b\<rparr> # items) (probe_all probe cs))"

definition DiscoverArtifacts :: "(bool \<Rightarrow> string \<Rightarrow> bool option) \<Rightarrow> ddl_mode \<Rightarrow> string \<Rightarrow> string \<Rightarrow> ddl_error + artifact list" where
  "DiscoverArtifacts probe mode db tbl =
     (if mode \<noteq> ModeGhost \<and> mode \<noteq> ModePTOSC then Inl ErrInvalidParameters
      else case probe_all probe (artifact_candidates mode db tbl) of
        None \<Rightarrow> Inl (ErrOther ''query failed'') | Some items \<Rightarrow> Inr items)"

definition ClassifyOutcome :: "evidence \<Rightarrow> ddl_status \<times> string" where
  "ClassifyOutcome e =
     (if oe_cancel_requested e then
        (if oe_verification_complete e \<and> oe_target_applied e then (DdlCompletedAfterCancel, [])
         else if \<not> oe_verification_complete e \<or> \<not> oe_original_unchanged e then (DdlOutcomeUnknown, error_code ErrOutcomeUnknown)
         else if HasArtifacts (oe_artifacts e) then (DdlCancelledArtifacts, error_code ErrCancelledArtifacts)
         else (DdlCancelled, []))
      else if oe_verification_complete e \<and> oe_target_applied e then (DdlCompleted, [])
      else if oe_process_succeeded e \<or> \<not> oe_verification_complete e \<or> \<not> oe_original_unchanged e \<or> HasArtifacts (oe_artifacts e)
        then (DdlOutcomeUnknown, error_code ErrOutcomeUnknown)
      else (DdlFailed, error_code ErrToolProcessFailed))"

datatype tool_completion = ToolCompletionUnknown | ToolCompletionSucceeded | ToolCompletionFailed

record tool_result =
  tr_stdout :: string
  tr_stderr :: string

definition quoteToolIdentifier :: "string \<Rightarrow> string" where
  "quoteToolIdentifier v = replace_all v ''`'' ''``''"

definition hasExactLine :: "string list \<Rightarrow> string \<Rightarrow> bool" where
  "hasExactLine lines expected = list_ex (\<lambda>l. trim_space l = expected) lines"

definition newline :: string where "newline = [CHR 0x0A]"
definition carriage_return :: string where "carriage_return = [CHR 0x0D]"

definition output_lines :: "tool_result \<Rightarrow> string list" where
  "output_lines res = split_on (CHR 0x0A) (replace_all (tr_stdout res @ newline @ tr_stderr res) carriage_return newline)"

definition ptosc_table :: "string \<Rightarrow> string \<Rightarrow> string" where
  "ptosc_table db tbl = ''`'' @ quoteToolIdentifier db @ ''`.`'' @ quoteToolIdentifier tbl @ ''`''"

definition InspectToolCompletion :: "ddl_mode \<Rightarrow> string \<Rightarrow> string \<Rightarrow> tool_result \<Rightarrow> ddl_error option \<Rightarrow> tool_completion" where
  "InspectToolCompletion mode db tbl res err =
     (if err \<noteq> None then ToolCompletionFailed
      else let lines = output_lines res; table = ptosc_table db tbl
        in case mode of
          ModeGhost \<Rightarrow> if hasExactLine lines ''# Done'' then ToolCompletionSucceeded else ToolCompletionUnknown
        | ModePTOSC \<Rightarrow>
            if hasExactLine lines (''Successfully altered '' @ table @ ''.'') then ToolCompletionSucceeded
            else if hasExactLine lines (table @ '' was not altered.'') \<or>
              hasExactLine lines (''Altered '' @ table @ '' but there were errors or warnings.'') then ToolCompletionFailed
            else ToolCompletionUnknown
        | ModeNative \<Rightarrow> ToolCompletionUnknown)"

record terminal_error =
  te_status :: ddl_status
  te_code :: string
  te_confidence :: string
  te_artifacts :: "artifact list"

definition VerifiedTerminalOutcome :: "ddl_status \<Rightarrow> string \<Rightarrow> artifact list \<Rightarrow> terminal_error" where
  "VerifiedTerminalOutcome st code arts = \<lparr>te_status = st, te_code = code,
     te_confidence = (if st = DdlOutcomeUnknown then ''outcome_unknown'' else ''verified''), te_artifacts = arts\<rparr>"

text \<open>
  What \<open>Execute\<close> of the managed executor returns once the tool has ended. \<open>verify err cancelling\<close>
  inspects the target table, \<open>None\<close> when that fails.
\<close>

definition finished_outcome ::
    "(ddl_error option \<Rightarrow> bool \<Rightarrow> evidence option) \<Rightarrow> ddl_mode \<Rightarrow> string \<Rightarrow> string \<Rightarrow> tool_result \<Rightarrow> ddl_error option \<Rightarrow> bool \<Rightarrow> terminal_error" where
  "finished_outcome verify mode db tbl res waitErr cancelling =
     (let completion = InspectToolCompletion mode db tbl res waitErr;
          verr = (if waitErr = None \<and> completion \<noteq> ToolCompletionSucceeded then Some ErrToolProcessFailed else waitErr)
      in case verify verr cancelling of
           None \<Rightarrow> VerifiedTerminalOutcome DdlOutcomeUnknown (error_code ErrOutcomeUnknown) []
         | Some ev \<Rightarrow>
             let (st, code) =
               (if cancelling then ClassifyOutcome ev
                else case completion of
                  ToolCompletionUnknown \<Rightarrow> if waitErr = None then (DdlOutcomeUnknown, error_code ErrOutcomeUnknown) else ClassifyOutcome ev
                | ToolCompletionFailed \<Rightarrow>
                    if oe_verification_complete ev \<and> oe_original_unchanged ev then (DdlFailed, error_code ErrToolProcessFailed)
                    else (DdlOutcomeUnknown, error_code ErrOutcomeUnknown)
                | ToolCompletionSucceeded \<Rightarrow> ClassifyOutcome ev)
             in VerifiedTerminalOutcome st code (oe_artifacts ev))"

text \<open>And when the service shuts down while the tool runs.\<close>

definition shutdown_outcome :: "(ddl_error option \<Rightarrow> bool \<Rightarrow> evidence option) \<Rightarrow> ddl_error option \<Rightarrow> bool \<Rightarrow> terminal_error" where
  "shutdown_outcome verify waitErr cancelling = (case verify waitErr cancelling of
     None \<Rightarrow> VerifiedTerminalOutcome DdlInterrupted ''server_shutdown'' []
   | Some ev \<Rightarrow> VerifiedTerminalOutcome DdlInterrupted ''server_shutdown'' (oe_artifacts ev))"

text \<open>
  The verification of the coordinator (\<open>handler/ticket_online_ddl_coordinator.go\<close>): hashes of the
  table definition before and after, \<open>None\<close> for a failed query.
\<close>

definition onlineDDLOutcomeEvidence :: "ddl_error option \<Rightarrow> bool \<Rightarrow> string \<Rightarrow> string \<Rightarrow> artifact list \<Rightarrow> evidence" where
  "onlineDDLOutcomeEvidence err cancelling baseline current arts = \<lparr>oe_cancel_requested = cancelling,
     oe_process_succeeded = (err = None), oe_verification_complete = True, oe_target_applied = (current \<noteq> baseline),
     oe_original_unchanged = (current = baseline), oe_artifacts = arts\<rparr>"

definition plan_verify :: "string \<Rightarrow> string option \<Rightarrow> artifact list option \<Rightarrow> ddl_error option \<Rightarrow> bool \<Rightarrow> evidence option" where
  "plan_verify baseline current arts err cancelling =
     (if err = None \<and> \<not> cancelling then Some \<lparr>oe_cancel_requested = False, oe_process_succeeded = True,
        oe_verification_complete = True, oe_target_applied = True, oe_original_unchanged = False, oe_artifacts = []\<rparr>
      else case current of None \<Rightarrow> None
        | Some h \<Rightarrow> (case arts of None \<Rightarrow> None | Some a \<Rightarrow> Some (onlineDDLOutcomeEvidence err cancelling baseline h a)))"

section \<open>The runner\<close>

record runner_state =
  rs_max :: nat
  rs_runs :: "id64 list"
  rs_connections :: "id64 list"

definition available :: "runner_state \<Rightarrow> nat" where
  "available rs = rs_max rs - length (rs_runs rs)"

definition reserve :: "id64 \<Rightarrow> id64 \<Rightarrow> runner_state \<Rightarrow> bool \<times> runner_state" where
  "reserve i conn rs =
     (if length (rs_runs rs) \<ge> rs_max rs then (False, rs)
      else if i \<in> set (rs_runs rs) then (False, rs)
      else if conn \<in> set (rs_connections rs) then (False, rs)
      else (True, rs\<lparr>rs_runs := i # rs_runs rs, rs_connections := conn # rs_connections rs\<rparr>))"

definition release_run :: "id64 \<Rightarrow> id64 \<Rightarrow> runner_state \<Rightarrow> runner_state" where
  "release_run i conn rs = rs\<lparr>rs_runs := filter (\<lambda>j. j \<noteq> i) (rs_runs rs), rs_connections := filter (\<lambda>c. c \<noteq> conn) (rs_connections rs)\<rparr>"

text \<open>The loop of \<open>dispatch\<close>; the result lists the runs it starts. \<open>fails\<close> says which claims fail.\<close>

fun dispatch_loop :: "timestamp \<Rightarrow> (id64 \<Rightarrow> bool) \<Rightarrow> nat \<Rightarrow> ddl_run list \<Rightarrow> runner_state \<Rightarrow> ddl_store \<Rightarrow> ddl_run list \<times> runner_state \<times> ddl_store" where
  "dispatch_loop now fails avail [] rs s = ([], rs, s)"
| "dispatch_loop now fails avail (r # rows) rs s =
     (if avail = 0 then ([], rs, s)
      else case reserve (dr_id r) (dr_connection_id r) rs of
        (False, rs1) \<Rightarrow> dispatch_loop now fails avail rows rs1 s
      | (True, rs1) \<Rightarrow>
          if fails (dr_id r) then dispatch_loop now fails avail rows (release_run (dr_id r) (dr_connection_id r) rs1) s
          else (case Claim now (dr_id r) (dr_version r) s of
            (False, s1) \<Rightarrow> dispatch_loop now fails avail rows (release_run (dr_id r) (dr_connection_id r) rs1) s1
          | (True, s1) \<Rightarrow> (case dispatch_loop now fails (avail - 1) rows rs1 s1 of (started, rs2, s2) \<Rightarrow> (r # started, rs2, s2))))"

definition dispatch :: "timestamp \<Rightarrow> (id64 \<Rightarrow> bool) \<Rightarrow> bool \<Rightarrow> runner_state \<Rightarrow> ddl_store \<Rightarrow> ddl_run list \<times> runner_state \<times> ddl_store" where
  "dispatch now fails list_fails rs s =
     (if available rs = 0 \<or> list_fails then ([], rs, s)
      else dispatch_loop now fails (available rs) (ListQueued s 100) rs s)"

datatype exec_result = ExecOk | ExecError ddl_error | ExecTerminal terminal_error

definition runnerErrorCode :: "ddl_error \<Rightarrow> string" where
  "runnerErrorCode e = (if e \<in> {ErrModeDisabled, ErrUnsupportedStatement, ErrPreflightChanged, ErrToolUnavailable, ErrConflict,
     ErrInvalidParameters, ErrToolProcessFailed} then error_code e else error_code ErrToolProcessFailed)"

definition run_status :: "bool \<Rightarrow> bool \<Rightarrow> bool \<Rightarrow> exec_result \<Rightarrow> ddl_status \<times> string" where
  "run_status shutdown panicked heartbeat_failed res =
     (if shutdown then (DdlInterrupted, ''server_shutdown'')
      else if panicked then (DdlFailed, ''worker_panic'')
      else if heartbeat_failed then (DdlFailed, ''heartbeat_failed'')
      else case res of ExecOk \<Rightarrow> (DdlCompleted, [])
        | ExecTerminal te \<Rightarrow> (te_status te, te_code te)
        | ExecError e \<Rightarrow> (DdlFailed, runnerErrorCode e))"

definition run_finish :: "timestamp \<Rightarrow> id64 \<Rightarrow> bool \<Rightarrow> bool \<Rightarrow> bool \<Rightarrow> exec_result \<Rightarrow> ddl_store \<Rightarrow> (ddl_error + bool) \<times> ddl_store" where
  "run_finish now i shutdown panicked heartbeat_failed res s =
     (case run_status shutdown panicked heartbeat_failed res of (st, code) \<Rightarrow>
        (case res of ExecTerminal te \<Rightarrow>
           if te_confidence te \<noteq> [] then FinishOutcome now i st code (te_confidence te) (te_artifacts te) s
           else FinishRunning now i st code s
         | _ \<Rightarrow> FinishRunning now i st code s))"

definition recovery_confidence :: "evidence option \<Rightarrow> string" where
  "recovery_confidence ev = (case ev of None \<Rightarrow> ''outcome_unknown''
     | Some e \<Rightarrow> if \<not> oe_verification_complete e then ''outcome_unknown''
         else if oe_target_applied e then ''target_applied''
         else if HasArtifacts (oe_artifacts e) then ''artifacts_present''
         else if \<not> oe_original_unchanged e then ''outcome_unknown''
         else ''verified_original_unchanged'')"

fun recover_runs :: "timestamp \<Rightarrow> (ddl_run \<Rightarrow> evidence option) \<Rightarrow> ddl_run list \<Rightarrow> ddl_store \<Rightarrow> ddl_store" where
  "recover_runs now inspect [] s = s"
| "recover_runs now inspect (r # rs) s = recover_runs now inspect rs
     (snd (RecordRecovery now (dr_id r) (recovery_confidence (inspect r))
       (case inspect r of None \<Rightarrow> [] | Some e \<Rightarrow> oe_artifacts e) s))"

text \<open>The start of the runner: unfinished runs are interrupted and inspected.\<close>

definition start_recovery :: "timestamp \<Rightarrow> (ddl_run \<Rightarrow> evidence option) \<Rightarrow> ddl_store \<Rightarrow> ddl_store" where
  "start_recovery now inspect s = recover_runs now inspect (ListActive s) (snd (InterruptActive now s))"

section \<open>Tuning a running tool\<close>

text \<open>
  \<open>send_err\<close> is what the tool answers to a command, \<open>write_fails\<close> whether the update of the run fails. The
  result lists the commands sent.
\<close>

definition Tune :: "(tool_command \<Rightarrow> ddl_error option) \<Rightarrow> ddl_error option \<Rightarrow> timestamp \<Rightarrow> id64 \<Rightarrow> id64 \<Rightarrow> nat \<Rightarrow> tuning \<Rightarrow>
    controller \<Rightarrow> ddl_store \<Rightarrow> (ddl_error + ddl_run) \<times> tool_command list \<times> ddl_store" where
  "Tune send_err write_fails now i actor expected patch c s =
     (case c i of None \<Rightarrow> (Inl ErrInvalidTransition, [], s)
      | Some p \<Rightarrow> if cp_cancelling p then (Inl ErrInvalidTransition, [], s)
        else case GetRun s i of None \<Rightarrow> (Inl ErrInvalidTransition, [], s)
        | Some r \<Rightarrow>
            if dr_mode r \<noteq> ModeGhost then (Inl ErrControlNotSupported, [], s)
            else if dr_status r \<noteq> DdlRunning \<and> dr_status r \<noteq> DdlPaused then (Inl ErrInvalidTransition, [], s)
            else if dr_version r \<noteq> expected then (Inl ErrStaleVersion, [], s)
            else case ApplyRuntimeTuning (dr_mode r) (dr_effective_parameters r) patch of
              Inl e \<Rightarrow> (Inl e, [], s)
            | Inr (p', cmd, rb) \<Rightarrow>
                (case send_err cmd of Some e \<Rightarrow> (Inl e, [cmd], s)
                 | None \<Rightarrow>
                     (case (if write_fails = None then UpdateEffectiveParameters now i expected (Some actor) (dr_effective_parameters r) p' s
                            else (False, s)) of
                        (True, s1) \<Rightarrow> (Inr (r\<lparr>dr_version := bump r, dr_effective_parameters := p'\<rparr>), [cmd], s1)
                      | (False, _) \<Rightarrow>
                          (Inl (if send_err rb \<noteq> None then ErrOutcomeUnknown
                                else case write_fails of Some e \<Rightarrow> e | None \<Rightarrow> ErrStaleVersion), [cmd, rb], s))))"

section \<open>Outcomes mean what they say\<close>

lemma inspect_error: "InspectToolCompletion mode db tbl res (Some e) = ToolCompletionFailed"
  by (simp add: InspectToolCompletion_def)

text \<open>
  What the recorded outcome of a tool means, for the verification the coordinator supplies. A run is
  completed exactly when nobody cancelled it and the tool printed its completion line; failed
  only if the tool failed and the table definition is unchanged; cancelled only if the definition
  is unchanged and nothing is left behind.
\<close>

theorem tool_outcome_meaning:
  fixes baseline current arts mode db tbl res err cancelling
  defines "st \<equiv> te_status (finished_outcome (plan_verify baseline current arts) mode db tbl res err cancelling)"
    and "completion \<equiv> InspectToolCompletion mode db tbl res err"
  shows "(st = DdlCompleted) = (\<not> cancelling \<and> completion = ToolCompletionSucceeded) \<and>
    (st = DdlFailed) = (\<not> cancelling \<and> completion = ToolCompletionFailed \<and> current = Some baseline \<and> arts \<noteq> None) \<and>
    (st = DdlCompletedAfterCancel) = (cancelling \<and> current \<noteq> None \<and> current \<noteq> Some baseline \<and> arts \<noteq> None) \<and>
    (st = DdlCancelled) = (cancelling \<and> current = Some baseline \<and> arts \<noteq> None \<and> \<not> HasArtifacts (the arts)) \<and>
    (st = DdlCancelledArtifacts) = (cancelling \<and> current = Some baseline \<and> arts \<noteq> None \<and> HasArtifacts (the arts)) \<and>
    onlineDDLTerminal st"
  unfolding st_def completion_def
  by (cases cancelling; cases "InspectToolCompletion mode db tbl res err"; cases err; cases current; cases arts)
     (auto simp: finished_outcome_def plan_verify_def VerifiedTerminalOutcome_def ClassifyOutcome_def onlineDDLOutcomeEvidence_def
      onlineDDLTerminal_def Let_def inspect_error)

section \<open>The runner respects its limits\<close>

definition runner_wf :: "runner_state \<Rightarrow> bool" where
  "runner_wf rs \<longleftrightarrow> length (rs_runs rs) \<le> rs_max rs \<and> distinct (rs_runs rs) \<and> distinct (rs_connections rs)"

lemma runner_wf_reserve: "reserve i c rs = (ok, rs') \<Longrightarrow> runner_wf rs \<Longrightarrow> runner_wf rs'"
  by (auto simp: reserve_def runner_wf_def split: if_splits)

lemma runner_wf_release: "runner_wf rs \<Longrightarrow> runner_wf (release_run i c rs)"
  by (auto simp: release_run_def runner_wf_def intro: le_trans [OF length_filter_le])

lemma filter_other: "x \<notin> set xs \<Longrightarrow> filter (\<lambda>y. y \<noteq> x) xs = xs"
  by (auto simp: filter_id_conv)

lemma release_reserved: "reserve i c rs = (True, rs') \<Longrightarrow> release_run i c rs' = rs"
  by (auto simp: reserve_def release_run_def filter_other split: if_splits)

lemma dispatch_loop_wf:
  assumes "dispatch_loop now fails n rows rs s = (started, rs', s')" and "runner_wf rs"
  shows "runner_wf rs' \<and> rs_max rs' = rs_max rs \<and> rs_runs rs' = rev (map dr_id started) @ rs_runs rs \<and>
    rs_connections rs' = rev (map dr_connection_id started) @ rs_connections rs"
  using assms
proof (induction rows arbitrary: n rs s started)
  case Nil
  then show ?case by simp
next
  case (Cons r rows)
  obtain ok rs1 where rs1: "reserve (dr_id r) (dr_connection_id r) rs = (ok, rs1)" by fastforce
  obtain claimed s1 where s1: "Claim now (dr_id r) (dr_version r) s = (claimed, s1)" by fastforce
  have wf1: "runner_wf rs1" using runner_wf_reserve [OF rs1 Cons.prems(2)] .
  consider "n = 0" | "n \<noteq> 0" "\<not> ok" | "n \<noteq> 0" "ok" "fails (dr_id r) \<or> \<not> claimed"
    | "n \<noteq> 0" "ok" "\<not> fails (dr_id r)" "claimed" by blast
  then show ?case
  proof cases
    case 1
    then show ?thesis using Cons.prems by simp
  next
    case 2
    then have "rs1 = rs" using rs1 by (auto simp: reserve_def split: if_splits)
    then show ?thesis using 2 Cons.prems rs1 Cons.IH [of n rs s started] by simp
  next
    case 3
    have undone: "release_run (dr_id r) (dr_connection_id r) rs1 = rs" using 3 rs1 release_reserved by simp
    show ?thesis
      using 3 Cons.prems rs1 s1 undone Cons.IH [of n rs s started] Cons.IH [of n rs s1 started]
      by (cases "fails (dr_id r)") simp_all
  next
    case 4
    obtain rest where more: "dispatch_loop now fails (n - 1) rows rs1 s1 = (rest, rs', s')" "started = r # rest"
      using 4 Cons.prems(1) rs1 s1 by (auto split: prod.splits)
    moreover have "rs_max rs1 = rs_max rs" "rs_runs rs1 = dr_id r # rs_runs rs"
      "rs_connections rs1 = dr_connection_id r # rs_connections rs"
      using rs1 4 by (auto simp: reserve_def split: if_splits)
    ultimately show ?thesis using Cons.IH [OF more(1) wf1] by simp
  qed
qed

text \<open>
  C31: a dispatch never has more runs at work than the limit and never two of them on one connection, and
  the runs it starts are exactly the ones it reserved.
\<close>

theorem dispatch_respects_limits:
  assumes "runner_wf rs" and "dispatch now fails list_fails rs s = (started, rs', s')"
  shows "length (rs_runs rs') \<le> rs_max rs \<and> distinct (rs_connections rs') \<and>
    rs_runs rs' = rev (map dr_id started) @ rs_runs rs \<and> rs_connections rs' = rev (map dr_connection_id started) @ rs_connections rs"
proof (cases "available rs = 0 \<or> list_fails")
  case True
  then show ?thesis using assms by (auto simp: dispatch_def runner_wf_def)
next
  case False
  then have "dispatch_loop now fails (available rs) (ListQueued s 100) rs s = (started, rs', s')"
    using assms(2) by (simp add: dispatch_def)
  from dispatch_loop_wf [OF this assms(1)] show ?thesis unfolding runner_wf_def by metis
qed

section \<open>Target locks\<close>

text \<open>
  While a target is locked no spelling of its name with the same key gets the lock, a release with
  another token changes nothing, and the release by the holder makes the target available.
\<close>

theorem target_lock_exclusive:
  assumes "TryAcquire host port l = (Some tok, l')" and "targetLockKey host' port' = targetLockKey host port"
  shows "fst (TryAcquire host' port' l') = None \<and>
    (\<forall>tok'. tok' = tok \<or> release_lock (targetLockKey host port) tok' l' = l') \<and>
    fst (TryAcquire host' port' (release_lock (targetLockKey host port) tok l')) \<noteq> None"
proof -
  let ?k = "targetLockKey host port"
  have got: "lock_key ?k l = (True, l')" "tok = tl_next l"
    using assms(1) by (auto simp: TryAcquire_def split: prod.splits bool.splits)
  have held: "tl_active l' ?k = Some tok" using got by (auto simp: lock_key_def split: if_splits)
  have "?k \<noteq> '':0''" using got by (auto simp: lock_key_def split: if_splits)
  then have "fst (lock_key ?k (release_lock ?k tok l'))"
    using target_lock.reacquire_after_release [of ?k l'] held by simp
  moreover have "\<not> fst (lock_key ?k l')" using target_lock.acquire_exclusive [of ?k l] got by simp
  ultimately show ?thesis
    using assms(2) held by (auto simp: TryAcquire_def release_lock_def split: prod.splits bool.splits)
qed

section \<open>Tuning keeps the tool and its record in step\<close>

text \<open>The tuning that sets the same field to the value it has now.\<close>

definition undo_tuning :: "ghost_parameters \<Rightarrow> tuning \<Rightarrow> tuning" where
  "undo_tuning g p = \<lparr>tn_max_load = map_option (\<lambda>_. gp_max_load g) (tn_max_load p),
     tn_critical_load = map_option (\<lambda>_. gp_critical_load g) (tn_critical_load p),
     tn_chunk_size = map_option (\<lambda>_. gp_chunk_size g) (tn_chunk_size p),
     tn_dml_batch_size = map_option (\<lambda>_. gp_dml_batch_size g) (tn_dml_batch_size p),
     tn_nice_ratio = map_option (\<lambda>_. gp_nice_ratio g) (tn_nice_ratio p),
     tn_max_lag_millis = map_option (\<lambda>_. gp_max_lag_millis g) (tn_max_lag_millis p)\<rparr>"

lemma set_count_undo: "set_count (undo_tuning g p) = set_count p"
  by (simp add: set_count_def undo_tuning_def)

lemma tune_undo: "tune_ghost g p = (g', Some cmd, Some rb) \<Longrightarrow> tune_ghost g' (undo_tuning g p) = (g, Some rb, Some cmd)"
  by (auto simp: tune_ghost_def undo_tuning_def split: option.splits)

lemma ApplyRuntimeTuning_Inr:
  assumes "ApplyRuntimeTuning mode cur patch = Inr (p', cmd, rb)"
  obtains g g' where "mode = ModeGhost" "Validate cur ModeGhost" "set_count patch = 1"
    "cur = \<lparr>pr_schema_version = pr_schema_version cur, pr_ghost = Some g, pr_ptosc = None\<rparr>"
    "tune_ghost g patch = (g', Some cmd, Some rb)" "p' = cur\<lparr>pr_ghost := Some g'\<rparr>" "Validate p' ModeGhost"
proof -
  have valid: "mode = ModeGhost" "Validate cur ModeGhost" "set_count patch = 1"
    using assms by (auto simp: ApplyRuntimeTuning_def split: if_splits)
  then obtain g where g: "pr_ghost cur = Some g" "pr_ptosc cur = None"
    by (auto simp: Validate_def split: if_splits option.splits)
  obtain g' c r where t: "tune_ghost g patch = (g', c, r)" by (cases "tune_ghost g patch") auto
  have "cur = \<lparr>pr_schema_version = pr_schema_version cur, pr_ghost = Some g, pr_ptosc = None\<rparr>" using g by (cases cur) simp
  moreover have "c = Some cmd \<and> r = Some rb \<and> p' = cur\<lparr>pr_ghost := Some g'\<rparr> \<and> Validate p' ModeGhost"
    using assms valid g t by (cases cur) (auto simp: ApplyRuntimeTuning_def Let_def split: if_splits option.splits)
  ultimately show ?thesis using that valid t by blast
qed

text \<open>
  The rollback command of a tuning undoes it: tuning the result with the old value of the same
  setting is accepted, gives the old parameters and sends exactly the rollback command.
\<close>

theorem tuning_rollback_restores:
  assumes "ApplyRuntimeTuning mode cur patch = Inr (p', cmd, rb)" and "pr_ghost cur = Some g"
  shows "ApplyRuntimeTuning mode p' (undo_tuning g patch) = Inr (cur, rb, cmd) \<and> Validate p' mode"
proof -
  obtain g' where t: "mode = ModeGhost" "Validate cur ModeGhost" "set_count patch = 1"
    "cur = \<lparr>pr_schema_version = pr_schema_version cur, pr_ghost = Some g, pr_ptosc = None\<rparr>"
    "tune_ghost g patch = (g', Some cmd, Some rb)" "p' = cur\<lparr>pr_ghost := Some g'\<rparr>" "Validate p' ModeGhost"
    using ApplyRuntimeTuning_Inr [OF assms(1)] assms(2) by (metis option.inject parameters.select_convs(2))
  have "tune_ghost g' (undo_tuning g patch) = (g, Some rb, Some cmd)" by (rule tune_undo [OF t(5)])
  then show ?thesis
    using t(1,2,3,6,7) t(4) by (cases cur) (simp add: ApplyRuntimeTuning_def set_count_undo Let_def)
qed

text \<open>What the commands do to the settings of the tool; a refused command has no effect.\<close>

fun apply_command :: "tool_command \<Rightarrow> ghost_parameters \<Rightarrow> ghost_parameters" where
  "apply_command (SetMaxLoad n) g = g\<lparr>gp_max_load := n\<rparr>"
| "apply_command (SetCriticalLoad n) g = g\<lparr>gp_critical_load := n\<rparr>"
| "apply_command (SetChunkSize n) g = g\<lparr>gp_chunk_size := n\<rparr>"
| "apply_command (SetDMLBatchSize n) g = g\<lparr>gp_dml_batch_size := n\<rparr>"
| "apply_command (SetNiceRatio x) g = g\<lparr>gp_nice_ratio := x\<rparr>"
| "apply_command (SetMaxLagMillis n) g = g\<lparr>gp_max_lag_millis := n\<rparr>"

definition tool_after :: "(tool_command \<Rightarrow> ddl_error option) \<Rightarrow> tool_command list \<Rightarrow> ghost_parameters \<Rightarrow> ghost_parameters" where
  "tool_after send_err cmds g = fold apply_command (filter (\<lambda>c. send_err c = None) cmds) g"

lemma apply_tune:
  "tune_ghost g p = (g', Some cmd, Some rb) \<Longrightarrow> apply_command cmd g = g' \<and> apply_command rb g' = g"
  by (auto simp: tune_ghost_def split: option.splits)

lemma update_parameters_get:
  assumes "UpdateEffectiveParameters now i v actor before after s = (True, s')" and "GetRun s i = Some r"
  shows "\<exists>r'. GetRun s' i = Some r' \<and> (dr_version r = v \<and> dr_status r \<in> {DdlRunning, DdlPaused} \<longrightarrow> dr_effective_parameters r' = after)"
proof -
  let ?P = "\<lambda>r. dr_id r = i \<and> dr_version r = v \<and> dr_status r \<in> {DdlRunning, DdlPaused}"
  let ?f = "\<lambda>r. r\<lparr>dr_effective_parameters := after, dr_version := bump r, dr_updated_at := now\<rparr>"
  have "dd_runs s' = update_where ?P ?f (dd_runs s)"
    using assms(1) by (auto simp: UpdateEffectiveParameters_def update_runs_def add_event_def split: prod.splits bool.splits)
  then have "GetRun s' i = map_option (\<lambda>r. if ?P r then ?f r else r) (GetRun s i)"
    using find_update_where [of dr_id ?f i ?P "dd_runs s"] by (simp add: GetRun_def)
  moreover have "dr_id r = i" using assms(2) by (auto simp: GetRun_def find_Some_iff)
  ultimately show ?thesis using assms(2) by simp
qed


section \<open>Deviations\<close>

text \<open>
  The transition table does not list the statuses a run really takes: without a cancel request a running
  run ends as \<open>outcome_unknown\<close> when the tool printed no completion line, which the table forbids and
  \<open>FinishOutcome\<close> records.
\<close>

lemma outcome_unknown_outside_table:
  "te_status (finished_outcome verify ModeGhost db tbl \<lparr>tr_stdout = [], tr_stderr = []\<rparr> None False) = DdlOutcomeUnknown \<and>
   \<not> CanTransitionDDL DdlRunning DdlOutcomeUnknown"
proof -
  have "InspectToolCompletion ModeGhost db tbl \<lparr>tr_stdout = [], tr_stderr = []\<rparr> None = ToolCompletionUnknown"
    by (simp add: InspectToolCompletion_def output_lines_def newline_def carriage_return_def replace_all.simps has_prefix_def
        hasExactLine_def trim_space_def Let_def)
  then show ?thesis
    by (simp add: finished_outcome_def VerifiedTerminalOutcome_def Let_def split: option.split)
qed

text \<open>A chunk time that is not a number passes the validation.\<close>

lemma chunk_time_nan_accepted:
  "valid_ptosc (the (pr_ptosc (DefaultParameters ModePTOSC))\<lparr>pp_chunk_size := None, pp_chunk_time := Some NaN\<rparr>)"
  by (simp add: valid_ptosc_def DefaultParameters_def between_def)

section \<open>Witnesses\<close>

definition sample_runner :: runner_state where
  "sample_runner = \<lparr>rs_max = 2, rs_runs = [], rs_connections = []\<rparr>"

theorem dispatch_respects_limits_witness:
  "rs_connections (fst (snd (dispatch 9 (\<lambda>_. False) False sample_runner queued_store))) = [7]"
proof -
  have wf: "runner_wf sample_runner" by (simp add: runner_wf_def sample_runner_def)
  have "map dr_connection_id (fst (dispatch 9 (\<lambda>_. False) False sample_runner queued_store)) = [7]"
    by (simp add: dispatch_def available_def sample_runner_def ListQueued_def queued_store_runs new_run_def sample_create_def
        reserve_def Claim_def update_runs_def affected_def claim_guard_def)
  moreover obtain started rs' s' where run: "dispatch 9 (\<lambda>_. False) False sample_runner queued_store = (started, rs', s')"
    by (metis prod_cases3)
  ultimately show ?thesis
    using dispatch_respects_limits [OF wf run] by (simp add: sample_runner_def)
qed

definition no_locks :: target_locks where
  "no_locks = \<lparr>tl_active = (\<lambda>_. None), tl_next = 5\<rparr>"

theorem target_lock_exclusive_witness:
  "fst (TryAcquire '' DB1.'' 33 (snd (TryAcquire ''db1'' 33 no_locks))) = None"
proof -
  have k: "targetLockKey ''db1'' 33 = ''db1:33''" by code_simp
  have k': "targetLockKey '' DB1.'' 33 = ''db1:33''" by code_simp
  have got: "TryAcquire ''db1'' 33 no_locks = (Some 5, snd (TryAcquire ''db1'' 33 no_locks))"
    by (simp add: TryAcquire_def k lock_key_def no_locks_def)
  show ?thesis using target_lock_exclusive [OF got, of "'' DB1.''" 33] k k' by simp
qed

definition sample_patch :: tuning where
  "sample_patch = \<lparr>tn_max_load = None, tn_critical_load = None, tn_chunk_size = Some 500, tn_dml_batch_size = None,
     tn_nice_ratio = None, tn_max_lag_millis = None\<rparr>"

definition tuned_parameters :: parameters where
  "tuned_parameters = (DefaultParameters ModeGhost)\<lparr>pr_ghost := Some ((the (pr_ghost (DefaultParameters ModeGhost)))\<lparr>gp_chunk_size := 500\<rparr>)\<rparr>"

lemma sample_tuning:
  "ApplyRuntimeTuning ModeGhost (DefaultParameters ModeGhost) sample_patch = Inr (tuned_parameters, SetChunkSize 500, SetChunkSize 1000)"
  by (simp add: ApplyRuntimeTuning_def DefaultParameters_def sample_patch_def Validate_def valid_ghost_def between_def set_count_def
      tune_ghost_def tuned_parameters_def Let_def)

theorem tuning_rollback_restores_witness:
  "ApplyRuntimeTuning ModeGhost tuned_parameters (undo_tuning (the (pr_ghost (DefaultParameters ModeGhost))) sample_patch)
     = Inr (DefaultParameters ModeGhost, SetChunkSize 1000, SetChunkSize 500)"
  using tuning_rollback_restores [OF sample_tuning, of "the (pr_ghost (DefaultParameters ModeGhost))"]
  by (simp add: DefaultParameters_def)

definition running_store :: ddl_store where
  "running_store = snd (Claim 8 2 1 queued_store)"

lemma running_store_run: "GetRun running_store 2 = Some (claim_row 8 (new_run 5 2 (sample_create 3)))"
  by (simp add: running_store_def Claim_def update_runs_def GetRun_def queued_store_runs update_where_def claim_guard_def new_run_def
      claim_row_def)


end
