(* ===== verification/Query_Access.thy ===== *)
theory Query_Access
  imports Ticket_Store_Laws Identity
begin

text \<open>
  The check of a query against the access rules of its user (\<open>internal/queryaccess/service.go\<close>) and the
  extraction of the tables a query names (\<open>internal/queryaccess/extract.go\<close>).

  The parsers are parameters: a query is the syntax tree they deliver, with the fields the extraction
  looks at. The queries nested in the expressions of a select statement, which it does not look at, are
  part of the tree as well. \<open>io\<close> says which database reads fail.
\<close>

section \<open>Names and patterns\<close>

record object_ref =
  or_connection :: id64
  or_database :: string
  or_schema :: string
  or_table :: string

record check_context =
  cc_database :: string
  cc_schema :: string

record db_connection =
  dc_id :: id64
  dc_db_type :: string
  dc_database :: "string option"

datatype dialect = DialectMySQL | DialectPostgres | DialectGeneric

definition DialectFromDBType :: "string \<Rightarrow> dialect" where
  "DialectFromDBType ty = (let n = to_lower (trim_space ty)
     in if n = ''mysql'' then DialectMySQL
        else if n = ''postgres'' \<or> n = ''postgresql'' then DialectPostgres else DialectGeneric)"

definition equalFold :: "string \<Rightarrow> string \<Rightarrow> bool" where
  "equalFold l r = equal_fold (trim_space l) (trim_space r)"

definition matchesPattern :: "string \<Rightarrow> string \<Rightarrow> bool" where
  "matchesPattern pat v = (let p = trim_space pat in if p = [] \<or> p = ''*'' then True else equalFold p v)"

definition matchesRule :: "object_ref \<Rightarrow> access_rule \<Rightarrow> bool" where
  "matchesRule ref r =
     (if ar_connection_id r \<noteq> or_connection ref then False
      else if \<not> matchesPattern (ar_database_pattern r) (or_database ref) then False
      else matchesPattern (ar_table_pattern r) (or_table ref))"

fun allowed_loop :: "object_ref \<Rightarrow> access_rule list \<Rightarrow> bool \<Rightarrow> bool" where
  "allowed_loop ref [] allowed = allowed"
| "allowed_loop ref (r # rs) allowed =
     (if \<not> matchesRule ref r then allowed_loop ref rs allowed
      else if ar_effect r = EffDeny then False
      else allowed_loop ref rs True)"

definition isAllowedByRules :: "object_ref \<Rightarrow> access_rule list \<Rightarrow> bool" where
  "isAllowedByRules ref rules = allowed_loop ref rules False"

definition ref_key :: "object_ref \<Rightarrow> string" where
  "ref_key ref = to_lower (trim_space (or_database ref)) @ ''|'' @ to_lower (trim_space (or_schema ref)) @ ''|'' @
     to_lower (trim_space (or_table ref))"

fun dedupe_loop :: "string list \<Rightarrow> object_ref list \<Rightarrow> object_ref list" where
  "dedupe_loop seen [] = []"
| "dedupe_loop seen (ref # refs) =
     (if trim_space (or_database ref) = [] \<or> trim_space (or_table ref) = [] then dedupe_loop seen refs
      else if ref_key ref \<in> set seen then dedupe_loop seen refs
      else ref # dedupe_loop (ref_key ref # seen) refs)"

definition dedupeRefs :: "object_ref list \<Rightarrow> object_ref list" where
  "dedupeRefs refs = dedupe_loop [] refs"

definition effectiveDatabaseName :: "db_connection \<Rightarrow> check_context \<Rightarrow> string" where
  "effectiveDatabaseName conn cc =
     (if trim_space (cc_database cc) \<noteq> [] then trim_space (cc_database cc)
      else case dc_database conn of None \<Rightarrow> [] | Some d \<Rightarrow> trim_space d)"

section \<open>Common table expressions\<close>

text \<open>Each query of a \<open>WITH\<close> clause with the names in scope for it, and the names in scope after the clause.\<close>

fun cte_scopes :: "string list \<Rightarrow> (string \<times> 'q option) list \<Rightarrow> (string list \<times> 'q) list" where
  "cte_scopes ctes [] = []"
| "cte_scopes ctes ((name, None) # rest) = cte_scopes (to_lower name # ctes) rest"
| "cte_scopes ctes ((name, Some q) # rest) = (to_lower name # ctes, q) # cte_scopes (to_lower name # ctes) rest"

definition cte_names :: "string list \<Rightarrow> (string \<times> 'q option) list \<Rightarrow> string list" where
  "cte_names ctes wth = rev (map (to_lower \<circ> fst) wth) @ ctes"

lemma cte_scopes_query: "(sc, q) \<in> set (cte_scopes ctes wth) \<Longrightarrow> \<exists>name. (name, Some q) \<in> set wth"
  by (induction ctes wth rule: cte_scopes.induct) auto

lemma cte_scopes_names:
  "(sc, q) \<in> set (cte_scopes ctes wth) \<Longrightarrow> set sc \<subseteq> set ctes \<union> to_lower ` fst ` set wth"
  by (induction ctes wth rule: cte_scopes.induct) auto

lemma cte_scopes_all: "(name, Some q) \<in> set wth \<Longrightarrow> \<exists>sc. (sc, q) \<in> set (cte_scopes ctes wth)"
proof (induction ctes wth rule: cte_scopes.induct)
  case (2 ctes n rest)
  then show ?case by auto
next
  case (3 ctes n q' rest)
  then show ?case by fastforce
qed simp

section \<open>MySQL\<close>

text \<open>
  Nodes of the MySQL tree. A select statement has its \<open>WITH\<close> clause, its \<open>FROM\<close> clause and the
  queries nested in its expressions.
\<close>

datatype my_node =
    MySelect "(string \<times> my_node option) list" "my_node option" "my_node list"
  | MySetOpr "(string \<times> my_node option) list" "my_node list"
  | MySelectList "my_node list"
  | MyTableSource my_node
  | MyTableName string string
  | MyJoin "my_node option" "my_node option"
  | MyOther

fun is_select :: "my_node \<Rightarrow> bool" where
  "is_select (MySelect _ _ _) = True"
| "is_select _ = False"

fun is_result_set :: "my_node \<Rightarrow> bool" where
  "is_result_set (MySelect _ _ _) = True"
| "is_result_set (MySetOpr _ _) = True"
| "is_result_set _ = False"

fun is_source_node :: "my_node \<Rightarrow> bool" where
  "is_source_node (MyTableSource _) = True"
| "is_source_node (MyJoin _ _) = True"
| "is_source_node _ = False"

fun is_table_source :: "my_node \<Rightarrow> bool" where
  "is_table_source (MyTableName _ _) = True"
| "is_table_source (MySelect _ _ _) = True"
| "is_table_source (MySetOpr _ _) = True"
| "is_table_source (MyJoin _ _) = True"
| "is_table_source _ = False"

fun is_set_operand :: "my_node \<Rightarrow> bool" where
  "is_set_operand (MySelect _ _ _) = True"
| "is_set_operand (MySelectList _) = True"
| "is_set_operand _ = False"

fun is_join :: "my_node \<Rightarrow> bool" where
  "is_join (MyJoin _ _) = True"
| "is_join _ = False"

lemma cte_scopes_size:
  assumes "(sc, q) \<in> set (cte_scopes ctes wth)"
  shows "f q < size_list (\<lambda>x. Suc (size_option f (snd x))) wth"
proof -
  obtain name where "(name, Some q) \<in> set wth" using cte_scopes_query [OF assms] by blast
  from size_list_estimation [OF this, of "f q" "\<lambda>x. Suc (size_option f (snd x))"] show ?thesis by simp
qed

text \<open>The collectors of the extraction, one clause per kind of node; the guards are their type switches.\<close>

function collectMySQLRefs :: "db_connection \<Rightarrow> check_context \<Rightarrow> string list \<Rightarrow> my_node \<Rightarrow> object_ref list" where
  "collectMySQLRefs conn cc ctes (MySelect wth frm subs) =
     concat (map (\<lambda>(sc, q). if is_result_set q then collectMySQLRefs conn cc sc q else []) (cte_scopes ctes wth)) @
     (case frm of None \<Rightarrow> [] | Some j \<Rightarrow> if is_join j then collectMySQLRefs conn cc (cte_names ctes wth) j else [])"
| "collectMySQLRefs conn cc ctes (MySetOpr wth sels) =
     concat (map (\<lambda>(sc, q). if is_result_set q then collectMySQLRefs conn cc sc q else []) (cte_scopes ctes wth)) @
     concat (map (\<lambda>n. if is_set_operand n then collectMySQLRefs conn cc (cte_names ctes wth) n else []) sels)"
| "collectMySQLRefs conn cc ctes (MySelectList items) =
     concat (map (\<lambda>n. if is_select n then collectMySQLRefs conn cc ctes n else []) items)"
| "collectMySQLRefs conn cc ctes (MyTableSource src) = (if is_table_source src then collectMySQLRefs conn cc ctes src else [])"
| "collectMySQLRefs conn cc ctes (MyTableName schema name) =
     (if schema = [] \<and> to_lower name \<in> set ctes then []
      else [\<lparr>or_connection = dc_id conn,
             or_database = (if trim_space schema = [] then effectiveDatabaseName conn cc else trim_space schema),
             or_schema = [], or_table = name\<rparr>])"
| "collectMySQLRefs conn cc ctes (MyJoin l r) =
     (case l of None \<Rightarrow> [] | Some n \<Rightarrow> if is_source_node n then collectMySQLRefs conn cc ctes n else []) @
     (case r of None \<Rightarrow> [] | Some n \<Rightarrow> if is_source_node n then collectMySQLRefs conn cc ctes n else [])"
| "collectMySQLRefs conn cc ctes MyOther = []"
  by pat_completeness auto
termination
  by (relation "measure (\<lambda>(_, _, _, n). size n)") (auto simp: termination_simp dest: cte_scopes_size [where f = size])

section \<open>PostgreSQL\<close>

text \<open>Nodes of the PostgreSQL tree; \<open>PgSelect\<close> has the two sides of a set operation as well.\<close>

datatype pg_node =
    PgSelect "(string \<times> pg_node option) list" "pg_node list" "pg_node option" "pg_node option" "pg_node list"
  | PgRangeVar string string
  | PgJoinExpr "pg_node option" "pg_node option"
  | PgRangeSubselect "pg_node option"
  | PgOther

fun is_pg_select :: "pg_node \<Rightarrow> bool" where
  "is_pg_select (PgSelect _ _ _ _ _) = True"
| "is_pg_select _ = False"

fun is_from_node :: "pg_node \<Rightarrow> bool" where
  "is_from_node (PgRangeVar _ _) = True"
| "is_from_node (PgJoinExpr _ _) = True"
| "is_from_node (PgRangeSubselect _) = True"
| "is_from_node _ = False"

function collectPostgresRefs :: "db_connection \<Rightarrow> check_context \<Rightarrow> string list \<Rightarrow> pg_node \<Rightarrow> object_ref list" where
  "collectPostgresRefs conn cc ctes (PgSelect wth frm larg rarg subs) =
     concat (map (\<lambda>(sc, q). if is_pg_select q then collectPostgresRefs conn cc sc q else []) (cte_scopes ctes wth)) @
     concat (map (\<lambda>n. if is_from_node n then collectPostgresRefs conn cc (cte_names ctes wth) n else []) frm) @
     (case larg of None \<Rightarrow> [] | Some n \<Rightarrow> if is_pg_select n then collectPostgresRefs conn cc (cte_names ctes wth) n else []) @
     (case rarg of None \<Rightarrow> [] | Some n \<Rightarrow> if is_pg_select n then collectPostgresRefs conn cc (cte_names ctes wth) n else [])"
| "collectPostgresRefs conn cc ctes (PgRangeVar schema rel) =
     (if to_lower rel \<in> set ctes \<and> trim_space schema = [] then []
      else [\<lparr>or_connection = dc_id conn, or_database = effectiveDatabaseName conn cc,
             or_schema = (if trim_space schema = [] then trim_space (cc_schema cc) else trim_space schema), or_table = rel\<rparr>])"
| "collectPostgresRefs conn cc ctes (PgJoinExpr l r) =
     (case l of None \<Rightarrow> [] | Some n \<Rightarrow> if is_from_node n then collectPostgresRefs conn cc ctes n else []) @
     (case r of None \<Rightarrow> [] | Some n \<Rightarrow> if is_from_node n then collectPostgresRefs conn cc ctes n else [])"
| "collectPostgresRefs conn cc ctes (PgRangeSubselect q) =
     (case q of None \<Rightarrow> [] | Some n \<Rightarrow> if is_pg_select n then collectPostgresRefs conn cc ctes n else [])"
| "collectPostgresRefs conn cc ctes PgOther = []"
  by pat_completeness auto
termination
  by (relation "measure (\<lambda>(_, _, _, n). size n)") (auto simp: termination_simp dest: cte_scopes_size [where f = size])

section \<open>Checking a query\<close>

datatype statement_ast =
    MyQuery my_node
  | MyExplain my_node
  | PgQuery pg_node
  | PgExplain pg_node
  | OtherStatement

definition extractStatementRefs :: "dialect \<Rightarrow> db_connection \<Rightarrow> statement_ast \<Rightarrow> check_context \<Rightarrow> object_ref list" where
  "extractStatementRefs d conn stmt cc = (case d of
     DialectMySQL \<Rightarrow> (case stmt of
         MyQuery n \<Rightarrow> if is_result_set n then collectMySQLRefs conn cc [] n else []
       | MyExplain n \<Rightarrow> if is_result_set n then collectMySQLRefs conn cc [] n else []
       | _ \<Rightarrow> [])
   | DialectPostgres \<Rightarrow> (case stmt of
         PgQuery n \<Rightarrow> if is_pg_select n then collectPostgresRefs conn cc [] n else []
       | PgExplain n \<Rightarrow> if is_pg_select n then collectPostgresRefs conn cc [] n else []
       | _ \<Rightarrow> [])
   | DialectGeneric \<Rightarrow> [])"

definition ExtractObjectRefs ::
    "(dialect \<Rightarrow> string \<Rightarrow> statement_ast list option) \<Rightarrow> db_connection \<Rightarrow> string \<Rightarrow> check_context \<Rightarrow> object_ref list option" where
  "ExtractObjectRefs parse conn sql cc =
     (let d = DialectFromDBType (dc_db_type conn)
      in case parse d sql of None \<Rightarrow> None
         | Some stmts \<Rightarrow> Some (dedupeRefs (concat (map (\<lambda>st. extractStatementRefs d conn st cc) stmts))))"

datatype access_read = ReadPermissions | ReadGroups | ReadRules

datatype access_result = Granted | MissingAccess "object_ref list" | CheckFailed

definition active_rules_for :: "timestamp \<Rightarrow> identity \<Rightarrow> store \<Rightarrow> id64 \<Rightarrow> db_connection \<Rightarrow> access_rule list" where
  "active_rules_for now idt s u conn = ListActiveRules now s u (GetEffectiveAuthGroupIDs now idt u) (dc_id conn)"

definition CheckSQL ::
    "(access_read \<Rightarrow> bool) \<Rightarrow> (dialect \<Rightarrow> string \<Rightarrow> statement_ast list option) \<Rightarrow> timestamp \<Rightarrow> identity \<Rightarrow> store \<Rightarrow> id64
      \<Rightarrow> db_connection \<Rightarrow> string \<Rightarrow> check_context \<Rightarrow> access_result" where
  "CheckSQL io parse now idt s u conn sql cc =
     (if io ReadPermissions then CheckFailed
      else if HasAllPermissions now idt u then Granted
      else case ExtractObjectRefs parse conn sql cc of
        None \<Rightarrow> CheckFailed
      | Some refs \<Rightarrow>
          if refs = [] then Granted
          else if io ReadGroups \<or> io ReadRules then CheckFailed
          else let rules = active_rules_for now idt s u conn;
                   missing = filter (\<lambda>ref. \<not> isAllowedByRules ref rules) refs
            in if missing \<noteq> [] then MissingAccess (dedupeRefs missing) else Granted)"

definition key_commands :: "string list" where
  "key_commands = [''GET'', ''GETRANGE'', ''GETBIT'', ''BITCOUNT'', ''BITPOS'', ''HGET'', ''HMGET'', ''HSCAN'', ''HSTRLEN'',
     ''HRANDFIELD'', ''LINDEX'', ''LRANGE'', ''LPOS'', ''SISMEMBER'', ''SMISMEMBER'', ''SSCAN'', ''SRANDMEMBER'', ''ZSCORE'',
     ''ZMSCORE'', ''ZRANK'', ''ZREVRANK'', ''ZCOUNT'', ''ZLEXCOUNT'', ''ZRANGE'', ''ZREVRANGE'', ''ZRANGEBYSCORE'',
     ''ZREVRANGEBYSCORE'', ''ZRANGEBYLEX'', ''ZREVRANGEBYLEX'', ''ZRANDMEMBER'', ''ZSCAN'', ''XLEN'', ''XRANGE'', ''XREVRANGE'',
     ''GEOHASH'', ''GEOPOS'', ''GEODIST'', ''GEOSEARCH'']"

definition redisQueryAccessKey :: "string \<Rightarrow> string list \<Rightarrow> string" where
  "redisQueryAccessKey command args =
     (case args of [] \<Rightarrow> []
      | a # rest \<Rightarrow>
          let c = to_upper (trim_space command)
          in if c \<in> set key_commands then a
             else if c = ''MGET'' then (if rest = [] then a else [])
             else if c = ''OBJECT'' then (case rest of [] \<Rightarrow> [] | b # _ \<Rightarrow> b)
             else [])"

definition CheckRedis ::
    "(access_read \<Rightarrow> bool) \<Rightarrow> timestamp \<Rightarrow> identity \<Rightarrow> store \<Rightarrow> id64 \<Rightarrow> db_connection \<Rightarrow> int \<Rightarrow> string \<Rightarrow> string list \<Rightarrow> access_result" where
  "CheckRedis io now idt s u conn dbIndex command args =
     (if io ReadPermissions then CheckFailed
      else if HasAllPermissions now idt u then Granted
      else if io ReadGroups \<or> io ReadRules then CheckFailed
      else let ref = \<lparr>or_connection = dc_id conn, or_database = itoa dbIndex, or_schema = [],
                      or_table = redisQueryAccessKey command args\<rparr>
        in if isAllowedByRules ref (active_rules_for now idt s u conn) then Granted else MissingAccess [ref])"

section \<open>The policy\<close>

text \<open>What the rules mean: some rule that does not deny applies, and none that denies.\<close>

definition permitted :: "access_rule list \<Rightarrow> object_ref \<Rightarrow> bool" where
  "permitted rules ref \<longleftrightarrow> (\<exists>r \<in> set rules. matchesRule ref r) \<and> \<not> (\<exists>r \<in> set rules. matchesRule ref r \<and> ar_effect r = EffDeny)"

lemma allowed_loop_iff:
  "allowed_loop ref rules b \<longleftrightarrow> (b \<or> (\<exists>r \<in> set rules. matchesRule ref r)) \<and>
     \<not> (\<exists>r \<in> set rules. matchesRule ref r \<and> ar_effect r = EffDeny)"
  by (induction ref rules b rule: allowed_loop.induct) auto

lemma isAllowedByRules_iff: "isAllowedByRules ref rules \<longleftrightarrow> permitted rules ref"
  by (simp add: isAllowedByRules_def permitted_def allowed_loop_iff)

section \<open>Duplicates\<close>

definition plain_ref :: "object_ref \<Rightarrow> bool" where
  "plain_ref ref \<longleftrightarrow> CHR ''|'' \<notin> set (or_database ref) \<and> CHR ''|'' \<notin> set (or_schema ref) \<and> CHR ''|'' \<notin> set (or_table ref)"

lemma append_sep_eq:
  "c \<notin> set a \<Longrightarrow> c \<notin> set b \<Longrightarrow> a @ c # x = b @ c # y \<longleftrightarrow> a = b \<and> x = y"
proof (induction a arbitrary: b)
  case Nil
  then show ?case by (cases b) auto
next
  case (Cons d a)
  then show ?case by (cases b) auto
qed

lemma lower_char_bar: "lower_char c = CHR ''|'' \<longleftrightarrow> c = CHR ''|''"
proof (cases "65 \<le> (of_char c :: nat) \<and> (of_char c :: nat) \<le> 90")
  case True
  then have "(of_char (lower_char c) :: nat) = of_char c + 32" by (simp add: lower_char_def of_char_of)
  with True have "(of_char (lower_char c) :: nat) \<noteq> of_char (CHR ''|'')" and "(of_char c :: nat) \<noteq> of_char (CHR ''|'')" by auto
  then show ?thesis by metis
next
  case False
  then show ?thesis by (auto simp: lower_char_def)
qed

lemma set_trim_space: "set (trim_space s) \<subseteq> set s"
  unfolding trim_space_def by (metis set_dropWhileD set_rev subsetI)

lemma bar_key_part: "CHR ''|'' \<notin> set s \<Longrightarrow> CHR ''|'' \<notin> set (to_lower (trim_space s))"
proof
  assume "CHR ''|'' \<notin> set s" and "CHR ''|'' \<in> set (to_lower (trim_space s))"
  then obtain c where "c \<in> set (trim_space s)" "lower_char c = CHR ''|''" by (auto simp: to_lower_def)
  then have "CHR ''|'' \<in> set s" using set_trim_space [of s] by (simp add: lower_char_bar subset_iff)
  with \<open>CHR ''|'' \<notin> set s\<close> show False by simp
qed

text \<open>Without the separator in the names the key tells references apart as the rules do.\<close>

lemma same_key_same_rules:
  assumes "plain_ref a" and "plain_ref b" and "ref_key a = ref_key b" and "or_connection a = or_connection b"
  shows "matchesRule a r = matchesRule b r"
proof -
  let ?p = "\<lambda>x. to_lower (trim_space x)"
  have "?p (or_database a) @ CHR ''|'' # (?p (or_schema a) @ CHR ''|'' # ?p (or_table a)) =
        ?p (or_database b) @ CHR ''|'' # (?p (or_schema b) @ CHR ''|'' # ?p (or_table b))"
    using assms(3) by (simp add: ref_key_def)
  then have "?p (or_database a) = ?p (or_database b)" "?p (or_table a) = ?p (or_table b)"
    using assms(1,2) by (simp_all add: append_sep_eq bar_key_part plain_ref_def)
  then show ?thesis
    using assms(4) by (simp add: matchesRule_def matchesPattern_def equalFold_def equal_fold_def Let_def)
qed

lemma dedupe_loop_covers:
  "ref \<in> set refs \<Longrightarrow> trim_space (or_database ref) \<noteq> [] \<Longrightarrow> trim_space (or_table ref) \<noteq> [] \<Longrightarrow>
   ref_key ref \<in> set seen \<or> (\<exists>ref' \<in> set (dedupe_loop seen refs). ref_key ref' = ref_key ref)"
  by (induction seen refs rule: dedupe_loop.induct) auto

lemma dedupe_loop_subset: "set (dedupe_loop seen refs) \<subseteq> set refs"
  by (induction seen refs rule: dedupe_loop.induct) auto

lemma dedupeRefs_covers:
  assumes "ref \<in> set refs" and "trim_space (or_database ref) \<noteq> []" and "trim_space (or_table ref) \<noteq> []"
  shows "\<exists>ref' \<in> set (dedupeRefs refs). ref_key ref' = ref_key ref"
  using dedupe_loop_covers [OF assms, of "[]"] by (simp add: dedupeRefs_def)

section \<open>Tables in the FROM clauses of a query\<close>

inductive in_from :: "my_node \<Rightarrow> string \<Rightarrow> string \<Rightarrow> bool" where
  table: "in_from (MyTableName schema name) schema name"
| source: "is_table_source src \<Longrightarrow> in_from src schema name \<Longrightarrow> in_from (MyTableSource src) schema name"
| join_left: "is_source_node n \<Longrightarrow> in_from n schema name \<Longrightarrow> in_from (MyJoin (Some n) r) schema name"
| join_right: "is_source_node n \<Longrightarrow> in_from n schema name \<Longrightarrow> in_from (MyJoin l (Some n)) schema name"
| select_from: "is_join j \<Longrightarrow> in_from j schema name \<Longrightarrow> in_from (MySelect wth (Some j) subs) schema name"
| select_with: "(cte, Some q) \<in> set wth \<Longrightarrow> is_result_set q \<Longrightarrow> in_from q schema name \<Longrightarrow> in_from (MySelect wth frm subs) schema name"
| set_with: "(cte, Some q) \<in> set wth \<Longrightarrow> is_result_set q \<Longrightarrow> in_from q schema name \<Longrightarrow> in_from (MySetOpr wth sels) schema name"
| set_select: "n \<in> set sels \<Longrightarrow> is_set_operand n \<Longrightarrow> in_from n schema name \<Longrightarrow> in_from (MySetOpr wth sels) schema name"
| select_list: "n \<in> set items \<Longrightarrow> is_select n \<Longrightarrow> in_from n schema name \<Longrightarrow> in_from (MySelectList items) schema name"

lemma with_size: "(cte, Some q) \<in> set wth \<Longrightarrow> f q < size_list (\<lambda>x. Suc (size_option f (snd x))) wth"
  using size_list_estimation [of "(cte, Some q)" wth "f q" "\<lambda>x. Suc (size_option f (snd x))"] by simp

text \<open>The names of all common table expressions of a query.\<close>

function my_ctes :: "my_node \<Rightarrow> string list" where
  "my_ctes (MySelect wth frm subs) = map (to_lower \<circ> fst) wth @
     concat (map (\<lambda>(_, q). case q of None \<Rightarrow> [] | Some n \<Rightarrow> my_ctes n) wth) @ (case frm of None \<Rightarrow> [] | Some j \<Rightarrow> my_ctes j)"
| "my_ctes (MySetOpr wth sels) = map (to_lower \<circ> fst) wth @
     concat (map (\<lambda>(_, q). case q of None \<Rightarrow> [] | Some n \<Rightarrow> my_ctes n) wth) @ concat (map my_ctes sels)"
| "my_ctes (MySelectList items) = concat (map my_ctes items)"
| "my_ctes (MyTableSource src) = my_ctes src"
| "my_ctes (MyTableName schema name) = []"
| "my_ctes (MyJoin l r) = (case l of None \<Rightarrow> [] | Some n \<Rightarrow> my_ctes n) @ (case r of None \<Rightarrow> [] | Some n \<Rightarrow> my_ctes n)"
| "my_ctes MyOther = []"
  by pat_completeness auto
termination
  by (relation "measure size") (auto simp: termination_simp dest: with_size [where f = size])

definition table_ref :: "db_connection \<Rightarrow> check_context \<Rightarrow> string \<Rightarrow> string \<Rightarrow> object_ref" where
  "table_ref conn cc schema name = \<lparr>or_connection = dc_id conn,
     or_database = (if trim_space schema = [] then effectiveDatabaseName conn cc else trim_space schema),
     or_schema = [], or_table = name\<rparr>"

lemma collect_cte:
  assumes "(cte, Some q) \<in> set wth" and "is_result_set q"
    and "\<And>sc. set sc \<subseteq> set ctes \<union> to_lower ` fst ` set wth \<Longrightarrow> x \<in> set (f sc q)"
  shows "x \<in> set (concat (map (\<lambda>(sc, q). if is_result_set q then f sc q else []) (cte_scopes ctes wth)))"
proof -
  obtain sc where sc: "(sc, q) \<in> set (cte_scopes ctes wth)" using cte_scopes_all [OF assms(1)] by blast
  then have "x \<in> set (f sc q)" using assms(3) cte_scopes_names by metis
  with sc assms(2) show ?thesis by force
qed

lemma in_from_collected:
  assumes "in_from n schema name" and "schema \<noteq> [] \<or> (to_lower name \<notin> set ctes \<and> to_lower name \<notin> set (my_ctes n))"
  shows "table_ref conn cc schema name \<in> set (collectMySQLRefs conn cc ctes n)"
  using assms
proof (induction arbitrary: ctes rule: in_from.induct)
  case (select_from j schema name wth subs)
  have "table_ref conn cc schema name \<in> set (collectMySQLRefs conn cc (cte_names ctes wth) j)"
    by (rule select_from.IH) (use select_from.prems in \<open>auto simp: cte_names_def\<close>)
  with select_from.hyps show ?case by simp
next
  case (select_with cte q wth schema name frm subs)
  have "table_ref conn cc schema name \<in> set (collectMySQLRefs conn cc sc q)"
    if "set sc \<subseteq> set ctes \<union> to_lower ` fst ` set wth" for sc
    by (rule select_with.IH) (use that select_with.prems select_with.hyps in \<open>force split: option.splits\<close>)
  from collect_cte [where f = "collectMySQLRefs conn cc", OF select_with.hyps(1,2) this] show ?case by simp
next
  case (set_with cte q wth schema name sels)
  have "table_ref conn cc schema name \<in> set (collectMySQLRefs conn cc sc q)"
    if "set sc \<subseteq> set ctes \<union> to_lower ` fst ` set wth" for sc
    by (rule set_with.IH) (use that set_with.prems set_with.hyps in \<open>force split: option.splits\<close>)
  from collect_cte [where f = "collectMySQLRefs conn cc", OF set_with.hyps(1,2) this] show ?case by simp
next
  case (set_select n sels schema name wth)
  have "table_ref conn cc schema name \<in> set (collectMySQLRefs conn cc (cte_names ctes wth) n)"
    by (rule set_select.IH) (use set_select.prems set_select.hyps in \<open>auto simp: cte_names_def\<close>)
  with set_select.hyps show ?case by auto
next
  case (table schema name)
  then show ?case by (simp add: table_ref_def)
next
  case (select_list n items schema name)
  then have "table_ref conn cc schema name \<in> set (collectMySQLRefs conn cc ctes n)" by auto
  with select_list.hyps show ?case by auto
qed auto

lemma collect_connection: "ref \<in> set (collectMySQLRefs conn cc ctes n) \<Longrightarrow> or_connection ref = dc_id conn"
proof (induction conn cc ctes n rule: collectMySQLRefs.induct)
  case (1 conn cc ctes wth frm subs)
  then show ?case by (auto split: option.splits if_splits prod.splits)
next
  case (2 conn cc ctes wth sels)
  then show ?case by (auto split: if_splits prod.splits)
next
  case (6 conn cc ctes l r)
  then show ?case by (auto split: option.splits if_splits)
qed (auto split: if_splits)

section \<open>Properties\<close>

definition raw_refs :: "db_connection \<Rightarrow> check_context \<Rightarrow> statement_ast list \<Rightarrow> object_ref list" where
  "raw_refs conn cc stmts = concat (map (\<lambda>st. extractStatementRefs (DialectFromDBType (dc_db_type conn)) conn st cc) stmts)"

lemma extract_connection:
  "ref \<in> set (extractStatementRefs DialectMySQL conn st cc) \<Longrightarrow> or_connection ref = dc_id conn"
  by (cases st) (auto simp: extractStatementRefs_def dest: collect_connection split: if_splits)

lemma raw_refs_connection:
  assumes "DialectFromDBType (dc_db_type conn) = DialectMySQL" and "ref \<in> set (raw_refs conn cc stmts)"
  shows "or_connection ref = dc_id conn"
proof -
  from assms obtain st where "ref \<in> set (extractStatementRefs DialectMySQL conn st cc)" by (auto simp: raw_refs_def)
  then show ?thesis by (rule extract_connection)
qed

lemma CheckSQL_granted:
  assumes "CheckSQL io parse now idt s u conn sql cc = Granted" and "\<not> HasAllPermissions now idt u"
    and "parse (DialectFromDBType (dc_db_type conn)) sql = Some stmts" and "ref \<in> set (dedupeRefs (raw_refs conn cc stmts))"
  shows "permitted (active_rules_for now idt s u conn) ref"
proof -
  have "ExtractObjectRefs parse conn sql cc = Some (dedupeRefs (raw_refs conn cc stmts))"
    using assms(3) by (simp add: ExtractObjectRefs_def raw_refs_def Let_def)
  then show ?thesis
    using assms(1,2,4) by (auto simp: CheckSQL_def Let_def filter_empty_conv isAllowedByRules_iff split: if_splits)
qed


section \<open>From an approved ticket to a granted query\<close>

lemma insert_rules_keeps: "r \<in> set (s_access_rules s) \<Longrightarrow> r \<in> set (s_access_rules (insert_rules i subj ex items s))"
  by (induction items arbitrary: s) auto

lemma insert_rules_item:
  assumes "it \<in> set items"
  shows "\<exists>r \<in> set (s_access_rules (insert_rules i subj ex items s)). ar_subject_type r = SubjUser \<and> ar_subject_id r = subj \<and>
     ar_expires_at r = ex \<and> ar_revoked_at r = None \<and> ar_connection_id r = ai_connection_id it \<and>
     ar_database_pattern r = normalizePattern (firstNonEmpty [ai_database_pattern it, ai_database_name it]) \<and>
     ar_table_pattern r = normalizePattern (firstNonEmpty [ai_table_pattern it, nullableString (ai_table_name it)])"
  using assms
proof (induction items arbitrary: s)
  case (Cons item items)
  show ?case
  proof (cases "it = item")
    case True
    then show ?thesis by (auto intro!: bexI [OF _ insert_rules_keeps])
  next
    case False
    with Cons show ?thesis by simp
  qed
qed simp

lemma approved_rules:
  assumes "ApproveTicket now i prev rv c subj ex s = (Some True, s')"
  obtains t where "s_access_rules s' = s_access_rules (insert_rules i subj ex (ListTicketItems s i) t)"
proof -
  have items: "ListTicketItems (update_tickets P f s) i = ListTicketItems s i" for P f by (simp add: ListTicketItems_def Let_def)
  show thesis
    using assms that
    by (auto simp: ApproveTicket_def touched_def createGrantsForTicketTx_def items Let_def split: if_splits)
qed

text \<open>
  Approving a query access ticket gives its subject what the ticket lists. Until the approval expires
  the rules of the subject permit every table that an item of the ticket names, unless a rule denies it.
\<close>

theorem approved_access_permits:
  assumes "ApproveTicket now i prev rv c subj ex s = (Some True, s')" and "it \<in> set (ListTicketItems s i)"
    and "or_connection ref = dc_id conn" and "ai_connection_id it = dc_id conn" and "not_expired later ex"
    and "matchesPattern (normalizePattern (firstNonEmpty [ai_database_pattern it, ai_database_name it])) (or_database ref)"
    and "matchesPattern (normalizePattern (firstNonEmpty [ai_table_pattern it, nullableString (ai_table_name it)])) (or_table ref)"
    and "\<forall>r \<in> set (active_rules_for later idt s' subj conn). matchesRule ref r \<longrightarrow> ar_effect r \<noteq> EffDeny"
  shows "permitted (active_rules_for later idt s' subj conn) ref"
proof -
  obtain t where t: "s_access_rules s' = s_access_rules (insert_rules i subj ex (ListTicketItems s i) t)"
    using approved_rules [OF assms(1)] .
  obtain r where r: "r \<in> set (s_access_rules s')" "ar_subject_type r = SubjUser" "ar_subject_id r = subj" "ar_expires_at r = ex"
    "ar_revoked_at r = None" "ar_connection_id r = ai_connection_id it"
    "ar_database_pattern r = normalizePattern (firstNonEmpty [ai_database_pattern it, ai_database_name it])"
    "ar_table_pattern r = normalizePattern (firstNonEmpty [ai_table_pattern it, nullableString (ai_table_name it)])"
    using insert_rules_item [OF assms(2), of i subj ex t] unfolding t by blast
  then have "r \<in> set (active_rules_for later idt s' subj conn)"
    using assms(4,5) by (simp add: active_rules_for_def ListActiveRules_iff active_rule_def)
  moreover have "matchesRule ref r" using r assms(3,4,6,7) by (simp add: matchesRule_def del: firstNonEmpty.simps)
  ultimately show ?thesis using assms(8) by (auto simp: permitted_def)
qed

section \<open>Gaps\<close>

text \<open>
  The check does not look into the expressions of a select statement: the result is the same whatever
  queries stand there, so a query nested in an expression reads its tables without any rule.
\<close>

lemma nested_queries_not_checked:
  "CheckSQL io (\<lambda>_ _. Some [MyQuery (MySelect wth frm subs)]) now idt s u conn sql cc
     = CheckSQL io (\<lambda>_ _. Some [MyQuery (MySelect wth frm [])]) now idt s u conn sql cc"
  by (simp add: CheckSQL_def ExtractObjectRefs_def extractStatementRefs_def Let_def split: dialect.split)

text \<open>Two tables whose names contain the separator share a key, and the second is dropped.\<close>

lemma bar_collision:
  "dedupeRefs [\<lparr>or_connection = 1, or_database = ''a'', or_schema = ''b'', or_table = ''c|d''\<rparr>,
               \<lparr>or_connection = 1, or_database = ''a'', or_schema = ''b|c'', or_table = ''d''\<rparr>]
     = [\<lparr>or_connection = 1, or_database = ''a'', or_schema = ''b'', or_table = ''c|d''\<rparr>]"
  by code_simp

text \<open>A command on several keys is checked without a key, so a rule that denies one of them does not apply.\<close>

lemma mget_without_key: "redisQueryAccessKey ''MGET'' (a # b # rest) = []"
  by (simp add: redisQueryAccessKey_def key_commands_def trim_space_def to_upper_def upper_char_def is_space_def Let_def)

section \<open>Witnesses\<close>

definition sample_connection :: db_connection where
  "sample_connection = \<lparr>dc_id = 7, dc_db_type = ''mysql'', dc_database = Some ''shop''\<rparr>"

definition sample_context :: check_context where
  "sample_context = \<lparr>cc_database = [], cc_schema = []\<rparr>"

definition sample_query :: my_node where
  "sample_query = MySelect [] (Some (MyJoin (Some (MyTableSource (MyTableName [] ''orders''))) None)) []"

definition approved_store :: store where
  "approved_store = snd (ApproveTicket 5 12 PendingReview 4 None 2 (Some 100) sample_store)"


theorem approved_access_permits_witness:
  "permitted (active_rules_for 50 sample_identity approved_store 2 sample_connection)
     \<lparr>or_connection = 7, or_database = ''shop'', or_schema = [], or_table = ''customers''\<rparr>"
proof -
  let ?ref = "\<lparr>or_connection = 7, or_database = ''shop'', or_schema = [], or_table = ''customers''\<rparr>"
  let ?it = "\<lparr>ai_ticket_id = 12, ai_connection_id = 7, ai_scope_mode = ScopeDatabase, ai_database_name = ''shop'',
    ai_table_name = None, ai_effect = EffAllow, ai_database_pattern = ''shop'', ai_table_pattern = ''*''\<rparr>"
  have "fst (ApproveTicket 5 12 PendingReview 4 None 2 (Some 100) sample_store) = Some True" by code_simp
  then have "ApproveTicket 5 12 PendingReview 4 None 2 (Some 100) sample_store = (Some True, approved_store)"
    by (simp add: approved_store_def prod_eq_iff)
  moreover have "?it \<in> set (ListTicketItems sample_store 12)" by (simp add: ListTicketItems_def sample_store_def)
  moreover have "list_all (\<lambda>r. ar_effect r \<noteq> EffDeny) (active_rules_for 50 sample_identity approved_store 2 sample_connection)"
    by code_simp
  moreover have "matchesPattern (normalizePattern (firstNonEmpty [''shop'', ''shop''])) ''shop''"
    and "matchesPattern (normalizePattern (firstNonEmpty [''*'', nullableString None])) ''customers''" by code_simp+
  ultimately show ?thesis
    by (intro approved_access_permits [where it = ?it])
      (auto simp: sample_connection_def not_expired_def list_all_iff)
qed

end
