(* ===== verification/Masking.thy ===== *)
theory Masking
  imports Go_Prelude "HOL-Library.Multiset"
begin

text \<open>
  Masking of query results: the mask modes (\<open>internal/masking/rules.go\<close>), the engine that applies rules to
  the cells of a result (\<open>internal/masking/engine.go\<close>) and the cache of rules (\<open>internal/masking/cache.go\<close>).

  Strings are ASCII, so runes are characters. A cell is the text that \<open>fmt\<close> prints for it, \<open>None\<close>
  for a null. The keyed hash, the reading of numbers, times and IP addresses, and regular expressions are
  parameters, collected in an environment. A configuration is what decoding its JSON text sets: the fields
  present in it, or nothing when the text is blank or cannot be decoded.
\<close>

section \<open>Rules\<close>

datatype mask_mode =
    ModeFull | ModePartial | ModeHash | ModeEmail | ModeFixed | ModeNumeric | ModeDateTime | ModeIP | ModeUnknown string

datatype match_type = MatchEmpty | MatchExact | MatchRegex | MatchUnknown string

record config_fields =
  cf_keep_prefix :: "int option"
  cf_keep_suffix :: "int option"
  cf_mask_char :: "string option"
  cf_mask_text :: "string option"
  cf_fixed_mask_length :: "int option"
  cf_keep_local_prefix :: "int option"
  cf_keep_domain :: "bool option"
  cf_replacement :: "string option"
  cf_value :: "string option"
  cf_operation :: "string option"
  cf_decimals :: "int option"
  cf_granularity :: "string option"
  cf_keep_segments :: "int option"

definition no_fields :: config_fields where
  "no_fields = \<lparr>cf_keep_prefix = None, cf_keep_suffix = None, cf_mask_char = None, cf_mask_text = None,
     cf_fixed_mask_length = None, cf_keep_local_prefix = None, cf_keep_domain = None, cf_replacement = None,
     cf_value = None, cf_operation = None, cf_decimals = None, cf_granularity = None, cf_keep_segments = None\<rparr>"

datatype raw_config = BlankConfig | MalformedConfig | Config config_fields

record mask_rule =
  mr_database :: string
  mr_schema :: string
  mr_table :: string
  mr_column :: string
  mr_match :: match_type
  mr_mode :: mask_mode
  mr_config :: raw_config

datatype ip_address = IPv4 nat nat nat nat | IPv6

text \<open>
  \<open>me_number\<close> gives the text of the integer part and, for a number of decimals, of the rounded number;
  \<open>me_time\<close> reads a text with a layout and gives the texts of its day and of its hour.
\<close>

record mask_env =
  me_hmac :: "string \<Rightarrow> string"
  me_number :: "string \<Rightarrow> (string \<times> (int \<Rightarrow> string)) option"
  me_time :: "string \<Rightarrow> string \<Rightarrow> (string \<times> string) option"
  me_ip :: "string \<Rightarrow> ip_address option"
  me_regex :: "string \<Rightarrow> (string \<Rightarrow> bool) option"

datatype 'a outcome = MaskOk 'a | MaskError | MaskPanic

definition or_default :: "'a \<Rightarrow> 'a option \<Rightarrow> 'a" where
  "or_default d v = (case v of None \<Rightarrow> d | Some x \<Rightarrow> x)"

definition defaultMaskToken :: string where "defaultMaskToken = ''****''"

section \<open>Modes\<close>

definition partial :: "string \<Rightarrow> string" where
  "partial v = (let n = length v
     in if n = 0 then []
        else if n \<le> 2 then defaultMaskToken
        else if n \<le> 6 then take 1 v @ defaultMaskToken @ drop (n - 1) v
        else let keep = (if n < 3 + 4 + 1 then 1 else 3); tail = (if n < 3 + 4 + 1 then 1 else 4)
          in take keep v @ defaultMaskToken @ drop (n - tail) v)"

definition mask_text :: "config_fields \<Rightarrow> string" where
  "mask_text cfg = (let text = or_default [] (cf_mask_text cfg)
     in if text \<noteq> [] then text
        else let ch = or_default [] (cf_mask_char cfg); len = or_default 0 (cf_fixed_mask_length cfg)
          in concat (replicate (if len > 0 then nat len else length defaultMaskToken) (if ch = [] then ''*'' else ch)))"

definition partialWithConfig :: "string \<Rightarrow> raw_config \<Rightarrow> string outcome" where
  "partialWithConfig v raw = (case raw of
     BlankConfig \<Rightarrow> MaskOk (partial v)
   | MalformedConfig \<Rightarrow> MaskError
   | Config cfg \<Rightarrow>
       let runes = trim_space v; n = int (length runes);
           pre = or_default 0 (cf_keep_prefix cfg); suf = or_default 0 (cf_keep_suffix cfg)
       in if n = 0 then MaskOk []
          else if pre < 0 \<or> suf < 0 \<or> or_default 0 (cf_fixed_mask_length cfg) < 0 then MaskError
          else if wrap64 (pre + suf) > n then MaskOk (partial v)
          else if pre > n \<or> suf > n then MaskPanic
          else MaskOk (take (nat pre) runes @ mask_text cfg @ drop (nat (n - suf)) runes))"

definition maskEmail :: "string \<Rightarrow> raw_config \<Rightarrow> string outcome" where
  "maskEmail v raw =
     (if raw = MalformedConfig then MaskError
      else let cfg = (case raw of Config c \<Rightarrow> c | _ \<Rightarrow> no_fields);
               keepLocal = or_default 1 (cf_keep_local_prefix cfg);
               keepDomain = or_default True (cf_keep_domain cfg);
               replacement = or_default defaultMaskToken (cf_replacement cfg)
        in case split_on (CHR ''@'') (trim_space v) of
             [local, domain] \<Rightarrow>
               if local = [] \<or> domain = [] then MaskOk (partial v)
               else MaskOk (take (nat (min (max keepLocal 0) (int (length local)))) local @ replacement @
                            (if keepDomain then ''@'' @ domain else []))
           | _ \<Rightarrow> MaskOk (partial v))"

definition fixedMask :: "raw_config \<Rightarrow> string outcome" where
  "fixedMask raw = (case raw of
     Config cfg \<Rightarrow> let v = or_default [] (cf_value cfg) in if trim_space v = [] then MaskError else MaskOk v
   | _ \<Rightarrow> MaskError)"

definition maskAmount :: "mask_env \<Rightarrow> string \<Rightarrow> raw_config \<Rightarrow> string outcome" where
  "maskAmount env v raw =
     (if raw = MalformedConfig then MaskError
      else let cfg = (case raw of Config c \<Rightarrow> c | _ \<Rightarrow> no_fields); decimals = or_default 0 (cf_decimals cfg)
        in if or_default ''round'' (cf_operation cfg) = ''zero'' then MaskOk ''0''
           else if trim_space v = [] then MaskOk []
           else case me_number env (trim_space v) of
             None \<Rightarrow> MaskOk (partial v)
           | Some (whole, rounded) \<Rightarrow> MaskOk (if decimals \<le> 0 then whole else rounded decimals))"

definition time_layouts :: "string list" where
  "time_layouts = [''2006-01-02T15:04:05.999999999Z07:00'', ''2006-01-02T15:04:05Z07:00'', ''2006-01-02 15:04:05'',
     ''2006-01-02 15:04:05.999999'', ''2006-01-02T15:04:05'', ''2006-01-02T15:04:05.999999'', ''2006-01-02'']"

fun first_time :: "mask_env \<Rightarrow> string list \<Rightarrow> string \<Rightarrow> (string \<times> string) option" where
  "first_time env [] v = None"
| "first_time env (l # ls) v = (case me_time env l v of None \<Rightarrow> first_time env ls v | Some t \<Rightarrow> Some t)"

definition truncateDateTime :: "mask_env \<Rightarrow> string \<Rightarrow> raw_config \<Rightarrow> string outcome" where
  "truncateDateTime env v raw =
     (if raw = MalformedConfig then MaskError
      else let cfg = (case raw of Config c \<Rightarrow> c | _ \<Rightarrow> no_fields); hour = (or_default ''day'' (cf_granularity cfg) = ''hour'');
               trimmed = trim_space v
        in if trimmed = [] then MaskOk []
           else case first_time env time_layouts trimmed of
             Some (dayText, hourText) \<Rightarrow> MaskOk (if hour then hourText else dayText)
           | None \<Rightarrow>
               if length trimmed \<ge> 13 \<and> hour then MaskOk (replace_all (take 13 trimmed) ''T'' '' '' @ '':00:00'')
               else if length trimmed \<ge> 10 then MaskOk (take 10 trimmed)
               else MaskOk (partial v))"

definition keep_first :: "int \<Rightarrow> string \<Rightarrow> string list \<Rightarrow> string list" where
  "keep_first k cover parts = map (\<lambda>(i, p). if int i < max k 0 then p else cover) (zip [0..<length parts] parts)"

definition maskIP :: "mask_env \<Rightarrow> string \<Rightarrow> raw_config \<Rightarrow> string outcome" where
  "maskIP env v raw =
     (if raw = MalformedConfig then MaskError
      else let cfg = (case raw of Config c \<Rightarrow> c | _ \<Rightarrow> no_fields); keep = or_default 2 (cf_keep_segments cfg);
               trimmed = trim_space v
        in case me_ip env trimmed of
             None \<Rightarrow> MaskOk (partial v)
           | Some (IPv4 a b c d) \<Rightarrow> MaskOk (join ''.'' (keep_first keep ''***'' (map nat_show [a, b, c, d])))
           | Some IPv6 \<Rightarrow> MaskOk (join '':'' (keep_first keep ''****'' (split_on (CHR '':'') trimmed))))"

definition apply_rule :: "mask_env \<Rightarrow> mask_rule \<Rightarrow> string \<Rightarrow> string outcome" where
  "apply_rule env r v = (case mr_mode r of
     ModeFull \<Rightarrow> MaskOk defaultMaskToken
   | ModePartial \<Rightarrow> partialWithConfig v (mr_config r)
   | ModeHash \<Rightarrow> MaskOk (me_hmac env v)
   | ModeEmail \<Rightarrow> maskEmail v (mr_config r)
   | ModeFixed \<Rightarrow> fixedMask (mr_config r)
   | ModeNumeric \<Rightarrow> maskAmount env v (mr_config r)
   | ModeDateTime \<Rightarrow> truncateDateTime env v (mr_config r)
   | ModeIP \<Rightarrow> maskIP env v (mr_config r)
   | ModeUnknown _ \<Rightarrow> MaskError)"

section \<open>Matching columns\<close>

definition fold_equal :: "string \<Rightarrow> string \<Rightarrow> bool" where
  "fold_equal l r = equal_fold (trim_space l) (trim_space r)"

definition MatchColumnPattern :: "mask_env \<Rightarrow> mask_rule \<Rightarrow> string \<Rightarrow> bool outcome" where
  "MatchColumnPattern env rule columnName = (case mr_match rule of
     MatchEmpty \<Rightarrow> MaskOk (fold_equal (mr_column rule) columnName)
   | MatchExact \<Rightarrow> MaskOk (fold_equal (mr_column rule) columnName)
   | MatchRegex \<Rightarrow>
       let pat = trim_space (mr_column rule)
       in if pat = [] then MaskOk False
          else (case me_regex env (''(?i)'' @ pat) of None \<Rightarrow> MaskError | Some re \<Rightarrow> MaskOk (re (trim_space columnName)))
   | MatchUnknown _ \<Rightarrow> MaskError)"

record column_origin =
  co_database :: string
  co_schema :: string
  co_table :: string
  co_column :: string

definition no_origin :: column_origin where
  "no_origin = \<lparr>co_database = [], co_schema = [], co_table = [], co_column = []\<rparr>"

record query_result =
  qr_columns :: "string list"
  qr_raw_columns :: "string list"
  qr_origins :: "column_origin list"
  qr_dependencies :: "column_origin list list"
  qr_rows :: "string option list list"

definition columnLabelsForMatching :: "query_result \<Rightarrow> string list" where
  "columnLabelsForMatching r = (if length (qr_raw_columns r) = length (qr_columns r) then qr_raw_columns r else qr_columns r)"

definition matchesOrigin :: "mask_rule \<Rightarrow> column_origin \<Rightarrow> bool" where
  "matchesOrigin rule origin =
     (if co_column origin = [] then False
      else if \<not> fold_equal (mr_column rule) (co_column origin) then False
      else if mr_database rule \<noteq> [] \<and> \<not> fold_equal (mr_database rule) (co_database origin) then False
      else if mr_schema rule \<noteq> [] \<and> \<not> fold_equal (mr_schema rule) (co_schema origin) then False
      else if mr_table rule \<noteq> [] \<and> \<not> fold_equal (mr_table rule) (co_table origin) then False
      else True)"

definition matchesColumnLabel :: "mask_rule \<Rightarrow> string \<Rightarrow> bool" where
  "matchesColumnLabel rule label =
     (if mr_database rule \<noteq> [] \<or> mr_schema rule \<noteq> [] then False
      else let parts = split_on (CHR ''.'') label
        in if length parts = 1 then mr_table rule = [] \<and> fold_equal (mr_column rule) (hd parts)
           else fold_equal (mr_table rule) (parts ! (length parts - 2)) \<and> fold_equal (mr_column rule) (last parts))"

definition origin_at :: "query_result \<Rightarrow> nat \<Rightarrow> column_origin" where
  "origin_at r i = (if i < length (qr_origins r) then qr_origins r ! i else no_origin)"

definition matchRule :: "query_result \<Rightarrow> nat \<Rightarrow> string \<Rightarrow> mask_rule list \<Rightarrow> mask_rule option" where
  "matchRule r i colName rules = find (\<lambda>rule. matchesOrigin rule (origin_at r i) \<or> matchesColumnLabel rule colName) rules"

section \<open>The engine\<close>

text \<open>A failed application ends the whole call; nothing is returned then.\<close>

fun mask_all :: "('r \<Rightarrow> 'r outcome) \<Rightarrow> 'r list \<Rightarrow> 'r list outcome" where
  "mask_all f [] = MaskOk []"
| "mask_all f (r # rs) = (case f r of
     MaskOk r' \<Rightarrow> (case mask_all f rs of MaskOk rs' \<Rightarrow> MaskOk (r' # rs') | MaskError \<Rightarrow> MaskError | MaskPanic \<Rightarrow> MaskPanic)
   | MaskError \<Rightarrow> MaskError
   | MaskPanic \<Rightarrow> MaskPanic)"

text \<open>One row for \<open>MaskResult\<close>: a column that matches a rule must exist in the row.\<close>

fun mask_labels :: "mask_env \<Rightarrow> query_result \<Rightarrow> mask_rule list \<Rightarrow> (nat \<times> string) list \<Rightarrow> string option list \<Rightarrow> string option list outcome" where
  "mask_labels env r rules [] row = MaskOk row"
| "mask_labels env r rules ((i, name) # cols) row = (case matchRule r i name rules of
     None \<Rightarrow> mask_labels env r rules cols row
   | Some rule \<Rightarrow>
       if i \<ge> length row then MaskPanic
       else case row ! i of
         None \<Rightarrow> mask_labels env r rules cols row
       | Some v \<Rightarrow> (case apply_rule env rule v of
           MaskOk m \<Rightarrow> mask_labels env r rules cols (row[i := Some m])
         | MaskError \<Rightarrow> MaskError
         | MaskPanic \<Rightarrow> MaskPanic))"

definition MaskResult :: "mask_env \<Rightarrow> query_result \<Rightarrow> mask_rule list \<Rightarrow> query_result outcome" where
  "MaskResult env r rules =
     (if rules = [] then MaskOk r
      else let labels = columnLabelsForMatching r
        in case mask_all (mask_labels env r rules (zip [0..<length labels] labels)) (qr_rows r) of
             MaskOk rows \<Rightarrow> MaskOk (r\<lparr>qr_rows := rows\<rparr>) | MaskError \<Rightarrow> MaskError | MaskPanic \<Rightarrow> MaskPanic)"

text \<open>One row for \<open>MaskColumns\<close>; the list is the order in which the map of rules is visited.\<close>

fun mask_row :: "mask_env \<Rightarrow> (int \<times> mask_rule) list \<Rightarrow> string option list \<Rightarrow> string option list outcome" where
  "mask_row env [] row = MaskOk row"
| "mask_row env ((i, rule) # rest) row =
     (if i < 0 \<or> i \<ge> int (length row) then mask_row env rest row
      else case row ! nat i of
        None \<Rightarrow> mask_row env rest row
      | Some v \<Rightarrow> (case apply_rule env rule v of
          MaskOk m \<Rightarrow> mask_row env rest (row[nat i := Some m])
        | MaskError \<Rightarrow> MaskError
        | MaskPanic \<Rightarrow> MaskPanic))"

definition MaskColumns :: "mask_env \<Rightarrow> query_result \<Rightarrow> (int \<times> mask_rule) list \<Rightarrow> query_result outcome" where
  "MaskColumns env r indexRules =
     (if indexRules = [] then MaskOk r
      else case mask_all (mask_row env indexRules) (qr_rows r) of
        MaskOk rows \<Rightarrow> MaskOk (r\<lparr>qr_rows := rows\<rparr>) | MaskError \<Rightarrow> MaskError | MaskPanic \<Rightarrow> MaskPanic)"

section \<open>The cache of rules\<close>

type_synonym rule_cache = "string \<Rightarrow> (mask_rule list \<times> int) option"

definition cacheTTL :: int where "cacheTTL = 300"

definition cache_get :: "int \<Rightarrow> string \<Rightarrow> rule_cache \<Rightarrow> mask_rule list option" where
  "cache_get now key c = (case c key of None \<Rightarrow> None | Some (rules, ex) \<Rightarrow> if now > ex then None else Some rules)"

definition cache_set :: "int \<Rightarrow> string \<Rightarrow> mask_rule list \<Rightarrow> rule_cache \<Rightarrow> rule_cache" where
  "cache_set now key rules c = c(key \<mapsto> (rules, now + cacheTTL))"

definition cache_invalidate :: "rule_cache \<Rightarrow> rule_cache" where
  "cache_invalidate c = (\<lambda>_. None)"

definition cache_invalidate_table :: "string \<Rightarrow> rule_cache \<Rightarrow> rule_cache" where
  "cache_invalidate_table key c = c(key := None)"

section \<open>Masking a row\<close>

text \<open>What the rule for a column makes of a cell.\<close>

definition cell_masked :: "mask_env \<Rightarrow> mask_rule option \<Rightarrow> string option \<Rightarrow> string option \<Rightarrow> bool" where
  "cell_masked env rule old new = (case (rule, old) of
     (Some r, Some v) \<Rightarrow> (\<exists>m. apply_rule env r v = MaskOk m \<and> new = Some m)
   | _ \<Rightarrow> new = old)"

definition row_masked :: "mask_env \<Rightarrow> (int \<times> mask_rule) list \<Rightarrow> string option list \<Rightarrow> string option list \<Rightarrow> bool" where
  "row_masked env rules row row' \<longleftrightarrow> length row' = length row \<and>
     (\<forall>c < length row. cell_masked env (map_of rules (int c)) (row ! c) (row' ! c))"

lemma row_masked_skip:
  assumes "\<And>c. c < length row \<Longrightarrow> int c = i \<Longrightarrow> row ! c = None"
  shows "row_masked env ((i, rule) # rest) row row' \<longleftrightarrow> row_masked env rest row row'"
proof -
  have "cell_masked env (map_of ((i, rule) # rest) (int c)) (row ! c) x \<longleftrightarrow> cell_masked env (map_of rest (int c)) (row ! c) x"
    if "c < length row" for c x
    using assms [OF that] by (cases "int c = i") (auto simp: cell_masked_def split: option.splits)
  then show ?thesis by (simp add: row_masked_def)
qed

lemma row_masked_step:
  assumes "k < length row" and "row ! k = Some v" and "map_of rest (int k) = None"
  shows "row_masked env ((int k, rule) # rest) row row' \<longleftrightarrow>
     (\<exists>m. apply_rule env rule v = MaskOk m \<and> row_masked env rest (row[k := Some m]) row')"
proof
  assume L: "row_masked env ((int k, rule) # rest) row row'"
  then obtain m where m: "apply_rule env rule v = MaskOk m" "row' ! k = Some m"
    using assms(1,2) by (fastforce simp: row_masked_def cell_masked_def)
  have "cell_masked env (map_of rest (int c)) (row[k := Some m] ! c) (row' ! c)" if "c < length row" for c
    using L that assms m(2) by (cases "c = k") (auto simp: row_masked_def cell_masked_def)
  then show "\<exists>m. apply_rule env rule v = MaskOk m \<and> row_masked env rest (row[k := Some m]) row'"
    using L m(1) by (auto simp: row_masked_def)
next
  assume "\<exists>m. apply_rule env rule v = MaskOk m \<and> row_masked env rest (row[k := Some m]) row'"
  then obtain m where m: "apply_rule env rule v = MaskOk m" "row_masked env rest (row[k := Some m]) row'" by blast
  have "cell_masked env (map_of ((int k, rule) # rest) (int c)) (row ! c) (row' ! c)" if c: "c < length row" for c
  proof (cases "c = k")
    case True
    have "row' ! k = Some m" using m(2) assms(1,3) by (auto simp: row_masked_def cell_masked_def dest: spec [of _ k])
    then show ?thesis using True m(1) assms(2) by (simp add: cell_masked_def)
  next
    case False
    then have "cell_masked env (map_of rest (int c)) (row ! c) (row' ! c)" using m(2) c by (auto simp: row_masked_def dest: spec [of _ c])
    then show ?thesis using False by simp
  qed
  then show "row_masked env ((int k, rule) # rest) row row'" using m(2) by (simp add: row_masked_def)
qed

lemma mask_row_iff:
  assumes "distinct (map fst rules)"
  shows "mask_row env rules row = MaskOk row' \<longleftrightarrow> row_masked env rules row row'"
  using assms
proof (induction rules arbitrary: row)
  case Nil
  have "row = row' \<longleftrightarrow> length row' = length row \<and> (\<forall>c < length row. row' ! c = row ! c)" by (metis nth_equalityI)
  then show ?case by (simp add: row_masked_def cell_masked_def)
next
  case (Cons ir rest)
  obtain i rule where ir: "ir = (i, rule)" by fastforce
  have none: "map_of rest i = None" using Cons.prems by (simp add: ir map_of_eq_None_iff)
  show ?case
  proof (cases "i < 0 \<or> i \<ge> int (length row) \<or> row ! nat i = None")
    case True
    then have "mask_row env (ir # rest) row = mask_row env rest row" by (auto simp: ir)
    moreover have "row_masked env (ir # rest) row row' \<longleftrightarrow> row_masked env rest row row'"
      unfolding ir by (rule row_masked_skip) (use True in auto)
    ultimately show ?thesis using Cons by (simp add: ir)
  next
    case False
    define k where "k = nat i"
    from False have "0 \<le> i" "i < int (length row)" "row ! k \<noteq> None" by (simp_all add: k_def)
    moreover from this have "k < length row" "i = int k" by (simp_all add: k_def)
    ultimately obtain v where v: "row ! k = Some v" "k < length row" "i = int k" by blast
    have "mask_row env (ir # rest) row = MaskOk row' \<longleftrightarrow>
        (\<exists>m. apply_rule env rule v = MaskOk m \<and> mask_row env rest (row[k := Some m]) = MaskOk row')"
      using v by (simp add: ir split: outcome.splits)
    also have "\<dots> \<longleftrightarrow> (\<exists>m. apply_rule env rule v = MaskOk m \<and> row_masked env rest (row[k := Some m]) row')"
      using Cons by (simp add: ir)
    also have "\<dots> \<longleftrightarrow> row_masked env (ir # rest) row row'"
      using row_masked_step [OF v(2,1)] none by (simp add: ir v(3))
    finally show ?thesis .
  qed
qed

lemma mask_all_Cons_iff:
  "mask_all f (r # rows) = MaskOk rows' \<longleftrightarrow> (\<exists>r' rest. rows' = r' # rest \<and> f r = MaskOk r' \<and> mask_all f rows = MaskOk rest)"
  by (cases "f r"; cases "mask_all f rows") auto

lemma mask_all_iff: "mask_all f rows = MaskOk rows' \<longleftrightarrow> list_all2 (\<lambda>r r'. f r = MaskOk r') rows rows'"
  by (induction rows arbitrary: rows') (auto simp: mask_all_Cons_iff list_all2_Cons1 simp del: mask_all.simps(2))

lemma MaskColumns_iff:
  assumes "distinct (map fst rules)" and "rules \<noteq> []"
  shows "MaskColumns env r rules = MaskOk r' \<longleftrightarrow>
     (\<exists>rows. r' = r\<lparr>qr_rows := rows\<rparr> \<and> list_all2 (row_masked env rules) (qr_rows r) rows)"
proof -
  have "(\<lambda>x y. mask_row env rules x = MaskOk y) = row_masked env rules" by (intro ext) (rule mask_row_iff [OF assms(1)])
  then have all: "list_all2 (row_masked env rules) (qr_rows r) rows \<longleftrightarrow> mask_all (mask_row env rules) (qr_rows r) = MaskOk rows" for rows
    by (simp only: mask_all_iff)
  show ?thesis unfolding all using assms(2) by (cases "mask_all (mask_row env rules) (qr_rows r)") (auto simp: MaskColumns_def)
qed

text \<open>
  Masking by column touches exactly the cells it should: if it succeeds, every non-null cell of a column
  with a rule is replaced by what the rule makes of it, and every other cell is as before.
\<close>

lemma MaskColumns_cells:
  assumes "MaskColumns env r rules = MaskOk r'" and "distinct (map fst rules)"
    and "i < length (qr_rows r)" and "c < length (qr_rows r ! i)"
  shows "length (qr_rows r') = length (qr_rows r) \<and> length (qr_rows r' ! i) = length (qr_rows r ! i) \<and>
     cell_masked env (map_of rules (int c)) (qr_rows r ! i ! c) (qr_rows r' ! i ! c)"
proof (cases "rules = []")
  case True
  then show ?thesis using assms(1) by (auto simp: MaskColumns_def cell_masked_def)
next
  case False
  then obtain rows where r': "r' = r\<lparr>qr_rows := rows\<rparr>" "list_all2 (row_masked env rules) (qr_rows r) rows"
    using assms(1) MaskColumns_iff [OF assms(2)] by blast
  then have "length rows = length (qr_rows r)" "row_masked env rules (qr_rows r ! i) (rows ! i)"
    using assms(3) by (auto simp: list_all2_conv_all_nth)
  then show ?thesis using assms(4) by (simp add: r'(1) row_masked_def)
qed

text \<open>
  The rules by column are kept in a map, which Go visits in no particular order. The order does not
  matter: it decides neither whether masking succeeds nor the result.
\<close>

theorem mask_columns_order_independent:
  assumes "mset rules' = mset rules" and "distinct (map fst rules)"
  shows "MaskColumns env r rules' = MaskOk r' \<longleftrightarrow> MaskColumns env r rules = MaskOk r'"
proof (cases "rules = []")
  case True
  then show ?thesis using assms(1) by simp
next
  case False
  have "mset (map fst rules') = mset (map fst rules)" using assms(1) by simp
  then have d: "distinct (map fst rules')" using assms(2) mset_eq_imp_distinct_iff by blast
  have "map_of rules' = map_of rules"
    using map_of_inject_set [OF d assms(2)] mset_eq_setD [OF assms(1)] by blast
  then have "row_masked env rules' = row_masked env rules" by (intro ext) (simp add: row_masked_def)
  moreover have "rules' \<noteq> []" using False assms(1) by auto
  ultimately show ?thesis using False MaskColumns_iff [OF d] MaskColumns_iff [OF assms(2)] by simp
qed

section \<open>What a partial mask hides\<close>

text \<open>Another character than the given one.\<close>

definition other_char :: "char \<Rightarrow> char" where
  "other_char c = (if c = CHR ''a'' then CHR ''b'' else CHR ''a'')"

lemma partial_change_middle:
  assumes "length pre = length pre'" and "length post = length post'"
    and "length pre + Suc (length post) = n"
    and "n > 2 \<Longrightarrow> take (if n < 8 then 1 else 3) pre = take (if n < 8 then 1 else 3) pre' \<and> (if n < 8 then 1 else 3) \<le> length pre"
    and "n > 2 \<Longrightarrow> post = post' \<and> (if n < 8 then 1 else 4) \<le> length post"
  shows "partial (pre @ c # post) = partial (pre' @ c' # post')"
  using assms by (auto simp: partial_def Let_def drop_Cons' split: if_splits)

text \<open>
  The default partial mask never gives a value away: for every non-empty value there is a different
  one of the same length with the same mask.
\<close>

theorem partial_mask_ambiguous:
  assumes "v \<noteq> []"
  shows "\<exists>v'. v' \<noteq> v \<and> length v' = length v \<and> partial v' = partial v"
proof -
  define k where "k = (if length v \<le> 2 then 0 else if length v < 8 then 1 else 3 :: nat)"
  have k: "k < length v" using assms by (auto simp: k_def)
  let ?v' = "take k v @ other_char (v ! k) # drop (Suc k) v"
  have split: "v = take k v @ v ! k # drop (Suc k) v" using k by (simp add: id_take_nth_drop)
  have "partial (take k v @ v ! k # drop (Suc k) v) = partial ?v'"
    by (rule partial_change_middle [where n = "length v"]) (use k in \<open>auto simp: k_def\<close>)
  moreover have "?v' ! k \<noteq> v ! k" using k by (auto simp: nth_append other_char_def)
  then have "?v' \<noteq> v" by force
  ultimately show ?thesis using split k by (intro exI [of _ ?v']) auto
qed

text \<open>With a configuration that keeps as many characters as there are, nothing is hidden.\<close>

lemma partial_config_reveals:
  "partialWithConfig ''secret'' (Config (no_fields\<lparr>cf_keep_prefix := Some 2, cf_keep_suffix := Some 4\<rparr>)) = MaskOk ''se****cret''"
  by code_simp

section \<open>Witnesses\<close>

definition sample_mask_env :: mask_env where
  "sample_mask_env = \<lparr>me_hmac = (\<lambda>v. ''h'' @ v), me_number = (\<lambda>_. None), me_time = (\<lambda>_ _. None), me_ip = (\<lambda>_. None),
     me_regex = (\<lambda>p. Some (\<lambda>v. contains (''(?i)'' @ v) p))\<rparr>"

definition rule_of_mode :: "mask_mode \<Rightarrow> mask_rule" where
  "rule_of_mode m = \<lparr>mr_database = [], mr_schema = [], mr_table = [], mr_column = ''x'', mr_match = MatchExact, mr_mode = m,
     mr_config = BlankConfig\<rparr>"

definition sample_result :: query_result where
  "sample_result = \<lparr>qr_columns = [''id'', ''mail''], qr_raw_columns = [], qr_origins = [], qr_dependencies = [],
     qr_rows = [[Some ''1'', Some ''ann@example.org''], [Some ''2'', None]]\<rparr>"

theorem mask_columns_order_independent_witness:
  "MaskColumns sample_mask_env sample_result [(1, rule_of_mode ModeFull), (0, rule_of_mode ModeHash)] =
     MaskOk (sample_result\<lparr>qr_rows := [[Some ''h1'', Some ''****''], [Some ''h2'', None]]\<rparr>)"
proof -
  have "MaskColumns sample_mask_env sample_result [(0, rule_of_mode ModeHash), (1, rule_of_mode ModeFull)] =
     MaskOk (sample_result\<lparr>qr_rows := [[Some ''h1'', Some ''****''], [Some ''h2'', None]]\<rparr>)" by code_simp
  then show ?thesis by (subst mask_columns_order_independent) auto
qed

theorem partial_mask_ambiguous_witness: "\<exists>v'. v' \<noteq> ''12345678'' \<and> length v' = length ''12345678'' \<and> partial v' = partial ''12345678''"
  by (rule partial_mask_ambiguous) simp

end
