(* ===== verification/Masking_Runtime.thy ===== *)
theory Masking_Runtime
  imports Query_Access Masking
begin

text \<open>
  Which columns of a result are masked for a user (\<open>internal/handler/masking_runtime.go\<close>), with the tables
  of masking rules and of exempted columns (\<open>internal/repository/masking_rule.go\<close>,
  \<open>masking_whitelist.go\<close>). Temporary access to sensitive columns comes from the ticket store.

  \<open>io\<close> says which reads of the database fail. A rule or entry of these tables whose columns for
  connection, database, schema and table are set belongs to an older layout and is never selected.
\<close>

section \<open>Tables\<close>

record db_rule =
  dm_id :: id64
  dm_global :: bool
  dm_column :: string
  dm_match :: match_type
  dm_mode :: mask_mode
  dm_config :: raw_config
  dm_enabled :: bool

record exemption =
  ex_id :: id64
  ex_connection :: id64
  ex_database :: string
  ex_schema :: string
  ex_table :: string
  ex_column :: string
  ex_enabled :: bool

record mask_db =
  md_rules :: "db_rule list"
  md_next_rule :: id64
  md_exemptions :: "exemption list"
  md_next_exemption :: id64

definition ListForConnection :: "mask_db \<Rightarrow> db_rule list" where
  "ListForConnection db = sort_key (\<lambda>r. to_lower (dm_column r)) (filter (\<lambda>r. dm_global r \<and> dm_enabled r) (md_rules db))"

definition ExistsGlobal :: "string \<Rightarrow> match_type \<Rightarrow> id64 \<Rightarrow> mask_db \<Rightarrow> bool" where
  "ExistsGlobal col mt exclude db =
     list_ex (\<lambda>r. dm_global r \<and> to_lower (dm_column r) = to_lower (trim_space col) \<and> dm_match r = mt \<and>
       (exclude = 0 \<or> dm_id r \<noteq> exclude)) (md_rules db)"

text \<open>A new rule is enabled and gets the next number; \<open>None\<close> is the refusal of a duplicate.\<close>

definition CreateRule :: "db_rule \<Rightarrow> mask_db \<Rightarrow> mask_db option" where
  "CreateRule r db =
     (if ExistsGlobal (dm_column r) (dm_match r) 0 db then None
      else Some (db\<lparr>md_rules := md_rules db @ [r\<lparr>dm_id := md_next_rule db, dm_global := True, dm_enabled := True\<rparr>],
                    md_next_rule := md_next_rule db + 1\<rparr>))"

definition PatchRule :: "db_rule \<Rightarrow> mask_db \<Rightarrow> mask_db option" where
  "PatchRule r db =
     (if ExistsGlobal (dm_column r) (dm_match r) (dm_id r) db then None
      else Some (db\<lparr>md_rules := update_where (\<lambda>x. dm_id x = dm_id r)
        (\<lambda>x. x\<lparr>dm_global := True, dm_column := dm_column r, dm_match := dm_match r, dm_mode := dm_mode r,
               dm_config := dm_config r, dm_enabled := dm_enabled r\<rparr>) (md_rules db)\<rparr>))"

definition DeleteRule :: "id64 \<Rightarrow> mask_db \<Rightarrow> mask_db" where
  "DeleteRule i db = db\<lparr>md_rules := delete_where (\<lambda>r. dm_id r = i) (md_rules db)\<rparr>"

definition names_exemption :: "exemption \<Rightarrow> id64 \<Rightarrow> string \<Rightarrow> string \<Rightarrow> string \<Rightarrow> string \<Rightarrow> bool" where
  "names_exemption e conn database schema tbl column =
     (ex_connection e = conn \<and> to_lower (ex_database e) = to_lower (trim_space database) \<and>
      to_lower (ex_schema e) = to_lower (trim_space schema) \<and> to_lower (ex_table e) = to_lower (trim_space tbl) \<and>
      to_lower (ex_column e) = to_lower (trim_space column))"

definition MatchExemption :: "id64 \<Rightarrow> string \<Rightarrow> string \<Rightarrow> string \<Rightarrow> string \<Rightarrow> mask_db \<Rightarrow> bool" where
  "MatchExemption conn database schema tbl column db =
     list_ex (\<lambda>e. names_exemption e conn database schema tbl column \<and> ex_enabled e) (md_exemptions db)"

definition ExistsExemption :: "exemption \<Rightarrow> id64 \<Rightarrow> mask_db \<Rightarrow> bool" where
  "ExistsExemption n exclude db =
     list_ex (\<lambda>e. names_exemption e (ex_connection n) (ex_database n) (ex_schema n) (ex_table n) (ex_column n) \<and>
       (exclude = 0 \<or> ex_id e \<noteq> exclude)) (md_exemptions db)"

definition CreateExemption :: "exemption \<Rightarrow> mask_db \<Rightarrow> mask_db option" where
  "CreateExemption n db =
     (if ExistsExemption n 0 db then None
      else Some (db\<lparr>md_exemptions := md_exemptions db @ [n\<lparr>ex_id := md_next_exemption db\<rparr>],
                    md_next_exemption := md_next_exemption db + 1\<rparr>))"

definition PatchExemption :: "exemption \<Rightarrow> mask_db \<Rightarrow> mask_db option" where
  "PatchExemption n db =
     (if ExistsExemption n (ex_id n) db then None
      else Some (db\<lparr>md_exemptions := update_where (\<lambda>e. ex_id e = ex_id n) (\<lambda>_. n) (md_exemptions db)\<rparr>))"

definition SetExemptionEnabled :: "id64 \<Rightarrow> bool \<Rightarrow> mask_db \<Rightarrow> mask_db" where
  "SetExemptionEnabled i enabled db =
     db\<lparr>md_exemptions := update_where (\<lambda>e. ex_id e = i) (\<lambda>e. e\<lparr>ex_enabled := enabled\<rparr>) (md_exemptions db)\<rparr>"

definition DeleteExemption :: "id64 \<Rightarrow> mask_db \<Rightarrow> mask_db" where
  "DeleteExemption i db = db\<lparr>md_exemptions := delete_where (\<lambda>e. ex_id e = i) (md_exemptions db)\<rparr>"

section \<open>Where a column comes from\<close>

definition connectionDatabaseName :: "db_connection \<Rightarrow> string" where
  "connectionDatabaseName conn = (case dc_database conn of None \<Rightarrow> [] | Some d \<Rightarrow> trim_space d)"

definition supportsSQLMasking :: "db_connection \<Rightarrow> bool" where
  "supportsSQLMasking conn = (dc_db_type conn \<in> {''mysql'', ''postgres'', ''postgresql''})"

definition originColumnName :: "column_origin \<Rightarrow> string \<Rightarrow> string" where
  "originColumnName o1 label =
     (if trim_space (co_column o1) \<noteq> [] then trim_space (co_column o1) else trim_space (last (split_on (CHR ''.'') (trim_space label))))"

definition originTableName :: "column_origin \<Rightarrow> string \<Rightarrow> string" where
  "originTableName o1 label =
     (if trim_space (co_table o1) \<noteq> [] then trim_space (co_table o1)
      else let parts = split_on (CHR ''.'') (trim_space label)
        in if length parts \<ge> 2 then trim_space (parts ! (length parts - 2)) else [])"

definition originDatabaseName :: "db_connection \<Rightarrow> column_origin \<Rightarrow> string" where
  "originDatabaseName conn o1 =
     (if trim_space (co_database o1) \<noteq> [] then trim_space (co_database o1) else connectionDatabaseName conn)"

definition resolved_origin :: "db_connection \<Rightarrow> string \<Rightarrow> column_origin \<Rightarrow> column_origin" where
  "resolved_origin conn label o1 = \<lparr>co_database = originDatabaseName conn o1, co_schema = co_schema o1,
     co_table = originTableName o1 label, co_column = originColumnName o1 label\<rparr>"

definition resultColumnDependencies :: "query_result \<Rightarrow> nat \<Rightarrow> db_connection \<Rightarrow> string \<Rightarrow> column_origin list" where
  "resultColumnDependencies r i conn label =
     (if i < length (qr_dependencies r) \<and> qr_dependencies r ! i \<noteq> [] then qr_dependencies r ! i
      else let o1 = origin_at r i
        in if originColumnName o1 label = [] then [] else [resolved_origin conn label o1])"

section \<open>Sensitive columns\<close>

datatype mask_read = ReadMaskRules | ReadExemptions | ReadOverride | ReadScopes

fun findMaskRule :: "mask_env \<Rightarrow> db_rule list \<Rightarrow> string \<Rightarrow> db_rule option outcome" where
  "findMaskRule env [] column = MaskOk None"
| "findMaskRule env (r # rs) column =
     (case MatchColumnPattern env \<lparr>mr_database = [], mr_schema = [], mr_table = [], mr_column = dm_column r, mr_match = dm_match r,
             mr_mode = ModeUnknown [], mr_config = BlankConfig\<rparr> column of
        MaskOk True \<Rightarrow> MaskOk (Some r)
      | MaskOk False \<Rightarrow> findMaskRule env rs column
      | MaskError \<Rightarrow> MaskError
      | MaskPanic \<Rightarrow> MaskPanic)"

definition origin_key :: "column_origin \<Rightarrow> string" where
  "origin_key o1 = to_lower (trim_space (co_database o1)) @ ''|'' @ to_lower (trim_space (co_schema o1)) @ ''|'' @
     to_lower (trim_space (co_table o1)) @ ''|'' @ to_lower (trim_space (co_column o1))"

text \<open>The sensitive origins of a column, each with the rule that makes it so.\<close>

fun sensitive_origins :: "(mask_read \<Rightarrow> bool) \<Rightarrow> mask_env \<Rightarrow> mask_db \<Rightarrow> db_connection \<Rightarrow> string \<Rightarrow> string list \<Rightarrow> column_origin list
    \<Rightarrow> (column_origin \<times> db_rule) list outcome" where
  "sensitive_origins io env db conn label seen [] = MaskOk []"
| "sensitive_origins io env db conn label seen (dep # deps) =
     (let o1 = resolved_origin conn label dep
      in if co_column o1 = [] then sensitive_origins io env db conn label seen deps
         else case findMaskRule env (ListForConnection db) (co_column o1) of
           MaskError \<Rightarrow> MaskError
         | MaskPanic \<Rightarrow> MaskPanic
         | MaskOk None \<Rightarrow> sensitive_origins io env db conn label seen deps
         | MaskOk (Some rule) \<Rightarrow>
             if co_table o1 \<noteq> [] \<and> co_database o1 \<noteq> [] \<and> io ReadExemptions then MaskError
             else if co_table o1 \<noteq> [] \<and> co_database o1 \<noteq> [] \<and>
               MatchExemption (dc_id conn) (co_database o1) (co_schema o1) (co_table o1) (co_column o1) db
             then sensitive_origins io env db conn label seen deps
             else if origin_key o1 \<in> set seen then sensitive_origins io env db conn label seen deps
             else (case sensitive_origins io env db conn label (origin_key o1 # seen) deps of
                     MaskOk rest \<Rightarrow> MaskOk ((o1, rule) # rest) | MaskError \<Rightarrow> MaskError | MaskPanic \<Rightarrow> MaskPanic))"

definition rule_for :: "string \<Rightarrow> mask_mode \<Rightarrow> raw_config \<Rightarrow> mask_rule" where
  "rule_for label m cfg = \<lparr>mr_database = [], mr_schema = [], mr_table = [], mr_column = label, mr_match = MatchExact,
     mr_mode = m, mr_config = cfg\<rparr>"

definition decideMaskRuleForResultColumn :: "string \<Rightarrow> (column_origin \<times> db_rule) list \<Rightarrow> mask_rule option" where
  "decideMaskRuleForResultColumn label matched = (case matched of
     [] \<Rightarrow> None
   | (_, r) # rest \<Rightarrow>
       if list_ex (\<lambda>m. dm_mode (snd m) \<noteq> dm_mode r) rest then Some (rule_for label ModeFull BlankConfig)
       else Some (rule_for label (dm_mode r) (dm_config r)))"

record decision =
  cd_index :: nat
  cd_rule :: mask_rule
  cd_origins :: "column_origin list"

fun analyze_columns :: "(mask_read \<Rightarrow> bool) \<Rightarrow> mask_env \<Rightarrow> mask_db \<Rightarrow> db_connection \<Rightarrow> query_result \<Rightarrow> (nat \<times> string) list
    \<Rightarrow> decision list outcome" where
  "analyze_columns io env db conn r [] = MaskOk []"
| "analyze_columns io env db conn r ((i, label) # cols) =
     (case sensitive_origins io env db conn label [] (resultColumnDependencies r i conn label) of
        MaskError \<Rightarrow> MaskError
      | MaskPanic \<Rightarrow> MaskPanic
      | MaskOk matched \<Rightarrow>
          (case analyze_columns io env db conn r cols of
             MaskError \<Rightarrow> MaskError
           | MaskPanic \<Rightarrow> MaskPanic
           | MaskOk rest \<Rightarrow> (case decideMaskRuleForResultColumn label matched of
               None \<Rightarrow> MaskOk rest
             | Some rule \<Rightarrow> MaskOk (\<lparr>cd_index = i, cd_rule = rule, cd_origins = map fst matched\<rparr> # rest))))"

definition analyzeSensitiveColumns :: "(mask_read \<Rightarrow> bool) \<Rightarrow> mask_env \<Rightarrow> mask_db \<Rightarrow> db_connection \<Rightarrow> query_result \<Rightarrow> decision list outcome" where
  "analyzeSensitiveColumns io env db conn r =
     (if \<not> supportsSQLMasking conn then MaskOk []
      else if io ReadMaskRules then MaskError
      else if ListForConnection db = [] then MaskOk []
      else analyze_columns io env db conn r (zip [0..<length (qr_columns r)] (qr_columns r)))"

section \<open>Who sees them\<close>

text \<open>A name of a scope that is missing or blank does not restrict it.\<close>

definition scope_part :: "string option \<Rightarrow> string \<Rightarrow> bool" where
  "scope_part v w = (case v of None \<Rightarrow> True | Some x \<Rightarrow> trim_space x = [] \<or> fold_equal x w)"

definition scopeMatchesOrigin :: "ticket_scope \<Rightarrow> column_origin \<Rightarrow> bool" where
  "scopeMatchesOrigin sc o1 =
     (if \<not> fold_equal (ts_column_name sc) (co_column o1) then False
      else if \<not> scope_part (ts_table_name sc) (co_table o1) then False
      else if \<not> scope_part (ts_schema_name sc) (co_schema o1) then False
      else if \<not> scope_part (ts_database_name sc) (co_database o1) then False
      else True)"

definition hasSensitiveOverride :: "timestamp \<Rightarrow> identity \<Rightarrow> id64 \<Rightarrow> bool" where
  "hasSensitiveOverride now idt u = (u \<noteq> 0 \<and> ''global.sensitive'' \<in> set (GetEffectivePermissionKeys now idt u))"

definition granted_indexes :: "ticket_scope list \<Rightarrow> decision list \<Rightarrow> nat list" where
  "granted_indexes scopes ds =
     map cd_index (filter (\<lambda>d. list_all (\<lambda>o1. list_ex (\<lambda>sc. scopeMatchesOrigin sc o1) scopes) (cd_origins d)) ds)"

definition active_scopes :: "timestamp \<Rightarrow> store \<Rightarrow> id64 \<Rightarrow> db_connection \<Rightarrow> ticket_scope list" where
  "active_scopes now s u conn = (if u = 0 then [] else ListActiveSensitiveAccessScopes now s u (dc_id conn))"

definition activeSensitiveAccessIndexes :: "timestamp \<Rightarrow> store \<Rightarrow> id64 \<Rightarrow> db_connection \<Rightarrow> decision list \<Rightarrow> nat list" where
  "activeSensitiveAccessIndexes now s u conn ds =
     (let scopes = active_scopes now s u conn in if scopes = [] then [] else granted_indexes scopes ds)"

definition applyAnalyzedResult :: "(mask_read \<Rightarrow> bool) \<Rightarrow> mask_env \<Rightarrow> timestamp \<Rightarrow> identity \<Rightarrow> store \<Rightarrow> db_connection \<Rightarrow> id64
    \<Rightarrow> query_result \<Rightarrow> decision list \<Rightarrow> (bool \<times> nat list \<times> query_result) outcome" where
  "applyAnalyzedResult io env now idt s conn u r ds =
     (if ds = [] then MaskOk (False, [], r)
      else if u \<noteq> 0 \<and> io ReadOverride then MaskError
      else if hasSensitiveOverride now idt u then MaskOk (True, map cd_index ds, r)
      else if u \<noteq> 0 \<and> io ReadScopes then MaskError
      else let granted = activeSensitiveAccessIndexes now s u conn ds;
               rules = map (\<lambda>d. (int (cd_index d), cd_rule d)) (filter (\<lambda>d. cd_index d \<notin> set granted) ds)
        in if rules = [] then MaskOk (False, map cd_index ds, r)
           else (case MaskColumns env r rules of
                   MaskOk r' \<Rightarrow> MaskOk (False, map cd_index ds, r') | MaskError \<Rightarrow> MaskError | MaskPanic \<Rightarrow> MaskPanic))"

definition applyResult :: "(mask_read \<Rightarrow> bool) \<Rightarrow> mask_env \<Rightarrow> timestamp \<Rightarrow> identity \<Rightarrow> store \<Rightarrow> mask_db \<Rightarrow> db_connection \<Rightarrow> id64
    \<Rightarrow> query_result \<Rightarrow> (bool \<times> nat list \<times> query_result) outcome" where
  "applyResult io env now idt s db conn u r =
     (case analyzeSensitiveColumns io env db conn r of
        MaskOk ds \<Rightarrow> applyAnalyzedResult io env now idt s conn u r ds
      | MaskError \<Rightarrow> MaskError
      | MaskPanic \<Rightarrow> MaskPanic)"

section \<open>Every sensitive origin counts\<close>

definition is_sensitive :: "mask_env \<Rightarrow> mask_db \<Rightarrow> db_connection \<Rightarrow> string \<Rightarrow> column_origin \<Rightarrow> bool" where
  "is_sensitive env db conn label dep \<longleftrightarrow>
     (let o1 = resolved_origin conn label dep
      in co_column o1 \<noteq> [] \<and> (\<exists>rule. findMaskRule env (ListForConnection db) (co_column o1) = MaskOk (Some rule)) \<and>
         \<not> (co_table o1 \<noteq> [] \<and> co_database o1 \<noteq> [] \<and>
            MatchExemption (dc_id conn) (co_database o1) (co_schema o1) (co_table o1) (co_column o1) db))"

lemma sensitive_origins_covers:
  assumes "sensitive_origins io env db conn label seen deps = MaskOk ms" and "dep \<in> set deps" and "is_sensitive env db conn label dep"
  shows "origin_key (resolved_origin conn label dep) \<in> set seen \<or>
     (\<exists>m \<in> set ms. origin_key (fst m) = origin_key (resolved_origin conn label dep))"
  using assms
proof (induction deps arbitrary: seen ms)
  case (Cons d deps)
  let ?o = "resolved_origin conn label d"
  show ?case
  proof (cases "dep = d")
    case True
    then have "co_column ?o \<noteq> []" and "\<not> (co_table ?o \<noteq> [] \<and> co_database ?o \<noteq> [] \<and>
        MatchExemption (dc_id conn) (co_database ?o) (co_schema ?o) (co_table ?o) (co_column ?o) db)"
      and "\<exists>rule. findMaskRule env (ListForConnection db) (co_column ?o) = MaskOk (Some rule)"
      using Cons.prems(3) by (simp_all add: is_sensitive_def Let_def)
    with True Cons.prems(1) show ?thesis by (auto simp: Let_def split: if_splits outcome.splits)
  next
    case False
    then have dep: "dep \<in> set deps" using Cons.prems(2) by simp
    have "(\<exists>rest rule. ms = (?o, rule) # rest \<and> sensitive_origins io env db conn label (origin_key ?o # seen) deps = MaskOk rest) \<or>
        sensitive_origins io env db conn label seen deps = MaskOk ms"
      using Cons.prems(1) by (auto simp: Let_def split: if_splits outcome.splits option.splits)
    then show ?thesis
    proof (elim disjE exE conjE)
      fix rest rule
      assume "ms = (?o, rule) # rest" and "sensitive_origins io env db conn label (origin_key ?o # seen) deps = MaskOk rest"
      with Cons.IH [OF this(2) dep Cons.prems(3)] show ?thesis by auto
    qed (use Cons.IH [OF _ dep Cons.prems(3)] in blast)
  qed
qed simp

lemma sensitive_origins_resolved:
  assumes "sensitive_origins io env db conn label seen deps = MaskOk ms" and "m \<in> set ms"
  shows "\<exists>dep \<in> set deps. fst m = resolved_origin conn label dep"
  using assms
proof (induction deps arbitrary: seen ms)
  case (Cons d deps)
  let ?o = "resolved_origin conn label d"
  have "(\<exists>rest rule. ms = (?o, rule) # rest \<and> sensitive_origins io env db conn label (origin_key ?o # seen) deps = MaskOk rest) \<or>
      sensitive_origins io env db conn label seen deps = MaskOk ms"
    using Cons.prems(1) by (auto simp: Let_def split: if_splits outcome.splits option.splits)
  then show ?case
  proof (elim disjE exE conjE)
    fix rest rule
    assume ms: "ms = (?o, rule) # rest" and rest: "sensitive_origins io env db conn label (origin_key ?o # seen) deps = MaskOk rest"
    show ?thesis using Cons.IH [OF rest] Cons.prems(2) ms by auto
  qed (use Cons.IH Cons.prems(2) in fastforce)
qed simp

lemma decide_spec:
  assumes "decideMaskRuleForResultColumn label ms = Some rule"
  shows "mr_mode rule = ModeFull \<or> (\<forall>m \<in> set ms. mr_mode rule = dm_mode (snd m))"
  using assms by (cases ms) (fastforce simp: decideMaskRuleForResultColumn_def rule_for_def list_ex_iff split: if_splits)+

lemma decide_Some: "ms \<noteq> [] \<Longrightarrow> \<exists>rule. decideMaskRuleForResultColumn label ms = Some rule"
  by (cases ms) (auto simp: decideMaskRuleForResultColumn_def)

section \<open>Decisions\<close>

lemma analyze_columns_indexes:
  "analyze_columns io env db conn r cols = MaskOk ds \<Longrightarrow> set (map cd_index ds) \<subseteq> fst ` set cols"
proof (induction cols arbitrary: ds)
  case (Cons c cols)
  obtain i label where "c = (i, label)" by fastforce
  with Cons show ?case by (fastforce split: outcome.splits option.splits)
qed simp

lemma analyze_columns_distinct:
  "analyze_columns io env db conn r cols = MaskOk ds \<Longrightarrow> distinct (map fst cols) \<Longrightarrow> distinct (map cd_index ds)"
proof (induction cols arbitrary: ds)
  case (Cons c cols)
  obtain i label where c: "c = (i, label)" by fastforce
  with Cons.prems(1) obtain rest where rest: "analyze_columns io env db conn r cols = MaskOk rest"
    "ds = rest \<or> (\<exists>d. ds = d # rest \<and> cd_index d = i)"
    by (fastforce split: outcome.splits option.splits)
  have "i \<notin> set (map cd_index rest)" using analyze_columns_indexes [OF rest(1)] Cons.prems(2) c by auto
  with Cons.IH [OF rest(1)] Cons.prems(2) rest(2) show ?case by auto
qed simp

lemma analyze_columns_decision:
  assumes "analyze_columns io env db conn r cols = MaskOk ds" and "(i, label) \<in> set cols"
  shows "\<exists>ms. sensitive_origins io env db conn label [] (resultColumnDependencies r i conn label) = MaskOk ms \<and>
     (\<forall>rule. decideMaskRuleForResultColumn label ms = Some rule \<longrightarrow>
        (\<exists>d \<in> set ds. cd_index d = i \<and> cd_rule d = rule \<and> cd_origins d = map fst ms))"
  using assms
proof (induction cols arbitrary: ds)
  case (Cons c cols)
  obtain j l where c: "c = (j, l)" by fastforce
  obtain ms where ms: "sensitive_origins io env db conn l [] (resultColumnDependencies r j conn l) = MaskOk ms"
    using Cons.prems(1) by (auto simp: c split: outcome.splits)
  obtain rest where rest: "analyze_columns io env db conn r cols = MaskOk rest"
    "ds = (case decideMaskRuleForResultColumn l ms of None \<Rightarrow> rest
       | Some rule \<Rightarrow> \<lparr>cd_index = j, cd_rule = rule, cd_origins = map fst ms\<rparr> # rest)"
    using Cons.prems(1) ms by (auto simp: c split: outcome.splits option.splits)
  have sub: "set rest \<subseteq> set ds" using rest(2) by (auto split: option.splits)
  show ?case
  proof (cases "(i, label) = (j, l)")
    case True
    then show ?thesis using ms rest(2) by (intro exI [of _ ms]) auto
  next
    case False
    then have "(i, label) \<in> set cols" using Cons.prems(2) c by auto
    from Cons.IH [OF rest(1) this] sub show ?thesis by blast
  qed
qed simp

section \<open>Access by ticket\<close>

definition plain_origin :: "column_origin \<Rightarrow> bool" where
  "plain_origin o1 \<longleftrightarrow> CHR ''|'' \<notin> set (co_database o1) \<and> CHR ''|'' \<notin> set (co_schema o1) \<and>
     CHR ''|'' \<notin> set (co_table o1) \<and> CHR ''|'' \<notin> set (co_column o1)"

lemma same_origin_same_scopes:
  assumes "plain_origin a" and "plain_origin b" and "origin_key a = origin_key b"
  shows "scopeMatchesOrigin sc a = scopeMatchesOrigin sc b"
proof -
  let ?p = "\<lambda>x. to_lower (trim_space x)"
  have "?p (co_database a) @ CHR ''|'' # (?p (co_schema a) @ CHR ''|'' # (?p (co_table a) @ CHR ''|'' # ?p (co_column a))) =
        ?p (co_database b) @ CHR ''|'' # (?p (co_schema b) @ CHR ''|'' # (?p (co_table b) @ CHR ''|'' # ?p (co_column b)))"
    using assms(3) by (simp add: origin_key_def)
  then have "?p (co_database a) = ?p (co_database b)" "?p (co_schema a) = ?p (co_schema b)"
      "?p (co_table a) = ?p (co_table b)" "?p (co_column a) = ?p (co_column b)"
    using assms(1,2) by (simp_all add: append_sep_eq bar_key_part plain_origin_def)
  then have "fold_equal y (co_database a) = fold_equal y (co_database b)" "fold_equal y (co_schema a) = fold_equal y (co_schema b)"
      "fold_equal y (co_table a) = fold_equal y (co_table b)" "fold_equal y (co_column a) = fold_equal y (co_column b)" for y
    by (simp_all add: fold_equal_def equal_fold_def)
  then show ?thesis by (simp add: scopeMatchesOrigin_def scope_part_def split: option.split)
qed

lemma not_granted:
  assumes "distinct (map cd_index ds)" and "d \<in> set ds" and "o1 \<in> set (cd_origins d)"
    and "\<forall>sc \<in> set (active_scopes now s u conn). \<not> scopeMatchesOrigin sc o1"
  shows "cd_index d \<notin> set (activeSensitiveAccessIndexes now s u conn ds)"
proof
  assume "cd_index d \<in> set (activeSensitiveAccessIndexes now s u conn ds)"
  then obtain d' where d': "d' \<in> set ds" "cd_index d' = cd_index d"
      "list_all (\<lambda>o1. list_ex (\<lambda>sc. scopeMatchesOrigin sc o1) (active_scopes now s u conn)) (cd_origins d')"
    by (auto simp: activeSensitiveAccessIndexes_def granted_indexes_def Let_def split: if_splits)
  then have "d' = d" using assms(1,2) by (metis distinct_map inj_onD)
  with d'(3) assms(3,4) show False by (auto simp: list_all_iff list_ex_iff)
qed

lemma rules_of_decisions:
  assumes "distinct (map cd_index ds)" and "d \<in> set ds" and "cd_index d \<notin> set granted"
  defines "rules \<equiv> map (\<lambda>d. (int (cd_index d), cd_rule d)) (filter (\<lambda>d. cd_index d \<notin> set granted) ds)"
  shows "distinct (map fst rules)" and "map_of rules (int (cd_index d)) = Some (cd_rule d)"
proof -
  have "distinct (map (\<lambda>d. int (cd_index d)) ds)" using assms(1) by (simp add: distinct_map inj_on_def)
  then show dist: "distinct (map fst rules)" unfolding rules_def by (simp add: comp_def distinct_map_filter)
  show "map_of rules (int (cd_index d)) = Some (cd_rule d)"
    by (rule map_of_is_SomeI [OF dist]) (use assms(2,3) in \<open>force simp: rules_def\<close>)
qed

text \<open>
  Sensitive data is shown in the clear only to those who may see it. When a result is returned to a
  user without the override permission, every cell of a column that depends on a sensitive column, one that
  a masking rule names, no exemption covers and no approved ticket of the user gives access to, is null or
  the output of the rule decided for the column; where rules of different kinds meet, that is the full mask.
\<close>

theorem sensitive_cells_masked:
  fixes r :: query_result and c :: nat and conn :: db_connection
  defines "label \<equiv> qr_columns r ! c"
  defines "deps \<equiv> resultColumnDependencies r c conn label"
  assumes "applyResult io env now idt s db conn u r = MaskOk (override, idxs, r')"
    and "supportsSQLMasking conn" and "\<not> hasSensitiveOverride now idt u"
    and "c < length (qr_columns r)" and "dep \<in> set deps" and "is_sensitive env db conn label dep"
    and "\<forall>sc \<in> set (active_scopes now s u conn). \<not> scopeMatchesOrigin sc (resolved_origin conn label dep)"
    and "\<forall>d \<in> set deps. plain_origin (resolved_origin conn label d)"
    and "i < length (qr_rows r)" and "c < length (qr_rows r ! i)"
  shows "\<exists>ms rule. sensitive_origins io env db conn label [] deps = MaskOk ms \<and>
     decideMaskRuleForResultColumn label ms = Some rule \<and>
     (mr_mode rule = ModeFull \<or> (\<forall>m \<in> set ms. mr_mode rule = dm_mode (snd m))) \<and>
     cell_masked env (Some rule) (qr_rows r ! i ! c) (qr_rows r' ! i ! c)"
proof -
  let ?cols = "zip [0..<length (qr_columns r)] (qr_columns r)"
  have rules: "ListForConnection db \<noteq> []" using assms(8) by (auto simp: is_sensitive_def Let_def)
  from assms(3) obtain ds where an: "analyzeSensitiveColumns io env db conn r = MaskOk ds"
    and ap: "applyAnalyzedResult io env now idt s conn u r ds = MaskOk (override, idxs, r')"
    by (auto simp: applyResult_def split: outcome.splits)
  have ds: "analyze_columns io env db conn r ?cols = MaskOk ds"
    using an assms(4) rules by (auto simp: analyzeSensitiveColumns_def split: if_splits)
  have "(c, label) \<in> set ?cols" using assms(6) by (auto simp: label_def set_zip intro!: exI [of _ c])
  from analyze_columns_decision [OF ds this] obtain ms where ms: "sensitive_origins io env db conn label [] deps = MaskOk ms"
    and decided: "\<And>rule. decideMaskRuleForResultColumn label ms = Some rule \<Longrightarrow>
        \<exists>d \<in> set ds. cd_index d = c \<and> cd_rule d = rule \<and> cd_origins d = map fst ms"
    unfolding deps_def by blast
  from sensitive_origins_covers [OF ms assms(7,8)] obtain m where m: "m \<in> set ms"
      "origin_key (fst m) = origin_key (resolved_origin conn label dep)" by auto
  have "plain_origin (fst m)" using sensitive_origins_resolved [OF ms m(1)] assms(10) by auto
  moreover have "plain_origin (resolved_origin conn label dep)" using assms(7,10) by blast
  ultimately have "scopeMatchesOrigin sc (fst m) = scopeMatchesOrigin sc (resolved_origin conn label dep)" for sc
    using same_origin_same_scopes m(2) by blast
  then have unscoped: "\<forall>sc \<in> set (active_scopes now s u conn). \<not> scopeMatchesOrigin sc (fst m)" using assms(9) by simp
  obtain rule where rule: "decideMaskRuleForResultColumn label ms = Some rule" using decide_Some [of ms label] list.set_cases [OF m(1)] by blast
  from decided [OF rule] obtain d where d: "d \<in> set ds" "cd_index d = c" "cd_rule d = rule" "cd_origins d = map fst ms" by blast
  have dist: "distinct (map cd_index ds)" by (rule analyze_columns_distinct [OF ds]) simp
  let ?granted = "activeSensitiveAccessIndexes now s u conn ds"
  let ?rules = "map (\<lambda>d. (int (cd_index d), cd_rule d)) (filter (\<lambda>d. cd_index d \<notin> set ?granted) ds)"
  have ng: "cd_index d \<notin> set ?granted" by (rule not_granted [OF dist d(1) _ unscoped]) (use m(1) d(4) in auto)
  note ro = rules_of_decisions [OF dist d(1) ng]
  have "?rules \<noteq> []" using d(1) ng by (auto simp: filter_empty_conv)
  then have "MaskColumns env r ?rules = MaskOk r'"
    using ap assms(5) d(1) by (auto simp: applyAnalyzedResult_def Let_def split: if_splits outcome.splits)
  from MaskColumns_cells [OF this ro(1) assms(11,12)] ro(2)
  have "cell_masked env (Some rule) (qr_rows r ! i ! c) (qr_rows r' ! i ! c)" by (simp add: d(2,3))
  then show ?thesis using ms rule decide_spec [OF rule] by blast
qed

definition sample_mask_db :: mask_db where
  "sample_mask_db = \<lparr>md_rules = [\<lparr>dm_id = 1, dm_global = True, dm_column = ''Mail'', dm_match = MatchExact, dm_mode = ModeEmail,
     dm_config = Config no_fields, dm_enabled = True\<rparr>], md_next_rule = 2, md_exemptions = [], md_next_exemption = 1\<rparr>"

definition masked_rows :: "string option list list" where
  "masked_rows = [[Some ''1'', Some ''a****@example.org''], [Some ''2'', None]]"

theorem sensitive_cells_masked_witness:
  "\<exists>rule. (mr_mode rule = ModeFull \<or> mr_mode rule = ModeEmail) \<and>
     cell_masked sample_mask_env (Some rule) (Some ''ann@example.org'') (Some ''a****@example.org'')"
proof -
  let ?r' = "sample_result\<lparr>qr_rows := masked_rows\<rparr>"
  let ?dep = "\<lparr>co_database = ''shop'', co_schema = [], co_table = [], co_column = ''mail''\<rparr>"
  let ?rule = "\<lparr>dm_id = 1, dm_global = True, dm_column = ''Mail'', dm_match = MatchExact, dm_mode = ModeEmail,
     dm_config = Config no_fields, dm_enabled = True\<rparr>"
  have label: "qr_columns sample_result ! 1 = ''mail''" by (simp add: sample_result_def)
  have deps: "resultColumnDependencies sample_result 1 sample_connection ''mail'' = [?dep]"
    and res: "resolved_origin sample_connection ''mail'' ?dep = ?dep"
    and masked: "applyResult (\<lambda>_. False) sample_mask_env 50 sample_identity sample_store sample_mask_db sample_connection 2 sample_result
      = MaskOk (False, [1], ?r')"
    and origins: "sensitive_origins (\<lambda>_. False) sample_mask_env sample_mask_db sample_connection ''mail'' [] [?dep] = MaskOk [(?dep, ?rule)]"
    and f: "findMaskRule sample_mask_env (ListForConnection sample_mask_db) ''mail'' = MaskOk (Some ?rule)"
    and "supportsSQLMasking sample_connection" and "\<not> hasSensitiveOverride 50 sample_identity 2"
    and "active_scopes 50 sample_store 2 sample_connection = []"
    by code_simp+
  moreover have "is_sensitive sample_mask_env sample_mask_db sample_connection ''mail'' ?dep"
    using f by (simp add: is_sensitive_def res)
  moreover have "plain_origin ?dep" by (simp add: plain_origin_def)
  moreover have "(1 :: nat) < length (qr_columns sample_result)" "0 < length (qr_rows sample_result)"
      "1 < length (qr_rows sample_result ! 0)" by (simp_all add: sample_result_def)
  ultimately have "\<exists>ms rule. sensitive_origins (\<lambda>_. False) sample_mask_env sample_mask_db sample_connection ''mail'' [] [?dep] = MaskOk ms \<and>
      decideMaskRuleForResultColumn ''mail'' ms = Some rule \<and>
      (mr_mode rule = ModeFull \<or> (\<forall>m \<in> set ms. mr_mode rule = dm_mode (snd m))) \<and>
      cell_masked sample_mask_env (Some rule) (qr_rows sample_result ! 0 ! 1) (qr_rows ?r' ! 0 ! 1)"
    by (intro sensitive_cells_masked [OF masked, of 1 ?dep 0, unfolded label deps]) (simp_all add: res)
  then show ?thesis unfolding origins by (auto simp: sample_result_def masked_rows_def)
qed

end
