(* ===== verification/Cron.thy ===== *)
theory Cron
  imports Go_Prelude
begin

text \<open>
  Schedules of the metadata jobs (\<open>internal/job/cron_schedule.go\<close>): parsing of five-field cron
  expressions, matching of a moment, and the next matching moment.

  A moment is a number of nanoseconds since the Unix epoch. A location is the lookup function of Go's
  \<open>time.Location\<close>: for a second it gives the offset from UTC and the bounds of the period with that
  offset. Calendar fields are those of the proleptic Gregorian calendar. The loop that enumerates a range
  adds 64-bit integers and could, as written, run forever; it is a partial function, and that it always
  returns is proved.
\<close>

section \<open>Calendar\<close>

type_synonym nanos = int
type_synonym location = "int \<Rightarrow> int \<times> int \<times> int"

definition second :: nanos where "second = 1000000000"
definition minute :: nanos where "minute = 60 * second"

definition utc :: location where "utc = (\<lambda>_. (0, min_int64, max_int64))"

text \<open>
  Years are counted from March, so that a leap day is the last day of its year: centuries of an era,
  then cycles of four years, then years.
\<close>

definition civil_date :: "int \<Rightarrow> int \<times> int \<times> int" where
  "civil_date days =
     (let z = days + 719468; era = z div 146097; doe = z mod 146097;
          c = min 3 (doe div 36524); q = (doe - 36524 * c) div 1461; r = (doe - 36524 * c) mod 1461;
          n = min 3 (r div 365); doy = r - 365 * n;
          mp = (5 * doy + 2) div 153; m = (if mp < 10 then mp + 3 else mp - 9)
      in (era * 400 + 100 * c + 4 * q + n + (if m \<le> 2 then 1 else 0), m, doy - (153 * mp + 2) div 5 + 1))"

definition civil_days :: "int \<Rightarrow> int \<Rightarrow> int \<Rightarrow> int" where
  "civil_days y m d =
     (let y' = (if m \<le> 2 then y - 1 else y); yoe = y' mod 400;
          doy = (153 * (if m > 2 then m - 3 else m + 9) + 2) div 5 + d - 1
      in y' div 400 * 146097 + yoe * 365 + yoe div 4 - yoe div 100 + doy - 719468)"

record moment =
  mo_date :: "int \<times> int \<times> int"
  mo_second :: int
  mo_weekday :: int

definition wall :: "location \<Rightarrow> nanos \<Rightarrow> moment" where
  "wall loc t = (let l = t div second + fst (loc (t div second)); days = l div 86400
     in \<lparr>mo_date = civil_date days, mo_second = l mod 86400, mo_weekday = (days + 4) mod 7\<rparr>)"

text \<open>\<open>time.Date\<close> for a day and a second of the day.\<close>

definition date_in :: "location \<Rightarrow> int \<Rightarrow> int \<Rightarrow> int" where
  "date_in loc days sec =
     (let unix = days * 86400 + sec; (offset, start, stop) = loc unix; u = unix - offset
      in if offset = 0 then unix
         else if u < start \<or> stop \<le> u then unix - fst (loc u) else u)"

text \<open>\<open>AddDate(1, 0, 0)\<close>.\<close>

definition add_year :: "location \<Rightarrow> nanos \<Rightarrow> nanos" where
  "add_year loc t = (let w = wall loc t; (y, m, d) = mo_date w
     in date_in loc (civil_days (y + 1) m d) (mo_second w) * second + t mod second)"

definition truncate_minute :: "nanos \<Rightarrow> nanos" where
  "truncate_minute t = t - t mod minute"

section \<open>Parsing\<close>

datatype cron_error =
    FieldCount | FieldError nat cron_error | EmptyItem | InvalidStep | InvalidRange | InvalidRangeStart
  | InvalidRangeEnd | InvalidValue | OutOfRange | NoMatchingTime

partial_function (option) step_values :: "int \<Rightarrow> int \<Rightarrow> int \<Rightarrow> int list option" where
  "step_values v stop step =
     (if v \<le> stop then Option.bind (step_values (wrap64 (v + step)) stop step) (\<lambda>vs. Some (v # vs)) else Some [])"

declare step_values.simps [code]

definition parse_step :: "string \<Rightarrow> cron_error + (string \<times> int)" where
  "parse_step part =
     (if contains part ''/'' then
        (case split_on (CHR ''/'') part of
           [base, s] \<Rightarrow> (case atoi s of None \<Rightarrow> Inl InvalidStep | Some n \<Rightarrow> if n \<le> 0 then Inl InvalidStep else Inr (base, n))
         | _ \<Rightarrow> Inl InvalidStep)
      else Inr (part, 1))"

definition parse_base :: "int \<Rightarrow> int \<Rightarrow> string \<Rightarrow> cron_error + (int \<times> int)" where
  "parse_base minValue maxValue base =
     (if base = ''*'' then Inr (minValue, maxValue)
      else if contains base ''-'' then
        (case split_on (CHR ''-'') base of
           [a, b] \<Rightarrow> (case atoi a of None \<Rightarrow> Inl InvalidRangeStart
             | Some start \<Rightarrow> (case atoi b of None \<Rightarrow> Inl InvalidRangeEnd | Some stop \<Rightarrow> Inr (start, stop)))
         | _ \<Rightarrow> Inl InvalidRange)
      else (case atoi base of None \<Rightarrow> Inl InvalidValue | Some v \<Rightarrow> Inr (v, v)))"

definition parse_part :: "int \<Rightarrow> int \<Rightarrow> string \<Rightarrow> cron_error + (int \<times> int \<times> int \<times> bool)" where
  "parse_part minValue maxValue part0 =
     (let part = trim_space part0
      in if part = [] then Inl EmptyItem
         else case parse_step part of Inl e \<Rightarrow> Inl e
         | Inr (base, step) \<Rightarrow>
             (case parse_base minValue maxValue base of Inl e \<Rightarrow> Inl e
              | Inr (start, stop) \<Rightarrow>
                  if start < minValue \<or> stop > maxValue \<or> start > stop then Inl OutOfRange
                  else Inr (start, stop, step, base = ''*'')))"

fun parse_parts :: "int \<Rightarrow> int \<Rightarrow> string list \<Rightarrow> int list \<Rightarrow> bool \<Rightarrow> (cron_error + (int list \<times> bool)) option" where
  "parse_parts minValue maxValue [] vs any = Some (Inr (vs, any))"
| "parse_parts minValue maxValue (part # parts) vs any =
     (case parse_part minValue maxValue part of
        Inl e \<Rightarrow> Some (Inl e)
      | Inr (start, stop, step, star) \<Rightarrow>
          Option.bind (step_values start stop step) (\<lambda>more. parse_parts minValue maxValue parts (vs @ more) (any \<or> star)))"

definition parseCronField :: "string \<Rightarrow> int \<Rightarrow> int \<Rightarrow> (cron_error + (int list \<times> bool)) option" where
  "parseCronField field minValue maxValue = parse_parts minValue maxValue (split_on (CHR '','') field) [] False"

record cron_schedule =
  cs_minutes :: "int list"
  cs_hours :: "int list"
  cs_month_days :: "int list"
  cs_months :: "int list"
  cs_weekdays :: "int list"
  cs_any_month_day :: bool
  cs_any_weekday :: bool

definition sunday :: "int list \<Rightarrow> int list" where
  "sunday ws = (if 7 \<in> set ws then removeAll 7 ws @ [0] else ws)"

text \<open>The fields one after the other; the first that fails decides the error.\<close>

definition bind_field :: "nat \<Rightarrow> (cron_error + 'a) option \<Rightarrow> ('a \<Rightarrow> (cron_error + 'b) option) \<Rightarrow> (cron_error + 'b) option" where
  "bind_field n r k = Option.bind r (\<lambda>x. case x of Inl e \<Rightarrow> Some (Inl (FieldError n e)) | Inr v \<Rightarrow> k v)"

definition parseCronSchedule :: "string \<Rightarrow> (cron_error + cron_schedule) option" where
  "parseCronSchedule expression =
     (case Go_Prelude.fields (trim_space expression) of
        [f0, f1, f2, f3, f4] \<Rightarrow>
          bind_field 0 (parseCronField f0 0 59) (\<lambda>minutes.
          bind_field 1 (parseCronField f1 0 23) (\<lambda>hours.
          bind_field 2 (parseCronField f2 1 31) (\<lambda>monthDays.
          bind_field 3 (parseCronField f3 1 12) (\<lambda>months.
          bind_field 4 (parseCronField f4 0 7) (\<lambda>weekdays.
            Some (Inr \<lparr>cs_minutes = fst minutes, cs_hours = fst hours, cs_month_days = fst monthDays,
              cs_months = fst months, cs_weekdays = sunday (fst weekdays), cs_any_month_day = snd monthDays,
              cs_any_weekday = snd weekdays\<rparr>))))))
      | _ \<Rightarrow> Some (Inl FieldCount))"

definition ValidateCronExpression :: "string \<Rightarrow> cron_error option option" where
  "ValidateCronExpression e = map_option (case_sum Some (\<lambda>_. None)) (parseCronSchedule e)"

section \<open>Matching\<close>

definition schedule_matches :: "cron_schedule \<Rightarrow> moment \<Rightarrow> bool" where
  "schedule_matches s t =
     (case mo_date t of (_, month, day) \<Rightarrow>
        if mo_second t div 60 mod 60 \<notin> set (cs_minutes s) then False
        else if mo_second t div 3600 \<notin> set (cs_hours s) then False
        else if month \<notin> set (cs_months s) then False
        else let monthDay = day \<in> set (cs_month_days s); weekday = mo_weekday t \<in> set (cs_weekdays s)
          in if \<not> cs_any_month_day s \<and> \<not> cs_any_weekday s then monthDay \<or> weekday else monthDay \<and> weekday)"

function scan_minutes :: "cron_schedule \<Rightarrow> location \<Rightarrow> nanos \<Rightarrow> nanos \<Rightarrow> nanos option" where
  "scan_minutes s loc deadline cursor =
     (if cursor \<le> deadline
      then if schedule_matches s (wall loc cursor) then Some cursor
           else scan_minutes s loc deadline (cursor + minute)
      else None)"
  by pat_completeness auto
termination
  by (relation "measure (\<lambda>(_, _, deadline, cursor). nat (deadline + 1 - cursor))") (auto simp: minute_def second_def)

declare scan_minutes.simps [simp del]

definition first_minute :: "nanos \<Rightarrow> nanos" where
  "first_minute t = truncate_minute t + minute"

definition NextCronTime :: "string \<Rightarrow> location option \<Rightarrow> nanos \<Rightarrow> (cron_error + nanos) option" where
  "NextCronTime expression location after =
     Option.bind (parseCronSchedule expression) (\<lambda>r. case r of
       Inl e \<Rightarrow> Some (Inl e)
     | Inr schedule \<Rightarrow>
         let loc = (case location of None \<Rightarrow> utc | Some l \<Rightarrow> l); cursor = first_minute after
         in (case scan_minutes schedule loc (add_year loc cursor) cursor of
               None \<Rightarrow> Some (Inl NoMatchingTime) | Some t \<Rightarrow> Some (Inr t)))"

section \<open>Enumerating a range\<close>

text \<open>With an ordinary step the loop lists the multiples of the step in the range.\<close>

lemma step_values_regular:
  assumes "0 \<le> v" and "stop \<le> 59" and "0 < step" and "step \<le> max_int64 - 59"
  shows "\<exists>vs. step_values v stop step = Some vs \<and> set vs = {x. v \<le> x \<and> x \<le> stop \<and> (x - v) mod step = 0}"
  using assms(1)
proof (induction "nat (stop + 1 - v)" arbitrary: v rule: less_induct)
  case less
  show ?case
  proof (cases "v \<le> stop")
    case False
    then show ?thesis by (subst step_values.simps) auto
  next
    case True
    then have w: "wrap64 (v + step) = v + step" using less.prems assms by (intro wrap64_id) (simp add: int64_range_def)
    have "nat (stop + 1 - (v + step)) < nat (stop + 1 - v)" using True assms(3) by simp
    from less.hyps [OF this] less.prems assms(3) obtain vs where vs: "step_values (v + step) stop step = Some vs"
      "set vs = {x. v + step \<le> x \<and> x \<le> stop \<and> (x - (v + step)) mod step = 0}" by auto
    have tail: "v + step \<le> x \<and> (x - (v + step)) mod step = 0 \<longleftrightarrow> v < x \<and> (x - v) mod step = 0" for x
    proof -
      have "(x - (v + step)) mod step = (x - v) mod step" by (metis diff_diff_eq minus_mod_self2)
      moreover have "v + step \<le> x" if "v < x" "(x - v) mod step = 0"
        using that zdvd_imp_le [of step "x - v"] by auto
      ultimately show ?thesis using assms(3) by auto
    qed
    have "set (v # vs) = {x. v \<le> x \<and> x \<le> stop \<and> (x - v) mod step = 0}"
    proof (rule set_eqI)
      fix x
      show "x \<in> set (v # vs) \<longleftrightarrow> x \<in> {x. v \<le> x \<and> x \<le> stop \<and> (x - v) mod step = 0}"
        using tail [of x] True by (auto simp: vs(2))
    qed
    moreover have "step_values v stop step = Some (v # vs)" by (subst step_values.simps) (simp add: True w vs(1))
    ultimately show ?thesis by blast
  qed
qed

text \<open>
  A step so large that the addition overflows makes the loop run through negative numbers and back; it
  returns nevertheless.
\<close>

lemma step_values_stop: "stop < v \<Longrightarrow> step_values v stop step = Some []"
  by (subst step_values.simps) simp

lemma step_values_next:
  "v \<le> stop \<Longrightarrow> step_values (wrap64 (v + step)) stop step = Some vs \<Longrightarrow> step_values v stop step = Some (v # vs)"
  by (subst step_values.simps) simp

lemma wrap64_period: "int64_range x \<Longrightarrow> wrap64 (x + 18446744073709551616) = x"
  using wrap64_id [of x] mod_add_self2 [of "x + 9223372036854775808" 18446744073709551616]
  by (simp add: wrap64_def algebra_simps)

lemma step_values_overflow:
  assumes "0 \<le> v" and "v \<le> 59" and "stop \<le> 59" and "max_int64 - 59 < step" and "step \<le> max_int64"
  shows "\<exists>vs. step_values v stop step = Some vs"
  using assms(1,2)
proof (induction "nat v" arbitrary: v rule: less_induct)
  case less
  define d where "d = 9223372036854775808 - step"
  have d: "0 < d" "d \<le> 59" "step = 9223372036854775808 - d" using assms(4,5) by (auto simp: d_def)
  show ?case
  proof (cases "v \<le> stop")
    case False
    then show ?thesis using step_values_stop by force
  next
    case True
    show ?thesis
    proof (cases "v < d")
      case True
      then have "wrap64 (v + step) = v + step" using less.prems d by (intro wrap64_id) (simp add: int64_range_def)
      then have "step_values (wrap64 (v + step)) stop step = Some []" using d less.prems assms(3) by (intro step_values_stop) simp
      then show ?thesis using step_values_next [OF \<open>v \<le> stop\<close>] by blast
    next
      case False
      have sum: "v + step = v - d - 9223372036854775808 + 18446744073709551616" using d(3) by simp
      have neg: "wrap64 (v + step) = v - d - 9223372036854775808"
        unfolding sum by (rule wrap64_period) (use False less.prems d(1) in \<open>simp add: int64_range_def\<close>)
      have "v - d - 9223372036854775808 + step = v - 2 * d" using d(3) by simp
      then have home: "wrap64 (v - d - 9223372036854775808 + step) = v - 2 * d"
        using less.prems d(1,2) by (simp add: wrap64_id int64_range_def)
      have "\<exists>vs. step_values (v - 2 * d) stop step = Some vs"
      proof (cases "v - 2 * d \<ge> 0")
        case True
        then show ?thesis using less.hyps [of "v - 2 * d"] less.prems d by simp
      next
        case neg2: False
        show ?thesis
        proof (cases "v - 2 * d \<le> stop")
          case True
          have "wrap64 (v - 2 * d + step) = v - 2 * d + step"
            using less.prems d False neg2 by (intro wrap64_id) (simp add: int64_range_def)
          then have "step_values (wrap64 (v - 2 * d + step)) stop step = Some []"
            using less.prems d False assms(3) by (intro step_values_stop) simp
          then show ?thesis using step_values_next [OF True] by blast
        qed (use step_values_stop in force)
      qed
      then obtain vs where "step_values (wrap64 (v - d - 9223372036854775808 + step)) stop step = Some vs" by (auto simp: home)
      then have "step_values (wrap64 (v + step)) stop step = Some ((v - d - 9223372036854775808) # vs)"
        unfolding neg using less.prems d True by (intro step_values_next) auto
      then show ?thesis using step_values_next [OF True] by blast
    qed
  qed
qed

lemma step_values_returns:
  assumes "0 \<le> v" and "v \<le> 59" and "stop \<le> 59" and "0 < step" and "step \<le> max_int64"
  shows "\<exists>vs. step_values v stop step = Some vs"
proof (cases "step \<le> max_int64 - 59")
  case True
  then show ?thesis using step_values_regular assms by blast
next
  case False
  then show ?thesis using step_values_overflow assms by (meson not_le)
qed

text \<open>The values that such a step adds to the range: a schedule for minute 59 also matches minute 57.\<close>

lemma overflowing_step_adds_values:
  "map_option (\<lambda>vs. 57 \<in> set vs) (step_values 59 59 9223372036854775807) = Some True"
  by code_simp

section \<open>Parsing returns\<close>

lemma parse_step_range: "parse_step part = Inr (base, step) \<Longrightarrow> 0 < step \<and> step \<le> max_int64"
  by (auto simp: parse_step_def int64_range_def dest: atoi_range split: if_splits list.splits option.splits)

lemma parse_part_range:
  assumes "parse_part lo hi part = Inr (start, stop, step, star)"
  shows "lo \<le> start \<and> start \<le> stop \<and> stop \<le> hi \<and> 0 < step \<and> step \<le> max_int64"
  using assms parse_step_range
  by (fastforce simp: parse_part_def Let_def split: if_splits sum.splits prod.splits)

lemma parse_parts_returns:
  assumes "0 \<le> lo" and "hi \<le> 59"
  shows "\<exists>r. parse_parts lo hi parts vs any = Some r"
proof (induction parts arbitrary: vs any)
  case (Cons part parts)
  show ?case
  proof (cases "parse_part lo hi part")
    case (Inr b)
    then obtain start stop step star where b: "parse_part lo hi part = Inr (start, stop, step, star)" by (cases b) auto
    from parse_part_range [OF b] assms obtain more where "step_values start stop step = Some more"
      using step_values_returns [of start stop step] by force
    with b Cons.IH show ?thesis by simp
  qed simp
qed simp

lemma parseCronField_returns: "0 \<le> lo \<Longrightarrow> hi \<le> 59 \<Longrightarrow> \<exists>r. parseCronField field lo hi = Some r"
  by (simp add: parseCronField_def parse_parts_returns)

lemma bind_field_returns:
  assumes "\<exists>x. r = Some x" and "\<And>v. \<exists>y. k v = Some y"
  shows "\<exists>y. bind_field n r k = Some y"
proof -
  from assms(1) obtain x where "r = Some x" by blast
  then show ?thesis using assms(2) by (cases x) (auto simp: bind_field_def)
qed

text \<open>
  Parsing of a cron expression returns, with a schedule or an error, for every text, although the loop
  over a range may overflow.
\<close>

theorem cron_parse_returns: "\<exists>r. parseCronSchedule expression = Some r"
proof -
  have "\<exists>r. parseCronField f lo hi = Some r" if "0 \<le> lo \<and> hi \<le> 59" for f lo hi
    using that parseCronField_returns by blast
  then show ?thesis
    unfolding parseCronSchedule_def
    by (auto split: list.splits intro!: bind_field_returns)
qed

section \<open>The calendar\<close>

lemma div_bounds:
  fixes x k :: int
  assumes "0 < k"
  shows "k * (x div k) \<le> x" and "x < k * (x div k) + k"
proof -
  have "k * (x div k) + x mod k = x" by simp
  then show "k * (x div k) \<le> x" "x < k * (x div k) + k"
    using pos_mod_sign [OF assms, of x] pos_mod_bound [OF assms, of x] by linarith+
qed

lemma month_of_day:
  fixes doy :: int
  assumes "0 \<le> doy" and "doy \<le> 365"
  defines "mp \<equiv> (5 * doy + 2) div 153"
  shows "0 \<le> mp" and "mp \<le> 11" and "0 \<le> doy - (153 * mp + 2) div 5" and "doy - (153 * mp + 2) div 5 \<le> 30"
proof -
  have mp: "153 * mp \<le> 5 * doy + 2" "5 * doy + 2 < 153 * mp + 153" unfolding mp_def using div_bounds [of 153 "5 * doy + 2"] by simp_all
  show "0 \<le> mp" "mp \<le> 11" using mp assms(1,2) by linarith+
  show "0 \<le> doy - (153 * mp + 2) div 5" "doy - (153 * mp + 2) div 5 \<le> 30"
    using mp div_bounds [of 5 "153 * mp + 2"] by linarith+
qed

lemma year_of_era:
  fixes doe :: int
  assumes "0 \<le> doe" and "doe < 146097"
  defines "c \<equiv> min 3 (doe div 36524)"
  defines "q \<equiv> (doe - 36524 * c) div 1461"
  defines "r \<equiv> (doe - 36524 * c) mod 1461"
  defines "n \<equiv> min 3 (r div 365)"
  shows "0 \<le> r - 365 * n" and "r - 365 * n \<le> 365" and "0 \<le> c" and "c \<le> 3" and "0 \<le> q" and "q \<le> 24" and "0 \<le> n" and "n \<le> 3"
    and "doe = 36524 * c + 1461 * q + r"
proof -
  have c: "0 \<le> c" "c \<le> 3" "36524 * c \<le> doe" "doe - 36524 * c \<le> 36524"
    using assms(1,2) div_bounds [of 36524 doe] unfolding c_def by linarith+
  then have r: "0 \<le> r" "r < 1461" unfolding r_def by simp_all
  show "0 \<le> c" "c \<le> 3" by (fact c)+
  show "0 \<le> q" "q \<le> 24" using c div_bounds [of 1461 "doe - 36524 * c"] unfolding q_def by linarith+
  show "0 \<le> n" "n \<le> 3" "0 \<le> r - 365 * n" "r - 365 * n \<le> 365" using r div_bounds [of 365 r] unfolding n_def by linarith+
  show "doe = 36524 * c + 1461 * q + r" unfolding q_def r_def by (simp add: algebra_simps)
qed

lemma year_parts:
  fixes c q n :: int
  assumes "0 \<le> c" "c \<le> 3" "0 \<le> q" "q \<le> 24" "0 \<le> n" "n \<le> 3"
  defines "y \<equiv> 100 * c + 4 * q + n"
  shows "y div 4 = 25 * c + q" and "y div 100 = c" and "0 \<le> y" and "y < 400"
proof -
  show "y div 4 = 25 * c + q" "y div 100 = c" using assms div_bounds [of 4 y] div_bounds [of 100 y] unfolding y_def by linarith+
  show "0 \<le> y" "y < 400" using assms by simp_all
qed

text \<open>The calendar is sound: the date of a day has a proper month and day and leads back to the day.\<close>

lemma civil_date_roundtrip:
  assumes "civil_date days = (y, m, d)"
  shows "1 \<le> m \<and> m \<le> 12 \<and> 1 \<le> d \<and> d \<le> 31 \<and> civil_days y m d = days"
proof -
  define z where "z = days + 719468"
  define era where "era = z div 146097"
  define doe where "doe = z mod 146097"
  define c where "c = min 3 (doe div 36524)"
  define q where "q = (doe - 36524 * c) div 1461"
  define r where "r = (doe - 36524 * c) mod 1461"
  define n where "n = min 3 (r div 365)"
  define doy where "doy = r - 365 * n"
  define mp where "mp = (5 * doy + 2) div 153"
  have "0 \<le> doe" "doe < 146097" unfolding doe_def by simp_all
  note era_facts = year_of_era [OF this, folded c_def, folded q_def r_def, folded n_def, folded doy_def]
  note month = month_of_day [OF era_facts(1,2), folded mp_def]
  note yp = year_parts [OF era_facts(3-8)]
  have z: "days = era * 146097 + doe - 719468" unfolding era_def doe_def z_def by (simp add: algebra_simps)
  have eq: "civil_date days = (era * 400 + 100 * c + 4 * q + n + (if (if mp < 10 then mp + 3 else mp - 9) \<le> 2 then 1 else 0),
      if mp < 10 then mp + 3 else mp - 9, doy - (153 * mp + 2) div 5 + 1)"
    unfolding civil_date_def Let_def mp_def doy_def n_def r_def q_def c_def doe_def era_def z_def ..
  have parts: "y = era * 400 + (100 * c + 4 * q + n) + (if m \<le> 2 then 1 else 0)" "m = (if mp < 10 then mp + 3 else mp - 9)"
    "d = doy - (153 * mp + 2) div 5 + 1"
    using assms unfolding eq by auto
  have y': "(if m \<le> 2 then y - 1 else y) = era * 400 + (100 * c + 4 * q + n)" using parts(1) by simp
  have yoe: "(era * 400 + (100 * c + 4 * q + n)) mod 400 = 100 * c + 4 * q + n"
    and era400: "(era * 400 + (100 * c + 4 * q + n)) div 400 = era" using yp(3,4) by simp_all
  have mp: "(if m > 2 then m - 3 else m + 9) = mp" using parts(2) month(1,2) by auto
  have "civil_days y m d = era * 146097 + (100 * c + 4 * q + n) * 365 + (25 * c + q) - c + doy - 719468"
    unfolding civil_days_def Let_def y' yoe era400 mp yp(1,2) using parts(3) by simp
  also have "\<dots> = days" using z era_facts(9) by (simp add: doy_def algebra_simps)
  finally show ?thesis using parts(2,3) month by auto
qed

section \<open>The next matching minute\<close>

lemma next_minute:
  assumes "cursor \<le> u" and "(u - cursor) mod minute = 0"
  shows "u = cursor \<or> cursor + minute \<le> u"
proof (cases "u = cursor")
  case False
  with assms have "minute \<le> u - cursor" by (intro zdvd_imp_le) auto
  then show ?thesis by simp
qed simp

lemma scan_minutes_Some:
  assumes "scan_minutes s loc deadline cursor = Some t"
  shows "cursor \<le> t \<and> t \<le> deadline \<and> (t - cursor) mod minute = 0 \<and> schedule_matches s (wall loc t) \<and>
    (\<forall>u. cursor \<le> u \<and> u < t \<and> (u - cursor) mod minute = 0 \<longrightarrow> \<not> schedule_matches s (wall loc u))"
  using assms
proof (induction s loc deadline cursor rule: scan_minutes.induct)
  case (1 s loc deadline cursor)
  show ?case
  proof (cases "schedule_matches s (wall loc cursor)")
    case True
    with 1 show ?thesis by (subst (asm) scan_minutes.simps) (auto split: if_splits)
  next
    case False
    with "1.prems" have "cursor \<le> deadline" and "scan_minutes s loc deadline (cursor + minute) = Some t"
      by (subst (asm) scan_minutes.simps, simp split: if_splits)+
    note IH = "1.IH" [OF this(1) False this(2)]
    have shift: "(u - (cursor + minute)) mod minute = (u - cursor) mod minute" for u
      by (metis diff_diff_eq minus_mod_self2)
    have "\<not> schedule_matches s (wall loc u)" if "cursor \<le> u" "u < t" "(u - cursor) mod minute = 0" for u
      using next_minute [OF that(1,3)] IH that False by (auto simp: shift)
    moreover have "0 < minute" by (simp add: minute_def second_def)
    ultimately show ?thesis using IH by (auto simp: shift)
  qed
qed

lemma scan_minutes_None:
  assumes "scan_minutes s loc deadline cursor = None" and "cursor \<le> u" and "u \<le> deadline" and "(u - cursor) mod minute = 0"
  shows "\<not> schedule_matches s (wall loc u)"
  using assms
proof (induction s loc deadline cursor rule: scan_minutes.induct)
  case (1 s loc deadline cursor)
  then have le: "cursor \<le> deadline" and nm: "\<not> schedule_matches s (wall loc cursor)"
    and nx: "scan_minutes s loc deadline (cursor + minute) = None"
    by (subst (asm) scan_minutes.simps, simp split: if_splits)+
  from next_minute [OF "1.prems"(2,4)] show ?case
  proof
    assume "cursor + minute \<le> u"
    moreover have "(u - (cursor + minute)) mod minute = 0" using "1.prems"(4) by (metis diff_diff_eq minus_mod_self2)
    ultimately show ?thesis using "1.IH" [OF le nm nx] "1.prems"(3) by simp
  qed (use nm in simp)
qed

lemma first_minute_facts: "after < first_minute after" "(u - first_minute after) mod minute = u mod minute"
    "u mod minute = 0 \<Longrightarrow> after < u \<Longrightarrow> first_minute after \<le> u"
proof -
  have m: "0 < minute" by (simp add: minute_def second_def)
  then show "after < first_minute after" by (simp add: first_minute_def truncate_minute_def pos_mod_bound algebra_simps)
  have "first_minute after = (after div minute + 1) * minute"
    unfolding first_minute_def truncate_minute_def minus_mod_eq_mult_div by (simp add: algebra_simps)
  then show "(u - first_minute after) mod minute = u mod minute" by (metis mod_diff_right_eq mod_mult_self2_is_0 diff_zero)
  assume "u mod minute = 0" and "after < u"
  then have u: "u = minute * (u div minute)" using mult_div_mod_eq [of minute u] by simp
  then have "minute * (after div minute) < minute * (u div minute)" using div_bounds(1) [OF m, of after] \<open>after < u\<close> by linarith
  then have "minute * (after div minute + 1) \<le> minute * (u div minute)" using m by simp
  then show "first_minute after \<le> u" using u \<open>first_minute after = (after div minute + 1) * minute\<close>
    by (simp add: mult.commute)
qed

text \<open>
  C33: \<open>NextCronTime\<close> returns the first matching full minute after the given moment: the minute matches
  and none before it does. It gives up only if no minute up to one year later matches.
\<close>

theorem next_cron_time_least:
  fixes location :: "location option"
  defines "loc \<equiv> (case location of None \<Rightarrow> utc | Some l \<Rightarrow> l)"
  assumes "parseCronSchedule expression = Some (Inr s)"
  shows "\<exists>r. NextCronTime expression location after = Some r \<and>
     (case r of
        Inr t \<Rightarrow> after < t \<and> t mod minute = 0 \<and> schedule_matches s (wall loc t) \<and>
          (\<forall>u. after < u \<and> u < t \<and> u mod minute = 0 \<longrightarrow> \<not> schedule_matches s (wall loc u))
      | Inl e \<Rightarrow> e = NoMatchingTime \<and>
          (\<forall>u. after < u \<and> u \<le> add_year loc (first_minute after) \<and> u mod minute = 0 \<longrightarrow> \<not> schedule_matches s (wall loc u)))"
proof -
  let ?scan = "scan_minutes s loc (add_year loc (first_minute after)) (first_minute after)"
  have result: "NextCronTime expression location after
      = (case ?scan of None \<Rightarrow> Some (Inl NoMatchingTime) | Some t \<Rightarrow> Some (Inr t))"
    using assms by (simp add: NextCronTime_def loc_def Let_def)
  show ?thesis
  proof (cases ?scan)
    case None
    then show ?thesis using scan_minutes_None [OF None] first_minute_facts(2,3) by (simp add: result)
  next
    case (Some t)
    note f = scan_minutes_Some [OF Some]
    then have "after < t" using first_minute_facts(1) [of after] by linarith
    then show ?thesis using f first_minute_facts(2,3) by (simp add: result Some)
  qed
qed

text \<open>Saturday the twentieth of June 2026, nine o'clock.\<close>

definition sample_moment :: nanos where "sample_moment = 1781946000 * second"

lemma sample_wall: "wall utc sample_moment = \<lparr>mo_date = (2026, 6, 20), mo_second = 9 * 3600, mo_weekday = 6\<rparr>"
  by code_simp

theorem next_cron_time_least_witness:
  "NextCronTime ''*/15 9-17 * * 1-6'' None sample_moment = Some (Inr (sample_moment + 15 * minute)) \<and>
   \<not> schedule_matches \<lparr>cs_minutes = [0, 15, 30, 45], cs_hours = [9, 10, 11, 12, 13, 14, 15, 16, 17],
       cs_month_days = [1..31], cs_months = [1..12], cs_weekdays = [1..6], cs_any_month_day = True, cs_any_weekday = False\<rparr>
       (wall utc (sample_moment + minute))"
proof -
  let ?s = "\<lparr>cs_minutes = [0, 15, 30, 45], cs_hours = [9, 10, 11, 12, 13, 14, 15, 16, 17],
       cs_month_days = [1..31], cs_months = [1..12], cs_weekdays = [1..6], cs_any_month_day = True, cs_any_weekday = False\<rparr>"
  have p: "parseCronSchedule ''*/15 9-17 * * 1-6'' = Some (Inr ?s)"
    and n: "NextCronTime ''*/15 9-17 * * 1-6'' None sample_moment = Some (Inr (sample_moment + 15 * minute))"
    by code_simp+
  have "sample_moment < sample_moment + minute" "sample_moment + minute < sample_moment + 15 * minute"
    "(sample_moment + minute) mod minute = 0" by code_simp+
  with next_cron_time_least [OF p, of None sample_moment] n show ?thesis by simp
qed

end
