(* ===== verification/Metadata_Jobs.thy ===== *)
theory Metadata_Jobs
  imports Cron Sql_Table
begin

text \<open>
  The scheduler of the metadata jobs: \<open>runIfDue\<close> of \<open>internal/job/db_metadata_inventory.go\<close>,
  \<open>db_metadata_object.go\<close> and \<open>db_metadata_account.go\<close>, with the table of job runs
  (\<open>internal/repository/db_metadata.go\<close>).

  What a job collects is not part of the model: a call of \<open>RunOnce\<close> is recorded with the minute it was
  scheduled for, and its result is an input. Inputs also say which accesses to the database fail. The
  ticks of one job are handled one after another, so its flag \<open>isRunning\<close> is never set at a tick.
\<close>

datatype job = InventoryJob | ObjectJob | AccountJob

fun job_name :: "job \<Rightarrow> string" where
  "job_name InventoryJob = ''db_metadata_inventory''"
| "job_name ObjectJob = ''db_metadata_object''"
| "job_name AccountJob = ''db_metadata_account''"

record job_run =
  jr_name :: string
  jr_last_scheduled_at :: "nanos option"
  jr_last_started_at :: "nanos option"
  jr_last_finished_at :: "nanos option"
  jr_last_success_at :: "nanos option"
  jr_status :: string
  jr_error_message :: "string option"
  jr_updated_at :: nanos

definition GetJobRun :: "string \<Rightarrow> job_run list \<Rightarrow> job_run option" where
  "GetJobRun name rows = find (\<lambda>r. jr_name r = name) rows"

definition MarkJobStarted :: "nanos \<Rightarrow> string \<Rightarrow> nanos \<Rightarrow> job_run list \<Rightarrow> job_run list" where
  "MarkJobStarted now name scheduledAt rows =
     (if affected (\<lambda>r. jr_name r = name) rows
      then update_where (\<lambda>r. jr_name r = name)
        (\<lambda>r. r\<lparr>jr_last_scheduled_at := Some scheduledAt, jr_last_started_at := Some now, jr_status := ''running'',
               jr_error_message := None, jr_updated_at := now\<rparr>) rows
      else rows @ [\<lparr>jr_name = name, jr_last_scheduled_at = Some scheduledAt, jr_last_started_at = Some now,
        jr_last_finished_at = None, jr_last_success_at = None, jr_status = ''running'', jr_error_message = None,
        jr_updated_at = now\<rparr>])"

definition MarkJobFinished :: "nanos \<Rightarrow> string \<Rightarrow> bool \<Rightarrow> string \<Rightarrow> job_run list \<Rightarrow> job_run list" where
  "MarkJobFinished now name success message rows =
     update_where (\<lambda>r. jr_name r = name)
       (\<lambda>r. r\<lparr>jr_last_finished_at := Some now,
              jr_last_success_at := coalesce (if success then Some now else None) (jr_last_success_at r),
              jr_status := (if success then ''success'' else ''failed''),
              jr_error_message := (if \<not> success \<and> trim_space message \<noteq> [] then Some message else None),
              jr_updated_at := now\<rparr>) rows"

text \<open>What one tick of the scheduler sees; \<open>None\<close> is a failed read.\<close>

record tick =
  tk_now :: nanos
  tk_settings :: "(bool \<times> string \<times> string) option"
  tk_zones :: "string \<Rightarrow> location option"
  tk_read_fails :: bool
  tk_start_fails :: bool
  tk_result :: "string option"
  tk_end :: nanos
  tk_finish_fails :: bool

record job_state =
  jb_rows :: "job_run list"
  jb_calls :: "(job \<times> nanos) list"

definition finish_job :: "job \<Rightarrow> tick \<Rightarrow> job_state \<Rightarrow> job_state" where
  "finish_job j k s =
     (if tk_finish_fails k then s
      else s\<lparr>jb_rows := MarkJobFinished (tk_end k) (job_name j) (tk_result k = None)
               (case tk_result k of None \<Rightarrow> [] | Some e \<Rightarrow> e) (jb_rows s)\<rparr>)"

definition due_minute :: "tick \<Rightarrow> nanos option" where
  "due_minute k = (case tk_settings k of
     None \<Rightarrow> None
   | Some (enabled, cron, zone) \<Rightarrow>
       if \<not> enabled then None
       else case parseCronSchedule cron of
         Some (Inr schedule) \<Rightarrow>
           (case tk_zones k (trim_space zone) of None \<Rightarrow> None
            | Some loc \<Rightarrow> if schedule_matches schedule (wall loc (tk_now k)) then Some (truncate_minute (tk_now k)) else None)
       | _ \<Rightarrow> None)"

text \<open>The account job goes on when the start cannot be recorded, the other two do not.\<close>

definition runIfDue :: "job \<Rightarrow> tick \<Rightarrow> job_state \<Rightarrow> job_state" where
  "runIfDue j k s = (case due_minute k of
     None \<Rightarrow> s
   | Some scheduledAt \<Rightarrow>
       if tk_read_fails k then s
       else if (case GetJobRun (job_name j) (jb_rows s) of None \<Rightarrow> False | Some r \<Rightarrow> jr_last_scheduled_at r = Some scheduledAt) then s
       else if tk_start_fails k \<and> j \<noteq> AccountJob then s
       else let s1 = (if tk_start_fails k then s
                      else s\<lparr>jb_rows := MarkJobStarted (tk_now k) (job_name j) scheduledAt (jb_rows s)\<rparr>)
         in finish_job j k (s1\<lparr>jb_calls := jb_calls s1 @ [(j, scheduledAt)]\<rparr>))"

fun run_ticks :: "(job \<times> tick) list \<Rightarrow> job_state \<Rightarrow> job_state" where
  "run_ticks [] s = s"
| "run_ticks ((j, k) # ks) s = run_ticks ks (runIfDue j k s)"

section \<open>Once per minute\<close>

definition calls_of :: "job \<Rightarrow> job_state \<Rightarrow> nanos list" where
  "calls_of j s = map snd (filter (\<lambda>c. fst c = j) (jb_calls s))"

definition last_scheduled :: "job \<Rightarrow> job_state \<Rightarrow> nanos option" where
  "last_scheduled j s = Option.bind (GetJobRun (job_name j) (jb_rows s)) jr_last_scheduled_at"

lemma job_name_inj [simp]: "job_name a = job_name b \<longleftrightarrow> a = b"
  by (cases a; cases b) simp_all

lemma find_append_new: "find P xs = None \<Longrightarrow> find P (xs @ [x]) = (if P x then Some x else None)"
  by (induction xs) (auto split: if_splits)

lemma find_append_other: "\<not> P x \<Longrightarrow> find P (xs @ [x]) = find P xs"
  by (induction xs) simp_all

lemma GetJobRun_update:
  assumes "\<And>r. jr_name (f r) = jr_name r"
  shows "GetJobRun name (update_where (\<lambda>r. jr_name r = n) f rows) =
     map_option (\<lambda>r. if name = n then f r else r) (GetJobRun name rows)"
  using assms by (induction rows) (auto simp: GetJobRun_def update_where_def)

lemma last_scheduled_started:
  "last_scheduled i (s\<lparr>jb_rows := MarkJobStarted now (job_name j) m (jb_rows s)\<rparr>) = (if i = j then Some m else last_scheduled i s)"
proof (cases "affected (\<lambda>r. jr_name r = job_name j) (jb_rows s)")
  case True
  then have "GetJobRun (job_name j) (jb_rows s) \<noteq> None" by (auto simp: affected_iff GetJobRun_def find_None_iff)
  with True show ?thesis
    by (cases "GetJobRun (job_name i) (jb_rows s)") (auto simp: last_scheduled_def MarkJobStarted_def GetJobRun_update)
next
  case False
  then have none: "GetJobRun (job_name j) (jb_rows s) = None" by (auto simp: affected_iff GetJobRun_def find_None_iff)
  show ?thesis
  proof (cases "i = j")
    case True
    with False none show ?thesis by (simp add: last_scheduled_def MarkJobStarted_def GetJobRun_def find_append_new)
  next
    case neq: False
    have "GetJobRun (job_name i) (jb_rows s @ [r]) = GetJobRun (job_name i) (jb_rows s)" if "jr_name r = job_name j" for r
      using that neq find_append_other [of "\<lambda>x. jr_name x = job_name i" r "jb_rows s"] by (simp add: GetJobRun_def)
    with False neq show ?thesis by (simp add: last_scheduled_def MarkJobStarted_def)
  qed
qed

lemma last_scheduled_finish [simp]: "last_scheduled i (finish_job j k s) = last_scheduled i s"
  by (cases "GetJobRun (job_name i) (jb_rows s)") (auto simp: finish_job_def last_scheduled_def MarkJobFinished_def GetJobRun_update)

lemma calls_finish [simp]: "jb_calls (finish_job j k s) = jb_calls s"
  by (simp add: finish_job_def)

lemma due_minute_Some: "due_minute k = Some m \<Longrightarrow> m = truncate_minute (tk_now k)"
  by (auto simp: due_minute_def split: option.splits prod.splits sum.splits if_splits)

text \<open>What a tick does to the job it belongs to and to the others.\<close>

lemma runIfDue_cases:
  assumes "j = AccountJob \<longrightarrow> \<not> tk_start_fails k"
  obtains (idle) "runIfDue j k s = s"
  | (called) m where "due_minute k = Some m" "last_scheduled j s \<noteq> Some m"
      "jb_calls (runIfDue j k s) = jb_calls s @ [(j, m)]"
      "\<And>i. last_scheduled i (runIfDue j k s) = (if i = j then Some m else last_scheduled i s)"
proof (cases "runIfDue j k s = s")
  case False
  then obtain m where m: "due_minute k = Some m" "\<not> tk_read_fails k" "last_scheduled j s \<noteq> Some m" "\<not> tk_start_fails k"
    using assms by (auto simp: runIfDue_def last_scheduled_def split: option.splits if_splits)
  let ?s1 = "s\<lparr>jb_rows := MarkJobStarted (tk_now k) (job_name j) m (jb_rows s)\<rparr>"
  have r: "runIfDue j k s = finish_job j k (?s1\<lparr>jb_calls := jb_calls ?s1 @ [(j, m)]\<rparr>)"
    using m by (auto simp: runIfDue_def last_scheduled_def split: option.splits)
  have "last_scheduled i (?s1\<lparr>jb_calls := x\<rparr>) = last_scheduled i ?s1" for i x by (simp add: last_scheduled_def)
  then show thesis using m called unfolding r by (simp add: last_scheduled_started)
qed (use idle in blast)

definition calls_ok :: "job \<Rightarrow> nanos \<Rightarrow> job_state \<Rightarrow> bool" where
  "calls_ok j now s \<longleftrightarrow> sorted_wrt (<) (calls_of j s) \<and>
     (calls_of j s \<noteq> [] \<longrightarrow> last_scheduled j s = Some (last (calls_of j s)) \<and> last (calls_of j s) \<le> truncate_minute now)"

lemma truncate_minute_mono: "a \<le> b \<Longrightarrow> truncate_minute a \<le> truncate_minute b"
proof -
  assume "a \<le> b"
  then have "a div minute \<le> b div minute" by (intro zdiv_mono1) (simp_all add: minute_def second_def)
  then show ?thesis unfolding truncate_minute_def minus_mod_eq_mult_div by (simp add: minute_def second_def)
qed

lemma sorted_wrt_snoc_less:
  fixes xs :: "nanos list"
  assumes "sorted_wrt (<) xs" and "xs \<noteq> [] \<Longrightarrow> last xs < x"
  shows "sorted_wrt (<) (xs @ [x])"
proof (cases xs rule: rev_cases)
  case (snoc ys y)
  with assms show ?thesis by (fastforce simp: sorted_wrt_append)
qed simp

lemma runIfDue_calls_ok:
  assumes "calls_ok i now s" and "now \<le> tk_now k" and "j = AccountJob \<longrightarrow> \<not> tk_start_fails k"
  shows "calls_ok i (tk_now k) (runIfDue j k s)"
  using assms(3)
proof (cases rule: runIfDue_cases [of j k s])
  case idle
  then show ?thesis using assms(1) truncate_minute_mono [OF assms(2)] by (auto simp: calls_ok_def)
next
  case (called m)
  have m: "m = truncate_minute (tk_now k)" using due_minute_Some [OF called(1)] .
  show ?thesis
  proof (cases "i = j")
    case True
    have calls: "calls_of i (runIfDue j k s) = calls_of i s @ [m]" using called(3) True by (simp add: calls_of_def)
    have "last (calls_of i s) < m" if "calls_of i s \<noteq> []"
      using that assms(1) called(2) True truncate_minute_mono [OF assms(2)] m by (auto simp: calls_ok_def)
    then have "sorted_wrt (<) (calls_of i s @ [m])" using assms(1) by (intro sorted_wrt_snoc_less) (simp_all add: calls_ok_def)
    then show ?thesis using called(4) [of i] m True unfolding calls_ok_def calls by simp
  next
    case False
    then have "calls_of i (runIfDue j k s) = calls_of i s" using called(3) by (simp add: calls_of_def)
    then show ?thesis using assms(1) called(4) False truncate_minute_mono [OF assms(2)] by (auto simp: calls_ok_def)
  qed
qed

lemma run_ticks_calls_ok:
  assumes "calls_ok i now s" and "sorted (now # map (tk_now \<circ> snd) ks)"
    and "\<forall>(j, k) \<in> set ks. j = AccountJob \<longrightarrow> \<not> tk_start_fails k"
  shows "\<exists>last. calls_ok i last (run_ticks ks s)"
  using assms
proof (induction ks arbitrary: now s)
  case (Cons jk ks)
  obtain j k where jk: "jk = (j, k)" by fastforce
  have "calls_ok i (tk_now k) (runIfDue j k s)"
    using Cons.prems by (intro runIfDue_calls_ok [of i now]) (auto simp: jk)
  from Cons.IH [OF this] Cons.prems(2,3) show ?case by (auto simp: jk)
qed auto

text \<open>
  However the ticks of the three jobs interleave and whatever fails, a job runs at most once for a
  scheduled minute, and in the order of the minutes, as long as the clock does not go back. For the
  account job this takes that the start of a run can be recorded.
\<close>

theorem job_runs_once_per_minute:
  assumes "sorted (map (tk_now \<circ> snd) ks)" and "\<forall>(j, k) \<in> set ks. j = AccountJob \<longrightarrow> \<not> tk_start_fails k"
    and "jb_calls s = []"
  shows "sorted_wrt (<) (calls_of j (run_ticks ks s))"
proof (cases ks)
  case Nil
  then show ?thesis using assms(3) by (simp add: calls_of_def)
next
  case (Cons jk rest)
  have "calls_ok j (tk_now (snd jk)) s" using assms(3) by (simp add: calls_ok_def calls_of_def)
  moreover have "sorted (tk_now (snd jk) # map (tk_now \<circ> snd) ks)" using assms(1) by (auto simp: Cons)
  ultimately show ?thesis using run_ticks_calls_ok assms(2) unfolding calls_ok_def by blast
qed

definition sample_tick :: "nanos \<Rightarrow> tick" where
  "sample_tick now = \<lparr>tk_now = now, tk_settings = Some (True, ''*/15 * * * *'', ''UTC''), tk_zones = (\<lambda>_. Some utc),
     tk_read_fails = False, tk_start_fails = False, tk_result = None, tk_end = now, tk_finish_fails = False\<rparr>"

theorem job_runs_once_per_minute_witness:
  "calls_of InventoryJob (run_ticks [(InventoryJob, sample_tick sample_moment), (AccountJob, sample_tick sample_moment),
      (InventoryJob, sample_tick (sample_moment + second)), (InventoryJob, sample_tick (sample_moment + 15 * minute))]
      \<lparr>jb_rows = [], jb_calls = []\<rparr>) = [sample_moment, sample_moment + 15 * minute] \<and>
   sorted_wrt (<) [sample_moment, sample_moment + 15 * minute]"
proof -
  let ?ks = "[(InventoryJob, sample_tick sample_moment), (AccountJob, sample_tick sample_moment),
      (InventoryJob, sample_tick (sample_moment + second)), (InventoryJob, sample_tick (sample_moment + 15 * minute))]"
  have calls: "calls_of InventoryJob (run_ticks ?ks \<lparr>jb_rows = [], jb_calls = []\<rparr>) = [sample_moment, sample_moment + 15 * minute]"
    by code_simp
  have "sorted_wrt (<) (calls_of InventoryJob (run_ticks ?ks \<lparr>jb_rows = [], jb_calls = []\<rparr>))"
    by (rule job_runs_once_per_minute) (simp_all add: sample_tick_def second_def minute_def)
  with calls show ?thesis by simp
qed

text \<open>The account job runs again within the minute while its start cannot be recorded.\<close>

lemma account_job_repeats:
  "calls_of AccountJob (run_ticks [(AccountJob, (sample_tick sample_moment)\<lparr>tk_start_fails := True\<rparr>),
      (AccountJob, (sample_tick (sample_moment + second))\<lparr>tk_start_fails := True\<rparr>)] \<lparr>jb_rows = [], jb_calls = []\<rparr>)
     = [sample_moment, sample_moment]"
  by code_simp

end
