(* ===== verification/Redis_Review.thy ===== *)
theory Redis_Review
  imports Go_Prelude
begin

text \<open>
  The review of Redis commands (\<open>internal/sqlreview/redis_check.go\<close>): splitting a command line, the
  categories of commands, the limits on the reply of a read, the commands a ticket may hold, and the keys
  whose values are protected. Limits are below the largest 64-bit integer, so that adding one to a limit
  does not overflow; the indexes of a range are arbitrary and their arithmetic wraps around.
\<close>

section \<open>Commands\<close>

datatype redis_category =
    CatRead | CatWrite | CatDangerous | CatTransaction | CatScripting | CatAdmin | CatUnknown

datatype redis_error =
    EmptyCommand | UnterminatedEscape | UnterminatedQuote | CategoryNotAllowed string redis_category
  | UnknownCommand string | NotReadonlyOnTarget string | NeedsMetadata string | CountRequired | CountNumeric
  | CountRange | RangeArity | RangeIndexes | CountOption | ObjectSubcommand | LimitArity | LimitCount
  | TicketCommand string | TicketArity string | SensitiveKey

definition defaultRedisQueryLimit :: int where "defaultRedisQueryLimit = 200"

definition redisCommandCategories :: "(string \<times> redis_category) list" where
  "redisCommandCategories =
     map (\<lambda>c. (c, CatRead))
       [''GET'', ''MGET'', ''GETRANGE'', ''STRLEN'', ''HGET'', ''HMGET'', ''HLEN'', ''HEXISTS'', ''LLEN'',
        ''LINDEX'', ''SCARD'', ''SISMEMBER'', ''SMISMEMBER'', ''SRANDMEMBER'', ''ZCARD'', ''ZSCORE'',
        ''ZMSCORE'', ''ZRANK'', ''ZCOUNT'', ''SCAN'', ''HSCAN'', ''SSCAN'', ''ZSCAN'', ''TYPE'', ''TTL'',
        ''PTTL'', ''EXISTS'', ''PING'', ''GETBIT'', ''BITCOUNT'', ''BITPOS'', ''HSTRLEN'', ''HRANDFIELD'',
        ''LRANGE'', ''LPOS'', ''ZRANGE'', ''ZREVRANGE'', ''ZRANGEBYSCORE'', ''ZREVRANGEBYSCORE'',
        ''ZRANGEBYLEX'', ''ZREVRANGEBYLEX'', ''ZREVRANK'', ''ZLEXCOUNT'', ''ZRANDMEMBER'', ''XLEN'',
        ''XRANGE'', ''XREVRANGE'', ''GEOHASH'', ''GEOPOS'', ''GEODIST'', ''GEOSEARCH'', ''OBJECT''] @
     map (\<lambda>c. (c, CatWrite))
       [''SET'', ''MSET'', ''DEL'', ''INCR'', ''DECR'', ''EXPIRE'', ''HSET'', ''HMSET'', ''LPUSH'',
        ''RPUSH'', ''SADD'', ''ZADD''] @
     map (\<lambda>c. (c, CatDangerous))
       [''KEYS'', ''HGETALL'', ''HKEYS'', ''HVALS'', ''SMEMBERS'', ''INFO'', ''DBSIZE'', ''TIME'',
        ''MEMORY'', ''FLUSHDB'', ''FLUSHALL'', ''SHUTDOWN'', ''CONFIG'', ''DEBUG''] @
     map (\<lambda>c. (c, CatTransaction))
       [''MULTI'', ''EXEC'', ''DISCARD'', ''WATCH'', ''UNWATCH''] @
     map (\<lambda>c. (c, CatScripting))
       [''EVAL'', ''EVALSHA'', ''SCRIPT'', ''FUNCTION''] @
     map (\<lambda>c. (c, CatAdmin))
       [''ACL'', ''CLIENT'', ''COMMAND'', ''LATENCY'', ''MODULE'', ''MONITOR'', ''PSUBSCRIBE'', ''PUBLISH'',
        ''PUBSUB'', ''SUBSCRIBE'', ''UNSUBSCRIBE'']"

definition redisTicketAllowedCommands :: "string list" where
  "redisTicketAllowedCommands = [''SET'', ''DEL'', ''HSET'', ''LPUSH'', ''SADD'', ''ZADD'', ''EXPIRE'']"

definition categorizeRedisCommand :: "string \<Rightarrow> redis_category" where
  "categorizeRedisCommand cmd =
     (case map_of redisCommandCategories (to_upper (trim_space cmd)) of None \<Rightarrow> CatUnknown | Some c \<Rightarrow> c)"

section \<open>Splitting a command line\<close>

definition flush :: "string \<Rightarrow> string list \<Rightarrow> string list" where
  "flush cur parts = (if cur = [] then parts else rev cur # parts)"

text \<open>\<open>cur\<close> is the argument read so far, backwards.\<close>

fun tokenize :: "string \<Rightarrow> string \<Rightarrow> char option \<Rightarrow> bool \<Rightarrow> redis_error + string list" where
  "tokenize [] cur q escaped =
     (if escaped then Inl UnterminatedEscape else if q \<noteq> None then Inl UnterminatedQuote else Inr (flush cur []))"
| "tokenize (c # cs) cur q escaped =
     (if escaped then tokenize cs (c # cur) q False
      else if c = CHR 0x5C then tokenize cs cur q True
      else case q of
        Some d \<Rightarrow> if c = d then tokenize cs cur None False else tokenize cs (c # cur) q False
      | None \<Rightarrow>
          if c = CHR 0x27 \<or> c = CHR 0x22 then tokenize cs cur (Some c) False
          else if c = CHR '' '' \<or> c = CHR 0x09 \<or> c = CHR 0x0A \<or> c = CHR 0x0D
          then (case tokenize cs [] None False of Inl e \<Rightarrow> Inl e | Inr parts \<Rightarrow> Inr (flush cur parts))
          else tokenize cs (c # cur) None False)"

definition tokenizeRedisCommand :: "string \<Rightarrow> redis_error + string list" where
  "tokenizeRedisCommand cmdLine =
     (let input = trim_space cmdLine in if input = [] then Inr [] else tokenize input [] None False)"

definition ParseRedisCommand :: "string \<Rightarrow> redis_error + (string \<times> string list)" where
  "ParseRedisCommand cmdLine =
     (case tokenizeRedisCommand cmdLine of
        Inl e \<Rightarrow> Inl e
      | Inr [] \<Rightarrow> Inl EmptyCommand
      | Inr (c # args) \<Rightarrow> Inr (to_upper c, args))"

section \<open>Limits on reads\<close>

definition containsRedisArg :: "string list \<Rightarrow> string \<Rightarrow> bool" where
  "containsRedisArg args name = list_ex (\<lambda>a. equal_fold a name) args"

text \<open>The arguments before the first one with the given name, and the rest.\<close>

definition split_at :: "string \<Rightarrow> string list \<Rightarrow> string list \<times> string list" where
  "split_at name args = (takeWhile (\<lambda>a. \<not> equal_fold a name) args, dropWhile (\<lambda>a. \<not> equal_fold a name) args)"

definition capRedisNamedCount :: "string list \<Rightarrow> string \<Rightarrow> int \<Rightarrow> redis_error + string list" where
  "capRedisNamedCount args name limit =
     (case split_at name args of
        (before, opt # v # rest) \<Rightarrow>
          (case atoi v of None \<Rightarrow> Inl CountOption
           | Some n \<Rightarrow> if n < 1 then Inl CountOption else Inr (before @ opt # (if n > limit then itoa limit else v) # rest))
      | _ \<Rightarrow> Inr args)"

definition normalizeRedisCountOption :: "string list \<Rightarrow> int \<Rightarrow> redis_error + string list" where
  "normalizeRedisCountOption args limit =
     (if containsRedisArg args ''COUNT'' then capRedisNamedCount args ''COUNT'' limit
      else Inr (args @ [''COUNT'', itoa limit]))"

definition normalizeRedisLimitOption :: "string list \<Rightarrow> int \<Rightarrow> redis_error + string list" where
  "normalizeRedisLimitOption args limit =
     (case split_at ''LIMIT'' args of
        (before, opt # off # v # rest) \<Rightarrow>
          (case atoi v of None \<Rightarrow> Inl LimitCount
           | Some n \<Rightarrow> if n < 1 then Inl LimitCount else Inr (before @ opt # off # (if n > limit then itoa limit else v) # rest))
      | (_, []) \<Rightarrow>
          (case split_at ''WITHSCORES'' args of
             (_, []) \<Rightarrow> Inr (args @ [''LIMIT'', ''0'', itoa limit])
           | (before, rest) \<Rightarrow> Inr (before @ [''LIMIT'', ''0'', itoa limit] @ rest))
      | _ \<Rightarrow> Inl LimitArity)"

definition redisScanCount :: "string list \<Rightarrow> redis_error + int option" where
  "redisScanCount args =
     (case snd (split_at ''COUNT'' args) of
        [] \<Rightarrow> Inr None
      | [_] \<Rightarrow> Inl CountNumeric
      | _ # v # _ \<Rightarrow> (case atoi v of None \<Rightarrow> Inl CountNumeric | Some n \<Rightarrow> Inr (Some n)))"

definition range_args :: "string \<Rightarrow> string list \<Rightarrow> int \<Rightarrow> redis_error + string list" where
  "range_args cmd args limit =
     (if length args < 3 then Inl RangeArity
      else if cmd = ''ZRANGE'' \<and> (containsRedisArg (drop 3 args) ''BYSCORE'' \<or> containsRedisArg (drop 3 args) ''BYLEX'')
      then normalizeRedisLimitOption args limit
      else case (atoi (args ! 1), atoi (args ! 2)) of
        (Some start, Some stop) \<Rightarrow>
          if (start < 0) \<noteq> (stop < 0) \<and> stop \<noteq> -1 then Inl RangeIndexes
          else Inr (if stop = -1 \<or> wrap64 (stop - start + 1) > limit then args[2 := itoa (wrap64 (start + limit - 1))] else args)
      | _ \<Rightarrow> Inl RangeIndexes)"

definition random_args :: "string list \<Rightarrow> int \<Rightarrow> redis_error + string list" where
  "random_args args limit =
     (if length args < 2 then Inr args
      else case atoi (args ! 1) of None \<Rightarrow> Inl CountNumeric
        | Some n \<Rightarrow> Inr (if n > limit then args[1 := itoa limit] else if n < - limit then args[1 := itoa (- limit)] else args))"

definition normalizeRedisReadOnlyArgs :: "string \<Rightarrow> string list \<Rightarrow> int \<Rightarrow> redis_error + string list" where
  "normalizeRedisReadOnlyArgs cmd args limit0 =
     (let limit = (if limit0 < 1 then defaultRedisQueryLimit else limit0)
      in if cmd \<in> {''SCAN'', ''HSCAN'', ''SSCAN'', ''ZSCAN''} then
           (case redisScanCount args of Inl e \<Rightarrow> Inl e
            | Inr None \<Rightarrow> Inl CountRequired
            | Inr (Some n) \<Rightarrow> if n < 1 \<or> n > limit then Inl CountRange else Inr args)
         else if cmd \<in> {''LRANGE'', ''ZRANGE'', ''ZREVRANGE''} then range_args cmd args limit
         else if cmd \<in> {''ZRANGEBYSCORE'', ''ZREVRANGEBYSCORE'', ''ZRANGEBYLEX'', ''ZREVRANGEBYLEX''} then normalizeRedisLimitOption args limit
         else if cmd \<in> {''XRANGE'', ''XREVRANGE'', ''GEOSEARCH''} then normalizeRedisCountOption args limit
         else if cmd \<in> {''HRANDFIELD'', ''ZRANDMEMBER''} then random_args args limit
         else if cmd = ''LPOS'' then
           (case capRedisNamedCount args ''COUNT'' limit of Inl e \<Rightarrow> Inl e
            | Inr as \<Rightarrow> Inr (if containsRedisArg as ''MAXLEN'' then as else as @ [''MAXLEN'', itoa limit]))
         else if cmd = ''OBJECT'' then
           (if length args \<noteq> 2 \<or> \<not> containsRedisArg [''ENCODING'', ''FREQ'', ''IDLETIME'', ''REFCOUNT''] (args ! 0)
            then Inl ObjectSubcommand else Inr args)
         else if cmd = ''MGET'' then Inr (if int (length args) > limit then take (nat limit) args else args)
         else if cmd \<in> {''HMGET'', ''SMISMEMBER'', ''ZMSCORE'', ''GEOHASH'', ''GEOPOS''} then
           Inr (if int (length args) > limit + 1 then take (nat (limit + 1)) args else args)
         else Inr args)"

definition PrepareRedisReadOnly :: "string \<Rightarrow> int \<Rightarrow> redis_error + (string \<times> string list)" where
  "PrepareRedisReadOnly cmdLine limit =
     (case ParseRedisCommand cmdLine of
        Inl e \<Rightarrow> Inl e
      | Inr (cmd, args) \<Rightarrow>
          (case categorizeRedisCommand cmd of
             CatRead \<Rightarrow> (case normalizeRedisReadOnlyArgs cmd args limit of Inl e \<Rightarrow> Inl e | Inr bounded \<Rightarrow> Inr (cmd, bounded))
           | CatUnknown \<Rightarrow> Inl (UnknownCommand cmd)
           | c \<Rightarrow> Inl (CategoryNotAllowed cmd c)))"

definition CheckRedisReadOnly :: "string \<Rightarrow> redis_error option" where
  "CheckRedisReadOnly cmdLine =
     (case PrepareRedisReadOnly cmdLine defaultRedisQueryLimit of Inl e \<Rightarrow> Some e | Inr _ \<Rightarrow> None)"

definition CheckRedisOfficialReadOnly :: "string \<Rightarrow> bool \<Rightarrow> int \<Rightarrow> redis_error option" where
  "CheckRedisOfficialReadOnly cmdLine officialReadOnly limit =
     (case PrepareRedisReadOnly cmdLine limit of Inl e \<Rightarrow> Some e
      | Inr _ \<Rightarrow> if \<not> officialReadOnly
          then Some (NotReadonlyOnTarget (case ParseRedisCommand cmdLine of Inl _ \<Rightarrow> [] | Inr (cmd, _) \<Rightarrow> cmd)) else None)"

definition fallback_commands :: "string list" where
  "fallback_commands = [''GET'', ''MGET'', ''GETRANGE'', ''STRLEN'', ''HGET'', ''HMGET'', ''HLEN'', ''HEXISTS'', ''LLEN'', ''LINDEX'',
     ''SCARD'', ''SISMEMBER'', ''SMISMEMBER'', ''SRANDMEMBER'', ''ZCARD'', ''ZSCORE'', ''ZMSCORE'', ''ZRANK'', ''ZCOUNT'', ''SCAN'',
     ''HSCAN'', ''SSCAN'', ''ZSCAN'', ''TYPE'', ''TTL'', ''PTTL'', ''EXISTS'', ''PING'']"

definition CheckRedisFallbackReadOnly :: "string \<Rightarrow> int \<Rightarrow> redis_error option" where
  "CheckRedisFallbackReadOnly cmdLine limit =
     (case ParseRedisCommand cmdLine of Inl e \<Rightarrow> Some e
      | Inr (cmd, _) \<Rightarrow>
          if cmd \<in> set fallback_commands
          then (case PrepareRedisReadOnly cmdLine limit of Inl e \<Rightarrow> Some e | Inr _ \<Rightarrow> None)
          else Some (NeedsMetadata cmd))"

section \<open>Tickets\<close>

definition validateRedisTicketArity :: "string \<Rightarrow> nat \<Rightarrow> redis_error option" where
  "validateRedisTicketArity cmd n =
     (if (cmd = ''SET'' \<and> n < 2) \<or> (cmd = ''DEL'' \<and> n < 1) \<or> (cmd = ''HSET'' \<and> (n < 3 \<or> n mod 2 = 0)) \<or>
         (cmd = ''LPUSH'' \<and> n < 2) \<or> (cmd = ''SADD'' \<and> n < 2) \<or> (cmd = ''ZADD'' \<and> (n < 3 \<or> n mod 2 = 0)) \<or>
         (cmd = ''EXPIRE'' \<and> n \<noteq> 2)
      then Some (TicketArity cmd) else None)"

definition CheckRedisTicketCommand :: "string \<Rightarrow> redis_error option" where
  "CheckRedisTicketCommand cmdLine =
     (case ParseRedisCommand cmdLine of Inl e \<Rightarrow> Some e
      | Inr (cmd, args) \<Rightarrow>
          if cmd \<notin> set redisTicketAllowedCommands then Some (TicketCommand cmd)
          else validateRedisTicketArity cmd (length args))"

section \<open>Protected keys\<close>

definition content_commands :: "string list" where
  "content_commands = [''GET'', ''GETRANGE'', ''GETBIT'', ''BITCOUNT'', ''BITPOS'', ''HGET'', ''HMGET'', ''HSCAN'', ''HSTRLEN'',
     ''HRANDFIELD'', ''LINDEX'', ''LRANGE'', ''LPOS'', ''SISMEMBER'', ''SMISMEMBER'', ''SSCAN'', ''SRANDMEMBER'', ''ZSCORE'',
     ''ZMSCORE'', ''ZRANK'', ''ZREVRANK'', ''ZCOUNT'', ''ZLEXCOUNT'', ''ZRANGE'', ''ZREVRANGE'', ''ZRANGEBYSCORE'',
     ''ZREVRANGEBYSCORE'', ''ZRANGEBYLEX'', ''ZREVRANGEBYLEX'', ''ZRANDMEMBER'', ''ZSCAN'', ''XLEN'', ''XRANGE'', ''XREVRANGE'',
     ''GEOHASH'', ''GEOPOS'', ''GEODIST'', ''GEOSEARCH'']"

definition redisValueContentKeys :: "string \<Rightarrow> string list \<Rightarrow> string list" where
  "redisValueContentKeys cmd args =
     (case args of [] \<Rightarrow> []
      | a # _ \<Rightarrow> let c = to_upper (trim_space cmd)
          in if c \<in> set content_commands then [a] else if c = ''MGET'' then args else [])"

fun redisKeyHasSensitivePrefix :: "string \<Rightarrow> string list \<Rightarrow> bool" where
  "redisKeyHasSensitivePrefix key [] = False"
| "redisKeyHasSensitivePrefix key (p # ps) =
     (let trimmed = trim_space p
      in if trimmed = [] then redisKeyHasSensitivePrefix key ps
         else if has_prefix key trimmed then True else redisKeyHasSensitivePrefix key ps)"

definition CheckRedisSensitiveKeyPrefixes :: "string \<Rightarrow> string list \<Rightarrow> string list \<Rightarrow> redis_error option" where
  "CheckRedisSensitiveKeyPrefixes cmd args patterns =
     (if patterns = [] then None
      else if list_ex (\<lambda>key. redisKeyHasSensitivePrefix key patterns) (redisValueContentKeys cmd args) then Some SensitiveKey
      else None)"

section \<open>Quoting\<close>

text \<open>An argument in double quotes, with a backslash before double quotes and backslashes.\<close>

definition escape :: "string \<Rightarrow> string" where
  "escape s = concat (map (\<lambda>c. if c = CHR 0x22 \<or> c = CHR 0x5C then [CHR 0x5C, c] else [c]) s)"

definition redis_quote :: "string \<Rightarrow> string" where
  "redis_quote s = CHR 0x22 # escape s @ [CHR 0x22]"

lemma tokenize_escape:
  "tokenize (escape s @ CHR 0x22 # rest) cur (Some (CHR 0x22)) False = tokenize rest (rev s @ cur) None False"
  by (induction s arbitrary: cur) (auto simp: escape_def)

lemma tokenize_quote: "tokenize (redis_quote s @ rest) cur None False = tokenize rest (rev s @ cur) None False"
  by (simp add: redis_quote_def tokenize_escape)

lemma tokenize_join:
  assumes "args \<noteq> []" and "[] \<notin> set args"
  shows "tokenize (join '' '' (map redis_quote args)) [] None False = Inr args"
  using assms
proof (induction args rule: induct_list012)
  case (2 a)
  then show ?case using tokenize_quote [of a "[]" "[]"] by (simp add: flush_def)
next
  case (3 a b rest)
  then have "a \<noteq> []" by auto
  with 3 show ?case by (simp add: tokenize_quote flush_def)
qed simp

lemma join_quote_ends:
  assumes "args \<noteq> []"
  shows "\<exists>mid. join '' '' (map redis_quote args) = CHR 0x22 # mid @ [CHR 0x22]"
  using assms
proof (induction args rule: induct_list012)
  case (2 a)
  then show ?case by (simp add: redis_quote_def)
next
  case (3 a b rest)
  then obtain mid where "join '' '' (map redis_quote (b # rest)) = CHR 0x22 # mid @ [CHR 0x22]" by auto
  then show ?case by (intro exI [of _ "escape a @ CHR 0x22 # CHR '' '' # CHR 0x22 # mid"]) (simp add: redis_quote_def [of a])
qed simp

text \<open>
  Splitting a command line undoes quoting: any list of non-empty arguments, with whatever characters,
  can be written as a command line and is read back from it.
\<close>

theorem redis_tokenize_roundtrip:
  assumes "args \<noteq> []" and "[] \<notin> set args"
  shows "tokenizeRedisCommand (join '' '' (map redis_quote args)) = Inr args"
proof -
  obtain mid where mid: "join '' '' (map redis_quote args) = CHR 0x22 # mid @ [CHR 0x22]" using join_quote_ends [OF assms(1)] by blast
  have "trim_space (CHR 0x22 # mid @ [CHR 0x22]) = CHR 0x22 # mid @ [CHR 0x22]" by (simp add: trim_space_def is_space_def)
  then show ?thesis using tokenize_join [OF assms] by (simp add: tokenizeRedisCommand_def mid)
qed

theorem redis_tokenize_roundtrip_witness:
  "tokenizeRedisCommand (join '' '' (map redis_quote [''SET'', ''a key'', [CHR 0x22, CHR 0x5C, CHR '' '']]))
     = Inr [''SET'', ''a key'', [CHR 0x22, CHR 0x5C, CHR '' '']]"
  by (rule redis_tokenize_roundtrip) simp_all

text \<open>Empty arguments cannot be written: they are dropped even in quotes.\<close>

lemma empty_argument_dropped: "tokenizeRedisCommand (''SET k '' @ redis_quote []) = Inr [''SET'', ''k'']"
  by code_simp

section \<open>Reads and writes\<close>

lemma ticket_commands_write:
  "c \<in> set redisTicketAllowedCommands \<Longrightarrow> categorizeRedisCommand c = CatWrite"
proof -
  have "list_all (\<lambda>c. categorizeRedisCommand c = CatWrite) redisTicketAllowedCommands" by code_simp
  then show "c \<in> set redisTicketAllowedCommands \<Longrightarrow> categorizeRedisCommand c = CatWrite" by (simp add: list_all_iff)
qed

lemma fallback_commands_read: "c \<in> set fallback_commands \<Longrightarrow> categorizeRedisCommand c = CatRead"
proof -
  have "list_all (\<lambda>c. categorizeRedisCommand c = CatRead) fallback_commands" by code_simp
  then show "c \<in> set fallback_commands \<Longrightarrow> categorizeRedisCommand c = CatRead" by (simp add: list_all_iff)
qed

lemma PrepareRedisReadOnly_Inr:
  assumes "PrepareRedisReadOnly cmdLine limit = Inr (cmd, bounded)"
  obtains args where "ParseRedisCommand cmdLine = Inr (cmd, args)" and "categorizeRedisCommand cmd = CatRead"
    and "normalizeRedisReadOnlyArgs cmd args limit = Inr bounded"
  using assms by (auto simp: PrepareRedisReadOnly_def split: sum.splits prod.splits redis_category.splits)

text \<open>
  A command line that the query editor accepts, with or without the metadata of the server, is refused
  in a ticket: reads and writes go separate ways.
\<close>

theorem redis_read_write_disjoint:
  assumes "CheckRedisReadOnly cmdLine = None \<or> CheckRedisOfficialReadOnly cmdLine official limit = None \<or>
    CheckRedisFallbackReadOnly cmdLine limit = None"
  shows "\<exists>cmd. CheckRedisTicketCommand cmdLine = Some (TicketCommand cmd)"
proof -
  obtain lim r where "PrepareRedisReadOnly cmdLine lim = Inr r"
    using assms by (auto simp: CheckRedisReadOnly_def CheckRedisOfficialReadOnly_def CheckRedisFallbackReadOnly_def
        split: sum.splits if_splits)
  moreover obtain cmd bounded where "r = (cmd, bounded)" by (cases r)
  ultimately obtain args where "ParseRedisCommand cmdLine = Inr (cmd, args)" and read: "categorizeRedisCommand cmd = CatRead"
    using PrepareRedisReadOnly_Inr by metis
  moreover have "cmd \<notin> set redisTicketAllowedCommands" using ticket_commands_write read by force
  ultimately show ?thesis by (simp add: CheckRedisTicketCommand_def)
qed

theorem redis_read_write_disjoint_witness: "\<exists>cmd. CheckRedisTicketCommand ''mget a b'' = Some (TicketCommand cmd)"
  by (rule redis_read_write_disjoint [of _ True 10]) code_simp

section \<open>Size of a range\<close>

text \<open>The number of elements Redis returns for a range of indexes of a list or sorted set of \<open>n\<close> elements.\<close>

definition range_size :: "int \<Rightarrow> int \<Rightarrow> int \<Rightarrow> int" where
  "range_size n start stop =
     (let a = (if start < 0 then max 0 (n + start) else start); b = (if stop < 0 then n + stop else stop)
      in if a > b \<or> a \<ge> n then 0 else min b (n - 1) - a + 1)"

lemma range_size_le:
  assumes "0 \<le> n" and "1 \<le> limit" and "(start < 0) = (stop < 0)" and "stop - start + 1 \<le> limit"
  shows "range_size n start stop \<le> limit"
  using assms by (auto simp: range_size_def Let_def)

lemma range_size_to_end:
  assumes "0 \<le> n" and "1 \<le> limit" and "n < 4611686018427387904" and "limit \<le> 2147483647" and "int64_range start"
  shows "range_size n start (wrap64 (start + limit - 1)) \<le> limit"
proof (cases "start + limit - 1 \<le> max_int64")
  case True
  then have "wrap64 (start + limit - 1) = start + limit - 1" using assms by (intro wrap64_id) (simp add: int64_range_def)
  then show ?thesis using assms by (auto simp: range_size_def Let_def)
next
  case False
  then have "start \<ge> n" and "0 \<le> start" using assms by simp_all
  then show ?thesis using assms(2) by (simp add: range_size_def Let_def)
qed

lemma atoi_itoa_wrap: "atoi (itoa (wrap64 x)) = Some (wrap64 x)"
  by (rule atoi_itoa) simp

text \<open>
  The indexes that a range command is sent with select at most as many elements as the limit, whatever
  the size of the list, unless the number of requested indexes overflows a 64-bit integer.
\<close>

theorem redis_range_bounded:
  assumes "PrepareRedisReadOnly cmdLine limit = Inr (cmd, args)" and "cmd = ''LRANGE'' \<or> cmd = ''ZREVRANGE''"
    and "1 \<le> limit" and "limit \<le> 2147483647" and "0 \<le> n" and "n < 4611686018427387904"
    and "atoi (args ! 1) = Some start" and "atoi (args ! 2) = Some stop" and "stop - start < max_int64"
  shows "range_size n start stop \<le> limit"
proof -
  obtain as where "normalizeRedisReadOnlyArgs cmd as limit = Inr args" using PrepareRedisReadOnly_Inr [OF assms(1)] .
  then have r: "range_args cmd as limit = Inr args" using assms(2,3) by (auto simp: normalizeRedisReadOnlyArgs_def Let_def)
  then obtain a b where ab: "3 \<le> length as" "atoi (as ! 1) = Some a" "atoi (as ! 2) = Some b"
    "(a < 0) = (b < 0) \<or> b = -1"
    "args = (if b = -1 \<or> wrap64 (b - a + 1) > limit then as[2 := itoa (wrap64 (a + limit - 1))] else as)"
    using assms(2) by (auto simp: range_args_def split: if_splits option.splits)
  have ra: "int64_range a" "int64_range b" using ab(2,3) atoi_range by auto
  show ?thesis
  proof (cases "b = -1 \<or> wrap64 (b - a + 1) > limit")
    case True
    then have "start = a" "stop = wrap64 (a + limit - 1)" using ab assms(7,8) by (simp_all add: atoi_itoa_wrap)
    then show ?thesis using range_size_to_end assms(3-6) ra(1) by simp
  next
    case False
    then have "start = a" "stop = b" using ab assms(7,8) by simp_all
    moreover have "wrap64 (b - a + 1) = b - a + 1"
      using ra ab(4) False assms(9) \<open>start = a\<close> \<open>stop = b\<close> by (intro wrap64_id) (auto simp: int64_range_def)
    ultimately show ?thesis using False ab(4) assms(3,5) by (intro range_size_le) auto
  qed
qed

theorem redis_range_bounded_witness:
  "PrepareRedisReadOnly ''lrange k 5 90'' 20 = Inr (''LRANGE'', [''k'', ''5'', ''24'']) \<and> range_size 1000000 5 24 \<le> 20"
proof -
  have p: "PrepareRedisReadOnly ''lrange k 5 90'' 20 = Inr (''LRANGE'', [''k'', ''5'', ''24''])" by code_simp
  have "atoi ''5'' = Some 5" "atoi ''24'' = Some 24" by code_simp+
  with redis_range_bounded [OF p, of 1000000 5 24] p show ?thesis by simp
qed

text \<open>The whole list, when the number of indexes overflows.\<close>

lemma atoi_largest: "atoi ''9223372036854775807'' = Some max_int64" "atoi ''0'' = Some 0"
  by (simp_all add: atoi_def parse_nat_def is_digit_def int64_range_def)

lemma range_overflow_unbounded:
  "PrepareRedisReadOnly ''LRANGE k 0 9223372036854775807'' 200 = Inr (''LRANGE'', [''k'', ''0'', ''9223372036854775807''])"
  "0 < n \<Longrightarrow> n \<le> max_int64 \<Longrightarrow> range_size n 0 max_int64 = n"
proof -
  have "ParseRedisCommand ''LRANGE k 0 9223372036854775807'' = Inr (''LRANGE'', [''k'', ''0'', ''9223372036854775807''])"
    and "categorizeRedisCommand ''LRANGE'' = CatRead" by code_simp+
  then show "PrepareRedisReadOnly ''LRANGE k 0 9223372036854775807'' 200 = Inr (''LRANGE'', [''k'', ''0'', ''9223372036854775807''])"
    by (simp add: PrepareRedisReadOnly_def normalizeRedisReadOnlyArgs_def range_args_def atoi_largest wrap64_def)
qed (simp add: range_size_def)

text \<open>The last hundred elements of a list of more than two hundred are not returned but none.\<close>

lemma last_elements_lost:
  "PrepareRedisReadOnly ''LRANGE k -100 -1'' 200 = Inr (''LRANGE'', [''k'', ''-100'', ''99'']) \<and>
   range_size 1000 (-100) (-1) = 100 \<and> range_size 1000 (-100) 99 = 0"
  by code_simp

text \<open>The count of \<open>SRANDMEMBER\<close> is not limited, and a stream named like an option is refused.\<close>

lemma srandmember_unlimited:
  "PrepareRedisReadOnly ''SRANDMEMBER s 100000000'' 200 = Inr (''SRANDMEMBER'', [''s'', ''100000000''])"
  by code_simp

lemma stream_named_count_refused: "PrepareRedisReadOnly ''XRANGE count - +'' 200 = Inl CountOption"
  by code_simp

end
