(* ===== verification/Host_Policy.thy ===== *)
theory Host_Policy
  imports Go_Prelude "HOL-Library.Word"
begin

unbundle bit_operations_syntax

text \<open>
  The policy on the hosts of database connections (\<open>internal/netguard/host_policy.go\<close>).

  Addresses are words and networks an address with the length of its prefix. How a text is read as an
  address or a network and how a name is resolved are parameters, collected in an environment.
\<close>

section \<open>Addresses\<close>

datatype ip = V4 "32 word" | V6 "128 word"
datatype network = Net4 "32 word" nat | Net6 "128 word" nat

text \<open>\<open>IPNet.Contains\<close>: the address and the network agree on the bits of the prefix.\<close>

fun net_contains :: "network \<Rightarrow> ip \<Rightarrow> bool" where
  "net_contains (Net4 a n) (V4 x) = (x AND push_bit (32 - n) (mask n) = a AND push_bit (32 - n) (mask n))"
| "net_contains (Net6 a n) (V6 x) = (x AND push_bit (128 - n) (mask n) = a AND push_bit (128 - n) (mask n))"
| "net_contains _ _ = False"

section \<open>The policy\<close>

datatype enforcement = EnforcementOff | EnforcementWarn | EnforcementEnforce

record host_config =
  hc_enforcement :: string
  hc_host_allowlist :: "string list"
  hc_cidr_allowlist :: "string list"
  hc_cidr_denylist :: "string list"

text \<open>\<open>ne_lookup\<close> is the resolver; a missing address in its answer is \<open>None\<close>.\<close>

record net_env =
  ne_parse_cidr :: "string \<Rightarrow> network option"
  ne_parse_ip :: "string \<Rightarrow> ip option"
  ne_lookup :: "string \<Rightarrow> ip option list option"

record host_policy =
  hp_enforcement :: enforcement
  hp_host_allowlist :: "string list"
  hp_cidr_allowlist :: "network list"
  hp_cidr_denylist :: "network list"

datatype policy_error = InvalidEnforcement | InvalidAllowCIDR string | InvalidDenyCIDR string

definition NormalizeEnforcement :: "string \<Rightarrow> enforcement option" where
  "NormalizeEnforcement v = (let n = to_lower (trim_space v)
     in if n = [] \<or> n \<in> {''disabled'', ''disable'', ''off'', ''false''} then Some EnforcementOff
        else if n = ''warn'' then Some EnforcementWarn
        else if n = ''enforce'' then Some EnforcementEnforce else None)"

definition SplitCSV :: "string \<Rightarrow> string list" where
  "SplitCSV v = (if trim_space v = [] then [] else split_on (CHR '','') v)"

definition normalizeList :: "string list \<Rightarrow> string list" where
  "normalizeList vs = filter (\<lambda>t. t \<noteq> []) (map trim_space (concat (map (split_on (CHR '','')) vs)))"

fun parse_networks :: "net_env \<Rightarrow> (string \<Rightarrow> policy_error) \<Rightarrow> string list \<Rightarrow> policy_error + network list" where
  "parse_networks ne err [] = Inr []"
| "parse_networks ne err (raw # rest) = (case ne_parse_cidr ne raw of
     None \<Rightarrow> Inl (err raw)
   | Some n \<Rightarrow> (case parse_networks ne err rest of Inl e \<Rightarrow> Inl e | Inr ns \<Rightarrow> Inr (n # ns)))"

definition NewPolicy :: "net_env \<Rightarrow> host_config \<Rightarrow> policy_error + host_policy" where
  "NewPolicy ne cfg = (case NormalizeEnforcement (hc_enforcement cfg) of
     None \<Rightarrow> Inl InvalidEnforcement
   | Some enf \<Rightarrow> (case parse_networks ne InvalidAllowCIDR (normalizeList (hc_cidr_allowlist cfg)) of
       Inl e \<Rightarrow> Inl e
     | Inr allow \<Rightarrow> (case parse_networks ne InvalidDenyCIDR (normalizeList (hc_cidr_denylist cfg)) of
         Inl e \<Rightarrow> Inl e
       | Inr deny \<Rightarrow> Inr \<lparr>hp_enforcement = enf, hp_host_allowlist = normalizeList (hc_host_allowlist cfg),
                           hp_cidr_allowlist = allow, hp_cidr_denylist = deny\<rparr>)))"

definition invalidHostLiteral :: "string \<Rightarrow> bool" where
  "invalidHostLiteral host = (contains host ''://'' \<or> list_ex (\<lambda>c. c \<in> set ''/?#@'') host \<or> contains host '' '')"

definition normalize_host :: "string \<Rightarrow> string" where
  "normalize_host h = to_lower (trim_suffix (trim_space h) ''.'')"

fun hostAllowed :: "string \<Rightarrow> string list \<Rightarrow> bool" where
  "hostAllowed host [] = False"
| "hostAllowed host (pat # pats) =
     (let h = normalize_host host; p = normalize_host pat
      in if p = [] then hostAllowed host pats
         else if has_prefix p ''*.'' then
           (let suff = trim_prefix p ''*''
            in if has_suffix h suff \<and> h \<noteq> trim_prefix suff ''.'' then True else hostAllowed host pats)
         else if h = p then True else hostAllowed host pats)"

definition containsIP :: "network list \<Rightarrow> ip \<Rightarrow> bool" where
  "containsIP ns x = list_ex (\<lambda>n. net_contains n x) ns"

definition anyIPAllowed :: "network list \<Rightarrow> ip list \<Rightarrow> bool" where
  "anyIPAllowed ns xs = list_ex (containsIP ns) xs"

definition resolve_host :: "net_env \<Rightarrow> string \<Rightarrow> ip list option" where
  "resolve_host ne host = (case ne_parse_ip ne host of
     Some x \<Rightarrow> Some [x]
   | None \<Rightarrow> (case ne_lookup ne host of
       None \<Rightarrow> None
     | Some addrs \<Rightarrow> let xs = concat (map (\<lambda>a. case a of None \<Rightarrow> [] | Some x \<Rightarrow> [x]) addrs) in if xs = [] then None else Some xs))"

datatype violation = HostRequired | HostLiteral | HostNotAllowed | ResolutionFailed | DeniedIP ip | NoAllowedIP

record check_report =
  rp_endpoint :: string
  rp_host :: string
  rp_ips :: "ip list"
  rp_violations :: "violation list"

definition enforcementError :: "host_policy \<Rightarrow> check_report \<Rightarrow> bool" where
  "enforcementError p rp = (rp_violations rp \<noteq> [] \<and> hp_enforcement p = EnforcementEnforce)"

text \<open>The report, and whether the connection is refused. A missing policy is one that is off.\<close>

definition Check :: "net_env \<Rightarrow> host_policy option \<Rightarrow> string \<Rightarrow> string \<Rightarrow> check_report \<times> bool" where
  "Check ne policy endpoint host =
     (let rp = \<lparr>rp_endpoint = trim_space endpoint, rp_host = trim_space host, rp_ips = [], rp_violations = []\<rparr>
      in case policy of
           None \<Rightarrow> (rp, False)
         | Some p \<Rightarrow>
             if hp_enforcement p = EnforcementOff then (rp, False)
             else if rp_host rp = [] then (let r = rp\<lparr>rp_violations := [HostRequired]\<rparr> in (r, enforcementError p r))
             else if invalidHostLiteral (rp_host rp) then (let r = rp\<lparr>rp_violations := [HostLiteral]\<rparr> in (r, enforcementError p r))
             else let v1 = (if hp_host_allowlist p \<noteq> [] \<and> \<not> hostAllowed (rp_host rp) (hp_host_allowlist p) then [HostNotAllowed] else [])
               in case resolve_host ne (rp_host rp) of
                    None \<Rightarrow> (let r = rp\<lparr>rp_violations := v1 @ [ResolutionFailed]\<rparr> in (r, enforcementError p r))
                  | Some xs \<Rightarrow>
                      let v2 = map DeniedIP (filter (containsIP (hp_cidr_denylist p)) xs);
                          v3 = (if hp_cidr_allowlist p \<noteq> [] \<and> \<not> anyIPAllowed (hp_cidr_allowlist p) xs then [NoAllowedIP] else []);
                          r = rp\<lparr>rp_ips := xs, rp_violations := v1 @ v2 @ v3\<rparr>
                      in (r, enforcementError p r))"

section \<open>What the policy means\<close>

text \<open>An address is in a network if they agree on the bits of the prefix.\<close>

lemma bit_and_prefix:
  fixes y :: "32 word"
  assumes "n \<le> 32"
  shows "bit (y AND push_bit (32 - n) (mask n)) i \<longleftrightarrow> 32 - n \<le> i \<and> i < 32 \<and> bit y i"
  using assms bit_imp_le_length [of y i] by (auto simp: bit_simps)

lemma net_contains_bits:
  fixes a x :: "32 word"
  assumes "n \<le> 32"
  shows "net_contains (Net4 a n) (V4 x) \<longleftrightarrow> (\<forall>i. 32 - n \<le> i \<and> i < 32 \<longrightarrow> bit x i = bit a i)"
proof
  assume "net_contains (Net4 a n) (V4 x)"
  then have "bit (x AND push_bit (32 - n) (mask n)) i = bit (a AND push_bit (32 - n) (mask n)) i" for i by simp
  then show "\<forall>i. 32 - n \<le> i \<and> i < 32 \<longrightarrow> bit x i = bit a i" unfolding bit_and_prefix [OF assms] by blast
next
  assume "\<forall>i. 32 - n \<le> i \<and> i < 32 \<longrightarrow> bit x i = bit a i"
  then have "x AND push_bit (32 - n) (mask n) = a AND push_bit (32 - n) (mask n)"
    by (intro bit_word_eqI) (simp only: bit_and_prefix [OF assms], blast)
  then show "net_contains (Net4 a n) (V4 x)" by simp
qed

text \<open>The names a list of patterns allows: those listed, and for a wildcard the names below it.\<close>

definition pattern_allows :: "string \<Rightarrow> string \<Rightarrow> bool" where
  "pattern_allows pat host \<longleftrightarrow>
     (\<exists>d. normalize_host pat = ''*.'' @ d \<and> (\<exists>sub. normalize_host host = sub @ ''.'' @ d)) \<or>
     (normalize_host pat \<noteq> [] \<and> \<not> prefix ''*.'' (normalize_host pat) \<and> normalize_host host = normalize_host pat)"

lemma hostAllowed_Cons: "hostAllowed host (pat # pats) \<longleftrightarrow> pattern_allows pat host \<or> hostAllowed host pats"
proof (cases "has_prefix (normalize_host pat) ''*.''")
  case True
  let ?h = "normalize_host host" and ?p = "normalize_host pat"
  from True obtain d where d: "?p = ''*.'' @ d" by (auto simp: has_prefix_def prefix_def)
  have "trim_prefix ?p ''*'' = ''.'' @ d" "trim_prefix (''.'' @ d) ''.'' = d" by (simp_all add: d trim_prefix_def has_prefix_def)
  moreover have "has_suffix ?h (''.'' @ d) \<and> ?h \<noteq> d \<longleftrightarrow> (\<exists>sub. ?h = sub @ ''.'' @ d)"
    by (auto simp: has_suffix_def suffix_def)
  moreover have "pattern_allows pat host \<longleftrightarrow> (\<exists>sub. ?h = sub @ ''.'' @ d)" by (auto simp: pattern_allows_def d)
  ultimately show ?thesis using d True by (simp add: Let_def)
next
  case False
  then show ?thesis by (auto simp: pattern_allows_def Let_def has_prefix_def)
qed

lemma hostAllowed_iff: "hostAllowed host pats \<longleftrightarrow> (\<exists>pat \<in> set pats. pattern_allows pat host)"
  by (induction pats) (simp_all add: hostAllowed_Cons del: hostAllowed.simps(2))

text \<open>
  An enforced policy lets a connection pass exactly if the host is a plain name, an allowed one if any
  are listed, that resolves to addresses of which none is in a denied network and, if allowed networks are
  listed, one is in an allowed network. A policy that is off or only warns lets everything pass.
\<close>

theorem host_policy_decides:
  "\<not> snd (Check ne (Some p) endpoint host) \<longleftrightarrow>
     hp_enforcement p \<noteq> EnforcementEnforce \<or>
     (trim_space host \<noteq> [] \<and> \<not> invalidHostLiteral (trim_space host) \<and>
      (hp_host_allowlist p = [] \<or> (\<exists>pat \<in> set (hp_host_allowlist p). pattern_allows pat (trim_space host))) \<and>
      (\<exists>xs. resolve_host ne (trim_space host) = Some xs \<and>
         \<not> (\<exists>x \<in> set xs. \<exists>n \<in> set (hp_cidr_denylist p). net_contains n x) \<and>
         (hp_cidr_allowlist p = [] \<or> (\<exists>x \<in> set xs. \<exists>n \<in> set (hp_cidr_allowlist p). net_contains n x))))"
proof (cases "hp_enforcement p = EnforcementEnforce")
  case False
  then show ?thesis by (auto simp: Check_def enforcementError_def Let_def split: option.splits)
next
  case True
  show ?thesis
  proof (cases "trim_space host = [] \<or> invalidHostLiteral (trim_space host) \<or> resolve_host ne (trim_space host) = None")
    case bad: True
    with True show ?thesis by (auto simp: Check_def enforcementError_def Let_def)
  next
    case False
    then obtain xs where xs: "resolve_host ne (trim_space host) = Some xs" by auto
    have "filter (containsIP (hp_cidr_denylist p)) xs = [] \<longleftrightarrow> \<not> (\<exists>x \<in> set xs. \<exists>n \<in> set (hp_cidr_denylist p). net_contains n x)"
      by (auto simp: filter_empty_conv containsIP_def list_ex_iff)
    moreover have "anyIPAllowed (hp_cidr_allowlist p) xs \<longleftrightarrow> (\<exists>x \<in> set xs. \<exists>n \<in> set (hp_cidr_allowlist p). net_contains n x)"
      by (simp add: anyIPAllowed_def containsIP_def list_ex_iff)
    ultimately show ?thesis
      using True False xs by (simp add: Check_def enforcementError_def Let_def hostAllowed_iff)
  qed
qed

definition sample_net_env :: net_env where
  "sample_net_env = \<lparr>ne_parse_cidr = (\<lambda>_. Some (Net4 0x0A000000 8)), ne_parse_ip = (\<lambda>_. None),
     ne_lookup = (\<lambda>_. Some [Some (V4 0x0A010203), None])\<rparr>"

definition sample_policy :: host_policy where
  "sample_policy = \<lparr>hp_enforcement = EnforcementEnforce, hp_host_allowlist = [''*.db.example.org''],
     hp_cidr_allowlist = [Net4 0x0A000000 8], hp_cidr_denylist = [Net4 0xA9FE0000 16]\<rparr>"

theorem host_policy_decides_witness:
  "\<not> snd (Check sample_net_env (Some sample_policy) ''primary'' ''orders.db.example.org'') \<and>
   (\<exists>pat \<in> set (hp_host_allowlist sample_policy). pattern_allows pat ''orders.db.example.org'')"
proof -
  have "snd (Check sample_net_env (Some sample_policy) ''primary'' ''orders.db.example.org'') = False"
    and "trim_space ''orders.db.example.org'' = ''orders.db.example.org''" by code_simp+
  moreover have "hp_enforcement sample_policy = EnforcementEnforce" "hp_host_allowlist sample_policy \<noteq> []"
    by (simp_all add: sample_policy_def)
  ultimately show ?thesis
    using host_policy_decides [of sample_net_env sample_policy "''primary''" "''orders.db.example.org''"] by simp
qed

end
