(* ===== verification/Sign_In_Store.thy ===== *)
theory Sign_In_Store
  imports Identity
begin

text \<open>
  The tables behind signing in: the accounts with their credentials (\<open>internal/repository/user.go\<close>), the
  sessions (\<open>session.go\<close>), the challenges for a second factor (\<open>mfa_challenge.go\<close>) and the pending
  logins through Lark and through an OIDC provider (\<open>lark_login.go\<close>, \<open>sso_login.go\<close>).

  An account is a row of the users table with all its columns; the queries on groups see its first columns
  through \<open>identity_of\<close>. An insert that violates a unique key of the schema fails. The two tables of
  pending logins have the same columns, apart from the identity kept for OIDC, and share their operations.
  Their transactions read a snapshot that may be older than the rows they update; it is an argument.
\<close>

section \<open>Tables\<close>

record account = user +
  ac_email :: string
  ac_lark_recipient :: string
  ac_lark_recipient_type :: string
  ac_lark_union_id :: string
  ac_password :: string
  ac_ext_source :: string
  ac_ext_id :: string
  ac_password_login_disabled :: bool
  ac_lark_login_open_id :: string
  ac_lark_login_union_id :: string
  ac_lark_display_name :: string
  ac_lark_avatar_url :: string
  ac_lark_bound_at :: "timestamp option"
  ac_lark_binding_status :: string
  ac_mfa_enabled :: bool
  ac_mfa_secret :: "string option"
  ac_mfa_enabled_at :: "timestamp option"
  ac_updated_at :: timestamp

record session =
  se_id :: id64
  se_user :: id64
  se_token_hash :: string
  se_user_agent :: "string option"
  se_ip_address :: "string option"
  se_auth_method :: string
  se_auth_provider :: string
  se_mfa_satisfied :: bool
  se_mfa_source :: string
  se_expires_at :: timestamp
  se_revoked_at :: "timestamp option"
  se_created_at :: timestamp

record mfa_challenge =
  mc_id :: id64
  mc_token_id :: string
  mc_user :: id64
  mc_setup :: bool
  mc_expires_at :: timestamp
  mc_attempts :: nat
  mc_used_at :: "timestamp option"
  mc_revoked_at :: "timestamp option"
  mc_created_ip :: "string option"
  mc_created_at :: timestamp

record login_state =
  ls_id :: id64
  ls_state :: string
  ls_return_to :: string
  ls_user :: "id64 option"
  ls_ticket :: string
  ls_error :: string
  ls_expires_at :: timestamp
  ls_used_at :: "timestamp option"
  ls_ticket_expires_at :: "timestamp option"
  ls_ticket_used_at :: "timestamp option"
  ls_created_at :: timestamp
  ls_updated_at :: timestamp

record sso_identity =
  si_subject :: string
  si_email :: string
  si_email_verified :: bool
  si_email_verified_present :: bool
  si_name :: string
  si_lark_open_id :: string
  si_lark_union_id :: string

record sso_login_state = login_state +
  ls_identity :: "sso_identity option"

record auth_db =
  ad_accounts :: "account list"
  ad_next_account :: id64
  ad_identity :: identity
  ad_sessions :: "session list"
  ad_next_session :: id64
  ad_challenges :: "mfa_challenge list"
  ad_next_challenge :: id64
  ad_lark_logins :: "login_state list"
  ad_next_lark :: id64
  ad_sso_logins :: "sso_login_state list"
  ad_next_sso :: id64

definition identity_of :: "auth_db \<Rightarrow> identity" where
  "identity_of db = (ad_identity db)\<lparr>i_users := map user.truncate (ad_accounts db)\<rparr>"

section \<open>Accounts\<close>

definition GetAccount :: "auth_db \<Rightarrow> id64 \<Rightarrow> account option" where
  "GetAccount db u = find (\<lambda>a. u_id a = u) (ad_accounts db)"

definition GetByUsername :: "auth_db \<Rightarrow> string \<Rightarrow> account option" where
  "GetByUsername db name = find (\<lambda>a. u_username a = name) (ad_accounts db)"

definition GetByEmail :: "auth_db \<Rightarrow> string \<Rightarrow> account option" where
  "GetByEmail db email = find (\<lambda>a. ac_email a = email) (ad_accounts db)"

definition CountUsers :: "auth_db \<Rightarrow> nat" where
  "CountUsers db = length (ad_accounts db)"

text \<open>\<open>ORDER BY id LIMIT 1\<close>.\<close>

definition first_account :: "(account \<Rightarrow> bool) \<Rightarrow> auth_db \<Rightarrow> account option" where
  "first_account P db = find P (sort_key u_id (ad_accounts db))"

definition GetByLarkLoginIdentity :: "auth_db \<Rightarrow> string \<Rightarrow> string \<Rightarrow> account option" where
  "GetByLarkLoginIdentity db openID0 unionID0 =
     (let openID = trim_space openID0; unionID = trim_space unionID0
      in if openID = [] \<and> unionID = [] then None
         else if openID \<noteq> [] \<and> unionID \<noteq> [] then
           first_account (\<lambda>a. ac_lark_login_open_id a = openID \<or> ac_lark_login_union_id a = unionID) db
         else if openID \<noteq> [] then first_account (\<lambda>a. ac_lark_login_open_id a = openID) db
         else first_account (\<lambda>a. ac_lark_login_union_id a = unionID) db)"

definition GetByLarkOperator :: "auth_db \<Rightarrow> string \<Rightarrow> string \<Rightarrow> account option" where
  "GetByLarkOperator db openID0 unionID0 =
     (let openID = trim_space openID0; unionID = trim_space unionID0
      in if openID = [] \<and> unionID = [] then None
         else first_account (\<lambda>a. u_is_active a \<and>
           (unionID \<noteq> [] \<and> (ac_lark_union_id a = unionID \<or> ac_lark_login_union_id a = unionID) \<or>
            openID \<noteq> [] \<and> (ac_lark_login_open_id a = openID \<or>
              ac_lark_recipient_type a = ''open_id'' \<and> ac_lark_recipient a = openID))) db)"

definition GetByExternalIdentity :: "auth_db \<Rightarrow> string \<Rightarrow> string \<Rightarrow> account option" where
  "GetByExternalIdentity db provider0 subject0 =
     (let provider = trim_space provider0; subject = trim_space subject0
      in if provider = [] \<or> subject = [] then None
         else first_account (\<lambda>a. ac_ext_source a = provider \<and> ac_ext_id a = subject) db)"

definition update_account :: "(account \<Rightarrow> bool) \<Rightarrow> (account \<Rightarrow> account) \<Rightarrow> auth_db \<Rightarrow> auth_db" where
  "update_account P f db = db\<lparr>ad_accounts := update_where P f (ad_accounts db)\<rparr>"

definition BindExternalIdentity :: "timestamp \<Rightarrow> id64 \<Rightarrow> string \<Rightarrow> string \<Rightarrow> auth_db \<Rightarrow> auth_db" where
  "BindExternalIdentity now u provider subject = update_account (\<lambda>a. u_id a = u)
     (\<lambda>a. a\<lparr>ac_ext_source := trim_space provider, ac_ext_id := trim_space subject,
            ac_password_login_disabled := True, ac_updated_at := now\<rparr>)"

definition UpdateLarkUnionID :: "timestamp \<Rightarrow> id64 \<Rightarrow> string \<Rightarrow> auth_db \<Rightarrow> bool \<times> auth_db" where
  "UpdateLarkUnionID now u unionID0 db =
     (let unionID = trim_space unionID0;
          P = (\<lambda>a. u_id a = u \<and> (ac_lark_union_id a = [] \<or>
                 ac_lark_union_id a = unionID \<and> ac_lark_recipient_type a \<noteq> ''union_id''))
      in if unionID = [] then (False, db)
         else (affected P (ad_accounts db),
               update_account P (\<lambda>a. a\<lparr>ac_lark_union_id := unionID, ac_lark_recipient_type := ''union_id'',
                 ac_updated_at := now\<rparr>) db))"

fun firstNonEmptyUserValue :: "string list \<Rightarrow> string" where
  "firstNonEmptyUserValue [] = []"
| "firstNonEmptyUserValue (v # vs) = (if trim_space v \<noteq> [] then trim_space v else firstNonEmptyUserValue vs)"

record lark_input =
  li_open_id :: string
  li_union_id :: string
  li_email :: string
  li_display_name :: string
  li_avatar_url :: string

definition BindLarkIdentity :: "timestamp \<Rightarrow> id64 \<Rightarrow> lark_input \<Rightarrow> auth_db \<Rightarrow> auth_db" where
  "BindLarkIdentity now u i = update_account (\<lambda>a. u_id a = u)
     (\<lambda>a. a\<lparr>ac_lark_recipient := trim_space (li_open_id i), ac_lark_recipient_type := ''open_id'',
            ac_ext_source := ''lark'', ac_ext_id := firstNonEmptyUserValue [li_union_id i, li_open_id i],
            ac_lark_login_open_id := trim_space (li_open_id i), ac_lark_login_union_id := trim_space (li_union_id i),
            ac_lark_display_name := trim_space (li_display_name i), ac_lark_avatar_url := trim_space (li_avatar_url i),
            ac_lark_bound_at := Some now, ac_lark_binding_status := ''bound'', ac_updated_at := now\<rparr>)"

definition normalizeLarkRecipientType :: "string \<Rightarrow> string" where
  "normalizeLarkRecipientType v = (if trim_space v = ''union_id'' then ''union_id'' else ''open_id'')"

text \<open>A row with the defaults of the schema in the columns an insert leaves out.\<close>

definition default_account :: "timestamp \<Rightarrow> id64 \<Rightarrow> string \<Rightarrow> string \<Rightarrow> string \<Rightarrow> account" where
  "default_account now i username email password =
     \<lparr>u_id = i, u_username = username, u_is_active = True, u_is_protected = False,
      ac_email = email, ac_lark_recipient = [], ac_lark_recipient_type = ''open_id'', ac_lark_union_id = [],
      ac_password = password, ac_ext_source = [], ac_ext_id = [], ac_password_login_disabled = False,
      ac_lark_login_open_id = [], ac_lark_login_union_id = [], ac_lark_display_name = [], ac_lark_avatar_url = [],
      ac_lark_bound_at = None, ac_lark_binding_status = ''unbound'', ac_mfa_enabled = False, ac_mfa_secret = None,
      ac_mfa_enabled_at = None, ac_updated_at = now\<rparr>"

text \<open>The keys \<open>uq_users_username\<close> and \<open>uq_users_email\<close>.\<close>

definition insert_account :: "account \<Rightarrow> auth_db \<Rightarrow> id64 option \<times> auth_db" where
  "insert_account a db =
     (if list_ex (\<lambda>b. u_username b = u_username a \<or> ac_email b = ac_email a) (ad_accounts db) then (None, db)
      else (Some (u_id a), db\<lparr>ad_accounts := ad_accounts db @ [a], ad_next_account := u_id a + 1\<rparr>))"

definition CreateUser ::
    "timestamp \<Rightarrow> string \<Rightarrow> string \<Rightarrow> string \<Rightarrow> string \<Rightarrow> string \<Rightarrow> string \<Rightarrow> bool \<Rightarrow> auth_db \<Rightarrow> id64 option \<times> auth_db" where
  "CreateUser now username email recipient recipientType unionID password protected db =
     insert_account ((default_account now (ad_next_account db) username email password)
       \<lparr>ac_lark_recipient := trim_space recipient, ac_lark_recipient_type := normalizeLarkRecipientType recipientType,
        ac_lark_union_id := trim_space unionID, u_is_protected := protected\<rparr>) db"

definition AuthGroupDeveloper :: string where "AuthGroupDeveloper = ''developer''"

definition grant_developer :: "id64 option \<times> auth_db \<Rightarrow> id64 option \<times> auth_db" where
  "grant_developer r = (case r of (None, db) \<Rightarrow> (None, db)
     | (Some i, db) \<Rightarrow> (Some i, db\<lparr>ad_identity := AddMembership i AuthGroupDeveloper None (ad_identity db)\<rparr>))"

definition CreateLarkDeveloper :: "timestamp \<Rightarrow> string \<Rightarrow> lark_input \<Rightarrow> string \<Rightarrow> auth_db \<Rightarrow> id64 option \<times> auth_db" where
  "CreateLarkDeveloper now username i password db = grant_developer
     (insert_account ((default_account now (ad_next_account db) username (trim_space (li_email i)) password)
       \<lparr>ac_lark_recipient := trim_space (li_open_id i), ac_ext_source := ''lark'',
        ac_ext_id := firstNonEmptyUserValue [li_union_id i, li_open_id i], ac_password_login_disabled := True,
        ac_lark_login_open_id := trim_space (li_open_id i), ac_lark_login_union_id := trim_space (li_union_id i),
        ac_lark_display_name := trim_space (li_display_name i), ac_lark_avatar_url := trim_space (li_avatar_url i),
        ac_lark_bound_at := Some now, ac_lark_binding_status := ''bound''\<rparr>) db)"

record sso_input =
  ss_provider :: string
  ss_subject :: string
  ss_email :: string
  ss_lark_union_id :: string

definition CreateSSODeveloper :: "timestamp \<Rightarrow> string \<Rightarrow> sso_input \<Rightarrow> string \<Rightarrow> auth_db \<Rightarrow> id64 option \<times> auth_db" where
  "CreateSSODeveloper now username i password db = grant_developer
     (insert_account ((default_account now (ad_next_account db) username (trim_space (ss_email i)) password)
       \<lparr>ac_lark_recipient_type := (if trim_space (ss_lark_union_id i) \<noteq> [] then ''union_id'' else ''open_id''),
        ac_lark_union_id := trim_space (ss_lark_union_id i), ac_ext_source := trim_space (ss_provider i),
        ac_ext_id := trim_space (ss_subject i), ac_password_login_disabled := True\<rparr>) db)"

definition StoreMFASecret :: "timestamp \<Rightarrow> id64 \<Rightarrow> string \<Rightarrow> auth_db \<Rightarrow> auth_db" where
  "StoreMFASecret now u encrypted = update_account (\<lambda>a. u_id a = u)
     (\<lambda>a. a\<lparr>ac_mfa_secret := Some encrypted, ac_mfa_enabled := False, ac_mfa_enabled_at := None, ac_updated_at := now\<rparr>)"

definition EnableMFA :: "timestamp \<Rightarrow> id64 \<Rightarrow> auth_db \<Rightarrow> auth_db" where
  "EnableMFA now u = update_account (\<lambda>a. u_id a = u \<and> ac_mfa_secret a \<noteq> None)
     (\<lambda>a. a\<lparr>ac_mfa_enabled := True, ac_mfa_enabled_at := Some now, ac_updated_at := now\<rparr>)"

definition ResetMFA :: "timestamp \<Rightarrow> id64 \<Rightarrow> auth_db \<Rightarrow> auth_db" where
  "ResetMFA now u = update_account (\<lambda>a. u_id a = u)
     (\<lambda>a. a\<lparr>ac_mfa_enabled := False, ac_mfa_secret := None, ac_mfa_enabled_at := None, ac_updated_at := now\<rparr>)"

definition UpdateActive :: "timestamp \<Rightarrow> id64 \<Rightarrow> bool \<Rightarrow> auth_db \<Rightarrow> auth_db" where
  "UpdateActive now u active = update_account (\<lambda>a. u_id a = u) (\<lambda>a. a\<lparr>u_is_active := active, ac_updated_at := now\<rparr>)"

definition UpdatePassword :: "timestamp \<Rightarrow> id64 \<Rightarrow> string \<Rightarrow> auth_db \<Rightarrow> auth_db" where
  "UpdatePassword now u password = update_account (\<lambda>a. u_id a = u) (\<lambda>a. a\<lparr>ac_password := password, ac_updated_at := now\<rparr>)"

section \<open>Sessions\<close>

record session_options =
  so_auth_method :: string
  so_auth_provider :: string
  so_mfa_satisfied :: bool
  so_mfa_source :: string

definition optional :: "string \<Rightarrow> string option" where
  "optional v = (if v = [] then None else Some v)"

text \<open>The key \<open>uq_token_hash\<close>.\<close>

definition CreateWithOptions ::
    "timestamp \<Rightarrow> id64 \<Rightarrow> string \<Rightarrow> string \<Rightarrow> string \<Rightarrow> timestamp \<Rightarrow> session_options \<Rightarrow> auth_db \<Rightarrow> session option \<times> auth_db" where
  "CreateWithOptions now u tokenHash userAgent ipAddress expiresAt opts db =
     (let meth = trim_space (so_auth_method opts);
          s = \<lparr>se_id = ad_next_session db, se_user = u, se_token_hash = tokenHash, se_user_agent = optional userAgent,
               se_ip_address = optional ipAddress, se_auth_method = (if meth = [] then ''password'' else meth),
               se_auth_provider = trim_space (so_auth_provider opts), se_mfa_satisfied = so_mfa_satisfied opts,
               se_mfa_source = trim_space (so_mfa_source opts), se_expires_at = expiresAt, se_revoked_at = None,
               se_created_at = now\<rparr>
      in if list_ex (\<lambda>r. se_token_hash r = tokenHash) (ad_sessions db) then (None, db)
         else (Some s, db\<lparr>ad_sessions := ad_sessions db @ [s], ad_next_session := ad_next_session db + 1\<rparr>))"

definition GetByTokenHash :: "auth_db \<Rightarrow> string \<Rightarrow> session option" where
  "GetByTokenHash db h = find (\<lambda>s. se_token_hash s = h) (ad_sessions db)"

definition GetSession :: "auth_db \<Rightarrow> id64 \<Rightarrow> session option" where
  "GetSession db i = (if i = 0 then None else find (\<lambda>s. se_id s = i) (ad_sessions db))"

definition revoke_sessions :: "timestamp \<Rightarrow> (session \<Rightarrow> bool) \<Rightarrow> auth_db \<Rightarrow> auth_db" where
  "revoke_sessions now P db =
     db\<lparr>ad_sessions := update_where (\<lambda>s. P s \<and> se_revoked_at s = None) (\<lambda>s. s\<lparr>se_revoked_at := Some now\<rparr>) (ad_sessions db)\<rparr>"

definition RevokeToken :: "timestamp \<Rightarrow> string \<Rightarrow> auth_db \<Rightarrow> auth_db" where
  "RevokeToken now h = revoke_sessions now (\<lambda>s. se_token_hash s = h)"

definition RevokeByIDForUser :: "timestamp \<Rightarrow> id64 \<Rightarrow> id64 \<Rightarrow> auth_db \<Rightarrow> bool \<times> auth_db" where
  "RevokeByIDForUser now i u db =
     (affected (\<lambda>s. (se_id s = i \<and> se_user s = u) \<and> se_revoked_at s = None) (ad_sessions db),
      revoke_sessions now (\<lambda>s. se_id s = i \<and> se_user s = u) db)"

definition RevokeAllForUser :: "timestamp \<Rightarrow> id64 \<Rightarrow> auth_db \<Rightarrow> auth_db" where
  "RevokeAllForUser now u = revoke_sessions now (\<lambda>s. se_user s = u)"

text \<open>\<open>UserRepo.Delete\<close>; the table of resource groups is not modelled.\<close>

definition DeleteUser :: "id64 \<Rightarrow> auth_db \<Rightarrow> auth_db" where
  "DeleteUser u db = db\<lparr>
     ad_identity := (ad_identity db)\<lparr>i_memberships := delete_where (\<lambda>m. agm_user m = u) (i_memberships (ad_identity db))\<rparr>,
     ad_sessions := delete_where (\<lambda>s. se_user s = u) (ad_sessions db),
     ad_accounts := delete_where (\<lambda>a. u_id a = u) (ad_accounts db)\<rparr>"

section \<open>Challenges\<close>

definition CreateChallenge ::
    "timestamp \<Rightarrow> string \<Rightarrow> id64 \<Rightarrow> bool \<Rightarrow> timestamp \<Rightarrow> string \<Rightarrow> auth_db \<Rightarrow> bool \<times> auth_db" where
  "CreateChallenge now tokenID u setup expiresAt ip db =
     (if list_ex (\<lambda>c. mc_token_id c = tokenID) (ad_challenges db) then (False, db)
      else (True, db\<lparr>ad_challenges := ad_challenges db @
        [\<lparr>mc_id = ad_next_challenge db, mc_token_id = tokenID, mc_user = u, mc_setup = setup, mc_expires_at = expiresAt,
          mc_attempts = 0, mc_used_at = None, mc_revoked_at = None, mc_created_ip = optional ip, mc_created_at = now\<rparr>],
        ad_next_challenge := ad_next_challenge db + 1\<rparr>))"

definition GetByTokenID :: "auth_db \<Rightarrow> string \<Rightarrow> mfa_challenge option" where
  "GetByTokenID db t = find (\<lambda>c. mc_token_id c = t) (ad_challenges db)"

definition open_challenge :: "mfa_challenge \<Rightarrow> bool" where
  "open_challenge c = (mc_used_at c = None \<and> mc_revoked_at c = None)"

definition failed_row :: "timestamp \<Rightarrow> nat \<Rightarrow> mfa_challenge \<Rightarrow> mfa_challenge" where
  "failed_row now maxAttempts c = c\<lparr>mc_attempts := mc_attempts c + 1,
     mc_revoked_at := (if mc_attempts c + 1 \<ge> maxAttempts then coalesce (mc_revoked_at c) (Some now) else mc_revoked_at c)\<rparr>"

definition RecordFailedAttempt :: "timestamp \<Rightarrow> id64 \<Rightarrow> nat \<Rightarrow> mfa_challenge list \<Rightarrow> mfa_challenge list" where
  "RecordFailedAttempt now i maxAttempts =
     update_where (\<lambda>c. mc_id c = i \<and> open_challenge c) (failed_row now maxAttempts)"

definition MarkUsed :: "timestamp \<Rightarrow> id64 \<Rightarrow> mfa_challenge list \<Rightarrow> bool \<times> mfa_challenge list" where
  "MarkUsed now i cs =
     (let P = (\<lambda>c. mc_id c = i \<and> open_challenge c \<and> now < mc_expires_at c)
      in (affected P cs, update_where P (\<lambda>c. c\<lparr>mc_used_at := Some now\<rparr>) cs))"

definition RevokeExpired :: "timestamp \<Rightarrow> timestamp \<Rightarrow> mfa_challenge list \<Rightarrow> mfa_challenge list" where
  "RevokeExpired now before =
     update_where (\<lambda>c. mc_expires_at c \<le> before \<and> open_challenge c) (\<lambda>c. c\<lparr>mc_revoked_at := Some now\<rparr>)"

section \<open>Pending logins\<close>

definition new_login_state :: "timestamp \<Rightarrow> id64 \<Rightarrow> string \<Rightarrow> string \<Rightarrow> timestamp \<Rightarrow> login_state" where
  "new_login_state now i state returnTo expiresAt =
     \<lparr>ls_id = i, ls_state = state, ls_return_to = returnTo, ls_user = None, ls_ticket = [], ls_error = [],
      ls_expires_at = expiresAt, ls_used_at = None, ls_ticket_expires_at = None, ls_ticket_used_at = None,
      ls_created_at = now, ls_updated_at = now\<rparr>"

text \<open>The key on the state.\<close>

definition CreateLarkLogin :: "timestamp \<Rightarrow> string \<Rightarrow> string \<Rightarrow> timestamp \<Rightarrow> auth_db \<Rightarrow> bool \<times> auth_db" where
  "CreateLarkLogin now state returnTo expiresAt db =
     (if list_ex (\<lambda>r. ls_state r = state) (ad_lark_logins db) then (False, db)
      else (True, db\<lparr>ad_lark_logins := ad_lark_logins db @ [new_login_state now (ad_next_lark db) state returnTo expiresAt],
        ad_next_lark := ad_next_lark db + 1\<rparr>))"

definition CreateSSOLogin :: "timestamp \<Rightarrow> string \<Rightarrow> string \<Rightarrow> timestamp \<Rightarrow> auth_db \<Rightarrow> bool \<times> auth_db" where
  "CreateSSOLogin now state returnTo expiresAt db =
     (if list_ex (\<lambda>r. ls_state r = state) (ad_sso_logins db) then (False, db)
      else (True, db\<lparr>ad_sso_logins := ad_sso_logins db @
          [login_state.extend (new_login_state now (ad_next_sso db) state returnTo expiresAt) (sso_login_state.fields None)],
        ad_next_sso := ad_next_sso db + 1\<rparr>))"

definition claim_guard_state :: "id64 \<Rightarrow> 'a login_state_scheme \<Rightarrow> bool" where
  "claim_guard_state i r = (ls_id r = i \<and> ls_used_at r = None)"

definition take_state :: "id64 \<Rightarrow> timestamp \<Rightarrow> 'a login_state_scheme list \<Rightarrow> bool \<times> 'a login_state_scheme list" where
  "take_state i now rows = (affected (claim_guard_state i) rows,
     update_where (claim_guard_state i) (\<lambda>r. r\<lparr>ls_used_at := Some now, ls_updated_at := now\<rparr>) rows)"

definition ClaimState ::
    "string \<Rightarrow> timestamp \<Rightarrow> 'a login_state_scheme list \<Rightarrow> 'a login_state_scheme list \<Rightarrow>
     'a login_state_scheme option \<times> 'a login_state_scheme list" where
  "ClaimState state now snapshot rows =
     (case find (\<lambda>r. ls_state r = state \<and> ls_used_at r = None \<and> now < ls_expires_at r) snapshot of
        None \<Rightarrow> (None, rows)
      | Some rec \<Rightarrow> (case take_state (ls_id rec) now rows of
          (ok, rows') \<Rightarrow> if ok then (Some rec, rows') else (None, rows)))"

definition StoreTicket ::
    "timestamp \<Rightarrow> id64 \<Rightarrow> id64 \<Rightarrow> string \<Rightarrow> timestamp \<Rightarrow> 'a login_state_scheme list \<Rightarrow> 'a login_state_scheme list" where
  "StoreTicket now i u ticket expiresAt = update_where (\<lambda>r. ls_id r = i)
     (\<lambda>r. r\<lparr>ls_user := Some u, ls_ticket := ticket, ls_ticket_expires_at := Some expiresAt, ls_updated_at := now\<rparr>)"

definition StoreSSOTicket ::
    "timestamp \<Rightarrow> id64 \<Rightarrow> id64 \<Rightarrow> string \<Rightarrow> sso_identity \<Rightarrow> timestamp \<Rightarrow> sso_login_state list \<Rightarrow> sso_login_state list" where
  "StoreSSOTicket now i u ticket identity expiresAt = update_where (\<lambda>r. ls_id r = i)
     (\<lambda>r. r\<lparr>ls_user := Some u, ls_ticket := ticket, ls_ticket_expires_at := Some expiresAt, ls_updated_at := now,
            ls_identity := Some identity\<rparr>)"

definition MarkFailed :: "timestamp \<Rightarrow> id64 \<Rightarrow> string \<Rightarrow> 'a login_state_scheme list \<Rightarrow> 'a login_state_scheme list" where
  "MarkFailed now i reason = update_where (\<lambda>r. ls_id r = i) (\<lambda>r. r\<lparr>ls_error := reason, ls_updated_at := now\<rparr>)"

definition consume_guard :: "id64 \<Rightarrow> 'a login_state_scheme \<Rightarrow> bool" where
  "consume_guard i r = (ls_id r = i \<and> ls_ticket_used_at r = None)"

definition usable_ticket :: "string \<Rightarrow> timestamp \<Rightarrow> 'a login_state_scheme \<Rightarrow> bool" where
  "usable_ticket ticket now r = (ls_ticket r = ticket \<and> ls_ticket_used_at r = None \<and>
     (case ls_ticket_expires_at r of None \<Rightarrow> False | Some e \<Rightarrow> now < e) \<and> ls_user r \<noteq> None)"

definition take_ticket :: "id64 \<Rightarrow> timestamp \<Rightarrow> 'a login_state_scheme list \<Rightarrow> bool \<times> 'a login_state_scheme list" where
  "take_ticket i now rows = (affected (consume_guard i) rows,
     update_where (consume_guard i) (\<lambda>r. r\<lparr>ls_ticket_used_at := Some now, ls_updated_at := now\<rparr>) rows)"

definition ConsumeTicket ::
    "string \<Rightarrow> timestamp \<Rightarrow> 'a login_state_scheme list \<Rightarrow> 'a login_state_scheme list \<Rightarrow>
     'a login_state_scheme option \<times> 'a login_state_scheme list" where
  "ConsumeTicket ticket now snapshot rows =
     (case find (usable_ticket ticket now) snapshot of
        None \<Rightarrow> (None, rows)
      | Some rec \<Rightarrow> (case take_ticket (ls_id rec) now rows of
          (ok, rows') \<Rightarrow> if ok then (Some rec, rows') else (None, rows)))"

section \<open>A challenge is limited\<close>

text \<open>What happens to the challenges, by any requests, and the same seen by one of them.\<close>

datatype challenge_event = Failed_Code timestamp id64 | Right_Code timestamp id64 | Expiry timestamp timestamp

fun challenge_step :: "nat \<Rightarrow> challenge_event \<Rightarrow> mfa_challenge list \<Rightarrow> bool \<times> mfa_challenge list" where
  "challenge_step m (Failed_Code now i) cs = (False, RecordFailedAttempt now i m cs)"
| "challenge_step m (Right_Code now i) cs = MarkUsed now i cs"
| "challenge_step m (Expiry now before) cs = (False, RevokeExpired now before cs)"

fun run_challenges :: "nat \<Rightarrow> challenge_event list \<Rightarrow> mfa_challenge list \<Rightarrow> mfa_challenge list" where
  "run_challenges m [] cs = cs"
| "run_challenges m (e # es) cs = run_challenges m es (snd (challenge_step m e cs))"

fun challenge_row :: "nat \<Rightarrow> challenge_event \<Rightarrow> mfa_challenge \<Rightarrow> mfa_challenge" where
  "challenge_row m (Failed_Code now i) c = (if mc_id c = i \<and> open_challenge c then failed_row now m c else c)"
| "challenge_row m (Right_Code now i) c =
     (if mc_id c = i \<and> open_challenge c \<and> now < mc_expires_at c then c\<lparr>mc_used_at := Some now\<rparr> else c)"
| "challenge_row m (Expiry now before) c =
     (if mc_expires_at c \<le> before \<and> open_challenge c then c\<lparr>mc_revoked_at := Some now\<rparr> else c)"

definition failures :: "id64 \<Rightarrow> challenge_event list \<Rightarrow> nat" where
  "failures i es = length (filter (\<lambda>e. case e of Failed_Code now j \<Rightarrow> j = i | _ \<Rightarrow> False) es)"

definition accepted_in :: "nat \<Rightarrow> id64 \<Rightarrow> challenge_event list \<Rightarrow> mfa_challenge list \<Rightarrow> bool" where
  "accepted_in m i es cs \<longleftrightarrow> (\<exists>es1 now es2. es = es1 @ Right_Code now i # es2 \<and> fst (MarkUsed now i (run_challenges m es1 cs)))"

lemma run_challenges_append: "run_challenges m (es @ fs) cs = run_challenges m fs (run_challenges m es cs)"
  by (induction es arbitrary: cs) simp_all

lemma challenge_row_id [simp]: "mc_id (challenge_row m e c) = mc_id c"
  by (cases e) (simp_all add: failed_row_def)

lemma challenge_step_map: "snd (challenge_step m e cs) = map (challenge_row m e) cs"
  by (cases e) (auto simp: RecordFailedAttempt_def MarkUsed_def RevokeExpired_def update_where_def Let_def)

lemma run_challenges_map: "run_challenges m es cs = map (fold (challenge_row m) es) cs"
  by (induction es arbitrary: cs) (simp_all add: challenge_step_map)

lemma fold_row_id [simp]: "mc_id (fold (challenge_row m) es c) = mc_id c"
  by (induction es arbitrary: c) simp_all

lemma open_attempts:
  assumes "open_challenge (fold (challenge_row m) es c)" and "mc_attempts c < m"
  shows "mc_attempts (fold (challenge_row m) es c) = mc_attempts c + failures (mc_id c) es
     \<and> mc_attempts (fold (challenge_row m) es c) < m"
  using assms(1)
proof (induction es rule: rev_induct)
  case Nil
  then show ?case using assms(2) by (simp add: failures_def)
next
  case (snoc e es)
  let ?c = "fold (challenge_row m) es c"
  have "open_challenge ?c" using snoc.prems by (cases e) (auto simp: open_challenge_def failed_row_def split: if_splits)
  with snoc.IH have "mc_attempts ?c = mc_attempts c + failures (mc_id c) es \<and> mc_attempts ?c < m" by blast
  with snoc.prems \<open>open_challenge ?c\<close> show ?case
    by (cases e) (auto simp: open_challenge_def failed_row_def failures_def split: if_splits)
qed

lemma closed_stays: "\<not> open_challenge c \<Longrightarrow> \<not> open_challenge (fold (challenge_row m) es c)"
proof (induction es arbitrary: c)
  case (Cons e es)
  then have "challenge_row m e c = c" by (cases e) auto
  with Cons show ?case by simp
qed simp

lemma MarkUsed_iff: "fst (MarkUsed now i cs) \<longleftrightarrow> (\<exists>c \<in> set cs. mc_id c = i \<and> open_challenge c \<and> now < mc_expires_at c)"
  by (simp add: MarkUsed_def Let_def affected_iff)

text \<open>
  A challenge for the second factor is limited. Whatever other requests do, it is accepted at most once,
  and only while fewer codes than the limit have failed on it.
\<close>

theorem mfa_challenge_limited:
  assumes "distinct (map mc_id cs)" and "c \<in> set cs" and "mc_attempts c = 0" and "0 < m"
    and "fst (MarkUsed now (mc_id c) (run_challenges m es cs))"
  shows "failures (mc_id c) es < m \<and> \<not> accepted_in m (mc_id c) es cs"
proof -
  have only: "d = c" if "d \<in> set cs" "mc_id d = mc_id c" for d
    using assms(1,2) that by (metis distinct_map inj_onD)
  have opened: "open_challenge (fold (challenge_row m) es c)" if "fst (MarkUsed now (mc_id c) (run_challenges m es cs))" for es now
    using that only by (auto simp: MarkUsed_iff run_challenges_map)
  have "failures (mc_id c) es < m" using open_attempts [OF opened [OF assms(5)]] assms(3,4) by simp
  moreover have False if acc: "accepted_in m (mc_id c) es cs"
  proof -
    obtain es1 t es2 where es: "es = es1 @ Right_Code t (mc_id c) # es2"
      and used: "fst (MarkUsed t (mc_id c) (run_challenges m es1 cs))" using acc by (auto simp: accepted_in_def)
    let ?c = "fold (challenge_row m) es1 c"
    have "open_challenge ?c \<and> t < mc_expires_at ?c" using used only by (auto simp: MarkUsed_iff run_challenges_map)
    then have "\<not> open_challenge (challenge_row m (Right_Code t (mc_id c)) ?c)" by (simp add: open_challenge_def)
    then have "\<not> open_challenge (fold (challenge_row m) es c)" unfolding es using closed_stays by simp
    with opened [OF assms(5)] show False by blast
  qed
  ultimately show ?thesis by blast
qed

definition sample_challenge :: mfa_challenge where
  "sample_challenge = \<lparr>mc_id = 1, mc_token_id = ''t'', mc_user = 7, mc_setup = False, mc_expires_at = 300,
     mc_attempts = 0, mc_used_at = None, mc_revoked_at = None, mc_created_ip = None, mc_created_at = 0\<rparr>"

theorem mfa_challenge_limited_witness:
  "failures 1 [Failed_Code 10 1, Failed_Code 11 1, Expiry 12 0] < 3 \<and>
   \<not> accepted_in 3 1 [Failed_Code 10 1, Failed_Code 11 1, Expiry 12 0] [sample_challenge]"
proof -
  have "fst (MarkUsed 20 (mc_id sample_challenge)
      (run_challenges 3 [Failed_Code 10 1, Failed_Code 11 1, Expiry 12 0] [sample_challenge]))" by code_simp
  from mfa_challenge_limited [OF _ _ _ _ this] show ?thesis by (simp add: sample_challenge_def)
qed

section \<open>A pending login is used once\<close>

interpretation state_taken: guarded_update "claim_guard_state i"
    "\<lambda>now r. r\<lparr>ls_used_at := Some now, ls_updated_at := now\<rparr>" "\<lambda>rows. rows" "take_state i" for i
  by unfold_locales (auto simp: claim_guard_state_def take_state_def update_where_none)

interpretation ticket_taken: guarded_update "consume_guard i"
    "\<lambda>now r. r\<lparr>ls_ticket_used_at := Some now, ls_updated_at := now\<rparr>" "\<lambda>rows. rows" "take_ticket i" for i
  by unfold_locales (auto simp: consume_guard_def take_ticket_def update_where_none)

text \<open>Everything that happens to the pending logins, with the snapshots the transactions read.\<close>

datatype 'r login_event =
    Claim_State string timestamp "'r list" | Store_Ticket timestamp id64 id64 string timestamp
  | Mark_Failed timestamp id64 string | Consume_Ticket string timestamp "'r list"

fun login_step :: "'a login_state_scheme login_event \<Rightarrow> 'a login_state_scheme list \<Rightarrow>
    (id64 option \<times> id64 option) \<times> 'a login_state_scheme list" where
  "login_step (Claim_State state now snap) rows =
     (case ClaimState state now snap rows of (r, rows') \<Rightarrow> ((map_option ls_id r, None), rows'))"
| "login_step (Store_Ticket now i u ticket e) rows = ((None, None), StoreTicket now i u ticket e rows)"
| "login_step (Mark_Failed now i reason) rows = ((None, None), MarkFailed now i reason rows)"
| "login_step (Consume_Ticket ticket now snap) rows =
     (case ConsumeTicket ticket now snap rows of (r, rows') \<Rightarrow> ((None, map_option ls_id r), rows'))"

fun login_outcomes :: "'a login_state_scheme login_event list \<Rightarrow> 'a login_state_scheme list \<Rightarrow> (id64 option \<times> id64 option) list" where
  "login_outcomes [] rows = []"
| "login_outcomes (e # es) rows = fst (login_step e rows) # login_outcomes es (snd (login_step e rows))"

definition winners :: "(id64 option \<times> id64 option \<Rightarrow> id64 option) \<Rightarrow> id64 \<Rightarrow> (id64 option \<times> id64 option) list \<Rightarrow> nat" where
  "winners f i os = length (filter (\<lambda>o'. f o' = Some i) os)"

lemma login_step_claim:
  "fst (fst (login_step e rows)) = Some i \<Longrightarrow> affected (claim_guard_state i) rows \<and> \<not> affected (claim_guard_state i) (snd (login_step e rows))"
  using state_taken.taken_once [of i]
  by (cases e) (auto simp: ClaimState_def take_state_def split: option.splits prod.splits if_splits)

lemma login_step_claimed:
  "\<not> affected (claim_guard_state i) rows \<Longrightarrow> \<not> affected (claim_guard_state i) (snd (login_step e rows))"
  by (cases e) (auto simp: ClaimState_def take_state_def ConsumeTicket_def take_ticket_def StoreTicket_def MarkFailed_def
      affected_iff set_update_where claim_guard_state_def split: option.splits if_splits)

lemma login_step_consume:
  "snd (fst (login_step e rows)) = Some i \<Longrightarrow> affected (consume_guard i) rows \<and> \<not> affected (consume_guard i) (snd (login_step e rows))"
  using ticket_taken.taken_once [of i]
  by (cases e) (auto simp: ConsumeTicket_def take_ticket_def split: option.splits prod.splits if_splits)

lemma login_step_consumed:
  "\<not> affected (consume_guard i) rows \<Longrightarrow> \<not> affected (consume_guard i) (snd (login_step e rows))"
  by (cases e) (auto simp: ClaimState_def take_state_def ConsumeTicket_def take_ticket_def StoreTicket_def MarkFailed_def
      affected_iff set_update_where consume_guard_def split: option.splits if_splits)

lemma winners_bound:
  fixes P :: "'a login_state_scheme list \<Rightarrow> bool"
  assumes "\<And>e rows. f (fst (login_step e rows)) = Some i \<Longrightarrow> P rows \<and> \<not> P (snd (login_step e rows))"
    and "\<And>e rows. \<not> P rows \<Longrightarrow> \<not> P (snd (login_step e rows))"
  shows "winners f i (login_outcomes es rows) \<le> (if P rows then 1 else 0)"
proof (induction es arbitrary: rows)
  case (Cons e es)
  show ?case
    using Cons.IH [of "snd (login_step e rows)"] assms(1) [of e rows] assms(2) [of rows e]
    by (auto simp: winners_def split: if_splits)
qed (simp add: winners_def)

text \<open>
  A pending login through Lark or an OIDC provider is used once. However the requests interleave and
  however old the snapshots are that their transactions read, the callback of a login is accepted at most
  once and its ticket is exchanged for a session at most once.
\<close>

theorem pending_login_used_once:
  "winners fst i (login_outcomes es rows) \<le> 1 \<and> winners snd i (login_outcomes es rows) \<le> 1"
proof
  have "winners fst i (login_outcomes es rows) \<le> (if affected (claim_guard_state i) rows then 1 else 0)"
    by (rule winners_bound) (use login_step_claim login_step_claimed in blast)+
  then show "winners fst i (login_outcomes es rows) \<le> 1" by (simp split: if_splits)
  have "winners snd i (login_outcomes es rows) \<le> (if affected (consume_guard i) rows then 1 else 0)"
    by (rule winners_bound) (use login_step_consume login_step_consumed in blast)+
  then show "winners snd i (login_outcomes es rows) \<le> 1" by (simp split: if_splits)
qed

end
