(* ===== verification/Sign_In.thy ===== *)
theory Sign_In
  imports Sign_In_Store Runtime
begin

text \<open>
  Signing in: the handlers of \<open>internal/handler/auth.go\<close>, the tokens of \<open>internal/auth/jwt.go\<close> and the
  authentication of requests in \<open>internal/middleware/auth.go\<close> and \<open>bearer.go\<close>.

  The hash of refresh tokens, password hashing, the one-time codes, the encryption of their secrets, the
  signatures of tokens and the exchange of an authorisation code with a provider are parameters, in the
  environment or in the arguments of a request. Random values and the clock are part of the request.
  A request is one step, with a single reading of the clock; \<open>fl\<close> says which of its database calls fail.
  Times are in nanoseconds. Log messages and the attributes of cookies are left out.
\<close>

section \<open>Environment\<close>

definition seconds :: "int \<Rightarrow> timestamp" where "seconds n = n * 1000000000"

definition AccessTokenTTL :: timestamp where "AccessTokenTTL = seconds (15 * 60)"
definition MFAChallengeTTL :: timestamp where "MFAChallengeTTL = seconds (5 * 60)"
definition RefreshTokenTTL :: timestamp where "RefreshTokenTTL = seconds (7 * 24 * 3600)"
definition refreshReuseGraceWindow :: timestamp where "refreshReuseGraceWindow = seconds 30"
definition loginStateTTL :: timestamp where "loginStateTTL = seconds (10 * 60)"
definition loginTicketTTL :: timestamp where "loginTicketTTL = seconds (2 * 60)"
definition mfaMaxAttempts :: nat where "mfaMaxAttempts = 5"
definition OIDCProviderKey :: string where "OIDCProviderKey = ''oidc''"

datatype mfa_enforcement = MFADisabled | MFARequiredForAdmins | MFAOther string

definition normalizeMFAEnforcement :: "string \<Rightarrow> mfa_enforcement" where
  "normalizeMFAEnforcement v = (if to_lower (trim_space v) = ''required_for_admins'' then MFARequiredForAdmins else MFADisabled)"

record jwt_claims =
  jc_uid :: id64
  jc_sub :: string
  jc_sid :: id64
  jc_setup :: bool
  jc_audience :: "string list"
  jc_id :: string
  jc_expires_at :: timestamp
  jc_issued_at :: timestamp

record lark_config =
  lc_enabled :: bool
  lc_site :: string
  lc_app_id :: string
  lc_app_secret :: string
  lc_redirect_url :: string
  lc_require_enterprise_email :: bool
  lc_domains :: "string list"

record oidc_config =
  oc_enabled :: bool
  oc_display_name :: string
  oc_issuer_url :: string
  oc_client_id :: string
  oc_client_secret :: string
  oc_redirect_url :: string
  oc_scopes :: "string list"
  oc_trust_mfa :: bool
  oc_require_enterprise_email :: bool
  oc_domains :: "string list"

text \<open>The platform settings that bear on signing in; a secret is \<open>None\<close> when it cannot be read.\<close>

record auth_settings =
  as_lark_enabled :: bool
  as_lark_site :: string
  as_lark_redirect_url :: string
  as_lark_app_id :: string
  as_lark_app_secret :: "string option"
  as_oidc_enabled :: bool
  as_oidc_display_name :: string
  as_oidc_issuer_url :: string
  as_oidc_client_id :: string
  as_oidc_redirect_url :: string
  as_oidc_secret_configured :: bool
  as_oidc_client_secret :: "string option"
  as_oidc_scopes :: "string list"
  as_oidc_trust_mfa :: bool

record auth_env =
  ae_enforcement :: mfa_enforcement
  ae_hash :: "string \<Rightarrow> string"
  ae_password_ok :: "string \<Rightarrow> string \<Rightarrow> bool"
  ae_password_hash :: "string \<Rightarrow> string option"
  ae_code_ok :: "timestamp \<Rightarrow> string \<Rightarrow> string \<Rightarrow> bool"
  ae_encrypt :: "string \<Rightarrow> string option"
  ae_decrypt :: "string \<Rightarrow> string option"
  ae_sign :: "jwt_claims \<Rightarrow> string option"
  ae_parse :: "timestamp \<Rightarrow> string \<Rightarrow> jwt_claims option"
  ae_lark :: lark_config
  ae_oidc :: oidc_config
  ae_settings :: "auth_settings option"

text \<open>\<open>aq_token\<close> and \<open>aq_seed\<close> are the results of the first and second call of \<open>NewTokenID\<close>.\<close>

record auth_request =
  aq_ip :: string
  aq_agent :: string
  aq_now :: timestamp
  aq_user :: id64
  aq_token :: "string option"
  aq_seed :: "string option"
  aq_totp :: "string option"
  aq_qr_ok :: bool

datatype auth_op =
    OpCount | OpUser | OpGroups | OpSessionRead | OpSessionCreate | OpRevokeOld | OpRevokeAll | OpRevokeOne
  | OpChallengeCreate | OpChallengeRead | OpChallengeFail | OpChallengeUse | OpStoreSecret | OpEnable
  | OpSettings | OpLoginCreate | OpLoginClaim | OpLoginConsume | OpLoginTicket | OpLoginFail
  | OpIdentity | OpEmail | OpBind | OpUsername | OpCreateUser | OpReload | OpMembership | OpUnion | OpAdmins

record auth_world =
  aw_db :: auth_db
  aw_login_limiter :: limiter
  aw_refresh_limiter :: limiter
  aw_mfa_limiter :: limiter
  aw_lark_limiter :: limiter
  aw_sso_limiter :: limiter
  aw_audit :: "(string \<times> id64 option) list"
  aw_alerts :: "(string \<times> id64) list"

datatype auth_response =
    Refused nat string | ChallengeIssued string | SetupIssued string string | SignedIn session string string "string option"
  | RedirectTo string | CreatedUser id64 | NoContent | LoginUrl string

definition log_audit :: "string \<Rightarrow> id64 option \<Rightarrow> auth_world \<Rightarrow> auth_world" where
  "log_audit action actor w = w\<lparr>aw_audit := aw_audit w @ [(action, actor)]\<rparr>"

definition set_db :: "auth_db \<Rightarrow> auth_world \<Rightarrow> auth_world" where
  "set_db db w = w\<lparr>aw_db := db\<rparr>"

section \<open>Tokens\<close>

definition NewAccessToken :: "auth_env \<Rightarrow> timestamp \<Rightarrow> id64 \<Rightarrow> string \<Rightarrow> id64 \<Rightarrow> string option" where
  "NewAccessToken env now u username sid = ae_sign env
     \<lparr>jc_uid = u, jc_sub = username, jc_sid = sid, jc_setup = False, jc_audience = [], jc_id = [],
      jc_expires_at = now + AccessTokenTTL, jc_issued_at = now\<rparr>"

definition ParseAccessToken :: "auth_env \<Rightarrow> timestamp \<Rightarrow> string \<Rightarrow> jwt_claims option" where
  "ParseAccessToken env now t = (case ae_parse env now t of None \<Rightarrow> None
     | Some c \<Rightarrow> if jc_audience c \<noteq> [] then None else Some c)"

definition NewMFAChallengeTokenWithID :: "auth_env \<Rightarrow> timestamp \<Rightarrow> id64 \<Rightarrow> string \<Rightarrow> bool \<Rightarrow> string \<Rightarrow> string option" where
  "NewMFAChallengeTokenWithID env now u username setup tokenID = ae_sign env
     \<lparr>jc_uid = u, jc_sub = username, jc_sid = 0, jc_setup = setup, jc_audience = [''mfa''], jc_id = tokenID,
      jc_expires_at = now + MFAChallengeTTL, jc_issued_at = now\<rparr>"

definition ParseMFAChallengeToken :: "auth_env \<Rightarrow> timestamp \<Rightarrow> string \<Rightarrow> jwt_claims option" where
  "ParseMFAChallengeToken env now t = (case ae_parse env now t of None \<Rightarrow> None
     | Some c \<Rightarrow> if ''mfa'' \<in> set (jc_audience c) then Some c else None)"

section \<open>Strings\<close>

definition sanitizeReturnTo :: "string \<Rightarrow> string" where
  "sanitizeReturnTo v0 = (let v = trim_space v0
     in if v = [] \<or> \<not> has_prefix v ''/'' \<or> has_prefix v ''//'' \<or> contains v ''://'' then ''/'' else v)"

definition hex_char :: "nat \<Rightarrow> char" where
  "hex_char n = (if n < 10 then char_of (48 + n) else char_of (55 + n))"

text \<open>\<open>url.QueryEscape\<close>.\<close>

definition query_escape :: "string \<Rightarrow> string" where
  "query_escape v = concat (map (\<lambda>c.
     if is_letter c \<or> is_digit c \<or> c \<in> {CHR ''-'', CHR ''_'', CHR ''.'', CHR 0x7E} then [c]
     else if c = CHR '' '' then ''+''
     else [CHR ''%'', hex_char (of_char c div 16), hex_char (of_char c mod 16)]) v)"

definition login_redirect :: "string \<Rightarrow> string \<Rightarrow> string \<Rightarrow> string" where
  "login_redirect kind ticket errorCode =
     (if trim_space ticket \<noteq> [] then ''/login?'' @ kind @ ''_ticket='' @ query_escape (trim_space ticket)
      else if trim_space errorCode \<noteq> [] then ''/login?'' @ kind @ ''_error='' @ query_escape (trim_space errorCode)
      else ''/login'')"

definition larkLoginRedirect :: "string \<Rightarrow> string \<Rightarrow> string" where "larkLoginRedirect = login_redirect ''lark''"
definition ssoLoginRedirect :: "string \<Rightarrow> string \<Rightarrow> string" where "ssoLoginRedirect = login_redirect ''sso''"

definition oauth_error_code :: "string \<Rightarrow> string" where
  "oauth_error_code v = (if trim_space v = ''access_denied'' then ''access_denied'' else ''login_failed'')"

definition before_at :: "string \<Rightarrow> string" where
  "before_at v = (let b = takeWhile (\<lambda>c. c \<noteq> CHR ''@'') v in if CHR ''@'' \<in> set v \<and> b \<noteq> [] then b else v)"

definition after_last_at :: "string \<Rightarrow> string option" where
  "after_last_at v = (if CHR ''@'' \<notin> set v then None else Some (rev (takeWhile (\<lambda>c. c \<noteq> CHR ''@'') (rev v))))"

definition larkEnterpriseEmailAllowed :: "string \<Rightarrow> string list \<Rightarrow> bool" where
  "larkEnterpriseEmailAllowed email allowedDomains =
     (case after_last_at (to_lower (trim_space email)) of
        None \<Rightarrow> False
      | Some domain \<Rightarrow>
          if domain = [] then False
          else if allowedDomains = [] then True
          else list_ex (\<lambda>a. let d = to_lower (trim_space a)
                 in d \<noteq> [] \<and> (domain = d \<or> has_suffix domain (''.'' @ d))) allowedDomains)"

definition validatePassword :: "string \<Rightarrow> bool" where
  "validatePassword pw = (8 \<le> length pw \<and>
     list_ex (\<lambda>c. CHR ''A'' \<le> c \<and> c \<le> CHR ''Z'') pw \<and> list_ex (\<lambda>c. CHR ''a'' \<le> c \<and> c \<le> CHR ''z'') pw \<and> list_ex is_digit pw)"

definition trim_cutset :: "string \<Rightarrow> string \<Rightarrow> string" where
  "trim_cutset chars v = rev (dropWhile (\<lambda>c. c \<in> set chars) (rev (dropWhile (\<lambda>c. c \<in> set chars) v)))"

definition username_base :: "string \<Rightarrow> string \<Rightarrow> string" where
  "username_base fallback source =
     (let kept = concat (map (\<lambda>c. if is_letter c \<or> is_digit c \<or> c \<in> {CHR ''-'', CHR ''_'', CHR ''.''} then [c]
                               else if is_space c then ''-'' else []) source);
          base = trim_cutset ''-_.'' kept
      in if base = [] then fallback else to_lower base)"

definition ssoUsernameBase :: "sso_identity \<Rightarrow> string" where
  "ssoUsernameBase i =
     (let s1 = before_at (trim_space (si_email i));
          s2 = (if s1 = [] then trim_space (si_name i) else s1);
          s3 = (if s2 = [] then firstNonEmptyUserValue [si_subject i, ''sso-user''] else s2)
      in username_base ''sso-user'' s3)"

record lark_identity =
  lk_open_id :: string
  lk_union_id :: string
  lk_email :: string
  lk_enterprise_email :: string
  lk_display_name :: string
  lk_avatar_url :: string

definition larkUsernameBase :: "lark_identity \<Rightarrow> string" where
  "larkUsernameBase i =
     (let s1 = before_at (trim_space (lk_enterprise_email i));
          s2 = (if s1 = [] then before_at (trim_space (lk_email i)) else s1);
          s3 = (if s2 = [] then trim_space (lk_display_name i) else s2);
          s4 = (if s3 = [] then firstNonEmptyUserValue [lk_union_id i, lk_open_id i, ''lark-user''] else s3)
      in username_base ''lark-user'' s4)"

definition candidate_name :: "string \<Rightarrow> nat \<Rightarrow> string" where
  "candidate_name base n = (if n > 1 then base @ ''-'' @ nat_show n else base)"

text \<open>The loop over suffixes; it ends only when a name is free.\<close>

partial_function (option) unique_username :: "(string \<Rightarrow> bool) \<Rightarrow> string \<Rightarrow> nat \<Rightarrow> string option" where
  "unique_username taken base n =
     (if taken (candidate_name base n) then unique_username taken base (n + 1) else Some (candidate_name base n))"

declare unique_username.simps [code]

definition username_taken :: "(auth_op \<Rightarrow> bool) \<Rightarrow> auth_db \<Rightarrow> string \<Rightarrow> bool" where
  "username_taken fl db name = (\<not> fl OpUsername \<and> GetByUsername db name \<noteq> None)"

section \<open>Configuration\<close>

definition Configured_lark :: "lark_config \<Rightarrow> bool" where
  "Configured_lark c = (lc_enabled c \<and> lc_app_id c \<noteq> [] \<and> lc_app_secret c \<noteq> [] \<and> lc_redirect_url c \<noteq> [])"

definition Configured_oidc :: "oidc_config \<Rightarrow> bool" where
  "Configured_oidc c = (oc_enabled c \<and> oc_issuer_url c \<noteq> [] \<and> oc_client_id c \<noteq> [] \<and> oc_client_secret c \<noteq> [] \<and>
     oc_redirect_url c \<noteq> [])"

definition prefer_setting :: "string \<Rightarrow> string \<Rightarrow> string" where
  "prefer_setting v old = (if trim_space v \<noteq> [] then trim_space v else old)"

definition resolveLarkOAuthConfig :: "auth_env \<Rightarrow> (auth_op \<Rightarrow> bool) \<Rightarrow> lark_config option" where
  "resolveLarkOAuthConfig env fl =
     (case ae_settings env of None \<Rightarrow> Some (ae_lark env)
      | Some st \<Rightarrow>
          if fl OpSettings then None
          else let c = (ae_lark env)\<lparr>lc_enabled := as_lark_enabled st,
                     lc_site := prefer_setting (as_lark_site st) (lc_site (ae_lark env)),
                     lc_redirect_url := prefer_setting (as_lark_redirect_url st) (lc_redirect_url (ae_lark env))\<rparr>;
                   c1 = (if trim_space (lc_app_id c) = [] then c\<lparr>lc_app_id := trim_space (as_lark_app_id st)\<rparr> else c)
               in if trim_space (lc_app_secret c1) \<noteq> [] then Some c1
                  else case as_lark_app_secret st of None \<Rightarrow> None
                    | Some secret \<Rightarrow> Some (c1\<lparr>lc_app_secret := trim_space secret\<rparr>))"

definition oidc_defaults :: "oidc_config \<Rightarrow> oidc_config" where
  "oidc_defaults c =
     (let c1 = (if oc_scopes c = [] then c\<lparr>oc_scopes := [''openid'', ''profile'', ''email'', ''dbre'']\<rparr> else c)
      in if trim_space (oc_display_name c1) = [] then c1\<lparr>oc_display_name := ''Authentik''\<rparr> else c1)"

definition trim_right_slash :: "string \<Rightarrow> string" where
  "trim_right_slash v = rev (dropWhile (\<lambda>c. c = CHR ''/'') (rev v))"

definition resolveOIDCSSOConfig :: "auth_env \<Rightarrow> (auth_op \<Rightarrow> bool) \<Rightarrow> oidc_config option" where
  "resolveOIDCSSOConfig env fl =
     (let c = oidc_defaults (ae_oidc env)
      in case ae_settings env of None \<Rightarrow> Some c
         | Some st \<Rightarrow>
             if fl OpSettings then None
             else if \<not> (as_oidc_enabled st \<or> trim_space (as_oidc_issuer_url st) \<noteq> [] \<or> trim_space (as_oidc_client_id st) \<noteq> [] \<or>
                 trim_space (as_oidc_redirect_url st) \<noteq> [] \<or> as_oidc_secret_configured st) then Some c
             else let c1 = c\<lparr>oc_enabled := as_oidc_enabled st,
                        oc_display_name := prefer_setting (as_oidc_display_name st) (oc_display_name c),
                        oc_issuer_url := (if trim_space (as_oidc_issuer_url st) \<noteq> []
                          then trim_right_slash (trim_space (as_oidc_issuer_url st)) else oc_issuer_url c),
                        oc_client_id := prefer_setting (as_oidc_client_id st) (oc_client_id c)\<rparr>;
                      finish = (\<lambda>c2. c2\<lparr>oc_redirect_url := prefer_setting (as_oidc_redirect_url st) (oc_redirect_url c2),
                        oc_scopes := (if as_oidc_scopes st \<noteq> [] then as_oidc_scopes st else oc_scopes c2),
                        oc_trust_mfa := as_oidc_trust_mfa st\<rparr>)
                  in if trim_space (oc_client_secret c1) \<noteq> [] then Some (finish c1)
                     else case as_oidc_client_secret st of None \<Rightarrow> None
                       | Some secret \<Rightarrow> Some (finish (c1\<lparr>oc_client_secret := trim_space secret\<rparr>)))"

definition OIDCTrustsMFA :: "auth_env \<Rightarrow> (auth_op \<Rightarrow> bool) \<Rightarrow> bool option" where
  "OIDCTrustsMFA env fl = map_option oc_trust_mfa (resolveOIDCSSOConfig env fl)"

definition requiresMFA :: "auth_env \<Rightarrow> (auth_op \<Rightarrow> bool) \<Rightarrow> timestamp \<Rightarrow> auth_db \<Rightarrow> account \<Rightarrow> bool option" where
  "requiresMFA env fl now db a =
     (case ae_enforcement env of
        MFADisabled \<Rightarrow> Some False
      | MFARequiredForAdmins \<Rightarrow>
          if \<not> u_is_protected a \<and> fl OpGroups then None
          else Some (RequiresMFA now (identity_of db) (Some (user.truncate a)))
      | MFAOther _ \<Rightarrow> Some False)"

section \<open>Common steps\<close>

definition attempt_key :: "auth_request \<Rightarrow> string \<Rightarrow> string" where
  "attempt_key q subject = (if subject \<noteq> [] then aq_ip q @ '':'' @ subject else aq_ip q)"

definition allowAuthAttempt :: "auth_request \<Rightarrow> string \<Rightarrow> limiter \<Rightarrow> bool \<times> limiter" where
  "allowAuthAttempt q subject l = Allow (attempt_key q subject) (aq_now q) l"

fun allow_all :: "string list \<Rightarrow> timestamp \<Rightarrow> limiter \<Rightarrow> bool \<times> limiter" where
  "allow_all [] now l = (True, l)"
| "allow_all (k # ks) now l = (case Allow k now l of (ok, l') \<Rightarrow> if ok then allow_all ks now l' else (False, l'))"

definition allowMFAVerifyAttempt :: "auth_request \<Rightarrow> jwt_claims \<Rightarrow> limiter \<Rightarrow> bool \<times> limiter" where
  "allowMFAVerifyAttempt q c l =
     allow_all [''ip:'' @ aq_ip q, ''user:'' @ nat_show (jc_uid c), ''token:'' @ jc_id c] (aq_now q) l"

text \<open>\<open>requireSetupCompleted\<close>; \<open>None\<close> lets the request go on.\<close>

definition requireSetupCompleted :: "(auth_op \<Rightarrow> bool) \<Rightarrow> auth_world \<Rightarrow> auth_response option" where
  "requireSetupCompleted fl w =
     (if fl OpCount then Some (Refused 500 ''setup status check failed'')
      else if CountUsers (aw_db w) = 0 then Some (Refused 409 ''setup is required before login'') else None)"

definition no_secret :: "account \<Rightarrow> bool" where
  "no_secret a = (case ac_mfa_secret a of None \<Rightarrow> True | Some s \<Rightarrow> s = [])"

definition newMFAChallenge ::
    "auth_env \<Rightarrow> (auth_op \<Rightarrow> bool) \<Rightarrow> auth_request \<Rightarrow> account \<Rightarrow> bool \<Rightarrow> auth_world \<Rightarrow> string option \<times> auth_world" where
  "newMFAChallenge env fl q a setup w =
     (case aq_token q of None \<Rightarrow> (None, w)
      | Some t \<Rightarrow>
          if fl OpChallengeCreate then (None, w)
          else (case CreateChallenge (aq_now q) t (u_id a) setup (aq_now q + MFAChallengeTTL) (aq_ip q) (aw_db w) of
                  (ok, db') \<Rightarrow> if \<not> ok then (None, w)
                    else (NewMFAChallengeTokenWithID env (aq_now q) (u_id a) (u_username a) setup t, set_db db' w)))"

definition startMFASetup ::
    "auth_env \<Rightarrow> (auth_op \<Rightarrow> bool) \<Rightarrow> auth_request \<Rightarrow> account \<Rightarrow> auth_world \<Rightarrow> auth_response \<times> auth_world" where
  "startMFASetup env fl q a w =
     (case aq_totp q of None \<Rightarrow> (Refused 500 ''mfa setup failed'', w)
      | Some secret \<Rightarrow>
          (case ae_encrypt env secret of None \<Rightarrow> (Refused 500 ''mfa setup failed'', w)
           | Some enc \<Rightarrow>
               if fl OpStoreSecret then (Refused 500 ''mfa setup failed'', w)
               else (case newMFAChallenge env fl q a True (set_db (StoreMFASecret (aq_now q) (u_id a) enc (aw_db w)) w) of
                       (None, w1) \<Rightarrow> (Refused 500 ''token error'', w1)
                     | (Some t, w1) \<Rightarrow> if \<not> aq_qr_ok q then (Refused 500 ''mfa setup failed'', w1)
                         else (SetupIssued t secret, w1))))"

text \<open>The block that asks for the second factor, in the three ways to sign in.\<close>

definition ask_second_factor ::
    "auth_env \<Rightarrow> (auth_op \<Rightarrow> bool) \<Rightarrow> auth_request \<Rightarrow> account \<Rightarrow> auth_world \<Rightarrow> auth_response \<times> auth_world" where
  "ask_second_factor env fl q a w =
     (if \<not> ac_mfa_enabled a \<or> no_secret a then startMFASetup env fl q a w
      else case newMFAChallenge env fl q a False w of
        (None, w1) \<Rightarrow> (Refused 500 ''token error'', w1)
      | (Some t, w1) \<Rightarrow> (ChallengeIssued t, w1))"

definition completeLogin ::
    "auth_env \<Rightarrow> (auth_op \<Rightarrow> bool) \<Rightarrow> auth_request \<Rightarrow> account \<Rightarrow> string option \<Rightarrow> session_options \<Rightarrow> auth_world \<Rightarrow>
     auth_response \<times> auth_world" where
  "completeLogin env fl q a returnTo opts w =
     (case aq_token q of None \<Rightarrow> (Refused 500 ''token error'', w)
      | Some raw \<Rightarrow>
          if fl OpSessionCreate then (Refused 500 ''session error'', w)
          else (case CreateWithOptions (aq_now q) (u_id a) (ae_hash env raw) (aq_agent q) (aq_ip q)
                  (aq_now q + RefreshTokenTTL) opts (aw_db w) of
                  (None, db') \<Rightarrow> (Refused 500 ''session error'', w)
                | (Some s, db') \<Rightarrow>
                    (case NewAccessToken env (aq_now q) (u_id a) (u_username a) (se_id s) of
                       None \<Rightarrow> (Refused 500 ''token error'', set_db db' w)
                     | Some access \<Rightarrow> (SignedIn s access raw returnTo, log_audit ''login'' (Some (u_id a)) (set_db db' w)))))"

definition method_options :: "string \<Rightarrow> string \<Rightarrow> session_options" where
  "method_options meth provider =
     \<lparr>so_auth_method = meth, so_auth_provider = provider, so_mfa_satisfied = False, so_mfa_source = []\<rparr>"

section \<open>Setup and password\<close>

definition Setup ::
    "auth_env \<Rightarrow> (auth_op \<Rightarrow> bool) \<Rightarrow> auth_request \<Rightarrow> string \<Rightarrow> string \<Rightarrow> string \<Rightarrow> auth_world \<Rightarrow> auth_response \<times> auth_world" where
  "Setup env fl q username email password w =
     (let refused = log_audit ''setup_admin_create_failed'' None
      in if fl OpCount then (Refused 500 ''internal error'', w)
         else if CountUsers (aw_db w) > 0 then (Refused 409 ''setup already completed'', refused w)
         else if \<not> validatePassword password then (Refused 422 ''password policy'', refused w)
         else if username = [] \<or> email = [] then (Refused 422 ''username and email are required'', refused w)
         else case ae_password_hash env password of None \<Rightarrow> (Refused 500 ''internal error'', w)
           | Some h \<Rightarrow>
               if fl OpCreateUser then (Refused 500 ''create user failed'', refused w)
               else (case CreateUser (aq_now q) username email [] ''open_id'' [] h True (aw_db w) of
                       (None, db') \<Rightarrow> (Refused 500 ''create user failed'', refused w)
                     | (Some i, db') \<Rightarrow>
                         if fl OpMembership then (Refused 500 ''grant admin failed'', refused (set_db db' w))
                         else (CreatedUser i, log_audit ''setup_admin_create'' None
                           (set_db (db'\<lparr>ad_identity := AddMembership i AuthGroupAdmin None (ad_identity db')\<rparr>) w))))"

definition login_with_password ::
    "auth_env \<Rightarrow> (auth_op \<Rightarrow> bool) \<Rightarrow> auth_request \<Rightarrow> string \<Rightarrow> string \<Rightarrow> auth_world \<Rightarrow> auth_response \<times> auth_world" where
  "login_with_password env fl q username password w =
     (case (if fl OpUser then None else GetByUsername (aw_db w) username) of
        None \<Rightarrow> (Refused 401 ''invalid credentials'', log_audit ''login_failed'' None w)
      | Some a \<Rightarrow>
          let failed = log_audit ''login_failed'' (Some (u_id a)) w
          in if \<not> u_is_active a then (Refused 403 ''user is disabled'', failed)
             else if ac_password_login_disabled a then (Refused 401 ''invalid credentials'', failed)
             else if \<not> ae_password_ok env (ac_password a) password then (Refused 401 ''invalid credentials'', failed)
             else case requiresMFA env fl (aq_now q) (aw_db w) a of
               None \<Rightarrow> (Refused 500 ''mfa policy check failed'', w)
             | Some True \<Rightarrow> ask_second_factor env fl q a w
             | Some False \<Rightarrow> completeLogin env fl q a None (method_options ''password'' []) w)"

definition Login ::
    "auth_env \<Rightarrow> (auth_op \<Rightarrow> bool) \<Rightarrow> auth_request \<Rightarrow> string \<Rightarrow> string \<Rightarrow> auth_world \<Rightarrow> auth_response \<times> auth_world" where
  "Login env fl q username0 password w =
     (let username = trim_space username0
      in case allowAuthAttempt q (to_lower username) (aw_login_limiter w) of (ok, l) \<Rightarrow>
        let w1 = w\<lparr>aw_login_limiter := l\<rparr>
        in if \<not> ok then (Refused 429 ''login rate limit exceeded'', log_audit ''auth_rate_limited'' None w1)
           else case requireSetupCompleted fl w1 of Some r \<Rightarrow> (r, w1)
             | None \<Rightarrow> login_with_password env fl q username password w1)"

section \<open>Second factor\<close>

definition validMFAChallenge :: "timestamp \<Rightarrow> mfa_challenge option \<Rightarrow> jwt_claims \<Rightarrow> bool" where
  "validMFAChallenge now ch c = (case ch of None \<Rightarrow> False
     | Some m \<Rightarrow> mc_user m = jc_uid c \<and> mc_setup m = jc_setup c \<and> mc_used_at m = None \<and> mc_revoked_at m = None \<and>
         now < mc_expires_at m)"

definition DecryptMFASecret :: "auth_env \<Rightarrow> account \<Rightarrow> string option" where
  "DecryptMFASecret env a = (if no_secret a then Some [] else Option.bind (ac_mfa_secret a) (ae_decrypt env))"

definition totp_options :: session_options where
  "totp_options = \<lparr>so_auth_method = ''password'', so_auth_provider = [], so_mfa_satisfied = True, so_mfa_source = ''platform_totp''\<rparr>"

text \<open>The part of \<open>VerifyMFA\<close> after the challenge was read; the challenge may be out of date.\<close>

definition verify_code ::
    "auth_env \<Rightarrow> (auth_op \<Rightarrow> bool) \<Rightarrow> auth_request \<Rightarrow> jwt_claims \<Rightarrow> mfa_challenge \<Rightarrow> account \<Rightarrow> string \<Rightarrow> auth_world \<Rightarrow>
     auth_response \<times> auth_world" where
  "verify_code env fl q c m a code w =
     (let db = aw_db w; now = aq_now q
      in case DecryptMFASecret env a of
        None \<Rightarrow> (Refused 401 ''mfa is not configured'', w)
      | Some secret \<Rightarrow>
          if secret = [] then (Refused 401 ''mfa is not configured'', w)
          else if \<not> ae_code_ok env now (trim_space code) secret then
            (if fl OpChallengeFail then (Refused 500 ''mfa challenge update failed'', w)
             else (Refused 401 ''invalid mfa code'', log_audit ''mfa_failed'' (Some (u_id a))
               (set_db (db\<lparr>ad_challenges := RecordFailedAttempt now (mc_id m) mfaMaxAttempts (ad_challenges db)\<rparr>) w)))
          else if fl OpChallengeUse then (Refused 500 ''mfa challenge update failed'', w)
          else case MarkUsed now (mc_id m) (ad_challenges db) of (used, cs) \<Rightarrow>
            let w1 = set_db (db\<lparr>ad_challenges := cs\<rparr>) w
            in if \<not> used then (Refused 401 ''invalid mfa challenge'', w1)
               else if jc_setup c \<or> \<not> ac_mfa_enabled a then
                 (if fl OpEnable then (Refused 500 ''enable mfa failed'', w1)
                  else completeLogin env fl q a None totp_options
                    (log_audit ''mfa_enable'' (Some (u_id a)) (set_db (EnableMFA now (u_id a) (aw_db w1)) w1)))
               else completeLogin env fl q a None totp_options w1)"

definition VerifyMFA ::
    "auth_env \<Rightarrow> (auth_op \<Rightarrow> bool) \<Rightarrow> auth_request \<Rightarrow> string \<Rightarrow> string \<Rightarrow> auth_world \<Rightarrow> auth_response \<times> auth_world" where
  "VerifyMFA env fl q token code w =
     (case ParseMFAChallengeToken env (aq_now q) (trim_space token) of
        None \<Rightarrow> (Refused 401 ''invalid mfa token'', w)
      | Some c \<Rightarrow>
          if jc_id c = [] then (Refused 401 ''invalid mfa challenge'', w)
          else case allowMFAVerifyAttempt q c (aw_mfa_limiter w) of (ok, l) \<Rightarrow>
            let w1 = w\<lparr>aw_mfa_limiter := l\<rparr>; ch = GetByTokenID (aw_db w) (jc_id c)
            in if \<not> ok then (Refused 429 ''mfa verify rate limit exceeded'', log_audit ''auth_rate_limited'' (Some (jc_uid c)) w1)
               else if fl OpChallengeRead then (Refused 500 ''mfa challenge check failed'', w1)
               else if \<not> validMFAChallenge (aq_now q) ch c then (Refused 401 ''invalid mfa challenge'', w1)
               else case (if fl OpUser then None else GetAccount (aw_db w) (jc_uid c)) of
                 None \<Rightarrow> (Refused 401 ''user not found'', w1)
               | Some a \<Rightarrow>
                   if \<not> u_is_active a then (Refused 401 ''user is disabled'', w1)
                   else case requiresMFA env fl (aq_now q) (aw_db w) a of
                     None \<Rightarrow> (Refused 500 ''mfa policy check failed'', w1)
                   | Some False \<Rightarrow> (Refused 400 ''mfa is not required'', w1)
                   | Some True \<Rightarrow> verify_code env fl q c (the ch) a code w1)"

section \<open>Refresh and revocation\<close>

text \<open>
  The part of \<open>Refresh\<close> after the session was read; the session may be out of date. Errors of the
  revocations are ignored, as in the code.
\<close>

definition revoke_unless :: "bool \<Rightarrow> (auth_db \<Rightarrow> auth_db) \<Rightarrow> auth_world \<Rightarrow> auth_world" where
  "revoke_unless fails f w = (if fails then w else set_db (f (aw_db w)) w)"

definition unverified_session :: "account \<Rightarrow> session \<Rightarrow> bool" where
  "unverified_session a s \<longleftrightarrow> (\<not> ac_mfa_enabled a \<or> no_secret a) \<and>
     \<not> (se_mfa_satisfied s \<and> se_mfa_source s = ''trusted_oidc_provider'')"

definition continued_options :: "session \<Rightarrow> session_options" where
  "continued_options s = \<lparr>so_auth_method = se_auth_method s, so_auth_provider = se_auth_provider s,
     so_mfa_satisfied = se_mfa_satisfied s, so_mfa_source = se_mfa_source s\<rparr>"

definition issue_refreshed ::
    "auth_env \<Rightarrow> (auth_op \<Rightarrow> bool) \<Rightarrow> auth_request \<Rightarrow> account \<Rightarrow> session \<Rightarrow> auth_world \<Rightarrow> auth_response \<times> auth_world" where
  "issue_refreshed env fl q a s w =
     (case aq_token q of None \<Rightarrow> (Refused 500 ''token error'', w)
      | Some raw \<Rightarrow>
          if fl OpSessionCreate then (Refused 500 ''session error'', w)
          else (case CreateWithOptions (aq_now q) (u_id a) (ae_hash env raw) (aq_agent q) (aq_ip q)
                  (aq_now q + RefreshTokenTTL) (continued_options s) (aw_db w) of
                  (None, db') \<Rightarrow> (Refused 500 ''session error'', w)
                | (Some s', db') \<Rightarrow>
                    (case NewAccessToken env (aq_now q) (u_id a) (u_username a) (se_id s') of
                       None \<Rightarrow> (Refused 500 ''token error'', set_db db' w)
                     | Some access \<Rightarrow> (SignedIn s' access raw None, set_db db' w))))"

definition refresh_session ::
    "auth_env \<Rightarrow> (auth_op \<Rightarrow> bool) \<Rightarrow> auth_request \<Rightarrow> session \<Rightarrow> auth_world \<Rightarrow> auth_response \<times> auth_world" where
  "refresh_session env fl q s w =
     (let now = aq_now q; revoke_all = revoke_unless (fl OpRevokeAll) (RevokeAllForUser now (se_user s))
      in case se_revoked_at s of
        Some r \<Rightarrow>
          if now - r \<le> refreshReuseGraceWindow then (Refused 401 ''stale refresh token'', w)
          else (Refused 401 ''refresh token reuse detected'',
                log_audit ''refresh_token_reuse_detected'' (Some (se_user s)) (revoke_all w))
      | None \<Rightarrow>
          if now > se_expires_at s then (Refused 401 ''refresh token expired or revoked'', w)
          else let w1 = revoke_unless (fl OpRevokeOld) (RevokeToken now (se_token_hash s)) w
            in case (if fl OpUser then None else GetAccount (aw_db w1) (se_user s)) of
                 None \<Rightarrow> (Refused 401 ''user not found'', w1)
               | Some a \<Rightarrow>
                   if \<not> u_is_active a then (Refused 401 ''user is disabled'', revoke_all w1)
                   else case requiresMFA env fl now (aw_db w1) a of
                     None \<Rightarrow> (Refused 500 ''mfa policy check failed'', w1)
                   | Some needed \<Rightarrow>
                       if needed \<and> unverified_session a s then (Refused 401 ''mfa required'', revoke_all w1)
                       else issue_refreshed env fl q a s w1)"

definition Refresh ::
    "auth_env \<Rightarrow> (auth_op \<Rightarrow> bool) \<Rightarrow> auth_request \<Rightarrow> string option \<Rightarrow> auth_world \<Rightarrow> auth_response \<times> auth_world" where
  "Refresh env fl q cookie w =
     (case allowAuthAttempt q [] (aw_refresh_limiter w) of (ok, l) \<Rightarrow>
        let w1 = w\<lparr>aw_refresh_limiter := l\<rparr>
        in if \<not> ok then (Refused 429 ''refresh rate limit exceeded'', log_audit ''auth_rate_limited'' None w1)
           else case cookie of None \<Rightarrow> (Refused 401 ''missing refresh token'', w1)
             | Some raw \<Rightarrow>
                 (case (if fl OpSessionRead then None else GetByTokenHash (aw_db w) (ae_hash env raw)) of
                    None \<Rightarrow> (Refused 401 ''invalid refresh token'', w1)
                  | Some s \<Rightarrow> refresh_session env fl q s w1))"

definition Logout ::
    "auth_env \<Rightarrow> (auth_op \<Rightarrow> bool) \<Rightarrow> auth_request \<Rightarrow> string option \<Rightarrow> auth_world \<Rightarrow> auth_response \<times> auth_world" where
  "Logout env fl q cookie w =
     (let w1 = (case cookie of None \<Rightarrow> w
          | Some raw \<Rightarrow> revoke_unless (fl OpRevokeOld) (RevokeToken (aq_now q) (ae_hash env raw)) w)
      in (NoContent, if aq_user q \<noteq> 0 then log_audit ''logout'' (Some (aq_user q)) w1 else w1))"

definition RevokeSession :: "(auth_op \<Rightarrow> bool) \<Rightarrow> auth_request \<Rightarrow> string \<Rightarrow> auth_world \<Rightarrow> auth_response \<times> auth_world" where
  "RevokeSession fl q idText w =
     (case parse_uint64 (trim_space idText) of
        None \<Rightarrow> (Refused 400 ''invalid id'', w)
      | Some i \<Rightarrow>
          if i = 0 then (Refused 400 ''invalid id'', w)
          else if fl OpRevokeOne then (Refused 500 ''revoke session failed'', w)
          else case RevokeByIDForUser (aq_now q) i (aq_user q) (aw_db w) of (ok, db') \<Rightarrow>
            if \<not> ok then (Refused 404 ''session not found'', set_db db' w)
            else (NoContent, log_audit ''session_revoke'' (Some (aq_user q)) (set_db db' w)))"

definition RevokeSessions :: "(auth_op \<Rightarrow> bool) \<Rightarrow> auth_request \<Rightarrow> auth_world \<Rightarrow> auth_response \<times> auth_world" where
  "RevokeSessions fl q w =
     (if fl OpRevokeAll then (Refused 500 ''revoke sessions failed'', w)
      else (NoContent, log_audit ''session_revoke_all'' (Some (aq_user q))
        (set_db (RevokeAllForUser (aq_now q) (aq_user q) (aw_db w)) w)))"

section \<open>Accounts of external identities\<close>

definition lark_input_of :: "lark_identity \<Rightarrow> lark_input" where
  "lark_input_of i = \<lparr>li_open_id = trim_space (lk_open_id i), li_union_id = trim_space (lk_union_id i),
     li_email = trim_space (lk_enterprise_email i), li_display_name = trim_space (lk_display_name i),
     li_avatar_url = trim_space (lk_avatar_url i)\<rparr>"

definition bind_lark ::
    "(auth_op \<Rightarrow> bool) \<Rightarrow> auth_request \<Rightarrow> account \<Rightarrow> lark_input \<Rightarrow> auth_db \<Rightarrow> account option \<times> auth_db" where
  "bind_lark fl q a i db =
     (if fl OpBind then (None, db)
      else let db' = BindLarkIdentity (aq_now q) (u_id a) i db
        in (if fl OpReload then None else GetAccount db' (u_id a), db'))"

text \<open>A new account for an external identity; the seed of its password is never told.\<close>

definition create_external ::
    "auth_env \<Rightarrow> (auth_op \<Rightarrow> bool) \<Rightarrow> auth_request \<Rightarrow> string \<Rightarrow> (string \<Rightarrow> string \<Rightarrow> auth_db \<Rightarrow> id64 option \<times> auth_db) \<Rightarrow>
     auth_db \<Rightarrow> account option \<times> auth_db" where
  "create_external env fl q base create db =
     (case Option.bind (aq_seed q) (ae_password_hash env) of None \<Rightarrow> (None, db)
      | Some h \<Rightarrow>
          (case unique_username (username_taken fl db) base 1 of None \<Rightarrow> (None, db)
           | Some name \<Rightarrow>
               if fl OpCreateUser then (None, db)
               else (case create name h db of
                       (None, db') \<Rightarrow> (None, db)
                     | (Some i, db') \<Rightarrow> (if fl OpReload then None else GetAccount db' i, db'))))"

definition findOrCreateLarkUser ::
    "auth_env \<Rightarrow> (auth_op \<Rightarrow> bool) \<Rightarrow> auth_request \<Rightarrow> lark_identity \<Rightarrow> auth_db \<Rightarrow> account option \<times> auth_db" where
  "findOrCreateLarkUser env fl q i db =
     (let email = trim_space (lk_enterprise_email i); input = lark_input_of i
      in if lc_require_enterprise_email (ae_lark env) \<and> email = [] then (None, db)
         else if email \<noteq> [] \<and> \<not> larkEnterpriseEmailAllowed email (lc_domains (ae_lark env)) then (None, db)
         else if li_open_id input = [] then (None, db)
         else if fl OpIdentity then (None, db)
         else case GetByLarkLoginIdentity db (li_open_id input) (li_union_id input) of
           Some a \<Rightarrow> bind_lark fl q a input db
         | None \<Rightarrow>
             if email \<noteq> [] \<and> fl OpEmail then (None, db)
             else case (if email \<noteq> [] then GetByEmail db email else None) of
               Some a \<Rightarrow> if u_is_protected a then (None, db) else bind_lark fl q a input db
             | None \<Rightarrow> create_external env fl q (larkUsernameBase i)
                 (\<lambda>name h. CreateLarkDeveloper (aq_now q) name input h) db)"

definition sso_input_of :: "sso_identity \<Rightarrow> sso_input" where
  "sso_input_of i = \<lparr>ss_provider = OIDCProviderKey, ss_subject = trim_space (si_subject i), ss_email = trim_space (si_email i),
     ss_lark_union_id = trim_space (si_lark_union_id i)\<rparr>"

definition findOrCreateSSOUser ::
    "auth_env \<Rightarrow> (auth_op \<Rightarrow> bool) \<Rightarrow> auth_request \<Rightarrow> sso_identity \<Rightarrow> auth_db \<Rightarrow> account option \<times> auth_db" where
  "findOrCreateSSOUser env fl q i db =
     (let input = sso_input_of i
      in if ss_subject input = [] \<or> ss_email input = [] then (None, db)
         else if fl OpIdentity then (None, db)
         else case GetByExternalIdentity db (ss_provider input) (ss_subject input) of
           Some a \<Rightarrow> (Some a, db)
         | None \<Rightarrow>
             if oc_require_enterprise_email (ae_oidc env) \<and> \<not> larkEnterpriseEmailAllowed (ss_email input) (oc_domains (ae_oidc env))
             then (None, db)
             else if fl OpEmail then (None, db)
             else case GetByEmail db (ss_email input) of
               Some a \<Rightarrow>
                 if u_is_protected a then (None, db)
                 else if fl OpBind then (None, db)
                 else let db' = BindExternalIdentity (aq_now q) (u_id a) (ss_provider input) (ss_subject input) db
                   in (if fl OpReload then None else GetAccount db' (u_id a), db')
             | None \<Rightarrow> create_external env fl q (ssoUsernameBase i)
                 (\<lambda>name h. CreateSSODeveloper (aq_now q) name input h) db)"

definition handleSSOLarkRecipient ::
    "(auth_op \<Rightarrow> bool) \<Rightarrow> auth_request \<Rightarrow> account \<Rightarrow> sso_identity \<Rightarrow> auth_world \<Rightarrow> auth_world" where
  "handleSSOLarkRecipient fl q a i w =
     (let unionID = trim_space (si_lark_union_id i); current = trim_space (ac_lark_union_id a);
          alert = (\<lambda>kind. if fl OpAdmins then w else w\<lparr>aw_alerts := aw_alerts w @ [(kind, u_id a)]\<rparr>)
      in if unionID = [] then alert ''sso_lark_union_id_missing''
         else if current \<noteq> [] \<and> current \<noteq> unionID then alert ''sso_lark_union_id_conflict''
         else if fl OpUnion then w
         else set_db (snd (UpdateLarkUnionID (aq_now q) (u_id a) unionID (aw_db w))) w)"

section \<open>Login through Lark\<close>

definition StartLarkLogin ::
    "auth_env \<Rightarrow> (auth_op \<Rightarrow> bool) \<Rightarrow> auth_request \<Rightarrow> string \<Rightarrow> (lark_config \<Rightarrow> string \<Rightarrow> string) \<Rightarrow> auth_world \<Rightarrow> auth_response \<times> auth_world" where
  "StartLarkLogin env fl q returnTo authorize w =
     (case requireSetupCompleted fl w of Some r \<Rightarrow> (r, w)
      | None \<Rightarrow>
          (case resolveLarkOAuthConfig env fl of None \<Rightarrow> (Refused 500 ''lark login config error'', w)
           | Some cfg \<Rightarrow>
               if \<not> Configured_lark cfg then (Refused 503 ''lark login is not configured'', w)
               else case allowAuthAttempt q (aq_ip q) (aw_lark_limiter w) of (ok, l) \<Rightarrow>
                 let w1 = w\<lparr>aw_lark_limiter := l\<rparr>
                 in if \<not> ok then (Refused 429 ''lark_login_start rate limit exceeded'', log_audit ''auth_rate_limited'' None w1)
                    else case aq_token q of None \<Rightarrow> (Refused 500 ''token error'', w1)
                      | Some state \<Rightarrow>
                          if fl OpLoginCreate then (Refused 500 ''lark login state error'', w1)
                          else (case CreateLarkLogin (aq_now q) state (sanitizeReturnTo returnTo) (aq_now q + loginStateTTL) (aw_db w1) of
                                  (ok, db') \<Rightarrow> if \<not> ok then (Refused 500 ''lark login state error'', w1)
                                    else (LoginUrl (authorize cfg state), set_db db' w1))))"

definition fail_lark :: "(auth_op \<Rightarrow> bool) \<Rightarrow> auth_request \<Rightarrow> id64 \<Rightarrow> string \<Rightarrow> auth_world \<Rightarrow> auth_world" where
  "fail_lark fl q i reason w = (if fl OpLoginFail then w
     else set_db ((aw_db w)\<lparr>ad_lark_logins := MarkFailed (aq_now q) i reason (ad_lark_logins (aw_db w))\<rparr>) w)"

text \<open>The callback once its state is claimed; \<open>exchange\<close> is the answer of Lark to the authorisation code.\<close>

definition lark_callback ::
    "auth_env \<Rightarrow> (auth_op \<Rightarrow> bool) \<Rightarrow> auth_request \<Rightarrow> login_state \<Rightarrow> string \<Rightarrow> string \<Rightarrow> (string \<Rightarrow> lark_identity option) \<Rightarrow>
     auth_world \<Rightarrow> auth_response \<times> auth_world" where
  "lark_callback env fl q st errorText codeText exchange w =
     (let fail = (\<lambda>reason. fail_lark fl q (ls_id st) reason w); code = trim_space codeText
      in if trim_space errorText \<noteq> [] then
           (RedirectTo (larkLoginRedirect [] (oauth_error_code errorText)), fail (oauth_error_code errorText))
         else if code = [] then (RedirectTo (larkLoginRedirect [] ''login_failed''), fail ''login_failed'')
         else case (case exchange code of None \<Rightarrow> None
             | Some i \<Rightarrow> if trim_space (lk_open_id i) = [] then None else Some i) of
           None \<Rightarrow> (RedirectTo (larkLoginRedirect [] ''login_failed''), log_audit ''login_failed'' None (fail ''invalid_lark_identity''))
         | Some i \<Rightarrow>
             (case findOrCreateLarkUser env fl q i (aw_db w) of
                (None, db') \<Rightarrow> (RedirectTo (larkLoginRedirect [] ''login_failed''),
                   log_audit ''login_failed'' None (fail_lark fl q (ls_id st) ''resolve_user_failed'' (set_db db' w)))
              | (Some a, db') \<Rightarrow>
                  if \<not> u_is_active a then (RedirectTo (larkLoginRedirect [] ''user_disabled''),
                    log_audit ''login_failed'' (Some (u_id a)) (set_db db' w))
                  else case aq_token q of None \<Rightarrow> (Refused 500 ''token error'', set_db db' w)
                    | Some ticket \<Rightarrow>
                        if fl OpLoginTicket then (Refused 500 ''lark login ticket error'', set_db db' w)
                        else (RedirectTo (larkLoginRedirect ticket []),
                          set_db (db'\<lparr>ad_lark_logins := StoreTicket (aq_now q) (ls_id st) (u_id a) ticket
                            (aq_now q + loginTicketTTL) (ad_lark_logins db')\<rparr>) w)))"

definition CompleteLarkLogin ::
    "auth_env \<Rightarrow> (auth_op \<Rightarrow> bool) \<Rightarrow> auth_request \<Rightarrow> string \<Rightarrow> string \<Rightarrow> string \<Rightarrow> (string \<Rightarrow> lark_identity option) \<Rightarrow>
     auth_world \<Rightarrow> auth_response \<times> auth_world" where
  "CompleteLarkLogin env fl q state errorText code exchange w =
     (let db = aw_db w; failed = RedirectTo (larkLoginRedirect [] ''login_failed'')
      in if fl OpCount \<or> CountUsers db = 0 then (RedirectTo (larkLoginRedirect [] ''setup_required''), w)
         else case resolveLarkOAuthConfig env fl of None \<Rightarrow> (failed, w)
           | Some cfg \<Rightarrow>
               if \<not> Configured_lark cfg then (failed, w)
               else if fl OpLoginClaim then (Refused 500 ''lark login state error'', w)
               else case ClaimState (trim_space state) (aq_now q) (ad_lark_logins db) (ad_lark_logins db) of
                 (None, rows) \<Rightarrow> (failed, w)
               | (Some st, rows) \<Rightarrow> lark_callback env fl q st errorText code exchange (set_db (db\<lparr>ad_lark_logins := rows\<rparr>) w))"

definition sign_in_pending ::
    "auth_env \<Rightarrow> (auth_op \<Rightarrow> bool) \<Rightarrow> auth_request \<Rightarrow> id64 option \<Rightarrow> (account \<Rightarrow> auth_response \<times> auth_world) \<Rightarrow> auth_world \<Rightarrow>
     auth_response \<times> auth_world" where
  "sign_in_pending env fl q ou k w =
     (case ou of None \<Rightarrow> (Refused 401 ''invalid login ticket'', w)
      | Some u \<Rightarrow>
          if u = 0 then (Refused 401 ''invalid login ticket'', w)
          else case (if fl OpUser then None else GetAccount (aw_db w) u) of
            None \<Rightarrow> (Refused 401 ''invalid login ticket'', w)
          | Some a \<Rightarrow> if \<not> u_is_active a then (Refused 403 ''user is disabled'', w) else k a)"

definition ConsumeLarkLoginResult ::
    "auth_env \<Rightarrow> (auth_op \<Rightarrow> bool) \<Rightarrow> auth_request \<Rightarrow> string \<Rightarrow> auth_world \<Rightarrow> auth_response \<times> auth_world" where
  "ConsumeLarkLoginResult env fl q ticket w =
     (case requireSetupCompleted fl w of Some r \<Rightarrow> (r, w)
      | None \<Rightarrow>
          if fl OpLoginConsume then (Refused 500 ''lark login ticket error'', w)
          else let db = aw_db w
            in case ConsumeTicket (trim_space ticket) (aq_now q) (ad_lark_logins db) (ad_lark_logins db) of
                 (None, rows) \<Rightarrow> (Refused 401 ''invalid lark login ticket'', w)
               | (Some st, rows) \<Rightarrow>
                   let w1 = set_db (db\<lparr>ad_lark_logins := rows\<rparr>) w
                   in sign_in_pending env fl q (ls_user st)
                        (\<lambda>a. case requiresMFA env fl (aq_now q) (aw_db w1) a of
                           None \<Rightarrow> (Refused 500 ''mfa policy check failed'', w1)
                         | Some True \<Rightarrow> ask_second_factor env fl q a w1
                         | Some False \<Rightarrow> completeLogin env fl q a (Some (sanitizeReturnTo (ls_return_to st)))
                             (method_options ''lark'' ''lark'') w1) w1)"

section \<open>Login through an OIDC provider\<close>

definition StartSSOLogin ::
    "auth_env \<Rightarrow> (auth_op \<Rightarrow> bool) \<Rightarrow> auth_request \<Rightarrow> string \<Rightarrow> (oidc_config \<Rightarrow> string \<Rightarrow> string option) \<Rightarrow> auth_world \<Rightarrow>
     auth_response \<times> auth_world" where
  "StartSSOLogin env fl q returnTo authorize w =
     (case requireSetupCompleted fl w of Some r \<Rightarrow> (r, w)
      | None \<Rightarrow>
          (case resolveOIDCSSOConfig env fl of None \<Rightarrow> (Refused 500 ''sso config error'', w)
           | Some cfg \<Rightarrow>
               if \<not> Configured_oidc cfg then (Refused 503 ''sso login is not configured'', w)
               else case allowAuthAttempt q (aq_ip q) (aw_sso_limiter w) of (ok, l) \<Rightarrow>
                 let w1 = w\<lparr>aw_sso_limiter := l\<rparr>
                 in if \<not> ok then (Refused 429 ''sso_login_start rate limit exceeded'', log_audit ''auth_rate_limited'' None w1)
                    else case aq_token q of None \<Rightarrow> (Refused 500 ''token error'', w1)
                      | Some state \<Rightarrow>
                          if fl OpLoginCreate then (Refused 500 ''sso login state error'', w1)
                          else (case CreateSSOLogin (aq_now q) state (sanitizeReturnTo returnTo) (aq_now q + loginStateTTL) (aw_db w1) of
                                  (ok, db') \<Rightarrow> if \<not> ok then (Refused 500 ''sso login state error'', w1)
                                    else (case authorize cfg state of
                                            None \<Rightarrow> (Refused 500 ''sso authorize error'', set_db db' w1)
                                          | Some url \<Rightarrow> (RedirectTo url, set_db db' w1)))))"

definition fail_sso :: "(auth_op \<Rightarrow> bool) \<Rightarrow> auth_request \<Rightarrow> id64 \<Rightarrow> string \<Rightarrow> auth_world \<Rightarrow> auth_world" where
  "fail_sso fl q i reason w = (if fl OpLoginFail then w
     else set_db ((aw_db w)\<lparr>ad_sso_logins := MarkFailed (aq_now q) i reason (ad_sso_logins (aw_db w))\<rparr>) w)"

definition sso_callback ::
    "auth_env \<Rightarrow> (auth_op \<Rightarrow> bool) \<Rightarrow> auth_request \<Rightarrow> sso_login_state \<Rightarrow> string \<Rightarrow> string \<Rightarrow> (string \<Rightarrow> sso_identity option) \<Rightarrow>
     auth_world \<Rightarrow> auth_response \<times> auth_world" where
  "sso_callback env fl q st errorText codeText exchange w =
     (let fail = (\<lambda>reason. fail_sso fl q (ls_id st) reason w); code = trim_space codeText
      in if trim_space errorText \<noteq> [] then
           (RedirectTo (ssoLoginRedirect [] (oauth_error_code errorText)), fail (oauth_error_code errorText))
         else if code = [] then (RedirectTo (ssoLoginRedirect [] ''login_failed''), fail ''login_failed'')
         else case (case exchange code of None \<Rightarrow> None
             | Some i \<Rightarrow> if trim_space (si_subject i) = [] then None else Some i) of
           None \<Rightarrow> (RedirectTo (ssoLoginRedirect [] ''login_failed''), log_audit ''login_failed'' None (fail ''invalid_sso_identity''))
         | Some i \<Rightarrow>
             (case findOrCreateSSOUser env fl q i (aw_db w) of
                (None, db') \<Rightarrow> (RedirectTo (ssoLoginRedirect [] ''login_failed''),
                   log_audit ''login_failed'' None (fail_sso fl q (ls_id st) ''resolve_user_failed'' (set_db db' w)))
              | (Some a, db') \<Rightarrow>
                  if \<not> u_is_active a then (RedirectTo (ssoLoginRedirect [] ''user_disabled''),
                    log_audit ''login_failed'' (Some (u_id a)) (set_db db' w))
                  else let w1 = handleSSOLarkRecipient fl q a i (set_db db' w); db1 = aw_db w1
                    in case aq_token q of None \<Rightarrow> (Refused 500 ''token error'', w1)
                      | Some ticket \<Rightarrow>
                          if fl OpLoginTicket then (Refused 500 ''sso login ticket error'', w1)
                          else (RedirectTo (ssoLoginRedirect ticket []),
                            set_db (db1\<lparr>ad_sso_logins := StoreSSOTicket (aq_now q) (ls_id st) (u_id a) ticket i
                              (aq_now q + loginTicketTTL) (ad_sso_logins db1)\<rparr>) w1)))"

definition CompleteSSOLogin ::
    "auth_env \<Rightarrow> (auth_op \<Rightarrow> bool) \<Rightarrow> auth_request \<Rightarrow> string \<Rightarrow> string \<Rightarrow> string \<Rightarrow> (string \<Rightarrow> sso_identity option) \<Rightarrow>
     auth_world \<Rightarrow> auth_response \<times> auth_world" where
  "CompleteSSOLogin env fl q state errorText code exchange w =
     (let db = aw_db w; failed = RedirectTo (ssoLoginRedirect [] ''login_failed'')
      in if fl OpCount \<or> CountUsers db = 0 then (RedirectTo (ssoLoginRedirect [] ''setup_required''), w)
         else case resolveOIDCSSOConfig env fl of None \<Rightarrow> (failed, w)
           | Some cfg \<Rightarrow>
               if \<not> Configured_oidc cfg then (failed, w)
               else if fl OpLoginClaim then (Refused 500 ''sso login state error'', w)
               else case ClaimState (trim_space state) (aq_now q) (ad_sso_logins db) (ad_sso_logins db) of
                 (None, rows) \<Rightarrow> (failed, w)
               | (Some st, rows) \<Rightarrow> sso_callback env fl q st errorText code exchange (set_db (db\<lparr>ad_sso_logins := rows\<rparr>) w))"

definition trusted_options :: "bool \<Rightarrow> session_options" where
  "trusted_options trusted = (if trusted
     then \<lparr>so_auth_method = ''sso'', so_auth_provider = OIDCProviderKey, so_mfa_satisfied = True, so_mfa_source = ''trusted_oidc_provider''\<rparr>
     else method_options ''sso'' OIDCProviderKey)"

definition ConsumeSSOLoginResult ::
    "auth_env \<Rightarrow> (auth_op \<Rightarrow> bool) \<Rightarrow> auth_request \<Rightarrow> string \<Rightarrow> auth_world \<Rightarrow> auth_response \<times> auth_world" where
  "ConsumeSSOLoginResult env fl q ticket w =
     (case requireSetupCompleted fl w of Some r \<Rightarrow> (r, w)
      | None \<Rightarrow>
          if fl OpLoginConsume then (Refused 500 ''sso login ticket error'', w)
          else let db = aw_db w
            in case ConsumeTicket (trim_space ticket) (aq_now q) (ad_sso_logins db) (ad_sso_logins db) of
                 (None, rows) \<Rightarrow> (Refused 401 ''invalid sso login ticket'', w)
               | (Some st, rows) \<Rightarrow>
                   let w1 = set_db (db\<lparr>ad_sso_logins := rows\<rparr>) w
                   in sign_in_pending env fl q (ls_user st)
                        (\<lambda>a. case resolveOIDCSSOConfig env fl of
                           None \<Rightarrow> (Refused 500 ''sso config error'', w1)
                         | Some cfg \<Rightarrow>
                             (case requiresMFA env fl (aq_now q) (aw_db w1) a of
                                None \<Rightarrow> (Refused 500 ''mfa policy check failed'', w1)
                              | Some needed \<Rightarrow>
                                  if needed \<and> \<not> oc_trust_mfa cfg then ask_second_factor env fl q a w1
                                  else completeLogin env fl q a (Some (sanitizeReturnTo (ls_return_to st)))
                                    (trusted_options (needed \<and> oc_trust_mfa cfg)) w1)) w1)"

section \<open>Authentication of requests\<close>

definition MaxTokenBytes :: nat where "MaxTokenBytes = 16384"

datatype bearer_refusal =
    TokenTooLarge | NotJWT | ForeignIssuer | TokenExpired | AudienceRefused | DiscoveryFailed | SignatureRefused
  | BearerBackend | BearerNoUser | BearerProtected | BearerMFA

text \<open>
  The verifier of tokens of the provider: what the payload of a token says before the signature is checked
  (issuer, audience, expiry in seconds), whether discovery succeeded, and the subject and audience of a
  token whose signature and standard claims the library accepts.
\<close>

record bearer_verifier =
  bv_issuer :: string
  bv_audiences :: "string list"
  bv_peek :: "string \<Rightarrow> (string \<times> string list \<times> int) option"
  bv_discovered :: bool
  bv_verify :: "string \<Rightarrow> (string \<times> string list) option"

definition audienceAllowed :: "string list \<Rightarrow> string list \<Rightarrow> bool" where
  "audienceAllowed got allowed = list_ex (\<lambda>a. a \<noteq> [] \<and> list_ex (\<lambda>b. a = b) allowed) got"

definition Verify :: "bearer_verifier \<Rightarrow> timestamp \<Rightarrow> string \<Rightarrow> bearer_refusal + string" where
  "Verify bv now raw =
     (if length raw > MaxTokenBytes then Inl TokenTooLarge
      else case bv_peek bv raw of None \<Rightarrow> Inl NotJWT
        | Some (iss, aud, expiry) \<Rightarrow>
            if iss \<noteq> bv_issuer bv then Inl ForeignIssuer
            else if expiry = 0 \<or> seconds expiry < now then Inl TokenExpired
            else if \<not> audienceAllowed aud (bv_audiences bv) then Inl AudienceRefused
            else if \<not> bv_discovered bv then Inl DiscoveryFailed
            else case bv_verify bv raw of None \<Rightarrow> Inl SignatureRefused
              | Some (subject, aud') \<Rightarrow> if \<not> audienceAllowed aud' (bv_audiences bv) then Inl AudienceRefused else Inr subject)"

definition Authenticate ::
    "auth_env \<Rightarrow> (auth_op \<Rightarrow> bool) \<Rightarrow> bearer_verifier \<Rightarrow> timestamp \<Rightarrow> auth_db \<Rightarrow> string \<Rightarrow> bearer_refusal + account" where
  "Authenticate env fl bv now db raw =
     (case Verify bv now raw of Inl e \<Rightarrow> Inl e
      | Inr subject \<Rightarrow>
          if fl OpIdentity then Inl BearerBackend
          else case GetByExternalIdentity db OIDCProviderKey subject of
            None \<Rightarrow> Inl BearerNoUser
          | Some a \<Rightarrow>
              if u_is_protected a then Inl BearerProtected
              else case requiresMFA env fl now db a of
                None \<Rightarrow> Inl BearerBackend
              | Some False \<Rightarrow> Inr a
              | Some True \<Rightarrow>
                  (case OIDCTrustsMFA env fl of None \<Rightarrow> Inl BearerBackend
                   | Some trusted \<Rightarrow> if trusted then Inr a else Inl BearerMFA))"

definition extractBearer :: "string \<Rightarrow> string" where
  "extractBearer h = (if has_prefix h ''Bearer '' then drop 7 h else [])"

text \<open>The user id, name and session id a request acts for; \<open>None\<close> is the answer 401.\<close>

definition RequireAuth ::
    "auth_env \<Rightarrow> (auth_op \<Rightarrow> bool) \<Rightarrow> bearer_verifier option \<Rightarrow> timestamp \<Rightarrow> auth_db \<Rightarrow> string \<Rightarrow> (id64 \<times> string \<times> id64) option" where
  "RequireAuth env fl bearer now db header =
     (let token = extractBearer header
      in if token = [] \<or> length token > MaxTokenBytes then None
         else case ParseAccessToken env now token of
           Some c \<Rightarrow> Some (jc_uid c, jc_sub c, jc_sid c)
         | None \<Rightarrow>
             (case bearer of None \<Rightarrow> None
              | Some bv \<Rightarrow> (case Authenticate env fl bv now db token of
                    Inl e \<Rightarrow> None | Inr a \<Rightarrow> Some (u_id a, u_username a, 0))))"

definition RequireActiveUser :: "(auth_op \<Rightarrow> bool) \<Rightarrow> auth_db \<Rightarrow> id64 \<Rightarrow> auth_response option" where
  "RequireActiveUser fl db u =
     (if u = 0 then Some (Refused 401 ''unauthorized'')
      else if fl OpUser then Some (Refused 500 ''internal error'')
      else case GetAccount db u of None \<Rightarrow> Some (Refused 401 ''unauthorized'')
        | Some a \<Rightarrow> if u_is_active a then None else Some (Refused 403 ''user is disabled''))"

section \<open>All requests\<close>

datatype auth_call =
    CallSetup string string string
  | CallLogin string string
  | CallVerify string string
  | CallRefresh "string option"
  | CallLogout "string option"
  | CallRevokeSession string
  | CallRevokeSessions
  | CallStartLark string "lark_config \<Rightarrow> string \<Rightarrow> string"
  | CallLarkCallback string string string "string \<Rightarrow> lark_identity option"
  | CallConsumeLark string
  | CallStartSSO string "oidc_config \<Rightarrow> string \<Rightarrow> string option"
  | CallSSOCallback string string string "string \<Rightarrow> sso_identity option"
  | CallConsumeSSO string

fun handle :: "auth_env \<Rightarrow> (auth_op \<Rightarrow> bool) \<Rightarrow> auth_request \<Rightarrow> auth_call \<Rightarrow> auth_world \<Rightarrow> auth_response \<times> auth_world" where
  "handle env fl q (CallSetup u e p) w = Setup env fl q u e p w"
| "handle env fl q (CallLogin u p) w = Login env fl q u p w"
| "handle env fl q (CallVerify t c) w = VerifyMFA env fl q t c w"
| "handle env fl q (CallRefresh c) w = Refresh env fl q c w"
| "handle env fl q (CallLogout c) w = Logout env fl q c w"
| "handle env fl q (CallRevokeSession i) w = RevokeSession fl q i w"
| "handle env fl q CallRevokeSessions w = RevokeSessions fl q w"
| "handle env fl q (CallStartLark r a) w = StartLarkLogin env fl q r a w"
| "handle env fl q (CallLarkCallback s e c x) w = CompleteLarkLogin env fl q s e c x w"
| "handle env fl q (CallConsumeLark t) w = ConsumeLarkLoginResult env fl q t w"
| "handle env fl q (CallStartSSO r a) w = StartSSOLogin env fl q r a w"
| "handle env fl q (CallSSOCallback s e c x) w = CompleteSSOLogin env fl q s e c x w"
| "handle env fl q (CallConsumeSSO t) w = ConsumeSSOLoginResult env fl q t w"

end
