(* ===== verification/Sign_In_Laws.thy ===== *)
theory Sign_In_Laws
  imports Sign_In
begin

text \<open>
  Properties of signing in: what vouches for every session, the rotation of refresh tokens, and which
  accounts an external identity can reach.
\<close>

section \<open>Where sessions come from\<close>

abbreviation sessions_of :: "auth_world \<Rightarrow> session list" where
  "sessions_of w \<equiv> ad_sessions (aw_db w)"

definition session_ids :: "auth_world \<Rightarrow> id64 list" where
  "session_ids w = map se_id (sessions_of w)"

definition new_session :: "auth_world \<Rightarrow> auth_world \<Rightarrow> session \<Rightarrow> bool" where
  "new_session w w' s \<longleftrightarrow> s \<in> set (sessions_of w') \<and> se_id s \<notin> set (session_ids w)"

lemma world_simps [simp]:
  "aw_db (log_audit a u w) = aw_db w" "aw_db (set_db db w) = db"
  by (simp_all add: log_audit_def set_db_def)

lemma not_new_session: "session_ids w' = session_ids w \<Longrightarrow> \<not> new_session w w' s"
  by (auto simp: new_session_def session_ids_def) (metis image_eqI image_set)

lemma revoke_sessions_ids [simp]: "map se_id (ad_sessions (revoke_sessions now P db)) = map se_id (ad_sessions db)"
  by (simp add: revoke_sessions_def update_where_key)

lemma revoke_defs_ids [simp]:
  "map se_id (ad_sessions (RevokeToken now h db)) = map se_id (ad_sessions db)"
  "map se_id (ad_sessions (RevokeAllForUser now u db)) = map se_id (ad_sessions db)"
  by (simp_all add: RevokeToken_def RevokeAllForUser_def)

lemma session_ids_simps [simp]:
  "session_ids (log_audit a u w) = session_ids w"
  "session_ids (set_db db w) = map se_id (ad_sessions db)"
  "session_ids (revoke_unless b (RevokeToken now h) w) = session_ids w"
  "session_ids (revoke_unless b (RevokeAllForUser now v) w) = session_ids w"
  by (simp_all add: session_ids_def revoke_unless_def)

lemma account_ops_sessions [simp]:
  "ad_sessions (update_account P f db) = ad_sessions db"
  "ad_sessions (StoreMFASecret now u x db) = ad_sessions db"
  "ad_sessions (EnableMFA now u db) = ad_sessions db"
  "ad_sessions (BindLarkIdentity now u i db) = ad_sessions db"
  "ad_sessions (BindExternalIdentity now u p x db) = ad_sessions db"
  "ad_sessions (snd (UpdateLarkUnionID now u x db)) = ad_sessions db"
  by (simp_all add: update_account_def StoreMFASecret_def EnableMFA_def BindLarkIdentity_def BindExternalIdentity_def
      UpdateLarkUnionID_def Let_def)

lemma insert_account_sessions [simp]: "ad_sessions (snd (insert_account a db)) = ad_sessions db"
  by (simp add: insert_account_def)

lemma grant_developer_sessions [simp]: "ad_sessions (snd (grant_developer r)) = ad_sessions (snd r)"
  by (cases r) (auto simp: grant_developer_def split: option.splits)

lemma create_account_sessions [simp]:
  "ad_sessions (snd (CreateUser now a b c d e f g db)) = ad_sessions db"
  "ad_sessions (snd (CreateLarkDeveloper now n i h db)) = ad_sessions db"
  "ad_sessions (snd (CreateSSODeveloper now n j h db)) = ad_sessions db"
  by (simp_all add: CreateUser_def CreateLarkDeveloper_def CreateSSODeveloper_def)

lemma create_external_sessions:
  "(\<And>name h db. ad_sessions (snd (create name h db)) = ad_sessions db) \<Longrightarrow>
   ad_sessions (snd (create_external env fl q base create db)) = ad_sessions db"
  by (auto simp: create_external_def split: option.splits prod.splits) (metis snd_conv)+

lemma find_or_create_sessions [simp]:
  "ad_sessions (snd (findOrCreateLarkUser env fl q i db)) = ad_sessions db"
  "ad_sessions (snd (findOrCreateSSOUser env fl q j db)) = ad_sessions db"
  by (simp_all add: findOrCreateLarkUser_def findOrCreateSSOUser_def bind_lark_def Let_def create_external_sessions
      split: option.split)

lemma newMFAChallenge_sessions [simp]: "sessions_of (snd (newMFAChallenge env fl q a setup w)) = sessions_of w"
  by (auto simp: newMFAChallenge_def CreateChallenge_def split: option.split)

lemma startMFASetup_sessions [simp]: "sessions_of (snd (startMFASetup env fl q a w)) = sessions_of w"
proof -
  have "sessions_of w1 = sessions_of w"
    if "newMFAChallenge env fl q a True (set_db (StoreMFASecret now u enc (aw_db w)) w) = (x, w1)" for now u enc x w1
    using newMFAChallenge_sessions [of env fl q a True "set_db (StoreMFASecret now u enc (aw_db w)) w"] that by simp
  then show ?thesis by (auto simp: startMFASetup_def split: option.split prod.split)
qed

lemma ask_second_factor_sessions [simp]: "sessions_of (snd (ask_second_factor env fl q a w)) = sessions_of w"
proof -
  have "sessions_of w1 = sessions_of w" if "newMFAChallenge env fl q a False w = (x, w1)" for x w1
    using newMFAChallenge_sessions [of env fl q a False w] that by simp
  then show ?thesis by (auto simp: ask_second_factor_def split: option.split prod.split)
qed

lemma CreateWithOptions_sessions:
  assumes "CreateWithOptions now u h agent ip e opts db = (r, db')" and "s \<in> set (ad_sessions db')"
    and "se_id s \<notin> se_id ` set (ad_sessions db)"
  shows "r = Some s \<and> se_user s = u \<and> se_token_hash s = h \<and> se_mfa_satisfied s = so_mfa_satisfied opts"
  using assms by (auto simp: CreateWithOptions_def Let_def split: if_splits)

lemma completeLogin_new:
  assumes "new_session w (snd (completeLogin env fl q a rt opts w)) s"
  shows "se_user s = u_id a \<and> se_mfa_satisfied s = so_mfa_satisfied opts"
proof -
  obtain raw where raw: "aq_token q = Some raw"
    using assms by (cases "aq_token q") (auto simp: completeLogin_def not_new_session)
  obtain r db' where
    c: "CreateWithOptions (aq_now q) (u_id a) (ae_hash env raw) (aq_agent q) (aq_ip q) (aq_now q + RefreshTokenTTL) opts (aw_db w) = (r, db')"
    by fastforce
  have "sessions_of (snd (completeLogin env fl q a rt opts w)) \<in> {sessions_of w, ad_sessions db'}"
    by (simp add: completeLogin_def raw c split: option.split)
  then show ?thesis
    using assms CreateWithOptions_sessions [OF c, of s] by (auto simp: new_session_def session_ids_def)
qed

lemma issue_refreshed_new:
  assumes "new_session w (snd (issue_refreshed env fl q a old w)) s"
  shows "se_user s = u_id a \<and> se_mfa_satisfied s = se_mfa_satisfied old"
proof -
  obtain raw where raw: "aq_token q = Some raw"
    using assms by (cases "aq_token q") (auto simp: issue_refreshed_def not_new_session)
  obtain r db' where
    c: "CreateWithOptions (aq_now q) (u_id a) (ae_hash env raw) (aq_agent q) (aq_ip q) (aq_now q + RefreshTokenTTL) (continued_options old) (aw_db w) = (r, db')"
    by fastforce
  have "sessions_of (snd (issue_refreshed env fl q a old w)) \<in> {sessions_of w, ad_sessions db'}"
    by (simp add: issue_refreshed_def raw c split: option.split)
  then show ?thesis
    using assms CreateWithOptions_sessions [OF c, of s] by (auto simp: new_session_def session_ids_def continued_options_def)
qed

lemma new_session_cong: "session_ids w1 = session_ids w \<Longrightarrow> new_session w w' s \<Longrightarrow> new_session w1 w' s"
  by (simp add: new_session_def)

text \<open>What vouches for a new session, by the kind of request.\<close>

fun vouched :: "auth_env \<Rightarrow> (auth_op \<Rightarrow> bool) \<Rightarrow> auth_request \<Rightarrow> auth_call \<Rightarrow> auth_db \<Rightarrow> account \<Rightarrow> bool \<Rightarrow> bool" where
  "vouched env fl q (CallLogin username password) db a mfa \<longleftrightarrow>
     GetByUsername db (trim_space username) = Some a \<and> \<not> ac_password_login_disabled a \<and>
     ae_password_ok env (ac_password a) password \<and> requiresMFA env fl (aq_now q) db a = Some False"
| "vouched env fl q (CallVerify token code) db a mfa \<longleftrightarrow> mfa \<and>
     (\<exists>c m secret. ParseMFAChallengeToken env (aq_now q) (trim_space token) = Some c \<and> GetByTokenID db (jc_id c) = Some m \<and>
        mc_user m = u_id a \<and> open_challenge m \<and> aq_now q < mc_expires_at m \<and> GetAccount db (jc_uid c) = Some a \<and>
        DecryptMFASecret env a = Some secret \<and> secret \<noteq> [] \<and> ae_code_ok env (aq_now q) (trim_space code) secret)"
| "vouched env fl q (CallRefresh cookie) db a mfa \<longleftrightarrow>
     (\<exists>raw old. cookie = Some raw \<and> GetByTokenHash db (ae_hash env raw) = Some old \<and> se_revoked_at old = None \<and>
        aq_now q \<le> se_expires_at old \<and> GetAccount db (se_user old) = Some a \<and> mfa = se_mfa_satisfied old \<and>
        (requiresMFA env fl (aq_now q) db a = Some False \<or> \<not> unverified_session a old))"
| "vouched env fl q (CallConsumeLark ticket) db a mfa \<longleftrightarrow>
     (\<exists>st u. st \<in> set (ad_lark_logins db) \<and> usable_ticket (trim_space ticket) (aq_now q) st \<and> ls_user st = Some u \<and>
        GetAccount db u = Some a \<and> requiresMFA env fl (aq_now q) db a = Some False)"
| "vouched env fl q (CallConsumeSSO ticket) db a mfa \<longleftrightarrow>
     (\<exists>st u. st \<in> set (ad_sso_logins db) \<and> usable_ticket (trim_space ticket) (aq_now q) st \<and> ls_user st = Some u \<and>
        GetAccount db u = Some a \<and>
        (requiresMFA env fl (aq_now q) db a = Some False \<or> mfa \<and> OIDCTrustsMFA env fl = Some True))"
| "vouched env fl q _ db a mfa = False"

lemma find_SomeD: "find P xs = Some a \<Longrightarrow> a \<in> set xs \<and> P a"
  by (induction xs) (auto split: if_splits)

lemma GetAccount_Some: "GetAccount db u = Some a \<Longrightarrow> a \<in> set (ad_accounts db) \<and> u_id a = u"
  unfolding GetAccount_def by (auto simp: find_Some_iff)

lemma GetByUsername_Some: "GetByUsername db n = Some a \<Longrightarrow> a \<in> set (ad_accounts db)"
  unfolding GetByUsername_def by (auto simp: find_Some_iff)

lemma GetByTokenID_Some: "GetByTokenID db t = Some m \<Longrightarrow> m \<in> set (ad_challenges db)"
  unfolding GetByTokenID_def by (auto simp: find_Some_iff)

lemma requiresMFA_cong:
  "ad_accounts db' = ad_accounts db \<Longrightarrow> ad_identity db' = ad_identity db \<Longrightarrow> requiresMFA env fl now db' a = requiresMFA env fl now db a"
  by (cases "ae_enforcement env") (simp_all add: requiresMFA_def identity_of_def)

lemma login_new:
  assumes "new_session w (snd (Login env fl q u p w)) s"
  shows "\<exists>a. a \<in> set (ad_accounts (aw_db w)) \<and> se_user s = u_id a \<and> u_is_active a \<and>
     vouched env fl q (CallLogin u p) (aw_db w) a (se_mfa_satisfied s)"
proof -
  obtain ok l where al: "allowAuthAttempt q (to_lower (trim_space u)) (aw_login_limiter w) = (ok, l)" by fastforce
  let ?w = "w\<lparr>aw_login_limiter := l\<rparr>"
  have ids: "session_ids ?w = session_ids w" by (simp add: session_ids_def)
  have "new_session w (snd (login_with_password env fl q (trim_space u) p ?w)) s"
    using assms ids by (auto simp: Login_def al Let_def not_new_session split: if_splits option.splits)
  then have new: "new_session ?w (snd (login_with_password env fl q (trim_space u) p ?w)) s" using ids by (rule new_session_cong [rotated])
  have quiet: "\<not> new_session ?w (snd (ask_second_factor env fl q a ?w)) s" for a
    by (rule not_new_session) (simp add: session_ids_def)
  obtain a where a: "GetByUsername (aw_db w) (trim_space u) = Some a" "u_is_active a" "\<not> ac_password_login_disabled a"
      "ae_password_ok env (ac_password a) p" "requiresMFA env fl (aq_now q) (aw_db w) a = Some False"
    and n: "new_session ?w (snd (completeLogin env fl q a None (method_options ''password'' []) ?w)) s"
    using new quiet by (auto simp: login_with_password_def Let_def not_new_session split: option.splits if_splits bool.splits)
  show ?thesis using a completeLogin_new [OF n] GetByUsername_Some [OF a(1)] by (intro exI [of _ a]) simp
qed

lemma verify_code_new:
  assumes "new_session w (snd (verify_code env fl q c m a code w)) s"
  shows "se_user s = u_id a \<and> se_mfa_satisfied s \<and>
     (\<exists>secret. DecryptMFASecret env a = Some secret \<and> secret \<noteq> [] \<and> ae_code_ok env (aq_now q) (trim_space code) secret)"
proof -
  obtain used cs where mu: "MarkUsed (aq_now q) (mc_id m) (ad_challenges (aw_db w)) = (used, cs)" by fastforce
  let ?w1 = "set_db ((aw_db w)\<lparr>ad_challenges := cs\<rparr>) w"
  let ?w2 = "log_audit ''mfa_enable'' (Some (u_id a)) (set_db (EnableMFA (aq_now q) (u_id a) (aw_db ?w1)) ?w1)"
  have ids: "session_ids ?w1 = session_ids w" "session_ids ?w2 = session_ids w" by (simp_all add: session_ids_def)
  obtain secret where secret: "DecryptMFASecret env a = Some secret" "secret \<noteq> []" "ae_code_ok env (aq_now q) (trim_space code) secret"
    and "new_session w (snd (completeLogin env fl q a None totp_options ?w1)) s \<or>
      new_session w (snd (completeLogin env fl q a None totp_options ?w2)) s"
    using assms by (auto simp: verify_code_def Let_def mu not_new_session session_ids_def split: option.splits if_splits)
  then have "se_user s = u_id a \<and> se_mfa_satisfied s = so_mfa_satisfied totp_options"
    using completeLogin_new [OF new_session_cong [OF ids(1)]] completeLogin_new [OF new_session_cong [OF ids(2)]] by blast
  with secret show ?thesis by (simp add: totp_options_def)
qed

lemma verify_new:
  assumes "new_session w (snd (VerifyMFA env fl q t code w)) s"
  shows "\<exists>a. a \<in> set (ad_accounts (aw_db w)) \<and> se_user s = u_id a \<and> u_is_active a \<and>
     vouched env fl q (CallVerify t code) (aw_db w) a (se_mfa_satisfied s)"
proof -
  obtain c where c: "ParseMFAChallengeToken env (aq_now q) (trim_space t) = Some c"
    using assms by (cases "ParseMFAChallengeToken env (aq_now q) (trim_space t)") (auto simp: VerifyMFA_def not_new_session)
  obtain ok l where al: "allowMFAVerifyAttempt q c (aw_mfa_limiter w) = (ok, l)" by fastforce
  let ?w = "w\<lparr>aw_mfa_limiter := l\<rparr>" and ?m = "GetByTokenID (aw_db w) (jc_id c)"
  have ids: "session_ids ?w = session_ids w" by (simp add: session_ids_def)
  obtain a where a: "validMFAChallenge (aq_now q) ?m c" "GetAccount (aw_db w) (jc_uid c) = Some a" "u_is_active a"
    and n: "new_session w (snd (verify_code env fl q c (the ?m) a code ?w)) s"
    using assms ids by (auto simp: VerifyMFA_def c al Let_def not_new_session split: option.splits if_splits bool.splits)
  then have "new_session ?w (snd (verify_code env fl q c (the ?m) a code ?w)) s" using new_session_cong [OF ids] by blast
  from verify_code_new [OF this] a GetAccount_Some [OF a(2)] c show ?thesis
    by (auto simp: validMFAChallenge_def open_challenge_def split: option.splits)
qed

lemma revoke_accounts [simp]:
  "ad_accounts (aw_db (revoke_unless b (RevokeToken now h) w)) = ad_accounts (aw_db w)"
  "ad_identity (aw_db (revoke_unless b (RevokeToken now h) w)) = ad_identity (aw_db w)"
  by (simp_all add: revoke_unless_def RevokeToken_def revoke_sessions_def)

lemma refresh_new:
  assumes "new_session w (snd (Refresh env fl q cookie w)) s"
  shows "\<exists>a. a \<in> set (ad_accounts (aw_db w)) \<and> se_user s = u_id a \<and> u_is_active a \<and>
     vouched env fl q (CallRefresh cookie) (aw_db w) a (se_mfa_satisfied s)"
proof -
  obtain ok l where al: "allowAuthAttempt q [] (aw_refresh_limiter w) = (ok, l)" by fastforce
  let ?w = "w\<lparr>aw_refresh_limiter := l\<rparr>"
  have ids: "session_ids ?w = session_ids w" by (simp add: session_ids_def)
  obtain raw old where old: "cookie = Some raw" "GetByTokenHash (aw_db w) (ae_hash env raw) = Some old"
    and n: "new_session w (snd (refresh_session env fl q old ?w)) s"
    using assms ids by (auto simp: Refresh_def al Let_def not_new_session split: option.splits if_splits)
  let ?w1 = "revoke_unless (fl OpRevokeOld) (RevokeToken (aq_now q) (se_token_hash old)) ?w"
  have ids1: "session_ids ?w1 = session_ids w" using ids by simp
  have acc1: "GetAccount (aw_db ?w1) u = GetAccount (aw_db w) u" for u by (simp add: GetAccount_def)
  have req1: "requiresMFA env fl now (aw_db ?w1) a = requiresMFA env fl now (aw_db w) a" for now a
    by (rule requiresMFA_cong) simp_all
  note db1 = acc1 req1
  have all: "session_ids (revoke_unless b (RevokeAllForUser now u) ?w1) = session_ids w" for b now u using ids1 by simp
  have live: "se_revoked_at old = None"
  proof (rule ccontr)
    assume "se_revoked_at old \<noteq> None"
    then have "session_ids (snd (refresh_session env fl q old ?w)) = session_ids w" using ids by (auto simp: refresh_session_def Let_def)
    with n show False using not_new_session by blast
  qed
  have unexpired: "aq_now q \<le> se_expires_at old"
    using n not_new_session [OF ids, of s] by (rule_tac ccontr) (simp add: refresh_session_def Let_def live not_le)
  obtain a where a: "GetAccount (aw_db w) (se_user old) = Some a" "\<not> fl OpUser"
    using n not_new_session [OF ids1] unexpired
    by (cases "GetAccount (aw_db w) (se_user old)"; cases "fl OpUser") (simp_all add: refresh_session_def Let_def live db1)
  have active: "u_is_active a"
    using n not_new_session [OF all] unexpired by (rule_tac ccontr) (simp add: refresh_session_def Let_def live db1 a)
  obtain needed where needed: "requiresMFA env fl (aq_now q) (aw_db w) a = Some needed"
    using n not_new_session [OF ids1] unexpired active
    by (cases "requiresMFA env fl (aq_now q) (aw_db w) a") (simp_all add: refresh_session_def Let_def live db1 a)
  have verified: "\<not> (needed \<and> unverified_session a old)"
    using n not_new_session [OF all] unexpired active by (rule_tac notI) (simp add: refresh_session_def Let_def live db1 a needed)
  have n1: "new_session w (snd (issue_refreshed env fl q a old ?w1)) s"
    using n unexpired active verified by (auto simp: refresh_session_def Let_def live db1 a needed split: if_splits)
  have "new_session ?w1 (snd (issue_refreshed env fl q a old ?w1)) s" using new_session_cong [OF ids1 n1] .
  note se = issue_refreshed_new [OF this]
  have "requiresMFA env fl (aq_now q) (aw_db w) a = Some False \<or> \<not> unverified_session a old"
    using verified needed by (cases needed) simp_all
  with se a old live unexpired active GetAccount_Some [OF a(1)] show ?thesis by (intro exI [of _ a]) auto
qed

lemma ConsumeTicket_Some:
  "ConsumeTicket t now rows rows = (Some st, rows') \<Longrightarrow> st \<in> set rows \<and> usable_ticket t now st"
  by (auto simp: ConsumeTicket_def find_Some_iff split: option.splits prod.splits if_splits)

lemma consume_lark_new:
  assumes "new_session w (snd (ConsumeLarkLoginResult env fl q t w)) s"
  shows "\<exists>a. a \<in> set (ad_accounts (aw_db w)) \<and> se_user s = u_id a \<and> u_is_active a \<and>
     vouched env fl q (CallConsumeLark t) (aw_db w) a (se_mfa_satisfied s)"
proof -
  obtain st0 rows where ct: "ConsumeTicket (trim_space t) (aq_now q) (ad_lark_logins (aw_db w)) (ad_lark_logins (aw_db w)) = (st0, rows)"
    by fastforce
  let ?w = "set_db ((aw_db w)\<lparr>ad_lark_logins := rows\<rparr>) w"
  have ids: "session_ids ?w = session_ids w" by (simp add: session_ids_def)
  have quiet: "\<not> new_session w (snd (ask_second_factor env fl q a ?w)) s" for a
    by (rule not_new_session) (simp add: session_ids_def)
  have req: "requiresMFA env fl (aq_now q) (aw_db ?w) a = requiresMFA env fl (aq_now q) (aw_db w) a" for a
    by (rule requiresMFA_cong) simp_all
  obtain st u a rt where st: "st0 = Some st" "ls_user st = Some u" "GetAccount (aw_db w) u = Some a" "u_is_active a"
      "requiresMFA env fl (aq_now q) (aw_db w) a = Some False"
    and n: "new_session w (snd (completeLogin env fl q a rt (method_options ''lark'' ''lark'') ?w)) s"
    using assms ids quiet req
    by (auto simp: ConsumeLarkLoginResult_def ct sign_in_pending_def Let_def not_new_session GetAccount_def
        split: option.splits if_splits bool.splits)
  have "new_session ?w (snd (completeLogin env fl q a rt (method_options ''lark'' ''lark'') ?w)) s" using new_session_cong [OF ids n] .
  note se = completeLogin_new [OF this]
  have "st \<in> set (ad_lark_logins (aw_db w))" "usable_ticket (trim_space t) (aq_now q) st"
    using ConsumeTicket_Some [OF ct [unfolded st(1)]] by simp_all
  with se st GetAccount_Some [OF st(3)] show ?thesis by (intro exI [of _ a]) auto
qed

lemma consume_sso_new:
  assumes "new_session w (snd (ConsumeSSOLoginResult env fl q t w)) s"
  shows "\<exists>a. a \<in> set (ad_accounts (aw_db w)) \<and> se_user s = u_id a \<and> u_is_active a \<and>
     vouched env fl q (CallConsumeSSO t) (aw_db w) a (se_mfa_satisfied s)"
proof -
  obtain st0 rows where ct: "ConsumeTicket (trim_space t) (aq_now q) (ad_sso_logins (aw_db w)) (ad_sso_logins (aw_db w)) = (st0, rows)"
    by fastforce
  let ?w = "set_db ((aw_db w)\<lparr>ad_sso_logins := rows\<rparr>) w"
  have ids: "session_ids ?w = session_ids w" by (simp add: session_ids_def)
  have quiet: "\<not> new_session w (snd (ask_second_factor env fl q a ?w)) s" for a
    by (rule not_new_session) (simp add: session_ids_def)
  have req: "requiresMFA env fl (aq_now q) (aw_db ?w) a = requiresMFA env fl (aq_now q) (aw_db w) a" for a
    by (rule requiresMFA_cong) simp_all
  obtain st u a rt cfg needed where st: "st0 = Some st" "ls_user st = Some u" "GetAccount (aw_db w) u = Some a" "u_is_active a"
      "resolveOIDCSSOConfig env fl = Some cfg" "requiresMFA env fl (aq_now q) (aw_db w) a = Some needed" "\<not> needed \<or> oc_trust_mfa cfg"
    and n: "new_session w (snd (completeLogin env fl q a rt (trusted_options (needed \<and> oc_trust_mfa cfg)) ?w)) s"
    using assms ids quiet req
    by (auto simp: ConsumeSSOLoginResult_def ct sign_in_pending_def Let_def not_new_session GetAccount_def
        split: option.splits if_splits)
  have "new_session ?w (snd (completeLogin env fl q a rt (trusted_options (needed \<and> oc_trust_mfa cfg)) ?w)) s" using new_session_cong [OF ids n] .
  note se = completeLogin_new [OF this]
  have tk: "st \<in> set (ad_sso_logins (aw_db w))" "usable_ticket (trim_space t) (aq_now q) st"
    using ConsumeTicket_Some [OF ct [unfolded st(1)]] by simp_all
  have "requiresMFA env fl (aq_now q) (aw_db w) a = Some False \<or> se_mfa_satisfied s \<and> OIDCTrustsMFA env fl = Some True"
    using se st by (cases needed) (simp_all add: OIDCTrustsMFA_def trusted_options_def)
  with se st tk GetAccount_Some [OF st(3)] show ?thesis by (intro exI [of _ a]) auto
qed

lemma callback_quiet:
  "sessions_of (snd (lark_callback env fl q st e c x w)) = sessions_of w"
  "sessions_of (snd (sso_callback env fl q st' e c x' w)) = sessions_of w"
proof -
  have l: "ad_sessions db' = sessions_of w" if "findOrCreateLarkUser env fl q i (aw_db w) = (r, db')" for i r db'
    using find_or_create_sessions(1) [of env fl q i "aw_db w"] that by simp
  have s: "ad_sessions db' = sessions_of w" if "findOrCreateSSOUser env fl q i (aw_db w) = (r, db')" for i r db'
    using find_or_create_sessions(2) [of env fl q i "aw_db w"] that by simp
  have h: "sessions_of (handleSSOLarkRecipient fl q a i w') = sessions_of w'" for a i w'
    by (simp add: handleSSOLarkRecipient_def Let_def)
  show "sessions_of (snd (lark_callback env fl q st e c x w)) = sessions_of w"
    by (auto simp: lark_callback_def fail_lark_def Let_def l split: option.split prod.split)
  show "sessions_of (snd (sso_callback env fl q st' e c x' w)) = sessions_of w"
    by (auto simp: sso_callback_def fail_sso_def Let_def s h split: option.split prod.split)
qed

lemma other_calls_quiet:
  assumes "case call of CallLogin _ _ \<Rightarrow> False | CallVerify _ _ \<Rightarrow> False | CallRefresh _ \<Rightarrow> False
     | CallConsumeLark _ \<Rightarrow> False | CallConsumeSSO _ \<Rightarrow> False | _ \<Rightarrow> True"
  shows "session_ids (snd (handle env fl q call w)) = session_ids w"
proof (cases call)
  case (CallSetup u e p)
  have "ad_sessions db' = sessions_of w" if "CreateUser (aq_now q) u e [] ''open_id'' [] h True (aw_db w) = (r, db')" for h r db'
    using create_account_sessions(1) [of "aq_now q" u e "[]" "''open_id''" "[]" h True "aw_db w"] that by simp
  then show ?thesis by (auto simp: CallSetup Setup_def Let_def session_ids_def split: option.split prod.split)
next
  case (CallRevokeSession i)
  then show ?thesis by (auto simp: RevokeSession_def RevokeByIDForUser_def session_ids_def split: option.split)
next
  case (CallLarkCallback st e c x)
  then show ?thesis by (auto simp: CompleteLarkLogin_def Let_def session_ids_def callback_quiet split: option.split prod.split)
next
  case (CallSSOCallback st e c x)
  then show ?thesis by (auto simp: CompleteSSOLogin_def Let_def session_ids_def callback_quiet split: option.split prod.split)
next
  case (CallStartLark r a)
  then show ?thesis
    by (auto simp: StartLarkLogin_def CreateLarkLogin_def Let_def session_ids_def split: option.split prod.split)
next
  case (CallStartSSO r a)
  then show ?thesis
    by (auto simp: StartSSOLogin_def CreateSSOLogin_def Let_def session_ids_def split: option.split prod.split)
next
  case CallRevokeSessions
  then show ?thesis by (simp add: RevokeSessions_def session_ids_def)
qed (use assms in \<open>auto simp: Logout_def Let_def split: option.split\<close>)

text \<open>
  C5: nobody gets a session without authenticating. Whatever the request, a session it adds belongs to an
  active account and is vouched for: by the password where no second factor is required, by a valid code on
  an open challenge, by the unused and unexpired ticket of an external login where the second factor is not
  required or the provider is trusted for it, or by a session that is neither revoked nor expired.
\<close>

theorem session_vouched:
  assumes "new_session w (snd (handle env fl q call w)) s"
  shows "\<exists>a. a \<in> set (ad_accounts (aw_db w)) \<and> se_user s = u_id a \<and> u_is_active a \<and>
     vouched env fl q call (aw_db w) a (se_mfa_satisfied s)"
proof (cases call)
  case (CallLogin u p)
  then show ?thesis using login_new [of w env fl q u p s] assms by simp
next
  case (CallVerify t c)
  then show ?thesis using verify_new [of w env fl q t c s] assms by simp
next
  case (CallRefresh c)
  then show ?thesis using refresh_new [of w env fl q c s] assms by simp
next
  case (CallConsumeLark t)
  then show ?thesis using consume_lark_new [of w env fl q t s] assms by simp
next
  case (CallConsumeSSO t)
  then show ?thesis using consume_sso_new [of w env fl q t s] assms by simp
qed (use assms not_new_session [OF other_calls_quiet [of call env fl q w]] in simp_all)

definition closed_limiter :: limiter where
  "closed_limiter = \<lparr>l_limit = 5, l_window = 60, l_history = (\<lambda>_. [])\<rparr>"

definition sample_auth_env :: auth_env where
  "sample_auth_env = \<lparr>ae_enforcement = MFARequiredForAdmins, ae_hash = (\<lambda>t. ''h'' @ t), ae_password_ok = (\<lambda>h p. h = p),
     ae_password_hash = Some, ae_code_ok = (\<lambda>now c secret. c = secret), ae_encrypt = Some, ae_decrypt = Some,
     ae_sign = (\<lambda>c. Some (jc_sub c)), ae_parse = (\<lambda>now t. None),
     ae_lark = \<lparr>lc_enabled = False, lc_site = [], lc_app_id = [], lc_app_secret = [], lc_redirect_url = [],
       lc_require_enterprise_email = False, lc_domains = []\<rparr>,
     ae_oidc = \<lparr>oc_enabled = False, oc_display_name = [], oc_issuer_url = [], oc_client_id = [], oc_client_secret = [],
       oc_redirect_url = [], oc_scopes = [], oc_trust_mfa = False, oc_require_enterprise_email = False, oc_domains = []\<rparr>,
     ae_settings = None\<rparr>"

definition empty_identity :: identity where
  "empty_identity = \<lparr>i_users = [], i_groups = [], i_permissions = [], i_user_groups = [], i_memberships = [],
     i_user_permissions = [], i_group_permissions = [], i_connections = [], i_user_connections = [], i_group_connections = [],
     i_next_group = 1\<rparr>"

definition sample_auth_world :: "session list \<Rightarrow> auth_world" where
  "sample_auth_world ss = \<lparr>aw_db = \<lparr>ad_accounts = [default_account 0 7 ''ann'' ''ann@x.org'' ''pw''], ad_next_account = 8,
       ad_identity = empty_identity, ad_sessions = ss, ad_next_session = 1 + length ss, ad_challenges = [], ad_next_challenge = 1,
       ad_lark_logins = [], ad_next_lark = 1, ad_sso_logins = [], ad_next_sso = 1\<rparr>,
     aw_login_limiter = closed_limiter, aw_refresh_limiter = closed_limiter, aw_mfa_limiter = closed_limiter,
     aw_lark_limiter = closed_limiter, aw_sso_limiter = closed_limiter, aw_audit = [], aw_alerts = []\<rparr>"

definition sample_auth_request :: "timestamp \<Rightarrow> string \<Rightarrow> auth_request" where
  "sample_auth_request now token = \<lparr>aq_ip = ''ip'', aq_agent = [], aq_now = now, aq_user = 0, aq_token = Some token,
     aq_seed = None, aq_totp = None, aq_qr_ok = True\<rparr>"

definition sample_session :: "nat \<Rightarrow> string \<Rightarrow> timestamp option \<Rightarrow> session" where
  "sample_session i h revoked = \<lparr>se_id = i, se_user = 7, se_token_hash = h, se_user_agent = None, se_ip_address = Some ''ip'',
     se_auth_method = ''password'', se_auth_provider = [], se_mfa_satisfied = False, se_mfa_source = [],
     se_expires_at = RefreshTokenTTL, se_revoked_at = revoked, se_created_at = 0\<rparr>"

lemmas auth_eval = sample_auth_world_def sample_auth_env_def sample_auth_request_def sample_session_def closed_limiter_def
  empty_identity_def default_account_def CreateWithOptions_def optional_def NewAccessToken_def set_db_def log_audit_def
  requiresMFA_def RequiresMFA_def GetAuthGroups_def identity_of_def user.defs Let_def RefreshTokenTTL_def seconds_def
  select_distinct_def AuthGroupAdmin_def

theorem session_vouched_witness:
  "\<exists>a. a \<in> set (ad_accounts (aw_db (sample_auth_world []))) \<and> 7 = u_id a \<and> u_is_active a \<and>
     vouched sample_auth_env (\<lambda>_. False) (sample_auth_request 0 ''t'') (CallLogin '' ann'' ''pw'') (aw_db (sample_auth_world [])) a False"
proof -
  have "sample_session 1 ''ht'' None \<in> set (sessions_of (snd (handle sample_auth_env (\<lambda>_. False) (sample_auth_request 0 ''t'')
      (CallLogin '' ann'' ''pw'') (sample_auth_world []))))"
    by (simp add: Login_def allowAuthAttempt_def Allow_def login_with_password_def requireSetupCompleted_def CountUsers_def
        attempt_key_def trim_space_def is_space_def GetByUsername_def completeLogin_def method_options_def auth_eval)
  then have "new_session (sample_auth_world []) (snd (handle sample_auth_env (\<lambda>_. False) (sample_auth_request 0 ''t'')
      (CallLogin '' ann'' ''pw'') (sample_auth_world []))) (sample_session 1 ''ht'' None)"
    by (simp add: new_session_def session_ids_def sample_auth_world_def)
  from session_vouched [OF this] show ?thesis by (simp add: sample_session_def)
qed

section \<open>Refresh tokens\<close>

lemma ball_update_where:
  "(\<forall>r \<in> set (update_where P f rows). Q r) \<longleftrightarrow> (\<forall>r \<in> set rows. if P r then Q (f r) else Q r)"
  unfolding update_where_def by (induction rows) simp_all

lemma revoke_all_done:
  "\<forall>r \<in> set (ad_sessions (RevokeAllForUser now u db)). se_user r = u \<longrightarrow> se_revoked_at r \<noteq> None"
  by (simp add: RevokeAllForUser_def revoke_sessions_def ball_update_where)

lemma GetByTokenHash_Some: "GetByTokenHash db h = Some s \<Longrightarrow> s \<in> set (ad_sessions db) \<and> se_token_hash s = h"
  unfolding GetByTokenHash_def by (auto simp: find_Some_iff)

text \<open>
  C34: the reuse of a refresh token is detected. A token whose session was revoked is never exchanged again,
  and when it is presented later than the grace period after the revocation, as a stolen token is, every
  session of the user is revoked.
\<close>

theorem refresh_reuse_detected:
  assumes "GetByTokenHash (aw_db w) (ae_hash env raw) = Some s" and "se_revoked_at s = Some t"
    and "\<not> fl OpSessionRead" and "Refresh env fl q (Some raw) w = (r, w')"
  shows "(\<exists>code msg. r = Refused code msg) \<and> session_ids w' = session_ids w \<and>
     (refreshReuseGraceWindow < aq_now q - t \<and> \<not> fl OpRevokeAll \<and> fst (allowAuthAttempt q [] (aw_refresh_limiter w)) \<longrightarrow>
        (\<forall>x \<in> set (sessions_of w'). se_user x = se_user s \<longrightarrow> se_revoked_at x \<noteq> None))"
proof -
  obtain ok l where al: "allowAuthAttempt q [] (aw_refresh_limiter w) = (ok, l)" by fastforce
  let ?w = "w\<lparr>aw_refresh_limiter := l\<rparr>"
  have ids: "session_ids ?w = session_ids w" by (simp add: session_ids_def)
  consider (limited) "\<not> ok" "r = Refused 429 ''refresh rate limit exceeded''" "w' = log_audit ''auth_rate_limited'' None ?w"
    | (stale) "ok" "aq_now q - t \<le> refreshReuseGraceWindow" "r = Refused 401 ''stale refresh token''" "w' = ?w"
    | (reuse) "ok" "r = Refused 401 ''refresh token reuse detected''"
        "w' = log_audit ''refresh_token_reuse_detected'' (Some (se_user s))
           (revoke_unless (fl OpRevokeAll) (RevokeAllForUser (aq_now q) (se_user s)) ?w)"
    using assms by (auto simp: Refresh_def al Let_def refresh_session_def split: if_splits)
  then show ?thesis
  proof cases
    case reuse
    have "session_ids w' = session_ids w" unfolding reuse(3) using ids by simp
    moreover have "se_revoked_at x \<noteq> None" if "x \<in> set (sessions_of w')" "se_user x = se_user s" "\<not> fl OpRevokeAll" for x
      using that revoke_all_done [of "aq_now q" "se_user s" "aw_db w"] unfolding reuse(3) by (simp add: revoke_unless_def)
    ultimately show ?thesis using reuse(2) by blast
  qed (use ids in \<open>simp_all add: al\<close>)
qed

theorem refresh_reuse_detected_witness:
  "filter (\<lambda>x. se_user x = 7 \<and> se_revoked_at x = None)
     (sessions_of (snd (Refresh sample_auth_env (\<lambda>_. False) (sample_auth_request (seconds 60) ''t'') (Some ''a'')
        (sample_auth_world [sample_session 1 ''ha'' (Some 0), sample_session 2 ''hb'' None])))) = []"
proof -
  let ?w = "sample_auth_world [sample_session 1 ''ha'' (Some 0), sample_session 2 ''hb'' None]"
  let ?q = "sample_auth_request (seconds 60) ''t''"
  have s: "GetByTokenHash (aw_db ?w) (ae_hash sample_auth_env ''a'') = Some (sample_session 1 ''ha'' (Some 0))"
    by (simp add: GetByTokenHash_def sample_auth_world_def sample_auth_env_def sample_session_def)
  have r: "se_revoked_at (sample_session 1 ''ha'' (Some 0)) = Some 0" by (simp add: sample_session_def)
  have late: "refreshReuseGraceWindow < aq_now ?q - 0" by (simp add: refreshReuseGraceWindow_def seconds_def sample_auth_request_def)
  have ok: "fst (allowAuthAttempt ?q [] (aw_refresh_limiter ?w))"
    by (simp add: allowAuthAttempt_def attempt_key_def sample_auth_request_def sample_auth_world_def closed_limiter_def Allow_def)
  show ?thesis
    using refresh_reuse_detected [OF s r, of "\<lambda>_. False" ?q "fst (Refresh sample_auth_env (\<lambda>_. False) ?q (Some ''a'') ?w)"
        "snd (Refresh sample_auth_env (\<lambda>_. False) ?q (Some ''a'') ?w)"] late ok
    by (auto simp: sample_session_def filter_empty_conv)
qed

text \<open>
  The rotation is not a conditional update: two requests that both read the session before either revokes it
  each get a new session.
\<close>

lemma concurrent_refresh_forks:
  "let w = sample_auth_world [sample_session 1 ''ha'' None]; s = sample_session 1 ''ha'' None;
       w1 = snd (refresh_session sample_auth_env (\<lambda>_. False) (sample_auth_request 5 ''b'') s w);
       w2 = snd (refresh_session sample_auth_env (\<lambda>_. False) (sample_auth_request 6 ''c'') s w1)
   in map (\<lambda>x. (se_id x, se_revoked_at x)) (sessions_of w2) = [(1, Some 5), (2, None), (3, None)]"
  by (simp add: refresh_session_def revoke_unless_def RevokeToken_def revoke_sessions_def update_where_def GetAccount_def
      issue_refreshed_def continued_options_def RevokeAllForUser_def auth_eval)

text \<open>
  A session opened without the second factor, before the policy applied to its user, is continued once the
  user has enabled a second factor, although it was never asked for it.
\<close>

lemma refresh_skips_second_factor:
  assumes "ac_mfa_enabled a" and "ac_mfa_secret a = Some x" and "x \<noteq> []"
  shows "\<not> unverified_session a (s\<lparr>se_mfa_satisfied := False\<rparr>)"
  using assms by (simp add: unverified_session_def no_secret_def)

section \<open>Accounts of external identities\<close>

lemma first_account_Some: "first_account P db = Some a \<Longrightarrow> a \<in> set (ad_accounts db) \<and> P a"
  unfolding first_account_def using find_SomeD [of P "sort_key u_id (ad_accounts db)"] by simp

lemma GetByEmail_Some: "GetByEmail db e = Some a \<Longrightarrow> a \<in> set (ad_accounts db) \<and> ac_email a = e"
  unfolding GetByEmail_def by (auto simp: find_Some_iff)

lemma GetAccount_update:
  "(\<And>a. u_id (f a) = u_id a) \<Longrightarrow>
   GetAccount (update_account P f db) u = map_option (\<lambda>a. if P a then f a else a) (GetAccount db u)"
  by (simp add: GetAccount_def update_account_def find_update_where)

lemma insert_account_id: "insert_account x db = (Some i, db') \<Longrightarrow> i = u_id x"
  by (auto simp: insert_account_def split: if_splits)

lemma grant_developer_id: "grant_developer r = (Some i, db') \<Longrightarrow> fst r = Some i"
  by (cases r) (auto simp: grant_developer_def split: option.splits)

lemma developer_id:
  "CreateLarkDeveloper now n i h db = (Some j, db') \<Longrightarrow> j = ad_next_account db"
  "CreateSSODeveloper now n k h db = (Some j, db') \<Longrightarrow> j = ad_next_account db"
  by (auto simp: CreateLarkDeveloper_def CreateSSODeveloper_def default_account_def dest!: grant_developer_id
      intro: insert_account_id [THEN trans] prod.collapse split: prod.splits)
     (auto simp: insert_account_def split: if_splits)

lemma create_external_id:
  assumes "\<And>n h j db'. create n h db = (Some j, db') \<Longrightarrow> j = ad_next_account db"
    and "create_external env fl q base create db = (Some a, db')"
  shows "u_id a = ad_next_account db"
  using assms GetAccount_Some by (fastforce simp: create_external_def split: option.splits prod.splits if_splits)

lemma bind_lark_id: "bind_lark fl q a i db = (Some a', db') \<Longrightarrow> u_id a' = u_id a"
  by (auto simp: bind_lark_def Let_def split: if_splits dest: GetAccount_Some)

lemma GetByLarkLoginIdentity_Some:
  "GetByLarkLoginIdentity db o' n = Some a \<Longrightarrow> a \<in> set (ad_accounts db) \<and>
     (ac_lark_login_open_id a = trim_space o' \<or> ac_lark_login_union_id a = trim_space n)"
  by (auto simp: GetByLarkLoginIdentity_def Let_def split: if_splits dest!: first_account_Some)

lemma GetByExternalIdentity_Some:
  "GetByExternalIdentity db p x = Some a \<Longrightarrow> a \<in> set (ad_accounts db) \<and> ac_ext_source a = trim_space p \<and> ac_ext_id a = trim_space x"
  by (auto simp: GetByExternalIdentity_def Let_def split: if_splits dest!: first_account_Some)

definition accounts_ok :: "auth_db \<Rightarrow> bool" where
  "accounts_ok db \<longleftrightarrow> distinct (map u_id (ad_accounts db)) \<and> (\<forall>a \<in> set (ad_accounts db). u_id a < ad_next_account db)"

lemma accounts_ok_unique: "accounts_ok db \<Longrightarrow> a \<in> set (ad_accounts db) \<Longrightarrow> b \<in> set (ad_accounts db) \<Longrightarrow> u_id a = u_id b \<Longrightarrow> a = b"
  unfolding accounts_ok_def by (metis distinct_map inj_onD)

lemma sso_user_cases:
  assumes "findOrCreateSSOUser env fl q i db = (Some a, db')"
  obtains (bound) b where "b \<in> set (ad_accounts db)" "ac_ext_source b = OIDCProviderKey" "ac_ext_id b = trim_space (si_subject i)" "u_id a = u_id b"
    | (email) b where "b \<in> set (ad_accounts db)" "\<not> u_is_protected b" "ac_email b = trim_space (si_email i)" "u_id a = u_id b"
    | (fresh) "u_id a = ad_next_account db"
proof (cases "GetByExternalIdentity db OIDCProviderKey (trim_space (si_subject i))")
  case (Some b)
  then have "a = b" using assms by (auto simp: findOrCreateSSOUser_def sso_input_of_def Let_def split: if_splits)
  moreover have "trim_space OIDCProviderKey = OIDCProviderKey" by code_simp
  ultimately show ?thesis using GetByExternalIdentity_Some [OF Some] bound [of b] by simp
next
  case None
  show ?thesis
  proof (cases "GetByEmail db (trim_space (si_email i))")
    case (Some b)
    then have "\<not> u_is_protected b" "u_id a = u_id b"
      using assms None by (auto simp: findOrCreateSSOUser_def sso_input_of_def Let_def split: if_splits dest: GetAccount_Some)
    with GetByEmail_Some [OF Some] email show ?thesis by auto
  next
    case none: None
    then obtain create where "create_external env fl q (ssoUsernameBase i) create db = (Some a, db')"
      "\<And>n h j db'. create n h db = (Some j, db') \<Longrightarrow> j = ad_next_account db"
      using assms None developer_id(2) by (auto simp: findOrCreateSSOUser_def sso_input_of_def Let_def split: if_splits)
    then show ?thesis using fresh create_external_id by blast
  qed
qed

lemma lark_user_cases:
  assumes "findOrCreateLarkUser env fl q i db = (Some a, db')"
  obtains (bound) b where "b \<in> set (ad_accounts db)" "u_id a = u_id b"
      "ac_lark_login_open_id b = trim_space (lk_open_id i) \<or> ac_lark_login_union_id b = trim_space (lk_union_id i)"
    | (email) b where "b \<in> set (ad_accounts db)" "\<not> u_is_protected b" "ac_email b = trim_space (lk_enterprise_email i)" "u_id a = u_id b"
    | (fresh) "u_id a = ad_next_account db"
proof (cases "GetByLarkLoginIdentity db (trim_space (lk_open_id i)) (trim_space (lk_union_id i))")
  case (Some b)
  then have "u_id a = u_id b"
    using assms by (auto simp: findOrCreateLarkUser_def lark_input_of_def Let_def split: if_splits dest: bind_lark_id)
  with GetByLarkLoginIdentity_Some [OF Some] bound [of b] show ?thesis by simp
next
  case None
  show ?thesis
  proof (cases "if trim_space (lk_enterprise_email i) \<noteq> [] then GetByEmail db (trim_space (lk_enterprise_email i)) else None")
    case (Some b)
    then have "\<not> u_is_protected b" "u_id a = u_id b"
      using assms None by (auto simp: findOrCreateLarkUser_def lark_input_of_def Let_def split: if_splits dest: bind_lark_id)
    moreover have "GetByEmail db (trim_space (lk_enterprise_email i)) = Some b" using Some by (simp split: if_splits)
    ultimately show ?thesis using GetByEmail_Some email [of b] by simp
  next
    case none: None
    then obtain create where "create_external env fl q (larkUsernameBase i) create db = (Some a, db')"
      "\<And>n h j db'. create n h db = (Some j, db') \<Longrightarrow> j = ad_next_account db"
      using assms None developer_id(1) by (auto simp: findOrCreateLarkUser_def lark_input_of_def Let_def split: if_splits)
    then show ?thesis using fresh create_external_id by blast
  qed
qed

text \<open>
  An external identity does not take over a protected account. When a login through an OIDC provider or
  through Lark yields a protected account, the account was already bound to the identity that signs in.
\<close>

theorem protected_account_kept:
  assumes "accounts_ok db" and "b \<in> set (ad_accounts db)" and "u_is_protected b" and "u_id a = u_id b"
  shows "(findOrCreateSSOUser env fl q i db = (Some a, db') \<longrightarrow>
       ac_ext_source b = OIDCProviderKey \<and> ac_ext_id b = trim_space (si_subject i)) \<and>
     (findOrCreateLarkUser env fl q j db = (Some a, db') \<longrightarrow>
       ac_lark_login_open_id b = trim_space (lk_open_id j) \<or> ac_lark_login_union_id b = trim_space (lk_union_id j))"
proof -
  have same: "c = b" if "c \<in> set (ad_accounts db)" "u_id a = u_id c" for c
    using accounts_ok_unique [OF assms(1) that(1) assms(2)] that(2) assms(4) by simp
  have old: "u_id a \<noteq> ad_next_account db" using assms(1,2,4) by (auto simp: accounts_ok_def)
  have "ac_ext_source b = OIDCProviderKey \<and> ac_ext_id b = trim_space (si_subject i)"
    if "findOrCreateSSOUser env fl q i db = (Some a, db')"
    using that by (cases rule: sso_user_cases) (use same old assms(3) in auto)
  moreover have "ac_lark_login_open_id b = trim_space (lk_open_id j) \<or> ac_lark_login_union_id b = trim_space (lk_union_id j)"
    if "findOrCreateLarkUser env fl q j db = (Some a, db')"
    using that by (cases rule: lark_user_cases) (use same old assms(3) in auto)
  ultimately show ?thesis by blast
qed

definition bound_admin :: account where
  "bound_admin = (default_account 0 7 ''ann'' ''ann@x.org'' ''pw'')\<lparr>u_is_protected := True, ac_ext_source := ''oidc'', ac_ext_id := ''S1''\<rparr>"

definition sample_sso_identity :: sso_identity where
  "sample_sso_identity = \<lparr>si_subject = '' S1'', si_email = ''other@x.org'', si_email_verified = True, si_email_verified_present = True,
     si_name = [], si_lark_open_id = [], si_lark_union_id = []\<rparr>"

theorem protected_account_kept_witness:
  "let db = (aw_db (sample_auth_world []))\<lparr>ad_accounts := [bound_admin]\<rparr>
   in fst (findOrCreateSSOUser sample_auth_env (\<lambda>_. False) (sample_auth_request 0 ''t'') sample_sso_identity db) = Some bound_admin \<and>
      ac_ext_id bound_admin = trim_space '' S1''"
proof -
  let ?db = "(aw_db (sample_auth_world []))\<lparr>ad_accounts := [bound_admin]\<rparr>"
  have found: "findOrCreateSSOUser sample_auth_env (\<lambda>_. False) (sample_auth_request 0 ''t'') sample_sso_identity ?db = (Some bound_admin, ?db)"
    by (simp add: findOrCreateSSOUser_def sso_input_of_def sample_sso_identity_def GetByExternalIdentity_def first_account_def
        bound_admin_def default_account_def OIDCProviderKey_def trim_space_def is_space_def)
  have "accounts_ok ?db" "u_is_protected bound_admin" "bound_admin \<in> set (ad_accounts ?db)"
    by (simp_all add: accounts_ok_def bound_admin_def default_account_def sample_auth_world_def)
  with protected_account_kept [of ?db bound_admin bound_admin] found show ?thesis by (simp add: sample_sso_identity_def)
qed

text \<open>A login through Lark replaces the identity of an OIDC provider an account is bound to.\<close>

lemma lark_login_unbinds_oidc:
  assumes "GetAccount db u = Some a"
  shows "\<exists>a'. GetAccount (BindLarkIdentity now u i db) u = Some a' \<and> ac_ext_source a' = ''lark''"
  using GetAccount_Some [OF assms] assms by (simp add: BindLarkIdentity_def GetAccount_update)

text \<open>Without an address two users of Lark cannot both get an account: the address is a unique key.\<close>

lemma second_lark_user_without_email:
  "list_ex (\<lambda>a. ac_email a = []) (ad_accounts db) \<Longrightarrow> trim_space (li_email i) = [] \<Longrightarrow>
   fst (CreateLarkDeveloper now name i h db) = None"
  by (auto simp: CreateLarkDeveloper_def grant_developer_def insert_account_def default_account_def list_ex_iff)

text \<open>An address the provider says it has not verified binds the account that has it.\<close>

lemma unverified_email_binds:
  assumes "GetByEmail db (trim_space (si_email i)) = Some a" and "\<not> u_is_protected a"
    and "GetByExternalIdentity db OIDCProviderKey (trim_space (si_subject i)) = None"
    and "trim_space (si_subject i) \<noteq> []" and "trim_space (si_email i) \<noteq> []" and "\<not> oc_require_enterprise_email (ae_oidc env)"
    and "\<not> si_email_verified i" and "si_email_verified_present i"
  shows "snd (findOrCreateSSOUser env (\<lambda>_. False) q i db) = BindExternalIdentity (aq_now q) (u_id a) OIDCProviderKey (trim_space (si_subject i)) db"
  using assms by (simp add: findOrCreateSSOUser_def sso_input_of_def Let_def)

section \<open>New user names\<close>

lemma candidate_name_inj:
  assumes "2 \<le> m" and "2 \<le> n" and "candidate_name base m = candidate_name base n"
  shows "m = n"
proof -
  have "nat_show m = nat_show n" using assms by (simp add: candidate_name_def)
  then have "Some m = Some n" by (metis digits_value_nat_show)
  then show ?thesis by simp
qed

lemma unique_username_found:
  "\<not> taken (candidate_name base (n + k)) \<Longrightarrow> \<exists>name. unique_username taken base n = Some name \<and> \<not> taken name"
proof (induction k arbitrary: n)
  case 0
  then show ?case by (subst unique_username.simps) simp
next
  case (Suc k)
  then show ?case using Suc.IH [of "n + 1"] by (subst unique_username.simps) simp
qed


section \<open>Requests\<close>

text \<open>
  C35: a request that passes the authentication acts for an active account, and either carries a signed
  access token of it, not one issued for another purpose, or a token of the provider whose subject is bound
  to the account, which is then not protected and under no second factor the provider is not trusted for.
\<close>

theorem request_authenticated:
  assumes "accounts_ok db" and "RequireAuth env fl bearer now db header = Some (u, name, sid)"
    and "RequireActiveUser fl db u = None"
  shows "\<exists>a. GetAccount db u = Some a \<and> u_is_active a \<and>
     ((\<exists>c. ae_parse env now (extractBearer header) = Some c \<and> jc_audience c = [] \<and> jc_uid c = u \<and> jc_sid c = sid) \<or>
      (\<exists>bv subject. bearer = Some bv \<and> Verify bv now (extractBearer header) = Inr subject \<and> ac_ext_source a = OIDCProviderKey \<and>
         ac_ext_id a = trim_space subject \<and> \<not> u_is_protected a \<and> sid = 0 \<and>
         (requiresMFA env fl now db a = Some False \<or> OIDCTrustsMFA env fl = Some True)))"
proof -
  obtain a where a: "GetAccount db u = Some a" "u_is_active a"
    using assms(3) by (auto simp: RequireActiveUser_def split: if_splits option.splits)
  show ?thesis
  proof (cases "ParseAccessToken env now (extractBearer header)")
    case (Some c)
    then have "jc_uid c = u" "jc_sid c = sid" using assms(2) by (auto simp: RequireAuth_def Let_def split: if_splits)
    moreover have "ae_parse env now (extractBearer header) = Some c" "jc_audience c = []"
      using Some by (auto simp: ParseAccessToken_def split: option.splits if_splits)
    ultimately show ?thesis using a by auto
  next
    case None
    then obtain bv b where b: "bearer = Some bv" "Authenticate env fl bv now db (extractBearer header) = Inr b" "u_id b = u" "sid = 0"
      using assms(2) by (auto simp: RequireAuth_def Let_def split: if_splits option.splits sum.splits)
    then obtain subject where s: "Verify bv now (extractBearer header) = Inr subject"
        "GetByExternalIdentity db OIDCProviderKey subject = Some b" "\<not> u_is_protected b"
        "requiresMFA env fl now db b = Some False \<or> OIDCTrustsMFA env fl = Some True"
      by (auto simp: Authenticate_def split: sum.splits if_splits option.splits bool.splits)
    have "b \<in> set (ad_accounts db)" using GetByExternalIdentity_Some [OF s(2)] by simp
    then have "b = a" using GetAccount_Some [OF a(1)] accounts_ok_unique [OF assms(1)] b(3) by simp
    moreover have "trim_space OIDCProviderKey = OIDCProviderKey" by code_simp
    ultimately show ?thesis using a b s GetByExternalIdentity_Some [OF s(2)] by auto
  qed
qed

theorem request_authenticated_witness:
  "let env = sample_auth_env\<lparr>ae_parse := (\<lambda>now t. if t = ''tok'' then Some \<lparr>jc_uid = 7, jc_sub = ''ann'', jc_sid = 3, jc_setup = False,
         jc_audience = [], jc_id = [], jc_expires_at = 900, jc_issued_at = 0\<rparr> else None)\<rparr>
   in \<exists>a. GetAccount (aw_db (sample_auth_world [])) 7 = Some a \<and> u_is_active a"
proof -
  let ?env = "sample_auth_env\<lparr>ae_parse := (\<lambda>now t. if t = ''tok'' then Some \<lparr>jc_uid = 7, jc_sub = ''ann'', jc_sid = 3, jc_setup = False,
         jc_audience = [], jc_id = [], jc_expires_at = 900, jc_issued_at = 0\<rparr> else None)\<rparr>"
  let ?db = "aw_db (sample_auth_world [])"
  have ok: "accounts_ok ?db" by (simp add: accounts_ok_def sample_auth_world_def default_account_def)
  have auth: "RequireAuth ?env (\<lambda>_. False) None 0 ?db ''Bearer tok'' = Some (7, ''ann'', 3)"
    by (simp add: RequireAuth_def extractBearer_def has_prefix_def MaxTokenBytes_def ParseAccessToken_def)
  have act: "RequireActiveUser (\<lambda>_. False) ?db 7 = None"
    by (simp add: RequireActiveUser_def GetAccount_def sample_auth_world_def default_account_def)
  from request_authenticated [OF ok auth act] show ?thesis by auto
qed

text \<open>The return address of a login stays on this site, apart from what a browser makes of a backslash.\<close>

lemma sanitizeReturnTo_local:
  "has_prefix (sanitizeReturnTo v) ''/'' \<and> \<not> has_prefix (sanitizeReturnTo v) ''//'' \<and> \<not> contains (sanitizeReturnTo v) ''://''"
  by (auto simp: sanitizeReturnTo_def Let_def has_prefix_def contains_def sublist_Cons_right)

lemma return_to_backslash:
  "sanitizeReturnTo (CHR ''/'' # CHR 0x5C # ''evil.org'') = CHR ''/'' # CHR 0x5C # ''evil.org''"
  by code_simp

end
