(* ===== verification/Sql_Policy.thy ===== *)
theory Sql_Policy
  imports Query_Access
begin

text \<open>
  Splitting and classification of SQL without a parser for the dialect (\<open>internal/sqlparse/parser.go\<close>), and
  the policies on the kinds of statements: single read-only statements in the query editor
  (\<open>internal/sqlpolicy/readonly.go\<close>, \<open>internal/sqlreview/readonly_check.go\<close>) and the kinds a ticket may
  hold (\<open>internal/sqlpolicy/ticket_review.go\<close>). The parsers of MySQL and PostgreSQL are a parameter.

  Strings are ASCII, so a text and its upper case have the same length.
\<close>

section \<open>Statements\<close>

datatype statement_kind =
    KindUnknown | KindSelect | KindShow | KindExplain | KindDescribe | KindInsert | KindUpdate | KindDelete
  | KindSet | KindCreate | KindAlter | KindDrop | KindTruncate

record parsed_statement =
  ps_seq :: nat
  ps_raw :: string
  ps_normalized :: string
  ps_kind :: statement_kind

section \<open>Comments\<close>

definition newline_char :: char where "newline_char = CHR 0x0A"

definition is_quote :: "char \<Rightarrow> bool" where
  "is_quote c = (c = CHR 0x27 \<or> c = CHR 0x22 \<or> c = CHR 0x60)"

text \<open>What follows a block comment. An unterminated one leaves its last character.\<close>

fun skip_block :: "string \<Rightarrow> string" where
  "skip_block (c # d # cs) = (if c = CHR ''*'' \<and> d = CHR ''/'' then cs else skip_block (d # cs))"
| "skip_block cs = cs"

text \<open>A quoted text up to its end, where a doubled quote does not end it, and the rest.\<close>

fun take_quoted :: "char \<Rightarrow> string \<Rightarrow> string \<times> string" where
  "take_quoted q [] = ([], [])"
| "take_quoted q (c # cs) =
     (if c = q then (case cs of [] \<Rightarrow> ([c], [])
        | d # ds \<Rightarrow> if d = q then (case take_quoted q ds of (a, rest) \<Rightarrow> (c # d # a, rest)) else ([c], cs))
      else (case take_quoted q cs of (a, rest) \<Rightarrow> (c # a, rest)))"

lemma length_skip_block: "length (skip_block cs) \<le> length cs"
  by (induction cs rule: skip_block.induct) auto

lemma length_take_quoted: "length (snd (take_quoted q cs)) \<le> length cs"
proof (induction q cs rule: take_quoted.induct)
  case (2 q c cs)
  show ?case
  proof (cases "c = q")
    case True
    show ?thesis
    proof (cases cs)
      case (Cons d ds)
      then show ?thesis using True "2.IH"(1) [OF True Cons] by (cases "take_quoted q ds") auto
    qed (use True in simp)
  next
    case False
    then show ?thesis using "2.IH"(2) by (cases "take_quoted q cs") auto
  qed
qed simp

function stripComments :: "string \<Rightarrow> string" where
  "stripComments [] = []"
| "stripComments (c # cs) =
     (if c = CHR ''-'' \<and> cs \<noteq> [] \<and> hd cs = CHR ''-'' then stripComments (dropWhile (\<lambda>x. x \<noteq> newline_char) cs)
      else if c = CHR ''/'' \<and> cs \<noteq> [] \<and> hd cs = CHR ''*'' then stripComments (skip_block (tl cs))
      else if is_quote c then c # fst (take_quoted c cs) @ stripComments (snd (take_quoted c cs))
      else c # stripComments cs)"
  by pat_completeness auto
termination
proof (relation "measure length", goal_cases)
  case (2 c cs)
  then show ?case using length_dropWhile_le [of "\<lambda>x. x \<noteq> newline_char" cs] by simp
next
  case (3 c cs)
  then show ?case using length_skip_block [of "tl cs"] by (cases cs) auto
next
  case (4 c cs)
  then show ?case using length_take_quoted [of c cs] by simp
qed simp_all

section \<open>Splitting\<close>

definition statement_of :: "string \<Rightarrow> string list" where
  "statement_of cur = (if trim_space cur = [] then [] else [trim_space cur])"

text \<open>
  The state of the scan is the depth of parentheses and the open quote. A step gives the state after a
  character, and \<open>None\<close> for a separator outside of both.
\<close>

fun scan_step :: "char \<Rightarrow> nat \<times> char option \<Rightarrow> (nat \<times> char option) option" where
  "scan_step c (depth, Some q) = Some (depth, if c = q then None else Some q)"
| "scan_step c (depth, None) =
     (if is_quote c then Some (depth, Some c)
      else if c = CHR ''('' then Some (depth + 1, None)
      else if c = CHR '')'' then Some (depth - 1, None)
      else if c = CHR '';'' \<and> depth = 0 then None
      else Some (depth, None))"

text \<open>\<open>cur\<close> is the current statement, backwards.\<close>

fun split_from :: "string \<Rightarrow> string \<Rightarrow> nat \<times> char option \<Rightarrow> string list" where
  "split_from [] cur s = statement_of (rev cur)"
| "split_from (c # cs) cur s = (case scan_step c s of
     None \<Rightarrow> statement_of (rev cur) @ split_from cs [] (0, None)
   | Some s' \<Rightarrow> split_from cs (c # cur) s')"

definition splitStatements :: "string \<Rightarrow> string list" where
  "splitStatements sql = split_from sql [] (0, None)"

fun count_from :: "string \<Rightarrow> nat \<times> char option \<Rightarrow> nat" where
  "count_from [] s = 0"
| "count_from (c # cs) s = (case scan_step c s of None \<Rightarrow> 1 + count_from cs (0, None) | Some s' \<Rightarrow> count_from cs s')"

definition estimateStatementSeq :: "string \<Rightarrow> nat" where
  "estimateStatementSeq sql = max 1 (1 + count_from sql (0, None))"

section \<open>Classification\<close>

definition firstKeyword :: "string \<Rightarrow> string" where
  "firstKeyword stmt = to_upper (takeWhile (\<lambda>c. is_letter c \<or> c = CHR ''_'') (trim_space stmt))"

definition is_blank :: "char \<Rightarrow> bool" where
  "is_blank c = (c = CHR '' '' \<or> c = CHR 0x09 \<or> c = CHR 0x0A \<or> c = CHR 0x0D)"

definition skipWhitespace :: "string \<Rightarrow> string" where
  "skipWhitespace s = dropWhile is_blank s"

definition skipToken :: "string \<Rightarrow> string" where
  "skipToken s = dropWhile (\<lambda>c. is_letter c \<or> c = CHR ''_'' \<or> is_digit c) (skipWhitespace s)"

fun skip_paren :: "nat \<Rightarrow> string \<Rightarrow> string" where
  "skip_paren 0 s = s"
| "skip_paren (Suc d) [] = []"
| "skip_paren (Suc d) (c # cs) =
     (if c = CHR ''('' then skip_paren (Suc (Suc d)) cs else if c = CHR '')'' then skip_paren d cs else skip_paren (Suc d) cs)"

definition skipBalancedParen :: "string \<Rightarrow> string" where
  "skipBalancedParen s = (if s = [] \<or> hd s \<noteq> CHR ''('' then s else skip_paren 1 (tl s))"

text \<open>The position after one common table expression: its name, \<open>AS\<close> and the query in parentheses.\<close>

definition skip_cte :: "string \<Rightarrow> string" where
  "skip_cte s =
     (let s1 = skipWhitespace (skipToken s)
      in if s1 = [] then []
         else let s2 = (if has_prefix s1 ''AS'' then skipWhitespace (skipToken s1) else s1)
           in if s2 \<noteq> [] \<and> hd s2 = CHR ''('' then skipWhitespace (skipBalancedParen s2) else s2)"

lemma length_skipWhitespace: "length (skipWhitespace s) \<le> length s"
  by (simp add: skipWhitespace_def length_dropWhile_le)

lemma length_skipToken: "length (skipToken s) \<le> length s"
  unfolding skipToken_def using length_dropWhile_le length_skipWhitespace le_trans by blast

lemma length_skip_paren: "length (skip_paren d s) \<le> length s"
  by (induction d s rule: skip_paren.induct) auto

lemma length_skipBalancedParen: "length (skipBalancedParen s) \<le> length s"
  using length_skip_paren [of 1 "tl s"] by (cases s) (auto simp: skipBalancedParen_def)

lemma length_skip_cte: "length (skip_cte s) \<le> length s"
proof -
  let ?s1 = "skipWhitespace (skipToken s)"
  let ?s2 = "if has_prefix ?s1 ''AS'' then skipWhitespace (skipToken ?s1) else ?s1"
  have "length ?s1 \<le> length s" using length_skipWhitespace [of "skipToken s"] length_skipToken [of s] by linarith
  moreover have "length ?s2 \<le> length ?s1"
    using length_skipWhitespace [of "skipToken ?s1"] length_skipToken [of ?s1] by (cases "has_prefix ?s1 ''AS''") auto
  moreover have "length (skipWhitespace (skipBalancedParen ?s2)) \<le> length ?s2"
    using length_skipWhitespace [of "skipBalancedParen ?s2"] length_skipBalancedParen [of ?s2] by linarith
  ultimately show ?thesis by (auto simp: skip_cte_def Let_def)
qed

function skip_ctes :: "string \<Rightarrow> string" where
  "skip_ctes s =
     (if s = [] then []
      else let r = skip_cte s in if r \<noteq> [] \<and> hd r = CHR '','' then skip_ctes (skipWhitespace (tl r)) else r)"
  by pat_completeness auto
termination
proof (relation "measure length", goal_cases)
  case (2 s r)
  then have "length (tl r) < length r" by simp
  also have "\<dots> \<le> length s" using 2 length_skip_cte [of s] by simp
  finally show ?case using length_skipWhitespace [of "tl r"] by simp
qed simp

declare skip_ctes.simps [simp del]

definition mainKeywordAfterWith :: "string \<Rightarrow> string" where
  "mainKeywordAfterWith stmt =
     (let s1 = skipWhitespace (skipToken (to_upper stmt));
          s2 = (if has_prefix s1 ''RECURSIVE'' then skipWhitespace (skipToken s1) else s1);
          rest = skip_ctes s2
      in firstKeyword (trim_space (drop (length stmt - length rest) stmt)))"

definition keyword_kind :: "string \<Rightarrow> statement_kind" where
  "keyword_kind kw =
     (if kw = ''SELECT'' then KindSelect else if kw = ''SHOW'' then KindShow else if kw = ''EXPLAIN'' then KindExplain
      else if kw \<in> {''DESC'', ''DESCRIBE''} then KindDescribe else if kw \<in> {''INSERT'', ''REPLACE''} then KindInsert
      else if kw = ''UPDATE'' then KindUpdate else if kw = ''DELETE'' then KindDelete else if kw = ''CREATE'' then KindCreate
      else if kw \<in> {''ALTER'', ''RENAME''} then KindAlter else if kw = ''DROP'' then KindDrop
      else if kw = ''TRUNCATE'' then KindTruncate else KindUnknown)"

text \<open>
  After \<open>WITH\<close> the code classifies the main keyword, which is a single word. If that is \<open>WITH\<close> again,
  nothing follows it and the kind is unknown, as \<^const>\<open>keyword_kind\<close> says.
\<close>

definition classifyGenericStatement :: "string \<Rightarrow> statement_kind" where
  "classifyGenericStatement stmt =
     (if firstKeyword stmt = ''WITH'' then keyword_kind (mainKeywordAfterWith stmt) else keyword_kind (firstKeyword stmt))"

lemma nothing_after_with: "mainKeywordAfterWith ''WITH'' = []"
  by code_simp

fun number_statements :: "nat \<Rightarrow> string list \<Rightarrow> parsed_statement list" where
  "number_statements n [] = []"
| "number_statements n (st # sts) = (let t = trim_space st
     in if t = [] then number_statements n sts
        else \<lparr>ps_seq = n, ps_raw = t, ps_normalized = t, ps_kind = classifyGenericStatement t\<rparr> # number_statements (n + 1) sts)"

definition parseGeneric :: "string \<Rightarrow> parsed_statement list" where
  "parseGeneric sql = number_statements 1 (splitStatements (stripComments sql))"

definition ParseSQL :: "(dialect \<Rightarrow> string \<Rightarrow> parsed_statement list option) \<Rightarrow> dialect \<Rightarrow> string \<Rightarrow> parsed_statement list option" where
  "ParseSQL parser d sql = (case d of DialectGeneric \<Rightarrow> Some (parseGeneric sql) | _ \<Rightarrow> parser d sql)"

section \<open>Policies\<close>

datatype policy_refusal = ParseFailed | StatementCount nat | ReadOnlyViolation string statement_kind | TicketKind nat statement_kind

definition CheckReadOnlySingleStatement :: "parsed_statement list \<Rightarrow> policy_refusal option" where
  "CheckReadOnlySingleStatement sts = (case sts of
     [st] \<Rightarrow> if ps_kind st \<in> {KindSelect, KindShow, KindExplain, KindDescribe} then None
            else Some (ReadOnlyViolation (ps_raw st) (ps_kind st))
   | _ \<Rightarrow> Some (StatementCount (length sts)))"

definition CheckReadOnly :: "(dialect \<Rightarrow> string \<Rightarrow> parsed_statement list option) \<Rightarrow> dialect \<Rightarrow> string \<Rightarrow> policy_refusal option" where
  "CheckReadOnly parser d sql = (case ParseSQL parser d sql of None \<Rightarrow> Some ParseFailed | Some sts \<Rightarrow> CheckReadOnlySingleStatement sts)"

definition isDDLKind :: "statement_kind \<Rightarrow> bool" where
  "isDDLKind k = (k \<in> {KindCreate, KindAlter, KindDrop, KindTruncate})"

definition isDMLMutationKind :: "statement_kind \<Rightarrow> bool" where
  "isDMLMutationKind k = (k \<in> {KindInsert, KindUpdate, KindDelete})"

definition isDMLKind :: "statement_kind \<Rightarrow> bool" where
  "isDMLKind k = (k \<in> {KindInsert, KindUpdate, KindDelete, KindSet})"

fun ticket_kinds :: "ticket_type \<Rightarrow> bool \<Rightarrow> parsed_statement list \<Rightarrow> policy_refusal option" where
  "ticket_kinds tt mutation [] = (if tt = DML \<and> \<not> mutation then Some (TicketKind 1 KindSet) else None)"
| "ticket_kinds tt mutation (st # sts) =
     (if tt = DDL \<and> \<not> isDDLKind (ps_kind st) then Some (TicketKind (ps_seq st) (ps_kind st))
      else if tt = DML \<and> \<not> isDMLKind (ps_kind st) then Some (TicketKind (ps_seq st) (ps_kind st))
      else ticket_kinds tt (mutation \<or> (tt = DML \<and> isDMLMutationKind (ps_kind st))) sts)"

definition CheckTicketStatementKinds :: "ticket_type \<Rightarrow> parsed_statement list \<Rightarrow> policy_refusal option" where
  "CheckTicketStatementKinds tt sts = ticket_kinds tt False sts"

section \<open>Splitting is final\<close>

text \<open>The scan of a text, \<open>None\<close> once it meets a separator.\<close>

fun scan :: "string \<Rightarrow> nat \<times> char option \<Rightarrow> (nat \<times> char option) option" where
  "scan [] s = Some s"
| "scan (c # cs) s = Option.bind (scan_step c s) (scan cs)"

lemma scan_append: "scan (xs @ ys) s = Option.bind (scan xs s) (scan ys)"
proof (induction xs arbitrary: s)
  case (Cons x xs)
  then show ?case by (cases "scan_step x s") simp_all
qed simp

lemma scan_blank: "is_space c \<Longrightarrow> scan_step c (0, None) = Some (0, None)"
  by (auto simp: is_space_def is_quote_def)

lemma scan_trim_left: "scan (dropWhile is_space cs) (0, None) = scan cs (0, None)"
  by (induction cs) (simp_all add: scan_blank del: scan_step.simps)

lemma trim_space_prefix: "\<exists>ys. dropWhile is_space s = trim_space s @ ys"
proof -
  have "dropWhile is_space s = rev (rev (dropWhile is_space s))" by simp
  also have "\<dots> = trim_space s @ rev (takeWhile is_space (rev (dropWhile is_space s)))"
    unfolding trim_space_def by (metis rev_append takeWhile_dropWhile_id)
  finally show ?thesis by blast
qed

lemma scan_trim:
  assumes "scan s (0, None) \<noteq> None"
  shows "scan (trim_space s) (0, None) \<noteq> None"
proof -
  obtain ys where "dropWhile is_space s = trim_space s @ ys" using trim_space_prefix by blast
  then show ?thesis using assms scan_trim_left [of s] by (cases "scan (trim_space s) (0, None)") (simp_all add: scan_append)
qed

lemma statement_of_scanned:
  assumes "st \<in> set (statement_of cur)" and "scan cur (0, None) = Some s"
  shows "scan st (0, None) \<noteq> None \<and> trim_space st = st \<and> st \<noteq> []"
  using assms scan_trim [of cur] by (auto simp: statement_of_def split: if_splits)

lemma split_from_scanned:
  assumes "st \<in> set (split_from cs cur s)" and "scan (rev cur) (0, None) = Some s"
  shows "scan st (0, None) \<noteq> None \<and> trim_space st = st \<and> st \<noteq> []"
  using assms
proof (induction cs arbitrary: cur s)
  case Nil
  then show ?case using statement_of_scanned by simp
next
  case (Cons c cs)
  show ?case
  proof (cases "scan_step c s")
    case None
    then have "st \<in> set (statement_of (rev cur)) \<or> st \<in> set (split_from cs [] (0, None))" using Cons.prems(1) by simp
    then show ?thesis using statement_of_scanned [OF _ Cons.prems(2)] Cons.IH [of "[]" "(0, None)"] by auto
  next
    case (Some s')
    then have "scan (rev (c # cur)) (0, None) = Some s'" using Cons.prems(2) by (simp add: scan_append)
    then show ?thesis using Cons.IH [of "c # cur" s'] Cons.prems(1) Some by simp
  qed
qed

lemma split_from_single: "scan cs s \<noteq> None \<Longrightarrow> split_from cs cur s = statement_of (rev cur @ cs)"
  by (induction cs arbitrary: cur s) (auto split: bind_splits option.splits)

text \<open>
  Splitting is final: each statement a text is split into is a single statement when it is split again,
  so no separator is left in it outside quotes and parentheses, and it is trimmed and not empty.
\<close>

theorem split_statements_final:
  assumes "st \<in> set (splitStatements sql)"
  shows "splitStatements st = [st] \<and> trim_space st = st \<and> st \<noteq> []"
proof -
  have st: "scan st (0, None) \<noteq> None" "trim_space st = st" "st \<noteq> []"
    using split_from_scanned [of st sql "[]" "(0, None)"] assms by (auto simp: splitStatements_def)
  then show ?thesis using split_from_single [OF st(1), of "[]"] by (simp add: splitStatements_def statement_of_def)
qed

theorem split_statements_final_witness:
  "splitStatements ''insert into t values (1, ;)'' = [''insert into t values (1, ;)'']"
proof -
  have "''insert into t values (1, ;)'' \<in> set (splitStatements ''select 1 ; insert into t values (1, ;) ;'')" by code_simp
  from split_statements_final [OF this] show ?thesis by blast
qed

text \<open>The number of statements is at most the one the error message of a parser is given.\<close>

lemma split_from_count: "length (split_from cs cur s) \<le> 1 + count_from cs s"
proof (induction cs arbitrary: cur s)
  case (Cons c cs)
  have one: "length (statement_of (rev cur)) \<le> 1" by (simp add: statement_of_def)
  show ?case
  proof (cases "scan_step c s")
    case None
    with one Cons.IH [of "[]" "(0, None)"] show ?thesis by simp
  next
    case (Some s')
    with Cons.IH [of "c # cur" s'] show ?thesis by simp
  qed
qed (simp add: statement_of_def)

lemma split_count: "length (splitStatements sql) \<le> estimateStatementSeq sql"
  using split_from_count [of sql "[]" "(0, None)"] by (simp add: splitStatements_def estimateStatementSeq_def)

section \<open>Reads and changes\<close>

lemma ticket_kinds_DDL: "ticket_kinds DDL m sts = None \<Longrightarrow> \<forall>st \<in> set sts. isDDLKind (ps_kind st)"
  by (induction sts arbitrary: m) (simp_all split: if_split_asm)

lemma ticket_kinds_DML: "ticket_kinds DML m sts = None \<Longrightarrow> \<forall>st \<in> set sts. isDMLKind (ps_kind st)"
  by (induction sts arbitrary: m) (simp_all split: if_split_asm)

lemma ticket_kinds_mutation:
  "ticket_kinds DML m sts = None \<Longrightarrow> m \<or> (\<exists>st \<in> set sts. isDMLMutationKind (ps_kind st))"
proof (induction sts arbitrary: m)
  case (Cons st sts)
  from Cons.prems have "ticket_kinds DML (m \<or> isDMLMutationKind (ps_kind st)) sts = None" by (simp split: if_split_asm)
  from Cons.IH [OF this] show ?case by auto
qed (simp split: if_split_asm)

text \<open>
  What a ticket of a kind may hold: a DDL ticket only statements that change the schema, a DML ticket
  only changes of data and settings with at least one change of data; and no text that the query editor
  accepts as a read is accepted in either.
\<close>

theorem ticket_kinds_separate:
  assumes "CheckTicketStatementKinds tt sts = None" and "tt = DDL \<or> tt = DML" and "sts \<noteq> []"
  shows "(tt = DDL \<longrightarrow> (\<forall>st \<in> set sts. isDDLKind (ps_kind st))) \<and>
     (tt = DML \<longrightarrow> (\<forall>st \<in> set sts. isDMLKind (ps_kind st)) \<and> (\<exists>st \<in> set sts. isDMLMutationKind (ps_kind st))) \<and>
     CheckReadOnlySingleStatement sts \<noteq> None"
proof -
  note none = assms(1) [unfolded CheckTicketStatementKinds_def]
  have ddl: "\<forall>st \<in> set sts. isDDLKind (ps_kind st)" if "tt = DDL"
    using none that by (auto dest: ticket_kinds_DDL)
  have dml: "\<forall>st \<in> set sts. isDMLKind (ps_kind st)" if "tt = DML"
    using none that by (auto dest: ticket_kinds_DML)
  have mutation: "\<exists>st \<in> set sts. isDMLMutationKind (ps_kind st)" if "tt = DML"
    using none that by (auto dest: ticket_kinds_mutation)
  obtain st rest where sts: "sts = st # rest" using assms(3) by (cases sts) auto
  have "isDDLKind (ps_kind st) \<or> isDMLKind (ps_kind st)" using ddl dml assms(2) by (auto simp: sts)
  then have "ps_kind st \<notin> {KindSelect, KindShow, KindExplain, KindDescribe}" by (auto simp: isDDLKind_def isDMLKind_def)
  then have "CheckReadOnlySingleStatement sts \<noteq> None" by (cases rest) (auto simp: sts CheckReadOnlySingleStatement_def)
  with ddl dml mutation show ?thesis by simp
qed

theorem ticket_kinds_separate_witness:
  "CheckReadOnlySingleStatement (parseGeneric ''delete from t where id = 1; update t set a = 2'') \<noteq> None"
proof -
  let ?sts = "parseGeneric ''delete from t where id = 1; update t set a = 2''"
  have "CheckTicketStatementKinds DML ?sts = None" by code_simp
  moreover have "length ?sts = 2" by code_simp
  then have "?sts \<noteq> []" by auto
  ultimately show ?thesis using ticket_kinds_separate by blast
qed

end
