(* ===== verification/Sql_Review.thy ===== *)
theory Sql_Review
  imports Sql_Policy Redis_Review
begin

text \<open>
  Review of the SQL of a ticket: the static rules of \<open>internal/sqlreview/static_check.go\<close>, the reading of
  \<open>EXPLAIN\<close> of \<open>internal/sqlreview/explain_check.go\<close>, the stored rules of
  \<open>internal/repository/sql_review_rule.go\<close>, and the parts of \<open>internal/handler/ticket_review.go\<close> that build
  the items of a review.

  The syntax trees of the two parsers are datatypes with the fields the code reads; the elements of their
  lists are never nil. The parsers, the list of reserved words and the databases are arguments. Issues of
  the static rules, whose texts are Chinese, are constructors; a message is kept as the list of its lines.
\<close>

section \<open>Syntax trees\<close>

record table_name =
  tn_schema :: string
  tn_name :: string

datatype table_option_type = TableOptionComment | TableOptionEngine | TableOptionCharset | TableOptionCollate | TableOptionOther

record table_option =
  to_tp :: table_option_type
  to_value :: string

record column_option =
  co_primary_key :: bool
  co_refer :: "table_name option"

record column_def =
  cd_name :: string
  cd_options :: "column_option list"

datatype constraint_type = ConstraintPrimaryKey | ConstraintForeignKey | ConstraintOther

record table_constraint =
  tc_tp :: constraint_type
  tc_refer :: "table_name option"

record create_table =
  ct_table :: "table_name option"
  ct_if_not_exists :: bool
  ct_refer_table :: "table_name option"
  ct_cols :: "column_def list"
  ct_constraints :: "table_constraint list"
  ct_options :: "table_option list"

record alter_spec =
  as_new_columns :: "column_def list"
  as_constraint :: "table_constraint option"
  as_new_constraints :: "table_constraint list"
  as_new_table :: "table_name option"

datatype result_set =
    RSTable table_name
  | RSSource result_set string
  | RSJoin result_set "result_set option"
  | RSOther

datatype mysql_stmt =
    CreateTableStmt create_table
  | AlterTableStmt "table_name option" "alter_spec list"
  | DropTableStmt "table_name list" bool
  | TruncateTableStmt "table_name option"
  | RenameTableStmt "(table_name \<times> table_name) list"
  | InsertStmt "result_set option"
  | UpdateStmt "result_set option" "table_name list" bool
  | DeleteStmt "table_name list" "result_set option" bool
  | ProcedureInfo
  | CreateViewStmt
  | CreateDatabaseStmt string
  | AlterDatabaseStmt string
  | DropDatabaseStmt string
  | OtherStmt

text \<open>
  An update lists the tables its assignments are qualified with; \<open>Where\<close> is the flag that a condition is
  present.
\<close>

record range_var =
  rv_catalog :: string
  rv_schema :: string
  rv_rel :: string

datatype pg_node =
    PgInsert "range_var option" | PgUpdate "range_var option" bool | PgDelete "range_var option" bool
  | PgCreate "range_var option" | PgAlterTable "range_var option" | PgTruncate "range_var option list"
  | PgDrop "string option list list" | PgOther

datatype stmt_ast = NoAST | MySQLNode mysql_stmt | PostgresNode pg_node

record statement = parsed_statement +
  ps_ast :: stmt_ast

section \<open>Checks on the text\<close>

datatype review_issue =
    IssueNoWhere | IssueNoComment | IssueNotUTF8MB4 | IssueNotInnoDB | IssueNoPrimaryKey | IssueForeignKey
  | IssueObject string | IssueProcedure | IssueView | IssueReservedColumn string
  | IssueMissingDelimiter "string list"

definition CheckDMLNoWhere :: "string \<Rightarrow> review_issue option" where
  "CheckDMLNoWhere sql =
     (let upper = to_upper (trim_space sql)
      in if \<not> has_prefix upper ''UPDATE'' \<and> \<not> has_prefix upper ''DELETE'' then None
         else if contains upper '' WHERE '' \<or> has_suffix upper '' WHERE'' then None
         else Some IssueNoWhere)"

definition CheckDDLTableComment :: "string \<Rightarrow> review_issue option" where
  "CheckDDLTableComment sql =
     (let upper = to_upper (trim_space sql)
      in if \<not> contains upper ''CREATE'' \<or> \<not> contains upper ''TABLE'' then None
         else if contains upper ''COMMENT'' then None else Some IssueNoComment)"

definition CheckRequireUTF8MB4 :: "string \<Rightarrow> review_issue option" where
  "CheckRequireUTF8MB4 sql =
     (let upper = to_upper (trim_space sql)
      in if \<not> (contains upper ''CREATE'' \<and> contains upper ''TABLE'') then None
         else if contains upper ''UTF8MB4'' then None else Some IssueNotUTF8MB4)"

definition isCreateTableSQL :: "string \<Rightarrow> bool" where
  "isCreateTableSQL sql =
     (let upper = to_upper (trim_space sql)
      in has_prefix upper ''CREATE TABLE'' \<or> has_prefix upper ''CREATE TEMPORARY TABLE'')"

text \<open>
  The scanners walk over the bytes of the text; \<open>p\<close> is the byte before the current one. Both share the way
  comments and quoted text are left.
\<close>

datatype scan_mode = InCode | InLineComment | InBlockComment | InQuote char

fun starts :: "char \<Rightarrow> string \<Rightarrow> bool" where
  "starts c [] = False"
| "starts c (d # ds) = (c = d)"

definition backslash :: char where "backslash = CHR 0x5C"

definition closes :: "char \<Rightarrow> char \<Rightarrow> char option \<Rightarrow> bool" where
  "closes q c p = (c = q \<and> p \<noteq> Some backslash)"

fun strip_from :: "scan_mode \<Rightarrow> char option \<Rightarrow> string \<Rightarrow> string" where
  "strip_from m p [] = []"
| "strip_from InLineComment p (c # cs) =
     (if c = newline_char then CHR '' '' # strip_from InCode (Some c) cs else strip_from InLineComment (Some c) cs)"
| "strip_from InBlockComment p (c # cs) =
     (if c = CHR ''*'' \<and> starts (CHR ''/'') cs then CHR '' '' # strip_from InCode (Some (CHR ''/'')) (tl cs)
      else strip_from InBlockComment (Some c) cs)"
| "strip_from (InQuote q) p (c # cs) =
     CHR '' '' # strip_from (if closes q c p then InCode else InQuote q) (Some c) cs"
| "strip_from InCode p (c # cs) =
     (if c = CHR ''-'' \<and> starts (CHR ''-'') cs then strip_from InLineComment (Some (CHR ''-'')) (tl cs)
      else if c = CHR ''#'' then strip_from InLineComment (Some c) cs
      else if c = CHR ''/'' \<and> starts (CHR ''*'') cs then strip_from InBlockComment (Some (CHR ''*'')) (tl cs)
      else if c = CHR 0x27 \<or> c = CHR 0x22 then CHR '' '' # strip_from (InQuote c) (Some c) cs
      else c # strip_from InCode (Some c) cs)"

definition stripSQLCommentsAndLiterals :: "string \<Rightarrow> string" where
  "stripSQLCommentsAndLiterals sql = strip_from InCode None sql"

definition leadingSQLKeywords :: "string \<Rightarrow> nat \<Rightarrow> string" where
  "leadingSQLKeywords sql limit = join '' '' (take limit (Go_Prelude.fields (to_upper (stripSQLCommentsAndLiterals sql))))"

definition UnsupportedMySQLObjectRule :: "string \<Rightarrow> string" where
  "UnsupportedMySQLObjectRule sql =
     (let k = leadingSQLKeywords sql 2
      in if k = ''CREATE TRIGGER'' then ''prohibit_trigger''
         else if k = ''CREATE FUNCTION'' then ''prohibit_stored_function''
         else if k = ''CREATE EVENT'' then ''prohibit_event'' else [])"

definition object_types :: "string \<Rightarrow> string" where
  "object_types rule = (if rule = ''prohibit_trigger'' then ''TRIGGER''
     else if rule = ''prohibit_stored_function'' then ''FUNCTION'' else if rule = ''prohibit_event'' then ''EVENT'' else [])"

definition flagged :: "bool \<Rightarrow> review_issue option \<Rightarrow> review_issue list" where
  "flagged enabled i = (if enabled then (case i of None \<Rightarrow> [] | Some x \<Rightarrow> [x]) else [])"

definition RunStaticChecks :: "string \<Rightarrow> (string \<Rightarrow> bool) \<Rightarrow> review_issue list" where
  "RunStaticChecks sql rules =
     flagged (rules ''dml_no_where'') (CheckDMLNoWhere sql)
     @ flagged (rules ''ddl_no_comment'') (CheckDDLTableComment sql)
     @ flagged (rules ''require_utf8mb4'') (CheckRequireUTF8MB4 sql)
     @ (if rules ''require_innodb'' \<and> isCreateTableSQL sql \<and> \<not> contains (to_upper sql) ''ENGINE'' then [IssueNotInnoDB] else [])
     @ (if rules ''require_primary_key'' \<and> isCreateTableSQL sql \<and> \<not> contains (to_upper sql) ''PRIMARY KEY''
        then [IssueNoPrimaryKey] else [])
     @ (if rules ''prohibit_foreign_key'' \<and> contains (to_upper sql) ''FOREIGN KEY'' then [IssueForeignKey] else [])
     @ (let rule = UnsupportedMySQLObjectRule sql
        in if rule \<noteq> [] \<and> rules rule then [IssueObject (object_types rule)] else [])"

subsection \<open>Statements run together\<close>

definition statementRootKeywords :: "string list" where
  "statementRootKeywords = [''ALTER'', ''CREATE'', ''DELETE'', ''DROP'', ''INSERT'', ''MERGE'', ''REPLACE'', ''TRUNCATE'', ''UPDATE'']"

text \<open>\<open>token\<close> is the word read so far; a word counts outside of parentheses only.\<close>

definition flushToken :: "nat \<Rightarrow> string \<Rightarrow> string list" where
  "flushToken depth token =
     (if token = [] \<or> depth \<noteq> 0 then []
      else if to_upper token \<in> set statementRootKeywords then [to_upper token] else [])"

definition word_char :: "char \<Rightarrow> bool" where
  "word_char c = (is_letter c \<or> c = CHR ''_'')"

fun roots_from :: "scan_mode \<Rightarrow> nat \<Rightarrow> string \<Rightarrow> char option \<Rightarrow> string \<Rightarrow> string list" where
  "roots_from m depth token p [] = flushToken depth token"
| "roots_from InLineComment depth token p (c # cs) =
     roots_from (if c = newline_char then InCode else InLineComment) depth token (Some c) cs"
| "roots_from InBlockComment depth token p (c # cs) =
     (if c = CHR ''*'' \<and> starts (CHR ''/'') cs then roots_from InCode depth token (Some (CHR ''/'')) (tl cs)
      else roots_from InBlockComment depth token (Some c) cs)"
| "roots_from (InQuote q) depth token p (c # cs) =
     roots_from (if closes q c p then InCode else InQuote q) depth token (Some c) cs"
| "roots_from InCode depth token p (c # cs) =
     (if c = CHR ''-'' \<and> starts (CHR ''-'') cs then
        flushToken depth token @ roots_from InLineComment depth [] (Some (CHR ''-'')) (tl cs)
      else if c = CHR ''#'' then flushToken depth token @ roots_from InLineComment depth [] (Some c) cs
      else if c = CHR ''/'' \<and> starts (CHR ''*'') cs then
        flushToken depth token @ roots_from InBlockComment depth [] (Some (CHR ''*'')) (tl cs)
      else if is_quote c then flushToken depth token @ roots_from (InQuote c) depth [] (Some c) cs
      else if c = CHR ''('' then flushToken depth token @ roots_from InCode (depth + 1) [] (Some c) cs
      else if c = CHR '')'' then flushToken depth token @ roots_from InCode (depth - 1) [] (Some c) cs
      else if word_char c then roots_from InCode depth (token @ [c]) (Some c) cs
      else flushToken depth token @ roots_from InCode depth [] (Some c) cs)"

definition collectTopLevelStatementRoots :: "string \<Rightarrow> string list" where
  "collectTopLevelStatementRoots sql = roots_from InCode 0 [] None sql"

definition CheckLikelyMissingStatementDelimiter :: "string \<Rightarrow> review_issue option" where
  "CheckLikelyMissingStatementDelimiter sql =
     (let roots = collectTopLevelStatementRoots sql
      in if length roots \<le> 1 then None else Some (IssueMissingDelimiter roots))"

section \<open>Checks on the syntax tree\<close>

fun checkDMLNoWhereAST :: "mysql_stmt \<Rightarrow> review_issue option" where
  "checkDMLNoWhereAST (UpdateStmt refs cols hasWhere) = (if hasWhere then None else Some IssueNoWhere)"
| "checkDMLNoWhereAST (DeleteStmt tables refs hasWhere) = (if hasWhere then None else Some IssueNoWhere)"
| "checkDMLNoWhereAST _ = None"

fun checkDMLNoWherePostgresAST :: "pg_node \<Rightarrow> review_issue option" where
  "checkDMLNoWherePostgresAST (PgUpdate r hasWhere) = (if hasWhere then None else Some IssueNoWhere)"
| "checkDMLNoWherePostgresAST (PgDelete r hasWhere) = (if hasWhere then None else Some IssueNoWhere)"
| "checkDMLNoWherePostgresAST _ = None"

fun checkDDLTableCommentAST :: "mysql_stmt \<Rightarrow> review_issue option" where
  "checkDDLTableCommentAST (CreateTableStmt ct) =
     (if list_ex (\<lambda>x. to_tp x = TableOptionComment \<and> trim_space (to_value x) \<noteq> []) (ct_options ct) then None
      else Some IssueNoComment)"
| "checkDDLTableCommentAST _ = None"

definition hasUTF8MB4Option :: "table_option list \<Rightarrow> bool" where
  "hasUTF8MB4Option = list_ex (\<lambda>x. (to_tp x = TableOptionCharset \<or> to_tp x = TableOptionCollate) \<and>
     contains (to_upper (to_value x)) ''UTF8MB4'')"

fun checkRequireUTF8MB4AST :: "mysql_stmt \<Rightarrow> review_issue option" where
  "checkRequireUTF8MB4AST (CreateTableStmt ct) = (if hasUTF8MB4Option (ct_options ct) then None else Some IssueNotUTF8MB4)"
| "checkRequireUTF8MB4AST _ = None"

fun checkRequireInnoDBAST :: "mysql_stmt \<Rightarrow> review_issue option" where
  "checkRequireInnoDBAST (CreateTableStmt ct) =
     (if list_ex (\<lambda>x. to_tp x = TableOptionEngine \<and> equal_fold (to_value x) ''InnoDB'') (ct_options ct) then None
      else Some IssueNotInnoDB)"
| "checkRequireInnoDBAST _ = None"

fun checkRequirePrimaryKeyAST :: "mysql_stmt \<Rightarrow> review_issue option" where
  "checkRequirePrimaryKeyAST (CreateTableStmt ct) =
     (if list_ex (\<lambda>c. tc_tp c = ConstraintPrimaryKey) (ct_constraints ct) then None
      else if list_ex (\<lambda>c. list_ex co_primary_key (cd_options c)) (ct_cols ct) then None
      else Some IssueNoPrimaryKey)"
| "checkRequirePrimaryKeyAST _ = None"

fun checkProhibitForeignKeyAST :: "mysql_stmt \<Rightarrow> review_issue option" where
  "checkProhibitForeignKeyAST (CreateTableStmt ct) =
     (if list_ex (\<lambda>c. tc_tp c = ConstraintForeignKey) (ct_constraints ct) then Some IssueForeignKey else None)"
| "checkProhibitForeignKeyAST _ = None"

text \<open>\<open>reserved\<close> holds the reserved words of the TiDB parser, in upper case.\<close>

fun checkProhibitReservedColumnNameAST :: "string list \<Rightarrow> mysql_stmt \<Rightarrow> review_issue option" where
  "checkProhibitReservedColumnNameAST reserved (CreateTableStmt ct) =
     (case find (\<lambda>c. to_upper (cd_name c) \<in> set reserved) (ct_cols ct) of
        None \<Rightarrow> None | Some c \<Rightarrow> Some (IssueReservedColumn (cd_name c)))"
| "checkProhibitReservedColumnNameAST reserved _ = None"

definition runMySQLStaticChecks :: "string list \<Rightarrow> mysql_stmt \<Rightarrow> (string \<Rightarrow> bool) \<Rightarrow> review_issue list" where
  "runMySQLStaticChecks reserved n rules =
     flagged (rules ''dml_no_where'') (checkDMLNoWhereAST n)
     @ flagged (rules ''ddl_no_comment'') (checkDDLTableCommentAST n)
     @ flagged (rules ''require_utf8mb4'') (checkRequireUTF8MB4AST n)
     @ flagged (rules ''require_innodb'') (checkRequireInnoDBAST n)
     @ flagged (rules ''require_primary_key'') (checkRequirePrimaryKeyAST n)
     @ flagged (rules ''prohibit_foreign_key'') (checkProhibitForeignKeyAST n)
     @ (if rules ''prohibit_stored_procedure'' \<and> n = ProcedureInfo then [IssueProcedure] else [])
     @ (if rules ''prohibit_view'' \<and> n = CreateViewStmt then [IssueView] else [])
     @ flagged (rules ''prohibit_reserved_column_name'') (checkProhibitReservedColumnNameAST reserved n)"

text \<open>The rules on table comments and character sets do not apply to PostgreSQL.\<close>

definition runPostgresStaticChecks :: "pg_node \<Rightarrow> (string \<Rightarrow> bool) \<Rightarrow> review_issue list" where
  "runPostgresStaticChecks n rules = flagged (rules ''dml_no_where'') (checkDMLNoWherePostgresAST n)"

definition RunStaticChecksParsed :: "string list \<Rightarrow> statement \<Rightarrow> (string \<Rightarrow> bool) \<Rightarrow> review_issue list" where
  "RunStaticChecksParsed reserved st rules = (case ps_ast st of
     NoAST \<Rightarrow> RunStaticChecks (ps_raw st) rules
   | MySQLNode n \<Rightarrow> runMySQLStaticChecks reserved n rules
   | PostgresNode n \<Rightarrow> runPostgresStaticChecks n rules)"

section \<open>Stored rules\<close>

record review_rule =
  rr_name :: string
  rr_severity :: string
  rr_enabled :: bool
  rr_threshold :: "int option"
  rr_updated_by :: "id64 option"

definition GetReviewRule :: "review_rule list \<Rightarrow> string \<Rightarrow> review_rule option" where
  "GetReviewRule rules name = find (\<lambda>r. rr_name r = name) rules"

definition given :: "'a option \<Rightarrow> 'a \<Rightarrow> 'a" where
  "given v old = (case v of None \<Rightarrow> old | Some x \<Rightarrow> x)"

definition PatchReviewRule :: "string \<Rightarrow> bool option \<Rightarrow> int option \<Rightarrow> string option \<Rightarrow> id64 \<Rightarrow> review_rule list \<Rightarrow> review_rule list" where
  "PatchReviewRule name enabled threshold severity by rules =
     (if enabled = None \<and> threshold = None \<and> severity = None then rules
      else update_where (\<lambda>r. rr_name r = name)
        (\<lambda>r. r\<lparr>rr_updated_by := Some by, rr_enabled := given enabled (rr_enabled r),
           rr_threshold := (case threshold of None \<Rightarrow> rr_threshold r | Some n \<Rightarrow> Some n),
           rr_severity := given severity (rr_severity r)\<rparr>) rules)"

section \<open>EXPLAIN\<close>

definition DefaultRowThreshold :: int where "DefaultRowThreshold = 10000"

text \<open>
  A cell as the driver scans it: the signed integer types, the unsigned ones, a float with its integer part
  and its printed form, a \<open>NullInt64\<close>, a string or bytes, and any other type.
\<close>

datatype explain_value =
    EVNull | EVInt int | EVUint nat | EVFloat int string | EVNullInt "int option" | EVText string | EVOther string

record explain_issue =
  ei_table :: string
  ei_kind :: string
  ei_rows :: int

record explain_result =
  er_issues :: "explain_issue list"
  er_max_rows :: int

text \<open>A later column of the same name replaces an earlier one.\<close>

fun col_index :: "nat \<Rightarrow> string list \<Rightarrow> string \<Rightarrow> nat option" where
  "col_index i [] name = None"
| "col_index i (c # cs) name = (case col_index (i + 1) cs name of Some j \<Rightarrow> Some j
     | None \<Rightarrow> if to_lower c = name then Some i else None)"

definition cell :: "string list \<Rightarrow> explain_value list \<Rightarrow> string \<Rightarrow> explain_value" where
  "cell cols vals name = (case col_index 0 cols name of None \<Rightarrow> EVNull
     | Some i \<Rightarrow> if i < length vals then vals ! i else EVNull)"

definition explainStrVal :: "string list \<Rightarrow> explain_value list \<Rightarrow> string \<Rightarrow> string" where
  "explainStrVal cols vals name = (case cell cols vals name of
     EVNull \<Rightarrow> [] | EVText s \<Rightarrow> s | EVInt n \<Rightarrow> itoa n | EVUint n \<Rightarrow> nat_show n | EVFloat n s \<Rightarrow> s
   | EVNullInt v \<Rightarrow> (case v of None \<Rightarrow> ''{0 false}'' | Some n \<Rightarrow> ''{'' @ itoa n @ '' true}'') | EVOther s \<Rightarrow> s)"

definition max_int64 :: nat where "max_int64 = 9223372036854775807"

definition parseExplainIntString :: "string \<Rightarrow> int option" where
  "parseExplainIntString text =
     (let value = trim_space text
      in if value = [] \<or> equal_fold value ''null'' then None
         else case atoi value of Some n \<Rightarrow> Some n
           | None \<Rightarrow> (case parse_uint64 value of None \<Rightarrow> None
                    | Some u \<Rightarrow> if u > max_int64 then None else Some (int u)))"

definition explainIntVal :: "string list \<Rightarrow> explain_value list \<Rightarrow> string \<Rightarrow> int option" where
  "explainIntVal cols vals name = (case cell cols vals name of
     EVNull \<Rightarrow> None | EVInt n \<Rightarrow> Some n
   | EVUint n \<Rightarrow> if n > max_int64 then None else Some (int n)
   | EVFloat n s \<Rightarrow> Some n | EVNullInt v \<Rightarrow> v | EVText s \<Rightarrow> parseExplainIntString s | EVOther s \<Rightarrow> None)"

definition explain_row :: "string list \<Rightarrow> int \<Rightarrow> explain_value list \<Rightarrow> explain_issue list" where
  "explain_row cols threshold vals = (case explainIntVal cols vals ''rows'' of None \<Rightarrow> []
     | Some n \<Rightarrow>
         (if explainStrVal cols vals ''type'' = ''ALL'' then
            [\<lparr>ei_table = explainStrVal cols vals ''table'', ei_kind = ''full_table_scan'', ei_rows = n\<rparr>] else [])
         @ (if n > threshold then
              [\<lparr>ei_table = explainStrVal cols vals ''table'', ei_kind = ''high_row_count'', ei_rows = n\<rparr>] else []))"

text \<open>The rows of the plan one after another, with the issues and the largest estimate so far.\<close>

fun explain_rows :: "string list \<Rightarrow> int \<Rightarrow> explain_value list list \<Rightarrow> explain_result \<Rightarrow> explain_result" where
  "explain_rows cols threshold [] r = r"
| "explain_rows cols threshold (vals # rest) r =
     (case explainIntVal cols vals ''rows'' of None \<Rightarrow> explain_rows cols threshold rest r
      | Some n \<Rightarrow> explain_rows cols threshold rest
          \<lparr>er_issues = er_issues r @ explain_row cols threshold vals, er_max_rows = max (er_max_rows r) n\<rparr>)"

datatype explain_reply = ExplainFailed string | ExplainRows "string list" "explain_value list list"

text \<open>
  \<open>plan\<close> answers \<open>EXPLAIN\<close> of a statement; a failure while the rows are read counts as a failed answer, since
  the callers drop what was read before.
\<close>

definition CheckExplainWithStats :: "(string \<Rightarrow> explain_reply) \<Rightarrow> string \<Rightarrow> int \<Rightarrow> string + explain_result" where
  "CheckExplainWithStats plan sql threshold = (case plan (''EXPLAIN '' @ sql) of
     ExplainFailed e \<Rightarrow> Inl e
   | ExplainRows cols rows \<Rightarrow> Inr (explain_rows cols threshold rows \<lparr>er_issues = [], er_max_rows = 0\<rparr>))"

section \<open>Items of a review\<close>

record review_table =
  rt_database :: string
  rt_schema :: string
  rt_table :: string
  rt_row_count :: "int option"
  rt_data_size :: "int option"

datatype review_message = Reported bool review_issue | ReportedPlan bool explain_issue | ReportedRedis redis_error | Plain string

record review_item =
  ri_seq :: nat
  ri_sql :: string
  ri_phase :: string
  ri_stage :: "string option"
  ri_kind :: "string option"
  ri_object :: "string option"
  ri_tables :: "review_table list"
  ri_method :: "string option"
  ri_scan_rows :: int
  ri_status :: string
  ri_message :: "review_message list"

text \<open>
  A message of a rule carries whether its severity is \<open>warning\<close>; no lines stand for no message. The texts of
  rules, plans and Redis refusals are never blank.
\<close>

fun blank :: "review_message \<Rightarrow> bool" where
  "blank (Plain s) = (trim_space s = [])"
| "blank _ = False"

fun trimmed_message :: "review_message \<Rightarrow> review_message" where
  "trimmed_message (Plain s) = Plain (trim_space s)"
| "trimmed_message m = m"

definition optionalTrimmedString :: "string \<Rightarrow> string option" where
  "optionalTrimmedString s = (if trim_space s = [] then None else Some (trim_space s))"

definition kind_name :: "statement_kind \<Rightarrow> string" where
  "kind_name k = (case k of KindUnknown \<Rightarrow> ''unknown'' | KindSelect \<Rightarrow> ''select'' | KindShow \<Rightarrow> ''show''
     | KindExplain \<Rightarrow> ''explain'' | KindDescribe \<Rightarrow> ''describe'' | KindInsert \<Rightarrow> ''insert'' | KindUpdate \<Rightarrow> ''update''
     | KindDelete \<Rightarrow> ''delete'' | KindSet \<Rightarrow> ''set'' | KindCreate \<Rightarrow> ''create'' | KindAlter \<Rightarrow> ''alter''
     | KindDrop \<Rightarrow> ''drop'' | KindTruncate \<Rightarrow> ''truncate'')"

fun inferDDLObjectType :: "stmt_ast \<Rightarrow> string" where
  "inferDDLObjectType (MySQLNode (CreateDatabaseStmt n)) = ''database''"
| "inferDDLObjectType (MySQLNode (AlterDatabaseStmt n)) = ''database''"
| "inferDDLObjectType (MySQLNode (DropDatabaseStmt n)) = ''database''"
| "inferDDLObjectType (MySQLNode (CreateTableStmt c)) = ''table''"
| "inferDDLObjectType (MySQLNode (AlterTableStmt t s)) = ''table''"
| "inferDDLObjectType (MySQLNode (DropTableStmt ts e)) = ''table''"
| "inferDDLObjectType (MySQLNode (TruncateTableStmt t)) = ''table''"
| "inferDDLObjectType (MySQLNode (RenameTableStmt ps)) = ''table''"
| "inferDDLObjectType _ = ''unknown''"

definition inferReviewObjectType :: "statement \<Rightarrow> string" where
  "inferReviewObjectType st =
     (if ps_kind st \<in> {KindInsert, KindUpdate, KindDelete} then ''table'' else inferDDLObjectType (ps_ast st))"

definition buildParserPassReviewItem :: "nat \<Rightarrow> string \<Rightarrow> string \<Rightarrow> string \<Rightarrow> review_item" where
  "buildParserPassReviewItem seq sql kind object = \<lparr>ri_seq = seq, ri_sql = sql, ri_phase = ''parser'', ri_stage = None,
     ri_kind = optionalTrimmedString kind, ri_object = optionalTrimmedString object, ri_tables = [], ri_method = None,
     ri_scan_rows = 0, ri_status = ''pass'', ri_message = []\<rparr>"

definition buildParserErrorReviewItem :: "nat \<Rightarrow> string \<Rightarrow> review_message \<Rightarrow> review_item" where
  "buildParserErrorReviewItem seq sql message = \<lparr>ri_seq = seq, ri_sql = sql, ri_phase = ''parser'', ri_stage = None,
     ri_kind = None, ri_object = None, ri_tables = [], ri_method = None, ri_scan_rows = 0, ri_status = ''error'',
     ri_message = (if blank message then [] else [trimmed_message message])\<rparr>"

definition buildValidationReviewItemWithStatus ::
    "nat \<Rightarrow> string \<Rightarrow> string \<Rightarrow> string option \<Rightarrow> string \<Rightarrow> string \<Rightarrow> int \<Rightarrow> string \<Rightarrow> review_message list \<Rightarrow> review_item" where
  "buildValidationReviewItemWithStatus seq sql meth stage kind object scanRows status issues =
     \<lparr>ri_seq = seq, ri_sql = sql, ri_phase = ''validation'', ri_stage = stage, ri_kind = optionalTrimmedString kind,
      ri_object = optionalTrimmedString object, ri_tables = [], ri_method = optionalTrimmedString meth,
      ri_scan_rows = scanRows, ri_status = status, ri_message = issues\<rparr>"

definition buildValidationReviewItem ::
    "nat \<Rightarrow> string \<Rightarrow> string \<Rightarrow> string option \<Rightarrow> string \<Rightarrow> string \<Rightarrow> int \<Rightarrow> review_message list \<Rightarrow> review_item" where
  "buildValidationReviewItem seq sql meth stage kind object scanRows issues =
     buildValidationReviewItemWithStatus seq sql meth stage kind object scanRows (if issues = [] then ''pass'' else ''error'') issues"

definition buildParserReviewItems :: "statement list \<Rightarrow> review_item list" where
  "buildParserReviewItems = map (\<lambda>st. buildParserPassReviewItem (ps_seq st) (ps_raw st) (kind_name (ps_kind st)) (inferReviewObjectType st))"

definition buildBatchValidationErrorItems ::
    "statement list \<Rightarrow> string \<Rightarrow> string option \<Rightarrow> string \<Rightarrow> string \<Rightarrow> string \<Rightarrow> review_item list" where
  "buildBatchValidationErrorItems sts meth stage kind object message =
     map (\<lambda>st. buildValidationReviewItem (ps_seq st) (ps_raw st) meth stage kind object 0 [Plain message]) sts"

definition configuredReviewStatus :: "string \<Rightarrow> string" where
  "configuredReviewStatus severity = (if severity = ''warning'' then ''warn'' else ''error'')"

definition strongestReviewStatus :: "string \<Rightarrow> string \<Rightarrow> string" where
  "strongestReviewStatus a b = (if a = ''error'' \<or> b = ''error'' then ''error''
     else if a = ''warn'' \<or> b = ''warn'' then ''warn'' else ''pass'')"

definition formatReviewIssue :: "string \<Rightarrow> review_issue \<Rightarrow> review_message" where
  "formatReviewIssue severity i = Reported (severity = ''warning'') i"

definition staticRuleNames :: "string list" where
  "staticRuleNames = [''dml_no_where'', ''ddl_no_comment'', ''require_utf8mb4'', ''require_innodb'', ''require_primary_key'',
     ''prohibit_foreign_key'', ''prohibit_stored_procedure'', ''prohibit_view'', ''prohibit_reserved_column_name'']"

text \<open>The rules one after another, each alone, with the status and the messages so far.\<close>

fun static_status :: "string list \<Rightarrow> (string \<Rightarrow> bool) \<Rightarrow> (string \<Rightarrow> string) \<Rightarrow> statement \<Rightarrow> string list \<Rightarrow> string \<times> review_message list \<Rightarrow>
    string \<times> review_message list" where
  "static_status reserved rules severity st [] acc = acc"
| "static_status reserved rules severity st (r # rs) acc =
     (if \<not> rules r then static_status reserved rules severity st rs acc
      else let issues = RunStaticChecksParsed reserved st (\<lambda>x. x = r)
        in if issues = [] then static_status reserved rules severity st rs acc
           else static_status reserved rules severity st rs
             (strongestReviewStatus (fst acc) (configuredReviewStatus (severity r)),
              snd acc @ map (formatReviewIssue (severity r)) issues))"

definition buildStaticValidationItems ::
    "string list \<Rightarrow> statement list \<Rightarrow> (string \<Rightarrow> bool) \<Rightarrow> (string \<Rightarrow> string) \<Rightarrow> review_item list" where
  "buildStaticValidationItems reserved sts rules severity =
     map (\<lambda>st. case static_status reserved rules severity st staticRuleNames (''pass'', []) of (status, issues) \<Rightarrow>
       buildValidationReviewItemWithStatus (ps_seq st) (ps_raw st) ''static_rule'' None (kind_name (ps_kind st))
         (inferReviewObjectType st) 0 status issues) sts"

definition formatPlanIssue :: "string \<Rightarrow> explain_issue \<Rightarrow> review_message" where
  "formatPlanIssue severity i = ReportedPlan (severity = ''warning'') i"

definition explain_item ::
    "(string \<Rightarrow> explain_reply) \<Rightarrow> (string \<Rightarrow> bool) \<Rightarrow> (string \<Rightarrow> string) \<Rightarrow> int \<Rightarrow> statement \<Rightarrow> review_item" where
  "explain_item plan rules severity threshold st =
     (case CheckExplainWithStats plan (ps_raw st) threshold of
        Inl e \<Rightarrow> buildValidationReviewItem (ps_seq st) (ps_raw st) ''explain_mysql'' None (kind_name (ps_kind st)) ''table'' 0 [Plain e]
      | Inr r \<Rightarrow>
          let found = filter (\<lambda>i. rules (ei_kind i)) (er_issues r)
          in buildValidationReviewItemWithStatus (ps_seq st) (ps_raw st) ''explain_mysql'' None (kind_name (ps_kind st)) ''table''
               (er_max_rows r)
               (foldl (\<lambda>s i. strongestReviewStatus s (configuredReviewStatus (severity (ei_kind i)))) ''pass'' found)
               (map (\<lambda>i. formatPlanIssue (severity (ei_kind i)) i) found))"

text \<open>\<open>open_db\<close> is the connection for \<open>EXPLAIN\<close>, or why it could not be opened.\<close>

definition runMySQLDMLExplainValidation ::
    "string + (string \<Rightarrow> explain_reply) \<Rightarrow> statement list \<Rightarrow> (string \<Rightarrow> bool) \<Rightarrow> (string \<Rightarrow> string) \<Rightarrow> int \<Rightarrow> review_item list" where
  "runMySQLDMLExplainValidation open_db sts rules severity threshold =
     (if \<not> rules ''full_table_scan'' \<and> \<not> rules ''high_row_count'' then []
      else case open_db of
        Inl e \<Rightarrow> buildBatchValidationErrorItems sts ''explain_mysql'' None ''dml'' ''table'' (''open explain connection failed: '' @ e)
      | Inr plan \<Rightarrow> map (explain_item plan rules severity threshold)
                      (filter (\<lambda>st. ps_kind st \<in> {KindInsert, KindUpdate, KindDelete}) sts))"

section \<open>Tables of a statement\<close>

record table_target =
  tt_database :: string
  tt_schema :: string
  tt_table :: string

type_synonym alias_map = "(string \<times> table_name) list"

text \<open>A later entry of the map replaces an earlier one with the same key.\<close>

definition lookup_alias :: "alias_map \<Rightarrow> string \<Rightarrow> table_name option" where
  "lookup_alias m k = map_option snd (find (\<lambda>e. fst e = k) (rev m))"

definition named_alias :: "string \<Rightarrow> table_name \<Rightarrow> alias_map" where
  "named_alias name t = (if trim_space name = [] then [] else [(to_lower name, t)])"

fun collectMySQLTableAliases :: "result_set \<Rightarrow> alias_map" where
  "collectMySQLTableAliases (RSTable t) = named_alias (tn_name t) t"
| "collectMySQLTableAliases (RSSource (RSTable t) asName) = named_alias (tn_name t) t @ named_alias asName t"
| "collectMySQLTableAliases (RSSource src asName) = collectMySQLTableAliases src"
| "collectMySQLTableAliases (RSJoin l r) =
     collectMySQLTableAliases l @ (case r of None \<Rightarrow> [] | Some x \<Rightarrow> collectMySQLTableAliases x)"
| "collectMySQLTableAliases RSOther = []"

definition mysqlTableAliasMap :: "result_set option \<Rightarrow> alias_map" where
  "mysqlTableAliasMap refs = (case refs of None \<Rightarrow> [] | Some r \<Rightarrow> collectMySQLTableAliases r)"

definition resolveMySQLTableName :: "table_name \<Rightarrow> alias_map \<Rightarrow> table_name" where
  "resolveMySQLTableName t m = (if trim_space (tn_schema t) \<noteq> [] then t
     else case lookup_alias m (to_lower (tn_name t)) of Some r \<Rightarrow> r | None \<Rightarrow> t)"

fun firstMySQLTableNameFromResultSet :: "result_set \<Rightarrow> table_name option" where
  "firstMySQLTableNameFromResultSet (RSTable t) = Some t"
| "firstMySQLTableNameFromResultSet (RSSource src asName) = firstMySQLTableNameFromResultSet src"
| "firstMySQLTableNameFromResultSet (RSJoin l r) = (case firstMySQLTableNameFromResultSet l of Some t \<Rightarrow> Some t
     | None \<Rightarrow> (case r of None \<Rightarrow> None | Some x \<Rightarrow> firstMySQLTableNameFromResultSet x))"
| "firstMySQLTableNameFromResultSet RSOther = None"

definition firstMySQLTableNameFromTableRefs :: "result_set option \<Rightarrow> table_name option" where
  "firstMySQLTableNameFromTableRefs refs = Option.bind refs firstMySQLTableNameFromResultSet"

definition mysqlUpdateTargetTables :: "result_set option \<Rightarrow> table_name list \<Rightarrow> table_name option list" where
  "mysqlUpdateTargetTables refs cols =
     (let targets = map (\<lambda>t. Some (resolveMySQLTableName t (mysqlTableAliasMap refs)))
            (filter (\<lambda>t. trim_space (tn_name t) \<noteq> []) cols)
      in if targets \<noteq> [] then targets else [firstMySQLTableNameFromTableRefs refs])"

definition mysqlDeleteTargetTables :: "table_name list \<Rightarrow> result_set option \<Rightarrow> table_name option list" where
  "mysqlDeleteTargetTables tables refs =
     (if tables \<noteq> [] then map (\<lambda>t. Some (resolveMySQLTableName t (mysqlTableAliasMap refs))) tables
      else [firstMySQLTableNameFromTableRefs refs])"

definition mysqlReviewTargetForTable :: "string \<Rightarrow> table_name option \<Rightarrow> table_target list" where
  "mysqlReviewTargetForTable selected t = (case t of None \<Rightarrow> []
     | Some n \<Rightarrow>
         let db = (if trim_space (tn_schema n) = [] then trim_space selected else trim_space (tn_schema n));
             name = trim_space (tn_name n)
         in if db = [] \<or> name = [] then [] else [\<lparr>tt_database = db, tt_schema = db, tt_table = name\<rparr>])"

fun mysql_targets :: "mysql_stmt \<Rightarrow> table_name option list" where
  "mysql_targets (CreateTableStmt c) = [ct_table c]"
| "mysql_targets (AlterTableStmt t specs) = [t]"
| "mysql_targets (DropTableStmt ts e) = map Some ts"
| "mysql_targets (TruncateTableStmt t) = [t]"
| "mysql_targets (RenameTableStmt ps) = map (\<lambda>p. Some (fst p)) ps"
| "mysql_targets (InsertStmt refs) = [firstMySQLTableNameFromTableRefs refs]"
| "mysql_targets (UpdateStmt refs cols w) = mysqlUpdateTargetTables refs cols"
| "mysql_targets (DeleteStmt ts refs w) = mysqlDeleteTargetTables ts refs"
| "mysql_targets _ = []"

definition mysqlReviewTableTargets :: "stmt_ast \<Rightarrow> string \<Rightarrow> table_target list" where
  "mysqlReviewTableTargets ast selected = (case ast of
     MySQLNode n \<Rightarrow> concat (map (mysqlReviewTargetForTable selected) (mysql_targets n)) | _ \<Rightarrow> [])"

text \<open>The parts of a qualified name in a \<open>DROP\<close>, from the last one.\<close>

definition drop_relation :: "string option list \<Rightarrow> range_var option" where
  "drop_relation items = (let names = rev (concat (map (case_option [] (\<lambda>x. [x])) items))
     in if names = [] then None
        else Some \<lparr>rv_catalog = (if length names \<ge> 3 then names ! 2 else []),
                   rv_schema = (if length names \<ge> 2 then names ! 1 else []), rv_rel = names ! 0\<rparr>)"

definition postgresDropRelations :: "string option list list \<Rightarrow> range_var option list" where
  "postgresDropRelations objects = filter (\<lambda>r. r \<noteq> None) (map drop_relation objects)"

definition postgresRangeVarReviewTableTarget :: "string \<Rightarrow> range_var option \<Rightarrow> table_target list" where
  "postgresRangeVarReviewTableTarget selected r = (case r of None \<Rightarrow> []
     | Some v \<Rightarrow>
         let db = (if trim_space (rv_catalog v) = [] then trim_space selected else trim_space (rv_catalog v));
             schema = (if trim_space (rv_schema v) = [] then ''public'' else trim_space (rv_schema v));
             name = trim_space (rv_rel v)
         in if db = [] \<or> name = [] then [] else [\<lparr>tt_database = db, tt_schema = schema, tt_table = name\<rparr>])"

fun pg_targets :: "pg_node \<Rightarrow> range_var option list" where
  "pg_targets (PgInsert r) = [r]"
| "pg_targets (PgUpdate r w) = [r]"
| "pg_targets (PgDelete r w) = [r]"
| "pg_targets (PgCreate r) = [r]"
| "pg_targets (PgAlterTable r) = [r]"
| "pg_targets (PgTruncate rs) = rs"
| "pg_targets (PgDrop objects) = postgresDropRelations objects"
| "pg_targets PgOther = []"

definition postgresReviewTableTargets :: "stmt_ast \<Rightarrow> string \<Rightarrow> table_target list" where
  "postgresReviewTableTargets ast selected = (case ast of
     PostgresNode n \<Rightarrow> concat (map (postgresRangeVarReviewTableTarget selected) (pg_targets n)) | _ \<Rightarrow> [])"

definition nul :: char where "nul = CHR 0x00"

definition target_key :: "table_target \<Rightarrow> string" where
  "target_key t = to_lower (tt_database t @ [nul] @ tt_schema t @ [nul] @ tt_table t)"

definition trimmed_target :: "table_target \<Rightarrow> table_target" where
  "trimmed_target t = \<lparr>tt_database = trim_space (tt_database t), tt_schema = trim_space (tt_schema t), tt_table = trim_space (tt_table t)\<rparr>"

definition incomplete :: "table_target \<Rightarrow> bool" where
  "incomplete t = (tt_database t = [] \<or> tt_schema t = [] \<or> tt_table t = [])"

fun dedupe_targets :: "string list \<Rightarrow> table_target list \<Rightarrow> table_target list" where
  "dedupe_targets seen [] = []"
| "dedupe_targets seen (t # ts) =
     (let x = trimmed_target t
      in if incomplete x \<or> target_key x \<in> set seen then dedupe_targets seen ts
         else x # dedupe_targets (target_key x # seen) ts)"

definition dedupeReviewTableTargets :: "table_target list \<Rightarrow> table_target list" where
  "dedupeReviewTableTargets ts = dedupe_targets [] ts"

definition reviewTableTargetsForStatement :: "dialect \<Rightarrow> statement \<Rightarrow> string \<Rightarrow> table_target list" where
  "reviewTableTargetsForStatement d st selected = (case d of
     DialectMySQL \<Rightarrow> dedupeReviewTableTargets (mysqlReviewTableTargets (ps_ast st) selected)
   | DialectPostgres \<Rightarrow> dedupeReviewTableTargets (postgresReviewTableTargets (ps_ast st) selected)
   | DialectGeneric \<Rightarrow> [])"

text \<open>\<open>snapshot\<close> finds the latest snapshot of a table: its name, row count and size, unless the query fails.\<close>

definition loadReviewTableMetadata ::
    "(table_target \<Rightarrow> (string \<times> int \<times> int) option) \<Rightarrow> dialect \<Rightarrow> statement list \<Rightarrow> string \<Rightarrow> (nat \<times> review_table) list" where
  "loadReviewTableMetadata snapshot d sts selected =
     concat (map (\<lambda>st. map (\<lambda>t. (ps_seq st,
       case snapshot t of
         None \<Rightarrow> \<lparr>rt_database = tt_database t, rt_schema = tt_schema t, rt_table = tt_table t, rt_row_count = None, rt_data_size = None\<rparr>
       | Some (name, n, b) \<Rightarrow> \<lparr>rt_database = tt_database t, rt_schema = tt_schema t, rt_table = name, rt_row_count = Some n, rt_data_size = Some b\<rparr>))
       (reviewTableTargetsForStatement d st selected)) sts)"

definition applyReviewTableMetadata :: "review_item list \<Rightarrow> (nat \<times> review_table) list \<Rightarrow> review_item list" where
  "applyReviewTableMetadata items metadata =
     map (\<lambda>i. let found = map snd (filter (\<lambda>m. fst m = ri_seq i) metadata)
              in if found = [] then i else i\<lparr>ri_tables := found\<rparr>) items"

section \<open>Redis commands\<close>

definition splitRedisTicketCommands :: "string \<Rightarrow> string list" where
  "splitRedisTicketCommands content = filter (\<lambda>l. l \<noteq> []) (map trim_space (split_on newline_char content))"

text \<open>The rows to execute, numbered from one.\<close>

definition redisTicketExecutionRows :: "string \<Rightarrow> (int \<times> string) list" where
  "redisTicketExecutionRows content =
     (let commands = splitRedisTicketCommands content in zip (map (\<lambda>i. int i + 1) [0..<length commands]) commands)"

definition parseRedisDatabaseIndex :: "string option \<Rightarrow> string + int" where
  "parseRedisDatabaseIndex name =
     (let value = trim_space (case name of None \<Rightarrow> [] | Some n \<Rightarrow> n)
      in if value = [] then Inl ''database_name is required''
         else case atoi value of None \<Rightarrow> Inl ''redis database index must be an integer''
           | Some i \<Rightarrow> if i < 0 \<or> i > 15 then Inl ''redis database index must be between 0 and 15'' else Inr i)"

definition redis_items :: "nat \<Rightarrow> string \<Rightarrow> review_item list" where
  "redis_items seq line = (case ParseRedisCommand line of
     Inl e \<Rightarrow> [buildParserErrorReviewItem seq line (ReportedRedis e)]
   | Inr (cmd, args) \<Rightarrow>
       [buildParserPassReviewItem seq line (to_lower cmd) ''redis_command'',
        buildValidationReviewItem seq line ''redis_whitelist'' None (to_lower cmd) ''redis_command'' 0
          (case CheckRedisTicketCommand line of None \<Rightarrow> [] | Some e \<Rightarrow> [ReportedRedis e])])"

definition runRedisCommandTicketReview :: "string \<Rightarrow> review_item list" where
  "runRedisCommandTicketReview content =
     (let lines = splitRedisTicketCommands content
      in if lines = [] then [buildParserErrorReviewItem 1 (trim_space content) (Plain ''empty redis command'')]
         else concat (map (\<lambda>(i, line). redis_items (i + 1) line) (enumerate 0 lines)))"

section \<open>Verdicts\<close>

text \<open>A statement violates a rule when the rule alone reports an issue.\<close>

definition violates :: "string list \<Rightarrow> statement \<Rightarrow> string \<Rightarrow> bool" where
  "violates reserved st r = (RunStaticChecksParsed reserved st (\<lambda>x. x = r) \<noteq> [])"

lemma strongest_simps [simp]:
  "strongestReviewStatus ''error'' b = ''error''" "strongestReviewStatus a ''error'' = ''error''"
  "strongestReviewStatus ''warn'' ''warn'' = ''warn''" "strongestReviewStatus ''pass'' ''warn'' = ''warn''"
  "strongestReviewStatus ''pass'' ''pass'' = ''pass''" "strongestReviewStatus ''warn'' ''pass'' = ''warn''"
  by (simp_all add: strongestReviewStatus_def)

definition status_of_rules :: "string list \<Rightarrow> (string \<Rightarrow> bool) \<Rightarrow> (string \<Rightarrow> string) \<Rightarrow> statement \<Rightarrow> string list \<Rightarrow> string" where
  "status_of_rules reserved rules severity st names =
     (let hit = filter (\<lambda>r. rules r \<and> violates reserved st r) names
      in if list_ex (\<lambda>r. severity r \<noteq> ''warning'') hit then ''error'' else if hit = [] then ''pass'' else ''warn'')"

lemma formatReviewIssue_eta: "formatReviewIssue severity = Reported (severity = ''warning'')"
  by (simp add: fun_eq_iff formatReviewIssue_def)

lemma static_status_acc:
  assumes "fst acc \<in> {''pass'', ''warn'', ''error''}"
  shows "static_status reserved rules severity st names acc =
     (strongestReviewStatus (fst acc) (status_of_rules reserved rules severity st names),
      snd acc @ concat (map (\<lambda>r. map (formatReviewIssue (severity r)) (RunStaticChecksParsed reserved st (\<lambda>x. x = r)))
        (filter (\<lambda>r. rules r \<and> violates reserved st r) names)))"
  using assms
proof (induction names arbitrary: acc)
  case Nil then show ?case by (cases acc) (auto simp: status_of_rules_def)
next
  case (Cons r rs)
  show ?case
  proof (cases "rules r \<and> violates reserved st r")
    case False
    then have "static_status reserved rules severity st (r # rs) acc = static_status reserved rules severity st rs acc"
      by (auto simp: violates_def Let_def)
    with Cons.IH [OF Cons.prems] False show ?thesis by (auto simp: status_of_rules_def)
  next
    case True
    let ?acc = "(strongestReviewStatus (fst acc) (configuredReviewStatus (severity r)),
       snd acc @ map (formatReviewIssue (severity r)) (RunStaticChecksParsed reserved st (\<lambda>x. x = r)))"
    have step: "static_status reserved rules severity st (r # rs) acc = static_status reserved rules severity st rs ?acc"
      using True by (simp add: violates_def Let_def)
    have ok: "fst ?acc \<in> {''pass'', ''warn'', ''error''}" by (simp add: strongestReviewStatus_def)
    have "strongestReviewStatus (fst ?acc) (status_of_rules reserved rules severity st rs) =
        strongestReviewStatus (fst acc) (status_of_rules reserved rules severity st (r # rs))"
      using True Cons.prems by (auto simp: status_of_rules_def configuredReviewStatus_def Let_def)
    with Cons.IH [OF ok] True step show ?thesis by simp
  qed
qed


text \<open>The rules do not disturb each other: checked together they report what each reports alone.\<close>

lemma mysql_checks_independent:
  "runMySQLStaticChecks reserved n rules =
     concat (map (\<lambda>r. if rules r then runMySQLStaticChecks reserved n (\<lambda>x. x = r) else []) staticRuleNames)"
  by (simp add: runMySQLStaticChecks_def flagged_def staticRuleNames_def)

subsection \<open>What an accepted table definition has\<close>

definition follows_rules :: "string list \<Rightarrow> create_table \<Rightarrow> bool" where
  "follows_rules reserved c \<longleftrightarrow>
     (\<exists>x \<in> set (ct_options c). to_tp x = TableOptionComment \<and> trim_space (to_value x) \<noteq> []) \<and>
     (\<exists>x \<in> set (ct_options c). to_tp x \<in> {TableOptionCharset, TableOptionCollate} \<and> contains (to_upper (to_value x)) ''UTF8MB4'') \<and>
     (\<exists>x \<in> set (ct_options c). to_tp x = TableOptionEngine \<and> equal_fold (to_value x) ''InnoDB'') \<and>
     ((\<exists>k \<in> set (ct_constraints c). tc_tp k = ConstraintPrimaryKey) \<or>
      (\<exists>k \<in> set (ct_cols c). \<exists>x \<in> set (cd_options k). co_primary_key x)) \<and>
     (\<forall>k \<in> set (ct_constraints c). tc_tp k \<noteq> ConstraintForeignKey) \<and>
     (\<forall>k \<in> set (ct_cols c). to_upper (cd_name k) \<notin> set reserved)"

definition clean :: "string list \<Rightarrow> mysql_stmt \<Rightarrow> bool" where
  "clean reserved n = (case n of
     CreateTableStmt c \<Rightarrow> follows_rules reserved c
   | UpdateStmt refs cols hasWhere \<Rightarrow> hasWhere
   | DeleteStmt ts refs hasWhere \<Rightarrow> hasWhere
   | ProcedureInfo \<Rightarrow> False
   | CreateViewStmt \<Rightarrow> False
   | _ \<Rightarrow> True)"

lemma flagged_Nil [simp]: "flagged b i = [] \<longleftrightarrow> \<not> b \<or> i = None"
  by (auto simp: flagged_def split: option.splits)

lemma reserved_check_iff:
  "checkProhibitReservedColumnNameAST reserved (CreateTableStmt c) = None \<longleftrightarrow>
     (\<forall>k \<in> set (ct_cols c). to_upper (cd_name k) \<notin> set reserved)"
proof -
  have "checkProhibitReservedColumnNameAST reserved (CreateTableStmt c) = None \<longleftrightarrow>
      find (\<lambda>k. to_upper (cd_name k) \<in> set reserved) (ct_cols c) = None" by (simp split: option.split)
  then show ?thesis by (simp only: find_None_iff) blast
qed

lemma table_checks_iff:
  "follows_rules reserved c \<longleftrightarrow> checkDDLTableCommentAST (CreateTableStmt c) = None \<and> checkRequireUTF8MB4AST (CreateTableStmt c) = None \<and>
     checkRequireInnoDBAST (CreateTableStmt c) = None \<and> checkRequirePrimaryKeyAST (CreateTableStmt c) = None \<and>
     checkProhibitForeignKeyAST (CreateTableStmt c) = None \<and> checkProhibitReservedColumnNameAST reserved (CreateTableStmt c) = None"
  unfolding reserved_check_iff by (auto simp: follows_rules_def list_ex_iff hasUTF8MB4Option_def)

lemma violates_none_iff:
  assumes "ps_ast st = MySQLNode n"
  shows "(\<forall>r \<in> set staticRuleNames. \<not> violates reserved st r) \<longleftrightarrow> clean reserved n"
  using table_checks_iff [of reserved]
  by (cases n) (simp_all add: clean_def staticRuleNames_def violates_def RunStaticChecksParsed_def assms runMySQLStaticChecks_def)

end
