(* ===== verification/Shadow_Validation.thy ===== *)
theory Shadow_Validation
  imports Sql_Review
begin

text \<open>
  Trial runs of the DDL of a ticket (\<open>runMySQLDDLShadowValidation\<close> and its helpers in
  \<open>internal/handler/ticket_review.go\<close>). The tables a ticket is about are copied, without rows, into a new
  database on the platform's own server, and each statement is run there after its tables are renamed into
  that database.

  The source server and the platform's server are arguments, the record \<open>servers\<close>. What is sent to the
  platform's server is kept as a trace of events, each with the error it was answered with; an answer may
  depend on all events before it. Timings and log entries are left out. \<open>AlterDatabaseStmt\<close> also has a flag that
  the rewriting clears and that only the printing of the statement reads.
\<close>

section \<open>Servers and events\<close>

datatype shadow_event =
    SendCreate string "string \<times> string"
  | SendDrop string
  | SendUse string
  | SendFK bool
  | SendClone string
  | SendNode mysql_stmt

type_synonym trace = "(shadow_event \<times> string option) list"

record servers =
  sv_open :: "string option"
  sv_schema :: "string \<Rightarrow> (string \<times> string) option"
  sv_schema_error :: "string \<Rightarrow> string option"
  sv_base_tables :: "string \<Rightarrow> string + string list"
  sv_metadata_error :: "string option"
  sv_has_table :: "string \<Rightarrow> string \<Rightarrow> bool"
  sv_database_exists :: "string \<Rightarrow> string + bool"
  sv_show_create :: "string \<Rightarrow> string \<Rightarrow> string + string"
  sv_conn :: "trace \<Rightarrow> string option"
  sv_current :: "trace \<Rightarrow> string + string option"
  sv_exec :: "trace \<Rightarrow> shadow_event \<Rightarrow> string option"
  sv_clock :: "trace \<Rightarrow> nat"

definition send :: "servers \<Rightarrow> shadow_event \<Rightarrow> trace \<Rightarrow> string option \<times> trace" where
  "send sv e tr = (let r = sv_exec sv tr e in (r, tr @ [(e, r)]))"

definition quoted :: "string \<Rightarrow> string" where
  "quoted s = CHR 0x22 # s @ [CHR 0x22]"

section \<open>Shadow database\<close>

definition generateShadowDatabaseName :: "string \<Rightarrow> nat \<Rightarrow> string" where
  "generateShadowDatabaseName seed millis =
     (let n = map (\<lambda>c. if c = CHR ''-'' \<or> c = CHR ''.'' then CHR ''_'' else c) (to_lower (trim_space seed))
      in ''shadow_'' @ take 20 (if n = [] then ''shadow'' else n) @ ''_'' @ nat_show millis)"

definition executeShadowDDL :: "servers \<Rightarrow> string \<Rightarrow> shadow_event \<Rightarrow> trace \<Rightarrow> string option \<times> trace" where
  "executeShadowDDL sv db e tr =
     (case sv_conn sv tr of Some err \<Rightarrow> (Some err, tr)
      | None \<Rightarrow>
          (case sv_current sv tr of Inl err \<Rightarrow> (Some err, tr)
           | Inr original \<Rightarrow>
               let reset = (\<lambda>t. let t1 = snd (send sv (SendFK True) t)
                     in case original of None \<Rightarrow> t1
                        | Some d \<Rightarrow> if trim_space d \<noteq> [] then snd (send sv (SendUse d) t1) else t1)
               in case send sv (SendUse db) tr of
                    (Some err, t1) \<Rightarrow> (Some err, reset t1)
                  | (None, t1) \<Rightarrow>
                      (case send sv (SendFK False) t1 of
                         (Some err, t2) \<Rightarrow> (Some err, reset t2)
                       | (None, t2) \<Rightarrow> (case send sv e t2 of (r, t3) \<Rightarrow> (r, reset t3)))))"

record clone_table =
  cl_database :: string
  cl_table :: string
  cl_required :: bool

definition isMySQLMissingTableError :: "string \<Rightarrow> bool" where
  "isMySQLMissingTableError e =
     (contains (to_lower e) ''error 1146'' \<or> contains (to_lower e) (''doesn'' @ [CHR 0x27] @ ''t exist''))"

fun clone_loop :: "servers \<Rightarrow> string \<Rightarrow> string \<Rightarrow> string list \<Rightarrow> clone_table list \<Rightarrow> trace \<Rightarrow> string option \<times> trace" where
  "clone_loop sv source shadow seen [] tr = (None, tr)"
| "clone_loop sv source shadow seen (c # cs) tr =
     (let db = (if trim_space (cl_database c) = [] then source else trim_space (cl_database c));
          name = trim_space (cl_table c); key = db @ ''.'' @ name
      in if name = [] \<or> key \<in> set seen then clone_loop sv source shadow seen cs tr
         else case sv_show_create sv db name of
           Inl err \<Rightarrow> if \<not> cl_required c \<and> isMySQLMissingTableError err then clone_loop sv source shadow (key # seen) cs tr
                     else (Some err, tr)
         | Inr sql \<Rightarrow>
             (case executeShadowDDL sv shadow (SendClone sql) tr of
                (Some err, t1) \<Rightarrow> (Some (''clone table '' @ name @ '' failed: '' @ err), t1)
              | (None, t1) \<Rightarrow> clone_loop sv source shadow (key # seen) cs t1))"

definition loadMySQLSchemaInfo :: "servers \<Rightarrow> string \<Rightarrow> string + (string \<times> string)" where
  "loadMySQLSchemaInfo sv db = (case sv_schema_error sv db of
     Some e \<Rightarrow> Inl (''load database schema info failed: '' @ e)
   | None \<Rightarrow> (case sv_schema sv db of
       None \<Rightarrow> Inl (''target database '' @ quoted db @ '' does not exist'') | Some i \<Rightarrow> Inr i))"

definition cloneMySQLDatabaseTablesToShadow ::
    "servers \<Rightarrow> string \<Rightarrow> clone_table list \<Rightarrow> (string \<times> string) option \<Rightarrow> trace \<Rightarrow> (string + string) \<times> trace" where
  "cloneMySQLDatabaseTablesToShadow sv source tables info tr =
     (case (case info of None \<Rightarrow> loadMySQLSchemaInfo sv source | Some i \<Rightarrow> Inr i) of
        Inl e \<Rightarrow> (Inl e, tr)
      | Inr i \<Rightarrow>
          let shadow = generateShadowDatabaseName source (sv_clock sv tr)
          in case send sv (SendCreate shadow i) tr of
               (Some e, t1) \<Rightarrow> (Inl (''create shadow database failed: '' @ e), t1)
             | (None, t1) \<Rightarrow>
                 (case clone_loop sv source shadow [] tables t1 of
                    (Some e, t2) \<Rightarrow> (Inl e, snd (send sv (SendDrop shadow) t2))
                  | (None, t2) \<Rightarrow> (Inr shadow, t2)))"

definition cloneMySQLDatabaseToShadow :: "servers \<Rightarrow> string \<Rightarrow> trace \<Rightarrow> (string + string) \<times> trace" where
  "cloneMySQLDatabaseToShadow sv source tr = (case sv_base_tables sv source of
     Inl e \<Rightarrow> (Inl (''list base tables failed: '' @ e), tr)
   | Inr ts \<Rightarrow> cloneMySQLDatabaseTablesToShadow sv source
       (map (\<lambda>t. \<lparr>cl_database = source, cl_table = t, cl_required = True\<rparr>) ts) None tr)"

section \<open>Tables a statement needs\<close>

datatype expectation = MustExist | MustNotExist

record existence_check =
  ex_database :: string
  ex_table :: string
  ex_expectation :: expectation
  ex_optional :: bool

definition database_of :: "table_name \<Rightarrow> string \<Rightarrow> string" where
  "database_of t selected = (if trim_space (tn_schema t) = [] then selected else tn_schema t)"

definition mysqlTableExistenceCheckForName :: "string \<Rightarrow> expectation \<Rightarrow> bool \<Rightarrow> table_name \<Rightarrow> existence_check" where
  "mysqlTableExistenceCheckForName selected expected opt t =
     \<lparr>ex_database = database_of t selected, ex_table = tn_name t, ex_expectation = expected, ex_optional = opt\<rparr>"

definition mysqlShadowCloneTableForName :: "string \<Rightarrow> bool \<Rightarrow> table_name \<Rightarrow> clone_table" where
  "mysqlShadowCloneTableForName selected required t =
     \<lparr>cl_database = database_of t selected, cl_table = tn_name t, cl_required = required\<rparr>"

definition option_list :: "'a option \<Rightarrow> 'a list" where
  "option_list v = (case v of None \<Rightarrow> [] | Some x \<Rightarrow> [x])"

definition column_refers :: "column_def list \<Rightarrow> table_name list" where
  "column_refers cols = concat (map (\<lambda>c. concat (map (option_list \<circ> co_refer) (cd_options c))) cols)"

definition constraint_refers :: "table_constraint list \<Rightarrow> table_name list" where
  "constraint_refers ks = concat (map (option_list \<circ> tc_refer) ks)"

definition mysqlCreateTableReferenceClones :: "create_table \<Rightarrow> string \<Rightarrow> clone_table list" where
  "mysqlCreateTableReferenceClones c selected =
     map (mysqlShadowCloneTableForName selected True) (column_refers (ct_cols c) @ constraint_refers (ct_constraints c))"

definition mysqlAlterTableReferenceClones :: "alter_spec list \<Rightarrow> string \<Rightarrow> clone_table list" where
  "mysqlAlterTableReferenceClones specs selected = map (mysqlShadowCloneTableForName selected True)
     (concat (map (\<lambda>s. column_refers (as_new_columns s) @ constraint_refers (option_list (as_constraint s))
        @ constraint_refers (as_new_constraints s)) specs))"

definition check_of_clone :: "clone_table \<Rightarrow> existence_check" where
  "check_of_clone c = \<lparr>ex_database = cl_database c, ex_table = cl_table c, ex_expectation = MustExist, ex_optional = False\<rparr>"

definition mysqlCreateTableReferenceExistenceChecks :: "create_table \<Rightarrow> string \<Rightarrow> existence_check list" where
  "mysqlCreateTableReferenceExistenceChecks c selected = map check_of_clone (mysqlCreateTableReferenceClones c selected)"

definition mysqlAlterTableReferenceExistenceChecks :: "alter_spec list \<Rightarrow> string \<Rightarrow> existence_check list" where
  "mysqlAlterTableReferenceExistenceChecks specs selected = map check_of_clone (mysqlAlterTableReferenceClones specs selected)"

fun mysqlDDLShadowCloneTables :: "mysql_stmt \<Rightarrow> string \<Rightarrow> string + clone_table list" where
  "mysqlDDLShadowCloneTables (CreateTableStmt c) selected =
     (if ct_table c = None then Inl ''CREATE TABLE target is empty''
      else Inr (map (mysqlShadowCloneTableForName selected True) (option_list (ct_refer_table c))
            @ mysqlCreateTableReferenceClones c selected))"
| "mysqlDDLShadowCloneTables (AlterTableStmt t specs) selected =
     (case t of None \<Rightarrow> Inl ''ALTER TABLE target is empty''
      | Some n \<Rightarrow> Inr (mysqlShadowCloneTableForName selected True n # mysqlAlterTableReferenceClones specs selected))"
| "mysqlDDLShadowCloneTables (DropTableStmt ts ifExists) selected =
     Inr (map (mysqlShadowCloneTableForName selected (\<not> ifExists)) ts)"
| "mysqlDDLShadowCloneTables (TruncateTableStmt t) selected =
     (case t of None \<Rightarrow> Inl ''TRUNCATE TABLE target is empty'' | Some n \<Rightarrow> Inr [mysqlShadowCloneTableForName selected True n])"
| "mysqlDDLShadowCloneTables (RenameTableStmt ps) selected =
     Inr (concat (map (\<lambda>(old, new). [mysqlShadowCloneTableForName selected True old, mysqlShadowCloneTableForName selected False new]) ps))"
| "mysqlDDLShadowCloneTables _ selected = Inr []"

fun mysqlDDLTableExistenceChecks :: "mysql_stmt \<Rightarrow> string \<Rightarrow> string + existence_check list" where
  "mysqlDDLTableExistenceChecks (CreateTableStmt c) selected =
     (case ct_table c of None \<Rightarrow> Inl ''CREATE TABLE target is empty''
      | Some n \<Rightarrow> Inr (mysqlTableExistenceCheckForName selected MustNotExist (ct_if_not_exists c) n
          # map (mysqlTableExistenceCheckForName selected MustExist False) (option_list (ct_refer_table c))
          @ mysqlCreateTableReferenceExistenceChecks c selected))"
| "mysqlDDLTableExistenceChecks (AlterTableStmt t specs) selected =
     (case t of None \<Rightarrow> Inl ''ALTER TABLE target is empty''
      | Some n \<Rightarrow> Inr (mysqlTableExistenceCheckForName selected MustExist False n
          # mysqlAlterTableReferenceExistenceChecks specs selected))"
| "mysqlDDLTableExistenceChecks (DropTableStmt ts ifExists) selected =
     Inr (map (mysqlTableExistenceCheckForName selected MustExist ifExists) ts)"
| "mysqlDDLTableExistenceChecks (TruncateTableStmt t) selected =
     (case t of None \<Rightarrow> Inl ''TRUNCATE TABLE target is empty''
      | Some n \<Rightarrow> Inr [mysqlTableExistenceCheckForName selected MustExist False n])"
| "mysqlDDLTableExistenceChecks (RenameTableStmt ps) selected =
     Inr (concat (map (\<lambda>(old, new). [mysqlTableExistenceCheckForName selected MustExist False old,
        mysqlTableExistenceCheckForName selected MustNotExist False new]) ps))"
| "mysqlDDLTableExistenceChecks _ selected = Inr []"

fun table_scoped :: "mysql_stmt \<Rightarrow> bool" where
  "table_scoped (CreateTableStmt c) = True"
| "table_scoped (AlterTableStmt t specs) = True"
| "table_scoped (DropTableStmt ts e) = True"
| "table_scoped (TruncateTableStmt t) = True"
| "table_scoped (RenameTableStmt ps) = True"
| "table_scoped _ = False"

definition isMySQLTableScopedDDL :: "statement \<Rightarrow> bool" where
  "isMySQLTableScopedDDL st = (case ps_ast st of MySQLNode n \<Rightarrow> table_scoped n | _ \<Rightarrow> False)"

section \<open>Existence of the tables\<close>

definition mysqlDDLMetadataKey :: "string \<Rightarrow> string \<Rightarrow> string" where
  "mysqlDDLMetadataKey db t = db @ [nul] @ t"

text \<open>The pairs of database and table the source is asked about, in order and once each.\<close>

fun metadata_targets :: "string list \<Rightarrow> (string \<times> string) list \<Rightarrow> (string \<times> string) list" where
  "metadata_targets seen [] = []"
| "metadata_targets seen ((db0, t0) # rest) =
     (let db = trim_space db0; t = trim_space t0; key = mysqlDDLMetadataKey db t
      in if db = [] \<or> key \<in> set seen then metadata_targets seen rest
         else (db, t) # metadata_targets (key # seen) rest)"

definition loadMySQLDDLSourceMetadata ::
    "servers \<Rightarrow> string \<Rightarrow> existence_check list \<Rightarrow> string + (string \<times> string) option \<times> (string \<times> bool) list" where
  "loadMySQLDDLSourceMetadata sv selected checks =
     (let hasSelected = list_ex (\<lambda>c. trim_space (ex_database c) = trim_space selected) checks;
          targets = metadata_targets [] (map (\<lambda>c. (ex_database c, ex_table c)) checks @ (if hasSelected then [] else [(selected, [])]))
      in if targets = [] then Inr (None, [])
         else case sv_metadata_error sv of Some e \<Rightarrow> Inl e
           | None \<Rightarrow> Inr
               (if selected \<in> set (map fst targets) then sv_schema sv selected else None,
                map (\<lambda>(db, t). (mysqlDDLMetadataKey db t, sv_has_table sv db t)) targets))"

definition known_table :: "(string \<times> bool) list \<Rightarrow> string \<Rightarrow> bool" where
  "known_table existence key = (case map_of existence key of Some b \<Rightarrow> b | None \<Rightarrow> False)"

fun validateMySQLDDLTableExistenceFromMetadata :: "existence_check list \<Rightarrow> (string \<times> bool) list \<Rightarrow> string option" where
  "validateMySQLDDLTableExistenceFromMetadata [] existence = None"
| "validateMySQLDDLTableExistenceFromMetadata (c # cs) existence =
     (if trim_space (ex_database c) = [] \<or> trim_space (ex_table c) = [] then Some ''table name is empty''
      else let known = known_table existence (mysqlDDLMetadataKey (ex_database c) (ex_table c))
        in if ex_expectation c = MustExist \<and> \<not> known \<and> \<not> ex_optional c then Some (''table '' @ quoted (ex_table c) @ '' does not exist'')
           else if ex_expectation c = MustNotExist \<and> known \<and> \<not> ex_optional c then Some (''table '' @ quoted (ex_table c) @ '' already exists'')
           else validateMySQLDDLTableExistenceFromMetadata cs existence)"

definition node_of :: "statement \<Rightarrow> mysql_stmt" where
  "node_of st = (case ps_ast st of MySQLNode n \<Rightarrow> n | _ \<Rightarrow> OtherStmt)"

text \<open>The checks of the statements that concern tables, by sequence number, or the first malformed one.\<close>

fun statement_checks :: "statement list \<Rightarrow> string \<Rightarrow> string + (nat \<times> existence_check list) list" where
  "statement_checks [] selected = Inr []"
| "statement_checks (st # sts) selected =
     (if \<not> isMySQLTableScopedDDL st then statement_checks sts selected
      else case mysqlDDLTableExistenceChecks (node_of st) selected of Inl e \<Rightarrow> Inl e
        | Inr cs \<Rightarrow> (case statement_checks sts selected of Inl e \<Rightarrow> Inl e | Inr rest \<Rightarrow> Inr ((ps_seq st, cs) # rest)))"

text \<open>
  The tables to copy for the statements whose checks hold, and the errors of the others; the map of checks is
  read by sequence number, so a repeated number has the checks of its last statement.
\<close>

definition checks_for :: "(nat \<times> existence_check list) list \<Rightarrow> nat \<Rightarrow> existence_check list" where
  "checks_for m seq = (case map_of (rev m) seq of None \<Rightarrow> [] | Some cs \<Rightarrow> cs)"

fun valid_clones :: "(nat \<times> existence_check list) list \<Rightarrow> (string \<times> bool) list \<Rightarrow> string \<Rightarrow> statement list \<Rightarrow>
    string + clone_table list \<times> (nat \<times> string) list" where
  "valid_clones checks existence selected [] = Inr ([], [])"
| "valid_clones checks existence selected (st # sts) =
     (case (if isMySQLTableScopedDDL st then validateMySQLDDLTableExistenceFromMetadata (checks_for checks (ps_seq st)) existence else None) of
        Some e \<Rightarrow> map_sum id (apsnd (Cons (ps_seq st, e))) (valid_clones checks existence selected sts)
      | None \<Rightarrow>
          (case mysqlDDLShadowCloneTables (node_of st) selected of Inl e \<Rightarrow> Inl e
           | Inr cs \<Rightarrow> map_sum id (apfst (append cs)) (valid_clones checks existence selected sts)))"

record shadow_plan =
  sp_clones :: "clone_table list"
  sp_errors :: "(nat \<times> string) list"
  sp_schema :: "(string \<times> string) option"
  sp_failed :: "string option"

definition failed_plan :: "string \<Rightarrow> shadow_plan" where
  "failed_plan e = \<lparr>sp_clones = [], sp_errors = [], sp_schema = None, sp_failed = Some e\<rparr>"

definition mysqlDDLShadowCloneTablesForValidStatements :: "servers \<Rightarrow> statement list \<Rightarrow> string \<Rightarrow> shadow_plan" where
  "mysqlDDLShadowCloneTablesForValidStatements sv sts selected =
     (case statement_checks sts selected of Inl e \<Rightarrow> failed_plan e
      | Inr checks \<Rightarrow>
          (case loadMySQLDDLSourceMetadata sv selected (concat (map snd checks)) of
             Inl e \<Rightarrow> \<lparr>sp_clones = [], sp_errors = map (\<lambda>st. (ps_seq st, ''check table exists failed: '' @ e)) (filter isMySQLTableScopedDDL sts),
                      sp_schema = None, sp_failed = None\<rparr>
           | Inr (info, existence) \<Rightarrow>
               (case valid_clones checks existence selected sts of Inl e \<Rightarrow> failed_plan e
                | Inr (clones, errors) \<Rightarrow>
                    \<lparr>sp_clones = clones, sp_errors = errors, sp_schema = info,
                     sp_failed = (if clones \<noteq> [] \<and> info = None then Some (''target database '' @ quoted selected @ '' does not exist'') else None)\<rparr>)))"

definition plan_error :: "shadow_plan \<Rightarrow> nat \<Rightarrow> string option" where
  "plan_error p seq = map_of (rev (sp_errors p)) seq"

section \<open>Rewriting\<close>

definition moved :: "string \<Rightarrow> table_name \<Rightarrow> table_name" where
  "moved db t = t\<lparr>tn_schema := db\<rparr>"

text \<open>The statement with its tables in another database, and the name of the database it names itself.\<close>

fun rewriteMySQLDDLForShadow :: "mysql_stmt \<Rightarrow> string \<Rightarrow> (mysql_stmt \<times> string) option" where
  "rewriteMySQLDDLForShadow (CreateTableStmt c) db = Some (CreateTableStmt (c\<lparr>ct_table := map_option (moved db) (ct_table c)\<rparr>), [])"
| "rewriteMySQLDDLForShadow (AlterTableStmt t specs) db = Some (AlterTableStmt (map_option (moved db) t) specs, [])"
| "rewriteMySQLDDLForShadow (DropTableStmt ts e) db = Some (DropTableStmt (map (moved db) ts) e, [])"
| "rewriteMySQLDDLForShadow (TruncateTableStmt t) db = Some (TruncateTableStmt (map_option (moved db) t), [])"
| "rewriteMySQLDDLForShadow (RenameTableStmt ps) db = Some (RenameTableStmt (map (map_prod (moved db) (moved db)) ps), [])"
| "rewriteMySQLDDLForShadow (AlterDatabaseStmt n) db = Some (AlterDatabaseStmt db, n)"
| "rewriteMySQLDDLForShadow (DropDatabaseStmt n) db = Some (DropDatabaseStmt db, n)"
| "rewriteMySQLDDLForShadow (CreateDatabaseStmt n) db = Some (CreateDatabaseStmt db, n)"
| "rewriteMySQLDDLForShadow _ db = None"

section \<open>Trial run\<close>

record shadow_state =
  ss_trace :: trace
  ss_tables :: "string option"

datatype trial = PrepareFailed string | ExecuteFailed string | TrialPassed

definition trial_of :: "string option \<Rightarrow> trial" where
  "trial_of e = (case e of None \<Rightarrow> TrialPassed | Some x \<Rightarrow> ExecuteFailed x)"

definition unsupported :: string where "unsupported = ''unsupported DDL object for shadow validation''"

definition try_table :: "servers \<Rightarrow> shadow_plan \<Rightarrow> string \<Rightarrow> nat \<Rightarrow> mysql_stmt \<Rightarrow> shadow_state \<Rightarrow> trial \<times> shadow_state" where
  "try_table sv p selected seq n s =
     (if selected = [] then (PrepareFailed ''database_name is required for table validation'', s)
      else case sp_failed p of Some e \<Rightarrow> (PrepareFailed e, s)
        | None \<Rightarrow> (case plan_error p seq of Some e \<Rightarrow> (ExecuteFailed e, s)
           | None \<Rightarrow>
               (case (case ss_tables s of Some db \<Rightarrow> (Inr db, ss_trace s)
                      | None \<Rightarrow> cloneMySQLDatabaseTablesToShadow sv selected (sp_clones p) (sp_schema p) (ss_trace s)) of
                  (Inl e, tr) \<Rightarrow> (PrepareFailed e, s\<lparr>ss_trace := tr\<rparr>)
                | (Inr db, tr) \<Rightarrow>
                    (case rewriteMySQLDDLForShadow n db of None \<Rightarrow> (PrepareFailed unsupported, \<lparr>ss_trace = tr, ss_tables = Some db\<rparr>)
                     | Some (n', x) \<Rightarrow> (case executeShadowDDL sv db (SendNode n') tr of
                         (e, tr') \<Rightarrow> (trial_of e, \<lparr>ss_trace = tr', ss_tables = Some db\<rparr>))))))"

definition try_database :: "servers \<Rightarrow> string \<Rightarrow> mysql_stmt \<Rightarrow> string \<Rightarrow> shadow_state \<Rightarrow> trial \<times> shadow_state" where
  "try_database sv selected n explicit s =
     (let source = (if explicit = [] then selected else explicit)
      in if source = [] then (PrepareFailed ''database_name is required for database validation'', s)
         else case cloneMySQLDatabaseToShadow sv source (ss_trace s) of
           (Inl e, tr) \<Rightarrow> (PrepareFailed e, s\<lparr>ss_trace := tr\<rparr>)
         | (Inr db, tr) \<Rightarrow>
             (case rewriteMySQLDDLForShadow n db of
                None \<Rightarrow> (PrepareFailed unsupported, s\<lparr>ss_trace := snd (send sv (SendDrop db) tr)\<rparr>)
              | Some (n', x) \<Rightarrow> (case executeShadowDDL sv db (SendNode n') tr of
                  (e, tr') \<Rightarrow> (trial_of e, s\<lparr>ss_trace := snd (send sv (SendDrop db) tr')\<rparr>))))"

definition try_create_database :: "servers \<Rightarrow> string \<Rightarrow> shadow_state \<Rightarrow> trial \<times> shadow_state" where
  "try_create_database sv explicit s =
     (if explicit = [] then (PrepareFailed ''CREATE DATABASE target name is empty'', s)
      else case sv_database_exists sv explicit of
        Inl e \<Rightarrow> (PrepareFailed (''check database exists failed: '' @ e), s)
      | Inr True \<Rightarrow> (ExecuteFailed (''database '' @ quoted explicit @ '' already exists''), s)
      | Inr False \<Rightarrow>
          let shadow = generateShadowDatabaseName ''shadow_create_db'' (sv_clock sv (ss_trace s))
          in case send sv (SendNode (CreateDatabaseStmt shadow)) (ss_trace s) of
               (Some e, tr) \<Rightarrow> (ExecuteFailed e, s\<lparr>ss_trace := tr\<rparr>)
             | (None, tr) \<Rightarrow> (TrialPassed, s\<lparr>ss_trace := snd (send sv (SendDrop shadow) tr)\<rparr>))"

definition prepareMySQLShadowValidation ::
    "servers \<Rightarrow> shadow_plan \<Rightarrow> string \<Rightarrow> statement \<Rightarrow> shadow_state \<Rightarrow> trial \<times> shadow_state" where
  "prepareMySQLShadowValidation sv p selected st s = (case node_of st of
     AlterDatabaseStmt n \<Rightarrow> try_database sv selected (node_of st) n s
   | DropDatabaseStmt n \<Rightarrow> try_database sv selected (node_of st) n s
   | CreateDatabaseStmt n \<Rightarrow> try_create_database sv n s
   | _ \<Rightarrow> if isMySQLTableScopedDDL st then try_table sv p selected (ps_seq st) (node_of st) s
         else (PrepareFailed unsupported, s))"

definition sanitizeMySQLShadowValidationError :: "string \<Rightarrow> string" where
  "sanitizeMySQLShadowValidationError e =
     (if contains (to_lower e) ''create shadow database failed:'' \<and> contains (to_lower e) ''access denied''
      then ''shadow validation is not available because the platform validation database privilege is not configured''
      else e)"

definition shadow_item :: "statement \<Rightarrow> string \<Rightarrow> string option \<Rightarrow> review_item" where
  "shadow_item st stage e = buildValidationReviewItem (ps_seq st) (ps_raw st) ''shadow_mysql'' (Some stage) (kind_name (ps_kind st))
     (inferDDLObjectType (ps_ast st)) 0 (case e of None \<Rightarrow> [] | Some x \<Rightarrow> [Plain (sanitizeMySQLShadowValidationError x)])"

fun trial_items :: "statement \<Rightarrow> trial \<Rightarrow> review_item list" where
  "trial_items st (PrepareFailed e) = [shadow_item st ''prepare'' (Some e)]"
| "trial_items st (ExecuteFailed e) = [shadow_item st ''prepare'' None, shadow_item st ''execute'' (Some e)]"
| "trial_items st TrialPassed = [shadow_item st ''prepare'' None, shadow_item st ''execute'' None]"

fun try_statements :: "servers \<Rightarrow> shadow_plan \<Rightarrow> string \<Rightarrow> statement list \<Rightarrow> shadow_state \<Rightarrow> review_item list \<times> shadow_state" where
  "try_statements sv p selected [] s = ([], s)"
| "try_statements sv p selected (st # sts) s =
     (case prepareMySQLShadowValidation sv p selected st s of (t, s1) \<Rightarrow>
        (case try_statements sv p selected sts s1 of (items, s2) \<Rightarrow> (trial_items st t @ items, s2)))"

definition runMySQLDDLShadowValidation :: "servers \<Rightarrow> statement list \<Rightarrow> string option \<Rightarrow> trace \<Rightarrow> review_item list \<times> trace" where
  "runMySQLDDLShadowValidation sv sts databaseName tr =
     (case sv_open sv of
        Some e \<Rightarrow> (buildBatchValidationErrorItems sts ''shadow_mysql'' (Some ''prepare'') ''ddl'' ''unknown''
                    (''open metadata connection failed: '' @ e), tr)
      | None \<Rightarrow>
          let selected = (case databaseName of None \<Rightarrow> [] | Some d \<Rightarrow> d);
              p = mysqlDDLShadowCloneTablesForValidStatements sv sts selected
          in case try_statements sv p selected sts \<lparr>ss_trace = tr, ss_tables = None\<rparr> of
               (items, s) \<Rightarrow> (items, case ss_tables s of None \<Rightarrow> ss_trace s
                 | Some db \<Rightarrow> snd (send sv (SendDrop db) (ss_trace s))))"

end
