(* ===== verification/Ticket_Submission.thy ===== *)
theory Ticket_Submission
  imports Shadow_Validation Ticket_Handlers
begin

text \<open>
  Submission of a ticket: the whole review \<open>runTicketSQLReviewWithType\<close> of \<open>internal/handler/ticket_review.go\<close>
  and the handlers \<open>ReviewSQL\<close> and \<open>Create\<close> of \<open>internal/handler/ticket.go\<close>.

  The record \<open>review_env\<close> holds what the review reads from outside: the type of the connection, the parsers of
  the two dialects, the stored rules, the snapshots of tables and the answers of the databases. Log entries
  and timings are left out, and the text of a refused review is not spelled out.
\<close>

section \<open>Review\<close>

record review_env =
  rv_conn_type :: "id64 \<Rightarrow> string + string option"
  rv_parser :: "dialect \<Rightarrow> string \<Rightarrow> (nat \<times> string) + statement list"
  rv_rules :: "review_rule list option"
  rv_reserved :: "string list"
  rv_snapshot :: "table_target \<Rightarrow> (string \<times> int \<times> int) option"
  rv_explain :: "string + (string \<Rightarrow> explain_reply)"
  rv_servers :: servers

definition bare :: "parsed_statement \<Rightarrow> statement" where
  "bare p = parsed_statement.extend p \<lparr>ps_ast = NoAST\<rparr>"

text \<open>A refusal carries the dialect and, for a syntax error, the number of the statement.\<close>

definition parseTicketStatements ::
    "review_env \<Rightarrow> id64 \<Rightarrow> string \<Rightarrow> dialect \<times> ((nat \<times> string) + statement list)" where
  "parseTicketStatements env conn content = (case rv_conn_type env conn of
     Inl e \<Rightarrow> (DialectGeneric, Inl (1, e))
   | Inr None \<Rightarrow> (DialectGeneric, Inl (1, ''db connection not found''))
   | Inr (Some ty) \<Rightarrow>
       let d = DialectFromDBType ty
       in (d, case d of DialectGeneric \<Rightarrow> Inr (map bare (parseGeneric content)) | _ \<Rightarrow> rv_parser env d content))"

definition buildSyntaxErrorReviewItems :: "nat \<times> string \<Rightarrow> string \<Rightarrow> review_item list" where
  "buildSyntaxErrorReviewItems e content =
     [buildParserErrorReviewItem (if fst e = 0 then 1 else fst e) (trim_space content) (Plain (snd e))]"

definition ticket_type_name :: "ticket_type \<Rightarrow> string" where
  "ticket_type_name tt = (case tt of DDL \<Rightarrow> ''ddl'' | DML \<Rightarrow> ''dml'' | RedisCommand \<Rightarrow> ''redis_command'' | SQLExport \<Rightarrow> ''sql_export''
     | SensitiveQueryAccess \<Rightarrow> ''sensitive_query_access'' | QueryAccess \<Rightarrow> ''query_access'' | OtherType s \<Rightarrow> s)"

definition expectedTicketKind :: "ticket_type \<Rightarrow> string" where
  "expectedTicketKind tt = (case tt of DDL \<Rightarrow> ''DDL'' | DML \<Rightarrow> ''DML'' | _ \<Rightarrow> ''matching'')"

definition kind_error :: "ticket_type \<Rightarrow> nat \<Rightarrow> statement_kind \<Rightarrow> string" where
  "kind_error tt seq k = ''statement '' @ nat_show seq @ '' is '' @ kind_name k @ '', but ticket_type='' @ ticket_type_name tt
     @ '' only allows '' @ expectedTicketKind tt @ '' statements''"

definition buildTicketKindReviewItems :: "ticket_type \<Rightarrow> statement list \<Rightarrow> policy_refusal \<Rightarrow> review_item list" where
  "buildTicketKindReviewItems tt sts e = (case e of
     TicketKind seq k \<Rightarrow> map (\<lambda>st. buildValidationReviewItem (ps_seq st) (ps_raw st) ''ticket_policy'' None (kind_name (ps_kind st))
         (inferReviewObjectType st) 0 [Plain (kind_error tt seq k)]) (filter (\<lambda>st. ps_seq st = seq) sts)
   | _ \<Rightarrow> [])"

text \<open>The stored rules as maps: of the rules that are enabled, and of all rules.\<close>

definition enabled_rule :: "review_rule list \<Rightarrow> string \<Rightarrow> bool" where
  "enabled_rule rules n = list_ex (\<lambda>r. rr_name r = n \<and> rr_enabled r) rules"

definition rule_severity :: "review_rule list \<Rightarrow> string \<Rightarrow> string" where
  "rule_severity rules n = (case find (\<lambda>r. rr_name r = n \<and> rr_enabled r) (rev rules) of None \<Rightarrow> [] | Some r \<Rightarrow> rr_severity r)"

definition row_threshold :: "review_rule list \<Rightarrow> int" where
  "row_threshold rules = foldl (\<lambda>n r. if rr_enabled r \<and> rr_name r = ''high_row_count'' then given (rr_threshold r) n else n)
     DefaultRowThreshold rules"

definition stored_rule :: "review_rule list \<Rightarrow> string \<Rightarrow> review_rule option" where
  "stored_rule rules n = find (\<lambda>r. rr_name r = n) (rev rules)"

text \<open>What is left of a text the parser does not accept: an object type with a rule of its own, or a syntax error.\<close>

definition review_unparsed :: "review_env \<Rightarrow> dialect \<Rightarrow> nat \<times> string \<Rightarrow> string \<Rightarrow> review_item list" where
  "review_unparsed env d e content =
     (let name = UnsupportedMySQLObjectRule content
      in case (if d = DialectMySQL \<and> name \<noteq> [] then Option.bind (rv_rules env) (\<lambda>rules. stored_rule rules name) else None) of
           Some r \<Rightarrow>
             if rr_enabled r then
               [buildValidationReviewItemWithStatus 1 (trim_space content) ''static_rule'' None ''create'' ''system'' 0
                  (configuredReviewStatus (rr_severity r)) (map (formatReviewIssue (rr_severity r)) (RunStaticChecks content (\<lambda>x. x = name)))]
             else buildSyntaxErrorReviewItems e content
         | None \<Rightarrow> buildSyntaxErrorReviewItems e content)"

definition rule_items :: "review_env \<Rightarrow> dialect \<Rightarrow> ticket_type \<Rightarrow> statement list \<Rightarrow> review_item list" where
  "rule_items env d tt sts = (case rv_rules env of None \<Rightarrow> []
     | Some rules \<Rightarrow>
         buildStaticValidationItems (rv_reserved env) sts (enabled_rule rules) (rule_severity rules)
         @ (if tt = DML \<and> d = DialectMySQL
            then runMySQLDMLExplainValidation (rv_explain env) sts (enabled_rule rules) (rule_severity rules) (row_threshold rules) else []))"

definition runTicketSQLReviewWithType ::
    "review_env \<Rightarrow> id64 \<Rightarrow> ticket_type \<Rightarrow> string \<Rightarrow> string option \<Rightarrow> trace \<Rightarrow> review_item list \<times> trace" where
  "runTicketSQLReviewWithType env conn tt content databaseName tr =
     (if tt = RedisCommand then
        (case parseRedisDatabaseIndex databaseName of
           Inl e \<Rightarrow> [buildValidationReviewItem 1 (trim_space content) ''redis_whitelist'' None ''redis_command'' ''redis_command'' 0 [Plain e]]
         | Inr i \<Rightarrow> runRedisCommandTicketReview content, tr)
      else case parseTicketStatements env conn content of
        (d, Inl e) \<Rightarrow> (review_unparsed env d e content, tr)
      | (d, Inr sts) \<Rightarrow>
          let items = buildParserReviewItems sts;
              meta = loadReviewTableMetadata (rv_snapshot env) d sts (case databaseName of None \<Rightarrow> [] | Some n \<Rightarrow> n)
          in case (if tt = DDL \<or> tt = DML then CheckTicketStatementKinds tt (map parsed_statement.truncate sts) else None) of
               Some e \<Rightarrow> (applyReviewTableMetadata (items @ buildTicketKindReviewItems tt sts e) meta, tr)
             | None \<Rightarrow>
                 let checked = items @ rule_items env d tt sts
                 in if tt = DDL \<and> d = DialectMySQL
                    then (case runMySQLDDLShadowValidation (rv_servers env) sts databaseName tr of
                            (shadow, tr') \<Rightarrow> (applyReviewTableMetadata (checked @ shadow) meta, tr'))
                    else (applyReviewTableMetadata checked meta, tr))"

section \<open>Handlers\<close>

datatype submit_op = SubScope | SubCreate | SubItems | SubDelete | SubResults

record access_rule_request =
  arr_effect :: access_effect
  arr_connection :: id64
  arr_database_pattern :: string
  arr_table_pattern :: string

record create_request =
  cr_title :: string
  cr_description :: "string option"
  cr_sql :: string
  cr_type :: ticket_type
  cr_conn :: "id64 option"
  cr_database :: "string option"
  cr_duration :: "int option"
  cr_scopes :: "ticket_scope list"
  cr_scope_mode :: "scope_mode option"
  cr_items :: "(string \<times> string option) list"
  cr_rules :: "access_rule_request list"

record desk =
  dk_world :: world
  dk_results :: "(id64 \<times> review_item) list"
  dk_trace :: trace

datatype submit_response = Submitted id64 | Reviewed bool "review_item list" | SubmitRefused nat string

definition nullable :: "string option \<Rightarrow> string" where
  "nullable v = (case v of None \<Rightarrow> [] | Some x \<Rightarrow> x)"

definition userCanAccessConnection :: "request \<Rightarrow> (submit_op \<Rightarrow> bool) \<Rightarrow> id64 \<Rightarrow> bool option" where
  "userCanAccessConnection q sf conn = (if sf SubScope then None
     else Some (conn \<in> set (GetEffectiveDBConnectionIDs (q_now q) (w_identity (q_workflow q)) (q_user q))))"

definition validateTicketConnectionType :: "review_env \<Rightarrow> ticket_type \<Rightarrow> id64 \<Rightarrow> string option" where
  "validateTicketConnectionType env tt conn = (case rv_conn_type env conn of
     Inl e \<Rightarrow> Some ''load db connection failed''
   | Inr None \<Rightarrow> Some ''db connection not found''
   | Inr (Some ty) \<Rightarrow> if validateTicketDBType tt ty then None else Some ''ticket type is not supported for this database type'')"

text \<open>The checks on a connection that both handlers make.\<close>

definition check_connection :: "review_env \<Rightarrow> request \<Rightarrow> (submit_op \<Rightarrow> bool) \<Rightarrow> ticket_type \<Rightarrow> id64 \<Rightarrow> submit_response option" where
  "check_connection env q sf tt conn = (case userCanAccessConnection q sf conn of
     None \<Rightarrow> Some (SubmitRefused 500 ''db scope check failed'')
   | Some False \<Rightarrow> Some (SubmitRefused 403 ''access to this connection is not allowed'')
   | Some True \<Rightarrow> map_option (SubmitRefused 422) (validateTicketConnectionType env tt conn))"

definition ReviewSQL ::
    "review_env \<Rightarrow> request \<Rightarrow> (submit_op \<Rightarrow> bool) \<Rightarrow> string \<Rightarrow> ticket_type \<Rightarrow> id64 option \<Rightarrow> string option \<Rightarrow> desk \<Rightarrow> submit_response \<times> desk" where
  "ReviewSQL env q sf content tt connID databaseName d =
     (case (if trim_space content = [] then None else connID) of
        None \<Rightarrow> (SubmitRefused 422 ''db_connection_id and sql_content are required'', d)
      | Some conn \<Rightarrow>
          if trim_space (nullable databaseName) = [] then (SubmitRefused 422 ''database_name is required'', d)
          else case check_connection env q sf tt conn of Some r \<Rightarrow> (r, d)
            | None \<Rightarrow> (case runTicketSQLReviewWithType env conn tt content databaseName (dk_trace d) of
                (items, tr) \<Rightarrow> (Reviewed (\<not> list_ex (\<lambda>i. ri_status i = ''error'') items) items, d\<lparr>dk_trace := tr\<rparr>)))"

definition minAccessDuration :: int where "minAccessDuration = 1"
definition maxQueryAccessDurationMinutes :: int where "maxQueryAccessDurationMinutes = 1576800"

definition normalizeQueryAccessDurationMinutes :: "int \<Rightarrow> int option" where
  "normalizeQueryAccessDurationMinutes v = (if v < minAccessDuration \<or> v > maxQueryAccessDurationMinutes then None else Some v)"

fun rule_connections :: "access_rule_request list \<Rightarrow> string + id64 list" where
  "rule_connections [] = Inr []"
| "rule_connections (r # rs) =
     (if arr_connection r = 0 then Inl ''query_access rule requires connection_id''
      else if trim_space (arr_database_pattern r) = [] \<or> trim_space (arr_table_pattern r) = [] then
        Inl ''query_access rule requires database_pattern and table_pattern''
      else if arr_effect r \<noteq> EffAllow \<and> arr_effect r \<noteq> EffDeny then Inl ''query_access rule effect must be allow or deny''
      else map_sum id (Cons (arr_connection r)) (rule_connections rs))"

fun item_connections :: "id64 \<Rightarrow> scope_mode \<Rightarrow> (string \<times> string option) list \<Rightarrow> string + id64 list" where
  "item_connections conn mode [] = Inr []"
| "item_connections conn mode ((db, t) # rest) =
     (if trim_space db = [] then Inl ''query_access item database_name is required''
      else if mode = ScopeTable \<and> trim_space (nullable t) = [] then Inl ''query_access table scope requires table_name''
      else map_sum id (Cons conn) (item_connections conn mode rest))"

definition dedupeUint64 :: "id64 list \<Rightarrow> id64 list" where
  "dedupeUint64 vs = rev (remdups (rev (filter (\<lambda>v. v \<noteq> 0) vs)))"

fun check_connections :: "request \<Rightarrow> (submit_op \<Rightarrow> bool) \<Rightarrow> id64 list \<Rightarrow> submit_response option" where
  "check_connections q sf [] = None"
| "check_connections q sf (c # cs) = (case userCanAccessConnection q sf c of
     None \<Rightarrow> Some (SubmitRefused 500 ''db scope check failed'')
   | Some False \<Rightarrow> Some (SubmitRefused 403 ''access to this connection is not allowed'')
   | Some True \<Rightarrow> check_connections q sf cs)"

text \<open>The checks of a request for query access: the refusal, or the connections it names.\<close>

definition access_connections :: "create_request \<Rightarrow> submit_response + id64 list" where
  "access_connections r =
     (case cr_duration r of None \<Rightarrow> Inl (SubmitRefused 422 ''query_access requires approved_duration_minutes'')
      | Some v \<Rightarrow>
          if v \<le> 0 then Inl (SubmitRefused 422 ''query_access requires approved_duration_minutes'')
          else if normalizeQueryAccessDurationMinutes v = None then
            Inl (SubmitRefused 422 ''approved_duration_minutes must be between 1 and 1576800'')
          else if cr_rules r \<noteq> [] then map_sum (SubmitRefused 422) id (rule_connections (cr_rules r))
          else case cr_conn r of None \<Rightarrow> Inl (SubmitRefused 422 ''query_access requires db_connection_id'')
            | Some conn \<Rightarrow>
                (case cr_scope_mode r of None \<Rightarrow> Inl (SubmitRefused 422 ''query_access requires scope_mode=database or table'')
                 | Some mode \<Rightarrow>
                     if cr_items r = [] then Inl (SubmitRefused 422 ''query_access requires items'')
                     else map_sum (SubmitRefused 422) id (item_connections conn mode (cr_items r))))"

definition access_items :: "create_request \<Rightarrow> id64 \<Rightarrow> access_item list" where
  "access_items r i =
     (if cr_rules r \<noteq> [] then
        map (\<lambda>x. \<lparr>ai_ticket_id = i, ai_connection_id = arr_connection x, ai_scope_mode = ScopeDatabase, ai_database_name = [],
               ai_table_name = None, ai_effect = arr_effect x, ai_database_pattern = trim_space (arr_database_pattern x),
               ai_table_pattern = trim_space (arr_table_pattern x)\<rparr>) (cr_rules r)
      else map (\<lambda>(db, t). \<lparr>ai_ticket_id = i, ai_connection_id = given (cr_conn r) 0, ai_scope_mode = given (cr_scope_mode r) ScopeDatabase,
               ai_database_name = trim_space db, ai_table_name = optionalTrimmedString (nullable t), ai_effect = EffAllow,
               ai_database_pattern = trim_space db, ai_table_pattern = given (optionalTrimmedString (nullable t)) ''*''\<rparr>) (cr_items r))"

definition reviewed_type :: "ticket_type \<Rightarrow> bool" where
  "reviewed_type tt = (tt = DDL \<or> tt = DML \<or> tt = RedisCommand)"

text \<open>The request with the values the checks put into it, or the refusal.\<close>

definition request_refusal :: "review_env \<Rightarrow> request \<Rightarrow> (submit_op \<Rightarrow> bool) \<Rightarrow> create_request \<Rightarrow> submit_response option" where
  "request_refusal env q sf r =
     (if cr_type r \<noteq> QueryAccess \<and> (cr_title r = [] \<or> cr_sql r = []) then Some (SubmitRefused 422 ''title and sql_content are required'')
      else if cr_type r = SQLExport \<or> cr_type r = SensitiveQueryAccess then
        Some (SubmitRefused 422 ''sql_export and sensitive_query_access tickets must be created from SQL Editor'')
      else if \<not> isGeneralTicketApplyType (cr_type r) then Some (SubmitRefused 422 ''invalid ticket_type'')
      else case Option.bind (cr_conn r) (check_connection env q sf (cr_type r)) of Some x \<Rightarrow> Some x
        | None \<Rightarrow> if reviewed_type (cr_type r) \<and> trim_space (nullable (cr_database r)) = [] then Some (SubmitRefused 422 ''database_name is required'')
                 else None)"

definition review_blocks :: "review_item list \<Rightarrow> bool" where
  "review_blocks items = list_ex (\<lambda>i. ri_status i = ''error'' \<and> list_ex (\<lambda>m. \<not> blank m) (ri_message i)) items"

definition completed_request :: "request \<Rightarrow> (submit_op \<Rightarrow> bool) \<Rightarrow> create_request \<Rightarrow> submit_response + create_request" where
  "completed_request q sf r =
     (if cr_type r \<noteq> QueryAccess then Inr r
      else case access_connections r of Inl x \<Rightarrow> Inl x
        | Inr conns \<Rightarrow>
            (case check_connections q sf (dedupeUint64 conns) of Some x \<Rightarrow> Inl x
             | None \<Rightarrow> Inr (r\<lparr>cr_conn := (case cr_conn r of Some c \<Rightarrow> Some c | None \<Rightarrow> (case conns of [] \<Rightarrow> None | c # _ \<Rightarrow> Some c)),
                 cr_title := (if trim_space (cr_title r) = [] then ''Query Access Request'' else cr_title r),
                 cr_sql := (if trim_space (cr_sql r) = [] then ''QUERY ACCESS REQUEST'' else cr_sql r)\<rparr>)))"

definition draft_ticket :: "id64 \<Rightarrow> create_request \<Rightarrow> ticket" where
  "draft_ticket user r = \<lparr>t_id = 0, t_ticket_no = [], t_title = cr_title r, t_description = cr_description r, t_sql_content = cr_sql r,
     t_type = cr_type r, t_contains_sensitive = None, t_db_connection_id = cr_conn r,
     t_database_name = optionalTrimmedString (nullable (cr_database r)), t_schema_name = None, t_status = PendingReview,
     t_submitter_id = user, t_reviewer_id = None, t_executor_id = None, t_review_comment = None, t_approved_at = None,
     t_review_rejected_at = None, t_pending_execution_at = None, t_execution_requested_at = None, t_execution_run_mode = None,
     t_dml_execution_mode = None, t_execution_rejected_at = None, t_withdrawn_at = None, t_rejection_reason = None,
     t_scheduled_at = None, t_started_at = None, t_completed_at = None, t_approved_duration_minutes = cr_duration r,
     t_approved_until = None, t_revoked_at = None, t_revoked_by = None, t_created_at = 0, t_updated_at = 0\<rparr>"

text \<open>
  The writes of a submission. A failure to store the requested access deletes the ticket again; a failure to
  store the results of the review does not. \<open>note\<close> is the comment of an automatic step.
\<close>

definition ReplaceReviewResults :: "id64 \<Rightarrow> review_item list \<Rightarrow> (id64 \<times> review_item) list \<Rightarrow> (id64 \<times> review_item) list" where
  "ReplaceReviewResults i items rows = filter (\<lambda>r. fst r \<noteq> i) rows @ map (Pair i) items"

definition finish_submit ::
    "request \<Rightarrow> (write_op \<Rightarrow> bool) \<Rightarrow> (submit_op \<Rightarrow> bool) \<Rightarrow> string \<Rightarrow> ticket \<Rightarrow> review_item list \<Rightarrow> desk \<Rightarrow> submit_response \<times> desk" where
  "finish_submit q fl sf note t items d =
     (if items \<noteq> [] \<and> sf SubResults then (SubmitRefused 500 ''persist ticket review results failed'', d)
      else let d1 = (if items = [] then d else d\<lparr>dk_results := ReplaceReviewResults (t_id t) items (dk_results d)\<rparr>)
        in case applyWorkflowAfterCreate q fl t (Some (q_user q)) note (emit (Audit ''ticket_submit'' (Some (q_user q)) (t_id t)) (dk_world d1)) of
             (ok, w) \<Rightarrow> if \<not> ok then (SubmitRefused 500 ''resolve ticket workflow failed'', d1\<lparr>dk_world := w\<rparr>)
               else (Submitted (t_id t), d1\<lparr>dk_world := emit (Publish (t_id t)) w\<rparr>))"

definition with_store :: "(store \<Rightarrow> store) \<Rightarrow> desk \<Rightarrow> desk" where
  "with_store f d = d\<lparr>dk_world := (dk_world d)\<lparr>wd_store := f (wd_store (dk_world d))\<rparr>\<rparr>"

definition store_request ::
    "request \<Rightarrow> (write_op \<Rightarrow> bool) \<Rightarrow> (submit_op \<Rightarrow> bool) \<Rightarrow> string \<Rightarrow> string \<Rightarrow> create_request \<Rightarrow> review_item list \<Rightarrow> desk \<Rightarrow> submit_response \<times> desk" where
  "store_request q fl sf ticketNo note r items d =
     (if sf SubCreate then (SubmitRefused 500 ''create ticket failed'', d)
      else case CreateWithScopes (q_now q) ticketNo (draft_ticket (q_user q) r) (cr_scopes r) (wd_store (dk_world d)) of
        (i, s1) \<Rightarrow>
          let d1 = with_store (\<lambda>_. s1) d; t = given (GetTicket s1 i) ((draft_ticket (q_user q) r)\<lparr>t_id := i\<rparr>)
          in if cr_type r = QueryAccess then
               (case (if sf SubItems then (False, s1) else CreateTicketItems i (access_items r i) s1) of
                  (False, s2) \<Rightarrow> (SubmitRefused 500 ''persist query access ticket items failed'',
                     with_store (\<lambda>_. if sf SubDelete then s2 else Delete i s2) d1)
                | (True, s2) \<Rightarrow> finish_submit q fl sf note t items (with_store (\<lambda>_. s2) d1))
             else finish_submit q fl sf note t items d1)"

definition Create ::
    "review_env \<Rightarrow> request \<Rightarrow> (write_op \<Rightarrow> bool) \<Rightarrow> (submit_op \<Rightarrow> bool) \<Rightarrow> string \<Rightarrow> string \<Rightarrow> create_request \<Rightarrow> desk \<Rightarrow> submit_response \<times> desk" where
  "Create env q fl sf ticketNo note r d =
     (case request_refusal env q sf r of Some x \<Rightarrow> (x, d)
      | None \<Rightarrow>
          (case (case (if reviewed_type (cr_type r) then cr_conn r else None) of
                   None \<Rightarrow> ([], dk_trace d)
                 | Some conn \<Rightarrow> runTicketSQLReviewWithType env conn (cr_type r) (cr_sql r) (cr_database r) (dk_trace d)) of
             (items, tr) \<Rightarrow>
               let d1 = d\<lparr>dk_trace := tr\<rparr>
               in if review_blocks items then (SubmitRefused 422 ''SQL review failed'', d1)
                  else case completed_request q sf r of Inl x \<Rightarrow> (x, d1)
                    | Inr r1 \<Rightarrow> store_request q fl sf ticketNo note r1 items d1))"

end
