(* ===== verification/Sql_Review_Laws.thy ===== *)
theory Sql_Review_Laws
  imports Sql_Review
begin

text \<open>
  Laws of the SQL review: leading comments do not change what a statement is taken for, what the plan of a
  statement makes of its review item, and which tables are shown for a statement.
\<close>

section \<open>Comments do not hide an object\<close>

lemma strip_code_before: "strip_from InCode p cs = strip_from InCode p' cs"
  by (cases cs) simp_all

fun no_close :: "string \<Rightarrow> bool" where
  "no_close [] = True"
| "no_close (c # cs) = (\<not> (c = CHR ''*'' \<and> starts (CHR ''/'') cs) \<and> no_close cs)"

text \<open>The text of a block comment: nothing in it, taken with the end mark, closes it earlier.\<close>

lemma strip_block:
  assumes "no_close (body @ ''*'')"
  shows "strip_from InBlockComment p (body @ ''*/'' @ rest) = CHR '' '' # strip_from InCode p' rest"
  using assms
proof (induction body arbitrary: p)
  case Nil then show ?case using strip_code_before [of "Some (CHR ''/'')" rest p'] by simp
next
  case (Cons c cs)
  have "starts (CHR ''/'') (cs @ ''*/'' @ rest) = starts (CHR ''/'') (cs @ ''*'')" by (cases cs) simp_all
  with Cons show ?case by auto
qed

lemma fields_space: "Go_Prelude.fields (CHR '' '' # s) = Go_Prelude.fields s"
  by (simp add: Go_Prelude.fields_def)

lemma leading_comment:
  assumes "no_close (body @ ''*'')"
  shows "leadingSQLKeywords (''/*'' @ body @ ''*/'' @ sql) n = leadingSQLKeywords sql n"
proof -
  have "strip_from InCode None (''/*'' @ body @ ''*/'' @ sql) = CHR '' '' # strip_from InCode None sql"
    using strip_block [OF assms, of "Some (CHR ''*'')" sql None] by simp
  then show ?thesis
    by (simp add: leadingSQLKeywords_def stripSQLCommentsAndLiterals_def to_upper_def fields_space upper_char_def)
qed

section \<open>EXPLAIN\<close>

lemma explain_rows_acc:
  "explain_rows cols threshold rows r =
     \<lparr>er_issues = er_issues r @ concat (map (explain_row cols threshold) rows),
      er_max_rows = fold max (List.map_filter (\<lambda>v. explainIntVal cols v ''rows'') rows) (er_max_rows r)\<rparr>"
  by (induction rows arbitrary: r)
    (auto simp: explain_row_def List.map_filter_simps max.commute split: option.splits)

lemma fold_max: "fold max xs (a::int) = Max (set (a # xs))"
  using Max.set_eq_fold [of a xs] by simp

lemma foldl_strongest:
  assumes "s \<in> {''pass'', ''warn'', ''error''}"
  shows "foldl (\<lambda>s i. strongestReviewStatus s (configuredReviewStatus (severity (ei_kind i)))) s found = ''error'' \<longleftrightarrow>
     s = ''error'' \<or> (\<exists>i \<in> set found. severity (ei_kind i) \<noteq> ''warning'')"
  using assms
proof (induction found arbitrary: s)
  case (Cons i rest)
  have "strongestReviewStatus s (configuredReviewStatus (severity (ei_kind i))) \<in> {''pass'', ''warn'', ''error''}"
    by (simp add: strongestReviewStatus_def)
  from Cons.IH [OF this] Cons.prems show ?case by (auto simp: configuredReviewStatus_def)
qed simp

definition estimates :: "string list \<Rightarrow> explain_value list list \<Rightarrow> (string \<times> int) list" where
  "estimates cols rows = List.map_filter (\<lambda>v. map_option (Pair (explainStrVal cols v ''type'')) (explainIntVal cols v ''rows'')) rows"

lemma row_kinds:
  "(\<exists>i \<in> set (explain_row cols threshold v). P (ei_kind i)) \<longleftrightarrow> (\<exists>n. explainIntVal cols v ''rows'' = Some n \<and>
     (explainStrVal cols v ''type'' = ''ALL'' \<and> P ''full_table_scan'' \<or> n > threshold \<and> P ''high_row_count''))"
  by (cases "explainIntVal cols v ''rows''") (auto simp: explain_row_def)

lemma in_estimates: "(ty, n) \<in> set (estimates cols rows) \<longleftrightarrow>
    (\<exists>v \<in> set rows. explainIntVal cols v ''rows'' = Some n \<and> ty = explainStrVal cols v ''type'')"
  by (auto simp: estimates_def List.map_filter_def image_iff)

lemma issue_kinds:
  "(\<exists>i \<in> set (concat (map (explain_row cols threshold) rows)). P (ei_kind i)) \<longleftrightarrow>
     (\<exists>(ty, n) \<in> set (estimates cols rows). ty = ''ALL'' \<and> P ''full_table_scan'' \<or> n > threshold \<and> P ''high_row_count'')"
proof -
  have "(\<exists>i \<in> set (concat (map (explain_row cols threshold) rows)). P (ei_kind i)) \<longleftrightarrow>
      (\<exists>v \<in> set rows. \<exists>i \<in> set (explain_row cols threshold v). P (ei_kind i))" by auto
  also have "\<dots> \<longleftrightarrow> (\<exists>ty n. (ty, n) \<in> set (estimates cols rows) \<and> (ty = ''ALL'' \<and> P ''full_table_scan'' \<or> n > threshold \<and> P ''high_row_count''))"
    unfolding row_kinds in_estimates by blast
  finally show ?thesis by auto
qed

text \<open>
  The verdict on the plan of a statement. The item records the largest estimate of the plan, and it is an
  error exactly if a step of the plan scans a whole table, or is estimated above the threshold, and the rule for
  it is enabled with a severity other than \<open>warning\<close>.
\<close>

theorem explain_verdict:
  assumes "plan (''EXPLAIN '' @ ps_raw st) = ExplainRows cols rows"
  shows "ri_scan_rows (explain_item plan rules severity threshold st) = Max (set (0 # map snd (estimates cols rows))) \<and>
     (ri_status (explain_item plan rules severity threshold st) = ''error'' \<longleftrightarrow>
       (\<exists>(ty, n) \<in> set (estimates cols rows).
          ty = ''ALL'' \<and> rules ''full_table_scan'' \<and> severity ''full_table_scan'' \<noteq> ''warning'' \<or>
          n > threshold \<and> rules ''high_row_count'' \<and> severity ''high_row_count'' \<noteq> ''warning''))"
proof -
  let ?r = "explain_rows cols threshold rows \<lparr>er_issues = [], er_max_rows = 0\<rparr>"
  have chk: "CheckExplainWithStats plan (ps_raw st) threshold = Inr ?r"
    using assms by (simp add: CheckExplainWithStats_def)
  have "List.map_filter (\<lambda>v. explainIntVal cols v ''rows'') rows = map snd (estimates cols rows)"
    by (induction rows) (auto simp: estimates_def List.map_filter_simps split: option.splits)
  then have "er_max_rows ?r = Max (set (0 # map snd (estimates cols rows)))" by (simp add: explain_rows_acc fold_max)
  moreover have "ri_status (explain_item plan rules severity threshold st) = ''error'' \<longleftrightarrow>
      (\<exists>i \<in> set (concat (map (explain_row cols threshold) rows)). rules (ei_kind i) \<and> severity (ei_kind i) \<noteq> ''warning'')"
    using foldl_strongest [of "''pass''" severity "filter (\<lambda>i. rules (ei_kind i)) (er_issues ?r)"]
    by (simp add: explain_item_def chk Let_def buildValidationReviewItemWithStatus_def explain_rows_acc)
      blast
  moreover have "ri_scan_rows (explain_item plan rules severity threshold st) = er_max_rows ?r"
    by (simp add: explain_item_def chk Let_def buildValidationReviewItemWithStatus_def)
  ultimately show ?thesis
    unfolding issue_kinds [where P = "\<lambda>k. rules k \<and> severity k \<noteq> ''warning''"] by simp
qed

theorem explain_verdict_witness:
  "let st = \<lparr>ps_seq = 1, ps_raw = ''delete from t'', ps_normalized = [], ps_kind = KindDelete, ps_ast = NoAST\<rparr>;
       plan = (\<lambda>_. ExplainRows [''table'', ''type'', ''rows''] [[EVText ''t'', EVText ''ALL'', EVText ''20''], [EVText ''u'', EVText ''ref'', EVNull]])
   in ri_status (explain_item plan (\<lambda>_. True) (\<lambda>_. ''error'') 100 st) = ''error'' \<and>
      ri_scan_rows (explain_item plan (\<lambda>_. True) (\<lambda>_. ''error'') 100 st) = 20"
proof -
  let ?rows = "[[EVText ''t'', EVText ''ALL'', EVText ''20''], [EVText ''u'', EVText ''ref'', EVNull]]"
  have e: "estimates [''table'', ''type'', ''rows''] ?rows = [(''ALL'', 20)]" by code_simp
  show ?thesis
    using explain_verdict [where plan = "\<lambda>_. ExplainRows [''table'', ''type'', ''rows''] ?rows" and rows = ?rows and
        cols = "[''table'', ''type'', ''rows'']" and rules = "\<lambda>_. True" and severity = "\<lambda>_. ''error''" and threshold = 100]
    by (simp add: e)
qed

text \<open>A step whose estimate cannot be read is not reported, even if it scans the whole table.\<close>

lemma unreadable_estimate_skipped:
  "explain_row [''type'', ''rows''] 100 [EVText ''ALL'', EVUint 9223372036854775808] = []"
proof -
  have "cell [''type'', ''rows''] [EVText ''ALL'', EVUint 9223372036854775808] ''rows'' = EVUint 9223372036854775808"
    by (simp add: cell_def to_lower_def lower_char_def)
  then show ?thesis by (simp add: explain_row_def explainIntVal_def max_int64_def)
qed

section \<open>Tables\<close>

lemma dedupe_targets_keys:
  "distinct (map target_key (dedupe_targets seen ts)) \<and> set (map target_key (dedupe_targets seen ts)) \<inter> set seen = {} \<and>
   set (map target_key (dedupe_targets seen ts)) \<union> set seen =
     target_key ` trimmed_target ` {t \<in> set ts. \<not> incomplete (trimmed_target t)} \<union> set seen"
proof (induction ts arbitrary: seen)
  case (Cons t ts)
  let ?x = "trimmed_target t"
  show ?case
  proof (cases "incomplete ?x \<or> target_key ?x \<in> set seen")
    case True
    then have "dedupe_targets seen (t # ts) = dedupe_targets seen ts" by (simp add: Let_def)
    with Cons.IH [of seen] True show ?thesis by auto
  next
    case False
    then have "dedupe_targets seen (t # ts) = ?x # dedupe_targets (target_key ?x # seen) ts" by (simp add: Let_def)
    with Cons.IH [of "target_key ?x # seen"] False show ?thesis by auto
  qed
qed simp

text \<open>
  The tables shown for a statement: every complete table of the statement once, with case ignored.
\<close>

lemma review_tables_complete:
  "distinct (map target_key (dedupeReviewTableTargets ts)) \<and>
   set (map target_key (dedupeReviewTableTargets ts)) = target_key ` trimmed_target ` {t \<in> set ts. \<not> incomplete (trimmed_target t)}"
  using dedupe_targets_keys [of "[]" ts] by (simp add: dedupeReviewTableTargets_def)

end
