(* ===== verification/Ticket_Submission_Laws.thy ===== *)
theory Ticket_Submission_Laws
  imports Ticket_Submission Sql_Review_Laws Ticket_Handler_Laws
begin

text \<open>
  Laws of the submission of tickets: what the SQL of a submitted ticket has passed, and which connections a
  submitted request for query access may name.
\<close>

section \<open>Blocking items\<close>

lemma review_blocks_append [simp]: "review_blocks (a @ b) \<longleftrightarrow> review_blocks a \<or> review_blocks b"
  by (simp add: review_blocks_def)

lemma review_blocks_metadata [simp]: "review_blocks (applyReviewTableMetadata items m) = review_blocks items"
  by (induction items) (simp_all add: review_blocks_def applyReviewTableMetadata_def Let_def)

text \<open>The static rules block exactly the statements that violate an enabled rule that is not a warning.\<close>

lemma static_blocks_iff:
  "review_blocks (buildStaticValidationItems reserved sts rules severity) \<longleftrightarrow>
     (\<exists>st \<in> set sts. \<exists>n \<in> set staticRuleNames. rules n \<and> violates reserved st n \<and> severity n \<noteq> ''warning'')"
proof -
  have item: "(case static_status reserved rules severity st staticRuleNames (''pass'', []) of (status, issues) \<Rightarrow>
        status = ''error'' \<and> list_ex (\<lambda>m. \<not> blank m) issues) \<longleftrightarrow>
      (\<exists>n \<in> set staticRuleNames. rules n \<and> violates reserved st n \<and> severity n \<noteq> ''warning'')" for st
  proof -
    have "list_ex (\<lambda>m. \<not> blank m) (map (formatReviewIssue (severity n)) (RunStaticChecksParsed reserved st (\<lambda>x. x = n)))"
      if "violates reserved st n" for n
      using that by (cases "RunStaticChecksParsed reserved st (\<lambda>x. x = n)") (simp_all add: violates_def formatReviewIssue_def)
    then show ?thesis
      by (auto simp: static_status_acc status_of_rules_def Let_def list_ex_iff strongestReviewStatus_def)
  qed
  show ?thesis
    unfolding item [symmetric]
    by (auto simp: review_blocks_def buildStaticValidationItems_def list_ex_iff buildValidationReviewItemWithStatus_def split: prod.splits)
qed

lemma kind_error_not_blank: "\<not> blank (Plain (kind_error tt seq k))"
  by (simp add: kind_error_def trim_space_def is_space_def)

lemma kind_items_block:
  assumes "seq \<in> set (map ps_seq sts)"
  shows "review_blocks (buildTicketKindReviewItems tt sts (TicketKind seq k))"
  using assms kind_error_not_blank [of tt seq k]
  by (auto simp: review_blocks_def buildTicketKindReviewItems_def list_ex_iff buildValidationReviewItem_def
      buildValidationReviewItemWithStatus_def)

lemma ticket_kinds_seq:
  "ticket_kinds tt mutation ps = Some e \<Longrightarrow> \<exists>seq k. e = TicketKind seq k \<and> (seq = 1 \<or> seq \<in> set (map ps_seq ps))"
  by (induction tt mutation ps rule: ticket_kinds.induct) (auto split: if_splits)

lemma seq_truncate [simp]: "ps_seq (parsed_statement.truncate st) = ps_seq st"
  by (simp add: parsed_statement.truncate_def)

lemma kinds_block:
  assumes "CheckTicketStatementKinds tt (map parsed_statement.truncate sts) = Some e" and "1 \<in> set (map ps_seq sts)"
  shows "review_blocks (buildTicketKindReviewItems tt sts e)"
proof -
  from ticket_kinds_seq [OF assms(1) [unfolded CheckTicketStatementKinds_def]] obtain seq k
    where e: "e = TicketKind seq k" and "seq = 1 \<or> seq \<in> set (map ps_seq (map parsed_statement.truncate sts))" by blast
  then have "seq \<in> set (map ps_seq sts)" using assms(2) by (auto simp: comp_def)
  with e show ?thesis by (simp add: kind_items_block)
qed

section \<open>What a submitted ticket has passed\<close>

lemma Create_Submitted:
  assumes "Create env q fl sf no note r d = (Submitted i, d')"
  shows "request_refusal env q sf r = None"
    and "reviewed_type (cr_type r) \<Longrightarrow> cr_conn r = Some c \<Longrightarrow>
      \<not> review_blocks (fst (runTicketSQLReviewWithType env c (cr_type r) (cr_sql r) (cr_database r) (dk_trace d)))"
    and "\<exists>r1 items tr. completed_request q sf r = Inr r1 \<and> store_request q fl sf no note r1 items (d\<lparr>dk_trace := tr\<rparr>) = (Submitted i, d')"
proof -
  have none: "request_refusal env q sf r = None"
  proof (cases "request_refusal env q sf r")
    case (Some x)
    then have "x = Submitted i" using assms by (simp add: Create_def)
    with Some show ?thesis
      by (auto simp: request_refusal_def check_connection_def split: if_splits option.splits bool.splits bind_splits)
  qed
  obtain items tr where rv: "(case (if reviewed_type (cr_type r) then cr_conn r else None) of
                   None \<Rightarrow> ([], dk_trace d)
                 | Some conn \<Rightarrow> runTicketSQLReviewWithType env conn (cr_type r) (cr_sql r) (cr_database r) (dk_trace d)) = (items, tr)"
    by fastforce
  note def = assms [unfolded Create_def none rv option.case prod.case Let_def]
  then have clear: "\<not> review_blocks items" by (auto split: if_splits)
  show "request_refusal env q sf r = None" by (rule none)
  show "\<not> review_blocks (fst (runTicketSQLReviewWithType env c (cr_type r) (cr_sql r) (cr_database r) (dk_trace d)))"
    if "reviewed_type (cr_type r)" "cr_conn r = Some c" using clear rv that by simp
  show "\<exists>r1 items tr. completed_request q sf r = Inr r1 \<and> store_request q fl sf no note r1 items (d\<lparr>dk_trace := tr\<rparr>) = (Submitted i, d')"
  proof (cases "completed_request q sf r")
    case (Inl x)
    then have "x = Submitted i" using def clear by simp
    moreover have "y \<noteq> Submitted i" if "check_connections q sf cs = Some y" for cs y
      using that by (induction cs) (auto split: option.splits bool.splits)
    moreover have "access_connections r \<noteq> Inl (Submitted i)"
      by (auto simp: access_connections_def split: option.splits if_splits sum.splits) (auto simp: map_sum_def split: sum.splits)
    ultimately show ?thesis using Inl by (auto simp: completed_request_def split: if_splits sum.splits option.splits)
  next
    case (Inr r1) with def clear show ?thesis by auto
  qed
qed


lemma unparsed_blocks:
  assumes "\<not> review_blocks (review_unparsed env dl e content)" and "trim_space (snd e) \<noteq> []"
  shows "dl = DialectMySQL \<and> (\<exists>rules rule. rv_rules env = Some rules \<and>
     stored_rule rules (UnsupportedMySQLObjectRule content) = Some rule \<and> rr_enabled rule \<and> rr_severity rule = ''warning'')"
proof -
  have bad: "review_blocks (buildSyntaxErrorReviewItems e content)"
    using assms(2) by (simp add: review_blocks_def buildSyntaxErrorReviewItems_def buildParserErrorReviewItem_def)
  let ?n = "UnsupportedMySQLObjectRule content"
  obtain rules rule where rule: "dl = DialectMySQL" "?n \<noteq> []" "rv_rules env = Some rules" "stored_rule rules ?n = Some rule" "rr_enabled rule"
    using assms(1) bad by (auto simp: review_unparsed_def Let_def split: if_splits option.splits bind_splits)
  have "RunStaticChecks content (\<lambda>x. x = ?n) \<noteq> []" using rule(2) by (simp add: RunStaticChecks_def Let_def)
  then have "list_ex (\<lambda>m. \<not> blank m) (map (formatReviewIssue (rr_severity rule)) (RunStaticChecks content (\<lambda>x. x = ?n)))"
    by (cases "RunStaticChecks content (\<lambda>x. x = ?n)") (simp_all add: formatReviewIssue_def)
  with assms(1) rule have "rr_severity rule = ''warning''"
    by (auto simp: review_unparsed_def Let_def review_blocks_def buildValidationReviewItemWithStatus_def configuredReviewStatus_def split: if_splits)
  with rule show ?thesis by blast
qed



section \<open>Requests for query access\<close>

definition requests_of :: "world \<Rightarrow> access_request list" where
  "requests_of w = s_access_requests (wd_store w)"

lemma requests_simps [simp]:
  "requests_of (emit e w) = requests_of w"
  "s_access_requests (SaveWorkflowSnapshot now i r s) = s_access_requests s"
  "s_access_requests (snd (UpdateStatus now i a b who c rej s)) = s_access_requests s"
  "s_access_requests (snd (StartExecution now i u m dm s)) = s_access_requests s"
  by (simp_all add: requests_of_def emit_def SaveWorkflowSnapshot_def UpdateStatus_def StartExecution_def touched_def Let_def)

lemma requests_write_store:
  assumes "\<And>s. s_access_requests (snd (f s)) = s_access_requests s" and "write_store fl op f w = (ok, w')"
  shows "requests_of w' = requests_of w"
  using assms by (auto simp: write_store_def requests_of_def split: if_splits prod.splits) (metis snd_conv)

lemma requests_move:
  "moveApprovedTicketToPendingExecution q fl t actor c w = (ok, w') \<Longrightarrow> requests_of w' = requests_of w"
  unfolding moveApprovedTicketToPendingExecution_def by (auto split: prod.splits dest!: requests_write_store [rotated])

lemma requests_start:
  "startWorkflowAutoExecution q fl t actor w = (ok, w') \<Longrightarrow> requests_of w' = requests_of w"
  unfolding startWorkflowAutoExecution_def by (auto split: prod.splits if_splits dest!: requests_write_store [rotated])

lemma requests_finish:
  "finishNoApprovalWorkflow q fl t actor r c w = (ok, w') \<Longrightarrow> requests_of w' = requests_of w"
  unfolding finishNoApprovalWorkflow_def Let_def
  by (auto split: if_splits prod.splits bool.splits dest!: requests_move requests_start)

lemma requests_apply:
  "applyWorkflowAfterCreate q fl t actor note w = (ok, w') \<Longrightarrow> requests_of w' = requests_of w"
  unfolding applyWorkflowAfterCreate_def Let_def
  by (auto simp: always_def split: if_splits prod.splits option.splits dest!: requests_write_store [rotated] requests_finish)

lemma requests_submit:
  assumes "finish_submit q fl sf note t items d = (r, d')"
  shows "requests_of (dk_world d') = requests_of (dk_world d) \<and> (\<forall>i. r = Submitted i \<longrightarrow> i = t_id t)"
  using assms unfolding finish_submit_def Let_def by (auto split: if_splits prod.splits dest!: requests_apply)

lemma items_stored:
  "CreateTicketItems i items s = (ok, s') \<Longrightarrow> a \<in> set (s_access_requests s') \<Longrightarrow>
   a \<in> set (s_access_requests s) \<or> aq_ticket_id a = i \<and> aq_connection_id a \<in> ai_connection_id ` set items"
proof (induction i items s rule: CreateTicketItems.induct)
  case (2 i item items s)
  have "ai_connection_id (normalizeQueryAccessItem item) = ai_connection_id item"
    by (simp add: normalizeQueryAccessItem_def Let_def)
  with 2 show ?case by (fastforce simp: Let_def split: if_splits)
qed simp

lemma rule_connections_all: "rule_connections rs = Inr cs \<Longrightarrow> cs = map arr_connection rs \<and> 0 \<notin> set cs"
  by (induction rs arbitrary: cs) (auto split: if_splits simp: map_sum_def split: sum.splits)

lemma item_connections_all: "item_connections c mode its = Inr cs \<Longrightarrow> cs = map (\<lambda>_. c) its"
  by (induction c mode its arbitrary: cs rule: item_connections.induct) (auto split: if_splits simp: map_sum_def split: sum.splits)

lemma access_items_connections:
  assumes "access_connections r = Inr cs"
  shows "ai_connection_id ` set (access_items r i) \<subseteq> set cs \<and> (0 \<in> set cs \<longrightarrow> cr_conn r = Some 0) \<and>
    (\<exists>v. cr_duration r = Some v \<and> minAccessDuration \<le> v \<and> v \<le> maxQueryAccessDurationMinutes)"
proof -
  obtain v where v: "cr_duration r = Some v" "minAccessDuration \<le> v" "v \<le> maxQueryAccessDurationMinutes"
    using assms by (auto simp: access_connections_def normalizeQueryAccessDurationMinutes_def split: option.splits if_splits)
  show ?thesis
  proof (cases "cr_rules r = []")
    case False
    then have "rule_connections (cr_rules r) = Inr cs"
      using assms v(1) by (auto simp: access_connections_def map_sum_def split: if_splits sum.splits)
    with rule_connections_all [OF this] False v show ?thesis by (auto simp: access_items_def)
  next
    case True
    then obtain c mode where c: "cr_conn r = Some c" "item_connections c mode (cr_items r) = Inr cs"
      using assms v(1) by (auto simp: access_connections_def map_sum_def split: if_splits option.splits sum.splits)
    with item_connections_all [OF c(2)] True v show ?thesis
      by (auto simp: access_items_def given_def split: prod.splits if_splits)
  qed
qed

lemma check_connections_None:
  "check_connections q sf cs = None \<Longrightarrow> c \<in> set cs \<Longrightarrow>
   c \<in> set (GetEffectiveDBConnectionIDs (q_now q) (w_identity (q_workflow q)) (q_user q))"
  by (induction cs) (auto simp: userCanAccessConnection_def split: option.splits bool.splits if_splits)

text \<open>
  C37: nobody requests access beyond his connections. When a request for query access is submitted, every
  connection it asks for is one its submitter may use, and the requested duration is within the bounds.
\<close>

theorem access_request_in_scope:
  assumes "Create env q fl sf no note r d = (Submitted i, d')" and "cr_type r = QueryAccess"
  shows "(\<exists>v. cr_duration r = Some v \<and> minAccessDuration \<le> v \<and> v \<le> maxQueryAccessDurationMinutes) \<and>
    (\<forall>a \<in> set (s_access_requests (wd_store (dk_world d'))). a \<in> set (s_access_requests (wd_store (dk_world d))) \<or>
       aq_ticket_id a = i \<and> aq_connection_id a \<in> set (GetEffectiveDBConnectionIDs (q_now q) (w_identity (q_workflow q)) (q_user q)))"
proof -
  let ?ok = "set (GetEffectiveDBConnectionIDs (q_now q) (w_identity (q_workflow q)) (q_user q))"
  from Create_Submitted(3) [OF assms(1)] obtain r1 items tr where c: "completed_request q sf r = Inr r1"
    and st: "store_request q fl sf no note r1 items (d\<lparr>dk_trace := tr\<rparr>) = (Submitted i, d')" by blast
  from c assms(2) obtain cs where cs: "access_connections r = Inr cs" "check_connections q sf (dedupeUint64 cs) = None"
    and r1: "cr_type r1 = QueryAccess" "cr_rules r1 = cr_rules r" "cr_items r1 = cr_items r" "cr_scope_mode r1 = cr_scope_mode r"
      "cr_conn r = None \<or> cr_conn r1 = cr_conn r"
    by (auto simp: completed_request_def split: sum.splits option.splits)
  have zero: "0 \<in> ?ok" if "cr_conn r = Some 0"
    using Create_Submitted(1) [OF assms(1)] that
    by (auto simp: request_refusal_def check_connection_def userCanAccessConnection_def split: if_splits option.splits bool.splits)
  have all_ok: "set cs \<subseteq> ?ok"
  proof
    fix c assume "c \<in> set cs"
    then show "c \<in> ?ok"
      using zero access_items_connections [OF cs(1)] check_connections_None [OF cs(2), of c] by (cases "c = 0") (auto simp: dedupeUint64_def)
  qed
  have conns: "ai_connection_id ` set (access_items r1 j) \<subseteq> set cs" for j
  proof (cases "cr_rules r = []")
    case True
    then have "cr_conn r \<noteq> None" using cs(1) by (auto simp: access_connections_def split: option.splits if_splits)
    with r1 have "access_items r1 j = access_items r j" by (auto simp: access_items_def)
    with access_items_connections [OF cs(1), of j] show ?thesis by simp
  next
    case False
    with r1 have "access_items r1 j = access_items r j" by (simp add: access_items_def)
    with access_items_connections [OF cs(1), of j] show ?thesis by simp
  qed
  obtain j s1 where cw: "CreateWithScopes (q_now q) no (draft_ticket (q_user q) r1) (cr_scopes r1) (wd_store (dk_world d)) = (j, s1)" by fastforce
  then have s1: "s_access_requests s1 = s_access_requests (wd_store (dk_world d))"
    by (auto simp: CreateWithScopes_def Let_def)
  let ?t = "given (GetTicket s1 j) ((draft_ticket (q_user q) r1)\<lparr>t_id := j\<rparr>)"
  have tid: "t_id ?t = j" by (cases "GetTicket s1 j") (auto simp: given_def dest: GetTicket_id)
  obtain s2 where it: "CreateTicketItems j (access_items r1 j) s1 = (True, s2)"
    and fin: "finish_submit q fl sf note ?t items (with_store (\<lambda>_. s2) (with_store (\<lambda>_. s1) (d\<lparr>dk_trace := tr\<rparr>))) = (Submitted i, d')"
    using st r1(1) cw by (auto simp: store_request_def Let_def split: if_splits prod.splits bool.splits)
  from requests_submit [OF fin] have "requests_of (dk_world d') = s_access_requests s2" and "i = j"
    using tid by (auto simp: requests_of_def with_store_def)
  then show ?thesis
    using items_stored [OF it] s1 conns all_ok access_items_connections [OF cs(1)] by (fastforce simp: requests_of_def)
qed


section \<open>Examples\<close>

definition plain_update :: statement where
  "plain_update = \<lparr>ps_seq = 1, ps_raw = ''update t set a = 1 where id = 2'', ps_normalized = [], ps_kind = KindUpdate,
     ps_ast = MySQLNode (UpdateStmt (Some (RSTable \<lparr>tn_schema = [], tn_name = ''t''\<rparr>)) [] True)\<rparr>"

definition sample_review_env :: review_env where
  "sample_review_env = \<lparr>rv_conn_type = (\<lambda>_. Inr (Some ''mysql'')), rv_parser = (\<lambda>_ sql. if sql = ''-- nothing'' then Inr [] else Inr [plain_update]),
     rv_rules = Some [\<lparr>rr_name = ''dml_no_where'', rr_severity = ''error'', rr_enabled = True, rr_threshold = None, rr_updated_by = None\<rparr>],
     rv_reserved = [], rv_snapshot = (\<lambda>_. None), rv_explain = Inl ''down'',
     rv_servers = \<lparr>sv_open = Some ''down'', sv_schema = (\<lambda>_. None), sv_schema_error = (\<lambda>_. None), sv_base_tables = (\<lambda>_. Inr []),
       sv_metadata_error = None, sv_has_table = (\<lambda>_ _. False), sv_database_exists = (\<lambda>_. Inr False), sv_show_create = (\<lambda>_ _. Inl []),
       sv_conn = (\<lambda>_. None), sv_current = (\<lambda>_. Inr None), sv_exec = (\<lambda>_ _. None), sv_clock = (\<lambda>_. 7)\<rparr>\<rparr>"

definition sample_desk :: desk where
  "sample_desk = \<lparr>dk_world = sample_world, dk_results = [], dk_trace = []\<rparr>"

definition dml_request :: "string \<Rightarrow> create_request" where
  "dml_request sql = \<lparr>cr_title = ''t'', cr_description = None, cr_sql = sql, cr_type = DML, cr_conn = Some 7, cr_database = Some ''shop'',
     cr_duration = None, cr_scopes = [], cr_scope_mode = None, cr_items = [], cr_rules = []\<rparr>"

definition access_request_sample :: create_request where
  "access_request_sample = \<lparr>cr_title = [], cr_description = None, cr_sql = [], cr_type = QueryAccess, cr_conn = None, cr_database = None,
     cr_duration = Some 60, cr_scopes = [], cr_scope_mode = None, cr_items = [],
     cr_rules = [\<lparr>arr_effect = EffAllow, arr_connection = 7, arr_database_pattern = ''shop'', arr_table_pattern = ''*''\<rparr>]\<rparr>"

lemma dml_submitted: "fst (Create sample_review_env (sample_request 1) (\<lambda>_. False) (\<lambda>_. False) ''TK-9'' [] (dml_request ''update'') sample_desk) = Submitted 13"
  by code_simp


theorem access_request_in_scope_witness:
  "\<exists>v. cr_duration access_request_sample = Some v \<and> minAccessDuration \<le> v \<and> v \<le> maxQueryAccessDurationMinutes"
proof -
  let ?c = "Create sample_review_env (sample_request 1) (\<lambda>_. False) (\<lambda>_. False) ''TK-9'' [] access_request_sample sample_desk"
  have "fst ?c = Submitted 13" by code_simp
  then have "?c = (Submitted 13, snd ?c)" by (metis prod.collapse)
  from access_request_in_scope [OF this] show ?thesis by (simp add: access_request_sample_def)
qed

text \<open>
  A DML ticket whose text holds no statement is refused by the check of the kinds, but the refusal names
  statement one, which is not there, so that no item carries it and the ticket is submitted.
\<close>

lemma empty_dml_submitted:
  "CheckTicketStatementKinds DML [] \<noteq> None \<and>
   fst (Create sample_review_env (sample_request 1) (\<lambda>_. False) (\<lambda>_. False) ''TK-9'' [] (dml_request ''-- nothing'') sample_desk) = Submitted 13"
proof
  show "CheckTicketStatementKinds DML [] \<noteq> None" by (simp add: CheckTicketStatementKinds_def)
  show "fst (Create sample_review_env (sample_request 1) (\<lambda>_. False) (\<lambda>_. False) ''TK-9'' [] (dml_request ''-- nothing'') sample_desk) = Submitted 13"
    by code_simp
qed

text \<open>When the stored rules cannot be read, the review goes on without them.\<close>

lemma rules_unread_not_checked:
  "rv_rules env = None \<Longrightarrow> rule_items env dl tt sts = []"
  by (simp add: rule_items_def)

text \<open>When the results of the review cannot be stored, the submission is refused but the ticket stays.\<close>

lemma refused_ticket_stays:
  "let c = Create sample_review_env (sample_request 1) (\<lambda>_. False) (\<lambda>op. op = SubResults) ''TK-9'' [] (dml_request ''update'') sample_desk
   in fst c = SubmitRefused 500 ''persist ticket review results failed'' \<and>
      map_option t_status (GetTicket (wd_store (dk_world (snd c))) 13) = Some PendingReview"
  by code_simp

end
