(* ===== verification/Shadow_Laws.thy ===== *)
theory Shadow_Laws
  imports Shadow_Validation
begin

text \<open>
  Laws of the trial runs: every database a run creates is dropped, and a run touches shadow databases only,
  except for tables that an \<open>ALTER TABLE\<close> moves to a database it names.
\<close>

section \<open>Databases left behind\<close>

fun leak_step :: "string list \<Rightarrow> shadow_event \<times> string option \<Rightarrow> string list" where
  "leak_step open_dbs (SendCreate n i, None) = n # open_dbs"
| "leak_step open_dbs (SendNode (CreateDatabaseStmt n), None) = n # open_dbs"
| "leak_step open_dbs (SendDrop n, r) = removeAll n open_dbs"
| "leak_step open_dbs x = open_dbs"

text \<open>The databases a run created and has not sent a \<open>DROP DATABASE\<close> for.\<close>

definition leaked :: "trace \<Rightarrow> string list" where
  "leaked tr = foldl leak_step [] tr"

fun neutral :: "shadow_event \<Rightarrow> bool" where
  "neutral (SendCreate n i) = False"
| "neutral (SendDrop n) = False"
| "neutral (SendNode n) = (\<forall>d. n \<noteq> CreateDatabaseStmt d)"
| "neutral e = True"

lemma leak_step_neutral [simp]:
  assumes "neutral e" shows "leak_step ds (e, r) = ds"
proof (cases e)
  case (SendNode n) with assms show ?thesis by (cases n; cases r) auto
qed (use assms in \<open>cases r; simp\<close>)+

lemma leaked_send: "leaked (snd (send sv e tr)) = leak_step (leaked tr) (e, sv_exec sv tr e)"
  by (simp add: send_def Let_def leaked_def)

lemma leaked_neutral [simp]: "neutral e \<Longrightarrow> leaked (snd (send sv e tr)) = leaked tr"
  by (simp add: leaked_send)

lemma leaked_drop [simp]: "leaked (snd (send sv (SendDrop n) tr)) = removeAll n (leaked tr)"
  by (simp add: leaked_send)

lemma send_eq: "send sv e tr = (r, t) \<Longrightarrow> r = sv_exec sv tr e \<and> t = snd (send sv e tr)"
  by (auto simp: send_def Let_def)

lemma leaked_execute [simp]:
  assumes "neutral e" shows "leaked (snd (executeShadowDDL sv db e tr)) = leaked tr"
  using assms by (auto simp: executeShadowDDL_def Let_def dest!: send_eq split: option.splits sum.splits prod.splits)

lemma leaked_clone_loop [simp]: "leaked (snd (clone_loop sv source shadow seen cs tr)) = leaked tr"
proof (induction cs arbitrary: seen tr)
  case (Cons c cs)
  have "leaked t = leaked tr" if "executeShadowDDL sv shadow (SendClone sql) tr = (r, t)" for r t sql
    using leaked_execute [of "SendClone sql" sv shadow tr] that by simp
  with Cons.IH show ?case by (auto simp: Let_def split: sum.splits option.splits prod.splits)
qed simp

lemma leaked_clone:
  assumes "cloneMySQLDatabaseTablesToShadow sv source ts info tr = (r, t)"
  shows "set (leaked t) \<subseteq> set (leaked tr) \<union> (case r of Inl e \<Rightarrow> {} | Inr db \<Rightarrow> {db})"
proof -
  have loop: "leaked t2 = leaked t1" if "clone_loop sv source sh [] ts t1 = (x, t2)" for x sh t1 t2
    using leaked_clone_loop [of sv source sh "[]" ts t1] that by simp
  have create: "set (leaked t1) \<subseteq> insert n (set (leaked tr))" if "send sv (SendCreate n i) tr = (x, t1)" for n i x t1
    using send_eq [OF that] by (cases "sv_exec sv tr (SendCreate n i)") (auto simp: leaked_send)
  have failed: "leaked t1 = leaked tr" if "send sv (SendCreate n i) tr = (Some e, t1)" for n i e t1
    using send_eq [OF that] by (cases "sv_exec sv tr (SendCreate n i)") (auto simp: leaked_send)
  show ?thesis
    using assms unfolding cloneMySQLDatabaseTablesToShadow_def Let_def
    by (auto simp: failed dest!: loop create split: sum.splits option.splits prod.splits if_splits)
qed


text \<open>Databases open after a step: those open before it, and the one the tables were copied to.\<close>

definition within :: "string set \<Rightarrow> shadow_state \<Rightarrow> bool" where
  "within base s \<longleftrightarrow> set (leaked (ss_trace s)) \<subseteq> base \<union> set_option (ss_tables s)"

lemma executed_leaked:
  assumes "executeShadowDDL sv db e tr = (x, t)" and "neutral e" shows "leaked t = leaked tr"
  using leaked_execute [OF assms(2), of sv db tr] assms(1) by simp

lemma rewritten_neutral:
  assumes "rewriteMySQLDDLForShadow n db = Some (n', x)" and "\<forall>d. n \<noteq> CreateDatabaseStmt d" shows "neutral (SendNode n')"
  using assms by (cases n) auto

lemma within_try_table:
  assumes "within base s" and "try_table sv p selected seq n s = (t, s')" and "\<forall>d. n \<noteq> CreateDatabaseStmt d"
  shows "within base s'"
proof -
  obtain r tr where prep: "(case ss_tables s of Some db \<Rightarrow> (Inr db, ss_trace s)
      | None \<Rightarrow> cloneMySQLDatabaseTablesToShadow sv selected (sp_clones p) (sp_schema p) (ss_trace s)) = (r, tr)" by fastforce
  then have tr: "set (leaked tr) \<subseteq> base \<union> (case r of Inl e \<Rightarrow> set_option (ss_tables s) | Inr db \<Rightarrow> {db})"
    using assms(1) leaked_clone [of sv selected "sp_clones p" "sp_schema p" "ss_trace s" r tr]
    by (auto simp: within_def split: option.splits sum.splits)
  then show ?thesis
    using assms(1,2) rewritten_neutral [OF _ assms(3)]
    by (auto simp: try_table_def prep within_def dest!: executed_leaked split: if_splits option.splits sum.splits prod.splits)
qed

lemma within_try_database:
  assumes "within base s" and "try_database sv selected n explicit s = (t, s')" and "\<forall>d. n \<noteq> CreateDatabaseStmt d"
  shows "within base s'"
proof -
  have clone: "set (leaked tr) \<subseteq> set (leaked (ss_trace s)) \<union> (case r of Inl e \<Rightarrow> {} | Inr db \<Rightarrow> {db})"
    if "cloneMySQLDatabaseToShadow sv src (ss_trace s) = (r, tr)" for src r tr
    using that unfolding cloneMySQLDatabaseToShadow_def
    by (cases "sv_base_tables sv src") (auto dest: leaked_clone)
  let ?src = "if explicit = [] then selected else explicit"
  obtain r tr where r: "cloneMySQLDatabaseToShadow sv ?src (ss_trace s) = (r, tr)" by fastforce
  note def = assms(2) [unfolded try_database_def Let_def r prod.case]
  show ?thesis
  proof (cases "?src = []")
    case True with def assms(1) show ?thesis by simp
  next
    case src: False
    show ?thesis
    proof (cases r)
      case (Inl e) with def src clone [OF r] assms(1) show ?thesis by (fastforce simp: within_def)
    next
      case (Inr db)
      have "\<exists>tr'. leaked tr' = leaked tr \<and> s' = s\<lparr>ss_trace := snd (send sv (SendDrop db) tr')\<rparr>"
      proof (cases "rewriteMySQLDDLForShadow n db")
        case None with def src Inr show ?thesis by auto
      next
        case (Some y)
        obtain n' x where n': "rewriteMySQLDDLForShadow n db = Some (n', x)" using Some by (cases y) auto
        obtain e tr' where run: "executeShadowDDL sv db (SendNode n') tr = (e, tr')" by fastforce
        with def src Inr n' have "s' = s\<lparr>ss_trace := snd (send sv (SendDrop db) tr')\<rparr>" by simp
        with executed_leaked [OF run rewritten_neutral [OF n' assms(3)]] show ?thesis by blast
      qed
      with Inr clone [OF r] assms(1) show ?thesis by (fastforce simp: within_def)
    qed
  qed
qed

lemma within_try_create_database:
  assumes "within base s" and "try_create_database sv n s = (t, s')" shows "within base s'"
proof -
  let ?n = "generateShadowDatabaseName ''shadow_create_db'' (sv_clock sv (ss_trace s))"
  have "set (leaked tr) \<subseteq> (case r of None \<Rightarrow> insert ?n (set (leaked (ss_trace s))) | Some e \<Rightarrow> set (leaked (ss_trace s)))"
    if "send sv (SendNode (CreateDatabaseStmt ?n)) (ss_trace s) = (r, tr)" for r tr
    using send_eq [OF that] by (cases "sv_exec sv (ss_trace s) (SendNode (CreateDatabaseStmt ?n))") (auto simp: leaked_send)
  then show ?thesis
    using assms by (fastforce simp: try_create_database_def within_def Let_def split: if_splits sum.splits bool.splits option.splits prod.splits)
qed

lemma within_prepare:
  assumes "within base s" and "prepareMySQLShadowValidation sv p selected st s = (t, s')" shows "within base s'"
  using assms within_try_table [OF assms(1)] within_try_database [OF assms(1)] within_try_create_database [OF assms(1)]
  unfolding prepareMySQLShadowValidation_def
  by (cases "node_of st") (auto split: if_splits)

lemma within_statements:
  "within base s \<Longrightarrow> try_statements sv p selected sts s = (items, s') \<Longrightarrow> within base s'"
  by (induction sts arbitrary: s items s') (auto split: prod.splits dest: within_prepare)

text \<open>
  The trial run leaves nothing behind. Whatever the statements are and whichever of its commands fail, for
  every database the run created on the platform's server it has sent a command that drops it.
\<close>

theorem shadow_databases_dropped:
  "set (leaked (snd (runMySQLDDLShadowValidation sv sts databaseName tr))) \<subseteq> set (leaked tr)"
proof (cases "sv_open sv")
  case None
  let ?sel = "case databaseName of None \<Rightarrow> [] | Some d \<Rightarrow> d"
  let ?p = "mysqlDDLShadowCloneTablesForValidStatements sv sts ?sel"
  obtain items s where run: "try_statements sv ?p ?sel sts \<lparr>ss_trace = tr, ss_tables = None\<rparr> = (items, s)" by fastforce
  have "within (set (leaked tr)) s" by (rule within_statements [OF _ run]) (simp add: within_def)
  then show ?thesis using None run by (auto simp: runMySQLDDLShadowValidation_def Let_def within_def split: option.splits)
qed (simp add: runMySQLDDLShadowValidation_def)


section \<open>Databases touched\<close>

definition is_shadow :: "string \<Rightarrow> bool" where
  "is_shadow n = has_prefix n ''shadow_''"

text \<open>The databases a statement changes; the empty name stands for the current database.\<close>

fun node_writes :: "mysql_stmt \<Rightarrow> string list" where
  "node_writes (CreateTableStmt c) = map tn_schema (option_list (ct_table c))"
| "node_writes (AlterTableStmt t specs) = map tn_schema (option_list t @ concat (map (option_list \<circ> as_new_table) specs))"
| "node_writes (DropTableStmt ts e) = map tn_schema ts"
| "node_writes (TruncateTableStmt t) = map tn_schema (option_list t)"
| "node_writes (RenameTableStmt ps) = map (tn_schema \<circ> fst) ps @ map (tn_schema \<circ> snd) ps"
| "node_writes (CreateDatabaseStmt n) = [n]"
| "node_writes (AlterDatabaseStmt n) = [n]"
| "node_writes (DropDatabaseStmt n) = [n]"
| "node_writes n = []"

text \<open>
  A trace is confined when everything it creates, changes or drops is in a shadow database; \<open>cur\<close> is the
  current database of the connection.
\<close>

fun confined :: "string \<Rightarrow> trace \<Rightarrow> bool" where
  "confined cur [] = True"
| "confined cur ((SendUse d, r) # tr) = confined (if r = None then d else cur) tr"
| "confined cur ((SendNode n, r) # tr) = ((\<forall>d \<in> set (node_writes n). is_shadow (if d = [] then cur else d)) \<and> confined cur tr)"
| "confined cur ((SendClone sql, r) # tr) = (is_shadow cur \<and> confined cur tr)"
| "confined cur ((SendCreate n i, r) # tr) = (is_shadow n \<and> confined cur tr)"
| "confined cur ((SendDrop n, r) # tr) = (is_shadow n \<and> confined cur tr)"
| "confined cur ((SendFK b, r) # tr) = confined cur tr"

lemma confined_append: "confined cur a \<Longrightarrow> (\<And>c. confined c b) \<Longrightarrow> confined cur (a @ b)"
  by (induction cur a rule: confined.induct) simp_all

definition keeps_out :: "trace \<Rightarrow> trace \<Rightarrow> bool" where
  "keeps_out tr tr' \<longleftrightarrow> (\<exists>ext. tr' = tr @ ext \<and> (\<forall>cur. confined cur ext))"

lemma keeps_out_refl [simp]: "keeps_out tr tr"
  by (simp add: keeps_out_def)

lemma keeps_out_trans: "keeps_out a b \<Longrightarrow> keeps_out b c \<Longrightarrow> keeps_out a c"
  unfolding keeps_out_def by (metis append.assoc confined_append)

lemma keeps_out_send: "(\<And>cur r. confined cur [(e, r)]) \<Longrightarrow> keeps_out tr (snd (send sv e tr))"
  by (simp add: keeps_out_def send_def Let_def)

lemma keeps_out_drop: "is_shadow db \<Longrightarrow> keeps_out tr (snd (send sv (SendDrop db) tr))"
  by (simp add: keeps_out_send)

lemma generated_is_shadow [simp]: "is_shadow (generateShadowDatabaseName seed millis)"
  by (simp add: is_shadow_def generateShadowDatabaseName_def has_prefix_def Let_def)

lemma keeps_out_execute:
  assumes "is_shadow db" and "\<And>r. confined db [(e, r)]"
  shows "keeps_out tr (snd (executeShadowDDL sv db e tr))"
proof -
  have e: "confined db ((e, r) # rest) = confined db rest" if "\<forall>c. confined c rest" for r rest
    using that confined_append [of db "[(e, r)]" rest] assms(2) by simp
  show ?thesis
    by (simp add: executeShadowDDL_def keeps_out_def send_def Let_def e split: option.splits sum.splits)
qed

lemma executed_keeps_out:
  "executeShadowDDL sv db e tr = (x, t) \<Longrightarrow> is_shadow db \<Longrightarrow> (\<And>r. confined db [(e, r)]) \<Longrightarrow> keeps_out tr t"
  using keeps_out_execute [of db e tr sv] by simp

lemma keeps_out_clone_loop:
  "is_shadow shadow \<Longrightarrow> keeps_out tr (snd (clone_loop sv source shadow seen cs tr))"
proof (induction cs arbitrary: seen tr)
  case (Cons c cs)
  note ih = Cons.IH [OF Cons.prems]
  have run: "keeps_out tr t" if "executeShadowDDL sv shadow (SendClone sql) tr = (r, t)" for r t sql
    by (rule executed_keeps_out [OF that Cons.prems]) (use Cons.prems in simp)
  show ?case
    by (auto simp: Let_def ih split: sum.splits option.splits prod.splits intro: run keeps_out_trans [OF run ih])
qed simp

lemma keeps_out_clone:
  assumes "cloneMySQLDatabaseTablesToShadow sv source ts info tr = (r, t)"
  shows "keeps_out tr t \<and> (\<forall>db. r = Inr db \<longrightarrow> is_shadow db)"
proof -
  let ?n = "generateShadowDatabaseName source (sv_clock sv tr)"
  have create: "keeps_out tr t1" if "send sv (SendCreate ?n i) tr = (x, t1)" for i x t1
    using keeps_out_send [of "SendCreate ?n i" tr sv] that by simp
  have loop: "keeps_out t1 t2" if "clone_loop sv source ?n [] ts t1 = (x, t2)" for x t1 t2
    using keeps_out_clone_loop [of ?n t1 sv source "[]" ts] that by simp
  have drop: "keeps_out t2 (snd (send sv (SendDrop ?n) t2))" for t2 by (simp add: keeps_out_drop)
  show ?thesis
    using assms unfolding cloneMySQLDatabaseTablesToShadow_def Let_def
    by (auto split: sum.splits option.splits prod.splits intro: create keeps_out_trans [OF create]
        keeps_out_trans [OF create keeps_out_trans [OF loop drop]] keeps_out_trans [OF create loop])
qed

text \<open>A table definition that moves the table names no database for its new place.\<close>

fun stays :: "mysql_stmt \<Rightarrow> bool" where
  "stays (AlterTableStmt t specs) = list_all (\<lambda>s. case as_new_table s of None \<Rightarrow> True | Some n \<Rightarrow> tn_schema n = []) specs"
| "stays n = True"

lemma rewritten_confined:
  assumes "rewriteMySQLDDLForShadow n db = Some (n', x)" and "stays n" and "is_shadow db"
  shows "confined db [(SendNode n', r)]"
proof -
  have "set (node_writes n') \<subseteq> {db, []}"
  proof (cases n)
    case (AlterTableStmt t specs)
    with assms(1,2) show ?thesis
      by (auto simp: option_list_def moved_def list_all_iff split: option.splits)
  qed (use assms(1) in \<open>auto simp: option_list_def moved_def split: option.splits\<close>)
  with assms(3) show ?thesis by auto
qed


definition shadow_tables :: "shadow_state \<Rightarrow> bool" where
  "shadow_tables s \<longleftrightarrow> (\<forall>db. ss_tables s = Some db \<longrightarrow> is_shadow db)"

lemma try_table_confined:
  assumes "shadow_tables s" and "try_table sv p selected seq n s = (t, s')" and "stays n"
  shows "keeps_out (ss_trace s) (ss_trace s') \<and> shadow_tables s'"
proof -
  obtain r tr where prep: "(case ss_tables s of Some db \<Rightarrow> (Inr db, ss_trace s)
      | None \<Rightarrow> cloneMySQLDatabaseTablesToShadow sv selected (sp_clones p) (sp_schema p) (ss_trace s)) = (r, tr)" by fastforce
  then have tr: "keeps_out (ss_trace s) tr \<and> (\<forall>db. r = Inr db \<longrightarrow> is_shadow db)"
    using assms(1) by (auto simp: shadow_tables_def split: option.splits dest: keeps_out_clone)
  have run: "keeps_out (ss_trace s) tr'" if "executeShadowDDL sv db (SendNode n') tr = (e, tr')"
      "rewriteMySQLDDLForShadow n db = Some (n', x)" "r = Inr db" for db n' x e tr'
    using keeps_out_trans [of "ss_trace s" tr tr'] executed_keeps_out [OF that(1)] rewritten_confined [OF that(2) assms(3)] tr that(3)
    by blast
  show ?thesis
    using assms(1,2) tr
    by (auto simp: try_table_def prep shadow_tables_def split: if_splits option.splits sum.splits prod.splits intro: run)
qed

lemma try_database_confined:
  assumes "shadow_tables s" and "try_database sv selected n explicit s = (t, s')" and "stays n"
  shows "keeps_out (ss_trace s) (ss_trace s') \<and> shadow_tables s'"
proof -
  let ?src = "if explicit = [] then selected else explicit"
  obtain r tr where r: "cloneMySQLDatabaseToShadow sv ?src (ss_trace s) = (r, tr)" by fastforce
  have tr: "keeps_out (ss_trace s) tr \<and> (\<forall>db. r = Inr db \<longrightarrow> is_shadow db)"
    using r by (cases "sv_base_tables sv ?src") (auto simp: cloneMySQLDatabaseToShadow_def dest: keeps_out_clone)
  note def = assms(2) [unfolded try_database_def Let_def r prod.case]
  show ?thesis
  proof (cases "?src = [] \<or> (\<exists>e. r = Inl e)")
    case True with def assms(1) tr show ?thesis by (auto simp: shadow_tables_def split: if_splits)
  next
    case False
    then obtain db where db: "r = Inr db" "is_shadow db" using tr by (cases r) auto
    note last = keeps_out_drop [OF db(2), of _ sv]
    show ?thesis
    proof (cases "rewriteMySQLDDLForShadow n db")
      case None with def False db tr assms(1) keeps_out_trans [OF _ last] show ?thesis by (auto simp: shadow_tables_def)
    next
      case (Some y)
      obtain n' x where n': "rewriteMySQLDDLForShadow n db = Some (n', x)" using Some by (cases y) auto
      obtain e tr' where run: "executeShadowDDL sv db (SendNode n') tr = (e, tr')" by fastforce
      have "keeps_out tr tr'" by (rule executed_keeps_out [OF run db(2) rewritten_confined [OF n' assms(3) db(2)]])
      with tr last have "keeps_out (ss_trace s) (snd (send sv (SendDrop db) tr'))" by (blast intro: keeps_out_trans)
      moreover have "s' = s\<lparr>ss_trace := snd (send sv (SendDrop db) tr')\<rparr>" using def False db n' run by simp
      ultimately show ?thesis using assms(1) by (simp add: shadow_tables_def)
    qed
  qed
qed

lemma try_create_database_confined:
  assumes "shadow_tables s" and "try_create_database sv n s = (t, s')"
  shows "keeps_out (ss_trace s) (ss_trace s') \<and> shadow_tables s'"
proof -
  let ?n = "generateShadowDatabaseName ''shadow_create_db'' (sv_clock sv (ss_trace s))"
  have named: "?n \<noteq> []" by (simp add: generateShadowDatabaseName_def Let_def)
  have "keeps_out (ss_trace s) tr" if "send sv (SendNode (CreateDatabaseStmt ?n)) (ss_trace s) = (r, tr)" for r tr
    using keeps_out_send [of "SendNode (CreateDatabaseStmt ?n)" "ss_trace s" sv] that named by simp
  with assms keeps_out_trans [OF _ keeps_out_drop [of ?n _ sv]] show ?thesis
    by (auto simp: try_create_database_def shadow_tables_def Let_def split: if_splits sum.splits bool.splits option.splits prod.splits)
qed

lemma prepare_confined:
  assumes "shadow_tables s" and "prepareMySQLShadowValidation sv p selected st s = (t, s')" and "stays (node_of st)"
  shows "keeps_out (ss_trace s) (ss_trace s') \<and> shadow_tables s'"
  using assms try_table_confined [OF assms(1)] try_database_confined [OF assms(1)] try_create_database_confined [OF assms(1)]
  unfolding prepareMySQLShadowValidation_def
  by (cases "node_of st") (auto split: if_splits)

lemma statements_confined:
  "shadow_tables s \<Longrightarrow> try_statements sv p selected sts s = (items, s') \<Longrightarrow> list_all (\<lambda>st. stays (node_of st)) sts \<Longrightarrow>
   keeps_out (ss_trace s) (ss_trace s') \<and> shadow_tables s'"
proof (induction sts arbitrary: s items s')
  case (Cons st sts)
  obtain t s1 where p: "prepareMySQLShadowValidation sv p selected st s = (t, s1)" by fastforce
  obtain is2 s2 where r: "try_statements sv p selected sts s1 = (is2, s2)" by fastforce
  from prepare_confined [OF Cons.prems(1) p] Cons.prems(3) have one: "keeps_out (ss_trace s) (ss_trace s1)" "shadow_tables s1" by auto
  from Cons.IH [OF one(2) r] Cons.prems(3) have "keeps_out (ss_trace s1) (ss_trace s2)" "shadow_tables s2" by auto
  with one Cons.prems(2) p r show ?case by (auto intro: keeps_out_trans)
qed simp

text \<open>
  C7: the trial run touches shadow databases only. Provided no \<open>ALTER TABLE\<close> moves its table to a database it
  names, everything the run creates, changes or drops on the platform's server, whichever of its commands fail,
  lies in a database whose name marks it as a shadow database.
\<close>

theorem shadow_run_confined:
  assumes "list_all (\<lambda>st. stays (node_of st)) sts"
  shows "\<exists>ext. snd (runMySQLDDLShadowValidation sv sts databaseName tr) = tr @ ext \<and> (\<forall>cur. confined cur ext)"
proof (cases "sv_open sv")
  case None
  let ?sel = "case databaseName of None \<Rightarrow> [] | Some d \<Rightarrow> d"
  let ?p = "mysqlDDLShadowCloneTablesForValidStatements sv sts ?sel"
  obtain items s where run: "try_statements sv ?p ?sel sts \<lparr>ss_trace = tr, ss_tables = None\<rparr> = (items, s)" by fastforce
  have "keeps_out tr (ss_trace s) \<and> shadow_tables s"
    using statements_confined [OF _ run assms] by (simp add: shadow_tables_def)
  then have "keeps_out tr (case ss_tables s of None \<Rightarrow> ss_trace s | Some db \<Rightarrow> snd (send sv (SendDrop db) (ss_trace s)))"
    by (auto simp: shadow_tables_def split: option.splits intro: keeps_out_trans keeps_out_drop)
  then show ?thesis using None run by (simp add: runMySQLDDLShadowValidation_def Let_def keeps_out_def)
qed (simp add: runMySQLDDLShadowValidation_def)


definition sample_servers :: servers where
  "sample_servers = \<lparr>sv_open = None, sv_schema = (\<lambda>_. Some (''utf8mb4'', ''utf8mb4_bin'')), sv_schema_error = (\<lambda>_. None),
     sv_base_tables = (\<lambda>_. Inr [''t'']), sv_metadata_error = None, sv_has_table = (\<lambda>db t. t = ''t''),
     sv_database_exists = (\<lambda>_. Inr False), sv_show_create = (\<lambda>db t. Inr (''CREATE TABLE '' @ t)), sv_conn = (\<lambda>_. None),
     sv_current = (\<lambda>_. Inr (Some ''maestro'')), sv_exec = (\<lambda>_ _. None), sv_clock = (\<lambda>_. 7)\<rparr>"

definition table_called :: "string \<Rightarrow> string \<Rightarrow> table_name" where
  "table_called db t = \<lparr>tn_schema = db, tn_name = t\<rparr>"

definition ddl_statement :: "nat \<Rightarrow> statement_kind \<Rightarrow> mysql_stmt \<Rightarrow> statement" where
  "ddl_statement seq k n = \<lparr>ps_seq = seq, ps_raw = ''ddl'', ps_normalized = [], ps_kind = k, ps_ast = MySQLNode n\<rparr>"

lemma sample_run:
  "runMySQLDDLShadowValidation sample_servers [ddl_statement 1 KindTruncate (TruncateTableStmt (Some (table_called [] ''t'')))] (Some ''shop'') [] =
     ([shadow_item (ddl_statement 1 KindTruncate (TruncateTableStmt (Some (table_called [] ''t'')))) ''prepare'' None,
       shadow_item (ddl_statement 1 KindTruncate (TruncateTableStmt (Some (table_called [] ''t'')))) ''execute'' None],
      map (\<lambda>e. (e, None)) [SendCreate ''shadow_shop_7'' (''utf8mb4'', ''utf8mb4_bin''), SendUse ''shadow_shop_7'', SendFK False,
        SendClone ''CREATE TABLE t'', SendFK True, SendUse ''maestro'', SendUse ''shadow_shop_7'', SendFK False,
        SendNode (TruncateTableStmt (Some (table_called ''shadow_shop_7'' ''t''))), SendFK True, SendUse ''maestro'', SendDrop ''shadow_shop_7''])"
  by code_simp

theorem shadow_run_confined_witness:
  "\<exists>ext. snd (runMySQLDDLShadowValidation sample_servers
      [ddl_statement 1 KindTruncate (TruncateTableStmt (Some (table_called [] ''t'')))] (Some ''shop'') []) = ext \<and> confined ''maestro'' ext"
proof -
  have "list_all (\<lambda>st. stays (node_of st)) [ddl_statement 1 KindTruncate (TruncateTableStmt (Some (table_called [] ''t'')))]" by code_simp
  from shadow_run_confined [OF this, of sample_servers "Some ''shop''" "[]"] show ?thesis by auto
qed

text \<open>
  The new place of a table is not rewritten: \<open>ALTER TABLE t RENAME TO maestro.u\<close> moves the copy of the table into
  the database \<open>maestro\<close> of the platform's server, where it stays.
\<close>

lemma renamed_table_escapes:
  "let n = AlterTableStmt (Some (table_called [] ''t''))
             [\<lparr>as_new_columns = [], as_constraint = None, as_new_constraints = [], as_new_table = Some (table_called ''maestro'' ''u'')\<rparr>]
   in \<not> confined ''maestro'' (snd (runMySQLDDLShadowValidation sample_servers [ddl_statement 1 KindAlter n] (Some ''shop'') []))"
  by code_simp

text \<open>
  Whether the tables exist is asked of the source before the first statement runs, so a ticket that creates a
  table and then alters it is refused.
\<close>

lemma created_table_unknown_later:
  "let c = CreateTableStmt \<lparr>ct_table = Some (table_called [] ''u''), ct_if_not_exists = False, ct_refer_table = None, ct_cols = [],
             ct_constraints = [], ct_options = []\<rparr>;
       items = fst (runMySQLDDLShadowValidation sample_servers
         [ddl_statement 1 KindCreate c, ddl_statement 2 KindAlter (AlterTableStmt (Some (table_called [] ''u'')) [])] (Some ''shop'') [])
   in map (\<lambda>i. (ri_seq i, ri_status i)) items = [(1, ''pass''), (1, ''pass''), (2, ''pass''), (2, ''error'')]"
  by code_simp

end
