(* ===== verification/Query_Context.thy ===== *)
theory Query_Context
  imports Ticket_Submission Masking_Runtime
begin

text \<open>
  The context of a query that has been run: the sensitive columns it showed, as scopes of a ticket
  (\<open>internal/handler/sql_editor_workflows.go\<close>), and the signed token that carries them to the request for
  access (\<open>internal/handler/query_context_token.go\<close>).

  Signing and parsing of JSON web tokens are a parameter, the record \<open>token_codec\<close>; what the code relies on is
  the predicate \<open>honest_codec\<close>. SHA-256 in hexadecimal is the parameter \<open>tc_hash\<close>. Times are in seconds.
\<close>

section \<open>Scopes of a result\<close>

record scope_analysis =
  sa_scopes :: "ticket_scope list"
  sa_sensitive :: bool

definition query_column_scope :: "id64 \<Rightarrow> string option \<Rightarrow> string option \<Rightarrow> string option \<Rightarrow> string \<Rightarrow> ticket_scope" where
  "query_column_scope conn database schema table column = \<lparr>ts_ticket_id = 0, ts_connection_id = conn, ts_database_name = database,
     ts_schema_name = schema, ts_table_name = table, ts_column_name = column, ts_is_sensitive = True, ts_source_kind = ''query_column''\<rparr>"

definition scope_key :: "id64 \<Rightarrow> ticket_scope \<Rightarrow> string" where
  "scope_key conn sc = nat_show conn @ ''|'' @ nullable (ts_database_name sc) @ ''|'' @ nullable (ts_schema_name sc) @ ''|'' @
     nullable (ts_table_name sc) @ ''|'' @ ts_column_name sc @ ''|true''"

definition origin_scope :: "id64 \<Rightarrow> column_origin \<Rightarrow> ticket_scope" where
  "origin_scope conn o1 = query_column_scope conn (optionalTrimmedString (co_database o1)) (optionalTrimmedString (co_schema o1))
     (optionalTrimmedString (co_table o1)) (trim_space (co_column o1))"

fun origin_scopes :: "id64 \<Rightarrow> string list \<Rightarrow> column_origin list \<Rightarrow> ticket_scope list" where
  "origin_scopes conn seen [] = []"
| "origin_scopes conn seen (o1 # os) =
     (let sc = origin_scope conn o1
      in if ts_column_name sc = [] then origin_scopes conn seen os
         else if scope_key conn sc \<in> set seen then origin_scopes conn seen os
         else sc # origin_scopes conn (scope_key conn sc # seen) os)"

definition buildSQLScopeAnalysisFromDecisions :: "id64 \<Rightarrow> decision list \<Rightarrow> scope_analysis" where
  "buildSQLScopeAnalysisFromDecisions conn ds =
     \<lparr>sa_scopes = origin_scopes conn [] (concat (map cd_origins ds)), sa_sensitive = (ds \<noteq> [])\<rparr>"

definition queryContextSchemaName :: "db_connection \<Rightarrow> string \<Rightarrow> string" where
  "queryContextSchemaName conn schema = (if dc_db_type conn \<in> {''postgres'', ''postgresql''} then trim_space schema else [])"

section \<open>Tokens\<close>

record scope_claim =
  sl_database :: string
  sl_schema :: string
  sl_table :: string
  sl_column :: string

record context_claims =
  cl_user :: id64
  cl_conn :: id64
  cl_sql_hash :: string
  cl_database :: string
  cl_schema :: string
  cl_sensitive :: bool
  cl_scopes :: "scope_claim list"
  cl_expires :: timestamp
  cl_issued :: timestamp
  cl_audience :: "string list"

text \<open>\<open>tc_parse\<close> gets the secret, the audience required, the time and the token.\<close>

record token_codec =
  tc_sign :: "string \<Rightarrow> context_claims \<Rightarrow> string option"
  tc_parse :: "string \<Rightarrow> string \<Rightarrow> timestamp \<Rightarrow> string \<Rightarrow> context_claims option"
  tc_hash :: "string \<Rightarrow> string"

definition queryContextTokenTTL :: int where "queryContextTokenTTL = 1800"

definition hashQueryContextSQL :: "token_codec \<Rightarrow> string \<Rightarrow> string" where
  "hashQueryContextSQL tc content = tc_hash tc content"

definition queryContextScopeClaimsFromScopes :: "ticket_scope list \<Rightarrow> scope_claim list" where
  "queryContextScopeClaimsFromScopes scopes = map (\<lambda>sc. \<lparr>sl_database = nullable (ts_database_name sc), sl_schema = nullable (ts_schema_name sc),
     sl_table = nullable (ts_table_name sc), sl_column = trim_space (ts_column_name sc)\<rparr>) scopes"

definition scopesFromQueryContextClaims :: "id64 \<Rightarrow> scope_claim list \<Rightarrow> ticket_scope list" where
  "scopesFromQueryContextClaims conn claims =
     map (\<lambda>cl. query_column_scope conn (optionalTrimmedString (sl_database cl)) (optionalTrimmedString (sl_schema cl))
           (optionalTrimmedString (sl_table cl)) (trim_space (sl_column cl)))
       (filter (\<lambda>cl. trim_space (sl_column cl) \<noteq> []) claims)"

definition context_claims_of :: "token_codec \<Rightarrow> timestamp \<Rightarrow> id64 \<Rightarrow> id64 \<Rightarrow> string \<Rightarrow> string \<Rightarrow> string \<Rightarrow> scope_analysis \<Rightarrow> context_claims" where
  "context_claims_of tc now user conn content database schema an =
     \<lparr>cl_user = user, cl_conn = conn, cl_sql_hash = hashQueryContextSQL tc content, cl_database = trim_space database,
      cl_schema = trim_space schema, cl_sensitive = sa_sensitive an, cl_scopes = queryContextScopeClaimsFromScopes (sa_scopes an),
      cl_expires = now + queryContextTokenTTL, cl_issued = now, cl_audience = [''query-context'']\<rparr>"

definition newQueryContextToken ::
    "token_codec \<Rightarrow> string \<Rightarrow> timestamp \<Rightarrow> id64 \<Rightarrow> id64 \<Rightarrow> string \<Rightarrow> string \<Rightarrow> string \<Rightarrow> scope_analysis \<Rightarrow> string option" where
  "newQueryContextToken tc secret now user conn content database schema an =
     (if secret = [] then None
      else tc_sign tc secret (context_claims_of tc now user conn content database schema an))"

datatype context_refusal = TokenMissing | SecretMissing | TokenInvalid | RequestMismatch | SQLChanged | DatabaseChanged

definition validateQueryContextToken ::
    "token_codec \<Rightarrow> string \<Rightarrow> timestamp \<Rightarrow> string \<Rightarrow> id64 \<Rightarrow> id64 \<Rightarrow> string \<Rightarrow> string \<Rightarrow> string \<Rightarrow> context_refusal + scope_analysis" where
  "validateQueryContextToken tc secret now tok user conn content database schema =
     (if trim_space tok = [] then Inl TokenMissing
      else if secret = [] then Inl SecretMissing
      else case tc_parse tc secret ''query-context'' now (trim_space tok) of
        None \<Rightarrow> Inl TokenInvalid
      | Some c \<Rightarrow>
          if cl_user c \<noteq> user \<or> cl_conn c \<noteq> conn then Inl RequestMismatch
          else if cl_sql_hash c \<noteq> hashQueryContextSQL tc content then Inl SQLChanged
          else if cl_database c \<noteq> trim_space database \<or> cl_schema c \<noteq> trim_space schema then Inl DatabaseChanged
          else Inr \<lparr>sa_scopes = scopesFromQueryContextClaims conn (cl_scopes c), sa_sensitive = cl_sensitive c\<rparr>)"

section \<open>Scopes survive the token\<close>

definition trimmed_scope :: "id64 \<Rightarrow> ticket_scope \<Rightarrow> bool" where
  "trimmed_scope conn sc \<longleftrightarrow> (\<exists>d s t c. trim_space c \<noteq> [] \<and> sc = query_column_scope conn (optionalTrimmedString d)
     (optionalTrimmedString s) (optionalTrimmedString t) (trim_space c))"

lemma optional_nullable [simp]: "optionalTrimmedString (nullable (optionalTrimmedString s)) = optionalTrimmedString s"
  by (simp add: optionalTrimmedString_def nullable_def Let_def)

lemma scopes_of_claims:
  "\<forall>sc \<in> set scopes. trimmed_scope conn sc \<Longrightarrow> scopesFromQueryContextClaims conn (queryContextScopeClaimsFromScopes scopes) = scopes"
  by (induction scopes) (auto simp: scopesFromQueryContextClaims_def queryContextScopeClaimsFromScopes_def trimmed_scope_def query_column_scope_def)

lemma origin_scopes_trimmed: "sc \<in> set (origin_scopes conn seen os) \<Longrightarrow> trimmed_scope conn sc"
  by (induction conn seen os rule: origin_scopes.induct)
    (auto simp: Let_def trimmed_scope_def origin_scope_def query_column_scope_def split: if_splits)

lemma built_scopes_survive:
  "scopesFromQueryContextClaims conn (queryContextScopeClaimsFromScopes (sa_scopes (buildSQLScopeAnalysisFromDecisions conn ds)))
   = sa_scopes (buildSQLScopeAnalysisFromDecisions conn ds)"
  by (rule scopes_of_claims) (auto simp: buildSQLScopeAnalysisFromDecisions_def intro: origin_scopes_trimmed)

section \<open>Signed tokens\<close>

text \<open>
  What the code relies on: a token is not blank and has no blanks around it, and parsing a signed token under
  the same secret gives its claims back when it has not expired and names the audience, and nothing otherwise.
\<close>

definition honest_codec :: "token_codec \<Rightarrow> bool" where
  "honest_codec tc \<longleftrightarrow> (\<forall>secret c tok. tc_sign tc secret c = Some tok \<longrightarrow> tok \<noteq> [] \<and> trim_space tok = tok \<and>
     (secret \<noteq> [] \<longrightarrow> (\<forall>aud now. tc_parse tc secret aud now tok =
        (if now < cl_expires c \<and> aud \<in> set (cl_audience c) then Some c else None))))"

lemma parse_fresh:
  assumes "honest_codec tc" and "newQueryContextToken tc secret t user conn content database schema an = Some tok"
  shows "tc_parse tc secret ''query-context'' now (trim_space tok) = (if now < t + queryContextTokenTTL
       then Some (context_claims_of tc t user conn content database schema an) else None) \<and> trim_space tok \<noteq> [] \<and> secret \<noteq> []"
proof -
  let ?c = "context_claims_of tc t user conn content database schema an"
  have s: "secret \<noteq> []" "tc_sign tc secret ?c = Some tok" using assms(2) by (auto simp: newQueryContextToken_def split: if_splits)
  then have "tok \<noteq> []" "trim_space tok = tok"
    and "tc_parse tc secret ''query-context'' now tok =
      (if now < cl_expires ?c \<and> ''query-context'' \<in> set (cl_audience ?c) then Some ?c else None)"
    using assms(1) by (auto simp: honest_codec_def)
  then show ?thesis using s(1) by (simp add: context_claims_of_def)
qed

text \<open>
  C18: the context of a query survives its token and serves only its own request. A token issued for the run of
  a query is accepted, for half an hour, from the same user for the same connection, a text with the same hash
  and the same database and schema, and then gives back exactly the sensitive columns of that run; it is
  refused, with the reason, in every other case.
\<close>

theorem query_context_roundtrip:
  assumes "honest_codec tc"
    and "newQueryContextToken tc secret t user conn content database schema (buildSQLScopeAnalysisFromDecisions conn ds) = Some tok"
  shows "validateQueryContextToken tc secret now tok user' conn' content' database' schema' =
     (if now \<ge> t + 1800 then Inl TokenInvalid
      else if user' \<noteq> user \<or> conn' \<noteq> conn then Inl RequestMismatch
      else if tc_hash tc content' \<noteq> tc_hash tc content then Inl SQLChanged
      else if trim_space database' \<noteq> trim_space database \<or> trim_space schema' \<noteq> trim_space schema then Inl DatabaseChanged
      else Inr (buildSQLScopeAnalysisFromDecisions conn ds))"
proof -
  let ?an = "buildSQLScopeAnalysisFromDecisions conn ds"
  note p = parse_fresh [OF assms, of now]
  show ?thesis
  proof (cases "now < t + queryContextTokenTTL")
    case False
    then show ?thesis using p by (simp add: validateQueryContextToken_def queryContextTokenTTL_def)
  next
    case True
    then have "tc_parse tc secret ''query-context'' now (trim_space tok) = Some (context_claims_of tc t user conn content database schema ?an)"
      using p by simp
    moreover have "\<lparr>sa_scopes = sa_scopes ?an, sa_sensitive = sa_sensitive ?an\<rparr> = ?an" by simp
    ultimately show ?thesis using p True built_scopes_survive [of conn ds]
      by (auto simp: validateQueryContextToken_def context_claims_of_def hashQueryContextSQL_def queryContextTokenTTL_def)
  qed
qed

definition sample_decisions :: "decision list" where
  "sample_decisions = [\<lparr>cd_index = 0, cd_rule = rule_for ''mail'' ModeEmail BlankConfig,
     cd_origins = [\<lparr>co_database = ''shop'', co_schema = [], co_table = ''users'', co_column = ''mail''\<rparr>]\<rparr>]"

definition sample_claims :: context_claims where
  "sample_claims = \<lparr>cl_user = 2, cl_conn = 7, cl_sql_hash = ''h'', cl_database = ''shop'', cl_schema = [], cl_sensitive = True,
     cl_scopes = [\<lparr>sl_database = ''shop'', sl_schema = [], sl_table = ''users'', sl_column = ''mail''\<rparr>], cl_expires = 1810, cl_issued = 10,
     cl_audience = [''query-context'']\<rparr>"

definition sample_codec :: token_codec where
  "sample_codec = \<lparr>tc_sign = (\<lambda>secret c. if secret = ''k'' \<and> c = sample_claims then Some ''tok'' else None),
     tc_parse = (\<lambda>secret aud now tok. if secret = ''k'' \<and> tok = ''tok'' \<and> now < 1810 \<and> aud = ''query-context'' then Some sample_claims else None),
     tc_hash = (\<lambda>_. ''h'')\<rparr>"

lemma sample_codec_honest: "honest_codec sample_codec"
proof -
  have "trim_space ''tok'' = ''tok''" by code_simp
  moreover have "cl_expires sample_claims = 1810" "cl_audience sample_claims = [''query-context'']" by (simp_all add: sample_claims_def)
  ultimately show ?thesis by (auto simp: honest_codec_def sample_codec_def split: if_splits)
qed

lemma sample_token:
  "newQueryContextToken sample_codec ''k'' 10 2 7 ''SELECT mail FROM users'' ''shop'' [] (buildSQLScopeAnalysisFromDecisions 7 sample_decisions) = Some ''tok''"
proof -
  have "context_claims_of sample_codec 10 2 7 ''SELECT mail FROM users'' ''shop'' [] (buildSQLScopeAnalysisFromDecisions 7 sample_decisions) = sample_claims"
    by code_simp
  then show ?thesis by (simp add: newQueryContextToken_def sample_codec_def)
qed

theorem query_context_roundtrip_witness:
  "validateQueryContextToken sample_codec ''k'' 60 ''tok'' 2 7 ''SELECT mail FROM users'' '' shop'' [] = Inr (buildSQLScopeAnalysisFromDecisions 7 sample_decisions) \<and>
   validateQueryContextToken sample_codec ''k'' 60 ''tok'' 3 7 ''SELECT mail FROM users'' ''shop'' [] = Inl RequestMismatch \<and>
   validateQueryContextToken sample_codec ''k'' 1810 ''tok'' 2 7 ''SELECT mail FROM users'' ''shop'' [] = Inl TokenInvalid"
proof -
  have "trim_space '' shop'' = trim_space ''shop''" by code_simp
  then show ?thesis using query_context_roundtrip [OF sample_codec_honest sample_token] by simp
qed

end
