(* ===== verification/Sql_Lineage.thy ===== *)
theory Sql_Lineage
  imports Masking
begin

text \<open>
  Where the columns of a MySQL result come from (\<open>internal/handler/mysql_lineage.go\<close>): the resolver walks the
  syntax tree of a query and gives each result column the columns of stored tables it depends on, which
  decides what is masked.

  The parser is a parameter: a query is the syntax tree it delivers, with the parts the resolver looks at. An
  expression carries its restored text; a nested query in an expression carries the column names the visitor
  meets inside it. \<open>load\<close> is the provider of the columns of a table, \<open>None\<close> an error. Wrapped error texts are
  left out.
\<close>

section \<open>Syntax trees\<close>

record column_ref =
  rf_schema :: string
  rf_table :: string
  rf_name :: string

text \<open>
  A \<open>WITH\<close> entry is a name, its column names and its query. A select has its \<open>WITH\<close> clause, its \<open>FROM\<close> clause and
  its fields, if any. Fields that are missing or auxiliary are \<open>FSkip\<close>.
\<close>

datatype lineage_node =
    LSelect "(string \<times> string list \<times> lineage_node option) list" "lineage_node option" "lineage_field list option"
  | LSetOpr "(string \<times> string list \<times> lineage_node option) list" "lineage_node list"
  | LSelectList "lineage_node list"
  | LTableSource string "string list" lineage_node
  | LTableName string string
  | LJoin "lineage_node option" "lineage_node option"
  | LOther
and lineage_field = FSkip | FWild string string | FExpr string lineage_expr
and lineage_expr = EColumn column_ref | EOther string "lineage_expr list" | ESubquery string "column_ref list" lineage_node

type_synonym with_clause = "(string \<times> string list \<times> lineage_node option) list"

section \<open>Columns and sources\<close>

record lineage_column =
  lc_name :: string
  lc_origin :: column_origin
  lc_deps :: "column_origin list"

record lineage_source =
  ls_alias :: string
  ls_table :: string
  ls_database :: string
  ls_columns :: "lineage_column list"

type_synonym cte_map = "string \<Rightarrow> lineage_column list option"

fun applyColumnAliases :: "lineage_column list \<Rightarrow> string list \<Rightarrow> lineage_column list" where
  "applyColumnAliases (c # cs) (a # as) = (if trim_space a \<noteq> [] then c\<lparr>lc_name := a\<rparr> else c) # applyColumnAliases cs as"
| "applyColumnAliases cs _ = cs"

definition sameOrigin :: "column_origin \<Rightarrow> column_origin \<Rightarrow> bool" where
  "sameOrigin l r \<longleftrightarrow> equal_fold (trim_space (co_database l)) (trim_space (co_database r)) \<and>
     equal_fold (trim_space (co_schema l)) (trim_space (co_schema r)) \<and>
     equal_fold (trim_space (co_table l)) (trim_space (co_table r)) \<and>
     equal_fold (trim_space (co_column l)) (trim_space (co_column r))"

definition mergeSetOperationColumns :: "lineage_column list \<Rightarrow> lineage_column list \<Rightarrow> lineage_column list" where
  "mergeSetOperationColumns ls rs =
     map (\<lambda>(l, r). if sameOrigin (lc_origin l) (lc_origin r) then l else l\<lparr>lc_origin := no_origin\<rparr>) (zip ls rs)"

definition flattenSourceColumns :: "lineage_source list \<Rightarrow> lineage_column list" where
  "flattenSourceColumns sources = concat (map ls_columns sources)"

definition fold_trim :: "string \<Rightarrow> string \<Rightarrow> bool" where
  "fold_trim a b = equal_fold (trim_space a) (trim_space b)"

definition expandWildcardField :: "string \<Rightarrow> string \<Rightarrow> lineage_source list \<Rightarrow> lineage_column list option" where
  "expandWildcardField schema table sources =
     (if table = [] then Some (flattenSourceColumns sources)
      else let matched = concat (map ls_columns (filter (\<lambda>s. (fold_trim table (ls_alias s) \<or> fold_trim table (ls_table s)) \<and>
                 (schema = [] \<or> fold_trim schema (ls_database s))) sources))
        in if matched = [] then None else Some matched)"

section \<open>Expressions\<close>

definition source_matches :: "column_ref \<Rightarrow> lineage_source \<Rightarrow> bool" where
  "source_matches col s \<longleftrightarrow>
     (rf_table col = [] \<or> equal_fold (rf_table col) (ls_alias s) \<or> equal_fold (rf_table col) (ls_table s)) \<and>
     (rf_schema col = [] \<or> ls_database s = [] \<or> equal_fold (rf_schema col) (ls_database s))"

definition column_matches :: "column_ref \<Rightarrow> lineage_column \<Rightarrow> bool" where
  "column_matches col c \<longleftrightarrow> equal_fold (rf_name col) (lc_name c) \<or> equal_fold (rf_name col) (co_column (lc_origin c))"

definition resolveColumnReference :: "column_ref \<Rightarrow> lineage_source list \<Rightarrow> column_origin option" where
  "resolveColumnReference col sources =
     (case concat (map (\<lambda>s. map lc_origin (filter (column_matches col) (ls_columns s))) (filter (source_matches col) sources)) of
        [o1] \<Rightarrow> Some o1
      | _ \<Rightarrow> None)"

text \<open>The names the visitor collects in an expression, those inside nested queries included.\<close>

fun expr_columns :: "lineage_expr \<Rightarrow> column_ref list" where
  "expr_columns (EColumn c) = [c]"
| "expr_columns (EOther _ es) = concat (map expr_columns es)"
| "expr_columns (ESubquery _ cs _) = cs"

definition lineage_key :: "column_origin \<Rightarrow> string" where
  "lineage_key o1 = to_lower (co_database o1) @ ''|'' @ to_lower (co_table o1) @ ''|'' @ to_lower (co_column o1)"

fun dedupe_origins :: "string list \<Rightarrow> column_origin list \<Rightarrow> column_origin list" where
  "dedupe_origins seen [] = []"
| "dedupe_origins seen (o1 # os) =
     (if lineage_key o1 \<in> set seen then dedupe_origins seen os else o1 # dedupe_origins (lineage_key o1 # seen) os)"

definition collectColumnExprOrigins :: "lineage_expr \<Rightarrow> lineage_source list \<Rightarrow> column_origin list" where
  "collectColumnExprOrigins e sources = dedupe_origins [] (List.map_filter (\<lambda>c. resolveColumnReference c sources) (expr_columns e))"

definition resolveExprLineage :: "lineage_expr \<Rightarrow> lineage_source list \<Rightarrow> column_origin list \<times> column_origin" where
  "resolveExprLineage e sources = (let os = collectColumnExprOrigins e sources
     in (os, case os of [o1] \<Rightarrow> o1 | _ \<Rightarrow> no_origin))"

fun expr_text :: "lineage_expr \<Rightarrow> string" where
  "expr_text (EColumn c) = rf_name c"
| "expr_text (EOther s _) = trim_space s"
| "expr_text (ESubquery s _ _) = trim_space s"

definition field_column :: "string \<Rightarrow> lineage_expr \<Rightarrow> lineage_source list \<Rightarrow> lineage_column" where
  "field_column as e sources =
     (case resolveExprLineage e sources of (deps, o1) \<Rightarrow>
        let name = (if as \<noteq> [] then as else expr_text e)
        in \<lparr>lc_name = (if name = [] \<and> co_column o1 \<noteq> [] then co_column o1 else name), lc_origin = o1, lc_deps = deps\<rparr>)"

fun select_fields :: "lineage_source list \<Rightarrow> lineage_field list \<Rightarrow> lineage_column list option" where
  "select_fields sources [] = Some []"
| "select_fields sources (FSkip # fs) = select_fields sources fs"
| "select_fields sources (FWild schema table # fs) =
     (case expandWildcardField schema table sources of None \<Rightarrow> None
      | Some cs \<Rightarrow> map_option ((@) cs) (select_fields sources fs))"
| "select_fields sources (FExpr as e # fs) = map_option ((#) (field_column as e sources)) (select_fields sources fs)"

section \<open>The resolver\<close>

definition table_columns :: "string \<Rightarrow> string \<Rightarrow> string list \<Rightarrow> lineage_column list" where
  "table_columns database table names = map (\<lambda>c.
     let o1 = \<lparr>co_database = database, co_schema = [], co_table = table, co_column = c\<rparr>
     in \<lparr>lc_name = c, lc_origin = o1, lc_deps = [o1]\<rparr>) names"

definition derived_source :: "string \<Rightarrow> string \<Rightarrow> string list \<Rightarrow> lineage_column list \<Rightarrow> lineage_source" where
  "derived_source as fallback names cols = (let alias = (if as = [] then fallback else as)
     in \<lparr>ls_alias = alias, ls_table = alias, ls_database = [], ls_columns = applyColumnAliases cols names\<rparr>)"

definition is_query :: "lineage_node \<Rightarrow> bool" where
  "is_query n = (case n of LSelect _ _ _ \<Rightarrow> True | LSetOpr _ _ \<Rightarrow> True | _ \<Rightarrow> False)"

definition is_operand :: "lineage_node \<Rightarrow> bool" where
  "is_operand n = (case n of LSelect _ _ _ \<Rightarrow> True | LSelectList _ \<Rightarrow> True | _ \<Rightarrow> False)"

definition is_join_node :: "lineage_node \<Rightarrow> bool" where
  "is_join_node n = (case n of LJoin _ _ \<Rightarrow> True | _ \<Rightarrow> False)"

text \<open>
  \<open>resolve_query\<close> is the resolver of selects, set operations and operand lists, \<open>resolve_sources\<close> that of the nodes
  of a \<open>FROM\<close> clause. \<open>resolve_withs\<close> and \<open>resolve_operands\<close> are the loops over \<open>WITH\<close> entries and over the
  operands of a set operation, which callers guard by the type switches of the code.
\<close>

function
  resolve_query :: "(string \<Rightarrow> string \<Rightarrow> string list option) \<Rightarrow> string \<Rightarrow> cte_map \<Rightarrow> lineage_node \<Rightarrow> lineage_column list option" and
  resolve_withs :: "(string \<Rightarrow> string \<Rightarrow> string list option) \<Rightarrow> string \<Rightarrow> cte_map \<Rightarrow> with_clause \<Rightarrow> cte_map option" and
  resolve_operands :: "(string \<Rightarrow> string \<Rightarrow> string list option) \<Rightarrow> string \<Rightarrow> cte_map \<Rightarrow> lineage_column list option \<Rightarrow> lineage_node list \<Rightarrow> lineage_column list option" and
  resolve_sources :: "(string \<Rightarrow> string \<Rightarrow> string list option) \<Rightarrow> string \<Rightarrow> cte_map \<Rightarrow> lineage_node \<Rightarrow> lineage_source list option" where
  "resolve_query load db ctes (LSelect withs from flds) =
     (case resolve_withs load db ctes withs of None \<Rightarrow> None
      | Some ctes' \<Rightarrow>
          (case (case from of None \<Rightarrow> Some [] | Some n \<Rightarrow> if is_join_node n then resolve_sources load db ctes' n else None) of
             None \<Rightarrow> None
           | Some sources \<Rightarrow> (case flds of None \<Rightarrow> Some [] | Some fs \<Rightarrow> select_fields sources fs)))"
| "resolve_query load db ctes (LSetOpr withs sels) =
     (case resolve_withs load db ctes withs of None \<Rightarrow> None
      | Some ctes' \<Rightarrow> resolve_operands load db ctes' None sels)"
| "resolve_query load db ctes (LSelectList sels) = resolve_operands load db ctes None sels"
| "resolve_query load db ctes (LTableSource _ _ _) = None"
| "resolve_query load db ctes (LTableName _ _) = None"
| "resolve_query load db ctes (LJoin _ _) = None"
| "resolve_query load db ctes LOther = None"
| "resolve_withs load db ctes [] = Some ctes"
| "resolve_withs load db ctes ((name, cols, None) # withs) = resolve_withs load db ctes withs"
| "resolve_withs load db ctes ((name, cols, Some q) # withs) =
     (if \<not> is_query q then None
      else case resolve_query load db ctes q of None \<Rightarrow> None
        | Some cs \<Rightarrow> resolve_withs load db (ctes(to_lower name \<mapsto> applyColumnAliases cs cols)) withs)"
| "resolve_operands load db ctes acc [] = Some (case acc of None \<Rightarrow> [] | Some cs \<Rightarrow> cs)"
| "resolve_operands load db ctes acc (n # ns) =
     (if \<not> is_operand n then None
      else case resolve_query load db ctes n of None \<Rightarrow> None
        | Some cs \<Rightarrow> resolve_operands load db ctes
            (Some (case acc of None \<Rightarrow> cs | Some merged \<Rightarrow> mergeSetOperationColumns merged cs)) ns)"
| "resolve_sources load db ctes (LJoin l r) =
     (case (case l of None \<Rightarrow> Some [] | Some n \<Rightarrow> resolve_sources load db ctes n) of None \<Rightarrow> None
      | Some ls \<Rightarrow> map_option ((@) ls) (case r of None \<Rightarrow> Some [] | Some n \<Rightarrow> resolve_sources load db ctes n))"
| "resolve_sources load db ctes (LTableSource as names src) =
     (case src of
        LTableName schema name \<Rightarrow>
          let alias = (if as = [] then name else as)
          in (case (if schema = [] then ctes (to_lower name) else None) of
                Some cols \<Rightarrow> Some [\<lparr>ls_alias = alias, ls_table = name, ls_database = [], ls_columns = applyColumnAliases cols names\<rparr>]
              | None \<Rightarrow>
                  let database = (if schema = [] then db else schema)
                  in map_option (\<lambda>cs. [\<lparr>ls_alias = alias, ls_table = name, ls_database = database,
                       ls_columns = table_columns database name cs\<rparr>]) (load database name))
      | LSelect _ _ _ \<Rightarrow> map_option (\<lambda>cs. [derived_source as ''derived'' names cs]) (resolve_query load db ctes src)
      | LSetOpr _ _ \<Rightarrow> map_option (\<lambda>cs. [derived_source as ''derived'' names cs]) (resolve_query load db ctes src)
      | LJoin _ _ \<Rightarrow> map_option (\<lambda>ss. [derived_source as ''join'' names (flattenSourceColumns ss)]) (resolve_sources load db ctes src)
      | _ \<Rightarrow> None)"
| "resolve_sources load db ctes (LSelect _ _ _) = None"
| "resolve_sources load db ctes (LSetOpr _ _) = None"
| "resolve_sources load db ctes (LSelectList _) = None"
| "resolve_sources load db ctes (LTableName _ _) = None"
| "resolve_sources load db ctes LOther = None"
  by pat_completeness auto
termination
  by (relation "measure (\<lambda>x. case x of
       Inl (Inl (_, _, _, n)) \<Rightarrow> 2 * size n
     | Inl (Inr (_, _, _, ws)) \<Rightarrow> 2 * size_list (size_prod (\<lambda>_. 0) (size_prod (\<lambda>_. 0) (size_option size))) ws
     | Inr (Inl (_, _, _, _, ns)) \<Rightarrow> 2 * size_list size ns
     | Inr (Inr (_, _, _, n)) \<Rightarrow> 2 * size n)") auto

definition resolveStatementColumns :: "(string \<Rightarrow> string \<Rightarrow> string list option) \<Rightarrow> string \<Rightarrow> lineage_node \<Rightarrow> lineage_column list option" where
  "resolveStatementColumns load db n = (if is_query n then resolve_query load db (\<lambda>_. None) n else None)"

text \<open>The outer \<open>None\<close> is an error. A text of several statements gives no columns and no error.\<close>

definition resolveMySQLLineageForStatement ::
    "(string \<Rightarrow> lineage_node list option) \<Rightarrow> (string \<Rightarrow> string \<Rightarrow> string list option) \<Rightarrow> string \<Rightarrow> string \<Rightarrow> string list \<Rightarrow> lineage_column list option" where
  "resolveMySQLLineageForStatement parse load db statement rawColumns =
     (case parse statement of None \<Rightarrow> None
      | Some [n] \<Rightarrow> (case resolveStatementColumns load db n of None \<Rightarrow> None
          | Some cols \<Rightarrow> if length cols \<noteq> length rawColumns then None else Some cols)
      | Some _ \<Rightarrow> Some [])"

definition shouldResolveMySQLOrigins :: "string list \<Rightarrow> bool" where
  "shouldResolveMySQLOrigins rawColumns = list_ex (\<lambda>c. length (split_on (CHR ''.'') (trim_space c)) \<noteq> 2) rawColumns"

section \<open>The columns of a table\<close>

text \<open>
  The provider keeps what it has read, under the names in lower case. \<open>read\<close> is the query of the information
  schema.
\<close>

type_synonym column_cache = "string \<Rightarrow> string list option"

definition cache_key :: "string \<Rightarrow> string \<Rightarrow> string" where
  "cache_key database table = to_lower (trim_space database) @ ''.'' @ to_lower (trim_space table)"

definition LoadColumns :: "(string \<Rightarrow> string \<Rightarrow> string list option) \<Rightarrow> string \<Rightarrow> string \<Rightarrow> column_cache \<Rightarrow> string list option \<times> column_cache" where
  "LoadColumns read database table cache =
     (case cache (cache_key database table) of
        Some cs \<Rightarrow> (Some cs, cache)
      | None \<Rightarrow> (case read database table of None \<Rightarrow> (None, cache)
          | Some cs \<Rightarrow> (Some cs, cache(cache_key database table \<mapsto> cs))))"

fun load_all :: "(string \<Rightarrow> string \<Rightarrow> string list option) \<Rightarrow> (string \<times> string) list \<Rightarrow> column_cache \<Rightarrow> string list option list" where
  "load_all read [] cache = []"
| "load_all read ((d, t) # ts) cache = (case LoadColumns read d t cache of (r, cache') \<Rightarrow> r # load_all read ts cache')"

end
