(* ===== verification/Query_Editor.thy ===== *)
theory Query_Editor
  imports Query_Context Sql_Lineage Redis_Review Runtime Sql_Policy
begin

text \<open>
  The SQL editor: the handlers of \<open>internal/handler/query.go\<close>, the rewriting of limits
  (\<open>internal/sqlparse/limit_rewrite.go\<close>) and the stored history and saved queries
  (\<open>internal/repository/query_artifact.go\<close>).

  The record \<open>editor_env\<close> holds what the handlers use from outside: the stored connections, the parsers, the
  answers of the target databases, the token codec and the settings. \<open>ef\<close> says which of a handler's own
  database calls fail. The commands of a request sent to a target database are recorded in \<open>ed_sent\<close>, the
  program's own look-ups there (the connection id, the catalogs) are not. Durations, log entries and the
  details of audit entries are left out.
\<close>

section \<open>Settings\<close>

record timeout_settings =
  to_app :: int
  to_mysql_ms :: int
  to_postgres_ms :: int

definition defaultSQLEditorTimeoutSettings :: timeout_settings where
  "defaultSQLEditorTimeoutSettings = \<lparr>to_app = 30, to_mysql_ms = 25000, to_postgres_ms = 25000\<rparr>"

definition positive_or :: "int \<Rightarrow> int \<Rightarrow> int" where
  "positive_or v d = (if v > 0 then v else d)"

text \<open>\<open>None\<close>: the settings could not be read.\<close>

definition loadSQLEditorTimeoutSettings :: "timeout_settings option \<Rightarrow> timeout_settings" where
  "loadSQLEditorTimeoutSettings stored =
     (let d = defaultSQLEditorTimeoutSettings
      in case stored of None \<Rightarrow> d
         | Some p \<Rightarrow> \<lparr>to_app = positive_or (to_app p) (to_app d), to_mysql_ms = positive_or (to_mysql_ms p) (to_mysql_ms d),
             to_postgres_ms = positive_or (to_postgres_ms p) (to_postgres_ms d)\<rparr>)"

definition defaultQueryLimit :: int where "defaultQueryLimit = 200"

definition maxQueryLimit :: int where "maxQueryLimit = 1000"

definition query_limit :: "int \<Rightarrow> int" where
  "query_limit l = (if l > 0 \<and> l \<le> maxQueryLimit then l else if l > maxQueryLimit then maxQueryLimit else defaultQueryLimit)"

section \<open>Limits\<close>

text \<open>
  What the two parsers say of a statement: for MySQL its kind of node, whether it has a limit and its text with
  the limit given; for PostgreSQL the tree of a text, and its texts as it is and with a limit, \<open>None\<close> when it
  cannot be printed.
\<close>

datatype mysql_limit = MyLimited string | MyUnlimited "int \<Rightarrow> string" | MyNotSelect

datatype pg_limit = PgUnparsed | PgNotOne | PgNotSelect | PgLimited "string option" | PgUnlimited "int \<Rightarrow> string option"

record limit_parser =
  lp_parse :: "dialect \<Rightarrow> string \<Rightarrow> parsed_statement list option"
  lp_mysql :: "parsed_statement \<Rightarrow> mysql_limit"
  lp_postgres :: "string \<Rightarrow> pg_limit"

definition rewriteMySQLSelectLimit :: "limit_parser \<Rightarrow> parsed_statement \<Rightarrow> int \<Rightarrow> string option" where
  "rewriteMySQLSelectLimit lp st limit = (case lp_mysql lp st of
     MyLimited s \<Rightarrow> Some s | MyUnlimited f \<Rightarrow> Some (f limit) | MyNotSelect \<Rightarrow> None)"

definition without_semicolon :: "string \<Rightarrow> string" where
  "without_semicolon s = trim_space (trim_suffix s '';'')"

definition rewritePostgresSelectLimit :: "limit_parser \<Rightarrow> string \<Rightarrow> int \<Rightarrow> string option" where
  "rewritePostgresSelectLimit lp sql limit = (case lp_postgres lp sql of
     PgUnparsed \<Rightarrow> None
   | PgNotOne \<Rightarrow> Some sql
   | PgNotSelect \<Rightarrow> Some (without_semicolon sql)
   | PgLimited None \<Rightarrow> Some (without_semicolon sql)
   | PgLimited (Some s) \<Rightarrow> Some (trim_space s)
   | PgUnlimited f \<Rightarrow> map_option trim_space (f limit))"

definition RewriteSelectLimit :: "limit_parser \<Rightarrow> dialect \<Rightarrow> string \<Rightarrow> int \<Rightarrow> string option" where
  "RewriteSelectLimit lp d sql limit = (case ParseSQL (lp_parse lp) d sql of
     None \<Rightarrow> None
   | Some [st] \<Rightarrow>
       let normalized = without_semicolon (ps_raw st)
       in if normalized = [] then Some sql
          else if ps_kind st \<noteq> KindSelect then Some normalized
          else if limit \<le> 0 then Some normalized
          else (case d of DialectMySQL \<Rightarrow> rewriteMySQLSelectLimit lp st limit
             | DialectPostgres \<Rightarrow> rewritePostgresSelectLimit lp normalized limit
             | DialectGeneric \<Rightarrow> Some normalized)
   | Some _ \<Rightarrow> Some sql)"

definition injectLimit :: "limit_parser \<Rightarrow> string \<Rightarrow> int \<Rightarrow> string \<Rightarrow> string" where
  "injectLimit lp sql limit ty =
     (if ty = ''redis'' then sql
      else case RewriteSelectLimit lp (DialectFromDBType ty) sql limit of
        None \<Rightarrow> sql
      | Some r \<Rightarrow> if trim_space r = [] then sql else r)"

text \<open>The splitter of the editor. The scan is that of the statement parser, but pieces are neither trimmed nor dropped when blank.\<close>

fun limit_split :: "string \<Rightarrow> string \<Rightarrow> nat \<times> char option \<Rightarrow> string list" where
  "limit_split [] cur s = (if cur = [] then [] else [rev cur])"
| "limit_split (c # cs) cur s = (case scan_step c s of
     None \<Rightarrow> rev cur # limit_split cs [] (0, None)
   | Some s' \<Rightarrow> limit_split cs (c # cur) s')"

definition splitSQLStatementsForLimit :: "string \<Rightarrow> string list" where
  "splitSQLStatementsForLimit sql = limit_split sql [] (0, None)"

section \<open>Cells\<close>

text \<open>A value a driver delivers: time values are in their printed form, and other values carry what \<open>Sprint\<close> prints.\<close>

datatype go_value = GoNil | GoBytes "nat list" | GoTime string | GoValuer "go_value option" string | GoOther string

definition isBinaryDatabaseType :: "string \<Rightarrow> bool" where
  "isBinaryDatabaseType ty = (to_upper (trim_space ty) \<in> {''BINARY'', ''VARBINARY'', ''BLOB'', ''TINYBLOB'', ''MEDIUMBLOB'', ''LONGBLOB'', ''BYTEA'', ''BIT''})"

definition hex_digit :: "nat \<Rightarrow> char" where
  "hex_digit d = ''0123456789abcdef'' ! d"

definition hex_encode :: "nat list \<Rightarrow> string" where
  "hex_encode bs = concat (map (\<lambda>b. [hex_digit (b div 16), hex_digit (b mod 16)]) bs)"

fun queryResultCellValueForDatabaseType :: "string \<Rightarrow> go_value \<Rightarrow> string option" where
  "queryResultCellValueForDatabaseType ty GoNil = None"
| "queryResultCellValueForDatabaseType ty (GoBytes bs) =
     Some (if isBinaryDatabaseType ty then ''0x'' @ hex_encode bs else map char_of bs)"
| "queryResultCellValueForDatabaseType ty (GoTime s) = Some s"
| "queryResultCellValueForDatabaseType ty (GoValuer None s) = Some s"
| "queryResultCellValueForDatabaseType ty (GoValuer (Some v) s) = queryResultCellValueForDatabaseType ty v"
| "queryResultCellValueForDatabaseType ty (GoOther s) = Some s"

definition queryResultCellValue :: "go_value \<Rightarrow> string option" where
  "queryResultCellValue v = queryResultCellValueForDatabaseType [] v"

section \<open>Target databases\<close>

datatype exec_error = DeadlineExceeded | ContextCanceled | DBFailure string

record my_rows =
  mq_columns :: "string list"
  mq_types :: "string list"
  mq_rows :: "go_value list list"

record pg_field =
  pf_name :: string
  pf_type :: nat
  pf_table :: nat
  pf_attr :: nat

record pg_rows =
  pq_fields :: "pg_field list"
  pq_rows :: "go_value list list"

record pg_attribute =
  pa_table :: nat
  pa_num :: nat
  pa_schema :: string
  pa_relation :: string
  pa_name :: string

record sql_server =
  sv_open :: "exec_error option"
  sv_scoped :: "exec_error option"
  sv_exec :: "string \<Rightarrow> exec_error option"
  sv_thread :: nat
  sv_query :: "string \<Rightarrow> exec_error + my_rows"
  sv_load :: "string \<Rightarrow> string \<Rightarrow> string list option"
  sv_pg_query :: "string \<Rightarrow> exec_error + pg_rows"
  sv_attributes :: "nat list \<Rightarrow> exec_error + pg_attribute list"
  sv_database :: string

datatype sent = SentExec string | SentQuery string | SentRedis int string "string list"

section \<open>Columns of a result\<close>

definition inferColumnOriginsFromLabels :: "string list \<Rightarrow> string \<Rightarrow> column_origin list" where
  "inferColumnOriginsFromLabels columns database = map (\<lambda>c. case split_on (CHR ''.'') c of
     [t, n] \<Rightarrow> \<lparr>co_database = database, co_schema = [], co_table = t, co_column = n\<rparr>
   | _ \<Rightarrow> no_origin\<lparr>co_column := c\<rparr>) columns"

definition dependenciesFromOrigins :: "column_origin list \<Rightarrow> column_origin list list" where
  "dependenciesFromOrigins os = map (\<lambda>o1. if trim_space (co_column o1) = [] then [] else [o1]) os"

definition displayColumnLabel :: "string \<Rightarrow> string" where
  "displayColumnLabel raw = (case split_on (CHR ''.'') (trim_space raw) of
     [_, n] \<Rightarrow> if trim_space n \<noteq> [] then trim_space n else raw
   | _ \<Rightarrow> raw)"

definition buildDisplayColumns :: "string list \<Rightarrow> string list" where
  "buildDisplayColumns raw = map displayColumnLabel raw"

definition isMySQLMetadataStatement :: "string \<Rightarrow> bool" where
  "isMySQLMetadataStatement statement = (case Go_Prelude.fields (trim_space statement) of
     [] \<Rightarrow> False
   | w # _ \<Rightarrow> to_upper w \<in> {''SHOW'', ''DESC'', ''DESCRIBE'', ''EXPLAIN''})"

record query_context =
  qc_database :: string
  qc_schema :: string
  qc_redis :: "int option"
  qc_limit :: int

definition effectiveQueryDatabaseName :: "db_connection \<Rightarrow> query_context \<Rightarrow> string" where
  "effectiveQueryDatabaseName conn qc = (if qc_database qc \<noteq> [] then qc_database qc else connectionDatabaseName conn)"

definition replace_char :: "char \<Rightarrow> string \<Rightarrow> string \<Rightarrow> string" where
  "replace_char c r s = concat (map (\<lambda>x. if x = c then r else [x]) s)"

definition quoteMySQLIdentifier :: "string \<Rightarrow> string" where
  "quoteMySQLIdentifier s = [CHR 0x60] @ replace_char (CHR 0x60) [CHR 0x60, CHR 0x60] (trim_space s) @ [CHR 0x60]"

definition my_result :: "(string \<Rightarrow> lineage_node list option) \<Rightarrow> sql_server \<Rightarrow> db_connection \<Rightarrow> query_context \<Rightarrow> string \<Rightarrow> my_rows \<Rightarrow> query_result" where
  "my_result lineage sv conn qc statement rows =
     (let cols = mq_columns rows; database = effectiveQueryDatabaseName conn qc;
          meta = isMySQLMetadataStatement statement;
          origins = (if meta then replicate (length cols) no_origin else inferColumnOriginsFromLabels cols database);
          deps = (if meta then replicate (length cols) [] else dependenciesFromOrigins origins);
          r = \<lparr>qr_columns = buildDisplayColumns cols, qr_raw_columns = cols, qr_origins = origins, qr_dependencies = deps,
                qr_rows = map (\<lambda>vals. map (\<lambda>(i, v). queryResultCellValueForDatabaseType (if i < length (mq_types rows) then mq_types rows ! i else []) v)
                  (zip [0..<length vals] vals)) (mq_rows rows)\<rparr>
      in if meta \<or> \<not> shouldResolveMySQLOrigins cols then r
         else case resolveMySQLLineageForStatement lineage (sv_load sv) database statement cols of
           Some resolved \<Rightarrow> if length resolved = length cols
             then r\<lparr>qr_origins := map lc_origin resolved, qr_dependencies := map lc_deps resolved\<rparr> else r
         | None \<Rightarrow> r)"

text \<open>The attributes of the tables the fields name; a later row for the same attribute replaces an earlier one.\<close>

definition named_fields :: "pg_field list \<Rightarrow> pg_field list" where
  "named_fields fs = filter (\<lambda>f. pf_table f \<noteq> 0 \<and> pf_attr f \<noteq> 0) fs"

definition attribute_origin :: "string \<Rightarrow> pg_attribute list \<Rightarrow> pg_field \<Rightarrow> column_origin" where
  "attribute_origin database attrs f = (case find (\<lambda>a. pa_table a = pf_table f \<and> pa_num a = pf_attr f) (rev attrs) of
     Some a \<Rightarrow> \<lparr>co_database = database, co_schema = pa_schema a, co_table = pa_relation a, co_column = pa_name a\<rparr>
   | None \<Rightarrow> no_origin\<lparr>co_column := pf_name f\<rparr>)"

definition resolvePostgresOrigins :: "sql_server \<Rightarrow> pg_field list \<Rightarrow> exec_error + column_origin list" where
  "resolvePostgresOrigins sv fs =
     (if named_fields fs = [] then Inr (map (attribute_origin (sv_database sv) []) fs)
      else case sv_attributes sv (rev (remdups (rev (map pf_table (named_fields fs))))) of
        Inl e \<Rightarrow> Inl e
      | Inr attrs \<Rightarrow> Inr (map (attribute_origin (sv_database sv) attrs) fs))"

definition queryResultCellValueForPostgresField :: "pg_field \<Rightarrow> go_value \<Rightarrow> string option" where
  "queryResultCellValueForPostgresField f v =
     (if pf_type f = 17 then queryResultCellValueForDatabaseType ''BYTEA'' v else queryResultCellValue v)"

definition collectPostgresQueryResult :: "sql_server \<Rightarrow> pg_rows \<Rightarrow> exec_error + query_result" where
  "collectPostgresQueryResult sv rows =
     (let fs = pq_fields rows; columns = map pf_name fs
      in case resolvePostgresOrigins sv fs of Inl e \<Rightarrow> Inl e
         | Inr origins \<Rightarrow> Inr \<lparr>qr_columns = buildDisplayColumns columns, qr_raw_columns = columns, qr_origins = origins,
             qr_dependencies = dependenciesFromOrigins origins,
             qr_rows = map (\<lambda>vals. map (\<lambda>(f, v). queryResultCellValueForPostgresField f v) (zip fs vals)) (pq_rows rows)\<rparr>)"

section \<open>State\<close>

record history_entry =
  he_user :: id64
  he_conn :: id64
  he_database :: "string option"
  he_schema :: "string option"
  he_redis :: "int option"
  he_content :: string
  he_rows :: nat
  he_created_at :: timestamp

record saved_query =
  sq_id :: id64
  sq_user :: id64
  sq_label :: string
  sq_conn :: id64
  sq_database :: "string option"
  sq_schema :: "string option"
  sq_redis :: "int option"
  sq_content :: string

record editor =
  ed_world :: world
  ed_registry :: query_registry
  ed_history :: "history_entry list"
  ed_saved :: "saved_query list"
  ed_next_saved :: id64
  ed_sent :: "sent list"

definition send :: "sent \<Rightarrow> editor \<Rightarrow> editor" where
  "send x ed = ed\<lparr>ed_sent := ed_sent ed @ [x]\<rparr>"

definition audit :: "string \<Rightarrow> id64 \<Rightarrow> id64 \<Rightarrow> editor \<Rightarrow> editor" where
  "audit action user resource ed = ed\<lparr>ed_world := emit (Audit action (Some user) resource) (ed_world ed)\<rparr>"

section \<open>Running a query\<close>

record query_options =
  qo_id :: string
  qo_user :: id64
  qo_now :: timestamp

text \<open>
  A statement is registered while it runs, so that it can be cancelled; a cancel that came first ends it at once.
  \<open>thread\<close> is the MySQL thread or the PostgreSQL process; without one the statement is not registered.
\<close>

definition run_registered ::
    "query_options \<Rightarrow> db_connection \<Rightarrow> bool \<Rightarrow> nat \<Rightarrow> string \<Rightarrow> exec_error + query_result \<Rightarrow> editor \<Rightarrow> (exec_error + query_result) \<times> editor" where
  "run_registered opts conn postgres thread statement answer ed =
     (if thread > 0 \<and> qo_id opts \<noteq> [] then
        (case register_query (qo_now opts) (qo_id opts) \<lparr>aq_user = qo_user opts, aq_conn = dc_id conn, aq_ticket = 0, aq_db_type = dc_db_type conn,
            aq_thread = (if postgres then 0 else thread), aq_pid = (if postgres then thread else 0), aq_statement = statement, aq_has_opener = True\<rparr>
            (ed_registry ed) of
           (True, reg) \<Rightarrow> (Inl ContextCanceled, ed\<lparr>ed_registry := reg\<rparr>)
         | (False, reg) \<Rightarrow> (answer, send (SentQuery statement) (ed\<lparr>ed_registry := remove_query (qo_id opts) reg\<rparr>)))
      else (answer, send (SentQuery statement) ed))"

definition executeSingleSQLStatement ::
    "(string \<Rightarrow> lineage_node list option) \<Rightarrow> sql_server \<Rightarrow> query_options \<Rightarrow> db_connection \<Rightarrow> query_context \<Rightarrow> string \<Rightarrow> editor \<Rightarrow> (exec_error + query_result) \<times> editor" where
  "executeSingleSQLStatement lineage sv opts conn qc statement ed =
     run_registered opts conn False (sv_thread sv) statement
       (case sv_query sv statement of Inl e \<Rightarrow> Inl e | Inr rows \<Rightarrow> Inr (my_result lineage sv conn qc statement rows)) ed"

definition executeSinglePostgresStatement ::
    "sql_server \<Rightarrow> query_options \<Rightarrow> db_connection \<Rightarrow> string \<Rightarrow> editor \<Rightarrow> (exec_error + query_result) \<times> editor" where
  "executeSinglePostgresStatement sv opts conn statement ed =
     run_registered opts conn True (sv_thread sv) statement
       (case sv_pg_query sv statement of Inl e \<Rightarrow> Inl e | Inr rows \<Rightarrow> collectPostgresQueryResult sv rows) ed"

text \<open>The pieces of a text one after another, blank ones left out; the result is that of the last.\<close>

fun run_pieces :: "(string \<Rightarrow> editor \<Rightarrow> (exec_error + query_result) \<times> editor) \<Rightarrow> string list \<Rightarrow> query_result option \<Rightarrow> editor
    \<Rightarrow> (exec_error + query_result) \<times> editor" where
  "run_pieces run [] result ed = (case result of None \<Rightarrow> Inl (DBFailure ''empty query'') | Some r \<Rightarrow> Inr r, ed)"
| "run_pieces run (p # ps) result ed =
     (if trim_space p = [] then run_pieces run ps result ed
      else case run (trim_space p) ed of
        (Inl e, ed1) \<Rightarrow> (Inl e, ed1)
      | (Inr r, ed1) \<Rightarrow> run_pieces run ps (Some r) ed1)"

fun run_setup :: "sql_server \<Rightarrow> string list \<Rightarrow> editor \<Rightarrow> exec_error option \<times> editor" where
  "run_setup sv [] ed = (None, ed)"
| "run_setup sv (c # cs) ed = (case sv_exec sv c of
     Some e \<Rightarrow> (Some e, send (SentExec c) ed)
   | None \<Rightarrow> run_setup sv cs (send (SentExec c) ed))"

definition mysql_setup :: "query_context \<Rightarrow> timeout_settings \<Rightarrow> string list" where
  "mysql_setup qc ts = (if qc_database qc \<noteq> [] then [''USE '' @ quoteMySQLIdentifier (qc_database qc)] else []) @
     [''SET SESSION max_execution_time = '' @ itoa (to_mysql_ms ts)]"

definition executeSQLQuery ::
    "(string \<Rightarrow> lineage_node list option) \<Rightarrow> sql_server \<Rightarrow> query_options \<Rightarrow> db_connection \<Rightarrow> string \<Rightarrow> query_context \<Rightarrow> timeout_settings \<Rightarrow> editor
      \<Rightarrow> (exec_error + query_result) \<times> editor" where
  "executeSQLQuery lineage sv opts conn sql qc ts ed =
     (case sv_open sv of Some e \<Rightarrow> (Inl e, ed)
      | None \<Rightarrow>
          (case run_setup sv (mysql_setup qc ts) ed of
             (Some e, ed1) \<Rightarrow> (Inl e, ed1)
           | (None, ed1) \<Rightarrow> run_pieces (executeSingleSQLStatement lineage sv opts conn qc) (splitSQLStatementsForLimit sql) None ed1))"

definition postgres_setup :: "query_context \<Rightarrow> timeout_settings \<Rightarrow> string list" where
  "postgres_setup qc ts = [''SET statement_timeout = '' @ itoa (to_postgres_ms ts)] @
     (if qc_schema qc \<noteq> [] then [''SET search_path TO '' @ [CHR 0x22] @ replace_char (CHR 0x22) [CHR 0x22, CHR 0x22] (qc_schema qc) @ [CHR 0x22]] else [])"

definition executePostgresQuery ::
    "sql_server \<Rightarrow> query_options \<Rightarrow> db_connection \<Rightarrow> string \<Rightarrow> query_context \<Rightarrow> timeout_settings \<Rightarrow> editor \<Rightarrow> (exec_error + query_result) \<times> editor" where
  "executePostgresQuery sv opts conn sql qc ts ed =
     (case (if qc_database qc \<noteq> [] \<and> \<not> equal_fold (qc_database qc) (connectionDatabaseName conn) then sv_scoped sv else None) of
        Some e \<Rightarrow> (Inl e, ed)
      | None \<Rightarrow>
          (case sv_open sv of Some e \<Rightarrow> (Inl e, ed)
           | None \<Rightarrow>
               (case run_setup sv (postgres_setup qc ts) ed of
                  (Some e, ed1) \<Rightarrow> (Inl e, ed1)
                | (None, ed1) \<Rightarrow> run_pieces (executeSinglePostgresStatement sv opts conn) (splitSQLStatementsForLimit sql) None ed1)))"

definition executeQueryForConnection ::
    "(string \<Rightarrow> lineage_node list option) \<Rightarrow> sql_server \<Rightarrow> query_options \<Rightarrow> db_connection \<Rightarrow> string \<Rightarrow> query_context \<Rightarrow> timeout_settings \<Rightarrow> editor
      \<Rightarrow> (exec_error + query_result) \<times> editor" where
  "executeQueryForConnection lineage sv opts conn sql qc ts ed =
     (if dc_db_type conn \<in> {''postgres'', ''postgresql''} then executePostgresQuery sv opts conn sql qc ts ed
      else executeSQLQuery lineage sv opts conn sql qc ts ed)"

section \<open>Redis\<close>

datatype redis_value =
    RedisNil | RedisString string | RedisInt int | RedisList "go_value list" | RedisMap "(go_value \<times> go_value) list"
  | RedisStringMap "(string \<times> go_value) list" | RedisOther go_value

definition table_result :: "string list \<Rightarrow> string option list list \<Rightarrow> query_result" where
  "table_result cols rows = \<lparr>qr_columns = cols, qr_raw_columns = [], qr_origins = [], qr_dependencies = [], qr_rows = rows\<rparr>"

fun redisResultToQueryResult :: "redis_value \<Rightarrow> query_result" where
  "redisResultToQueryResult RedisNil = table_result [''result''] [[Some ''(nil)'']]"
| "redisResultToQueryResult (RedisString s) = table_result [''result''] [[Some s]]"
| "redisResultToQueryResult (RedisInt n) = table_result [''result''] [[Some (itoa n)]]"
| "redisResultToQueryResult (RedisList vs) = table_result [''value''] (map (\<lambda>v. [queryResultCellValue v]) vs)"
| "redisResultToQueryResult (RedisMap kvs) = table_result [''field'', ''value''] (map (\<lambda>(k, v). [queryResultCellValue k, queryResultCellValue v]) kvs)"
| "redisResultToQueryResult (RedisStringMap kvs) = table_result [''field'', ''value''] (map (\<lambda>(k, v). [Some k, queryResultCellValue v]) kvs)"
| "redisResultToQueryResult (RedisOther v) = table_result [''result''] [[queryResultCellValue v]]"

text \<open>\<open>rs_info\<close> says whether the server reports a command as read-only, \<open>None\<close> when it cannot be asked.\<close>

record redis_server =
  rs_info :: "string \<Rightarrow> bool option"
  rs_do :: "int \<Rightarrow> string \<Rightarrow> string list \<Rightarrow> exec_error + redis_value"

record key_prefix =
  kp_conn :: id64
  kp_db_index :: "int option"
  kp_prefix :: string
  kp_active :: bool

definition ListActiveForConnection :: "key_prefix list \<Rightarrow> id64 \<Rightarrow> int \<Rightarrow> key_prefix list" where
  "ListActiveForConnection ps conn i = filter (\<lambda>p. kp_conn p = conn \<and> kp_active p \<and> (kp_db_index p = None \<or> kp_db_index p = Some i)) ps"

definition RedisSensitiveKeyPrefixValues :: "key_prefix list \<Rightarrow> string list" where
  "RedisSensitiveKeyPrefixValues ps = filter (\<lambda>v. v \<noteq> []) (map (\<lambda>p. trim_space (kp_prefix p)) ps)"

definition redisCommandArgsChanged :: "string \<Rightarrow> string \<Rightarrow> string list \<Rightarrow> bool" where
  "redisCommandArgsChanged original command args = (case ParseRedisCommand original of Inl _ \<Rightarrow> True
     | Inr (c, as) \<Rightarrow> c \<noteq> command \<or> as \<noteq> args)"

section \<open>Requests\<close>

datatype editor_op =
    EdScope | EdCredential | EdMask mask_read | EdAccess access_read | EdPrefixes | EdHistory | EdFindSaved | EdCountSaved | EdInsertSaved
  | EdDeleteSaved | EdCreate | EdCountHistory | EdListHistory | EdListSaved

record editor_env =
  ee_conns :: "id64 \<Rightarrow> db_connection option"
  ee_names :: "id64 \<Rightarrow> string"
  ee_refs :: "dialect \<Rightarrow> string \<Rightarrow> statement_ast list option"
  ee_limits :: limit_parser
  ee_lineage :: "string \<Rightarrow> lineage_node list option"
  ee_pool :: "id64 \<Rightarrow> string option"
  ee_server :: "id64 \<Rightarrow> sql_server"
  ee_redis :: "id64 \<Rightarrow> redis_server"
  ee_prefixes :: "key_prefix list"
  ee_settings :: "timeout_settings option"
  ee_mask :: mask_env
  ee_mask_db :: mask_db
  ee_codec :: token_codec
  ee_secret :: string

record query_request =
  er_conn :: id64
  er_sql :: string
  er_limit :: int
  er_database :: string
  er_schema :: string
  er_redis :: "int option"
  er_id :: string

text \<open>A response to a query, or a refusal with its status.\<close>

datatype editor_response =
    QueryResponse query_result "nat list" bool string
  | RedisResponse query_result
  | AccessMissing "object_ref list"
  | NotReadOnly policy_refusal
  | RedisNotReadOnly redis_error
  | RedisInvalid redis_error
  | KeyProtected redis_error
  | ExecutionFailed string exec_error int
  | ContextRefused context_refusal
  | TicketCreated id64 ticket_status nat
  | Cancelled bool
  | SavedCreated saved_query
  | NoContent
  | HistoryPage "history_entry list" nat int int
  | SavedList "saved_query list"
  | EditorError nat string
  | EditorPanic

definition writeQueryExecutionError :: "exec_error \<Rightarrow> string \<Rightarrow> int \<Rightarrow> nat \<times> string" where
  "writeQueryExecutionError e operation timeout = (case e of
     DeadlineExceeded \<Rightarrow> (408, operation @ '' timed out after '' @ itoa timeout @ ''s'')
   | ContextCanceled \<Rightarrow> (408, operation @ '' was cancelled'')
   | DBFailure m \<Rightarrow> (422, operation @ '' failed: '' @ m))"

definition response_status :: "editor_response \<Rightarrow> nat" where
  "response_status r = (case r of
     QueryResponse _ _ _ _ \<Rightarrow> 200 | RedisResponse _ \<Rightarrow> 200 | AccessMissing _ \<Rightarrow> 403 | NotReadOnly _ \<Rightarrow> 422 | RedisNotReadOnly _ \<Rightarrow> 422
   | RedisInvalid _ \<Rightarrow> 422 | KeyProtected _ \<Rightarrow> 403 | ExecutionFailed op e t \<Rightarrow> fst (writeQueryExecutionError e op t) | ContextRefused _ \<Rightarrow> 422
   | TicketCreated _ _ _ \<Rightarrow> 201 | Cancelled _ \<Rightarrow> 200 | SavedCreated _ \<Rightarrow> 201 | NoContent \<Rightarrow> 204 | HistoryPage _ _ _ _ \<Rightarrow> 200 | SavedList _ \<Rightarrow> 200
   | EditorError n _ \<Rightarrow> n | EditorPanic \<Rightarrow> 500)"

abbreviation identity_of :: "request \<Rightarrow> identity" where
  "identity_of q \<equiv> w_identity (q_workflow q)"

abbreviation tickets_of :: "editor \<Rightarrow> store" where
  "tickets_of ed \<equiv> wd_store (ed_world ed)"

text \<open>The check that a connection is in the scope of the user: \<open>None\<close> when it passes.\<close>

definition connection_refused :: "request \<Rightarrow> (editor_op \<Rightarrow> bool) \<Rightarrow> id64 \<Rightarrow> editor_response option" where
  "connection_refused q ef conn = (case userCanAccessConnection q (\<lambda>_. ef EdScope) conn of
     None \<Rightarrow> Some (EditorError 500 ''db scope check failed'')
   | Some False \<Rightarrow> Some (EditorError 403 ''access to this connection is not allowed'')
   | Some True \<Rightarrow> None)"

definition AddHistory :: "(editor_op \<Rightarrow> bool) \<Rightarrow> history_entry \<Rightarrow> editor \<Rightarrow> editor" where
  "AddHistory ef e ed = (if ef EdHistory then ed else ed\<lparr>ed_history := ed_history ed @ [e]\<rparr>)"

section \<open>Execute\<close>

definition access_refused :: "access_result \<Rightarrow> request \<Rightarrow> id64 \<Rightarrow> editor \<Rightarrow> (editor_response \<times> editor) option" where
  "access_refused a q conn ed = (case a of
     Granted \<Rightarrow> None
   | MissingAccess refs \<Rightarrow> Some (AccessMissing refs, audit ''query_blocked'' (q_user q) conn ed)
   | CheckFailed \<Rightarrow> Some (EditorError 422 ''Query access is temporarily unavailable. Please try again later.'', ed))"

text \<open>What is done with a result: masking, the context token, the audit entry and the history.\<close>

definition finish_query ::
    "editor_env \<Rightarrow> request \<Rightarrow> (editor_op \<Rightarrow> bool) \<Rightarrow> query_request \<Rightarrow> db_connection \<Rightarrow> query_context \<Rightarrow> query_result \<Rightarrow> editor \<Rightarrow> editor_response \<times> editor" where
  "finish_query env q ef req conn qc result ed =
     (case analyzeSensitiveColumns (ef \<circ> EdMask) (ee_mask env) (ee_mask_db env) conn result of
        MaskError \<Rightarrow> (EditorError 422 ''masking failed'', ed)
      | MaskPanic \<Rightarrow> (EditorPanic, ed)
      | MaskOk ds \<Rightarrow>
          (case applyAnalyzedResult (ef \<circ> EdMask) (ee_mask env) (q_now q) (identity_of q) (tickets_of ed) conn (q_user q) result ds of
             MaskError \<Rightarrow> (EditorError 422 ''masking failed'', ed)
           | MaskPanic \<Rightarrow> (EditorPanic, ed)
           | MaskOk (override, idxs, shown) \<Rightarrow>
               (case newQueryContextToken (ee_codec env) (ee_secret env) (q_now q) (q_user q) (dc_id conn) (er_sql req) (qc_database qc) (qc_schema qc)
                   (buildSQLScopeAnalysisFromDecisions (dc_id conn) ds) of
                  None \<Rightarrow> (EditorError 500 ''create query context failed'', ed)
                | Some tok \<Rightarrow> (QueryResponse shown idxs override tok,
                    AddHistory ef \<lparr>he_user = q_user q, he_conn = er_conn req, he_database = optionalTrimmedString (er_database req),
                        he_schema = optionalTrimmedString (er_schema req), he_redis = er_redis req, he_content = er_sql req,
                        he_rows = length (qr_rows shown), he_created_at = q_now q\<rparr> (audit ''query_execute'' (q_user q) (er_conn req) ed)))))"

definition execute_sql ::
    "editor_env \<Rightarrow> request \<Rightarrow> (editor_op \<Rightarrow> bool) \<Rightarrow> query_request \<Rightarrow> db_connection \<Rightarrow> editor \<Rightarrow> editor_response \<times> editor" where
  "execute_sql env q ef req conn ed =
     (let qc = \<lparr>qc_database = trim_space (er_database req), qc_schema = queryContextSchemaName conn (er_schema req), qc_redis = None, qc_limit = 0\<rparr>;
          access = CheckSQL (ef \<circ> EdAccess) (ee_refs env) (q_now q) (identity_of q) (tickets_of ed) (q_user q) conn (er_sql req)
            \<lparr>cc_database = qc_database qc, cc_schema = qc_schema qc\<rparr>
      in case access_refused access q (dc_id conn) ed of Some x \<Rightarrow> x
         | None \<Rightarrow>
             (case CheckReadOnly (lp_parse (ee_limits env)) (DialectFromDBType (dc_db_type conn)) (er_sql req) of
                Some e \<Rightarrow> (NotReadOnly e, ed)
              | None \<Rightarrow>
                  if ef EdCredential then (EditorError 500 ''internal error'', ed)
                  else case ee_pool env (dc_id conn) of Some e \<Rightarrow> (EditorError 503 (''cannot connect to database: '' @ e), ed)
                    | None \<Rightarrow>
                        let ts = loadSQLEditorTimeoutSettings (ee_settings env);
                            sql = injectLimit (ee_limits env) (er_sql req) (query_limit (er_limit req)) (dc_db_type conn)
                        in (case executeQueryForConnection (ee_lineage env) (ee_server env (dc_id conn))
                              \<lparr>qo_id = trim_space (er_id req), qo_user = q_user q, qo_now = q_now q\<rparr> conn sql qc ts ed of
                              (Inl e, ed1) \<Rightarrow> (ExecutionFailed ''query'' e (to_app ts), ed1)
                            | (Inr result, ed1) \<Rightarrow> finish_query env q ef req conn qc result ed1)))"

definition redis_read_only :: "redis_server \<Rightarrow> string \<Rightarrow> string \<Rightarrow> int \<Rightarrow> redis_error option" where
  "redis_read_only rs cmd cmdLine limit = (case rs_info rs cmd of
     None \<Rightarrow> CheckRedisFallbackReadOnly cmdLine limit
   | Some readOnly \<Rightarrow> CheckRedisOfficialReadOnly cmdLine readOnly limit)"

definition executeRedis ::
    "editor_env \<Rightarrow> request \<Rightarrow> (editor_op \<Rightarrow> bool) \<Rightarrow> db_connection \<Rightarrow> string \<Rightarrow> query_context \<Rightarrow> editor \<Rightarrow> editor_response \<times> editor" where
  "executeRedis env q ef conn cmdLine qc ed =
     (case ParseRedisCommand cmdLine of Inl e \<Rightarrow> (RedisInvalid e, ed)
      | Inr (cmd, args) \<Rightarrow>
          let dbIndex = (case qc_redis qc of None \<Rightarrow> 0 | Some i \<Rightarrow> i); rs = ee_redis env (dc_id conn)
          in (case access_refused (CheckRedis (ef \<circ> EdAccess) (q_now q) (identity_of q) (tickets_of ed) (q_user q) conn dbIndex cmd args)
                  q (dc_id conn) ed of
                Some x \<Rightarrow> x
              | None \<Rightarrow>
                  if ef EdCredential then (EditorError 500 ''internal error'', ed)
                  else case redis_read_only rs cmd cmdLine (qc_limit qc) of Some e \<Rightarrow> (RedisNotReadOnly e, ed)
                    | None \<Rightarrow>
                        (case PrepareRedisReadOnly cmdLine (qc_limit qc) of Inl e \<Rightarrow> (RedisNotReadOnly e, ed)
                         | Inr (cmd', args') \<Rightarrow>
                             if ef EdPrefixes then (EditorError 500 ''redis sensitive key policy unavailable'', ed)
                             else case CheckRedisSensitiveKeyPrefixes cmd' args'
                                 (RedisSensitiveKeyPrefixValues (ListActiveForConnection (ee_prefixes env) (dc_id conn) dbIndex)) of
                               Some e \<Rightarrow> (KeyProtected e, audit ''query_blocked'' (q_user q) (dc_id conn) ed)
                             | None \<Rightarrow>
                                 let ts = loadSQLEditorTimeoutSettings (ee_settings env); ed1 = send (SentRedis dbIndex cmd' args') ed
                                 in (case rs_do rs dbIndex cmd' args' of
                                       Inl e \<Rightarrow> (ExecutionFailed ''redis command'' e (to_app ts), ed1)
                                     | Inr v \<Rightarrow>
                                         let result = redisResultToQueryResult v
                                         in (RedisResponse result,
                                             AddHistory ef \<lparr>he_user = q_user q, he_conn = dc_id conn, he_database = None, he_schema = None,
                                               he_redis = Some dbIndex, he_content = cmdLine, he_rows = length (qr_rows result),
                                               he_created_at = q_now q\<rparr> (audit ''query_execute'' (q_user q) (dc_id conn) ed1))))))"

text \<open>\<open>None\<close>: the body of the request is not readable.\<close>

definition ExecuteQuery :: "editor_env \<Rightarrow> request \<Rightarrow> (editor_op \<Rightarrow> bool) \<Rightarrow> query_request option \<Rightarrow> editor \<Rightarrow> editor_response \<times> editor" where
  "ExecuteQuery env q ef body ed = (case body of
     None \<Rightarrow> (EditorError 400 ''invalid request body'', ed)
   | Some req \<Rightarrow>
       if er_conn req = 0 then (EditorError 422 ''db_connection_id is required'', ed)
       else if er_sql req = [] then (EditorError 422 ''sql is required'', ed)
       else case ee_conns env (er_conn req) of None \<Rightarrow> (EditorError 404 ''db connection not found'', ed)
         | Some conn \<Rightarrow>
             (case connection_refused q ef (er_conn req) of Some x \<Rightarrow> (x, ed)
              | None \<Rightarrow>
                  if dc_db_type conn = ''redis''
                  then executeRedis env q ef conn (er_sql req) \<lparr>qc_database = trim_space (er_database req), qc_schema = [], qc_redis = er_redis req,
                    qc_limit = query_limit (er_limit req)\<rparr> ed
                  else execute_sql env q ef req conn ed))"

end
