(* ===== verification/Query_Requests.thy ===== *)
theory Query_Requests
  imports Query_Editor
begin

text \<open>
  The other handlers of the SQL editor (\<open>internal/handler/query.go\<close>): cancelling a running query, asking for
  access to the sensitive columns of a result, the history of a user and the saved queries
  (\<open>internal/repository/query_artifact.go\<close>).
\<close>

section \<open>Cancel\<close>

text \<open>How a target database answers the commands that end a query; \<open>True\<close> is success.\<close>

record kill_server =
  ks_open :: bool
  ks_rds_kill_query :: bool
  ks_rds_kill :: bool
  ks_kill_query :: bool
  ks_pg_cancel :: "bool option"

definition killMySQLQuery :: "kill_server \<Rightarrow> bool \<Rightarrow> nat \<Rightarrow> bool \<times> string list" where
  "killMySQLQuery ks opener thread =
     (if \<not> opener \<or> \<not> ks_open ks then (False, [])
      else if ks_rds_kill_query ks then (True, [''CALL mysql.rds_kill_query(?)''])
      else if ks_rds_kill ks then (True, [''CALL mysql.rds_kill_query(?)'', ''CALL mysql.rds_kill(?)''])
      else (ks_kill_query ks, [''CALL mysql.rds_kill_query(?)'', ''CALL mysql.rds_kill(?)'', ''KILL QUERY '' @ nat_show thread]))"

definition cancelPostgresQuery :: "kill_server \<Rightarrow> bool \<Rightarrow> bool \<times> string list" where
  "cancelPostgresQuery ks opener =
     (if \<not> opener \<or> \<not> ks_open ks then (False, [])
      else (ks_pg_cancel ks = Some True, [''SELECT pg_cancel_backend($1)'']))"

definition cancelActiveSQLQuery :: "kill_server \<Rightarrow> active_query \<Rightarrow> bool \<times> string list" where
  "cancelActiveSQLQuery ks qy =
     (if aq_db_type qy = ''redis'' then (True, [])
      else if aq_db_type qy = ''postgres'' \<or> aq_db_type qy = ''postgresql'' then cancelPostgresQuery ks (aq_has_opener qy)
      else killMySQLQuery ks (aq_has_opener qy) (aq_thread qy))"

definition CancelQuery :: "(id64 \<Rightarrow> kill_server) \<Rightarrow> request \<Rightarrow> string option \<Rightarrow> editor \<Rightarrow> editor_response \<times> editor" where
  "CancelQuery servers q body ed = (case body of
     None \<Rightarrow> (EditorError 400 ''invalid request body'', ed)
   | Some raw \<Rightarrow>
       if trim_space raw = [] then (EditorError 422 ''query_execution_id is required'', ed)
       else case cancel_query (q_now q) (trim_space raw) (q_user q) (ed_registry ed) of
         (None, reg) \<Rightarrow> (Cancelled True, ed\<lparr>ed_registry := reg\<rparr>)
       | (Some qy, reg) \<Rightarrow>
           let ed1 = ed\<lparr>ed_registry := reg\<rparr>
           in if \<not> aq_has_opener qy then (EditorError 500 ''query cancel credential is not configured'', ed1)
              else (case cancelActiveSQLQuery (servers (aq_conn qy)) qy of (ok, cmds) \<Rightarrow>
                let ed2 = ed1\<lparr>ed_sent := ed_sent ed1 @ map SentExec cmds\<rparr>
                in if ok then (Cancelled False, ed2) else (EditorError 500 ''query cancel failed'', ed2)))"

section \<open>Access to sensitive columns\<close>

definition maxSensitiveAccessDurationMinutes :: int where "maxSensitiveAccessDurationMinutes = 4320"

definition normalizeSensitiveAccessDurationMinutes :: "int \<Rightarrow> int option" where
  "normalizeSensitiveAccessDurationMinutes v = (let w = (if v = 0 then 10 else v)
     in if w < minAccessDuration \<or> w > maxSensitiveAccessDurationMinutes then None else Some w)"

record sensitive_request =
  sr_conn :: id64
  sr_sql :: string
  sr_database :: string
  sr_schema :: string
  sr_minutes :: int
  sr_token :: string
  sr_reason :: string

text \<open>The label of the reason, in the encoding of the source.\<close>

definition reason_label :: string where
  "reason_label = [CHR 0xE7, CHR 0x94, CHR 0xB3, CHR 0xE8, CHR 0xAB, CHR 0x8B, CHR 0xE5, CHR 0x8E, CHR 0x9F, CHR 0xE5, CHR 0x9B, CHR 0xA0,
     CHR 0xEF, CHR 0xBC, CHR 0x9A]"

definition sensitive_ticket :: "editor_env \<Rightarrow> id64 \<Rightarrow> sensitive_request \<Rightarrow> int \<Rightarrow> ticket" where
  "sensitive_ticket env user r minutes = (draft_ticket user \<lparr>cr_title = ''Sensitive Query Access / '' @ ee_names env (sr_conn r),
       cr_description = Some (reason_label @ trim_space (sr_reason r) @ [newline_char] @ ''Duration='' @ itoa minutes @ '' minutes'' @ [newline_char] @ ''Sensitive=true''),
       cr_sql = sr_sql r, cr_type = SensitiveQueryAccess, cr_conn = Some (sr_conn r), cr_database = optionalTrimmedString (sr_database r),
       cr_duration = Some minutes, cr_scopes = [], cr_scope_mode = None, cr_items = [], cr_rules = []\<rparr>)"

text \<open>
  The ticket waits for review; a workflow that cannot be resolved sends it to the administrators, and a failure
  to resolve or to store the workflow leaves it behind.
\<close>

definition submit_sensitive ::
    "editor_env \<Rightarrow> request \<Rightarrow> (write_op \<Rightarrow> bool) \<Rightarrow> (editor_op \<Rightarrow> bool) \<Rightarrow> string \<Rightarrow> sensitive_request \<Rightarrow> int \<Rightarrow> ticket_scope list \<Rightarrow> editor \<Rightarrow> editor_response \<times> editor" where
  "submit_sensitive env q fl ef ticketNo r minutes scopes ed =
     (if ef EdCreate then (EditorError 500 ''create sensitive access ticket failed'', ed)
      else case CreateWithScopes (q_now q) ticketNo (sensitive_ticket env (q_user q) r minutes) scopes (tickets_of ed) of
        (i, s1) \<Rightarrow>
          let w1 = (ed_world ed)\<lparr>wd_store := s1\<rparr>; t = given (GetTicket s1 i) ((sensitive_ticket env (q_user q) r minutes)\<lparr>t_id := i\<rparr>)
          in (case resolveTicketWorkflow (q_workflow q) t of
                None \<Rightarrow> (EditorError 500 ''resolve sensitive access workflow failed'', ed\<lparr>ed_world := w1\<rparr>)
              | Some res \<Rightarrow>
                  (case write_store fl OpSnapshot (always (SaveWorkflowSnapshot (q_now q) i res)) w1 of
                     (None, w2) \<Rightarrow> (EditorError 500 ''save sensitive access workflow snapshot failed'', ed\<lparr>ed_world := w2\<rparr>)
                   | (Some _, w2) \<Rightarrow>
                       if r_error_code res \<noteq> [] then
                         (case write_store fl (OpStatus NeedsAdminAttention) (UpdateStatus (q_now q) i PendingReview NeedsAdminAttention None
                              (Some (if r_error_message res \<noteq> [] then r_error_message res else ''Workflow resolution failed.'')) None) w2 of
                            (None, w3) \<Rightarrow> (EditorError 500 ''mark sensitive access workflow attention failed'', ed\<lparr>ed_world := w3\<rparr>)
                          | (Some _, w3) \<Rightarrow>
                              (TicketCreated i (t_status (reload fl t w3)) (length scopes),
                               ed\<lparr>ed_world := emit (Publish i) (emit (Notify ''needs_admin_attention'' i (Some (q_user q)))
                                 (emit (Audit ''workflow_resolution_failed'' (Some (q_user q)) i) w3))\<rparr>))
                       else (TicketCreated i (t_status t) (length scopes),
                         ed\<lparr>ed_world := emit (Publish i) (emit (Notify ''pending_review'' i (Some (q_user q)))
                           (emit (Audit ''ticket_submit'' (Some (q_user q)) i) w2))\<rparr>))))"

definition CreateSensitiveAccessTicket ::
    "editor_env \<Rightarrow> request \<Rightarrow> (write_op \<Rightarrow> bool) \<Rightarrow> (editor_op \<Rightarrow> bool) \<Rightarrow> string \<Rightarrow> sensitive_request option \<Rightarrow> editor \<Rightarrow> editor_response \<times> editor" where
  "CreateSensitiveAccessTicket env q fl ef ticketNo body ed = (case body of
     None \<Rightarrow> (EditorError 400 ''invalid request body'', ed)
   | Some r \<Rightarrow>
       if sr_conn r = 0 \<or> trim_space (sr_sql r) = [] then (EditorError 422 ''db_connection_id and sql_content are required'', ed)
       else if trim_space (sr_reason r) = [] then (EditorError 422 ''reason is required'', ed)
       else case normalizeSensitiveAccessDurationMinutes (sr_minutes r) of
         None \<Rightarrow> (EditorError 422 ''approved_duration_minutes must be between 1 and 4320'', ed)
       | Some minutes \<Rightarrow>
           (case ee_conns env (sr_conn r) of None \<Rightarrow> (EditorError 404 ''db connection not found'', ed)
            | Some conn \<Rightarrow>
                if dc_db_type conn \<noteq> ''mysql'' then (EditorError 422 ''sensitive query access only supports mysql connections'', ed)
                else case CheckReadOnly (lp_parse (ee_limits env)) (DialectFromDBType (dc_db_type conn)) (sr_sql r) of
                  Some e \<Rightarrow> (NotReadOnly e, ed)
                | None \<Rightarrow>
                    (case connection_refused q ef (sr_conn r) of Some x \<Rightarrow> (x, ed)
                     | None \<Rightarrow>
                         (case validateQueryContextToken (ee_codec env) (ee_secret env) (q_now q) (sr_token r) (q_user q) (dc_id conn) (sr_sql r)
                             (sr_database r) (queryContextSchemaName conn (sr_schema r)) of
                            Inl e \<Rightarrow> (ContextRefused e, ed)
                          | Inr an \<Rightarrow>
                              if \<not> sa_sensitive an then (EditorError 422 ''query does not contain sensitive columns'', ed)
                              else submit_sensitive env q fl ef ticketNo r minutes (sa_scopes an) ed))))"

section \<open>History\<close>

definition queryHistoryRetentionDays :: int where "queryHistoryRetentionDays = 90"

definition recent_history :: "timestamp \<Rightarrow> id64 \<Rightarrow> history_entry list \<Rightarrow> history_entry list" where
  "recent_history since user hs = filter (\<lambda>h. he_user h = user \<and> he_created_at h \<ge> since) hs"

definition CountHistory :: "timestamp \<Rightarrow> id64 \<Rightarrow> history_entry list \<Rightarrow> nat" where
  "CountHistory since user hs = length (recent_history since user hs)"

definition ListHistoryRows :: "timestamp \<Rightarrow> id64 \<Rightarrow> int \<Rightarrow> int \<Rightarrow> history_entry list \<Rightarrow> history_entry list" where
  "ListHistoryRows since user limit offset hs =
     take (nat limit) (drop (nat offset) (sort_key (\<lambda>h. - he_created_at h) (recent_history since user hs)))"

definition history_limit :: "string \<Rightarrow> int" where
  "history_limit raw = (if trim_space raw = [] then 20 else case atoi (trim_space raw) of
     None \<Rightarrow> 20 | Some n \<Rightarrow> if n \<le> 0 then 20 else if n > 100 then 100 else n)"

definition history_offset :: "string \<Rightarrow> int" where
  "history_offset raw = (if trim_space raw = [] then 0 else case atoi (trim_space raw) of None \<Rightarrow> 0 | Some n \<Rightarrow> if n > 0 then n else 0)"

definition ListHistory :: "request \<Rightarrow> (editor_op \<Rightarrow> bool) \<Rightarrow> string \<Rightarrow> string \<Rightarrow> editor \<Rightarrow> editor_response" where
  "ListHistory q ef limitRaw offsetRaw ed =
     (let limit = history_limit limitRaw; offset = history_offset offsetRaw; since = q_now q - queryHistoryRetentionDays * 86400
      in if ef EdCountHistory then EditorError 500 ''count query history failed''
         else if ef EdListHistory then EditorError 500 ''list query history failed''
         else HistoryPage (ListHistoryRows since (q_user q) limit offset (ed_history ed)) (CountHistory since (q_user q) (ed_history ed)) limit offset)"

section \<open>Saved queries\<close>

definition MaxSavedQueriesPerUser :: nat where "MaxSavedQueriesPerUser = 20"

record saved_request =
  sv_label :: string
  sv_conn :: id64
  sv_db :: string
  sv_schema :: string
  sv_redis :: "int option"
  sv_content :: string

definition CountSavedQueries :: "id64 \<Rightarrow> saved_query list \<Rightarrow> nat" where
  "CountSavedQueries user qs = length (filter (\<lambda>x. sq_user x = user) qs)"

definition same_signature :: "saved_query \<Rightarrow> saved_query \<Rightarrow> bool" where
  "same_signature a b \<longleftrightarrow> sq_user a = sq_user b \<and> sq_conn a = sq_conn b \<and> sq_content a = sq_content b \<and> sq_database a = sq_database b \<and>
     sq_schema a = sq_schema b \<and> sq_redis a = sq_redis b"

definition FindSavedQueryBySignature :: "saved_query \<Rightarrow> saved_query list \<Rightarrow> saved_query option" where
  "FindSavedQueryBySignature x qs = find (same_signature x) qs"

definition ListSavedQueries :: "request \<Rightarrow> (editor_op \<Rightarrow> bool) \<Rightarrow> editor \<Rightarrow> editor_response" where
  "ListSavedQueries q ef ed = (if ef EdListSaved then EditorError 500 ''list saved queries failed''
     else SavedList (rev (filter (\<lambda>x. sq_user x = q_user q) (ed_saved ed))))"

definition InsertSavedQuery :: "saved_query \<Rightarrow> editor \<Rightarrow> id64 \<times> editor" where
  "InsertSavedQuery x ed = (ed_next_saved ed, ed\<lparr>ed_saved := ed_saved ed @ [x\<lparr>sq_id := ed_next_saved ed\<rparr>], ed_next_saved := ed_next_saved ed + 1\<rparr>)"

definition saved_of :: "id64 \<Rightarrow> saved_request \<Rightarrow> saved_query" where
  "saved_of user r = \<lparr>sq_id = 0, sq_user = user, sq_label = trim_space (sv_label r), sq_conn = sv_conn r, sq_database = optionalTrimmedString (sv_db r),
     sq_schema = optionalTrimmedString (sv_schema r), sq_redis = sv_redis r, sq_content = trim_space (sv_content r)\<rparr>"

text \<open>The checks of the handler on the saved queries it reads, and the insertion, which comes later.\<close>

definition saved_refusal :: "editor_env \<Rightarrow> request \<Rightarrow> (editor_op \<Rightarrow> bool) \<Rightarrow> saved_request \<Rightarrow> saved_query list \<Rightarrow> editor_response option" where
  "saved_refusal env q ef r qs =
     (if trim_space (sv_label r) = [] \<or> sv_conn r = 0 \<or> trim_space (sv_content r) = []
      then Some (EditorError 422 ''label, db_connection_id and sql_content are required'')
      else case connection_refused q ef (sv_conn r) of Some x \<Rightarrow> Some x
        | None \<Rightarrow>
            if ef EdFindSaved then Some (EditorError 500 ''check saved query failed'')
            else if FindSavedQueryBySignature (saved_of (q_user q) r) qs \<noteq> None then Some (EditorError 409 ''saved query already exists'')
            else if ef EdCountSaved then Some (EditorError 500 ''count saved queries failed'')
            else if CountSavedQueries (q_user q) qs \<ge> MaxSavedQueriesPerUser then Some (EditorError 409 ''saved queries limit reached (max 20)'')
            else if ee_conns env (sv_conn r) = None then Some (EditorError 404 ''db connection not found'') else None)"

definition store_saved :: "request \<Rightarrow> (editor_op \<Rightarrow> bool) \<Rightarrow> saved_request \<Rightarrow> editor \<Rightarrow> editor_response \<times> editor" where
  "store_saved q ef r ed =
     (if ef EdInsertSaved then (EditorError 500 ''create saved query failed'', ed)
      else case InsertSavedQuery (saved_of (q_user q) r) ed of (i, ed1) \<Rightarrow>
        (SavedCreated ((saved_of (q_user q) r)\<lparr>sq_id := i\<rparr>), audit ''saved_query_create'' (q_user q) i ed1))"

definition CreateSavedQuery :: "editor_env \<Rightarrow> request \<Rightarrow> (editor_op \<Rightarrow> bool) \<Rightarrow> saved_request option \<Rightarrow> editor \<Rightarrow> editor_response \<times> editor" where
  "CreateSavedQuery env q ef body ed = (case body of
     None \<Rightarrow> (EditorError 400 ''invalid request body'', ed)
   | Some r \<Rightarrow> (case saved_refusal env q ef r (ed_saved ed) of Some x \<Rightarrow> (x, ed) | None \<Rightarrow> store_saved q ef r ed))"

definition DeleteSavedRow :: "id64 \<Rightarrow> id64 \<Rightarrow> editor \<Rightarrow> bool \<times> editor" where
  "DeleteSavedRow user i ed = (affected (\<lambda>x. sq_id x = i \<and> sq_user x = user) (ed_saved ed),
     ed\<lparr>ed_saved := delete_where (\<lambda>x. sq_id x = i \<and> sq_user x = user) (ed_saved ed)\<rparr>)"

definition DeleteSavedQuery :: "request \<Rightarrow> (editor_op \<Rightarrow> bool) \<Rightarrow> string \<Rightarrow> editor \<Rightarrow> editor_response \<times> editor" where
  "DeleteSavedQuery q ef raw ed = (case parse_uint64 raw of
     None \<Rightarrow> (EditorError 400 ''invalid id'', ed)
   | Some i \<Rightarrow>
       if ef EdDeleteSaved then (EditorError 500 ''delete saved query failed'', ed)
       else case DeleteSavedRow (q_user q) i ed of
         (False, ed1) \<Rightarrow> (EditorError 404 ''saved query not found'', ed1)
       | (True, ed1) \<Rightarrow> (NoContent, audit ''saved_query_delete'' (q_user q) i ed1))"

end
