(* ===== verification/Sql_Lineage_Laws.thy ===== *)
theory Sql_Lineage_Laws
  imports Sql_Lineage Masking_Runtime
begin

text \<open>
  What the lineage of a result covers: a judgement that says which stored columns flow into the columns of a
  plain query, the proof that the resolver finds them all, and the queries for which it does not.
\<close>

section \<open>The cache of columns\<close>

text \<open>The cache is transparent when the names of tables are not told apart by their case.\<close>

lemma load_all_reads:
  assumes "\<And>d t d' t'. cache_key d t = cache_key d' t' \<Longrightarrow> read d t = read d' t'"
    and "\<And>d t cs. cache (cache_key d t) = Some cs \<Longrightarrow> read d t = Some cs"
  shows "load_all read ts cache = map (\<lambda>(d, t). read d t) ts"
  using assms(2)
proof (induction ts arbitrary: cache)
  case (Cons x ts)
  obtain d t where x: "x = (d, t)" by (cases x)
  show ?case
  proof (cases "cache (cache_key d t)")
    case None
    show ?thesis
    proof (cases "read d t")
      case none: None
      then show ?thesis using Cons.IH [OF Cons.prems] None by (simp add: x LoadColumns_def)
    next
      case (Some cs)
      have "read d' t' = Some cs'" if "(cache(cache_key d t \<mapsto> cs)) (cache_key d' t') = Some cs'" for d' t' cs'
        using that Cons.prems [of d' t' cs'] assms(1) [of d t d' t'] Some by (cases "cache_key d' t' = cache_key d t") simp_all
      then have "load_all read ts (cache(cache_key d t \<mapsto> cs)) = map (\<lambda>(d, t). read d t) ts" by (rule Cons.IH)
      then show ?thesis by (simp add: x LoadColumns_def None Some)
    qed
  next
    case (Some cs)
    then show ?thesis using Cons.IH [OF Cons.prems] Cons.prems [OF Some] by (simp add: x LoadColumns_def)
  qed
qed simp

section \<open>Lineage of plain queries\<close>

text \<open>
  What a reference means in SQL: a column of that name in a source of that alias. A reference is clear when the
  resolver finds one candidate for it.
\<close>

definition sql_matches :: "column_ref \<Rightarrow> lineage_source \<Rightarrow> bool" where
  "sql_matches ref s \<longleftrightarrow> (rf_table ref = [] \<or> equal_fold (rf_table ref) (ls_alias s)) \<and>
     (rf_schema ref = [] \<or> equal_fold (rf_schema ref) (ls_database s))"

definition denotes :: "lineage_source list \<Rightarrow> column_ref \<Rightarrow> column_origin \<Rightarrow> bool" where
  "denotes sources ref o1 \<longleftrightarrow> (\<exists>s \<in> set sources. sql_matches ref s \<and>
     (\<exists>c \<in> set (ls_columns s). equal_fold (rf_name ref) (lc_name c) \<and> lc_origin c = o1))"

definition clear :: "lineage_source list \<Rightarrow> column_ref \<Rightarrow> bool" where
  "clear sources ref \<longleftrightarrow> resolveColumnReference ref sources \<noteq> None"

fun no_subquery :: "lineage_expr \<Rightarrow> bool" where
  "no_subquery (EColumn _) = True"
| "no_subquery (EOther _ es) = list_all no_subquery es"
| "no_subquery (ESubquery _ _ _) = False"

text \<open>
  The columns of a nested query are plain when each is a stored column under some name: a wildcard, or an
  expression over one column.
\<close>

inductive plain_field :: "lineage_source list \<Rightarrow> lineage_field \<Rightarrow> lineage_column list \<Rightarrow> bool" where
  skip: "plain_field sources FSkip []"
| wild: "expandWildcardField schema table sources = Some cs \<Longrightarrow> plain_field sources (FWild schema table) cs"
| expr: "expr_columns e = [ref] \<Longrightarrow> no_subquery e \<Longrightarrow> clear sources ref \<Longrightarrow> denotes sources ref o1 \<Longrightarrow>
    name = (if as \<noteq> [] then as else expr_text e) \<Longrightarrow>
    plain_field sources (FExpr as e) [\<lparr>lc_name = (if name = [] then co_column o1 else name), lc_origin = o1, lc_deps = [o1]\<rparr>]"

inductive
  plain_query :: "(string \<Rightarrow> string \<Rightarrow> string list option) \<Rightarrow> string \<Rightarrow> cte_map \<Rightarrow> lineage_node \<Rightarrow> lineage_column list \<Rightarrow> bool" and
  plain_withs :: "(string \<Rightarrow> string \<Rightarrow> string list option) \<Rightarrow> string \<Rightarrow> cte_map \<Rightarrow> with_clause \<Rightarrow> cte_map \<Rightarrow> bool" and
  plain_sources :: "(string \<Rightarrow> string \<Rightarrow> string list option) \<Rightarrow> string \<Rightarrow> cte_map \<Rightarrow> lineage_node \<Rightarrow> lineage_source list \<Rightarrow> bool"
  for load :: "string \<Rightarrow> string \<Rightarrow> string list option" and db :: string where
  query: "plain_withs load db \<Gamma> withs \<Gamma>' \<Longrightarrow> plain_sources load db \<Gamma>' j sources \<Longrightarrow> is_join_node j \<Longrightarrow>
    list_all2 (plain_field sources) fs css \<Longrightarrow> plain_query load db \<Gamma> (LSelect withs (Some j) (Some fs)) (concat css)"
| no_withs: "plain_withs load db \<Gamma> [] \<Gamma>"
| with_none: "plain_withs load db \<Gamma> withs \<Gamma>' \<Longrightarrow> plain_withs load db \<Gamma> ((name, cols, None) # withs) \<Gamma>'"
| with_query: "plain_query load db \<Gamma> q cs \<Longrightarrow> plain_withs load db (\<Gamma>(to_lower name \<mapsto> applyColumnAliases cs cols)) withs \<Gamma>' \<Longrightarrow>
    plain_withs load db \<Gamma> ((name, cols, Some q) # withs) \<Gamma>'"
| table: "schema \<noteq> [] \<or> \<Gamma> (to_lower name) = None \<Longrightarrow> database = (if schema = [] then db else schema) \<Longrightarrow>
    load database name = Some cs \<Longrightarrow>
    plain_sources load db \<Gamma> (LTableSource as names (LTableName schema name))
      [\<lparr>ls_alias = (if as = [] then name else as), ls_table = name, ls_database = database, ls_columns = table_columns database name cs\<rparr>]"
| cte: "\<Gamma> (to_lower name) = Some cs \<Longrightarrow>
    plain_sources load db \<Gamma> (LTableSource as names (LTableName [] name))
      [\<lparr>ls_alias = (if as = [] then name else as), ls_table = name, ls_database = [], ls_columns = applyColumnAliases cs names\<rparr>]"
| derived: "plain_query load db \<Gamma> q cs \<Longrightarrow> plain_sources load db \<Gamma> (LTableSource as names q) [derived_source as ''derived'' names cs]"
| join: "plain_sources load db \<Gamma> l ls \<Longrightarrow> plain_sources load db \<Gamma> r rs \<Longrightarrow> plain_sources load db \<Gamma> (LJoin (Some l) (Some r)) (ls @ rs)"
| single: "plain_sources load db \<Gamma> l ls \<Longrightarrow> plain_sources load db \<Gamma> (LJoin (Some l) None) ls"

text \<open>The stored columns that flow into each column of the outermost select, whose fields are any expressions.\<close>

inductive field_flows :: "lineage_source list \<Rightarrow> lineage_field \<Rightarrow> column_origin set list \<Rightarrow> bool" where
  skip: "field_flows sources FSkip []"
| wild: "expandWildcardField schema table sources = Some cs \<Longrightarrow> field_flows sources (FWild schema table) (map (\<lambda>c. {lc_origin c}) cs)"
| expr: "no_subquery e \<Longrightarrow> \<forall>ref \<in> set (expr_columns e). clear sources ref \<Longrightarrow>
    field_flows sources (FExpr as e) [{o1. \<exists>ref \<in> set (expr_columns e). denotes sources ref o1}]"

inductive query_flows :: "(string \<Rightarrow> string \<Rightarrow> string list option) \<Rightarrow> string \<Rightarrow> lineage_node \<Rightarrow> column_origin set list \<Rightarrow> bool" where
  query: "plain_withs load db (\<lambda>_. None) withs \<Gamma> \<Longrightarrow> plain_sources load db \<Gamma> j sources \<Longrightarrow> is_join_node j \<Longrightarrow>
    list_all2 (field_flows sources) fs css \<Longrightarrow> query_flows load db (LSelect withs (Some j) (Some fs)) (concat css)"


section \<open>The resolver finds the lineage of plain queries\<close>

lemma denotes_resolved:
  assumes "clear sources ref" and "denotes sources ref o1"
  shows "resolveColumnReference ref sources = Some o1"
proof -
  let ?cands = "concat (map (\<lambda>s. map lc_origin (filter (column_matches ref) (ls_columns s))) (filter (source_matches ref) sources))"
  obtain s c where "s \<in> set sources" "sql_matches ref s" "c \<in> set (ls_columns s)" "equal_fold (rf_name ref) (lc_name c)" "lc_origin c = o1"
    using assms(2) by (auto simp: denotes_def)
  then have "o1 \<in> set ?cands" by (force simp: sql_matches_def source_matches_def column_matches_def)
  moreover obtain o2 where "?cands = [o2]"
    using assms(1) by (auto simp: clear_def resolveColumnReference_def split: list.splits)
  ultimately show ?thesis by (simp add: resolveColumnReference_def)
qed

lemma plain_field_resolved:
  "list_all2 (plain_field sources) fs css \<Longrightarrow> select_fields sources fs = Some (concat css)"
proof (induction rule: list_all2_induct)
  case (Cons f fs cs css)
  from Cons.hyps(1) show ?case
  proof cases
    case (expr e ref o1 name as)
    then have "collectColumnExprOrigins e sources = [o1]"
      by (simp add: collectColumnExprOrigins_def denotes_resolved List.map_filter_def)
    then show ?thesis using expr Cons.IH by (simp add: field_column_def resolveExprLineage_def Let_def)
  qed (use Cons.IH in auto)
qed simp

lemma plain_query_is_select: "plain_query load db \<Gamma> q cs \<Longrightarrow> \<exists>withs from flds. q = LSelect withs from flds"
  by (erule plain_query.cases) auto

lemma plain_resolved:
  "plain_query load db \<Gamma> q cs \<Longrightarrow> resolve_query load db \<Gamma> q = Some cs"
  "plain_withs load db \<Gamma> withs \<Gamma>' \<Longrightarrow> resolve_withs load db \<Gamma> withs = Some \<Gamma>'"
  "plain_sources load db \<Gamma> n sources \<Longrightarrow> resolve_sources load db \<Gamma> n = Some sources"
proof (induction rule: plain_query_plain_withs_plain_sources.inducts)
  case (query \<Gamma> withs \<Gamma>' j sources fs css)
  then show ?case by (simp add: plain_field_resolved)
next
  case (with_query \<Gamma> q cs name cols withs \<Gamma>')
  have "is_query q" using plain_query_is_select [OF with_query(1)] by (auto simp: is_query_def)
  then show ?case using with_query by (simp del: fun_upd_apply)
next
  case (table schema \<Gamma> name database cs as names)
  then show ?case by (cases "schema = []") (simp_all add: Let_def)
next
  case (derived \<Gamma> q cs as names)
  then show ?case using plain_query_is_select [OF derived(1)] by auto
qed (simp_all add: Let_def)


lemma dedupe_origins_covers:
  "o1 \<in> set os \<Longrightarrow> lineage_key o1 \<notin> set seen \<Longrightarrow> \<exists>d \<in> set (dedupe_origins seen os). lineage_key d = lineage_key o1"
  by (induction seen os rule: dedupe_origins.induct) fastforce+

lemma dedupe_origins_subset: "set (dedupe_origins seen os) \<subseteq> set os"
  by (induction seen os rule: dedupe_origins.induct) auto

definition covers :: "lineage_column \<Rightarrow> column_origin set \<Rightarrow> bool" where
  "covers c os \<longleftrightarrow> (\<forall>o1 \<in> os. \<exists>d \<in> set (lc_deps c). lineage_key d = lineage_key o1)"

lemma expr_covered:
  assumes "\<forall>ref \<in> set (expr_columns e). clear sources ref"
  shows "covers (field_column as e sources) {o1. \<exists>ref \<in> set (expr_columns e). denotes sources ref o1}"
proof -
  have "\<exists>d \<in> set (collectColumnExprOrigins e sources). lineage_key d = lineage_key o1"
    if "ref \<in> set (expr_columns e)" "denotes sources ref o1" for ref o1
  proof -
    have "resolveColumnReference ref sources = Some o1" using assms that denotes_resolved by blast
    then have "o1 \<in> set (List.map_filter (\<lambda>c. resolveColumnReference c sources) (expr_columns e))"
      using that(1) by (force simp: List.map_filter_def)
    from dedupe_origins_covers [OF this, of "[]"] show ?thesis by (simp add: collectColumnExprOrigins_def)
  qed
  then show ?thesis by (auto simp: covers_def field_column_def resolveExprLineage_def Let_def)
qed

text \<open>Every column of a plain source depends on its origin.\<close>

definition plain_columns :: "lineage_column list \<Rightarrow> bool" where
  "plain_columns cs \<longleftrightarrow> (\<forall>c \<in> set cs. lc_deps c = [lc_origin c])"

definition plain_scope :: "cte_map \<Rightarrow> bool" where
  "plain_scope \<Gamma> \<longleftrightarrow> (\<forall>name cs. \<Gamma> name = Some cs \<longrightarrow> plain_columns cs)"

lemma plain_columns_aliases: "plain_columns cs \<Longrightarrow> plain_columns (applyColumnAliases cs names)"
  by (induction cs names rule: applyColumnAliases.induct) (auto simp: plain_columns_def)

lemma plain_columns_table: "plain_columns (table_columns database name cs)"
  by (auto simp: plain_columns_def table_columns_def Let_def)

lemma expand_plain:
  "expandWildcardField schema table sources = Some cs \<Longrightarrow> \<forall>s \<in> set sources. plain_columns (ls_columns s) \<Longrightarrow> plain_columns cs"
  by (auto simp: expandWildcardField_def flattenSourceColumns_def plain_columns_def Let_def split: if_splits)

lemma plain_fields_plain:
  "list_all2 (plain_field sources) fs css \<Longrightarrow> \<forall>s \<in> set sources. plain_columns (ls_columns s) \<Longrightarrow> plain_columns (concat css)"
proof (induction rule: list_all2_induct)
  case (Cons f fs cs css)
  have "plain_columns cs" using Cons.hyps(1) Cons.prems by cases (auto simp: plain_columns_def dest: expand_plain)
  then show ?case using Cons.IH [OF Cons.prems] by (auto simp: plain_columns_def)
qed (simp add: plain_columns_def)

lemma plain_scopes:
  "plain_query load db \<Gamma> q cs \<Longrightarrow> plain_scope \<Gamma> \<Longrightarrow> plain_columns cs"
  "plain_withs load db \<Gamma> withs \<Gamma>' \<Longrightarrow> plain_scope \<Gamma> \<Longrightarrow> plain_scope \<Gamma>'"
  "plain_sources load db \<Gamma> n sources \<Longrightarrow> plain_scope \<Gamma> \<Longrightarrow> \<forall>s \<in> set sources. plain_columns (ls_columns s)"
proof (induction rule: plain_query_plain_withs_plain_sources.inducts)
  case (query \<Gamma> withs \<Gamma>' j sources fs css)
  then show ?case using plain_fields_plain by blast
next
  case (with_query \<Gamma> q cs name cols withs \<Gamma>')
  then have "plain_columns (applyColumnAliases cs cols)" using plain_columns_aliases by simp
  then have "plain_scope (\<Gamma>(to_lower name \<mapsto> applyColumnAliases cs cols))" using with_query.prems by (simp add: plain_scope_def)
  then show ?case by (rule with_query(4))
next
  case (cte \<Gamma> name cs as names)
  then have "plain_columns (applyColumnAliases cs names)" using plain_columns_aliases unfolding plain_scope_def by blast
  then show ?case by simp
next
  case (derived \<Gamma> q cs as names)
  then show ?case by (simp add: derived_source_def Let_def plain_columns_aliases)
qed (auto simp: plain_columns_table)

lemma fields_covered:
  "list_all2 (field_flows sources) fs css \<Longrightarrow> \<forall>s \<in> set sources. plain_columns (ls_columns s) \<Longrightarrow>
     \<exists>cols. select_fields sources fs = Some cols \<and> list_all2 covers cols (concat css)"
proof (induction rule: list_all2_induct)
  case (Cons f fs os css)
  obtain cols where cols: "select_fields sources fs = Some cols" "list_all2 covers cols (concat css)"
    using Cons.IH Cons.prems by blast
  from Cons.hyps(1) show ?case
  proof cases
    case (wild schema table cs)
    have "list_all2 covers cs (map (\<lambda>c. {lc_origin c}) cs)"
      using expand_plain [OF wild(3) Cons.prems] by (auto simp: plain_columns_def covers_def list_all2_conv_all_nth)
    then show ?thesis using wild cols by (auto intro: list_all2_appendI)
  next
    case (expr e as)
    then show ?thesis using cols expr_covered by auto
  qed (use cols in auto)
qed simp


section \<open>Queries whose lineage is lost\<close>

lemma merge_keeps_first:
  "i < length (mergeSetOperationColumns ls rs) \<Longrightarrow> i < length ls \<and> lc_deps (mergeSetOperationColumns ls rs ! i) = lc_deps (ls ! i)"
  by (simp add: mergeSetOperationColumns_def)

lemma operands_keep_first:
  "resolve_operands load db ctes (Some cs) ns = Some cols \<Longrightarrow> i < length cols \<Longrightarrow> i < length cs \<and> lc_deps (cols ! i) = lc_deps (cs ! i)"
proof (induction ns arbitrary: cs)
  case (Cons n ns)
  then obtain cs' where "resolve_operands load db ctes (Some (mergeSetOperationColumns cs cs')) ns = Some cols"
    by (auto split: if_splits option.splits)
  from Cons.IH [OF this Cons.prems(2)] merge_keeps_first [of i cs cs'] show ?case by simp
qed simp

text \<open>
  C39: a set operation has the dependencies of its first operand only: whatever the other operands select, the
  dependencies of a column of the result are those of the column of the first operand.
\<close>

theorem union_lineage_of_first:
  assumes "resolve_query load db ctes (LSetOpr [] (n # ns)) = Some cols" and "i < length cols"
  shows "\<exists>cs. resolve_query load db ctes n = Some cs \<and> i < length cs \<and> lc_deps (cols ! i) = lc_deps (cs ! i)"
proof -
  obtain cs where "resolve_query load db ctes n = Some cs" "resolve_operands load db ctes (Some cs) ns = Some cols"
    using assms(1) by (auto split: if_splits option.splits)
  then show ?thesis using operands_keep_first assms(2) by blast
qed

section \<open>Examples\<close>

definition sample_load :: "string \<Rightarrow> string \<Rightarrow> string list option" where
  "sample_load d t = (if t = ''users'' then Some [''name'', ''ssn''] else if t = ''orders'' then Some [''id''] else None)"

definition from_table :: "string \<Rightarrow> lineage_node option" where
  "from_table t = Some (LJoin (Some (LTableSource [] [] (LTableName [] t))) None)"

definition column :: "string \<Rightarrow> lineage_expr" where
  "column c = EColumn \<lparr>rf_schema = [], rf_table = [], rf_name = c\<rparr>"

definition select_one :: "lineage_expr \<Rightarrow> string \<Rightarrow> lineage_node" where
  "select_one e t = LSelect [] (from_table t) (Some [FExpr [] e])"

definition stored :: "string \<Rightarrow> string \<Rightarrow> column_origin" where
  "stored t c = \<lparr>co_database = ''app'', co_schema = [], co_table = t, co_column = c\<rparr>"

lemmas lineage_eval = select_one_def from_table_def column_def stored_def sample_load_def is_query_def is_operand_def is_join_node_def
  resolveStatementColumns_def table_columns_def field_column_def resolveExprLineage_def collectColumnExprOrigins_def
  resolveColumnReference_def source_matches_def column_matches_def equal_fold_def mergeSetOperationColumns_def derived_source_def
  List.map_filter_def no_origin_def

text \<open>
  \<open>SELECT id FROM orders UNION SELECT ssn FROM users\<close>: the result holds \<open>ssn\<close>, the lineage names \<open>id\<close> only.
\<close>

lemma union_hides_column:
  "map_option (map lc_deps) (resolveStatementColumns sample_load ''app''
     (LSetOpr [] [select_one (column ''id'') ''orders'', select_one (column ''ssn'') ''users'']))
   = Some [[stored ''orders'' ''id'']]"
  by (simp add: lineage_eval Let_def to_lower_def lower_char_def)

text \<open>
  \<open>SELECT x FROM (SELECT CONCAT(name, ssn) AS x FROM users) d\<close>: a column computed from several loses them in the
  outer query.
\<close>

lemma computed_column_lost:
  "map_option (map lc_deps) (resolveStatementColumns sample_load ''app''
     (LSelect [] (Some (LJoin (Some (LTableSource ''d'' []
        (LSelect [] (from_table ''users'') (Some [FExpr ''x'' (EOther ''CONCAT(name, ssn)'' [column ''name'', column ''ssn''])])))) None))
      (Some [FExpr [] (column ''x'')])))
   = Some [[no_origin]]"
  by (simp add: lineage_eval Let_def to_lower_def lower_char_def lineage_key_def)

text \<open>\<open>SELECT (SELECT ssn FROM users LIMIT 1) AS x FROM orders\<close>: the names in a nested query are sought outside of it.\<close>

lemma nested_query_lost:
  "map_option (map lc_deps) (resolveStatementColumns sample_load ''app''
     (LSelect [] (from_table ''orders'') (Some [FExpr ''x'' (ESubquery ''(SELECT ssn FROM users LIMIT 1)''
        [\<lparr>rf_schema = [], rf_table = [], rf_name = ''ssn''\<rparr>] (select_one (column ''ssn'') ''users''))])))
   = Some [[]]"
  by (simp add: lineage_eval Let_def to_lower_def lower_char_def)

text \<open>\<open>SELECT u.*, CONCAT(ssn, id) FROM users u JOIN (SELECT id FROM orders) d\<close>.\<close>

definition sample_select :: lineage_node where
  "sample_select = LSelect [] (Some (LJoin (Some (LTableSource ''u'' [] (LTableName [] ''users'')))
       (Some (LTableSource ''d'' [] (select_one (column ''id'') ''orders'')))))
     (Some [FWild [] ''u'', FExpr [] (EOther ''CONCAT(ssn, id)'' [column ''ssn'', column ''id''])])"

definition plain_column :: "string \<Rightarrow> string \<Rightarrow> lineage_column" where
  "plain_column t c = \<lparr>lc_name = c, lc_origin = stored t c, lc_deps = [stored t c]\<rparr>"

definition sample_sources :: "lineage_source list" where
  "sample_sources =
     [\<lparr>ls_alias = ''u'', ls_table = ''users'', ls_database = ''app'', ls_columns = [plain_column ''users'' ''name'', plain_column ''users'' ''ssn'']\<rparr>,
      \<lparr>ls_alias = ''d'', ls_table = ''d'', ls_database = [], ls_columns = [plain_column ''orders'' ''id'']\<rparr>]"

lemmas sample_eval = lineage_eval plain_column_def sample_sources_def clear_def denotes_def sql_matches_def to_lower_def lower_char_def

lemma sample_plain_table:
  assumes "sample_load ''app'' t = Some cs"
  shows "plain_sources sample_load ''app'' (\<lambda>_. None) (LTableSource as [] (LTableName [] t))
     [\<lparr>ls_alias = (if as = [] then t else as), ls_table = t, ls_database = ''app'', ls_columns = map (plain_column t) cs\<rparr>]"
  using plain_query_plain_withs_plain_sources.table [where schema = "[]" and \<Gamma> = "\<lambda>_. None" and db = "''app''" and load = sample_load,
      OF _ refl, of t cs as "[]"] assms
  by (simp add: table_columns_def plain_column_def [abs_def] stored_def Let_def)

lemma sample_nested:
  "plain_query sample_load ''app'' (\<lambda>_. None) (select_one (column ''id'') ''orders'') [plain_column ''orders'' ''id'']"
proof -
  let ?src = "[\<lparr>ls_alias = ''orders'', ls_table = ''orders'', ls_database = ''app'', ls_columns = [plain_column ''orders'' ''id'']\<rparr>]"
  have "plain_sources sample_load ''app'' (\<lambda>_. None) (LJoin (Some (LTableSource [] [] (LTableName [] ''orders''))) None) ?src"
    using plain_query_plain_withs_plain_sources.single [OF sample_plain_table [of "''orders''" "[''id'']" "[]"]] by (simp add: sample_load_def)
  moreover have "plain_field ?src (FExpr [] (column ''id'')) [plain_column ''orders'' ''id'']"
    using plain_field.expr [of "column ''id''" "\<lparr>rf_schema = [], rf_table = [], rf_name = ''id''\<rparr>" ?src "stored ''orders'' ''id''" "''id''" "[]"]
    by (simp add: sample_eval)
  ultimately show ?thesis
    using plain_query_plain_withs_plain_sources.query [OF plain_query_plain_withs_plain_sources.no_withs, of sample_load "''app''" "\<lambda>_. None" _ ?src
        "[FExpr [] (column ''id'')]" "[[plain_column ''orders'' ''id'']]"]
    by (simp add: select_one_def from_table_def is_join_node_def)
qed

lemma sample_flows:
  "query_flows sample_load ''app'' sample_select
     [{stored ''users'' ''name''}, {stored ''users'' ''ssn''}, {stored ''users'' ''ssn'', stored ''orders'' ''id''}]"
proof -
  let ?j = "LJoin (Some (LTableSource ''u'' [] (LTableName [] ''users''))) (Some (LTableSource ''d'' [] (select_one (column ''id'') ''orders'')))"
  let ?e = "EOther ''CONCAT(ssn, id)'' [column ''ssn'', column ''id'']"
  have src: "plain_sources sample_load ''app'' (\<lambda>_. None) ?j sample_sources"
    using plain_query_plain_withs_plain_sources.join [OF sample_plain_table [of "''users''" "[''name'', ''ssn'']" "''u''"]
        plain_query_plain_withs_plain_sources.derived [OF sample_nested, of "''d''" "[]"]]
    by (simp add: sample_load_def sample_sources_def derived_source_def Let_def)
  have wild: "field_flows sample_sources (FWild [] ''u'') [{stored ''users'' ''name''}, {stored ''users'' ''ssn''}]"
    using field_flows.wild [of "[]" "''u''" sample_sources "[plain_column ''users'' ''name'', plain_column ''users'' ''ssn'']"]
    by (simp add: sample_eval expandWildcardField_def fold_trim_def trim_space_def is_space_def)
  have flow: "{o1. \<exists>ref \<in> set (expr_columns ?e). denotes sample_sources ref o1} = {stored ''users'' ''ssn'', stored ''orders'' ''id''}"
    by (auto simp: sample_eval)
  have "field_flows sample_sources (FExpr [] ?e) [{o1. \<exists>ref \<in> set (expr_columns ?e). denotes sample_sources ref o1}]"
    by (rule field_flows.expr) (simp_all add: sample_eval)
  then have "field_flows sample_sources (FExpr [] ?e) [{stored ''users'' ''ssn'', stored ''orders'' ''id''}]" unfolding flow .
  with wild show ?thesis
    using query_flows.query [OF plain_query_plain_withs_plain_sources.no_withs src, of "[FWild [] ''u'', FExpr [] ?e]"
        "[[{stored ''users'' ''name''}, {stored ''users'' ''ssn''}], [{stored ''users'' ''ssn'', stored ''orders'' ''id''}]]"]
    by (simp add: sample_select_def is_join_node_def)
qed


theorem union_lineage_of_first_witness:
  "\<exists>cols cs. resolve_query sample_load ''app'' (\<lambda>_. None)
       (LSetOpr [] [select_one (column ''id'') ''orders'', select_one (column ''ssn'') ''users'']) = Some cols \<and>
     resolve_query sample_load ''app'' (\<lambda>_. None) (select_one (column ''id'') ''orders'') = Some cs \<and>
     lc_deps (cols ! 0) = lc_deps (cs ! 0) \<and> lc_deps (cols ! 0) = [stored ''orders'' ''id'']"
proof -
  let ?n = "select_one (column ''id'') ''orders''" and ?m = "select_one (column ''ssn'') ''users''"
  obtain cols where cols: "resolve_query sample_load ''app'' (\<lambda>_. None) (LSetOpr [] [?n, ?m]) = Some cols" "map lc_deps cols = [[stored ''orders'' ''id'']]"
    using union_hides_column by (auto simp: resolveStatementColumns_def is_query_def)
  then have "0 < length cols" by (cases cols) auto
  from union_lineage_of_first [OF cols(1) this] cols show ?thesis by (cases cols) auto
qed

end
