(* ===== verification/Query_Editor_Laws.thy ===== *)
theory Query_Editor_Laws
  imports Query_Requests Sql_Lineage_Laws
begin

text \<open>
  The SQL editor: nothing reaches a target database before the checks, what is shown is masked, and what is
  kept for a user stays within bounds.
\<close>

section \<open>Running leaves the rest alone\<close>

lemma send_fields [simp]:
  "ed_world (send x ed) = ed_world ed" "ed_saved (send x ed) = ed_saved ed" "ed_history (send x ed) = ed_history ed"
  "ed_sent (send x ed) = ed_sent ed @ [x]" "ed_registry (send x ed) = ed_registry ed"
  by (simp_all add: send_def)

lemma audit_fields [simp]:
  "ed_sent (audit a u r ed) = ed_sent ed" "ed_saved (audit a u r ed) = ed_saved ed" "ed_history (audit a u r ed) = ed_history ed"
  "ed_registry (audit a u r ed) = ed_registry ed" "tickets_of (audit a u r ed) = tickets_of ed" "ed_next_saved (audit a u r ed) = ed_next_saved ed"
  by (simp_all add: audit_def emit_def)

lemma AddHistory_fields [simp]:
  "ed_sent (AddHistory ef e ed) = ed_sent ed" "ed_world (AddHistory ef e ed) = ed_world ed" "ed_saved (AddHistory ef e ed) = ed_saved ed"
  by (simp_all add: AddHistory_def)

text \<open>A run keeps everything but the registry and what was sent.\<close>

definition same_desk :: "editor \<Rightarrow> editor \<Rightarrow> bool" where
  "same_desk a b \<longleftrightarrow> ed_world a = ed_world b \<and> ed_history a = ed_history b \<and> ed_saved a = ed_saved b \<and> ed_next_saved a = ed_next_saved b"

lemma same_desk_refl [simp]: "same_desk ed ed"
  by (simp add: same_desk_def)

lemma same_desk_trans: "same_desk a b \<Longrightarrow> same_desk b c \<Longrightarrow> same_desk a c"
  by (simp add: same_desk_def)

lemma run_registered_desk: "run_registered opts conn pg thread st answer ed = (r, ed') \<Longrightarrow> same_desk ed ed'"
  by (auto simp: run_registered_def same_desk_def send_def split: if_splits prod.splits bool.splits)

lemma run_pieces_desk:
  assumes "\<And>st e r e'. run st e = (r, e') \<Longrightarrow> same_desk e e'"
  shows "run_pieces run ps result ed = (r, ed') \<Longrightarrow> same_desk ed ed'"
proof (induction ps arbitrary: result ed)
  case (Cons p ps)
  show ?case
  proof (cases "trim_space p = []")
    case True
    then show ?thesis using Cons by simp
  next
    case False
    obtain x ed1 where x: "run (trim_space p) ed = (x, ed1)" by fastforce
    then have "same_desk ed ed1" by (rule assms)
    then show ?thesis using False x Cons.prems by (cases x) (auto dest: Cons.IH same_desk_trans)
  qed
qed simp

lemma run_setup_desk: "run_setup sv cs ed = (r, ed') \<Longrightarrow> same_desk ed ed'"
  by (induction sv cs ed rule: run_setup.induct) (auto simp: same_desk_def send_def split: option.splits)

lemma executeSQLQuery_desk: "executeSQLQuery l sv opts conn sql qc ts ed = (r, ed') \<Longrightarrow> same_desk ed ed'"
proof (cases "sv_open sv")
  case None
  assume run: "executeSQLQuery l sv opts conn sql qc ts ed = (r, ed')"
  obtain e ed1 where s: "run_setup sv (mysql_setup qc ts) ed = (e, ed1)" by fastforce
  have pieces: "same_desk ed1 ed2" if "run_pieces (executeSingleSQLStatement l sv opts conn qc) ps None ed1 = (r2, ed2)" for ps r2 ed2
    by (rule run_pieces_desk [OF _ that]) (auto simp: executeSingleSQLStatement_def intro: run_registered_desk)
  show ?thesis using run None s run_setup_desk [OF s]
    by (cases e) (auto simp: executeSQLQuery_def intro: same_desk_trans dest: pieces)
qed (simp add: executeSQLQuery_def)

lemma executePostgresQuery_desk: "executePostgresQuery sv opts conn sql qc ts ed = (r, ed') \<Longrightarrow> same_desk ed ed'"
proof -
  assume run: "executePostgresQuery sv opts conn sql qc ts ed = (r, ed')"
  obtain e ed1 where s: "run_setup sv (postgres_setup qc ts) ed = (e, ed1)" by fastforce
  have pieces: "same_desk ed1 ed2" if "run_pieces (executeSinglePostgresStatement sv opts conn) ps None ed1 = (r2, ed2)" for ps r2 ed2
    by (rule run_pieces_desk [OF _ that]) (auto simp: executeSinglePostgresStatement_def intro: run_registered_desk)
  show ?thesis using run s run_setup_desk [OF s]
    by (cases e) (auto simp: executePostgresQuery_def intro: same_desk_trans dest: pieces split: if_splits option.splits)
qed

lemma execute_desk: "executeQueryForConnection l sv opts conn sql qc ts ed = (r, ed') \<Longrightarrow> same_desk ed ed'"
  by (auto simp: executeQueryForConnection_def intro: executeSQLQuery_desk executePostgresQuery_desk split: if_splits)

section \<open>What reaches a target database\<close>

text \<open>The statements a text is run as, and the commands that prepare the session.\<close>

definition statement_pieces :: "string \<Rightarrow> string list" where
  "statement_pieces sql = filter (\<lambda>p. p \<noteq> []) (map trim_space (splitSQLStatementsForLimit sql))"

definition session_setup :: "db_connection \<Rightarrow> query_context \<Rightarrow> timeout_settings \<Rightarrow> string list" where
  "session_setup conn qc ts = (if dc_db_type conn \<in> {''postgres'', ''postgresql''} then postgres_setup qc ts else mysql_setup qc ts)"

lemma run_registered_sent:
  "run_registered opts conn pg thread st answer ed = (r, ed') \<Longrightarrow>
     ed_sent ed' = ed_sent ed @ [SentQuery st] \<or> ed_sent ed' = ed_sent ed \<and> (\<exists>e. r = Inl e)"
  by (auto simp: run_registered_def split: if_splits prod.splits bool.splits)

lemma run_pieces_sent:
  assumes "\<And>st e r e'. run st e = (r, e') \<Longrightarrow> ed_sent e' = ed_sent e @ [SentQuery st] \<or> ed_sent e' = ed_sent e \<and> (\<exists>x. r = Inl x)"
  shows "run_pieces run ps result ed = (r, ed') \<Longrightarrow>
     \<exists>m. ed_sent ed' = ed_sent ed @ map SentQuery (take m (filter (\<lambda>p. p \<noteq> []) (map trim_space ps)))"
proof (induction ps arbitrary: result ed)
  case (Cons p ps)
  show ?case
  proof (cases "trim_space p = []")
    case True
    then show ?thesis using Cons by simp
  next
    case False
    obtain x ed1 where x: "run (trim_space p) ed = (x, ed1)" by fastforce
    from assms [OF this] show ?thesis
    proof
      assume sent: "ed_sent ed1 = ed_sent ed @ [SentQuery (trim_space p)]"
      show ?thesis
      proof (cases x)
        case (Inl e)
        then show ?thesis using False x Cons.prems sent by (auto intro: exI [of _ 1])
      next
        case (Inr y)
        then obtain m where "ed_sent ed' = ed_sent ed1 @ map SentQuery (take m (filter (\<lambda>p. p \<noteq> []) (map trim_space ps)))"
          using False x Cons.prems Cons.IH by fastforce
        then show ?thesis using False sent by (auto intro: exI [of _ "Suc m"])
      qed
    next
      assume "ed_sent ed1 = ed_sent ed \<and> (\<exists>e. x = Inl e)"
      then show ?thesis using False x Cons.prems by (auto intro: exI [of _ 0])
    qed
  qed
qed (auto intro: exI [of _ 0])

lemma run_setup_sent:
  "run_setup sv cs ed = (e, ed') \<Longrightarrow> \<exists>n. ed_sent ed' = ed_sent ed @ map SentExec (take n cs) \<and> (e = None \<longrightarrow> take n cs = cs)"
proof (induction sv cs ed rule: run_setup.induct)
  case (2 sv c cs ed)
  show ?case
  proof (cases "sv_exec sv c")
    case None
    with 2 obtain n where "ed_sent ed' = ed_sent (send (SentExec c) ed) @ map SentExec (take n cs)" "e = None \<longrightarrow> take n cs = cs" by auto
    then show ?thesis by (auto intro: exI [of _ "Suc n"])
  next
    case (Some x)
    then show ?thesis using 2(2) by (auto intro: exI [of _ 1])
  qed
qed simp

lemma setup_then_pieces_sent:
  assumes "\<And>st e r e'. run st e = (r, e') \<Longrightarrow> ed_sent e' = ed_sent e @ [SentQuery st] \<or> ed_sent e' = ed_sent e \<and> (\<exists>x. r = Inl x)"
    and "(case run_setup sv cs ed of (Some e, ed1) \<Rightarrow> (Inl e, ed1) | (None, ed1) \<Rightarrow> run_pieces run (splitSQLStatementsForLimit sql) None ed1) = (r, ed')"
  shows "\<exists>n m. ed_sent ed' = ed_sent ed @ map SentExec (take n cs) @ map SentQuery (take m (statement_pieces sql))"
proof -
  obtain e ed1 where s: "run_setup sv cs ed = (e, ed1)" by fastforce
  from run_setup_sent [OF s] obtain n where n: "ed_sent ed1 = ed_sent ed @ map SentExec (take n cs)" by blast
  show ?thesis
  proof (cases e)
    case None
    then have "run_pieces run (splitSQLStatementsForLimit sql) None ed1 = (r, ed')" using assms(2) s by simp
    from run_pieces_sent [OF assms(1) this] n show ?thesis by (auto simp: statement_pieces_def)
  next
    case (Some x)
    then have "ed_sent ed' = ed_sent ed @ map SentExec (take n cs) @ map SentQuery (take 0 (statement_pieces sql))" using assms(2) s n by simp
    then show ?thesis by blast
  qed
qed

lemma execute_sent:
  assumes "executeQueryForConnection l sv opts conn sql qc ts ed = (r, ed')"
  shows "\<exists>n m. ed_sent ed' = ed_sent ed @ map SentExec (take n (session_setup conn qc ts)) @ map SentQuery (take m (statement_pieces sql))"
proof (cases "ed' = ed")
  case True
  then show ?thesis by (intro exI [of _ 0]) simp
next
  case False
  show ?thesis
  proof (cases "dc_db_type conn \<in> {''postgres'', ''postgresql''}")
    case True
    then have "(case run_setup sv (postgres_setup qc ts) ed of (Some e, ed1) \<Rightarrow> (Inl e, ed1)
        | (None, ed1) \<Rightarrow> run_pieces (executeSinglePostgresStatement sv opts conn) (splitSQLStatementsForLimit sql) None ed1) = (r, ed')"
      using assms False by (auto simp: executeQueryForConnection_def executePostgresQuery_def split: option.splits if_splits)
    from setup_then_pieces_sent [OF _ this] True show ?thesis
      by (auto simp: session_setup_def executeSinglePostgresStatement_def dest: run_registered_sent)
  next
    case my: False
    then have "(case run_setup sv (mysql_setup qc ts) ed of (Some e, ed1) \<Rightarrow> (Inl e, ed1)
        | (None, ed1) \<Rightarrow> run_pieces (executeSingleSQLStatement l sv opts conn qc) (splitSQLStatementsForLimit sql) None ed1) = (r, ed')"
      using assms False by (auto simp: executeQueryForConnection_def executeSQLQuery_def split: option.splits)
    from setup_then_pieces_sent [OF _ this] my show ?thesis
      by (auto simp: session_setup_def executeSingleSQLStatement_def dest: run_registered_sent)
  qed
qed

lemma finish_query_sent: "ed_sent (snd (finish_query env q ef req conn qc result ed)) = ed_sent ed"
  by (simp add: finish_query_def split: outcome.splits prod.splits option.splits)

definition sql_context :: "query_request \<Rightarrow> db_connection \<Rightarrow> check_context" where
  "sql_context req conn = \<lparr>cc_database = trim_space (er_database req), cc_schema = queryContextSchemaName conn (er_schema req)\<rparr>"

lemma access_refused_sent: "access_refused a q conn ed = Some x \<Longrightarrow> ed_sent (snd x) = ed_sent ed"
  by (auto simp: access_refused_def split: access_result.splits)

lemma access_refused_None: "access_refused a q conn ed = None \<longleftrightarrow> a = Granted"
  by (simp add: access_refused_def split: access_result.splits)

definition request_context :: "query_request \<Rightarrow> db_connection \<Rightarrow> query_context" where
  "request_context req conn = \<lparr>qc_database = trim_space (er_database req), qc_schema = queryContextSchemaName conn (er_schema req),
     qc_redis = None, qc_limit = 0\<rparr>"

text \<open>The text that is run for a request, and the run itself.\<close>

definition run_text :: "editor_env \<Rightarrow> query_request \<Rightarrow> db_connection \<Rightarrow> string" where
  "run_text env req conn = injectLimit (ee_limits env) (er_sql req) (query_limit (er_limit req)) (dc_db_type conn)"

definition request_run :: "editor_env \<Rightarrow> request \<Rightarrow> query_request \<Rightarrow> db_connection \<Rightarrow> editor \<Rightarrow> (exec_error + query_result) \<times> editor" where
  "request_run env q req conn ed = executeQueryForConnection (ee_lineage env) (ee_server env (dc_id conn))
     \<lparr>qo_id = trim_space (er_id req), qo_user = q_user q, qo_now = q_now q\<rparr> conn (run_text env req conn) (request_context req conn)
     (loadSQLEditorTimeoutSettings (ee_settings env)) ed"

text \<open>A query that is not refused is run, and its outcome decides the response.\<close>

lemma execute_sql_cases:
  assumes "execute_sql env q ef req conn ed = (r, ed')"
  obtains (refused) "ed_sent ed' = ed_sent ed" "\<And>res idxs ov tok. r \<noteq> QueryResponse res idxs ov tok"
  | (run) ed1 outcome where
      "CheckSQL (ef \<circ> EdAccess) (ee_refs env) (q_now q) (identity_of q) (tickets_of ed) (q_user q) conn (er_sql req) (sql_context req conn) = Granted"
      "CheckReadOnly (lp_parse (ee_limits env)) (DialectFromDBType (dc_db_type conn)) (er_sql req) = None"
      "request_run env q req conn ed = (outcome, ed1)"
      "(r, ed') = (case outcome of Inl e \<Rightarrow> (ExecutionFailed ''query'' e (to_app (loadSQLEditorTimeoutSettings (ee_settings env))), ed1)
         | Inr result \<Rightarrow> finish_query env q ef req conn (request_context req conn) result ed1)"
proof -
  let ?a = "CheckSQL (ef \<circ> EdAccess) (ee_refs env) (q_now q) (identity_of q) (tickets_of ed) (q_user q) conn (er_sql req) (sql_context req conn)"
  let ?ro = "CheckReadOnly (lp_parse (ee_limits env)) (DialectFromDBType (dc_db_type conn)) (er_sql req)"
  note defs = execute_sql_def Let_def sql_context_def request_context_def request_run_def run_text_def
  show thesis
  proof (cases "access_refused ?a q (dc_id conn) ed")
    case (Some x)
    then have "(r, ed') = x" using assms by (simp add: defs)
    then show thesis using refused Some access_refused_sent [OF Some] by (auto simp: access_refused_def split: access_result.splits)
  next
    case None
    show thesis
    proof (cases "?ro = None \<and> \<not> ef EdCredential \<and> ee_pool env (dc_id conn) = None")
      case False
      then show thesis using refused None assms by (cases ?ro) (auto simp: defs split: if_splits option.splits)
    next
      case True
      obtain outcome ed1 where o1: "request_run env q req conn ed = (outcome, ed1)" by fastforce
      then have "(r, ed') = (case outcome of Inl e \<Rightarrow> (ExecutionFailed ''query'' e (to_app (loadSQLEditorTimeoutSettings (ee_settings env))), ed1)
         | Inr result \<Rightarrow> finish_query env q ef req conn (request_context req conn) result ed1)"
        using None True assms by (cases outcome) (simp_all add: defs)
      then show thesis using run o1 True None by (simp add: access_refused_None)
    qed
  qed
qed

lemma execute_sql_sent:
  assumes "execute_sql env q ef req conn ed = (r, ed')" and "ed_sent ed' \<noteq> ed_sent ed"
  shows "CheckSQL (ef \<circ> EdAccess) (ee_refs env) (q_now q) (identity_of q) (tickets_of ed) (q_user q) conn (er_sql req) (sql_context req conn) = Granted \<and>
     CheckReadOnly (lp_parse (ee_limits env)) (DialectFromDBType (dc_db_type conn)) (er_sql req) = None \<and>
     (\<exists>n m. ed_sent ed' = ed_sent ed @
        map SentExec (take n (session_setup conn (request_context req conn) (loadSQLEditorTimeoutSettings (ee_settings env)))) @
        map SentQuery (take m (statement_pieces (run_text env req conn))))"
  using assms(1)
proof (cases rule: execute_sql_cases)
  case refused
  then show ?thesis using assms(2) by simp
next
  case (run ed1 outcome)
  have "ed_sent ed' = ed_sent ed1" using run(4) finish_query_sent [of env q ef req conn "request_context req conn" _ ed1]
    by (cases outcome) (auto dest: arg_cong [of _ _ "\<lambda>x. ed_sent (snd x)"])
  then show ?thesis using run(1,2) execute_sent [OF run(3) [unfolded request_run_def]] by simp
qed

definition redis_index :: "query_request \<Rightarrow> int" where
  "redis_index req = (case er_redis req of None \<Rightarrow> 0 | Some i \<Rightarrow> i)"

lemma executeRedis_sent:
  assumes "executeRedis env q ef conn cmdLine qc ed = (r, ed')" and "ed_sent ed' \<noteq> ed_sent ed"
  shows "\<exists>cmd args cmd' args'. ParseRedisCommand cmdLine = Inr (cmd, args) \<and>
     CheckRedis (ef \<circ> EdAccess) (q_now q) (identity_of q) (tickets_of ed) (q_user q) conn (case qc_redis qc of None \<Rightarrow> 0 | Some i \<Rightarrow> i) cmd args = Granted \<and>
     PrepareRedisReadOnly cmdLine (qc_limit qc) = Inr (cmd', args') \<and>
     CheckRedisSensitiveKeyPrefixes cmd' args' (RedisSensitiveKeyPrefixValues (ListActiveForConnection (ee_prefixes env) (dc_id conn)
       (case qc_redis qc of None \<Rightarrow> 0 | Some i \<Rightarrow> i))) = None \<and>
     ed_sent ed' = ed_sent ed @ [SentRedis (case qc_redis qc of None \<Rightarrow> 0 | Some i \<Rightarrow> i) cmd' args']"
proof (cases "ParseRedisCommand cmdLine")
  case (Inr ca)
  obtain cmd args where ca: "ca = (cmd, args)" by fastforce
  let ?i = "case qc_redis qc of None \<Rightarrow> 0 | Some i \<Rightarrow> i"
  let ?a = "CheckRedis (ef \<circ> EdAccess) (q_now q) (identity_of q) (tickets_of ed) (q_user q) conn ?i cmd args"
  let ?ro = "redis_read_only (ee_redis env (dc_id conn)) cmd cmdLine (qc_limit qc)"
  have a: "access_refused ?a q (dc_id conn) ed = None"
    using assms access_refused_sent [of ?a q "dc_id conn" ed] by (cases "access_refused ?a q (dc_id conn) ed") (auto simp: executeRedis_def Inr ca Let_def)
  have c: "\<not> ef EdCredential" "?ro = None"
    using assms a by (cases ?ro; auto simp: executeRedis_def Inr ca Let_def split: if_splits)+
  show ?thesis
  proof (cases "PrepareRedisReadOnly cmdLine (qc_limit qc)")
    case (Inl e)
    then show ?thesis using assms a c by (auto simp: executeRedis_def Inr ca Let_def)
  next
    case prep: (Inr p)
    obtain cmd' args' where p: "p = (cmd', args')" by fastforce
    let ?k = "CheckRedisSensitiveKeyPrefixes cmd' args' (RedisSensitiveKeyPrefixValues (ListActiveForConnection (ee_prefixes env) (dc_id conn) ?i))"
    have k: "\<not> ef EdPrefixes" "?k = None"
      using assms a c by (cases ?k; auto simp: executeRedis_def Inr ca prep p Let_def split: if_splits)+
    then have "ed_sent ed' = ed_sent ed @ [SentRedis ?i cmd' args']"
      using assms(1) a c by (auto simp: executeRedis_def Inr ca prep p Let_def split: sum.splits)
    then show ?thesis using a k(2) Inr ca prep p by (auto simp: access_refused_None)
  qed
qed (use assms in \<open>simp add: executeRedis_def\<close>)

lemma connection_refused_None:
  "connection_refused q ef conn = None \<longleftrightarrow> \<not> ef EdScope \<and> conn \<in> set (GetEffectiveDBConnectionIDs (q_now q) (identity_of q) (q_user q))"
  by (simp add: connection_refused_def userCanAccessConnection_def split: bool.splits)

text \<open>
  C14: nothing of a request reaches a target database before every check has passed. If running a request sends
  anything, successful or not, then the connection is in the user's scope, the access rules permit the query,
  and either the parser sees a single read-only statement in it and what is sent are the commands that prepare
  the session and then the pieces of its text, in order, or, for Redis, the one command sent is the bounded
  form of a read-only command that touches no protected key.
\<close>

theorem editor_sends_checked:
  assumes "ExecuteQuery env q ef (Some req) ed = (r, ed')" and "ed_sent ed' \<noteq> ed_sent ed"
  shows "\<exists>conn. ee_conns env (er_conn req) = Some conn \<and>
     er_conn req \<in> set (GetEffectiveDBConnectionIDs (q_now q) (identity_of q) (q_user q)) \<and>
     (if dc_db_type conn = ''redis''
      then \<exists>cmd args cmd' args'. ParseRedisCommand (er_sql req) = Inr (cmd, args) \<and>
        CheckRedis (ef \<circ> EdAccess) (q_now q) (identity_of q) (tickets_of ed) (q_user q) conn (redis_index req) cmd args = Granted \<and>
        PrepareRedisReadOnly (er_sql req) (query_limit (er_limit req)) = Inr (cmd', args') \<and>
        CheckRedisSensitiveKeyPrefixes cmd' args'
          (RedisSensitiveKeyPrefixValues (ListActiveForConnection (ee_prefixes env) (dc_id conn) (redis_index req))) = None \<and>
        ed_sent ed' = ed_sent ed @ [SentRedis (redis_index req) cmd' args']
      else CheckSQL (ef \<circ> EdAccess) (ee_refs env) (q_now q) (identity_of q) (tickets_of ed) (q_user q) conn (er_sql req) (sql_context req conn) = Granted \<and>
        CheckReadOnly (lp_parse (ee_limits env)) (DialectFromDBType (dc_db_type conn)) (er_sql req) = None \<and>
        (\<exists>n m. ed_sent ed' = ed_sent ed @
           map SentExec (take n (session_setup conn (request_context req conn) (loadSQLEditorTimeoutSettings (ee_settings env)))) @
           map SentQuery (take m (statement_pieces (run_text env req conn)))))"
proof -
  obtain conn where conn: "ee_conns env (er_conn req) = Some conn" and ok: "connection_refused q ef (er_conn req) = None"
    using assms by (auto simp: ExecuteQuery_def split: if_splits option.splits)
  have pos: "er_conn req \<noteq> 0" "er_sql req \<noteq> []" using assms by (auto simp: ExecuteQuery_def split: if_splits)
  show ?thesis
  proof (cases "dc_db_type conn = ''redis''")
    case True
    then have "executeRedis env q ef conn (er_sql req) \<lparr>qc_database = trim_space (er_database req), qc_schema = [], qc_redis = er_redis req,
        qc_limit = query_limit (er_limit req)\<rparr> ed = (r, ed')"
      using assms(1) conn ok pos by (simp add: ExecuteQuery_def)
    from executeRedis_sent [OF this assms(2)] show ?thesis
      using True conn ok by (auto simp: connection_refused_None redis_index_def)
  next
    case False
    then have "execute_sql env q ef req conn ed = (r, ed')" using assms(1) conn ok pos by (simp add: ExecuteQuery_def)
    from execute_sql_sent [OF this assms(2)] show ?thesis using False conn ok by (auto simp: connection_refused_None)
  qed
qed

section \<open>What is shown\<close>

lemma finish_query_shown:
  assumes "finish_query env q ef req conn qc result ed = (QueryResponse shown idxs override tok, ed')"
  shows "applyResult (ef \<circ> EdMask) (ee_mask env) (q_now q) (identity_of q) (tickets_of ed) (ee_mask_db env) conn (q_user q) result
     = MaskOk (override, idxs, shown)"
  using assms by (auto simp: finish_query_def applyResult_def split: outcome.splits prod.splits option.splits)

lemma executeRedis_response: "executeRedis env q ef conn cmdLine qc ed \<noteq> (QueryResponse shown idxs override tok, ed')"
proof (cases "ParseRedisCommand cmdLine")
  case (Inr ca)
  obtain cmd args where ca: "ca = (cmd, args)" by fastforce
  show ?thesis
    by (auto simp: executeRedis_def Inr ca access_refused_def Let_def split: if_splits option.splits sum.splits access_result.splits)
qed (simp add: executeRedis_def)

lemma editor_shows:
  assumes "ExecuteQuery env q ef (Some req) ed = (QueryResponse shown idxs override tok, ed')"
  obtains conn result ed1 where "ee_conns env (er_conn req) = Some conn" "request_run env q req conn ed = (Inr result, ed1)"
    "applyResult (ef \<circ> EdMask) (ee_mask env) (q_now q) (identity_of q) (tickets_of ed) (ee_mask_db env) conn (q_user q) result = MaskOk (override, idxs, shown)"
proof -
  have pos: "er_conn req \<noteq> 0" "er_sql req \<noteq> []" using assms by (auto simp: ExecuteQuery_def split: if_splits)
  obtain conn where conn: "ee_conns env (er_conn req) = Some conn"
    using assms pos by (cases "ee_conns env (er_conn req)") (auto simp: ExecuteQuery_def)
  have ok: "connection_refused q ef (er_conn req) = None"
    using assms pos conn by (cases "connection_refused q ef (er_conn req)") (auto simp: ExecuteQuery_def connection_refused_def split: option.splits bool.splits)
  have "dc_db_type conn \<noteq> ''redis''" using assms pos conn ok executeRedis_response [of env q ef conn "er_sql req" _ ed] by (auto simp: ExecuteQuery_def)
  then have x: "execute_sql env q ef req conn ed = (QueryResponse shown idxs override tok, ed')"
    using assms pos conn ok by (simp add: ExecuteQuery_def)
  from x show thesis
  proof (cases rule: execute_sql_cases)
    case (run ed1 outcome)
    then obtain result where r: "outcome = Inr result" by (cases outcome) auto
    have "tickets_of ed1 = tickets_of ed" using execute_desk [OF run(3) [unfolded request_run_def]] by (simp add: same_desk_def)
    then show thesis using that [OF conn] run(3,4) r finish_query_shown [of env q ef req conn "request_context req conn" result ed1 shown idxs override tok ed'] by simp
  qed blast
qed


section \<open>Limits and pieces\<close>

lemma query_limit_bounds: "1 \<le> query_limit l \<and> query_limit l \<le> 1000"
  by (simp add: query_limit_def maxQueryLimit_def defaultQueryLimit_def)

lemma limit_split_whole: "scan cs s \<noteq> None \<Longrightarrow> limit_split cs cur s = (if rev cur @ cs = [] then [] else [rev cur @ cs])"
proof (induction cs arbitrary: cur s)
  case (Cons c cs)
  then obtain s' where "scan_step c s = Some s'" by (cases "scan_step c s") auto
  then show ?case using Cons.IH [of s' "c # cur"] Cons.prems by simp
qed simp

text \<open>A text with no separator outside of quotes and parentheses is run as one statement.\<close>

lemma one_piece: "scan sql (0, None) \<noteq> None \<Longrightarrow> trim_space sql \<noteq> [] \<Longrightarrow> statement_pieces sql = [trim_space sql]"
  using limit_split_whole [of sql "(0, None)" "[]"]
  by (cases "sql = []") (auto simp: statement_pieces_def splitSQLStatementsForLimit_def trim_space_def)

text \<open>
  The splitter knows no comments, so a separator in one divides the text: of the single statement the parser
  sees in \<open>SHOW TABLES -- x; DELETE FROM t\<close>, the second half is run as a statement of its own.
\<close>

lemma comment_divided: "statement_pieces ''SHOW TABLES -- x; DELETE FROM t'' = [''SHOW TABLES -- x'', ''DELETE FROM t'']"
  by code_simp

lemma commented_statement_run:
  assumes "lp_parse lp DialectMySQL sql = Some [st]" and "sql = ''SHOW TABLES -- x; DELETE FROM t''"
    and "ps_raw st = sql" and "ps_kind st = KindShow"
  shows "CheckReadOnly (lp_parse lp) DialectMySQL sql = None \<and>
     statement_pieces (injectLimit lp sql limit ''mysql'') = [''SHOW TABLES -- x'', ''DELETE FROM t'']"
proof -
  have d: "DialectFromDBType ''mysql'' = DialectMySQL" by code_simp
  have n: "without_semicolon ''SHOW TABLES -- x; DELETE FROM t'' = ''SHOW TABLES -- x; DELETE FROM t''"
    and t: "trim_space ''SHOW TABLES -- x; DELETE FROM t'' \<noteq> []" by code_simp+
  have "injectLimit lp sql limit ''mysql'' = sql"
    using assms n t by (simp add: injectLimit_def d RewriteSelectLimit_def ParseSQL_def Let_def)
  then show ?thesis using assms comment_divided by (simp add: CheckReadOnly_def ParseSQL_def CheckReadOnlySingleStatement_def)
qed

section \<open>Saved queries\<close>

text \<open>The saved queries of a user are at most twenty, no two of them the same, and no two rows share an identifier.\<close>

definition saved_wf :: "editor \<Rightarrow> bool" where
  "saved_wf ed \<longleftrightarrow> (\<forall>u. CountSavedQueries u (ed_saved ed) \<le> MaxSavedQueriesPerUser) \<and>
     distinct (map (\<lambda>x. (sq_user x, sq_conn x, sq_content x, sq_database x, sq_schema x, sq_redis x)) (ed_saved ed)) \<and>
     distinct (map sq_id (ed_saved ed)) \<and> (\<forall>x \<in> set (ed_saved ed). sq_id x < ed_next_saved ed)"

datatype saved_op = SaveQuery "saved_request option" | RemoveQuery string

definition saved_step :: "editor_env \<Rightarrow> request \<times> (editor_op \<Rightarrow> bool) \<times> saved_op \<Rightarrow> editor \<Rightarrow> editor" where
  "saved_step env x ed = (case x of (q, ef, op) \<Rightarrow> (case op of
     SaveQuery body \<Rightarrow> snd (CreateSavedQuery env q ef body ed) | RemoveQuery raw \<Rightarrow> snd (DeleteSavedQuery q ef raw ed)))"

lemma store_saved_wf:
  assumes "saved_wf ed" and "saved_refusal env q ef r (ed_saved ed) = None"
  shows "saved_wf (snd (store_saved q ef r ed))"
proof (cases "ef EdInsertSaved")
  case False
  let ?x = "(saved_of (q_user q) r)\<lparr>sq_id := ed_next_saved ed\<rparr>"
  let ?sig = "\<lambda>x. (sq_user x, sq_conn x, sq_content x, sq_database x, sq_schema x, sq_redis x)"
  have new: "ed_saved (snd (store_saved q ef r ed)) = ed_saved ed @ [?x]" "ed_next_saved (snd (store_saved q ef r ed)) = ed_next_saved ed + 1"
    using False by (simp_all add: store_saved_def InsertSavedQuery_def)
  have "FindSavedQueryBySignature (saved_of (q_user q) r) (ed_saved ed) = None"
    and count: "CountSavedQueries (q_user q) (ed_saved ed) < MaxSavedQueriesPerUser"
    using assms(2) by (auto simp: saved_refusal_def split: if_splits option.splits)
  then have "?sig ?x \<notin> ?sig ` set (ed_saved ed)"
    by (auto simp: FindSavedQueryBySignature_def find_None_iff same_signature_def)
  moreover have "CountSavedQueries u (ed_saved ed @ [?x]) \<le> MaxSavedQueriesPerUser" for u
    using count assms(1) by (auto simp: saved_wf_def CountSavedQueries_def saved_of_def)
  moreover have "sq_id ?x \<notin> sq_id ` set (ed_saved ed)" using assms(1) by (auto simp: saved_wf_def)
  ultimately show ?thesis using assms(1) unfolding saved_wf_def new by auto
qed (use assms in \<open>simp add: store_saved_def\<close>)

lemma CountSavedQueries_filter: "CountSavedQueries u (filter P qs) \<le> CountSavedQueries u qs"
  by (induction qs) (auto simp: CountSavedQueries_def)

lemma saved_step_wf: "saved_wf ed \<Longrightarrow> saved_wf (saved_step env x ed)"
proof -
  assume wf: "saved_wf ed"
  obtain q ef op where x: "x = (q, ef, op)" by (cases x) auto
  show ?thesis
  proof (cases op)
    case (SaveQuery body)
    then show ?thesis using wf store_saved_wf by (cases body) (auto simp: saved_step_def x CreateSavedQuery_def split: option.splits)
  next
    case (RemoveQuery raw)
    note step = saved_step_def x RemoveQuery DeleteSavedQuery_def
    obtain P where P: "ed_saved (saved_step env x ed) = filter P (ed_saved ed)" and rows: "ed_next_saved (saved_step env x ed) = ed_next_saved ed"
    proof (cases "parse_uint64 raw = None \<or> ef EdDeleteSaved")
      case True
      then show thesis using that [of "\<lambda>_. True"] by (auto simp: step split: option.splits)
    next
      case False
      then obtain i where i: "parse_uint64 raw = Some i" "\<not> ef EdDeleteSaved" by auto
      let ?P = "\<lambda>x. sq_id x = i \<and> sq_user x = q_user q"
      show thesis
        by (cases "affected ?P (ed_saved ed)"; rule that [of "\<lambda>x. \<not> ?P x"])
          (simp_all add: step i DeleteSavedRow_def delete_where_def)
    qed
    have "CountSavedQueries u (filter P (ed_saved ed)) \<le> MaxSavedQueriesPerUser" for u
      using wf CountSavedQueries_filter [of u P "ed_saved ed"] by (auto simp: saved_wf_def intro: le_trans)
    then show ?thesis using wf unfolding saved_wf_def P rows by (auto simp: distinct_map_filter)
  qed
qed

text \<open>
  C40: requests handled one after another keep the saved queries within bounds: whatever is saved and deleted,
  by whom and with whatever failures, no user has more than twenty saved queries or the same one twice.
\<close>

theorem saved_queries_bounded:
  assumes "saved_wf ed"
  shows "saved_wf (fold (saved_step env) ops ed)"
  using assms by (induction ops arbitrary: ed) (simp_all add: saved_step_wf)

text \<open>The check and the insertion are not one step: two requests that check at the same time pass the limit together.\<close>

lemma saved_limit_race:
  assumes "CountSavedQueries (q_user q) (ed_saved ed) = 19" and "\<not> ef EdInsertSaved" and "saved_refusal env q ef r (ed_saved ed) = None"
    and "saved_refusal env q ef r' (ed_saved ed) = None"
  shows "CountSavedQueries (q_user q) (ed_saved (snd (store_saved q ef r' (snd (store_saved q ef r ed))))) = 21"
  using assms(1,2) by (simp add: store_saved_def InsertSavedQuery_def CountSavedQueries_def saved_of_def)

section \<open>Requests for sensitive columns\<close>

lemma write_store_keeps:
  assumes "write_store fl op f w = (x, w')" and "\<And>s. P s \<Longrightarrow> P (snd (f s))" and "P (wd_store w)"
  shows "P (wd_store w')"
  using assms by (cases "f (wd_store w)") (auto simp: write_store_def split: if_splits dest: assms(2))

text \<open>What the store holds of a request once it is filed: its scopes, and its ticket, which waits.\<close>

definition filed :: "id64 \<Rightarrow> id64 \<Rightarrow> id64 \<Rightarrow> string \<Rightarrow> int \<Rightarrow> ticket_scope list \<Rightarrow> store \<Rightarrow> bool" where
  "filed i user conn sql minutes scopes s \<longleftrightarrow> s_scopes s = scopes \<and> (\<exists>t \<in> set (s_tickets s). t_id t = i \<and> t_type t = SensitiveQueryAccess \<and>
     t_submitter_id t = user \<and> t_db_connection_id t = Some conn \<and> t_sql_content t = sql \<and> t_approved_duration_minutes t = Some minutes \<and>
     t_status t \<in> {PendingReview, NeedsAdminAttention} \<and> t_approved_until t = None)"

lemma filed_snapshot: "filed i u c sql m scopes s \<Longrightarrow> filed i u c sql m scopes (snd (always (SaveWorkflowSnapshot now j r) s))"
  by (simp add: filed_def always_def SaveWorkflowSnapshot_def Let_def)

lemma filed_status:
  "filed i u c sql m scopes s \<Longrightarrow> filed i u c sql m scopes (snd (UpdateStatus now j PendingReview NeedsAdminAttention rv cm rs s))"
  by (auto simp: filed_def UpdateStatus_def touched_def update_tickets_def bex_update_where status_stamp_def Let_def)

lemma filed_created:
  assumes "CreateWithScopes now no (sensitive_ticket env u r m) scopes s = (i, s1)"
  shows "filed i u (sr_conn r) (sr_sql r) m (s_scopes s @ map (\<lambda>sc. sc\<lparr>ts_ticket_id := i\<rparr>) (filter (\<lambda>sc. trim_space (ts_column_name sc) \<noteq> []) scopes)) s1"
  using assms by (auto simp: filed_def CreateWithScopes_def sensitive_ticket_def draft_ticket_def Let_def)

lemma submit_sensitive_filed:
  assumes "submit_sensitive env q fl ef no r m scopes ed = (TicketCreated i st n, ed')"
  shows "filed i (q_user q) (sr_conn r) (sr_sql r) m (s_scopes (tickets_of ed) @ map (\<lambda>sc. sc\<lparr>ts_ticket_id := i\<rparr>)
     (filter (\<lambda>sc. trim_space (ts_column_name sc) \<noteq> []) scopes)) (tickets_of ed')"
proof -
  obtain j s1 where c: "CreateWithScopes (q_now q) no (sensitive_ticket env (q_user q) r m) scopes (tickets_of ed) = (j, s1)" by fastforce
  let ?F = "filed j (q_user q) (sr_conn r) (sr_sql r) m (s_scopes (tickets_of ed) @ map (\<lambda>sc. sc\<lparr>ts_ticket_id := j\<rparr>)
     (filter (\<lambda>sc. trim_space (ts_column_name sc) \<noteq> []) scopes))"
  let ?w1 = "(ed_world ed)\<lparr>wd_store := s1\<rparr>" and ?t = "given (GetTicket s1 j) ((sensitive_ticket env (q_user q) r m)\<lparr>t_id := j\<rparr>)"
  have ef: "\<not> ef EdCreate" using assms by (auto simp: submit_sensitive_def)
  obtain res where res: "resolveTicketWorkflow (q_workflow q) ?t = Some res"
    using assms c ef by (cases "resolveTicketWorkflow (q_workflow q) ?t") (auto simp: submit_sensitive_def Let_def)
  obtain x w2 where w2: "write_store fl OpSnapshot (always (SaveWorkflowSnapshot (q_now q) j res)) ?w1 = (x, w2)" by fastforce
  then have f2: "?F (wd_store w2)" by (rule write_store_keeps [where P = ?F]) (simp_all add: filed_created [OF c] filed_snapshot)
  obtain ok where x: "x = Some ok" using assms c ef res w2 by (cases x) (auto simp: submit_sensitive_def Let_def)
  have "i = j \<and> ?F (tickets_of ed')"
  proof (cases "r_error_code res = []")
    case True
    then show ?thesis using assms c ef res w2 x f2 by (auto simp: submit_sensitive_def Let_def emit_def)
  next
    case False
    let ?u = "UpdateStatus (q_now q) j PendingReview NeedsAdminAttention None
      (Some (if r_error_message res \<noteq> [] then r_error_message res else ''Workflow resolution failed.'')) None"
    obtain y w3 where w3: "write_store fl (OpStatus NeedsAdminAttention) ?u w2 = (y, w3)" by fastforce
    then have f3: "?F (wd_store w3)" by (rule write_store_keeps [where P = ?F]) (simp_all add: f2 filed_status)
    obtain ok' where "y = Some ok'" using assms c ef res w2 x w3 False by (cases y) (auto simp: submit_sensitive_def Let_def)
    then show ?thesis using assms c ef res w2 x w3 f3 False by (auto simp: submit_sensitive_def Let_def emit_def)
  qed
  then show ?thesis by simp
qed

text \<open>
  C17: a ticket for sensitive columns asks for what its submitter's own query showed. When one is created, the
  connection is in the submitter's scope, and a signed, unexpired token vouches that the submitter ran a text
  with the same hash on that connection and that it showed sensitive columns; the ticket waits for review, grants
  nothing yet, asks for one to 4320 minutes, and its scopes are exactly the columns the token names.
\<close>

theorem sensitive_request_vouched:
  assumes "CreateSensitiveAccessTicket env q fl ef no (Some r) ed = (TicketCreated i st n, ed')"
  shows "\<exists>conn c minutes. ee_conns env (sr_conn r) = Some conn \<and>
     sr_conn r \<in> set (GetEffectiveDBConnectionIDs (q_now q) (identity_of q) (q_user q)) \<and>
     tc_parse (ee_codec env) (ee_secret env) ''query-context'' (q_now q) (trim_space (sr_token r)) = Some c \<and>
     cl_user c = q_user q \<and> cl_conn c = dc_id conn \<and> cl_sql_hash c = tc_hash (ee_codec env) (sr_sql r) \<and> cl_sensitive c \<and>
     1 \<le> minutes \<and> minutes \<le> 4320 \<and>
     filed i (q_user q) (sr_conn r) (sr_sql r) minutes (s_scopes (tickets_of ed) @
       map (\<lambda>sc. sc\<lparr>ts_ticket_id := i\<rparr>) (scopesFromQueryContextClaims (dc_id conn) (cl_scopes c))) (tickets_of ed')"
proof -
  obtain minutes conn an where m: "normalizeSensitiveAccessDurationMinutes (sr_minutes r) = Some minutes"
    and conn: "ee_conns env (sr_conn r) = Some conn" and ok: "connection_refused q ef (sr_conn r) = None"
    and v: "validateQueryContextToken (ee_codec env) (ee_secret env) (q_now q) (sr_token r) (q_user q) (dc_id conn) (sr_sql r)
        (sr_database r) (queryContextSchemaName conn (sr_schema r)) = Inr an" and sens: "sa_sensitive an"
    and sub: "submit_sensitive env q fl ef no r minutes (sa_scopes an) ed = (TicketCreated i st n, ed')"
    using assms by (auto simp: CreateSensitiveAccessTicket_def connection_refused_def split: if_splits option.splits sum.splits bool.splits)
  have range: "1 \<le> minutes \<and> minutes \<le> 4320"
    using m by (auto simp: normalizeSensitiveAccessDurationMinutes_def Let_def minAccessDuration_def maxSensitiveAccessDurationMinutes_def split: if_splits)
  obtain c where c: "tc_parse (ee_codec env) (ee_secret env) ''query-context'' (q_now q) (trim_space (sr_token r)) = Some c"
      "cl_user c = q_user q" "cl_conn c = dc_id conn" "cl_sql_hash c = tc_hash (ee_codec env) (sr_sql r)" "cl_sensitive c"
      "sa_scopes an = scopesFromQueryContextClaims (dc_id conn) (cl_scopes c)"
    using v sens by (auto simp: validateQueryContextToken_def hashQueryContextSQL_def split: if_splits option.splits)
  have named: "\<forall>sc \<in> set (sa_scopes an). trim_space (ts_column_name sc) \<noteq> []"
    unfolding c(6) by (auto simp: scopesFromQueryContextClaims_def query_column_scope_def)
  show ?thesis
    using conn ok c range submit_sensitive_filed [OF sub] named by (auto simp: connection_refused_None filter_True)
qed

end
