(* ===== verification/Query_Editor_Samples.thy ===== *)
theory Query_Editor_Samples
  imports Query_Editor_Laws Ticket_Handler_Laws
begin

text \<open>
  A small installation on which the properties of the SQL editor are applied: one connection, a user whose
  approved ticket permits its tables, a masking rule for a column and a query of that column.
\<close>

section \<open>The installation\<close>

definition sample_limits :: limit_parser where
  "sample_limits = \<lparr>lp_parse = (\<lambda>_ sql. Some [\<lparr>ps_seq = 1, ps_raw = sql, ps_normalized = sql, ps_kind = KindSelect\<rparr>]),
     lp_mysql = (\<lambda>st. MyUnlimited (\<lambda>n. ps_raw st @ '' LIMIT '' @ itoa n)), lp_postgres = (\<lambda>_. PgUnparsed)\<rparr>"

definition sample_server :: sql_server where
  "sample_server = \<lparr>sv_open = None, sv_scoped = None, sv_exec = (\<lambda>_. None), sv_thread = 5,
     sv_query = (\<lambda>_. Inr \<lparr>mq_columns = [''mail''], mq_types = [''VARCHAR''], mq_rows = [[GoOther ''ann@example.org'']]\<rparr>),
     sv_load = (\<lambda>_ _. Some [''id'', ''mail'']), sv_pg_query = (\<lambda>_. Inl DeadlineExceeded), sv_attributes = (\<lambda>_. Inl DeadlineExceeded), sv_database = []\<rparr>"

definition sample_editor_env :: editor_env where
  "sample_editor_env = \<lparr>ee_conns = (\<lambda>i. if i = 7 then Some sample_connection else None), ee_names = (\<lambda>_. ''main''),
     ee_refs = (\<lambda>_ _. Some [MyQuery sample_query]), ee_limits = sample_limits, ee_lineage = (\<lambda>_. Some [select_one (column ''mail'') ''orders'']),
     ee_pool = (\<lambda>_. None), ee_server = (\<lambda>_. sample_server), ee_redis = (\<lambda>_. \<lparr>rs_info = (\<lambda>_. None), rs_do = (\<lambda>_ _ _. Inr RedisNil)\<rparr>),
     ee_prefixes = [], ee_settings = None, ee_mask = sample_mask_env, ee_mask_db = sample_mask_db,
     ee_codec = \<lparr>tc_sign = (\<lambda>_ _. Some ''tok''), tc_parse = (\<lambda>_ _ _ _. None), tc_hash = id\<rparr>, ee_secret = ''k''\<rparr>"

definition sample_editor :: editor where
  "sample_editor = \<lparr>ed_world = sample_world\<lparr>wd_store := approved_store\<rparr>, ed_registry = \<lparr>qr_queries = (\<lambda>_. None), qr_pending = (\<lambda>_. None)\<rparr>,
     ed_history = [], ed_saved = [], ed_next_saved = 1, ed_sent = []\<rparr>"

definition sample_query_request :: query_request where
  "sample_query_request = \<lparr>er_conn = 7, er_sql = ''SELECT mail FROM orders'', er_limit = 0, er_database = [], er_schema = [], er_redis = None, er_id = ''q1''\<rparr>"


definition mail_origin :: column_origin where
  "mail_origin = \<lparr>co_database = ''shop'', co_schema = [], co_table = ''orders'', co_column = ''mail''\<rparr>"

definition mail_result :: "string \<Rightarrow> query_result" where
  "mail_result v = \<lparr>qr_columns = [''mail''], qr_raw_columns = [''mail''], qr_origins = [mail_origin], qr_dependencies = [[mail_origin]], qr_rows = [[Some v]]\<rparr>"

abbreviation sample_run :: "(exec_error + query_result) \<times> editor" where
  "sample_run \<equiv> request_run sample_editor_env (sample_request 2) sample_query_request sample_connection sample_editor"

lemma sample_text: "run_text sample_editor_env sample_query_request sample_connection = ''SELECT mail FROM orders LIMIT 200''" by code_simp
lemma sample_split: "splitSQLStatementsForLimit ''SELECT mail FROM orders LIMIT 200'' = [''SELECT mail FROM orders LIMIT 200'']" by code_simp
lemma sample_trimmed: "trim_space ''SELECT mail FROM orders LIMIT 200'' = ''SELECT mail FROM orders LIMIT 200''" by code_simp
lemma sample_lineage_result: "my_result (ee_lineage sample_editor_env) sample_server sample_connection (request_context sample_query_request sample_connection) ''SELECT mail FROM orders LIMIT 200''
   \<lparr>mq_columns = [''mail''], mq_types = [''VARCHAR''], mq_rows = [[GoOther ''ann@example.org'']]\<rparr> = mail_result ''ann@example.org''" by code_simp
lemma sample_id_trimmed: "trim_space ''q1'' = ''q1''" by code_simp
lemma sample_access: "access_refused (CheckSQL (\<lambda>_. False) (\<lambda>_ _. Some [MyQuery sample_query]) 60 (w_identity sample_env) approved_store 2 sample_connection ''SELECT mail FROM orders'' (sql_context sample_query_request sample_connection)) q 7 ed = None" 
proof -
  have "CheckSQL (\<lambda>_. False) (\<lambda>_ _. Some [MyQuery sample_query]) 60 (w_identity sample_env) approved_store 2 sample_connection ''SELECT mail FROM orders'' (sql_context sample_query_request sample_connection) = Granted" by code_simp
  then show ?thesis by (simp add: access_refused_None)
qed
lemma sample_in_scope: "connection_refused (sample_request 2) (\<lambda>_. False) 7 = None" by code_simp
lemma sample_masked: "applyResult (\<lambda>_. False) sample_mask_env 60 (w_identity sample_env) approved_store sample_mask_db sample_connection 2 (mail_result ''ann@example.org'')
   = MaskOk (False, [0], mail_result ''a****@example.org'')" by code_simp

lemma itoa_25000: "itoa 25000 = ''25000''"
proof -
  have "digit_char 0 = CHR ''0''" "digit_char 2 = CHR ''2''" "digit_char 5 = CHR ''5''" by code_simp+
  then show ?thesis by (simp add: itoa_def nat_show.simps)
qed

lemma sample_setup: "mysql_setup (request_context sample_query_request sample_connection) (loadSQLEditorTimeoutSettings None) = [''SET SESSION max_execution_time = 25000'']"
proof -
  have "qc_database (request_context sample_query_request sample_connection) = []" by code_simp
  then show ?thesis by (simp add: mysql_setup_def loadSQLEditorTimeoutSettings_def defaultSQLEditorTimeoutSettings_def itoa_25000)
qed

lemma sample_parts:
  "dc_id sample_connection = 7" "dc_db_type sample_connection = ''mysql''"
  "er_conn sample_query_request = 7" "er_sql sample_query_request = ''SELECT mail FROM orders''" "er_id sample_query_request = ''q1''"
  "q_user (sample_request u) = u" "q_now (sample_request u) = 60" "q_workflow (sample_request u) = sample_env"
  "ee_conns sample_editor_env 7 = Some sample_connection" "ee_server sample_editor_env i = sample_server" "ee_settings sample_editor_env = None"
  "ee_pool sample_editor_env i = None" "ee_refs sample_editor_env = (\<lambda>_ _. Some [MyQuery sample_query])"
  "ee_mask sample_editor_env = sample_mask_env" "ee_mask_db sample_editor_env = sample_mask_db" "ee_secret sample_editor_env = ''k''"
  "tc_sign (ee_codec sample_editor_env) secret c = Some ''tok''" "tickets_of sample_editor = approved_store" "ed_sent sample_editor = []"
  "sv_open sample_server = None" "sv_exec sample_server cmd = None" "sv_thread sample_server = 5"
  "sv_query sample_server st = Inr \<lparr>mq_columns = [''mail''], mq_types = [''VARCHAR''], mq_rows = [[GoOther ''ann@example.org'']]\<rparr>"
  by (simp_all add: sample_connection_def sample_query_request_def sample_request_def sample_editor_env_def sample_editor_def sample_server_def)

lemma sample_registered: "register_query 60 ''q1'' qy (ed_registry sample_editor) = (False, \<lparr>qr_queries = [''q1'' \<mapsto> qy], qr_pending = (\<lambda>_. None)\<rparr>)"
  by (simp add: register_query_def sample_editor_def sample_id_trimmed pruneLocked_def Let_def)

lemma sample_ran:
  "\<exists>reg. sample_run = (Inr (mail_result ''ann@example.org''), sample_editor\<lparr>ed_registry := reg,
     ed_sent := [SentExec ''SET SESSION max_execution_time = 25000'', SentQuery ''SELECT mail FROM orders LIMIT 200'']\<rparr>)"
proof -
  have "sample_run = executeSQLQuery (ee_lineage sample_editor_env) sample_server
      \<lparr>qo_id = ''q1'', qo_user = 2, qo_now = 60\<rparr> sample_connection ''SELECT mail FROM orders LIMIT 200'' (request_context sample_query_request sample_connection)
      (loadSQLEditorTimeoutSettings None) sample_editor"
    by (simp add: request_run_def sample_text executeQueryForConnection_def sample_parts sample_id_trimmed)
  then show ?thesis
    by (simp add: executeSQLQuery_def sample_setup sample_split sample_trimmed executeSingleSQLStatement_def run_registered_def sample_parts sample_registered sample_lineage_result send_def) (rule exI, rule refl)
qed
lemma sample_answer:
  "\<exists>ed'. ExecuteQuery sample_editor_env (sample_request 2) (\<lambda>_. False) (Some sample_query_request) sample_editor =
       (QueryResponse (mail_result ''a****@example.org'') [0] False ''tok'', ed') \<and>
     ed_sent ed' = [SentExec ''SET SESSION max_execution_time = 25000'', SentQuery ''SELECT mail FROM orders LIMIT 200'']"
proof -
  let ?q = "sample_request 2" and ?ef = "(\<lambda>_. False) :: editor_op \<Rightarrow> bool"
  from sample_ran obtain reg where run: "sample_run = (Inr (mail_result ''ann@example.org''), sample_editor\<lparr>ed_registry := reg,
     ed_sent := [SentExec ''SET SESSION max_execution_time = 25000'', SentQuery ''SELECT mail FROM orders LIMIT 200'']\<rparr>)" (is "_ = (_, ?ed1)") by blast
  have t: "tickets_of ?ed1 = approved_store" by (simp add: sample_editor_def)
  obtain ds where ds: "analyzeSensitiveColumns (\<lambda>_. False) sample_mask_env sample_mask_db sample_connection (mail_result ''ann@example.org'') = MaskOk ds"
    "applyAnalyzedResult (\<lambda>_. False) sample_mask_env 60 (w_identity sample_env) approved_store sample_connection 2 (mail_result ''ann@example.org'') ds
      = MaskOk (False, [0], mail_result ''a****@example.org'')"
    using sample_masked by (auto simp: applyResult_def split: outcome.splits)
  have f: "?ef \<circ> EdMask = (\<lambda>_. False)" "?ef \<circ> EdAccess = (\<lambda>_. False)" by auto
  have "\<exists>ed'. finish_query sample_editor_env ?q ?ef sample_query_request sample_connection (request_context sample_query_request sample_connection)
      (mail_result ''ann@example.org'') ?ed1 = (QueryResponse (mail_result ''a****@example.org'') [0] False ''tok'', ed') \<and> ed_sent ed' = ed_sent ?ed1"
    unfolding finish_query_def f sample_parts t ds outcome.case prod.case newQueryContextToken_def by simp
  moreover have "CheckReadOnly (lp_parse (ee_limits sample_editor_env)) (DialectFromDBType ''mysql'') ''SELECT mail FROM orders'' = None" by code_simp
  ultimately have "\<exists>ed'. execute_sql sample_editor_env ?q ?ef sample_query_request sample_connection sample_editor =
      (QueryResponse (mail_result ''a****@example.org'') [0] False ''tok'', ed') \<and> ed_sent ed' = ed_sent ?ed1"
    using run sample_access by (auto simp: execute_sql_def sample_parts f Let_def sql_context_def request_context_def request_run_def run_text_def)
  then show ?thesis using sample_in_scope by (auto simp: ExecuteQuery_def sample_parts)
qed

section \<open>Witnesses\<close>

theorem editor_sends_checked_witness:
  "7 \<in> set (GetEffectiveDBConnectionIDs 60 (w_identity sample_env) 2) \<and>
   CheckReadOnly (lp_parse sample_limits) DialectMySQL ''SELECT mail FROM orders'' = None"
proof -
  from sample_answer obtain ed' where
    "ExecuteQuery sample_editor_env (sample_request 2) (\<lambda>_. False) (Some sample_query_request) sample_editor =
       (QueryResponse (mail_result ''a****@example.org'') [0] False ''tok'', ed')" "ed_sent ed' \<noteq> ed_sent sample_editor"
    by (auto simp: sample_parts)
  from editor_sends_checked [OF this] show ?thesis
    by (auto simp: sample_parts DialectFromDBType_def trim_space_def is_space_def to_lower_def lower_char_def Let_def sample_editor_env_def)
qed


theorem saved_queries_bounded_witness:
  "saved_wf (fold (saved_step sample_editor_env) [(sample_request 2, \<lambda>_. False, SaveQuery (Some \<lparr>sv_label = ''mail'', sv_conn = 7, sv_db = [], sv_schema = [],
     sv_redis = None, sv_content = ''SELECT mail FROM orders''\<rparr>)), (sample_request 2, \<lambda>_. False, RemoveQuery ''1'')] sample_editor)"
proof -
  have "saved_wf sample_editor" by (simp add: saved_wf_def sample_editor_def CountSavedQueries_def)
  then show ?thesis by (rule saved_queries_bounded)
qed

section \<open>A request for sensitive columns\<close>

definition sample_sensitive_env :: editor_env where
  "sample_sensitive_env = sample_editor_env\<lparr>ee_codec := sample_codec\<rparr>"

definition sample_sensitive_request :: sensitive_request where
  "sample_sensitive_request = \<lparr>sr_conn = 7, sr_sql = ''SELECT mail FROM users'', sr_database = ''shop'', sr_schema = [], sr_minutes = 0,
     sr_token = ''tok'', sr_reason = ''audit''\<rparr>"

lemma sample_sensitive_created:
  "\<exists>st n ed'. CreateSensitiveAccessTicket sample_sensitive_env (sample_request 2) (\<lambda>_. False) (\<lambda>_. False) ''TK-13'' (Some sample_sensitive_request) sample_editor
     = (TicketCreated 13 st n, ed')"
proof -
  have "(case fst (CreateSensitiveAccessTicket sample_sensitive_env (sample_request 2) (\<lambda>_. False) (\<lambda>_. False) ''TK-13''
      (Some sample_sensitive_request) sample_editor) of TicketCreated i st n \<Rightarrow> i = 13 | _ \<Rightarrow> False)" by code_simp
  then show ?thesis
    by (cases "CreateSensitiveAccessTicket sample_sensitive_env (sample_request 2) (\<lambda>_. False) (\<lambda>_. False) ''TK-13'' (Some sample_sensitive_request) sample_editor")
      (auto split: editor_response.splits)
qed

theorem sensitive_request_vouched_witness:
  "\<exists>ed' minutes scopes. filed 13 2 7 ''SELECT mail FROM users'' minutes scopes (tickets_of ed') \<and> minutes \<le> 4320 \<and> cl_sensitive sample_claims"
proof -
  from sample_sensitive_created obtain st n ed' where
    "CreateSensitiveAccessTicket sample_sensitive_env (sample_request 2) (\<lambda>_. False) (\<lambda>_. False) ''TK-13'' (Some sample_sensitive_request) sample_editor
       = (TicketCreated 13 st n, ed')" by blast
  from sensitive_request_vouched [OF this] show ?thesis
    by (auto simp: sample_request_def sample_sensitive_request_def sample_claims_def)
qed

section \<open>Masking is lost with the lineage\<close>

definition ssn_rule :: mask_db where
  "ssn_rule = \<lparr>md_rules = [\<lparr>dm_id = 1, dm_global = True, dm_column = ''ssn'', dm_match = MatchExact, dm_mode = ModeFull,
     dm_config = BlankConfig, dm_enabled = True\<rparr>], md_next_rule = 2, md_exemptions = [], md_next_exemption = 1\<rparr>"

text \<open>
  \<open>SELECT id FROM orders UNION SELECT ssn FROM users\<close>: the rows hold values of \<open>ssn\<close>, the rule on \<open>ssn\<close> covers the
  second query alone, and yet no column of the union counts as sensitive.
\<close>

lemma union_not_masked:
  "analyzeSensitiveColumns (\<lambda>_. False) sample_mask_env ssn_rule sample_connection
     (my_result (\<lambda>_. Some [LSetOpr [] [select_one (column ''id'') ''orders'', select_one (column ''ssn'') ''users'']]) (sample_server\<lparr>sv_load := sample_load\<rparr>)
        sample_connection \<lparr>qc_database = [], qc_schema = [], qc_redis = None, qc_limit = 0\<rparr> ''SELECT id FROM orders UNION SELECT ssn FROM users''
        \<lparr>mq_columns = [''id''], mq_types = [''VARCHAR''], mq_rows = [[GoOther ''123-45'']]\<rparr>) = MaskOk []"
  "analyzeSensitiveColumns (\<lambda>_. False) sample_mask_env ssn_rule sample_connection
     (my_result (\<lambda>_. Some [select_one (column ''ssn'') ''users'']) (sample_server\<lparr>sv_load := sample_load\<rparr>)
        sample_connection \<lparr>qc_database = [], qc_schema = [], qc_redis = None, qc_limit = 0\<rparr> ''SELECT ssn FROM users''
        \<lparr>mq_columns = [''ssn''], mq_types = [''VARCHAR''], mq_rows = [[GoOther ''123-45'']]\<rparr>) \<noteq> MaskOk []"
  by code_simp+

text \<open>
  The catalog origins of PostgreSQL carry the database the driver reports. With an empty one they are taken to be
  in the connection's default database, whichever database the query ran in: an exemption for a table there
  covers the table of the same name elsewhere.
\<close>

lemma exemption_of_other_database:
  assumes "dc_database conn = Some ''main''" and "pa_table a = pf_table f" "pa_num a = pf_attr f" and "sv_database sv = []"
  shows "co_database (resolved_origin conn label (attribute_origin (sv_database sv) [a] f)) = ''main''"
proof -
  have "trim_space ''main'' = ''main''" "trim_space [] = []" by code_simp+
  then show ?thesis
    using assms by (simp add: resolved_origin_def attribute_origin_def originDatabaseName_def connectionDatabaseName_def)
qed

end
