(* ===== verification/Administration.thy ===== *)
theory Administration
  imports Sign_In
begin

text \<open>
  Administration of users and groups: the handlers of \<open>internal/handler/user.go\<close> and
  \<open>internal/handler/auth_group.go\<close> that change accounts, sessions, groups and grants, the checks of
  \<open>internal/handler/security_guards.go\<close> on who may give away what, and the repository
  \<open>internal/repository/auth_group.go\<close>.

  A handler is written with continuations, one for every step of its code: a step answers or goes on. A
  request is one step with a single reading of the clock; \<open>ve_fails\<close> says which of its database calls fail, a
  call that is repeated with the same arguments fails always or never, and \<open>ve_error\<close> is the text of such a
  failure. Password hashing and the parsing of times are parameters. Go maps are walked in the order of the
  lists they are built from; the order decides only which of several refusals is given. The details of audit
  entries, the bodies of answers and the modification times of groups are left out, and the repositories,
  which may be absent in tests, are present.
\<close>

section \<open>Store\<close>

datatype write_error = NoRows | WriteFailed

definition GroupByKey :: "identity \<Rightarrow> string \<Rightarrow> auth_group_row option" where
  "GroupByKey db key = find (\<lambda>g. ag_key g = key) (i_groups db)"

definition ListPermissionKeys :: "identity \<Rightarrow> id64 \<Rightarrow> string list" where
  "ListPermissionKeys db g =
     sort [p_key p. p \<leftarrow> i_permissions db, agp \<leftarrow> i_group_permissions db, snd agp = p_id p, fst agp = g]"

definition ListDBConnectionIDs :: "identity \<Rightarrow> id64 \<Rightarrow> id64 list" where
  "ListDBConnectionIDs db g = sort [snd r. r \<leftarrow> i_group_connections db, fst r = g]"

text \<open>The key \<open>uq_auth_groups_key\<close>; \<open>is_all_permissions\<close> keeps its default.\<close>

definition CreateGroup :: "string \<Rightarrow> string \<Rightarrow> string \<Rightarrow> bool \<Rightarrow> bool \<Rightarrow> identity \<Rightarrow> auth_group_row option \<times> identity" where
  "CreateGroup key name desc is_system is_protected db =
     (if list_ex (\<lambda>g. ag_key g = key) (i_groups db) then (None, db)
      else let g = \<lparr>ag_id = i_next_group db, ag_key = key, ag_all_permissions = False, ag_name = name,
                    ag_description = desc, ag_is_system = is_system, ag_is_protected = is_protected\<rparr>
           in (Some g, db\<lparr>i_groups := i_groups db @ [g], i_next_group := i_next_group db + 1\<rparr>))"

definition UpdateGroup :: "id64 \<Rightarrow> string \<Rightarrow> string \<Rightarrow> string \<Rightarrow> identity \<Rightarrow> bool \<times> identity" where
  "UpdateGroup i key name desc db =
     (if list_ex (\<lambda>g. ag_key g = key \<and> ag_id g \<noteq> i) (i_groups db) \<and> list_ex (\<lambda>g. ag_id g = i) (i_groups db)
      then (False, db)
      else (True, db\<lparr>i_groups := update_where (\<lambda>g. ag_id g = i)
        (\<lambda>g. g\<lparr>ag_key := key, ag_name := name, ag_description := desc\<rparr>) (i_groups db)\<rparr>))"

definition DeleteGroup :: "id64 \<Rightarrow> identity \<Rightarrow> identity" where
  "DeleteGroup i db = db\<lparr>
     i_group_permissions := delete_where (\<lambda>r. fst r = i) (i_group_permissions db),
     i_group_connections := delete_where (\<lambda>r. fst r = i) (i_group_connections db),
     i_user_groups := delete_where (\<lambda>r. uag_group r = i) (i_user_groups db),
     i_groups := delete_where (\<lambda>g. ag_id g = i) (i_groups db)\<rparr>"

definition AddGroupPermission :: "id64 \<Rightarrow> string \<Rightarrow> identity \<Rightarrow> bool \<times> identity" where
  "AddGroupPermission g key db =
     (let new = [(g, p_id p). p \<leftarrow> i_permissions db, p_key p = key];
          fresh = filter (\<lambda>r. r \<notin> set (i_group_permissions db)) new
      in if fresh = [] \<and> \<not> list_ex (\<lambda>p. p_key p = key) (i_permissions db) then (False, db)
         else (True, db\<lparr>i_group_permissions := i_group_permissions db @ fresh\<rparr>))"

definition RemoveGroupPermission :: "id64 \<Rightarrow> string \<Rightarrow> identity \<Rightarrow> identity" where
  "RemoveGroupPermission g key db =
     db\<lparr>i_group_permissions := delete_where (\<lambda>r. fst r = g \<and>
        list_ex (\<lambda>p. p_id p = snd r \<and> p_key p = key) (i_permissions db)) (i_group_permissions db)\<rparr>"

definition AddGroupConnection :: "id64 \<Rightarrow> id64 \<Rightarrow> identity \<Rightarrow> identity" where
  "AddGroupConnection g c db =
     (if (g, c) \<in> set (i_group_connections db) then db
      else db\<lparr>i_group_connections := i_group_connections db @ [(g, c)]\<rparr>)"

definition RemoveGroupConnection :: "id64 \<Rightarrow> id64 \<Rightarrow> identity \<Rightarrow> identity" where
  "RemoveGroupConnection g c db =
     db\<lparr>i_group_connections := delete_where (\<lambda>r. r = (g, c)) (i_group_connections db)\<rparr>"

text \<open>
  The inserts of the transactions that replace grants, for the owner \<open>own\<close> of the rows: an unknown permission
  and a repeated row end the transaction.
\<close>

fun insert_permissions ::
    "permission_row list \<Rightarrow> id64 \<Rightarrow> string list \<Rightarrow> (id64 \<times> id64) list \<Rightarrow> write_error + (id64 \<times> id64) list" where
  "insert_permissions perms own [] rows = Inr rows"
| "insert_permissions perms own (k # ks) rows =
     (let new = [(own, p_id p). p \<leftarrow> perms, p_key p = k]
      in if list_ex (\<lambda>r. r \<in> set rows) new then Inl WriteFailed
         else if new = [] then Inl NoRows
         else insert_permissions perms own ks (rows @ new))"

fun insert_connections :: "id64 \<Rightarrow> id64 list \<Rightarrow> (id64 \<times> id64) list \<Rightarrow> (id64 \<times> id64) list option" where
  "insert_connections own [] rows = Some rows"
| "insert_connections own (c # cs) rows =
     (if (own, c) \<in> set rows then None else insert_connections own cs (rows @ [(own, c)]))"

definition ReplaceDirectPermissionKeys :: "id64 \<Rightarrow> string list \<Rightarrow> identity \<Rightarrow> write_error option \<times> identity" where
  "ReplaceDirectPermissionKeys u keys db =
     (case insert_permissions (i_permissions db) u keys (delete_where (\<lambda>r. fst r = u) (i_user_permissions db)) of
        Inl e \<Rightarrow> (Some e, db) | Inr rows \<Rightarrow> (None, db\<lparr>i_user_permissions := rows\<rparr>))"

definition ReplacePermissionKeys :: "id64 \<Rightarrow> string list \<Rightarrow> identity \<Rightarrow> write_error option \<times> identity" where
  "ReplacePermissionKeys g keys db =
     (case insert_permissions (i_permissions db) g keys (delete_where (\<lambda>r. fst r = g) (i_group_permissions db)) of
        Inl e \<Rightarrow> (Some e, db) | Inr rows \<Rightarrow> (None, db\<lparr>i_group_permissions := rows\<rparr>))"

definition ReplaceDirectDBConnectionIDs :: "id64 \<Rightarrow> id64 list \<Rightarrow> identity \<Rightarrow> bool \<times> identity" where
  "ReplaceDirectDBConnectionIDs u ids db =
     (case insert_connections u ids (delete_where (\<lambda>r. fst r = u) (i_user_connections db)) of
        None \<Rightarrow> (False, db) | Some rows \<Rightarrow> (True, db\<lparr>i_user_connections := rows\<rparr>))"

definition ReplaceDBConnectionIDs :: "id64 \<Rightarrow> id64 list \<Rightarrow> identity \<Rightarrow> bool \<times> identity" where
  "ReplaceDBConnectionIDs g ids db =
     (case insert_connections g ids (delete_where (\<lambda>r. fst r = g) (i_group_connections db)) of
        None \<Rightarrow> (False, db) | Some rows \<Rightarrow> (True, db\<lparr>i_group_connections := rows\<rparr>))"

text \<open>The groups named in \<open>ListMemberships\<close>.\<close>

definition ListMemberships :: "timestamp \<Rightarrow> identity \<Rightarrow> id64 \<Rightarrow> string list" where
  "ListMemberships now db u =
     [ag_key g. uag \<leftarrow> i_user_groups db, g \<leftarrow> i_groups db, ag_id g = uag_group uag,
                uag_user uag = u \<and> not_expired now (uag_expires_at uag)] @
     [agm_group m. m \<leftarrow> i_memberships db, agm_user m = u \<and> not_expired now (agm_expires_at m)]"

text \<open>\<open>UserRepo.Update\<close>; the keys \<open>uq_users_username\<close> and \<open>uq_users_email\<close>.\<close>

definition UpdateUser ::
    "timestamp \<Rightarrow> id64 \<Rightarrow> string \<Rightarrow> string \<Rightarrow> string \<Rightarrow> string \<Rightarrow> string \<Rightarrow> auth_db \<Rightarrow> bool \<times> auth_db" where
  "UpdateUser now u username email recipient recipientType unionID db =
     (if list_ex (\<lambda>a. u_id a \<noteq> u \<and> (u_username a = username \<or> ac_email a = email)) (ad_accounts db) \<and>
         list_ex (\<lambda>a. u_id a = u) (ad_accounts db) then (False, db)
      else (True, update_account (\<lambda>a. u_id a = u) (\<lambda>a. a\<lparr>u_username := username, ac_email := email,
        ac_lark_recipient := trim_space recipient, ac_lark_recipient_type := normalizeLarkRecipientType recipientType,
        ac_lark_union_id := trim_space unionID, ac_updated_at := now\<rparr>) db))"

definition GenerateAuthGroupKey :: "string \<Rightarrow> string" where
  "GenerateAuthGroupKey name =
     trim_cutset ''-'' (replace_all (trim_space (to_lower (replace_all name '' '' ''-''))) ''--'' ''-'')"

definition ValidateAuthGroupKey :: "string \<Rightarrow> string option" where
  "ValidateAuthGroupKey key =
     (if key = [] then Some ''group_key is required''
      else if list_all (\<lambda>c. CHR ''a'' \<le> c \<and> c \<le> CHR ''z'' \<or> is_digit c \<or> c = CHR ''_'' \<or> c = CHR ''-'') key then None
      else Some ''group_key must contain only lowercase letters, digits, underscore, or dash'')"

section \<open>Requests\<close>

datatype admin_op =
    VUser id64 | VGroup string | VHasAll | VPermissions | VConnections | VGroupPermissions | VGroupConnections
  | VMemberships | VMembers | VUsername | VEmail | VCreate | VUpdate | VPassword | VActive | VRevokeAll | VRevokeOne
  | VResetMFA | VDelete | VAddMember id64 | VRemoveMember id64 | VReplaceMembers | VAddPermission | VRemovePermission
  | VReplacePermissions | VAddConnection | VRemoveConnection | VReplaceConnections | VGroupCreate | VGroupUpdate
  | VGroupDelete | VReload

record admin_env =
  ve_fails :: "admin_op \<Rightarrow> bool"
  ve_error :: string
  ve_password_hash :: "string \<Rightarrow> string option"
  ve_parse_time :: "string \<Rightarrow> timestamp option"

record admin_caller =
  vq_actor :: id64
  vq_now :: timestamp

text \<open>An audit entry: action, actor and resource.\<close>

record admin_world =
  vw_db :: auth_db
  vw_audit :: "(string \<times> id64 \<times> id64) list"

datatype admin_response = AdminErr nat string | AdminOK | AdminCreated id64 | AdminNoContent

type_synonym admin_handler = "admin_world \<Rightarrow> admin_response \<times> admin_world"

definition identity_in :: "admin_world \<Rightarrow> identity" where
  "identity_in w = identity_of (vw_db w)"

definition set_admin_db :: "auth_db \<Rightarrow> admin_world \<Rightarrow> admin_world" where
  "set_admin_db db w = w\<lparr>vw_db := db\<rparr>"

definition set_identity :: "identity \<Rightarrow> admin_world \<Rightarrow> admin_world" where
  "set_identity idb w = w\<lparr>vw_db := (vw_db w)\<lparr>ad_identity := idb\<lparr>i_users := i_users (ad_identity (vw_db w))\<rparr>\<rparr>\<rparr>"

definition log_admin :: "string \<Rightarrow> id64 \<Rightarrow> id64 \<Rightarrow> admin_world \<Rightarrow> admin_world" where
  "log_admin action actor resource w = w\<lparr>vw_audit := vw_audit w @ [(action, actor, resource)]\<rparr>"

definition refuse :: "nat \<Rightarrow> string \<Rightarrow> admin_handler" where
  "refuse code msg w = (AdminErr code msg, w)"

definition answer :: "admin_response \<Rightarrow> admin_handler" where
  "answer r w = (r, w)"

definition audited :: "string \<Rightarrow> id64 \<Rightarrow> id64 \<Rightarrow> admin_handler \<Rightarrow> admin_handler" where
  "audited action actor resource k w = k (log_admin action actor resource w)"

definition require :: "bool \<Rightarrow> nat \<Rightarrow> string \<Rightarrow> admin_handler \<Rightarrow> admin_handler" where
  "require b code msg k = (if b then k else refuse code msg)"

definition with_value :: "'a option \<Rightarrow> nat \<Rightarrow> string \<Rightarrow> ('a \<Rightarrow> admin_handler) \<Rightarrow> admin_handler" where
  "with_value v code msg k = (case v of None \<Rightarrow> refuse code msg | Some x \<Rightarrow> k x)"

section \<open>Who may grant what\<close>

text \<open>The checks of \<open>security_guards.go\<close>: \<open>None\<close> lets the request pass, otherwise the text of the error.\<close>

definition requireAllPermissionsAdmin :: "admin_env \<Rightarrow> timestamp \<Rightarrow> identity \<Rightarrow> id64 \<Rightarrow> string option" where
  "requireAllPermissionsAdmin env now db actor =
     (if actor = 0 then Some ''all-permissions admin is required''
      else if ve_fails env VHasAll then Some (ve_error env)
      else if HasAllPermissions now db actor then None
      else Some ''all-permissions admin is required'')"

definition requireProtectedUserAdmin :: "admin_env \<Rightarrow> timestamp \<Rightarrow> identity \<Rightarrow> id64 \<Rightarrow> user \<Rightarrow> string option" where
  "requireProtectedUserAdmin env now db actor u =
     (if \<not> u_is_protected u then None
      else if requireAllPermissionsAdmin env now db actor \<noteq> None
        then Some ''protected user can only be changed by all-permissions admin''
      else None)"

definition guarded_group :: "auth_group_row \<Rightarrow> bool" where
  "guarded_group g = (ag_is_protected g \<or> ag_all_permissions g \<or> ag_key g = AuthGroupAdmin)"

definition requireAuthGroupGrantAllowed :: "admin_env \<Rightarrow> timestamp \<Rightarrow> identity \<Rightarrow> id64 \<Rightarrow> auth_group_row \<Rightarrow> string option" where
  "requireAuthGroupGrantAllowed env now db actor g =
     (if guarded_group g \<and> requireAllPermissionsAdmin env now db actor \<noteq> None
      then Some ''cannot grant protected or all-permissions auth group'' else None)"

definition requireAuthGroupMutationAllowed ::
    "admin_env \<Rightarrow> timestamp \<Rightarrow> identity \<Rightarrow> id64 \<Rightarrow> auth_group_row option \<Rightarrow> string option" where
  "requireAuthGroupMutationAllowed env now db actor og =
     (case og of None \<Rightarrow> None
      | Some g \<Rightarrow>
          if guarded_group g \<and> requireAllPermissionsAdmin env now db actor \<noteq> None
          then Some ''protected auth group can only be changed by all-permissions admin'' else None)"

definition requirePermissionGrantAllowed :: "admin_env \<Rightarrow> timestamp \<Rightarrow> identity \<Rightarrow> id64 \<Rightarrow> string \<Rightarrow> string option" where
  "requirePermissionGrantAllowed env now db actor key =
     (if actor = 0 then Some ''cannot grant permission''
      else if ve_fails env VHasAll then Some (ve_error env)
      else if HasAllPermissions now db actor then None
      else if ve_fails env VPermissions then Some (ve_error env)
      else if list_ex (\<lambda>k. k = key) (GetEffectivePermissionKeys now db actor) then None
      else Some ''cannot grant permission not held by actor'')"

definition requireDBConnectionGrantAllowed :: "admin_env \<Rightarrow> timestamp \<Rightarrow> identity \<Rightarrow> id64 \<Rightarrow> id64 \<Rightarrow> string option" where
  "requireDBConnectionGrantAllowed env now db actor conn =
     (if actor = 0 then Some ''cannot grant db connection scope''
      else if ve_fails env VHasAll then Some (ve_error env)
      else if HasAllPermissions now db actor then None
      else if ve_fails env VConnections then Some (ve_error env)
      else if list_ex (\<lambda>i. i = conn) (GetEffectiveDBConnectionIDs now db actor) then None
      else Some ''cannot grant db connection scope not held by actor'')"

fun first_error :: "('a \<Rightarrow> string option) \<Rightarrow> 'a list \<Rightarrow> string option" where
  "first_error check [] = None"
| "first_error check (x # xs) = (case check x of None \<Rightarrow> first_error check xs | Some e \<Rightarrow> Some e)"

definition requireAuthGroupContentsGrantAllowed ::
    "admin_env \<Rightarrow> timestamp \<Rightarrow> identity \<Rightarrow> id64 \<Rightarrow> auth_group_row \<Rightarrow> string option" where
  "requireAuthGroupContentsGrantAllowed env now db actor g =
     (case requireAuthGroupGrantAllowed env now db actor g of Some e \<Rightarrow> Some e
      | None \<Rightarrow>
          if ve_fails env VHasAll then Some (ve_error env)
          else if HasAllPermissions now db actor then None
          else if ve_fails env VGroupPermissions then Some (ve_error env)
          else case first_error (requirePermissionGrantAllowed env now db actor) (ListPermissionKeys db (ag_id g)) of
            Some e \<Rightarrow> Some e
          | None \<Rightarrow>
              if ve_fails env VGroupConnections then Some (ve_error env)
              else first_error (requireDBConnectionGrantAllowed env now db actor) (ListDBConnectionIDs db (ag_id g)))"

section \<open>Steps\<close>

definition with_id :: "string \<Rightarrow> (id64 \<Rightarrow> admin_handler) \<Rightarrow> admin_handler" where
  "with_id raw = with_value (parse_uint64 raw) 400 ''invalid user id''"

text \<open>A user that cannot be loaded is answered like one that does not exist.\<close>

definition with_user :: "admin_env \<Rightarrow> id64 \<Rightarrow> (account \<Rightarrow> admin_handler) \<Rightarrow> admin_handler" where
  "with_user env i k w = with_value (if ve_fails env (VUser i) then None else GetAccount (vw_db w) i) 404 ''user not found'' k w"

definition with_group :: "admin_env \<Rightarrow> string \<Rightarrow> nat \<Rightarrow> string \<Rightarrow> (auth_group_row \<Rightarrow> admin_handler) \<Rightarrow> admin_handler" where
  "with_group env key code msg k w =
     require (\<not> ve_fails env (VGroup key)) 500 ''load auth group failed''
       (with_value (GroupByKey (identity_in w) key) code msg k) w"

text \<open>\<open>logForbiddenUserMutation\<close> and \<open>logForbiddenAuthGroupMutation\<close>, which differ in the action they record.\<close>

definition guarded :: "string \<Rightarrow> admin_caller \<Rightarrow> id64 \<Rightarrow> (identity \<Rightarrow> string option) \<Rightarrow> admin_handler \<Rightarrow> admin_handler" where
  "guarded action q resource check k w =
     (case check (identity_in w) of
        None \<Rightarrow> k w
      | Some e \<Rightarrow> audited action (vq_actor q) resource (refuse 403 e) w)"

abbreviation user_guard :: "admin_caller \<Rightarrow> id64 \<Rightarrow> (identity \<Rightarrow> string option) \<Rightarrow> admin_handler \<Rightarrow> admin_handler" where
  "user_guard \<equiv> guarded ''user_security_denied''"

abbreviation group_guard :: "admin_caller \<Rightarrow> id64 \<Rightarrow> (identity \<Rightarrow> string option) \<Rightarrow> admin_handler \<Rightarrow> admin_handler" where
  "group_guard \<equiv> guarded ''auth_group_security_denied''"

definition protected_check :: "admin_env \<Rightarrow> admin_caller \<Rightarrow> account \<Rightarrow> identity \<Rightarrow> string option" where
  "protected_check env q a db = requireProtectedUserAdmin env (vq_now q) db (vq_actor q) (user.truncate a)"

text \<open>A write that cannot fail by itself, and one that reports whether it was done.\<close>

definition write_db :: "bool \<Rightarrow> string \<Rightarrow> (auth_db \<Rightarrow> auth_db) \<Rightarrow> admin_handler \<Rightarrow> admin_handler" where
  "write_db fails msg f k w = (if fails then refuse 500 msg w else k (set_admin_db (f (vw_db w)) w))"

definition write_identity :: "bool \<Rightarrow> string \<Rightarrow> (identity \<Rightarrow> identity) \<Rightarrow> admin_handler \<Rightarrow> admin_handler" where
  "write_identity fails msg f k w = (if fails then refuse 500 msg w else k (set_identity (f (identity_in w)) w))"

definition try_identity ::
    "bool \<Rightarrow> string \<Rightarrow> (identity \<Rightarrow> write_error option \<times> identity) \<Rightarrow> admin_handler \<Rightarrow> admin_handler" where
  "try_identity fails msg f k w =
     (if fails then refuse 500 msg w
      else case f (identity_in w) of
        (Some NoRows, _) \<Rightarrow> refuse 422 ''invalid permission_key'' w
      | (Some WriteFailed, _) \<Rightarrow> refuse 500 msg w
      | (None, db') \<Rightarrow> k (set_identity db' w))"

definition or_failed :: "bool \<times> identity \<Rightarrow> write_error option \<times> identity" where
  "or_failed r = (if fst r then None else Some WriteFailed, snd r)"

definition or_no_rows :: "bool \<times> identity \<Rightarrow> write_error option \<times> identity" where
  "or_no_rows r = (if fst r then None else Some NoRows, snd r)"

section \<open>Users\<close>

record user_form =
  uf_username :: string
  uf_email :: string
  uf_lark_recipient :: string
  uf_lark_recipient_type :: string
  uf_lark_union_id :: string
  uf_password :: string

definition password_error :: "string \<Rightarrow> string" where
  "password_error pw = (if length pw < 8 then ''password must be at least 8 characters''
     else ''password must contain uppercase, lowercase, and digit characters'')"

definition UserCreate :: "admin_env \<Rightarrow> admin_caller \<Rightarrow> user_form option \<Rightarrow> admin_handler" where
  "UserCreate env q body = with_value body 400 ''invalid request body'' (\<lambda>f w.
     let username = trim_space (uf_username f); email = trim_space (uf_email f)
     in require (username \<noteq> [] \<and> email \<noteq> [] \<and> uf_password f \<noteq> []) 422 ''username, email, and password are required''
       (require (validatePassword (uf_password f)) 422 (password_error (uf_password f))
       (require (\<not> ve_fails env VUsername) 500 ''check username failed''
       (require (GetByUsername (vw_db w) username = None) 409 ''username already exists''
       (require (\<not> ve_fails env VEmail) 500 ''check email failed''
       (require (GetByEmail (vw_db w) email = None) 409 ''email already exists''
       (with_value (ve_password_hash env (uf_password f)) 500 ''internal error'' (\<lambda>h w.
         if ve_fails env VCreate then refuse 500 ''create user failed'' w
         else case CreateUser (vq_now q) username email (trim_space (uf_lark_recipient f))
             (normalizeLarkRecipientType (uf_lark_recipient_type f)) (trim_space (uf_lark_union_id f)) h False (vw_db w) of
           (None, _) \<Rightarrow> refuse 500 ''create user failed'' w
         | (Some i, db') \<Rightarrow> audited ''user_create'' (vq_actor q) i (answer (AdminCreated i)) (set_admin_db db' w)))))))) w)"

definition UserRevokeSession :: "admin_env \<Rightarrow> admin_caller \<Rightarrow> string \<Rightarrow> string \<Rightarrow> admin_handler" where
  "UserRevokeSession env q raw rawSession = with_id raw (\<lambda>i.
     with_value (case parse_uint64 rawSession of None \<Rightarrow> None | Some s \<Rightarrow> if s = 0 then None else Some s)
       400 ''invalid session id'' (\<lambda>sid. with_user env i (\<lambda>a. user_guard q i (protected_check env q a)
       (\<lambda>w. if ve_fails env VRevokeOne then refuse 500 ''revoke session failed'' w
            else case RevokeByIDForUser (vq_now q) sid i (vw_db w) of
              (False, _) \<Rightarrow> refuse 404 ''session not found'' w
            | (True, db') \<Rightarrow> audited ''user_session_revoke'' (vq_actor q) i (answer AdminNoContent) (set_admin_db db' w)))))"

definition UserRevokeSessions :: "admin_env \<Rightarrow> admin_caller \<Rightarrow> string \<Rightarrow> admin_handler" where
  "UserRevokeSessions env q raw = with_id raw (\<lambda>i. with_user env i (\<lambda>a. user_guard q i (protected_check env q a)
     (write_db (ve_fails env VRevokeAll) ''revoke sessions failed'' (RevokeAllForUser (vq_now q) i)
     (audited ''user_session_revoke_all'' (vq_actor q) i (answer AdminNoContent)))))"

definition UserResetMFA :: "admin_env \<Rightarrow> admin_caller \<Rightarrow> string \<Rightarrow> admin_handler" where
  "UserResetMFA env q raw = with_id raw (\<lambda>i. with_user env i (\<lambda>a. user_guard q i (protected_check env q a)
     (write_db (ve_fails env VResetMFA) ''reset mfa failed'' (ResetMFA (vq_now q) i)
     (write_db (ve_fails env VRevokeAll) ''revoke sessions failed'' (RevokeAllForUser (vq_now q) i)
     (audited ''user_mfa_reset'' (vq_actor q) i (answer AdminNoContent))))))"

definition contents_check :: "admin_env \<Rightarrow> admin_caller \<Rightarrow> auth_group_row \<Rightarrow> identity \<Rightarrow> string option" where
  "contents_check env q g db = requireAuthGroupContentsGrantAllowed env (vq_now q) db (vq_actor q) g"

definition mutation_check :: "admin_env \<Rightarrow> admin_caller \<Rightarrow> auth_group_row option \<Rightarrow> identity \<Rightarrow> string option" where
  "mutation_check env q g db = requireAuthGroupMutationAllowed env (vq_now q) db (vq_actor q) g"

definition permission_check :: "admin_env \<Rightarrow> admin_caller \<Rightarrow> string \<Rightarrow> identity \<Rightarrow> string option" where
  "permission_check env q key db = requirePermissionGrantAllowed env (vq_now q) db (vq_actor q) key"

definition connection_check :: "admin_env \<Rightarrow> admin_caller \<Rightarrow> id64 \<Rightarrow> identity \<Rightarrow> string option" where
  "connection_check env q c db = requireDBConnectionGrantAllowed env (vq_now q) db (vq_actor q) c"

record membership_form =
  mf_auth_group :: string
  mf_expires_at :: "string option"

definition parse_expiry :: "admin_env \<Rightarrow> string option \<Rightarrow> timestamp option option" where
  "parse_expiry env e = (case e of None \<Rightarrow> Some None
     | Some v \<Rightarrow> if v = [] then Some None else map_option Some (ve_parse_time env v))"

definition UserAddMembership :: "admin_env \<Rightarrow> admin_caller \<Rightarrow> string \<Rightarrow> membership_form option \<Rightarrow> admin_handler" where
  "UserAddMembership env q raw body = with_id raw (\<lambda>i. with_value body 400 ''invalid request body'' (\<lambda>f.
     let key = trim_space (mf_auth_group f)
     in with_group env key 422 ''invalid auth_group'' (\<lambda>g. with_user env i (\<lambda>a.
       user_guard q i (protected_check env q a) (user_guard q i (contents_check env q g)
       (with_value (parse_expiry env (mf_expires_at f)) 422 ''expires_at must be RFC3339 format (e.g. 2026-12-31T00:00:00Z)'' (\<lambda>e.
         write_identity (ve_fails env (VAddMember i)) ''add membership failed'' (AddMembership i key e)
         (audited ''user_membership_add'' (vq_actor q) i (answer AdminNoContent)))))))))"

definition UserDelete :: "admin_env \<Rightarrow> admin_caller \<Rightarrow> string \<Rightarrow> admin_handler" where
  "UserDelete env q raw = with_id raw (\<lambda>i. with_user env i (\<lambda>a.
     require (\<not> u_is_protected a) 409 ''protected system user cannot be deleted''
     (write_db (ve_fails env VDelete) ''delete user failed'' (DeleteUser i)
     (audited ''user_delete'' (vq_actor q) i (answer AdminNoContent)))))"

definition UserRemoveMembership :: "admin_env \<Rightarrow> admin_caller \<Rightarrow> string \<Rightarrow> string \<Rightarrow> admin_handler" where
  "UserRemoveMembership env q raw rawGroup = with_id raw (\<lambda>i.
     let key = trim_space rawGroup
     in with_group env key 422 ''invalid auth_group'' (\<lambda>g. with_user env i (\<lambda>a.
       user_guard q i (protected_check env q a) (user_guard q i (mutation_check env q (Some g))
       (write_identity (ve_fails env (VRemoveMember i)) ''remove membership failed'' (RemoveMembership i key)
       (audited ''user_membership_remove'' (vq_actor q) i (answer AdminNoContent)))))))"

text \<open>A body that cannot be read is answered like one without a key.\<close>

definition nonblank :: "string option \<Rightarrow> string option" where
  "nonblank v = (case v of None \<Rightarrow> None | Some t \<Rightarrow> if trim_space t = [] then None else Some (trim_space t))"

definition nonzero :: "id64 option \<Rightarrow> id64 option" where
  "nonzero v = (case v of None \<Rightarrow> None | Some c \<Rightarrow> if c = 0 then None else Some c)"

definition UserAddDirectPermission :: "admin_env \<Rightarrow> admin_caller \<Rightarrow> string \<Rightarrow> string option \<Rightarrow> admin_handler" where
  "UserAddDirectPermission env q raw body = with_id raw (\<lambda>i. with_user env i (\<lambda>a.
     user_guard q i (protected_check env q a) (with_value (nonblank body) 400 ''permission_key is required'' (\<lambda>key.
       user_guard q i (permission_check env q key)
       (try_identity (ve_fails env VAddPermission) ''add direct permission failed'' (\<lambda>db. or_no_rows (AddDirectPermission i key db))
       (audited ''user_permission_add'' (vq_actor q) i (answer AdminNoContent)))))))"

definition UserRemoveDirectPermission :: "admin_env \<Rightarrow> admin_caller \<Rightarrow> string \<Rightarrow> string \<Rightarrow> admin_handler" where
  "UserRemoveDirectPermission env q raw rawKey = with_id raw (\<lambda>i. with_user env i (\<lambda>a.
     user_guard q i (protected_check env q a) (with_value (nonblank (Some rawKey)) 400 ''invalid permissionKey'' (\<lambda>key.
       write_identity (ve_fails env VRemovePermission) ''remove direct permission failed'' (RemoveDirectPermission i key)
       (audited ''user_permission_remove'' (vq_actor q) i (answer AdminNoContent))))))"

definition UserAddDirectDBConnection :: "admin_env \<Rightarrow> admin_caller \<Rightarrow> string \<Rightarrow> id64 option \<Rightarrow> admin_handler" where
  "UserAddDirectDBConnection env q raw body = with_id raw (\<lambda>i. with_user env i (\<lambda>a.
     user_guard q i (protected_check env q a) (with_value (nonzero body) 400 ''db_connection_id is required'' (\<lambda>c.
       user_guard q i (connection_check env q c)
       (write_identity (ve_fails env VAddConnection) ''add direct db connection failed'' (AddDirectDBConnection i c)
       (audited ''user_db_connection_add'' (vq_actor q) i (answer AdminNoContent)))))))"

definition UserRemoveDirectDBConnection :: "admin_env \<Rightarrow> admin_caller \<Rightarrow> string \<Rightarrow> string \<Rightarrow> admin_handler" where
  "UserRemoveDirectDBConnection env q raw rawConn = with_id raw (\<lambda>i. with_user env i (\<lambda>a.
     user_guard q i (protected_check env q a) (with_value (parse_uint64 rawConn) 400 ''invalid connID'' (\<lambda>c.
       write_identity (ve_fails env VRemoveConnection) ''remove direct db connection failed'' (RemoveDirectDBConnection i c)
       (audited ''user_db_connection_remove'' (vq_actor q) i (answer AdminNoContent))))))"

section \<open>Changing a user\<close>

record user_patch =
  pf_username :: "string option"
  pf_email :: "string option"
  pf_lark_recipient :: "string option"
  pf_lark_recipient_type :: "string option"
  pf_lark_union_id :: "string option"
  pf_password :: "string option"
  pf_is_active :: "bool option"
  pf_auth_groups :: "string list option"
  pf_direct_permissions :: "string list option"
  pf_direct_connections :: "id64 list option"

definition or_current :: "string option \<Rightarrow> string \<Rightarrow> string" where
  "or_current v cur = (case v of None \<Rightarrow> cur | Some t \<Rightarrow> if t = [] then cur else t)"

definition patch_profile :: "admin_env \<Rightarrow> admin_caller \<Rightarrow> account \<Rightarrow> user_patch \<Rightarrow> admin_handler \<Rightarrow> admin_handler" where
  "patch_profile env q a f k w =
     (if ve_fails env VUpdate then refuse 500 ''update user failed'' w
      else case UpdateUser (vq_now q) (u_id a) (or_current (pf_username f) (u_username a)) (or_current (pf_email f) (ac_email a))
          (case pf_lark_recipient f of None \<Rightarrow> ac_lark_recipient a | Some v \<Rightarrow> trim_space v)
          (normalizeLarkRecipientType (case pf_lark_recipient_type f of None \<Rightarrow> ac_lark_recipient_type a | Some v \<Rightarrow> v))
          (case pf_lark_union_id f of None \<Rightarrow> ac_lark_union_id a | Some v \<Rightarrow> trim_space v) (vw_db w) of
        (False, _) \<Rightarrow> refuse 500 ''update user failed'' w
      | (True, db') \<Rightarrow> k (set_admin_db db' w))"

definition patch_password :: "admin_env \<Rightarrow> admin_caller \<Rightarrow> id64 \<Rightarrow> string option \<Rightarrow> admin_handler \<Rightarrow> admin_handler" where
  "patch_password env q i pw k =
     (case pw of None \<Rightarrow> k
      | Some p \<Rightarrow> if p = [] then k
          else require (validatePassword p) 422 (password_error p)
            (with_value (ve_password_hash env p) 500 ''internal error'' (\<lambda>h.
              write_db (ve_fails env VPassword) ''update password failed'' (UpdatePassword (vq_now q) i h) k)))"

definition patch_active :: "admin_env \<Rightarrow> admin_caller \<Rightarrow> id64 \<Rightarrow> bool option \<Rightarrow> admin_handler \<Rightarrow> admin_handler" where
  "patch_active env q i act k =
     (case act of None \<Rightarrow> k
      | Some b \<Rightarrow> write_db (ve_fails env VActive) ''update user status failed'' (UpdateActive (vq_now q) i b)
          (if b then k else write_db (ve_fails env VRevokeAll) ''revoke sessions failed'' (RevokeAllForUser (vq_now q) i) k))"

text \<open>The groups asked for, each looked up and checked; \<open>acc\<close> are those accepted.\<close>

fun check_next_groups ::
    "admin_env \<Rightarrow> admin_caller \<Rightarrow> id64 \<Rightarrow> string list \<Rightarrow> string list \<Rightarrow> (string list \<Rightarrow> admin_handler) \<Rightarrow> admin_handler" where
  "check_next_groups env q i [] acc k = k acc"
| "check_next_groups env q i (raw # rest) acc k =
     (let key = trim_space raw
      in if key = [] \<or> key \<in> set acc then check_next_groups env q i rest acc k
         else with_group env key 422 ''invalid auth_group'' (\<lambda>g.
           user_guard q i (contents_check env q g) (check_next_groups env q i rest (acc @ [key]) k)))"

text \<open>The groups that are dropped; one that no longer exists passes.\<close>

fun check_dropped_groups :: "admin_env \<Rightarrow> admin_caller \<Rightarrow> id64 \<Rightarrow> string list \<Rightarrow> admin_handler \<Rightarrow> admin_handler" where
  "check_dropped_groups env q i [] k = k"
| "check_dropped_groups env q i (key # rest) k =
     (\<lambda>w. require (\<not> ve_fails env (VGroup key)) 500 ''load auth group failed''
       (user_guard q i (mutation_check env q (GroupByKey (identity_in w) key))
         (check_dropped_groups env q i rest k)) w)"

definition patch_groups :: "admin_env \<Rightarrow> admin_caller \<Rightarrow> id64 \<Rightarrow> string list option \<Rightarrow> admin_handler \<Rightarrow> admin_handler" where
  "patch_groups env q i groups k =
     (case groups of None \<Rightarrow> k
      | Some raws \<Rightarrow> (\<lambda>w. require (\<not> ve_fails env VMemberships) 500 ''list memberships failed''
          (let current = remdups (ListMemberships (vq_now q) (identity_in w) i)
           in check_next_groups env q i raws [] (\<lambda>next.
             check_dropped_groups env q i (filter (\<lambda>g. g \<notin> set next) current)
             (try_identity (ve_fails env VReplaceMembers) ''replace memberships failed''
               (\<lambda>db. or_failed (ReplaceMemberships i next db)) k))) w))"

fun check_next_permissions ::
    "admin_env \<Rightarrow> admin_caller \<Rightarrow> id64 \<Rightarrow> string list \<Rightarrow> string list \<Rightarrow> (string list \<Rightarrow> admin_handler) \<Rightarrow> admin_handler" where
  "check_next_permissions env q i [] acc k = k acc"
| "check_next_permissions env q i (raw # rest) acc k =
     (let key = trim_space raw
      in if key = [] \<or> key \<in> set acc then check_next_permissions env q i rest acc k
         else user_guard q i (permission_check env q key) (check_next_permissions env q i rest (acc @ [key]) k))"

definition patch_permissions :: "admin_env \<Rightarrow> admin_caller \<Rightarrow> id64 \<Rightarrow> string list option \<Rightarrow> admin_handler \<Rightarrow> admin_handler" where
  "patch_permissions env q i keys k =
     (case keys of None \<Rightarrow> k
      | Some raws \<Rightarrow> check_next_permissions env q i raws [] (\<lambda>next.
          try_identity (ve_fails env VReplacePermissions) ''replace direct permissions failed''
            (ReplaceDirectPermissionKeys i next) k))"

fun check_next_connections ::
    "admin_env \<Rightarrow> admin_caller \<Rightarrow> id64 \<Rightarrow> id64 list \<Rightarrow> id64 list \<Rightarrow> (id64 list \<Rightarrow> admin_handler) \<Rightarrow> admin_handler" where
  "check_next_connections env q i [] acc k = k acc"
| "check_next_connections env q i (c # rest) acc k =
     (if c = 0 \<or> c \<in> set acc then check_next_connections env q i rest acc k
      else user_guard q i (connection_check env q c) (check_next_connections env q i rest (acc @ [c]) k))"

definition patch_connections :: "admin_env \<Rightarrow> admin_caller \<Rightarrow> id64 \<Rightarrow> id64 list option \<Rightarrow> admin_handler \<Rightarrow> admin_handler" where
  "patch_connections env q i ids k =
     (case ids of None \<Rightarrow> k
      | Some cs \<Rightarrow> check_next_connections env q i cs [] (\<lambda>next.
          try_identity (ve_fails env VReplaceConnections) ''replace direct db connections failed''
            (\<lambda>db. or_failed (ReplaceDirectDBConnectionIDs i next db)) k))"

definition UserPatch :: "admin_env \<Rightarrow> admin_caller \<Rightarrow> string \<Rightarrow> user_patch option \<Rightarrow> admin_handler" where
  "UserPatch env q raw body = with_id raw (\<lambda>i. with_user env i (\<lambda>a.
     with_value body 400 ''invalid request body'' (\<lambda>f.
       user_guard q i (protected_check env q a)
       (patch_profile env q a f
       (patch_password env q i (pf_password f)
       (patch_active env q i (pf_is_active f)
       (patch_groups env q i (pf_auth_groups f)
       (patch_permissions env q i (pf_direct_permissions f)
       (patch_connections env q i (pf_direct_connections f)
       (audited ''user_update'' (vq_actor q) i (answer AdminOK)))))))))))"

section \<open>Groups\<close>

record group_form =
  gf_name :: string
  gf_description :: string
  gf_users :: "id64 list"
  gf_permissions :: "string list"
  gf_connections :: "id64 list"

text \<open>Blank permissions and the connection 0 are not checked.\<close>

fun check_group_permissions :: "admin_env \<Rightarrow> admin_caller \<Rightarrow> id64 \<Rightarrow> string list \<Rightarrow> admin_handler \<Rightarrow> admin_handler" where
  "check_group_permissions env q g [] k = k"
| "check_group_permissions env q g (raw # rest) k =
     (if trim_space raw = [] then check_group_permissions env q g rest k
      else group_guard q g (permission_check env q (trim_space raw)) (check_group_permissions env q g rest k))"

fun check_group_connections :: "admin_env \<Rightarrow> admin_caller \<Rightarrow> id64 \<Rightarrow> id64 list \<Rightarrow> admin_handler \<Rightarrow> admin_handler" where
  "check_group_connections env q g [] k = k"
| "check_group_connections env q g (c # rest) k =
     (if c = 0 then check_group_connections env q g rest k
      else group_guard q g (connection_check env q c) (check_group_connections env q g rest k))"

fun add_members :: "admin_env \<Rightarrow> string \<Rightarrow> id64 list \<Rightarrow> admin_handler \<Rightarrow> admin_handler" where
  "add_members env key [] k = k"
| "add_members env key (u # us) k =
     write_identity (ve_fails env (VAddMember u)) ''bind auth group users failed'' (AddMembership u key None) (add_members env key us k)"

definition reload_group :: "admin_env \<Rightarrow> string \<Rightarrow> admin_handler \<Rightarrow> admin_handler" where
  "reload_group env key k w =
     (if ve_fails env VReload \<or> GroupByKey (identity_in w) key = None then refuse 500 ''reload auth group failed'' w else k w)"

definition GroupCreate :: "admin_env \<Rightarrow> admin_caller \<Rightarrow> group_form option \<Rightarrow> admin_handler" where
  "GroupCreate env q body = with_value body 400 ''invalid request body'' (\<lambda>f.
     let key = GenerateAuthGroupKey (gf_name f)
     in case ValidateAuthGroupKey key of Some e \<Rightarrow> refuse 422 e
        | None \<Rightarrow> require (trim_space (gf_name f) \<noteq> []) 422 ''name is required''
          (check_group_permissions env q 0 (gf_permissions f)
          (check_group_connections env q 0 (gf_connections f) (\<lambda>w.
            if ve_fails env VGroupCreate then refuse 500 ''create auth group failed'' w
            else case CreateGroup key (trim_space (gf_name f)) (trim_space (gf_description f)) False False (identity_in w) of
              (None, _) \<Rightarrow> refuse 500 ''create auth group failed'' w
            | (Some g, db') \<Rightarrow>
                add_members env (ag_key g) (gf_users f)
                (try_identity (ve_fails env VReplacePermissions) ''bind auth group permissions failed''
                  (ReplacePermissionKeys (ag_id g) (gf_permissions f))
                (try_identity (ve_fails env VReplaceConnections) ''bind auth group db scope failed''
                  (\<lambda>db. or_failed (ReplaceDBConnectionIDs (ag_id g) (gf_connections f) db))
                (audited ''auth_group_create'' (vq_actor q) (ag_id g)
                (reload_group env (ag_key g) (answer (AdminCreated (ag_id g))))))) (set_identity db' w)))))"

record group_patch =
  gp_name :: "string option"
  gp_description :: "string option"
  gp_users :: "id64 list option"
  gp_permissions :: "string list option"
  gp_connections :: "id64 list option"

fun check_added_users :: "admin_env \<Rightarrow> admin_caller \<Rightarrow> id64 \<Rightarrow> id64 list \<Rightarrow> id64 list \<Rightarrow> admin_handler \<Rightarrow> admin_handler" where
  "check_added_users env q g current [] k = k"
| "check_added_users env q g current (u # us) k =
     (if u = 0 \<or> u \<in> set current then check_added_users env q g current us k
      else with_user env u (\<lambda>a. group_guard q g (protected_check env q a) (check_added_users env q g current us k)))"

definition user_check :: "admin_env \<Rightarrow> admin_caller \<Rightarrow> user \<Rightarrow> identity \<Rightarrow> string option" where
  "user_check env q u db = requireProtectedUserAdmin env (vq_now q) db (vq_actor q) u"

fun check_removed_users :: "admin_env \<Rightarrow> admin_caller \<Rightarrow> id64 \<Rightarrow> user list \<Rightarrow> admin_handler \<Rightarrow> admin_handler" where
  "check_removed_users env q g [] k = k"
| "check_removed_users env q g (u # us) k = group_guard q g (user_check env q u) (check_removed_users env q g us k)"

definition check_group_users :: "admin_env \<Rightarrow> admin_caller \<Rightarrow> auth_group_row \<Rightarrow> id64 list option \<Rightarrow> admin_handler \<Rightarrow> admin_handler" where
  "check_group_users env q g users k =
     (case users of None \<Rightarrow> k
      | Some us \<Rightarrow> group_guard q (ag_id g) (contents_check env q g) (\<lambda>w.
          require (\<not> ve_fails env VMembers) 500 ''list auth group users failed''
          (let current = ListUsersByAuthGroup (vq_now q) (identity_in w) (ag_key g)
           in check_added_users env q (ag_id g) (map u_id current) us
             (check_removed_users env q (ag_id g) (filter (\<lambda>u. u_id u \<notin> set us \<or> u_id u = 0) current) k)) w))"

fun remove_members :: "admin_env \<Rightarrow> string \<Rightarrow> id64 list \<Rightarrow> admin_handler \<Rightarrow> admin_handler" where
  "remove_members env key [] k = k"
| "remove_members env key (u # us) k =
     write_identity (ve_fails env (VRemoveMember u)) ''unbind auth group users failed'' (RemoveMembership u key) (remove_members env key us k)"

definition replace_group_users :: "admin_env \<Rightarrow> admin_caller \<Rightarrow> auth_group_row \<Rightarrow> id64 list option \<Rightarrow> admin_handler \<Rightarrow> admin_handler" where
  "replace_group_users env q g users k =
     (case users of None \<Rightarrow> k
      | Some us \<Rightarrow> (\<lambda>w. require (\<not> ve_fails env VMembers) 500 ''list auth group users failed''
          (let current = map u_id (ListUsersByAuthGroup (vq_now q) (identity_in w) (ag_key g))
           in add_members env (ag_key g) (filter (\<lambda>u. u \<noteq> 0 \<and> u \<notin> set current) (rev (remdups (rev us))))
             (remove_members env (ag_key g) (filter (\<lambda>u. u \<notin> set us \<or> u = 0) current) k)) w))"

definition replace_group_permissions :: "admin_env \<Rightarrow> id64 \<Rightarrow> string list option \<Rightarrow> admin_handler \<Rightarrow> admin_handler" where
  "replace_group_permissions env g keys k = (case keys of None \<Rightarrow> k
     | Some ks \<Rightarrow> try_identity (ve_fails env VReplacePermissions) ''replace auth group permissions failed'' (ReplacePermissionKeys g ks) k)"

definition replace_group_connections :: "admin_env \<Rightarrow> id64 \<Rightarrow> id64 list option \<Rightarrow> admin_handler \<Rightarrow> admin_handler" where
  "replace_group_connections env g ids k = (case ids of None \<Rightarrow> k
     | Some cs \<Rightarrow> try_identity (ve_fails env VReplaceConnections) ''replace auth group db scope failed''
         (\<lambda>db. or_failed (ReplaceDBConnectionIDs g cs db)) k)"

definition GroupPatch :: "admin_env \<Rightarrow> admin_caller \<Rightarrow> string \<Rightarrow> group_patch option \<Rightarrow> admin_handler" where
  "GroupPatch env q key body = with_group env key 404 ''auth group not found'' (\<lambda>g.
     with_value body 400 ''invalid request body'' (\<lambda>f.
     require (gp_name f \<noteq> None \<or> gp_description f \<noteq> None \<or> gp_users f \<noteq> None \<or> gp_permissions f \<noteq> None \<or> gp_connections f \<noteq> None)
       422 ''at least one mutable field is required''
     (group_guard q (ag_id g) (mutation_check env q (Some g))
     (check_group_users env q g (gp_users f)
     (check_group_permissions env q (ag_id g) (case gp_permissions f of None \<Rightarrow> [] | Some ks \<Rightarrow> ks)
     (check_group_connections env q (ag_id g) (case gp_connections f of None \<Rightarrow> [] | Some cs \<Rightarrow> cs)
     (require (case gp_name f of None \<Rightarrow> True | Some n \<Rightarrow> trim_space n \<noteq> []) 422 ''name is required''
     (try_identity (ve_fails env VGroupUpdate) ''update auth group failed''
       (\<lambda>db. or_failed (UpdateGroup (ag_id g) (ag_key g)
         (case gp_name f of None \<Rightarrow> ag_name g | Some n \<Rightarrow> trim_space n)
         (case gp_description f of None \<Rightarrow> ag_description g | Some d \<Rightarrow> trim_space d) db))
     (replace_group_users env q g (gp_users f)
     (replace_group_permissions env (ag_id g) (gp_permissions f)
     (replace_group_connections env (ag_id g) (gp_connections f)
     (reload_group env (ag_key g)
     (audited ''auth_group_update'' (vq_actor q) (ag_id g) (answer AdminOK))))))))))))))"

definition GroupDelete :: "admin_env \<Rightarrow> admin_caller \<Rightarrow> string \<Rightarrow> admin_handler" where
  "GroupDelete env q key = with_group env key 404 ''auth group not found'' (\<lambda>g.
     require (\<not> ag_is_protected g) 409 ''protected auth group cannot be deleted''
     (write_identity (ve_fails env VGroupDelete) ''delete auth group failed'' (DeleteGroup (ag_id g))
     (audited ''auth_group_delete'' (vq_actor q) (ag_id g) (answer AdminNoContent))))"

definition loadMutableAuthGroup :: "admin_env \<Rightarrow> admin_caller \<Rightarrow> string \<Rightarrow> (auth_group_row \<Rightarrow> admin_handler) \<Rightarrow> admin_handler" where
  "loadMutableAuthGroup env q key k = with_group env key 404 ''auth group not found'' (\<lambda>g.
     group_guard q (ag_id g) (mutation_check env q (Some g)) (k g))"

definition GroupAddPermission :: "admin_env \<Rightarrow> admin_caller \<Rightarrow> string \<Rightarrow> string option \<Rightarrow> admin_handler" where
  "GroupAddPermission env q key body = loadMutableAuthGroup env q key (\<lambda>g.
     with_value (nonblank body) 400 ''permission_key is required'' (\<lambda>p.
       group_guard q (ag_id g) (permission_check env q p)
       (try_identity (ve_fails env VAddPermission) ''add auth group permission failed''
         (\<lambda>db. or_no_rows (AddGroupPermission (ag_id g) p db))
       (audited ''auth_group_permission_add'' (vq_actor q) (ag_id g) (answer AdminNoContent)))))"

definition GroupRemovePermission :: "admin_env \<Rightarrow> admin_caller \<Rightarrow> string \<Rightarrow> string \<Rightarrow> admin_handler" where
  "GroupRemovePermission env q key p = loadMutableAuthGroup env q key (\<lambda>g.
     require (trim_space p \<noteq> []) 400 ''invalid permissionKey''
     (write_identity (ve_fails env VRemovePermission) ''remove auth group permission failed'' (RemoveGroupPermission (ag_id g) p)
     (audited ''auth_group_permission_remove'' (vq_actor q) (ag_id g) (answer AdminNoContent))))"

definition GroupAddDBConnection :: "admin_env \<Rightarrow> admin_caller \<Rightarrow> string \<Rightarrow> id64 option \<Rightarrow> admin_handler" where
  "GroupAddDBConnection env q key body = loadMutableAuthGroup env q key (\<lambda>g.
     with_value (nonzero body) 400 ''db_connection_id is required'' (\<lambda>c.
       group_guard q (ag_id g) (connection_check env q c)
       (write_identity (ve_fails env VAddConnection) ''add auth group db connection failed'' (AddGroupConnection (ag_id g) c)
       (audited ''auth_group_db_connection_add'' (vq_actor q) (ag_id g) (answer AdminNoContent)))))"

definition GroupRemoveDBConnection :: "admin_env \<Rightarrow> admin_caller \<Rightarrow> string \<Rightarrow> string \<Rightarrow> admin_handler" where
  "GroupRemoveDBConnection env q key rawConn = loadMutableAuthGroup env q key (\<lambda>g.
     with_value (parse_uint64 rawConn) 400 ''invalid connID'' (\<lambda>c.
       write_identity (ve_fails env VRemoveConnection) ''remove auth group db connection failed'' (RemoveGroupConnection (ag_id g) c)
       (audited ''auth_group_db_connection_remove'' (vq_actor q) (ag_id g) (answer AdminNoContent))))"

section \<open>All requests\<close>

datatype admin_call =
    CreateUserCall "user_form option" | RevokeSessionCall string string | RevokeSessionsCall string | ResetMFACall string
  | AddMembershipCall string "membership_form option" | PatchUserCall string "user_patch option" | DeleteUserCall string
  | RemoveMembershipCall string string | AddPermissionCall string "string option" | RemovePermissionCall string string
  | AddConnectionCall string "id64 option" | RemoveConnectionCall string string
  | CreateGroupCall "group_form option" | PatchGroupCall string "group_patch option" | DeleteGroupCall string
  | AddGroupPermissionCall string "string option" | RemoveGroupPermissionCall string string
  | AddGroupConnectionCall string "id64 option" | RemoveGroupConnectionCall string string

fun handle_admin :: "admin_env \<Rightarrow> admin_caller \<Rightarrow> admin_call \<Rightarrow> admin_handler" where
  "handle_admin env q (CreateUserCall b) = UserCreate env q b"
| "handle_admin env q (RevokeSessionCall i s) = UserRevokeSession env q i s"
| "handle_admin env q (RevokeSessionsCall i) = UserRevokeSessions env q i"
| "handle_admin env q (ResetMFACall i) = UserResetMFA env q i"
| "handle_admin env q (AddMembershipCall i b) = UserAddMembership env q i b"
| "handle_admin env q (PatchUserCall i b) = UserPatch env q i b"
| "handle_admin env q (DeleteUserCall i) = UserDelete env q i"
| "handle_admin env q (RemoveMembershipCall i g) = UserRemoveMembership env q i g"
| "handle_admin env q (AddPermissionCall i b) = UserAddDirectPermission env q i b"
| "handle_admin env q (RemovePermissionCall i p) = UserRemoveDirectPermission env q i p"
| "handle_admin env q (AddConnectionCall i b) = UserAddDirectDBConnection env q i b"
| "handle_admin env q (RemoveConnectionCall i c) = UserRemoveDirectDBConnection env q i c"
| "handle_admin env q (CreateGroupCall b) = GroupCreate env q b"
| "handle_admin env q (PatchGroupCall g b) = GroupPatch env q g b"
| "handle_admin env q (DeleteGroupCall g) = GroupDelete env q g"
| "handle_admin env q (AddGroupPermissionCall g b) = GroupAddPermission env q g b"
| "handle_admin env q (RemoveGroupPermissionCall g p) = GroupRemovePermission env q g p"
| "handle_admin env q (AddGroupConnectionCall g b) = GroupAddDBConnection env q g b"
| "handle_admin env q (RemoveGroupConnectionCall g c) = GroupRemoveDBConnection env q g c"

end
