(* ===== verification/Administration_Laws.thy ===== *)
theory Administration_Laws
  imports Administration
begin

text \<open>
  Laws of the administration of users and groups: what an administrator may give away, and what stays out of
  reach of one who does not hold all permissions.

  The handlers rely on the store and on the checks through the interface \<open>granting\<close>: an invariant of the
  tables, what the caller may give away, and the effect of every write on the invariant. The handlers are
  proved to keep the invariant once, there; the interface is then interpreted on the tables with the
  invariant that bounds every grant by what its holder or the caller had at the start of the request.
\<close>

section \<open>Bounds of a request\<close>

text \<open>The keys of the tables, and the names of permissions, which have no blanks around them.\<close>

definition accounts_wf :: "auth_db \<Rightarrow> bool" where
  "accounts_wf db = (distinct (map u_id (ad_accounts db)) \<and> list_all (\<lambda>a. u_id a < ad_next_account db) (ad_accounts db))"

definition groups_wf :: "identity \<Rightarrow> bool" where
  "groups_wf i = (distinct (map ag_id (i_groups i)) \<and> distinct (map ag_key (i_groups i)) \<and>
     list_all (\<lambda>g. ag_id g < i_next_group i) (i_groups i) \<and>
     list_all (\<lambda>r. fst r < i_next_group i) (i_group_permissions i) \<and>
     list_all (\<lambda>r. fst r < i_next_group i) (i_group_connections i) \<and>
     distinct (map p_id (i_permissions i)) \<and>
     list_all (\<lambda>p. p_key p \<noteq> [] \<and> trim_space (p_key p) = p_key p) (i_permissions i) \<and>
     (0, False) \<notin> set (i_connections i))"

definition admin_wf :: "auth_db \<Rightarrow> bool" where
  "admin_wf db = (accounts_wf db \<and> groups_wf (ad_identity db))"

definition protected_ids :: "auth_db \<Rightarrow> id64 list" where
  "protected_ids db = map u_id (filter u_is_protected (ad_accounts db))"

definition protected_group_ids :: "identity \<Rightarrow> id64 list" where
  "protected_group_ids db = map ag_id (filter ag_is_protected (i_groups db))"

text \<open>The rows of protected accounts and groups, with their sessions and direct grants.\<close>

definition protected_accounts :: "auth_db \<Rightarrow> account list \<times> session list \<times> (id64 \<times> id64) list \<times> (id64 \<times> id64) list" where
  "protected_accounts db = (filter u_is_protected (ad_accounts db),
     filter (\<lambda>s. se_user s \<in> set (protected_ids db)) (ad_sessions db),
     filter (\<lambda>r. fst r \<in> set (protected_ids db)) (i_user_permissions (ad_identity db)),
     filter (\<lambda>r. fst r \<in> set (protected_ids db)) (i_user_connections (ad_identity db)))"

definition protected_groups :: "identity \<Rightarrow> auth_group_row list \<times> (id64 \<times> id64) list \<times> (id64 \<times> id64) list" where
  "protected_groups db = (filter ag_is_protected (i_groups db),
     filter (\<lambda>r. fst r \<in> set (protected_group_ids db)) (i_group_permissions db),
     filter (\<lambda>r. fst r \<in> set (protected_group_ids db)) (i_group_connections db))"

definition bounded_by :: "admin_caller \<Rightarrow> identity \<Rightarrow> identity \<Rightarrow> bool" where
  "bounded_by q db0 db \<longleftrightarrow> i_permissions db = i_permissions db0 \<and> i_connections db = i_connections db0 \<and>
     (\<forall>v. (HasAllPermissions (vq_now q) db v \<longrightarrow>
             HasAllPermissions (vq_now q) db0 v \<or> HasAllPermissions (vq_now q) db0 (vq_actor q)) \<and>
          set (GetEffectivePermissionKeys (vq_now q) db v) \<subseteq> set (GetEffectivePermissionKeys (vq_now q) db0 v) \<union>
             set (GetEffectivePermissionKeys (vq_now q) db0 (vq_actor q)) \<and>
          set (GetEffectiveDBConnectionIDs (vq_now q) db v) \<subseteq> set (GetEffectiveDBConnectionIDs (vq_now q) db0 v) \<union>
             set (GetEffectiveDBConnectionIDs (vq_now q) db0 (vq_actor q)))"

definition may_grant :: "admin_caller \<Rightarrow> identity \<Rightarrow> string \<Rightarrow> bool" where
  "may_grant q db0 k \<longleftrightarrow> (\<forall>p \<in> set (i_permissions db0). p_key p = k \<longrightarrow>
     k \<in> set (GetEffectivePermissionKeys (vq_now q) db0 (vq_actor q)))"

definition may_connect :: "admin_caller \<Rightarrow> identity \<Rightarrow> id64 \<Rightarrow> bool" where
  "may_connect q db0 c \<longleftrightarrow> ((c, False) \<in> set (i_connections db0) \<longrightarrow>
     c \<in> set (GetEffectiveDBConnectionIDs (vq_now q) db0 (vq_actor q)))"

text \<open>Everything the group gives to its members is the caller's to give.\<close>

definition group_within :: "admin_caller \<Rightarrow> identity \<Rightarrow> identity \<Rightarrow> string \<Rightarrow> bool" where
  "group_within q db0 db k \<longleftrightarrow> (\<forall>g \<in> set (i_groups db). ag_key g = k \<longrightarrow>
     HasAllPermissions (vq_now q) db0 (vq_actor q) \<or>
     \<not> ag_all_permissions g \<and>
     (\<forall>p \<in> set (i_permissions db). (ag_id g, p_id p) \<in> set (i_group_permissions db) \<longrightarrow> may_grant q db0 (p_key p)) \<and>
     (\<forall>c. (ag_id g, c) \<in> set (i_group_connections db) \<longrightarrow> may_connect q db0 c))"

lemma bounded_by_refl: "bounded_by q db db"
  by (simp add: bounded_by_def)

lemma may_grant_all:
  "HasAllPermissions (vq_now q) db0 (vq_actor q) \<Longrightarrow> may_grant q db0 k \<and> may_connect q db0 c"
  by (auto simp: may_grant_def may_connect_def GetEffectivePermissionKeys_iff GetEffectiveDBConnectionIDs_iff)

lemma bounded_has_all: "bounded_by q db0 db \<Longrightarrow> HasAllPermissions (vq_now q) db (vq_actor q) \<Longrightarrow>
    HasAllPermissions (vq_now q) db0 (vq_actor q)"
  unfolding bounded_by_def by blast

lemma bounded_permission:
  assumes "bounded_by q db0 db" and "k \<in> set (GetEffectivePermissionKeys (vq_now q) db (vq_actor q))"
  shows "may_grant q db0 k"
  using assms unfolding bounded_by_def may_grant_def by blast

lemma bounded_connection:
  assumes "bounded_by q db0 db" and "c \<in> set (GetEffectiveDBConnectionIDs (vq_now q) db (vq_actor q))"
  shows "may_connect q db0 c"
  using assms unfolding bounded_by_def may_connect_def by blast

text \<open>
  A change of the tables: new rows are the caller's to give, new members join groups whose contents are, and
  new groups give nothing yet.
\<close>

definition table_step :: "admin_caller \<Rightarrow> identity \<Rightarrow> identity \<Rightarrow> identity \<Rightarrow> bool" where
  "table_step q db0 db db' \<longleftrightarrow>
     i_permissions db' = i_permissions db \<and> i_connections db' = i_connections db \<and>
     (\<forall>v r. GetByID db' v = Some r \<longrightarrow> u_is_protected r \<longrightarrow> (\<exists>r'. GetByID db v = Some r' \<and> u_is_protected r')) \<and>
     (\<forall>g' \<in> set (i_groups db').
       (\<exists>g \<in> set (i_groups db). ag_id g = ag_id g' \<and> ag_key g = ag_key g' \<and> ag_all_permissions g = ag_all_permissions g') \<or>
       \<not> ag_all_permissions g' \<and> (\<forall>x. (ag_id g', x) \<notin> set (i_group_permissions db') \<and> (ag_id g', x) \<notin> set (i_group_connections db'))) \<and>
     (\<forall>v g. member_by_id (vq_now q) db' v g \<longrightarrow> member_by_id (vq_now q) db v g) \<and>
     (\<forall>v k. member_by_key (vq_now q) db' v k \<longrightarrow> member_by_key (vq_now q) db v k \<or> group_within q db0 db k) \<and>
     (\<forall>(v, p) \<in> set (i_user_permissions db'). (v, p) \<in> set (i_user_permissions db) \<or>
       (\<forall>r \<in> set (i_permissions db). p_id r = p \<longrightarrow> may_grant q db0 (p_key r))) \<and>
     (\<forall>(v, p) \<in> set (i_group_permissions db'). (v, p) \<in> set (i_group_permissions db) \<or>
       (\<forall>r \<in> set (i_permissions db). p_id r = p \<longrightarrow> may_grant q db0 (p_key r))) \<and>
     (\<forall>(v, c) \<in> set (i_user_connections db'). (v, c) \<in> set (i_user_connections db) \<or> may_connect q db0 c) \<and>
     (\<forall>(v, c) \<in> set (i_group_connections db'). (v, c) \<in> set (i_group_connections db) \<or> may_connect q db0 c)"

lemma table_step_user:
  "table_step q db0 db db' \<Longrightarrow> GetByID db' v = Some r \<Longrightarrow> u_is_protected r \<Longrightarrow> \<exists>r'. GetByID db v = Some r' \<and> u_is_protected r'"
  unfolding table_step_def by (elim conjE) simp

lemma table_step_groups:
  "table_step q db0 db db' \<Longrightarrow> g' \<in> set (i_groups db') \<Longrightarrow>
     (\<exists>g \<in> set (i_groups db). ag_id g = ag_id g' \<and> ag_key g = ag_key g' \<and> ag_all_permissions g = ag_all_permissions g') \<or>
     \<not> ag_all_permissions g' \<and> (\<forall>x. (ag_id g', x) \<notin> set (i_group_permissions db') \<and> (ag_id g', x) \<notin> set (i_group_connections db'))"
  unfolding table_step_def by (elim conjE) (rule bspec)

lemma table_step_group:
  assumes "table_step q db0 db db'" and "g \<in> set (i_groups db')"
    and "(ag_id g, x) \<in> set (i_group_permissions db') \<or> (ag_id g, x) \<in> set (i_group_connections db')"
  obtains h where "h \<in> set (i_groups db)" "ag_id h = ag_id g" "ag_key h = ag_key g"
  using table_step_groups [OF assms(1,2)] assms(3) by blast

lemma table_step_by_id:
  "table_step q db0 db db' \<Longrightarrow> member_by_id (vq_now q) db' v g \<Longrightarrow> member_by_id (vq_now q) db v g"
  unfolding table_step_def by blast

lemma table_step_by_key:
  "table_step q db0 db db' \<Longrightarrow> member_by_key (vq_now q) db' v k \<Longrightarrow> member_by_key (vq_now q) db v k \<or> group_within q db0 db k"
  unfolding table_step_def by blast

lemma table_step_all:
  assumes st: "table_step q db0 db db'" and "HasAllPermissions (vq_now q) db' v"
  shows "HasAllPermissions (vq_now q) db v \<or> HasAllPermissions (vq_now q) db0 (vq_actor q)"
proof -
  consider r where "GetByID db' v = Some r" "u_is_protected r"
    | g where "g \<in> set (i_groups db')" "ag_all_permissions g"
        "member_by_id (vq_now q) db' v (ag_id g) \<or> member_by_key (vq_now q) db' v (ag_key g)"
    using assms(2) unfolding HasAllPermissions_iff by blast
  then show ?thesis
  proof cases
    case 1
    then show ?thesis using table_step_user [OF st] unfolding HasAllPermissions_iff by blast
  next
    case 2
    then obtain h where h: "h \<in> set (i_groups db)" "ag_id h = ag_id g" "ag_key h = ag_key g" "ag_all_permissions h"
      using table_step_groups [OF st] by blast
    then have "group_within q db0 db (ag_key g) \<Longrightarrow> ?thesis" unfolding group_within_def by metis
    moreover have "member_by_id (vq_now q) db v (ag_id h) \<or> member_by_key (vq_now q) db v (ag_key h) \<or> group_within q db0 db (ag_key g)"
      using 2(3) table_step_by_id [OF st] table_step_by_key [OF st] h by metis
    ultimately show ?thesis using h unfolding HasAllPermissions_iff by blast
  qed
qed

lemma table_step_permission:
  assumes st: "table_step q db0 db db'" and p: "p \<in> set (i_permissions db)"
    and g: "granted_permission (vq_now q) db' v (p_id p)"
  shows "granted_permission (vq_now q) db v (p_id p) \<or> may_grant q db0 (p_key p)"
proof -
  have rows: "(v, p_id p) \<in> set (i_user_permissions db') \<Longrightarrow> (v, p_id p) \<in> set (i_user_permissions db) \<or> may_grant q db0 (p_key p)"
    "(v, p_id p) \<in> set (i_group_permissions db') \<Longrightarrow> (v, p_id p) \<in> set (i_group_permissions db) \<or> may_grant q db0 (p_key p)" for v
    using st p unfolding table_step_def by blast+
  consider "(v, p_id p) \<in> set (i_user_permissions db')"
    | g where "(g, p_id p) \<in> set (i_group_permissions db')" "member_by_id (vq_now q) db' v g"
    | g where "g \<in> set (i_groups db')" "(ag_id g, p_id p) \<in> set (i_group_permissions db')" "member_by_key (vq_now q) db' v (ag_key g)"
    using g unfolding granted_permission_def by blast
  then show ?thesis
  proof cases
    case 3
    then obtain h where h: "h \<in> set (i_groups db)" "ag_id h = ag_id g" "ag_key h = ag_key g" using table_step_group [OF st] by metis
    show ?thesis using rows(2) [OF 3(2)] table_step_by_key [OF st 3(3)] h p may_grant_all
      unfolding granted_permission_def group_within_def by metis
  qed (use rows table_step_by_id [OF st] in \<open>unfold granted_permission_def, blast+\<close>)
qed

lemma table_step_connection:
  assumes st: "table_step q db0 db db'" and g: "granted_connection (vq_now q) db' v c"
  shows "granted_connection (vq_now q) db v c \<or> may_connect q db0 c"
proof -
  have rows: "(v, c) \<in> set (i_user_connections db') \<Longrightarrow> (v, c) \<in> set (i_user_connections db) \<or> may_connect q db0 c"
    "(v, c) \<in> set (i_group_connections db') \<Longrightarrow> (v, c) \<in> set (i_group_connections db) \<or> may_connect q db0 c" for v
    using st unfolding table_step_def by blast+
  consider "(v, c) \<in> set (i_user_connections db')"
    | g where "(g, c) \<in> set (i_group_connections db')" "member_by_id (vq_now q) db' v g"
    | g where "g \<in> set (i_groups db')" "(ag_id g, c) \<in> set (i_group_connections db')" "member_by_key (vq_now q) db' v (ag_key g)"
    using g unfolding granted_connection_def by blast
  then show ?thesis
  proof cases
    case 3
    then obtain h where h: "h \<in> set (i_groups db)" "ag_id h = ag_id g" "ag_key h = ag_key g" using table_step_group [OF st] by metis
    show ?thesis using rows(2) [OF 3(2)] table_step_by_key [OF st 3(3)] h may_grant_all
      unfolding granted_connection_def group_within_def by metis
  qed (use rows table_step_by_id [OF st] in \<open>unfold granted_connection_def, blast+\<close>)
qed

lemma bounded_step:
  assumes b: "bounded_by q db0 db" and st: "table_step q db0 db db'"
  shows "bounded_by q db0 db'"
proof -
  let ?all = "\<lambda>db v. HasAllPermissions (vq_now q) db v" and ?a = "vq_actor q"
  have tables: "i_permissions db' = i_permissions db0" "i_connections db' = i_connections db0"
      "i_permissions db = i_permissions db0" "i_connections db = i_connections db0"
    using b st by (simp_all add: bounded_by_def table_step_def)
  have all: "?all db0 v \<or> ?all db0 ?a" if "?all db' v" for v
    using b table_step_all [OF st that] unfolding bounded_by_def by blast
  have "k \<in> set (GetEffectivePermissionKeys (vq_now q) db0 v) \<union> set (GetEffectivePermissionKeys (vq_now q) db0 ?a)"
    if "k \<in> set (GetEffectivePermissionKeys (vq_now q) db' v)" for v k
  proof -
    from that obtain p where p: "p \<in> set (i_permissions db0)" "p_key p = k"
        "?all db' v \<or> granted_permission (vq_now q) db' v (p_id p)"
      unfolding GetEffectivePermissionKeys_iff tables by blast
    then have "?all db0 v \<or> ?all db0 ?a \<or> k \<in> set (GetEffectivePermissionKeys (vq_now q) db v) \<or> may_grant q db0 k"
      using all table_step_permission [OF st] unfolding GetEffectivePermissionKeys_iff tables by metis
    moreover have "?all db0 x \<Longrightarrow> k \<in> set (GetEffectivePermissionKeys (vq_now q) db0 x)" for x
      using p(1,2) unfolding GetEffectivePermissionKeys_iff by blast
    ultimately show ?thesis using b p(1,2) unfolding bounded_by_def may_grant_def by blast
  qed
  moreover have "c \<in> set (GetEffectiveDBConnectionIDs (vq_now q) db0 v) \<union> set (GetEffectiveDBConnectionIDs (vq_now q) db0 ?a)"
    if "c \<in> set (GetEffectiveDBConnectionIDs (vq_now q) db' v)" for v c
  proof -
    from that have c: "(c, False) \<in> set (i_connections db0)" "?all db' v \<or> granted_connection (vq_now q) db' v c"
      unfolding GetEffectiveDBConnectionIDs_iff tables by blast+
    then have "?all db0 v \<or> ?all db0 ?a \<or> c \<in> set (GetEffectiveDBConnectionIDs (vq_now q) db v) \<or> may_connect q db0 c"
      using all table_step_connection [OF st] unfolding GetEffectiveDBConnectionIDs_iff tables by metis
    moreover have "?all db0 x \<Longrightarrow> c \<in> set (GetEffectiveDBConnectionIDs (vq_now q) db0 x)" for x
      using c(1) unfolding GetEffectiveDBConnectionIDs_iff by blast
    ultimately show ?thesis using b c(1) unfolding bounded_by_def may_connect_def by blast
  qed
  ultimately show ?thesis using all tables unfolding bounded_by_def by blast
qed

section \<open>The interface between the handlers and the tables\<close>

text \<open>A write on the account \<open>i\<close> and its sessions.\<close>

definition touches_account :: "id64 \<Rightarrow> auth_db \<Rightarrow> auth_db \<Rightarrow> bool" where
  "touches_account i db db' \<longleftrightarrow> ad_identity db' = ad_identity db \<and> ad_next_account db' = ad_next_account db \<and>
     (\<exists>f. (\<forall>a. u_id (f a) = u_id a \<and> u_is_protected (f a) = u_is_protected a) \<and>
        ad_accounts db' = update_where (\<lambda>a. u_id a = i) f (ad_accounts db)) \<and>
     filter (\<lambda>s. se_user s \<noteq> i) (ad_sessions db') = filter (\<lambda>s. se_user s \<noteq> i) (ad_sessions db)"

text \<open>A change of memberships after which only groups that satisfy \<open>ok\<close> have new members.\<close>

definition changes_members :: "timestamp \<Rightarrow> (string \<Rightarrow> bool) \<Rightarrow> identity \<Rightarrow> identity \<Rightarrow> bool" where
  "changes_members now ok db db' \<longleftrightarrow> db' = db\<lparr>i_memberships := i_memberships db', i_user_groups := i_user_groups db'\<rparr> \<and>
     (\<forall>v g. member_by_id now db' v g \<longrightarrow> member_by_id now db v g) \<and>
     (\<forall>v k. member_by_key now db' v k \<longrightarrow> member_by_key now db v k \<or> ok k)"

text \<open>New rows belong to \<open>own\<close> and satisfy \<open>ok\<close>; the rows of others stay as they are.\<close>

definition changes_rows :: "id64 \<Rightarrow> (id64 \<Rightarrow> bool) \<Rightarrow> (id64 \<times> id64) list \<Rightarrow> (id64 \<times> id64) list \<Rightarrow> bool" where
  "changes_rows own ok rows rows' \<longleftrightarrow>
     (\<forall>v x. (v, x) \<in> set rows' \<longrightarrow> (v, x) \<in> set rows \<or> v = own \<and> ok x) \<and>
     filter (\<lambda>r. fst r \<noteq> own) rows' = filter (\<lambda>r. fst r \<noteq> own) rows"

text \<open>A change of one table of grants, given by its selector and update.\<close>

definition rows_step ::
    "(identity \<Rightarrow> (id64 \<times> id64) list) \<Rightarrow> (((id64 \<times> id64) list \<Rightarrow> (id64 \<times> id64) list) \<Rightarrow> identity \<Rightarrow> identity) \<Rightarrow>
     id64 \<Rightarrow> (id64 \<Rightarrow> bool) \<Rightarrow> identity \<Rightarrow> identity \<Rightarrow> bool" where
  "rows_step rows upd own ok db db' \<longleftrightarrow> db' = upd (\<lambda>_. rows db') db \<and> changes_rows own ok (rows db) (rows db')"

text \<open>The same groups with the same contents, up to names and descriptions.\<close>

definition same_groups :: "identity \<Rightarrow> identity \<Rightarrow> bool" where
  "same_groups db db' \<longleftrightarrow> i_permissions db' = i_permissions db \<and> i_group_permissions db' = i_group_permissions db \<and>
     i_group_connections db' = i_group_connections db \<and>
     map (\<lambda>g. (ag_id g, ag_key g, ag_all_permissions g, ag_is_protected g)) (i_groups db') =
     map (\<lambda>g. (ag_id g, ag_key g, ag_all_permissions g, ag_is_protected g)) (i_groups db)"

definition account_open :: "bool \<Rightarrow> id64 \<Rightarrow> auth_db \<Rightarrow> bool" where
  "account_open strong i db \<longleftrightarrow> (\<exists>a. GetAccount db i = Some a \<and> (u_is_protected a \<longrightarrow> strong))"

definition group_open :: "bool \<Rightarrow> id64 \<Rightarrow> identity \<Rightarrow> bool" where
  "group_open strong i db \<longleftrightarrow> (\<exists>g \<in> set (i_groups db). ag_id g = i \<and> (ag_is_protected g \<longrightarrow> strong))"

lemma touches_accountI:
  "\<forall>a. u_id (f a) = u_id a \<and> u_is_protected (f a) = u_is_protected a \<Longrightarrow>
     touches_account i db (update_account (\<lambda>a. u_id a = i) f db)"
  unfolding touches_account_def update_account_def by auto

lemma touches_revoke:
  assumes "\<And>s. P s \<Longrightarrow> se_user s = i"
  shows "touches_account i db (revoke_sessions now P db)"
proof -
  have "filter (\<lambda>s. se_user s \<noteq> i) (update_where (\<lambda>s. P s \<and> se_revoked_at s = None) (\<lambda>s. s\<lparr>se_revoked_at := Some now\<rparr>) ss) =
      filter (\<lambda>s. se_user s \<noteq> i) ss" for ss
    using assms by (induction ss) (auto simp: update_where_def)
  moreover have "rows = update_where (\<lambda>a. u_id a = i) (\<lambda>a. a) rows" for rows :: "account list"
    by (simp add: update_where_def)
  ultimately show ?thesis unfolding touches_account_def revoke_sessions_def by auto
qed

lemma touching_writes:
  "touches_account i db (RevokeAllForUser now i db)" "touches_account i db (ResetMFA now i db)"
  "touches_account i db (UpdateActive now i b db)" "touches_account i db (UpdatePassword now i h db)"
  "RevokeByIDForUser now s i db = (ok, db') \<Longrightarrow> touches_account i db db'"
  "UpdateUser now i n e r t u db = (True, db') \<Longrightarrow> touches_account i db db'"
  unfolding RevokeAllForUser_def ResetMFA_def UpdateActive_def UpdatePassword_def RevokeByIDForUser_def UpdateUser_def
  by (auto intro!: touches_accountI touches_revoke split: if_splits)

lemma GetAccount_touched:
  "touches_account j db db' \<Longrightarrow> GetAccount db i = Some a \<Longrightarrow>
     \<exists>a'. GetAccount db' i = Some a' \<and> u_is_protected a' = u_is_protected a"
  unfolding touches_account_def GetAccount_def by (auto simp: find_update_where)

lemma account_open_touched: "touches_account j db db' \<Longrightarrow> account_open s i db \<Longrightarrow> account_open s i db'"
  unfolding account_open_def using GetAccount_touched by metis

lemma insert_permissions_rows:
  "insert_permissions perms own ks rows = Inr rows' \<Longrightarrow>
     \<exists>new. rows' = rows @ new \<and> (\<forall>r \<in> set new. fst r = own \<and> (\<exists>p \<in> set perms. snd r = p_id p \<and> p_key p \<in> set ks))"
proof (induction perms own ks rows rule: insert_permissions.induct)
  case (2 perms own k ks rows)
  let ?new = "[(own, p_id p). p \<leftarrow> perms, p_key p = k]"
  from "2.prems" have "insert_permissions perms own ks (rows @ ?new) = Inr rows'"
    and ok: "\<not> list_ex (\<lambda>r. r \<in> set rows) ?new" "?new \<noteq> []"
    by (auto simp: Let_def split: if_splits)
  from "2.IH" [OF refl ok this(1)] obtain new where "rows' = (rows @ ?new) @ new"
      "\<forall>r \<in> set new. fst r = own \<and> (\<exists>p \<in> set perms. snd r = p_id p \<and> p_key p \<in> set ks)" by blast
  then show ?case by (intro exI [of _ "?new @ new"]) auto
qed simp

lemma insert_connections_rows: "insert_connections own cs rows = Some rows' \<Longrightarrow> rows' = rows @ map (Pair own) cs"
  by (induction own cs rows rule: insert_connections.induct) (auto split: if_splits)

lemma changes_rowsI:
  "rows' = delete_where P rows @ new \<Longrightarrow> (\<And>r. P r \<Longrightarrow> fst r = own) \<Longrightarrow> (\<And>r. r \<in> set new \<Longrightarrow> fst r = own \<and> ok (snd r)) \<Longrightarrow>
     changes_rows own ok rows rows'"
  unfolding changes_rows_def delete_where_def by (auto simp: filter_empty_conv intro!: filter_cong)

lemma delete_where_none: "delete_where (\<lambda>_. False) rows = rows"
  by (simp add: delete_where_def)

lemma changes_rows_same: "changes_rows own ok rows rows"
  unfolding changes_rows_def by simp

lemma changes_rows_delete: "(\<And>r. P r \<Longrightarrow> fst r = own) \<Longrightarrow> changes_rows own ok rows (delete_where P rows)"
  by (rule changes_rowsI [where P = P and new = "[]"]) auto

lemma changes_rows_add: "(\<And>r. r \<in> set new \<Longrightarrow> fst r = own \<and> ok (snd r)) \<Longrightarrow> changes_rows own ok rows (rows @ new)"
  by (rule changes_rowsI [where P = "\<lambda>_. False"]) (auto simp: delete_where_none)

lemma replaced_permission_rows:
  assumes "\<And>p. p \<in> set (i_permissions db) \<Longrightarrow> p_key p \<in> set keys \<Longrightarrow> ok (p_id p)"
  shows "ReplaceDirectPermissionKeys i keys db = (None, db') \<Longrightarrow> rows_step i_user_permissions i_user_permissions_update i ok db db'"
    and "ReplacePermissionKeys i keys db = (None, db') \<Longrightarrow> rows_step i_group_permissions i_group_permissions_update i ok db db'"
proof -
  have "changes_rows i ok rows rows'" if "insert_permissions (i_permissions db) i keys (delete_where (\<lambda>r. fst r = i) rows) = Inr rows'"
    for rows rows'
    using insert_permissions_rows [OF that] assms by (auto intro!: changes_rowsI)
  then show "ReplaceDirectPermissionKeys i keys db = (None, db') \<Longrightarrow> rows_step i_user_permissions i_user_permissions_update i ok db db'"
    "ReplacePermissionKeys i keys db = (None, db') \<Longrightarrow> rows_step i_group_permissions i_group_permissions_update i ok db db'"
    unfolding ReplaceDirectPermissionKeys_def ReplacePermissionKeys_def rows_step_def by (auto split: sum.splits)
qed

lemma added_permission_rows:
  assumes "\<And>p. p \<in> set (i_permissions db) \<Longrightarrow> p_key p = key \<Longrightarrow> ok (p_id p)"
  shows "AddDirectPermission i key db = (True, db') \<Longrightarrow> rows_step i_user_permissions i_user_permissions_update i ok db db'"
    and "AddGroupPermission i key db = (True, db') \<Longrightarrow> rows_step i_group_permissions i_group_permissions_update i ok db db'"
proof -
  define new where "new rows = filter (\<lambda>r. r \<notin> set rows) [(i, p_id p). p \<leftarrow> i_permissions db, p_key p = key]" for rows
  have rows: "changes_rows i ok rows (rows @ new rows)" for rows
    using assms by (intro changes_rows_add) (auto simp: new_def)
  show "rows_step i_user_permissions i_user_permissions_update i ok db db'" if "AddDirectPermission i key db = (True, db')"
  proof -
    have "db' = db\<lparr>i_user_permissions := i_user_permissions db @ new (i_user_permissions db)\<rparr>"
      using that unfolding AddDirectPermission_def Let_def new_def [symmetric] by (simp split: if_split_asm)
    then show ?thesis by (simp add: rows_step_def rows)
  qed
  show "rows_step i_group_permissions i_group_permissions_update i ok db db'" if "AddGroupPermission i key db = (True, db')"
  proof -
    have "db' = db\<lparr>i_group_permissions := i_group_permissions db @ new (i_group_permissions db)\<rparr>"
      using that unfolding AddGroupPermission_def Let_def new_def [symmetric] by (simp split: if_split_asm)
    then show ?thesis by (simp add: rows_step_def rows)
  qed
qed

lemma replaced_connection_rows:
  assumes "\<And>c. c \<in> set cs \<Longrightarrow> ok c"
  shows "ReplaceDirectDBConnectionIDs i cs db = (True, db') \<Longrightarrow> rows_step i_user_connections i_user_connections_update i ok db db'"
    and "ReplaceDBConnectionIDs i cs db = (True, db') \<Longrightarrow> rows_step i_group_connections i_group_connections_update i ok db db'"
  using assms unfolding ReplaceDirectDBConnectionIDs_def ReplaceDBConnectionIDs_def rows_step_def
  by (auto split: option.splits dest!: insert_connections_rows intro!: changes_rowsI)

lemma added_connection_rows:
  assumes "ok c"
  shows "rows_step i_user_connections i_user_connections_update i ok db (AddDirectDBConnection i c db)"
    and "rows_step i_group_connections i_group_connections_update i ok db (AddGroupConnection i c db)"
  using assms unfolding AddDirectDBConnection_def AddGroupConnection_def rows_step_def
  by (auto intro: changes_rows_add changes_rows_same)

lemma removed_rows:
  "rows_step i_user_permissions i_user_permissions_update i ok db (RemoveDirectPermission i key db)"
  "rows_step i_group_permissions i_group_permissions_update i ok db (RemoveGroupPermission i key db)"
  "rows_step i_user_connections i_user_connections_update i ok db (RemoveDirectDBConnection i c db)"
  "rows_step i_group_connections i_group_connections_update i ok db (RemoveGroupConnection i c db)"
  unfolding RemoveDirectPermission_def RemoveGroupPermission_def RemoveDirectDBConnection_def RemoveGroupConnection_def rows_step_def
  by (auto intro!: changes_rows_delete)

lemma added_member: "ok k \<Longrightarrow> changes_members now ok db (AddMembership u k e db)"
proof -
  have "member_by_key now (AddMembership u k e db) v j \<Longrightarrow> member_by_key now db v j \<or> j = k" for v j
    unfolding AddMembership_def Let_def member_by_key_def list_ex_iff by (auto simp: bex_update_where split: if_splits)
  moreover have "AddMembership u k e db = db\<lparr>i_memberships := i_memberships (AddMembership u k e db),
      i_user_groups := i_user_groups (AddMembership u k e db)\<rparr>"
    unfolding AddMembership_def Let_def by simp
  ultimately show "ok k \<Longrightarrow> ?thesis" unfolding changes_members_def member_by_id_AddMembership by blast
qed

lemma removed_member: "changes_members now ok db (RemoveMembership u k db)"
  unfolding changes_members_def RemoveMembership_def member_by_key_def member_by_id_def list_ex_iff by auto

lemma replaced_members:
  "ReplaceMemberships u groups db = (True, db') \<Longrightarrow> (\<And>k. k \<in> set groups \<Longrightarrow> ok k) \<Longrightarrow> changes_members now ok db db'"
  unfolding changes_members_def ReplaceMemberships_def member_by_key_def member_by_id_def list_ex_iff
  by (auto split: if_splits)

lemma identity_in_set_identity:
  "i_users db' = i_users (identity_in w) \<Longrightarrow> identity_in (set_identity db' w) = db'"
  unfolding identity_in_def set_identity_def identity_of_def by simp

lemma set_world_simps [simp]:
  "vw_db (set_admin_db adb w) = adb" "ad_accounts (vw_db (set_identity db' w)) = ad_accounts (vw_db w)"
  "vw_db (log_admin a b c w) = vw_db w" "identity_in (log_admin a b c w) = identity_in w"
  by (simp_all add: set_admin_db_def set_identity_def log_admin_def identity_in_def)

lemma account_open_set_identity [simp]: "account_open s i (vw_db (set_identity db' w)) = account_open s i (vw_db w)"
  by (simp add: account_open_def GetAccount_def)

lemma members_same_groups: "changes_members now ok db db' \<Longrightarrow> i_users db' = i_users db \<and> same_groups db db'"
proof -
  assume "changes_members now ok db db'"
  then obtain ms us where "db' = db\<lparr>i_memberships := ms, i_user_groups := us\<rparr>" unfolding changes_members_def by blast
  then show ?thesis unfolding same_groups_def by simp
qed

lemma same_groups_open: "same_groups db db' \<Longrightarrow> group_open s i db \<Longrightarrow> group_open s i db'"
proof -
  let ?f = "\<lambda>g. (ag_id g, ag_key g, ag_all_permissions g, ag_is_protected g)"
  assume same: "same_groups db db'" and "group_open s i db"
  then obtain g where g: "g \<in> set (i_groups db)" "ag_id g = i" "ag_is_protected g \<longrightarrow> s" unfolding group_open_def by blast
  have "?f g \<in> set (map ?f (i_groups db))" using g(1) by simp
  then have "?f g \<in> set (map ?f (i_groups db'))" using same by (simp only: same_groups_def)
  then obtain g' where "g' \<in> set (i_groups db')" "?f g = ?f g'" by auto
  then show ?thesis using g unfolding group_open_def by auto
qed

lemma GroupByKey_member: "GroupByKey db k = Some g \<Longrightarrow> g \<in> set (i_groups db) \<and> ag_key g = k"
  unfolding GroupByKey_def by (auto simp: find_Some_iff)

lemma same_groups_refl: "same_groups db db"
  by (simp add: same_groups_def)

lemma same_groups_trans: "same_groups a b \<Longrightarrow> same_groups b c \<Longrightarrow> same_groups a c"
  by (simp add: same_groups_def)

lemma group_open_rows:
  "rows_step i_group_permissions i_group_permissions_update i ok db db' \<Longrightarrow> i_users db' = i_users db \<and> group_open s j db' = group_open s j db"
  "rows_step i_group_connections i_group_connections_update i ok db db' \<Longrightarrow> i_users db' = i_users db \<and> group_open s j db' = group_open s j db"
proof -
  have "i_users (i_group_permissions_update f db) = i_users db" "i_groups (i_group_permissions_update f db) = i_groups db"
    "i_users (i_group_connections_update f db) = i_users db" "i_groups (i_group_connections_update f db) = i_groups db" for f
    by simp_all
  then show "rows_step i_group_permissions i_group_permissions_update i ok db db' \<Longrightarrow> i_users db' = i_users db \<and> group_open s j db' = group_open s j db"
    "rows_step i_group_connections i_group_connections_update i ok db db' \<Longrightarrow> i_users db' = i_users db \<and> group_open s j db' = group_open s j db"
    unfolding rows_step_def group_open_def by metis+
qed

lemma GetAccount_id: "GetAccount db i = Some a \<Longrightarrow> u_id a = i"
  unfolding GetAccount_def by (auto simp: find_Some_iff)

lemma CreateGroup_member:
  "CreateGroup k n d s False db = (Some g, db') \<Longrightarrow> g \<in> set (i_groups db') \<and> ag_key g = k \<and> \<not> ag_is_protected g \<and> i_users db' = i_users db"
  unfolding CreateGroup_def Let_def by (auto split: if_splits)

lemma UpdateGroup_users: "UpdateGroup i k n d db = (b, db') \<Longrightarrow> i_users db' = i_users db"
  unfolding UpdateGroup_def by (auto split: if_splits)

locale granting =
  fixes env :: admin_env and q :: admin_caller
    and Inv :: "admin_world \<Rightarrow> bool"
    and strong :: bool
    and grantable :: "string \<Rightarrow> bool"
    and permitted :: "id64 \<Rightarrow> bool"
    and connectable :: "id64 \<Rightarrow> bool"
    and joinable :: "identity \<Rightarrow> string \<Rightarrow> bool"
  assumes logged: "Inv w \<Longrightarrow> Inv (log_admin action actor resource w)"
    and protected_strong: "Inv w \<Longrightarrow> protected_check env q a (identity_in w) = None \<Longrightarrow> u_is_protected a \<Longrightarrow> strong"
    and mutable_strong: "Inv w \<Longrightarrow> mutation_check env q (Some g) (identity_in w) = None \<Longrightarrow> ag_is_protected g \<Longrightarrow> strong"
    and checked_permission: "Inv w \<Longrightarrow> permission_check env q k (identity_in w) = None \<Longrightarrow> grantable k"
    and grantable_permitted: "Inv w \<Longrightarrow> p \<in> set (i_permissions (identity_in w)) \<Longrightarrow> grantable (p_key p) \<Longrightarrow> permitted (p_id p)"
    and key_trimmed: "Inv w \<Longrightarrow> p \<in> set (i_permissions (identity_in w)) \<Longrightarrow> p_key p \<noteq> [] \<and> trim_space (p_key p) = p_key p"
    and checked_connection: "Inv w \<Longrightarrow> connection_check env q c (identity_in w) = None \<Longrightarrow> connectable c"
    and zero_connectable: "Inv w \<Longrightarrow> connectable 0"
    and checked_contents: "Inv w \<Longrightarrow> GroupByKey (identity_in w) k = Some g \<Longrightarrow>
          contents_check env q g (identity_in w) = None \<Longrightarrow> joinable (identity_in w) k"
    and same_joinable: "same_groups db db' \<Longrightarrow> joinable db k \<Longrightarrow> joinable db' k"
    and account_created: "Inv w \<Longrightarrow> CreateUser now n e r t u h False (vw_db w) = (Some i, adb) \<Longrightarrow> Inv (set_admin_db adb w)"
    and account_touched: "Inv w \<Longrightarrow> account_open strong i (vw_db w) \<Longrightarrow> touches_account i (vw_db w) adb \<Longrightarrow> Inv (set_admin_db adb w)"
    and account_deleted: "Inv w \<Longrightarrow> account_open False i (vw_db w) \<Longrightarrow> Inv (set_admin_db (DeleteUser i (vw_db w)) w)"
    and members_changed: "Inv w \<Longrightarrow> changes_members (vq_now q) (joinable (identity_in w)) (identity_in w) db' \<Longrightarrow> Inv (set_identity db' w)"
    and user_permissions_changed: "Inv w \<Longrightarrow> account_open strong i (vw_db w) \<Longrightarrow>
          rows_step i_user_permissions i_user_permissions_update i permitted (identity_in w) db' \<Longrightarrow> Inv (set_identity db' w)"
    and user_connections_changed: "Inv w \<Longrightarrow> account_open strong i (vw_db w) \<Longrightarrow>
          rows_step i_user_connections i_user_connections_update i connectable (identity_in w) db' \<Longrightarrow> Inv (set_identity db' w)"
    and group_created: "Inv w \<Longrightarrow> CreateGroup k n d s False (identity_in w) = (Some g, db') \<Longrightarrow>
          Inv (set_identity db' w) \<and> joinable db' k"
    and group_renamed: "Inv w \<Longrightarrow> group_open strong (ag_id g) (identity_in w) \<Longrightarrow> g \<in> set (i_groups (identity_in w)) \<Longrightarrow>
          UpdateGroup (ag_id g) (ag_key g) n d (identity_in w) = (True, db') \<Longrightarrow>
          Inv (set_identity db' w) \<and> same_groups (identity_in w) db'"
    and group_deleted: "Inv w \<Longrightarrow> group_open False i (identity_in w) \<Longrightarrow> Inv (set_identity (DeleteGroup i (identity_in w)) w)"
    and group_permissions_changed: "Inv w \<Longrightarrow> group_open strong i (identity_in w) \<Longrightarrow>
          rows_step i_group_permissions i_group_permissions_update i permitted (identity_in w) db' \<Longrightarrow> Inv (set_identity db' w)"
    and group_connections_changed: "Inv w \<Longrightarrow> group_open strong i (identity_in w) \<Longrightarrow>
          rows_step i_group_connections i_group_connections_update i connectable (identity_in w) db' \<Longrightarrow> Inv (set_identity db' w)"
begin

text \<open>The steps of the handlers.\<close>

lemma keep_refuse [intro]: "Inv w \<Longrightarrow> Inv (snd (refuse code msg w))"
  by (simp add: refuse_def)

lemma keep_answer: "Inv w \<Longrightarrow> Inv (snd (answer r w))"
  by (simp add: answer_def)

lemma keep_audited: "Inv (snd (k (log_admin action actor resource w))) \<Longrightarrow> Inv (snd (audited action actor resource k w))"
  by (simp add: audited_def)

lemma keep_done: "Inv w \<Longrightarrow> Inv (snd (audited action actor resource (answer r) w))"
  by (simp add: audited_def answer_def logged)

lemma keep_require: "Inv w \<Longrightarrow> (b \<Longrightarrow> Inv (snd (k w))) \<Longrightarrow> Inv (snd (require b code msg k w))"
  by (simp add: require_def keep_refuse)

lemma keep_value: "Inv w \<Longrightarrow> (\<And>x. v = Some x \<Longrightarrow> Inv (snd (k x w))) \<Longrightarrow> Inv (snd (with_value v code msg k w))"
  by (cases v) (simp_all add: with_value_def keep_refuse)

lemma keep_guarded: "Inv w \<Longrightarrow> (check (identity_in w) = None \<Longrightarrow> Inv (snd (k w))) \<Longrightarrow> Inv (snd (guarded action q' resource check k w))"
  by (cases "check (identity_in w)") (simp_all add: guarded_def audited_def refuse_def logged)

lemma keep_with_id: "Inv w \<Longrightarrow> (\<And>i. Inv (snd (k i w))) \<Longrightarrow> Inv (snd (with_id raw k w))"
  unfolding with_id_def by (rule keep_value)

lemma keep_with_user: "Inv w \<Longrightarrow> (\<And>a. GetAccount (vw_db w) i = Some a \<Longrightarrow> Inv (snd (k a w))) \<Longrightarrow> Inv (snd (with_user env i k w))"
  unfolding with_user_def by (rule keep_value) (auto split: if_splits)

lemma keep_with_group:
  "Inv w \<Longrightarrow> (\<And>g. GroupByKey (identity_in w) key = Some g \<Longrightarrow> Inv (snd (k g w))) \<Longrightarrow> Inv (snd (with_group env key code msg k w))"
  unfolding with_group_def by (intro keep_require keep_value)

lemma keep_write_db: "Inv w \<Longrightarrow> Inv (snd (k (set_admin_db (f (vw_db w)) w))) \<Longrightarrow> Inv (snd (write_db b msg f k w))"
  by (simp add: write_db_def keep_refuse)

lemma keep_write_identity:
  "Inv w \<Longrightarrow> Inv (snd (k (set_identity (f (identity_in w)) w))) \<Longrightarrow> Inv (snd (write_identity b msg f k w))"
  by (simp add: write_identity_def keep_refuse)

lemma keep_try: "Inv w \<Longrightarrow> (\<And>db'. f (identity_in w) = (None, db') \<Longrightarrow> Inv (snd (k (set_identity db' w)))) \<Longrightarrow>
    Inv (snd (try_identity b msg f k w))"
  unfolding try_identity_def by (auto simp: keep_refuse split: prod.split option.split write_error.split)

lemma or_failed_None: "or_failed r = (None, db') \<longleftrightarrow> r = (True, db')"
  unfolding or_failed_def by (cases r) auto

lemma or_no_rows_None: "or_no_rows r = (None, db') \<longleftrightarrow> r = (True, db')"
  unfolding or_no_rows_def by (cases r) auto

lemmas keep = keep_require keep_value keep_guarded keep_with_id keep_with_user keep_with_group keep_write_db
  keep_write_identity keep_try keep_done

lemma account_openI:
  "Inv w \<Longrightarrow> GetAccount (vw_db w) i = Some a \<Longrightarrow> protected_check env q a (identity_in w) = None \<Longrightarrow> account_open strong i (vw_db w)"
  unfolding account_open_def using protected_strong by blast

lemma group_openI:
  "Inv w \<Longrightarrow> GroupByKey (identity_in w) key = Some g \<Longrightarrow> mutation_check env q (Some g) (identity_in w) = None \<Longrightarrow>
     group_open strong (ag_id g) (identity_in w)"
  unfolding group_open_def using mutable_strong GroupByKey_member by blast

lemma open_touched:
  "Inv w \<Longrightarrow> account_open strong i (vw_db w) \<Longrightarrow> touches_account i (vw_db w) adb \<Longrightarrow>
     Inv (set_admin_db adb w) \<and> account_open strong i (vw_db (set_admin_db adb w))"
  using account_touched account_open_touched by simp

lemma keep_write_touch:
  assumes "Inv w" and "account_open strong i (vw_db w)" and "touches_account i (vw_db w) (f (vw_db w))"
    and "\<And>v. Inv v \<Longrightarrow> account_open strong i (vw_db v) \<Longrightarrow> Inv (snd (k v))"
  shows "Inv (snd (write_db b msg f k w))"
  using open_touched [OF assms(1-3)] assms(1,4) by (simp add: write_db_def keep_refuse)

text \<open>Users.\<close>

lemma keep_UserCreate: "Inv w \<Longrightarrow> Inv (snd (UserCreate env q body w))"
  unfolding UserCreate_def Let_def
  by (intro keep_value keep_require; auto simp: keep_refuse split: prod.split option.split intro!: keep_done intro: account_created)

lemma keep_UserRevokeSession: "Inv w \<Longrightarrow> Inv (snd (UserRevokeSession env q raw rs w))"
  unfolding UserRevokeSession_def
  by (intro keep; auto simp: keep_refuse split: prod.split bool.split
      intro!: keep_done intro: account_touched account_openI touching_writes)

lemma keep_UserRevokeSessions: "Inv w \<Longrightarrow> Inv (snd (UserRevokeSessions env q raw w))"
  unfolding UserRevokeSessions_def
  by (intro keep) (auto intro: account_touched account_openI touching_writes)

lemma keep_UserResetMFA: "Inv w \<Longrightarrow> Inv (snd (UserResetMFA env q raw w))"
proof -
  have reset: "Inv (snd (write_db b m (ResetMFA now i) (write_db b' m' (RevokeAllForUser now i) (audited x y z (answer r))) w))"
    if "Inv w" "account_open strong i (vw_db w)" for b m b' m' i now x y z r w
    by (rule keep_write_touch [where i = i], rule that, rule that, rule touching_writes)
      (rule keep_write_touch [where i = i], assumption+, rule touching_writes, rule keep_done)
  show "Inv w \<Longrightarrow> ?thesis" unfolding UserResetMFA_def
    by (intro keep_with_id keep_with_user keep_guarded reset account_openI)
qed

lemma keep_UserDelete: "Inv w \<Longrightarrow> Inv (snd (UserDelete env q raw w))"
  unfolding UserDelete_def by (intro keep) (auto intro!: account_deleted simp: account_open_def)

lemma keep_UserAddMembership: "Inv w \<Longrightarrow> Inv (snd (UserAddMembership env q raw body w))"
  unfolding UserAddMembership_def Let_def
  by (intro keep) (auto intro!: members_changed added_member intro: checked_contents)

lemma keep_UserRemoveMembership: "Inv w \<Longrightarrow> Inv (snd (UserRemoveMembership env q raw g w))"
  unfolding UserRemoveMembership_def Let_def
  by (intro keep) (auto intro!: members_changed removed_member)

lemma permitted_key:
  assumes "Inv w" and "grantable k"
  shows "p \<in> set (i_permissions (identity_in w)) \<Longrightarrow> p_key p = k \<Longrightarrow> permitted (p_id p)"
  using assms grantable_permitted by blast

lemma keep_UserAddDirectPermission: "Inv w \<Longrightarrow> Inv (snd (UserAddDirectPermission env q raw body w))"
  unfolding UserAddDirectPermission_def
  by (intro keep) (auto simp: or_no_rows_None
      intro!: user_permissions_changed added_permission_rows intro: account_openI permitted_key checked_permission)

lemma keep_UserRemoveDirectPermission: "Inv w \<Longrightarrow> Inv (snd (UserRemoveDirectPermission env q raw key w))"
  unfolding UserRemoveDirectPermission_def
  by (intro keep) (auto intro!: user_permissions_changed removed_rows intro: account_openI)

lemma keep_UserAddDirectDBConnection: "Inv w \<Longrightarrow> Inv (snd (UserAddDirectDBConnection env q raw body w))"
  unfolding UserAddDirectDBConnection_def
  by (intro keep) (auto intro!: user_connections_changed added_connection_rows intro: account_openI checked_connection)

lemma keep_UserRemoveDirectDBConnection: "Inv w \<Longrightarrow> Inv (snd (UserRemoveDirectDBConnection env q raw c w))"
  unfolding UserRemoveDirectDBConnection_def
  by (intro keep) (auto intro!: user_connections_changed removed_rows intro: account_openI)

text \<open>The steps that change a user.\<close>

lemma keep_patch_profile:
  assumes "Inv w" and "account_open strong (u_id a) (vw_db w)"
    and "\<And>v. Inv v \<Longrightarrow> account_open strong (u_id a) (vw_db v) \<Longrightarrow> Inv (snd (k v))"
  shows "Inv (snd (patch_profile env q a f k w))"
proof -
  obtain ok db' where "UpdateUser (vq_now q) (u_id a) (or_current (pf_username f) (u_username a)) (or_current (pf_email f) (ac_email a))
      (case pf_lark_recipient f of None \<Rightarrow> ac_lark_recipient a | Some v \<Rightarrow> trim_space v)
      (normalizeLarkRecipientType (case pf_lark_recipient_type f of None \<Rightarrow> ac_lark_recipient_type a | Some v \<Rightarrow> v))
      (case pf_lark_union_id f of None \<Rightarrow> ac_lark_union_id a | Some v \<Rightarrow> trim_space v) (vw_db w) = (ok, db')"
    by fastforce
  then show ?thesis unfolding patch_profile_def using open_touched [OF assms(1,2), of db'] touching_writes(6) assms(1,3)
    by (cases ok) (simp_all add: keep_refuse)
qed

lemma keep_patch_password:
  assumes "Inv w" and "account_open strong i (vw_db w)"
    and "\<And>v. Inv v \<Longrightarrow> account_open strong i (vw_db v) \<Longrightarrow> Inv (snd (k v))"
  shows "Inv (snd (patch_password env q i pw k w))"
proof -
  have "Inv (snd (require b c m (with_value h c' m' (\<lambda>h. write_db b' m'' (UpdatePassword (vq_now q) i h) k)) w))" for b c m h c' m' b' m''
    by (intro keep_require keep_value keep_write_touch [where i = i] assms touching_writes)
  then show ?thesis unfolding patch_password_def using assms(3) [OF assms(1,2)] by (simp split: option.split)
qed

lemma keep_patch_active:
  assumes "Inv w" and "account_open strong i (vw_db w)"
    and k: "\<And>v. Inv v \<Longrightarrow> account_open strong i (vw_db v) \<Longrightarrow> Inv (snd (k v))"
  shows "Inv (snd (patch_active env q i act k w))"
proof -
  have revoke: "Inv (snd (write_db b m (RevokeAllForUser (vq_now q) i) k v))" if "Inv v" "account_open strong i (vw_db v)" for b m v
    by (rule keep_write_touch [where i = i, OF that]) (rule touching_writes, rule k)
  have "Inv (snd (write_db b m (UpdateActive (vq_now q) i x) k w))" for b m x
    by (rule keep_write_touch [where i = i, OF assms(1,2)]) (rule touching_writes, rule k)
  moreover have "Inv (snd (write_db b m (UpdateActive (vq_now q) i x) (write_db b' m' (RevokeAllForUser (vq_now q) i) k) w))" for b m b' m' x
    by (rule keep_write_touch [where i = i, OF assms(1,2)]) (rule touching_writes, rule revoke)
  ultimately show ?thesis unfolding patch_active_def using k [OF assms(1,2)] by (simp split: option.split)
qed

lemma keep_check_next_groups:
  assumes "Inv w" and "\<forall>x \<in> set acc. joinable (identity_in w) x"
    and "\<And>acc. \<forall>x \<in> set acc. joinable (identity_in w) x \<Longrightarrow> Inv (snd (k acc w))"
  shows "Inv (snd (check_next_groups env q i raws acc k w))"
  using assms
proof (induction raws arbitrary: acc)
  case (Cons raw raws)
  show ?case using Cons.prems
    by (auto simp: Let_def intro!: keep_with_group keep_guarded Cons.IH intro: checked_contents)
qed simp

lemma keep_check_dropped_groups: "Inv w \<Longrightarrow> Inv (snd (k w)) \<Longrightarrow> Inv (snd (check_dropped_groups env q i gs k w))"
  by (induction gs) (auto intro!: keep_require keep_guarded)

lemma keep_patch_groups:
  assumes "Inv w" and "account_open strong i (vw_db w)"
    and "\<And>v. Inv v \<Longrightarrow> account_open strong i (vw_db v) \<Longrightarrow> Inv (snd (k v))"
  shows "Inv (snd (patch_groups env q i gs k w))"
  unfolding patch_groups_def Let_def using assms
  by (auto simp: or_failed_None split: option.split
      intro!: keep_require keep_check_next_groups keep_check_dropped_groups keep_try members_changed assms(3) replaced_members)

lemma keep_check_next_permissions:
  assumes "Inv w" and "\<forall>x \<in> set acc. grantable x" and "\<And>acc. \<forall>x \<in> set acc. grantable x \<Longrightarrow> Inv (snd (k acc w))"
  shows "Inv (snd (check_next_permissions env q i raws acc k w))"
  using assms
proof (induction raws arbitrary: acc)
  case (Cons raw raws)
  show ?case using Cons.prems by (auto simp: Let_def intro!: keep_guarded Cons.IH intro: checked_permission)
qed simp

lemma keep_patch_permissions:
  assumes "Inv w" and "account_open strong i (vw_db w)"
    and "\<And>v. Inv v \<Longrightarrow> account_open strong i (vw_db v) \<Longrightarrow> Inv (snd (k v))"
  shows "Inv (snd (patch_permissions env q i keys k w))"
  unfolding patch_permissions_def using assms
  by (auto split: option.split intro!: keep_check_next_permissions keep_try user_permissions_changed assms(3) replaced_permission_rows(1)
      intro: permitted_key)

lemma keep_check_next_connections:
  assumes "Inv w" and "\<forall>x \<in> set acc. connectable x" and "\<And>acc. \<forall>x \<in> set acc. connectable x \<Longrightarrow> Inv (snd (k acc w))"
  shows "Inv (snd (check_next_connections env q i cs acc k w))"
  using assms
proof (induction cs arbitrary: acc)
  case (Cons c cs)
  show ?case using Cons.prems by (auto intro!: keep_guarded Cons.IH intro: checked_connection)
qed simp

lemma keep_patch_connections:
  assumes "Inv w" and "account_open strong i (vw_db w)"
    and "\<And>v. Inv v \<Longrightarrow> account_open strong i (vw_db v) \<Longrightarrow> Inv (snd (k v))"
  shows "Inv (snd (patch_connections env q i cs k w))"
  unfolding patch_connections_def using assms
  by (auto simp: or_failed_None split: option.split
      intro!: keep_check_next_connections keep_try user_connections_changed assms(3) replaced_connection_rows(1))

lemma keep_UserPatch: "Inv w \<Longrightarrow> Inv (snd (UserPatch env q raw body w))"
  unfolding UserPatch_def
  by (intro keep_with_id keep_with_user keep_value keep_guarded keep_patch_profile)
    (auto dest: GetAccount_id intro!: keep_patch_password keep_patch_active keep_patch_groups keep_patch_permissions
      keep_patch_connections keep_done intro: account_openI)

text \<open>Groups.\<close>

lemma keep_check_group_permissions:
  assumes "Inv w" and "(\<And>x. x \<in> set raws \<Longrightarrow> trim_space x \<noteq> [] \<Longrightarrow> grantable (trim_space x)) \<Longrightarrow> Inv (snd (k w))"
  shows "Inv (snd (check_group_permissions env q g raws k w))"
  using assms(2)
proof (induction raws)
  case (Cons raw raws)
  then show ?case using assms(1) by (auto intro!: keep_guarded intro: checked_permission)
qed simp

lemma keep_check_group_connections:
  assumes "Inv w" and "(\<And>x. x \<in> set cs \<Longrightarrow> connectable x) \<Longrightarrow> Inv (snd (k w))"
  shows "Inv (snd (check_group_connections env q g cs k w))"
  using assms(2)
proof (induction cs)
  case (Cons c cs)
  then show ?case using assms(1) by (auto intro!: keep_guarded intro: checked_connection zero_connectable)
qed simp

lemma permitted_keys:
  assumes "Inv w" and "\<And>x. x \<in> set raws \<Longrightarrow> trim_space x \<noteq> [] \<Longrightarrow> grantable (trim_space x)"
    and "p \<in> set (i_permissions (identity_in w))" and "p_key p \<in> set raws"
  shows "permitted (p_id p)"
  using assms key_trimmed [OF assms(1,3)] grantable_permitted [OF assms(1,3)] by metis

lemma keep_add_members:
  assumes "Inv w" and "joinable (identity_in w) key"
    and "\<And>v. Inv v \<Longrightarrow> same_groups (identity_in w) (identity_in v) \<Longrightarrow> Inv (snd (k v))"
  shows "Inv (snd (add_members env key us k w))"
  using assms
proof (induction us arbitrary: w)
  case Nil
  then show ?case by (simp add: same_groups_refl)
next
  case (Cons u us)
  let ?v = "set_identity (AddMembership u key None (identity_in w)) w"
  have step: "changes_members (vq_now q) (joinable (identity_in w)) (identity_in w) (AddMembership u key None (identity_in w))"
    by (rule added_member) (rule Cons.prems(2))
  then have v: "identity_in ?v = AddMembership u key None (identity_in w)" "same_groups (identity_in w) (identity_in ?v)" "Inv ?v"
    using members_same_groups [OF step] members_changed [OF Cons.prems(1) step] by (simp_all add: identity_in_set_identity)
  have "Inv (snd (add_members env key us k ?v))"
    by (rule Cons.IH) (use v same_joinable Cons.prems same_groups_trans in blast)+
  then show ?case by (simp add: write_identity_def keep_refuse Cons.prems(1))
qed

lemma keep_remove_members:
  assumes "Inv w" and "\<And>v. Inv v \<Longrightarrow> same_groups (identity_in w) (identity_in v) \<Longrightarrow> Inv (snd (k v))"
  shows "Inv (snd (remove_members env key us k w))"
  using assms
proof (induction us arbitrary: w)
  case Nil
  then show ?case by (simp add: same_groups_refl)
next
  case (Cons u us)
  let ?v = "set_identity (RemoveMembership u key (identity_in w)) w"
  have step: "changes_members (vq_now q) (joinable (identity_in w)) (identity_in w) (RemoveMembership u key (identity_in w))"
    by (rule removed_member)
  then have v: "same_groups (identity_in w) (identity_in ?v)" "Inv ?v"
    using members_same_groups [OF step] members_changed [OF Cons.prems(1) step] by (simp_all add: identity_in_set_identity)
  have "Inv (snd (remove_members env key us k ?v))"
    by (rule Cons.IH) (use v Cons.prems same_groups_trans in blast)+
  then show ?case by (simp add: write_identity_def keep_refuse Cons.prems(1))
qed

lemma keep_replace_permissions:
  assumes "Inv w" and "group_open strong i (identity_in w)"
    and "\<And>x. x \<in> set keys \<Longrightarrow> trim_space x \<noteq> [] \<Longrightarrow> grantable (trim_space x)"
    and "\<And>v. Inv v \<Longrightarrow> group_open strong i (identity_in v) \<Longrightarrow> Inv (snd (k v))"
  shows "Inv (snd (try_identity b msg (ReplacePermissionKeys i keys) k w))"
proof (rule keep_try [OF assms(1)])
  fix db' assume "ReplacePermissionKeys i keys (identity_in w) = (None, db')"
  then have step: "rows_step i_group_permissions i_group_permissions_update i permitted (identity_in w) db'"
    using permitted_keys [OF assms(1,3)] by (intro replaced_permission_rows(2))
  show "Inv (snd (k (set_identity db' w)))"
    using group_permissions_changed [OF assms(1,2) step] assms(2) group_open_rows(1) [OF step] identity_in_set_identity [of db' w]
    by (intro assms(4)) simp_all
qed

lemma keep_replace_connections:
  assumes "Inv w" and "group_open strong i (identity_in w)" and "\<And>x. x \<in> set cs \<Longrightarrow> connectable x"
    and "\<And>v. Inv v \<Longrightarrow> Inv (snd (k v))"
  shows "Inv (snd (try_identity b msg (\<lambda>db. or_failed (ReplaceDBConnectionIDs i cs db)) k w))"
proof (rule keep_try [OF assms(1)])
  fix db' assume "or_failed (ReplaceDBConnectionIDs i cs (identity_in w)) = (None, db')"
  then have "rows_step i_group_connections i_group_connections_update i connectable (identity_in w) db'"
    using assms(3) unfolding or_failed_None by (intro replaced_connection_rows(2))
  then show "Inv (snd (k (set_identity db' w)))"
    using group_connections_changed [OF assms(1,2)] assms(4) by blast
qed

lemma keep_reload_group: "Inv w \<Longrightarrow> Inv (snd (k w)) \<Longrightarrow> Inv (snd (reload_group env key k w))"
  by (simp add: reload_group_def keep_refuse)

lemma keep_GroupCreate: "Inv w \<Longrightarrow> Inv (snd (GroupCreate env q body w))"
proof -
  have create: "Inv (snd (add_members env (ag_key g) us
      (try_identity b m (ReplacePermissionKeys (ag_id g) keys) (try_identity b' m' (\<lambda>db. or_failed (ReplaceDBConnectionIDs (ag_id g) cs db))
      (audited x y z (reload_group env (ag_key g) (answer r))))) (set_identity db' w)))"
    if w: "Inv w" and c: "CreateGroup k n d s False (identity_in w) = (Some g, db')"
      and keys: "\<And>x. x \<in> set keys \<Longrightarrow> trim_space x \<noteq> [] \<Longrightarrow> grantable (trim_space x)"
      and conns: "\<And>x. x \<in> set cs \<Longrightarrow> connectable x"
    for w k n d s g db' us b m keys b' m' cs x y z r
  proof -
    note member = CreateGroup_member [OF c] and new = group_created [OF w c]
    then have db: "identity_in (set_identity db' w) = db'" by (simp add: identity_in_set_identity)
    have "group_open strong (ag_id g) db'" using member unfolding group_open_def by blast
    then have "group_open strong (ag_id g) (identity_in v)" if "same_groups db' (identity_in v)" for v
      using same_groups_open that by blast
    with new member db show ?thesis
      by (intro keep_add_members keep_replace_permissions keep_replace_connections keep_audited keep_reload_group keep_answer logged keys conns)
        (auto simp: logged)
  qed
  show "Inv w \<Longrightarrow> ?thesis" unfolding GroupCreate_def Let_def
    by (intro keep_value; simp split: option.split add: keep_refuse; intro impI keep_require keep_check_group_permissions
      keep_check_group_connections; simp add: keep_refuse create split: prod.split option.split)
qed

lemma keep_check_added_users: "Inv w \<Longrightarrow> Inv (snd (k w)) \<Longrightarrow> Inv (snd (check_added_users env q g cur us k w))"
  by (induction us) (auto intro!: keep_with_user keep_guarded)

lemma keep_check_removed_users: "Inv w \<Longrightarrow> Inv (snd (k w)) \<Longrightarrow> Inv (snd (check_removed_users env q g us k w))"
  by (induction us) (auto intro!: keep_guarded)

lemma keep_check_group_users:
  assumes "Inv w" and "GroupByKey (identity_in w) key = Some g"
    and "(users \<noteq> None \<Longrightarrow> joinable (identity_in w) (ag_key g)) \<Longrightarrow> Inv (snd (k w))"
  shows "Inv (snd (check_group_users env q g users k w))"
proof (cases users)
  case None
  then show ?thesis using assms(3) by (simp add: check_group_users_def)
next
  case (Some us)
  have "Inv (snd (k w))" if "contents_check env q g (identity_in w) = None"
    using that assms checked_contents GroupByKey_member by blast
  then show ?thesis unfolding check_group_users_def Some Let_def using assms(1)
    by (auto intro!: keep_guarded keep_require keep_check_added_users keep_check_removed_users)
qed

lemma keep_replace_group_users:
  assumes "Inv w" and "users \<noteq> None \<Longrightarrow> joinable (identity_in w) (ag_key g)"
    and "\<And>v. Inv v \<Longrightarrow> same_groups (identity_in w) (identity_in v) \<Longrightarrow> Inv (snd (k v))"
  shows "Inv (snd (replace_group_users env q g users k w))"
proof (cases users)
  case None
  then show ?thesis using assms(3) [OF assms(1) same_groups_refl] by (simp add: replace_group_users_def)
next
  case (Some us)
  then show ?thesis unfolding replace_group_users_def Let_def Some option.case
    by (intro keep_require keep_add_members keep_remove_members assms) (use Some same_groups_trans in auto)
qed

lemma keep_group_contents:
  assumes "Inv w" and "group_open strong i (identity_in w)"
    and "\<And>x. x \<in> set (case keys of None \<Rightarrow> [] | Some ks \<Rightarrow> ks) \<Longrightarrow> trim_space x \<noteq> [] \<Longrightarrow> grantable (trim_space x)"
    and "\<And>x. x \<in> set (case ids of None \<Rightarrow> [] | Some cs \<Rightarrow> cs) \<Longrightarrow> connectable x"
    and k: "\<And>v. Inv v \<Longrightarrow> Inv (snd (k v))"
  shows "Inv (snd (replace_group_permissions env i keys (replace_group_connections env i ids k) w))"
proof -
  have conns: "Inv (snd (replace_group_connections env i ids k v))" if "Inv v" "group_open strong i (identity_in v)" for v
    using assms(4) that k by (cases ids) (auto simp: replace_group_connections_def intro!: keep_replace_connections)
  show ?thesis
    using assms(1-3) conns by (cases keys) (auto simp: replace_group_permissions_def intro!: keep_replace_permissions)
qed

lemma keep_group_update:
  assumes w: "Inv w" "group_open strong (ag_id g) (identity_in w)" "g \<in> set (i_groups (identity_in w))"
    and "users \<noteq> None \<Longrightarrow> joinable (identity_in w) (ag_key g)"
    and "\<And>x. x \<in> set (case keys of None \<Rightarrow> [] | Some ks \<Rightarrow> ks) \<Longrightarrow> trim_space x \<noteq> [] \<Longrightarrow> grantable (trim_space x)"
    and "\<And>x. x \<in> set (case ids of None \<Rightarrow> [] | Some cs \<Rightarrow> cs) \<Longrightarrow> connectable x"
    and "\<And>v. Inv v \<Longrightarrow> Inv (snd (k v))"
  shows "Inv (snd (try_identity b msg (\<lambda>db. or_failed (UpdateGroup (ag_id g) (ag_key g) n d db))
    (replace_group_users env q g users (replace_group_permissions env (ag_id g) keys (replace_group_connections env (ag_id g) ids k))) w))"
proof (rule keep_try [OF w(1)])
  fix db' assume "or_failed (UpdateGroup (ag_id g) (ag_key g) n d (identity_in w)) = (None, db')"
  then have u: "UpdateGroup (ag_id g) (ag_key g) n d (identity_in w) = (True, db')" by (simp add: or_failed_None)
  note step = group_renamed [OF w u]
  have db: "identity_in (set_identity db' w) = db'" using UpdateGroup_users [OF u] by (rule identity_in_set_identity)
  have "group_open strong (ag_id g) (identity_in v)" if "same_groups db' (identity_in v)" for v
    using that step w(2) same_groups_open same_groups_trans by blast
  then show "Inv (snd (replace_group_users env q g users
      (replace_group_permissions env (ag_id g) keys (replace_group_connections env (ag_id g) ids k)) (set_identity db' w)))"
    using step db assms(4) same_joinable by (intro keep_replace_group_users keep_group_contents assms(5-7)) auto
qed

lemma keep_GroupPatch: "Inv w \<Longrightarrow> Inv (snd (GroupPatch env q key body w))"
  unfolding GroupPatch_def
  by (intro keep_with_group keep_value keep_require keep_guarded keep_check_group_users [where key = key]
      keep_check_group_permissions keep_check_group_connections keep_group_update keep_reload_group keep_done)
    (auto dest: GroupByKey_member intro: group_openI)

lemma keep_GroupDelete: "Inv w \<Longrightarrow> Inv (snd (GroupDelete env q key w))"
  unfolding GroupDelete_def
  by (intro keep) (auto intro!: group_deleted simp: group_open_def dest!: GroupByKey_member)

lemma keep_loadMutable:
  "Inv w \<Longrightarrow> (\<And>g. group_open strong (ag_id g) (identity_in w) \<Longrightarrow> Inv (snd (k g w))) \<Longrightarrow> Inv (snd (loadMutableAuthGroup env q key k w))"
  unfolding loadMutableAuthGroup_def by (intro keep_with_group keep_guarded) (auto intro: group_openI)

lemma keep_group_grants:
  assumes "Inv w"
  shows "Inv (snd (GroupAddPermission env q key p w))" "Inv (snd (GroupRemovePermission env q key p' w))"
    "Inv (snd (GroupAddDBConnection env q key c w))" "Inv (snd (GroupRemoveDBConnection env q key c' w))"
proof -
  show "Inv (snd (GroupAddPermission env q key p w))" unfolding GroupAddPermission_def using assms
    by (intro keep_loadMutable keep) (auto simp: or_no_rows_None
        intro!: group_permissions_changed added_permission_rows(2) intro: permitted_key checked_permission)
  show "Inv (snd (GroupRemovePermission env q key p' w))" unfolding GroupRemovePermission_def using assms
    by (intro keep_loadMutable keep) (auto intro!: group_permissions_changed removed_rows)
  show "Inv (snd (GroupAddDBConnection env q key c w))" unfolding GroupAddDBConnection_def using assms
    by (intro keep_loadMutable keep) (auto intro!: group_connections_changed added_connection_rows intro: checked_connection)
  show "Inv (snd (GroupRemoveDBConnection env q key c' w))" unfolding GroupRemoveDBConnection_def using assms
    by (intro keep_loadMutable keep) (auto intro!: group_connections_changed removed_rows)
qed

lemma handle_admin_keeps: "Inv w \<Longrightarrow> Inv (snd (handle_admin env q call w))"
  by (cases call) (simp_all add: keep_UserCreate keep_UserRevokeSession keep_UserRevokeSessions keep_UserResetMFA
    keep_UserAddMembership keep_UserPatch keep_UserDelete keep_UserRemoveMembership keep_UserAddDirectPermission
    keep_UserRemoveDirectPermission keep_UserAddDirectDBConnection keep_UserRemoveDirectDBConnection
    keep_GroupCreate keep_GroupPatch keep_GroupDelete keep_group_grants)

end

end
