(* ===== verification/Administration_Bounds.thy ===== *)
theory Administration_Bounds
  imports Administration_Laws
begin

text \<open>
  The tables keep the bounds of a request: the checks, every write of the administration handlers, and the
  interpretation of the interface \<open>granting\<close> with them. Then the properties of the administration of users
  and groups, for one request and for sequences of requests.
\<close>

section \<open>The invariant of a request\<close>

definition admin_inv :: "admin_caller \<Rightarrow> admin_world \<Rightarrow> admin_world \<Rightarrow> bool" where
  "admin_inv q w0 w \<longleftrightarrow> admin_wf (vw_db w) \<and> bounded_by q (identity_in w0) (identity_in w) \<and>
     (HasAllPermissions (vq_now q) (identity_in w0) (vq_actor q) \<or>
      protected_accounts (vw_db w) = protected_accounts (vw_db w0) \<and>
      protected_groups (identity_in w) = protected_groups (identity_in w0))"

abbreviation strong_caller :: "admin_caller \<Rightarrow> admin_world \<Rightarrow> bool" where
  "strong_caller q w0 \<equiv> HasAllPermissions (vq_now q) (identity_in w0) (vq_actor q)"

definition permitted_to :: "admin_caller \<Rightarrow> identity \<Rightarrow> id64 \<Rightarrow> bool" where
  "permitted_to q db0 x \<longleftrightarrow> (\<forall>p \<in> set (i_permissions db0). p_id p = x \<longrightarrow> may_grant q db0 (p_key p))"

lemma groups_wf_in [simp]: "groups_wf (identity_in w) = groups_wf (ad_identity (vw_db w))"
  by (simp add: groups_wf_def identity_in_def identity_of_def)

lemma identity_in_simps [simp]:
  "i_groups (identity_in w) = i_groups (ad_identity (vw_db w))"
  "i_permissions (identity_in w) = i_permissions (ad_identity (vw_db w))"
  "i_connections (identity_in w) = i_connections (ad_identity (vw_db w))"
  "i_user_permissions (identity_in w) = i_user_permissions (ad_identity (vw_db w))"
  "i_user_connections (identity_in w) = i_user_connections (ad_identity (vw_db w))"
  "i_group_permissions (identity_in w) = i_group_permissions (ad_identity (vw_db w))"
  "i_group_connections (identity_in w) = i_group_connections (ad_identity (vw_db w))"
  by (simp_all add: identity_in_def identity_of_def)

lemma admin_inv_start: "admin_wf (vw_db w) \<Longrightarrow> admin_inv q w w"
  by (simp add: admin_inv_def bounded_by_refl)

lemma admin_inv_tables: "admin_inv q w0 w \<Longrightarrow> i_permissions (identity_in w) = i_permissions (identity_in w0) \<and>
    i_connections (identity_in w) = i_connections (identity_in w0) \<and> groups_wf (identity_in w)"
  by (simp add: admin_inv_def bounded_by_def admin_wf_def)

lemma identity_step:
  assumes inv: "admin_inv q w0 w" and same: "i_users db' = i_users (identity_in w)" and wf: "groups_wf db'"
    and st: "table_step q (identity_in w0) (identity_in w) db'"
    and prot: "\<not> strong_caller q w0 \<Longrightarrow> protected_groups db' = protected_groups (identity_in w) \<and>
       filter (\<lambda>r. fst r \<in> set (protected_ids (vw_db w))) (i_user_permissions db') =
       filter (\<lambda>r. fst r \<in> set (protected_ids (vw_db w))) (i_user_permissions (ad_identity (vw_db w))) \<and>
       filter (\<lambda>r. fst r \<in> set (protected_ids (vw_db w))) (i_user_connections db') =
       filter (\<lambda>r. fst r \<in> set (protected_ids (vw_db w))) (i_user_connections (ad_identity (vw_db w)))"
  shows "admin_inv q w0 (set_identity db' w)"
proof -
  have db: "identity_in (set_identity db' w) = db'" using same by (rule identity_in_set_identity)
  have "admin_wf (vw_db (set_identity db' w))"
    using inv wf by (simp add: admin_inv_def admin_wf_def accounts_wf_def set_identity_def groups_wf_def)
  moreover have "bounded_by q (identity_in w0) db'" using inv st bounded_step unfolding admin_inv_def by blast
  moreover have "strong_caller q w0 \<or> protected_accounts (vw_db (set_identity db' w)) = protected_accounts (vw_db w)"
    using prot by (auto simp: protected_accounts_def protected_ids_def set_identity_def)
  ultimately show ?thesis using inv prot unfolding admin_inv_def db by metis
qed

lemma account_step:
  assumes inv: "admin_inv q w0 w" and wf: "accounts_wf adb" "groups_wf (ad_identity adb)"
    and st: "table_step q (identity_in w0) (identity_in w) (identity_of adb)"
    and prot: "\<not> strong_caller q w0 \<Longrightarrow> protected_accounts adb = protected_accounts (vw_db w) \<and>
       protected_groups (identity_of adb) = protected_groups (identity_in w)"
  shows "admin_inv q w0 (set_admin_db adb w)"
proof -
  have db: "identity_in (set_admin_db adb w) = identity_of adb" by (simp add: identity_in_def)
  have "bounded_by q (identity_in w0) (identity_of adb)" using inv st bounded_step unfolding admin_inv_def by blast
  then show ?thesis using inv wf prot unfolding admin_inv_def db admin_wf_def by auto
qed

text \<open>The checks.\<close>

lemma inv_has_all: "admin_inv q w0 w \<Longrightarrow> requireAllPermissionsAdmin env (vq_now q) (identity_in w) (vq_actor q) = None \<Longrightarrow> strong_caller q w0"
  unfolding admin_inv_def requireAllPermissionsAdmin_def by (auto split: if_splits dest: bounded_has_all)

lemma inv_protected_check:
  "admin_inv q w0 w \<Longrightarrow> protected_check env q a (identity_in w) = None \<Longrightarrow> u_is_protected a \<Longrightarrow> strong_caller q w0"
  unfolding protected_check_def requireProtectedUserAdmin_def
  by (auto simp: user.truncate_def split: if_splits intro: inv_has_all)

lemma inv_guarded_group:
  "admin_inv q w0 w \<Longrightarrow> mutation_check env q (Some g) (identity_in w) = None \<Longrightarrow> guarded_group g \<Longrightarrow> strong_caller q w0"
  unfolding mutation_check_def requireAuthGroupMutationAllowed_def by (auto split: if_splits intro: inv_has_all)

lemma inv_permission_check:
  assumes "admin_inv q w0 w" and "permission_check env q k (identity_in w) = None"
  shows "may_grant q (identity_in w0) k"
proof -
  have "HasAllPermissions (vq_now q) (identity_in w) (vq_actor q) \<or>
      k \<in> set (GetEffectivePermissionKeys (vq_now q) (identity_in w) (vq_actor q))"
    using assms(2) unfolding permission_check_def requirePermissionGrantAllowed_def by (auto simp: list_ex_iff split: if_splits)
  then show ?thesis using assms(1) bounded_has_all bounded_permission may_grant_all unfolding admin_inv_def by blast
qed

lemma inv_connection_check:
  assumes "admin_inv q w0 w" and "connection_check env q c (identity_in w) = None"
  shows "may_connect q (identity_in w0) c"
proof -
  have "HasAllPermissions (vq_now q) (identity_in w) (vq_actor q) \<or>
      c \<in> set (GetEffectiveDBConnectionIDs (vq_now q) (identity_in w) (vq_actor q))"
    using assms(2) unfolding connection_check_def requireDBConnectionGrantAllowed_def by (auto simp: list_ex_iff split: if_splits)
  then show ?thesis using assms(1) bounded_has_all bounded_connection may_grant_all unfolding admin_inv_def by blast
qed

lemma first_error_None: "first_error check xs = None \<longleftrightarrow> (\<forall>x \<in> set xs. check x = None)"
  by (induction xs) (auto split: option.split)

lemma inv_contents_check:
  assumes inv: "admin_inv q w0 w" and g: "GroupByKey (identity_in w) k = Some g"
    and ok: "contents_check env q g (identity_in w) = None"
  shows "group_within q (identity_in w0) (identity_in w) k"
proof -
  let ?db = "identity_in w"
  have grant: "requireAuthGroupGrantAllowed env (vq_now q) ?db (vq_actor q) g = None"
    and all: "HasAllPermissions (vq_now q) ?db (vq_actor q) \<or>
      (\<forall>key \<in> set (ListPermissionKeys ?db (ag_id g)). permission_check env q key ?db = None) \<and>
      (\<forall>c \<in> set (ListDBConnectionIDs ?db (ag_id g)). connection_check env q c ?db = None)"
    using ok unfolding contents_check_def requireAuthGroupContentsGrantAllowed_def
    by (auto simp: first_error_None permission_check_def connection_check_def split: option.splits if_splits)
  have "ag_all_permissions g \<Longrightarrow> strong_caller q w0"
    using grant inv_has_all [OF inv] unfolding requireAuthGroupGrantAllowed_def guarded_group_def by (auto split: if_splits)
  moreover have "p_key p \<in> set (ListPermissionKeys ?db (ag_id g))"
    if "p \<in> set (i_permissions ?db)" "(ag_id g, p_id p) \<in> set (i_group_permissions ?db)" for p
    using that unfolding ListPermissionKeys_def in_query by force
  moreover have "c \<in> set (ListDBConnectionIDs ?db (ag_id g))" if "(ag_id g, c) \<in> set (i_group_connections ?db)" for c
    using that unfolding ListDBConnectionIDs_def in_query by force
  moreover have "h = g" if "h \<in> set (i_groups ?db)" "ag_key h = k" for h
    using that GroupByKey_member [OF g] admin_inv_tables [OF inv] by (auto simp: groups_wf_def distinct_map inj_on_def)
  moreover have "HasAllPermissions (vq_now q) ?db (vq_actor q) \<Longrightarrow> strong_caller q w0"
    using inv bounded_has_all unfolding admin_inv_def by blast
  ultimately show ?thesis
    using all inv_permission_check [OF inv] inv_connection_check [OF inv] unfolding group_within_def by metis
qed

lemma same_group_within: 
  assumes "same_groups db db'" and "group_within q db0 db k"
  shows "group_within q db0 db' k"
proof -
  let ?f = "\<lambda>g. (ag_id g, ag_key g, ag_all_permissions g, ag_is_protected g)"
  have "\<exists>h \<in> set (i_groups db). ag_id h = ag_id g \<and> ag_key h = ag_key g \<and> ag_all_permissions h = ag_all_permissions g"
    if "g \<in> set (i_groups db')" for g
  proof -
    have "?f g \<in> set (map ?f (i_groups db'))" using that by simp
    then have "?f g \<in> set (map ?f (i_groups db))" using assms(1) by (simp only: same_groups_def)
    then show ?thesis by auto
  qed
  then show ?thesis using assms unfolding group_within_def same_groups_def by metis
qed

section \<open>The writes\<close>

lemma protected_open: "account_open False i db \<Longrightarrow> accounts_wf db \<Longrightarrow> i \<notin> set (protected_ids db)"
  unfolding account_open_def GetAccount_def protected_ids_def accounts_wf_def
  by (auto simp: find_key_Some_iff distinct_map inj_on_def)

lemma filter_of_others:
  assumes "filter (\<lambda>r. f r \<noteq> i) xs = filter (\<lambda>r. f r \<noteq> i) ys" and "i \<notin> P"
  shows "filter (\<lambda>r. f r \<in> P) xs = filter (\<lambda>r. f r \<in> P) ys"
proof -
  have "filter (\<lambda>r. f r \<in> P) zs = filter (\<lambda>r. f r \<in> P) (filter (\<lambda>r. f r \<noteq> i) zs)" for zs
    using assms(2) by (auto intro!: filter_cong)
  then show ?thesis using assms(1) by metis
qed

lemma GetByID_identity_of: "GetByID (identity_of db) v = map_option user.truncate (GetAccount db v)"
proof -
  have "find (\<lambda>r. u_id r = v) (map user.truncate rows) = map_option user.truncate (find (\<lambda>a. u_id a = v) rows)" for rows :: "account list"
    by (induction rows) (auto simp: user.truncate_def)
  then show ?thesis by (simp add: GetByID_def GetAccount_def identity_of_def)
qed

lemma truncate_protected [simp]: "u_is_protected (user.truncate a) = u_is_protected a"
  by (simp add: user.truncate_def)

text \<open>A change of accounts only.\<close>

lemma table_step_accounts:
  assumes "ad_identity adb = ad_identity (vw_db w)"
    and "\<And>v a. GetAccount adb v = Some a \<Longrightarrow> u_is_protected a \<Longrightarrow> \<exists>a'. GetAccount (vw_db w) v = Some a' \<and> u_is_protected a'"
  shows "table_step q db0 (identity_in w) (identity_of adb)"
proof -
  have "\<exists>r'. GetByID (identity_in w) v = Some r' \<and> u_is_protected r'" if "GetByID (identity_of adb) v = Some r" "u_is_protected r" for v r
    using that assms(2) [of v] unfolding identity_in_def GetByID_identity_of by auto
  moreover have "identity_of adb = (identity_in w)\<lparr>i_users := i_users (identity_of adb)\<rparr>"
    using assms(1) by (simp add: identity_of_def identity_in_def)
  then obtain us where "identity_of adb = (identity_in w)\<lparr>i_users := us\<rparr>" by blast
  ultimately show ?thesis unfolding table_step_def member_by_id_def member_by_key_def by auto
qed

lemma protected_update:
  assumes "\<And>a. u_is_protected (f a) = u_is_protected a" and "\<And>a. a \<in> set rows \<Longrightarrow> u_is_protected a \<Longrightarrow> \<not> P a"
  shows "filter u_is_protected (update_where P f rows) = filter u_is_protected (rows :: account list)"
  using assms(2) by (induction rows) (auto simp: update_where_def assms(1))

lemma protected_accounts_touched:
  assumes "touches_account i db adb" and "i \<notin> set (protected_ids db)"
  shows "protected_accounts adb = protected_accounts db"
proof -
  obtain f where f: "\<And>a. u_is_protected (f a) = u_is_protected a" "ad_accounts adb = update_where (\<lambda>a. u_id a = i) f (ad_accounts db)"
    using assms(1) unfolding touches_account_def by blast
  have rows: "filter u_is_protected (ad_accounts adb) = filter u_is_protected (ad_accounts db)"
    unfolding f(2) using assms(2) by (intro protected_update f(1)) (auto simp: protected_ids_def)
  then have ids: "protected_ids adb = protected_ids db" by (simp add: protected_ids_def)
  have "filter (\<lambda>s. se_user s \<in> set (protected_ids db)) (ad_sessions adb) = filter (\<lambda>s. se_user s \<in> set (protected_ids db)) (ad_sessions db)"
    using assms unfolding touches_account_def by (intro filter_of_others [where i = i]) auto
  then show ?thesis using assms(1) rows ids by (simp add: protected_accounts_def touches_account_def)
qed

lemma inv_touched:
  assumes inv: "admin_inv q w0 w" and op: "account_open (strong_caller q w0) i (vw_db w)"
    and t: "touches_account i (vw_db w) adb"
  shows "admin_inv q w0 (set_admin_db adb w)"
proof (rule account_step [OF inv])
  obtain f where f: "\<And>a. u_id (f a) = u_id a" "\<And>a. u_is_protected (f a) = u_is_protected a"
      "ad_accounts adb = update_where (\<lambda>a. u_id a = i) f (ad_accounts (vw_db w))"
    and same: "ad_identity adb = ad_identity (vw_db w)" "ad_next_account adb = ad_next_account (vw_db w)"
    using t unfolding touches_account_def by blast
  have wf: "accounts_wf (vw_db w)" "groups_wf (ad_identity (vw_db w))" using inv by (simp_all add: admin_inv_def admin_wf_def)
  show "accounts_wf adb" using wf(1) f same(2)
    by (simp add: accounts_wf_def update_where_key list_all_iff) (auto simp: set_update_where)
  show "groups_wf (ad_identity adb)" using wf(2) same(1) by simp
  have "GetAccount adb v = map_option (\<lambda>a. if u_id a = i then f a else a) (GetAccount (vw_db w) v)" for v
    using find_update_where [of u_id f] f by (simp add: GetAccount_def)
  then show "table_step q (identity_in w0) (identity_in w) (identity_of adb)"
    using same(1) f(2) by (intro table_step_accounts) (auto split: if_splits)
  show "protected_accounts adb = protected_accounts (vw_db w) \<and> protected_groups (identity_of adb) = protected_groups (identity_in w)"
    if "\<not> strong_caller q w0"
    using protected_accounts_touched [OF t protected_open] op wf(1) that same(1)
    by (simp add: protected_groups_def protected_group_ids_def identity_of_def)
qed

lemma find_in_append: "find P (xs @ ys) = (case find P xs of None \<Rightarrow> find P ys | Some x \<Rightarrow> Some x)"
  by (induction xs) auto

lemma inv_created:
  assumes inv: "admin_inv q w0 w" and c: "CreateUser now n e r t u h False (vw_db w) = (Some i, adb)"
  shows "admin_inv q w0 (set_admin_db adb w)"
proof (rule account_step [OF inv])
  have wf: "accounts_wf (vw_db w)" "groups_wf (ad_identity (vw_db w))" using inv by (simp_all add: admin_inv_def admin_wf_def)
  define a where "a = (default_account now (ad_next_account (vw_db w)) n e h)\<lparr>ac_lark_recipient := trim_space r,
    ac_lark_recipient_type := normalizeLarkRecipientType t, ac_lark_union_id := trim_space u, u_is_protected := False\<rparr>"
  have a: "u_id a = ad_next_account (vw_db w)" "\<not> u_is_protected a" by (simp_all add: a_def default_account_def)
  have adb: "adb = (vw_db w)\<lparr>ad_accounts := ad_accounts (vw_db w) @ [a], ad_next_account := u_id a + 1\<rparr>"
    using c unfolding CreateUser_def a_def [symmetric] insert_account_def by (auto split: if_splits)
  show "accounts_wf adb" using wf(1) a by (fastforce simp: accounts_wf_def adb list_all_iff less_Suc_eq)
  show "groups_wf (ad_identity adb)" using wf(2) by (simp add: adb)
  show "table_step q (identity_in w0) (identity_in w) (identity_of adb)"
    using a(2) by (intro table_step_accounts) (auto simp: adb GetAccount_def find_in_append split: option.splits if_splits)
  show "protected_accounts adb = protected_accounts (vw_db w) \<and> protected_groups (identity_of adb) = protected_groups (identity_in w)"
    if "\<not> strong_caller q w0"
    using a(2) by (simp add: adb protected_accounts_def protected_ids_def protected_groups_def protected_group_ids_def identity_of_def)
qed

lemma find_delete_where:
  "find (\<lambda>r. k r = v) (delete_where (\<lambda>r. k r = i) rows) = (if v = i then None else find (\<lambda>r. k r = v) rows)"
  by (induction rows) (auto simp: delete_where_def)

lemma inv_deleted:
  assumes inv: "admin_inv q w0 w" and op: "account_open False i (vw_db w)"
  shows "admin_inv q w0 (set_admin_db (DeleteUser i (vw_db w)) w)"
proof (rule account_step [OF inv])
  have wf: "accounts_wf (vw_db w)" "groups_wf (ad_identity (vw_db w))" using inv by (simp_all add: admin_inv_def admin_wf_def)
  note free = protected_open [OF op wf(1)]
  show "accounts_wf (DeleteUser i (vw_db w))" using wf(1)
    by (auto simp: accounts_wf_def DeleteUser_def delete_where_def list_all_iff distinct_map inj_on_def)
  show "groups_wf (ad_identity (DeleteUser i (vw_db w)))" using wf(2) by (simp add: DeleteUser_def groups_wf_def)
  have users: "\<exists>r'. GetByID (identity_in w) v = Some r' \<and> u_is_protected r'"
    if "GetByID (identity_of (DeleteUser i (vw_db w))) v = Some r" "u_is_protected r" for v r
    using that unfolding identity_in_def GetByID_identity_of
    by (auto simp: DeleteUser_def GetAccount_def find_delete_where split: if_splits)
  then show "table_step q (identity_in w0) (identity_in w) (identity_of (DeleteUser i (vw_db w)))"
    unfolding table_step_def identity_of_def identity_in_def DeleteUser_def member_by_id_def member_by_key_def
    by (auto simp: list_ex_iff)
  have "filter u_is_protected (delete_where (\<lambda>a. u_id a = i) (ad_accounts (vw_db w))) = filter u_is_protected (ad_accounts (vw_db w))"
    using free by (auto simp: delete_where_def protected_ids_def intro!: filter_cong)
  moreover have "filter (\<lambda>s. se_user s \<in> set (protected_ids (vw_db w))) (delete_where (\<lambda>s. se_user s = i) (ad_sessions (vw_db w))) =
      filter (\<lambda>s. se_user s \<in> set (protected_ids (vw_db w))) (ad_sessions (vw_db w))"
    using free by (auto simp: delete_where_def intro!: filter_cong)
  ultimately show "protected_accounts (DeleteUser i (vw_db w)) = protected_accounts (vw_db w) \<and>
      protected_groups (identity_of (DeleteUser i (vw_db w))) = protected_groups (identity_in w)"
    by (simp add: protected_accounts_def protected_ids_def DeleteUser_def protected_groups_def protected_group_ids_def identity_of_def)
qed

lemma inv_members:
  assumes inv: "admin_inv q w0 w"
    and c: "changes_members (vq_now q) (group_within q (identity_in w0) (identity_in w)) (identity_in w) db'"
  shows "admin_inv q w0 (set_identity db' w)"
proof (rule identity_step [OF inv])
  from c obtain ms us where db': "db' = (identity_in w)\<lparr>i_memberships := ms, i_user_groups := us\<rparr>"
    unfolding changes_members_def by blast
  have "groups_wf (identity_in w)" using inv by (simp add: admin_inv_def admin_wf_def)
  then show "groups_wf db'" by (simp add: db' groups_wf_def)
  show "i_users db' = i_users (identity_in w)" by (simp add: db')
  show "table_step q (identity_in w0) (identity_in w) db'"
    using c unfolding changes_members_def table_step_def by (auto simp: db' GetByID_def)
qed (use c in \<open>auto simp: changes_members_def protected_groups_def protected_group_ids_def dest!: arg_cong [where f = "\<lambda>d. (i_groups d, i_group_permissions d, i_group_connections d, i_user_permissions d, i_user_connections d)"]\<close>)

lemma permitted_rows:
  assumes "admin_inv q w0 w" and "permitted_to q (identity_in w0) x" and "r \<in> set (i_permissions (identity_in w))" and "p_id r = x"
  shows "may_grant q (identity_in w0) (p_key r)"
  using assms admin_inv_tables [OF assms(1)] unfolding permitted_to_def by metis

lemma protected_rows:
  assumes "admin_inv q w0 w" and "account_open (strong_caller q w0) i (vw_db w)" and "changes_rows i ok rows rows'"
    and "\<not> strong_caller q w0"
  shows "filter (\<lambda>r. fst r \<in> set (protected_ids (vw_db w))) rows' = filter (\<lambda>r. fst r \<in> set (protected_ids (vw_db w))) rows"
  using assms protected_open unfolding changes_rows_def admin_inv_def admin_wf_def by (intro filter_of_others [where i = i]) auto

lemma inv_user_permissions:
  assumes inv: "admin_inv q w0 w" and op: "account_open (strong_caller q w0) i (vw_db w)"
    and st: "rows_step i_user_permissions i_user_permissions_update i (permitted_to q (identity_in w0)) (identity_in w) db'"
  shows "admin_inv q w0 (set_identity db' w)"
proof -
  from st obtain rows where db': "db' = (identity_in w)\<lparr>i_user_permissions := rows\<rparr>" unfolding rows_step_def by blast
  have rows: "changes_rows i (permitted_to q (identity_in w0)) (i_user_permissions (ad_identity (vw_db w))) rows"
    using st by (simp add: rows_step_def db')
  have "groups_wf (identity_in w)" using admin_inv_tables [OF inv] by blast
  then have "groups_wf db'" by (simp add: db' groups_wf_def)
  moreover have "table_step q (identity_in w0) (identity_in w) db'"
    using rows permitted_rows [OF inv] unfolding table_step_def changes_rows_def
    by (auto simp: db' GetByID_def member_by_id_def member_by_key_def)
  ultimately show ?thesis using protected_rows [OF inv op rows]
    by (intro identity_step [OF inv]) (auto simp: db' protected_groups_def protected_group_ids_def)
qed

lemma inv_user_connections:
  assumes inv: "admin_inv q w0 w" and op: "account_open (strong_caller q w0) i (vw_db w)"
    and st: "rows_step i_user_connections i_user_connections_update i (may_connect q (identity_in w0)) (identity_in w) db'"
  shows "admin_inv q w0 (set_identity db' w)"
proof -
  from st obtain rows where db': "db' = (identity_in w)\<lparr>i_user_connections := rows\<rparr>" unfolding rows_step_def by blast
  have rows: "changes_rows i (may_connect q (identity_in w0)) (i_user_connections (ad_identity (vw_db w))) rows"
    using st by (simp add: rows_step_def db')
  have "groups_wf (identity_in w)" using admin_inv_tables [OF inv] by blast
  then have "groups_wf db'" by (simp add: db' groups_wf_def)
  moreover have "table_step q (identity_in w0) (identity_in w) db'"
    using rows unfolding table_step_def changes_rows_def by (auto simp: db' GetByID_def member_by_id_def member_by_key_def)
  ultimately show ?thesis using protected_rows [OF inv op rows]
    by (intro identity_step [OF inv]) (auto simp: db' protected_groups_def protected_group_ids_def)
qed

lemma protected_group_open:
  "group_open False i db \<Longrightarrow> distinct (map ag_id (i_groups db)) \<Longrightarrow> i \<notin> set (protected_group_ids db)"
  unfolding group_open_def protected_group_ids_def by (auto simp: distinct_map inj_on_def)

lemma protected_group_rows:
  assumes "admin_inv q w0 w" and "group_open (strong_caller q w0) i (identity_in w)" and "changes_rows i ok rows rows'"
    and "\<not> strong_caller q w0"
  shows "filter (\<lambda>r. fst r \<in> set (protected_group_ids (identity_in w))) rows' =
    filter (\<lambda>r. fst r \<in> set (protected_group_ids (identity_in w))) rows"
  using assms protected_group_open [of i "identity_in w"] admin_inv_tables [OF assms(1)]
  unfolding changes_rows_def groups_wf_def by (intro filter_of_others [where i = i]) auto

lemma new_rows_below:
  assumes "groups_wf db" and "group_open s i db" and "changes_rows i ok rows rows'" and "list_all (\<lambda>r. fst r < i_next_group db) rows"
  shows "list_all (\<lambda>r. fst r < i_next_group db) rows'"
proof -
  have "i < i_next_group db" using assms(1,2) by (auto simp: groups_wf_def group_open_def list_all_iff)
  moreover have "r \<in> set rows \<or> fst r = i" if "r \<in> set rows'" for r
    using assms(3) that unfolding changes_rows_def by (cases r) auto
  ultimately show ?thesis using assms(4) by (auto simp: list_all_iff)
qed

lemma inv_group_permissions:
  assumes inv: "admin_inv q w0 w" and op: "group_open (strong_caller q w0) i (identity_in w)"
    and st: "rows_step i_group_permissions i_group_permissions_update i (permitted_to q (identity_in w0)) (identity_in w) db'"
  shows "admin_inv q w0 (set_identity db' w)"
proof -
  from st obtain rows where db': "db' = (identity_in w)\<lparr>i_group_permissions := rows\<rparr>" unfolding rows_step_def by blast
  have rows: "changes_rows i (permitted_to q (identity_in w0)) (i_group_permissions (identity_in w)) rows"
    using st by (simp add: rows_step_def db')
  have wf: "groups_wf (identity_in w)" using admin_inv_tables [OF inv] by blast
  then have "groups_wf db'" using new_rows_below [OF wf op rows] unfolding groups_wf_def db' by simp
  moreover have "table_step q (identity_in w0) (identity_in w) db'"
    using rows permitted_rows [OF inv] unfolding table_step_def changes_rows_def
    by (auto simp: db' GetByID_def member_by_id_def member_by_key_def)
  ultimately show ?thesis using protected_group_rows [OF inv op rows]
    by (intro identity_step [OF inv]) (auto simp: db' protected_groups_def protected_group_ids_def)
qed

lemma inv_group_connections:
  assumes inv: "admin_inv q w0 w" and op: "group_open (strong_caller q w0) i (identity_in w)"
    and st: "rows_step i_group_connections i_group_connections_update i (may_connect q (identity_in w0)) (identity_in w) db'"
  shows "admin_inv q w0 (set_identity db' w)"
proof -
  from st obtain rows where db': "db' = (identity_in w)\<lparr>i_group_connections := rows\<rparr>" unfolding rows_step_def by blast
  have rows: "changes_rows i (may_connect q (identity_in w0)) (i_group_connections (identity_in w)) rows"
    using st by (simp add: rows_step_def db')
  have wf: "groups_wf (identity_in w)" using admin_inv_tables [OF inv] by blast
  then have "groups_wf db'" using new_rows_below [OF wf op rows] unfolding groups_wf_def db' by simp
  moreover have "table_step q (identity_in w0) (identity_in w) db'"
    using rows unfolding table_step_def changes_rows_def by (auto simp: db' GetByID_def member_by_id_def member_by_key_def)
  ultimately show ?thesis using protected_group_rows [OF inv op rows]
    by (intro identity_step [OF inv]) (auto simp: db' protected_groups_def protected_group_ids_def)
qed

lemma inv_group_created:
  assumes inv: "admin_inv q w0 w" and c: "CreateGroup k n d s False (identity_in w) = (Some g, db')"
  shows "admin_inv q w0 (set_identity db' w) \<and> group_within q (identity_in w0) db' k"
proof
  have wf: "groups_wf (identity_in w)" using admin_inv_tables [OF inv] by blast
  have g: "ag_id g = i_next_group (identity_in w)" "ag_key g = k" "\<not> ag_all_permissions g" "\<not> ag_is_protected g"
    and fresh: "\<forall>h \<in> set (i_groups (identity_in w)). ag_key h \<noteq> k"
    and db': "db' = (identity_in w)\<lparr>i_groups := i_groups (identity_in w) @ [g], i_next_group := i_next_group (identity_in w) + 1\<rparr>"
    using c unfolding CreateGroup_def Let_def by (auto simp: list_ex_iff split: if_splits)
  have rows: "(ag_id g, x) \<notin> set (i_group_permissions (identity_in w))" "(ag_id g, x) \<notin> set (i_group_connections (identity_in w))" for x
    using wf g(1) by (auto simp: groups_wf_def list_all_iff)
  have "groups_wf db'" using wf g fresh unfolding groups_wf_def db' by (auto simp: list_all_iff less_Suc_eq)
  moreover have "table_step q (identity_in w0) (identity_in w) db'"
    using rows g(3) unfolding table_step_def by (auto simp: db' GetByID_def member_by_id_def member_by_key_def)
  moreover have "protected_groups db' = protected_groups (identity_in w)"
    using g(4) by (simp add: db' protected_groups_def protected_group_ids_def)
  ultimately show "admin_inv q w0 (set_identity db' w)"
    by (intro identity_step [OF inv]) (simp_all add: db')
  show "group_within q (identity_in w0) db' k"
    using fresh rows g(3) unfolding group_within_def db' by auto
qed

lemma inv_group_renamed:
  assumes inv: "admin_inv q w0 w" and op: "group_open (strong_caller q w0) (ag_id g) (identity_in w)"
    and g: "g \<in> set (i_groups (identity_in w))"
    and u: "UpdateGroup (ag_id g) (ag_key g) n d (identity_in w) = (True, db')"
  shows "admin_inv q w0 (set_identity db' w) \<and> same_groups (identity_in w) db'"
proof
  let ?f = "\<lambda>h. h\<lparr>ag_key := ag_key g, ag_name := n, ag_description := d\<rparr>" and ?gs = "i_groups (identity_in w)"
  let ?shape = "\<lambda>g. (ag_id g, ag_key g, ag_all_permissions g, ag_is_protected g)"
  have wf: "groups_wf (identity_in w)" using admin_inv_tables [OF inv] by blast
  have db': "db' = (identity_in w)\<lparr>i_groups := update_where (\<lambda>h. ag_id h = ag_id g) ?f ?gs\<rparr>"
    using u unfolding UpdateGroup_def by (auto split: if_splits)
  have "h = g" if "h \<in> set ?gs" "ag_id h = ag_id g" for h
    using that g wf by (auto simp: groups_wf_def distinct_map inj_on_def)
  then have shape: "map ?shape (i_groups db') = map ?shape ?gs" by (auto simp: db' update_where_def)
  then show same: "same_groups (identity_in w) db'" by (simp add: same_groups_def db')
  have keys: "map ag_id (i_groups db') = map ag_id ?gs" "map ag_key (i_groups db') = map ag_key ?gs"
    using arg_cong [OF shape, of "map fst"] arg_cong [OF shape, of "map (\<lambda>x. fst (snd x))"] by (simp_all add: comp_def)
  have below: "list_all (\<lambda>h. ag_id h < b) hs = list_all (\<lambda>x. x < b) (map ag_id hs)" for b hs by (simp add: list_all_iff)
  have "list_all (\<lambda>h. ag_id h < i_next_group (identity_in w)) (i_groups db')"
    using wf unfolding groups_wf_def below keys(1) by simp
  then have "groups_wf db'" using wf keys unfolding groups_wf_def by (simp add: db')
  moreover have "table_step q (identity_in w0) (identity_in w) db'"
  proof -
    have "\<exists>h \<in> set ?gs. ag_id h = ag_id h' \<and> ag_key h = ag_key h' \<and> ag_all_permissions h = ag_all_permissions h'"
      if "h' \<in> set (i_groups db')" for h'
    proof -
      have "?shape h' \<in> set (map ?shape (i_groups db'))" using that by simp
      then show ?thesis unfolding shape by auto
    qed
    then show ?thesis unfolding table_step_def by (auto simp: db' GetByID_def member_by_id_def member_by_key_def)
  qed
  moreover have "protected_groups db' = protected_groups (identity_in w)" if "\<not> strong_caller q w0"
  proof -
    have "ag_id g \<notin> set (protected_group_ids (identity_in w))"
      using protected_group_open [of "ag_id g" "identity_in w"] op that wf by (auto simp: groups_wf_def)
    then have "\<not> ag_is_protected h" if "h \<in> set ?gs" "ag_id h = ag_id g" for h
      using that unfolding protected_group_ids_def by (force simp: image_iff)
    then have "filter ag_is_protected (i_groups db') = filter ag_is_protected ?gs"
      unfolding db' by (simp add: update_where_def filter_map comp_def) (auto intro!: map_idI filter_cong simp: filter_map comp_def)
    then show ?thesis by (simp add: db' protected_groups_def protected_group_ids_def)
  qed
  ultimately show "admin_inv q w0 (set_identity db' w)" by (intro identity_step [OF inv]) (simp_all add: db')
qed

lemma inv_group_deleted:
  assumes inv: "admin_inv q w0 w" and op: "group_open False i (identity_in w)"
  shows "admin_inv q w0 (set_identity (DeleteGroup i (identity_in w)) w)"
proof -
  let ?db = "identity_in w" and ?db' = "DeleteGroup i (identity_in w)"
  have wf: "groups_wf ?db" using admin_inv_tables [OF inv] by blast
  then have "groups_wf ?db'"
    by (auto simp: groups_wf_def DeleteGroup_def delete_where_def list_all_iff distinct_map inj_on_def)
  moreover have "table_step q (identity_in w0) ?db ?db'"
    unfolding table_step_def DeleteGroup_def member_by_id_def member_by_key_def by (auto simp: GetByID_def list_ex_iff)
  moreover have "protected_groups ?db' = protected_groups ?db"
  proof -
    have free: "i \<notin> set (protected_group_ids ?db)" using protected_group_open [OF op] wf by (simp add: groups_wf_def)
    then have gs: "filter ag_is_protected (i_groups ?db') = filter ag_is_protected (i_groups ?db)"
      by (auto simp: DeleteGroup_def delete_where_def protected_group_ids_def intro!: filter_cong)
    then have ids: "protected_group_ids ?db' = protected_group_ids ?db" by (simp add: protected_group_ids_def)
    have "filter (\<lambda>r. fst r \<in> set (protected_group_ids ?db)) (delete_where (\<lambda>r. fst r = i) rows) =
        filter (\<lambda>r. fst r \<in> set (protected_group_ids ?db)) rows" for rows :: "(id64 \<times> id64) list"
      using free by (auto simp: delete_where_def intro!: filter_cong)
    then show ?thesis using gs ids by (simp add: protected_groups_def DeleteGroup_def)
  qed
  ultimately show ?thesis by (intro identity_step [OF inv]) (simp_all add: DeleteGroup_def)
qed

interpretation authority: granting env q "admin_inv q w0" "strong_caller q w0" "may_grant q (identity_in w0)"
    "permitted_to q (identity_in w0)" "may_connect q (identity_in w0)" "group_within q (identity_in w0)" for env q w0
proof (unfold_locales, goal_cases)
  case (1 w action actor resource)
  then show ?case by (simp add: admin_inv_def)
next
  case (2 w a)
  then show ?case by (rule inv_protected_check)
next
  case (3 w g)
  then show ?case using inv_guarded_group by (auto simp: guarded_group_def)
next
  case (4 w k)
  then show ?case by (rule inv_permission_check)
next
  case (5 w p)
  then have "p' = p" if "p' \<in> set (i_permissions (identity_in w0))" "p_id p' = p_id p" for p'
    using that admin_inv_tables [OF 5(1)] by (auto simp: groups_wf_def distinct_map inj_on_def)
  then show ?case using 5 unfolding permitted_to_def by auto
next
  case (6 w p)
  then show ?case using admin_inv_tables [OF 6(1)] by (auto simp: groups_wf_def list_all_iff)
next
  case (7 w c)
  then show ?case by (rule inv_connection_check)
next
  case (8 w)
  then show ?case using admin_inv_tables [OF 8] by (auto simp: groups_wf_def may_connect_def)
next
  case (9 w k g)
  then show ?case by (rule inv_contents_check)
next
  case (10 db db' k)
  then show ?case by (rule same_group_within)
qed (erule inv_created inv_touched inv_deleted inv_members inv_user_permissions inv_user_connections inv_group_created
     inv_group_renamed inv_group_deleted inv_group_permissions inv_group_connections; assumption)+

section \<open>Sequences of requests\<close>

type_synonym admin_request = "admin_env \<times> admin_caller \<times> admin_call"

fun admin_run :: "admin_request list \<Rightarrow> admin_world \<Rightarrow> admin_world" where
  "admin_run [] w = w"
| "admin_run ((env, q, call) # rest) w = admin_run rest (snd (handle_admin env q call w))"

abbreviation request_actors :: "admin_request list \<Rightarrow> id64 set" where
  "request_actors reqs \<equiv> (\<lambda>(env, q, call). vq_actor q) ` set reqs"

abbreviation request_times :: "admin_request list \<Rightarrow> timestamp list" where
  "request_times reqs \<equiv> map (\<lambda>(env, q, call). vq_now q) reqs"

lemma not_expired_earlier: "t \<le> t' \<Longrightarrow> not_expired t' e \<Longrightarrow> not_expired t e"
  by (auto simp: not_expired_def split: option.splits)

lemma member_earlier:
  "t \<le> t' \<Longrightarrow> member_by_id t' db v g \<Longrightarrow> member_by_id t db v g"
  "t \<le> t' \<Longrightarrow> member_by_key t' db v k \<Longrightarrow> member_by_key t db v k"
  unfolding member_defs using not_expired_earlier by blast+

lemma all_earlier: "t \<le> t' \<Longrightarrow> HasAllPermissions t' db v \<Longrightarrow> HasAllPermissions t db v"
  unfolding HasAllPermissions_iff using member_earlier by metis

lemma permissions_earlier: "t \<le> t' \<Longrightarrow> set (GetEffectivePermissionKeys t' db v) \<subseteq> set (GetEffectivePermissionKeys t db v)"
  unfolding subset_iff GetEffectivePermissionKeys_iff granted_permission_def using member_earlier all_earlier by blast

lemma connections_earlier: "t \<le> t' \<Longrightarrow> set (GetEffectiveDBConnectionIDs t' db v) \<subseteq> set (GetEffectiveDBConnectionIDs t db v)"
  unfolding subset_iff GetEffectiveDBConnectionIDs_iff granted_connection_def using member_earlier all_earlier by blast

text \<open>What \<open>v\<close> holds at time \<open>t'\<close> is what \<open>v\<close> or a member of \<open>A\<close> held at time \<open>t\<close>.\<close>

definition held_before :: "id64 set \<Rightarrow> timestamp \<Rightarrow> identity \<Rightarrow> timestamp \<Rightarrow> identity \<Rightarrow> bool" where
  "held_before A t db t' db' \<longleftrightarrow> (\<forall>v.
     (HasAllPermissions t' db' v \<longrightarrow> (\<exists>a \<in> insert v A. HasAllPermissions t db a)) \<and>
     set (GetEffectivePermissionKeys t' db' v) \<subseteq> (\<Union>a \<in> insert v A. set (GetEffectivePermissionKeys t db a)) \<and>
     set (GetEffectiveDBConnectionIDs t' db' v) \<subseteq> (\<Union>a \<in> insert v A. set (GetEffectiveDBConnectionIDs t db a)))"

lemma held_before_later: "t \<le> t' \<Longrightarrow> held_before {} t db t' db"
  unfolding held_before_def using all_earlier permissions_earlier connections_earlier by auto

lemma held_beforeD:
  assumes "held_before A t db t' db'"
  shows "HasAllPermissions t' db' v \<Longrightarrow> \<exists>a \<in> insert v A. HasAllPermissions t db a"
    and "set (GetEffectivePermissionKeys t' db' v) \<subseteq> (\<Union>a \<in> insert v A. set (GetEffectivePermissionKeys t db a))"
    and "set (GetEffectiveDBConnectionIDs t' db' v) \<subseteq> (\<Union>a \<in> insert v A. set (GetEffectiveDBConnectionIDs t db a))"
  using assms [unfolded held_before_def, THEN spec, of v] by simp_all

lemma held_lift:
  assumes "\<And>b. F b \<subseteq> (\<Union>a \<in> insert b A. G a)" and "X \<subseteq> (\<Union>b \<in> insert v B. F b)"
  shows "X \<subseteq> (\<Union>a \<in> insert v (A \<union> B). G a)"
proof
  fix x assume "x \<in> X"
  then obtain b where b: "b \<in> insert v B" "x \<in> F b" using assms(2) by auto
  then obtain a where "a \<in> insert b A" "x \<in> G a" using assms(1) [of b] by auto
  then show "x \<in> (\<Union>a \<in> insert v (A \<union> B). G a)" using b(1) by auto
qed

lemma held_before_trans:
  assumes "held_before A t db t' db'" and "held_before B t' db' t'' db''"
  shows "held_before (A \<union> B) t db t'' db''"
proof -
  have "\<exists>a \<in> insert v (A \<union> B). HasAllPermissions t db a" if v: "HasAllPermissions t'' db'' v" for v
  proof -
    obtain b where "b \<in> insert v B" "HasAllPermissions t' db' b" using held_beforeD(1) [OF assms(2) v] by blast
    then show ?thesis using held_beforeD(1) [OF assms(1), of b] by blast
  qed
  then show ?thesis unfolding held_before_def
    using held_lift [OF held_beforeD(2) [OF assms(1)] held_beforeD(2) [OF assms(2)]]
      held_lift [OF held_beforeD(3) [OF assms(1)] held_beforeD(3) [OF assms(2)]] by simp
qed

lemma request_keeps:
  assumes "admin_wf (vw_db w)"
  shows "admin_wf (vw_db (snd (handle_admin env q call w)))"
    and "held_before {vq_actor q} (vq_now q) (identity_in w) (vq_now q) (identity_in (snd (handle_admin env q call w)))"
    and "\<not> HasAllPermissions (vq_now q) (identity_in w) (vq_actor q) \<Longrightarrow>
      protected_accounts (vw_db (snd (handle_admin env q call w))) = protected_accounts (vw_db w) \<and>
      protected_groups (identity_in (snd (handle_admin env q call w))) = protected_groups (identity_in w)"
proof -
  note inv = authority.handle_admin_keeps [OF admin_inv_start [OF assms], of q env call]
  then show "admin_wf (vw_db (snd (handle_admin env q call w)))" by (simp add: admin_inv_def)
  show "held_before {vq_actor q} (vq_now q) (identity_in w) (vq_now q) (identity_in (snd (handle_admin env q call w)))"
    using inv unfolding admin_inv_def bounded_by_def held_before_def by auto
  show "\<not> HasAllPermissions (vq_now q) (identity_in w) (vq_actor q) \<Longrightarrow>
      protected_accounts (vw_db (snd (handle_admin env q call w))) = protected_accounts (vw_db w) \<and>
      protected_groups (identity_in (snd (handle_admin env q call w))) = protected_groups (identity_in w)"
    using inv unfolding admin_inv_def by blast
qed

lemma run_held_before:
  "admin_wf (vw_db w) \<Longrightarrow> sorted (t # request_times reqs @ [t']) \<Longrightarrow>
     held_before (request_actors reqs) t (identity_in w) t' (identity_in (admin_run reqs w))"
proof (induction reqs w arbitrary: t rule: admin_run.induct)
  case (1 w)
  then show ?case by (simp add: held_before_later)
next
  case (2 env q call rest w)
  let ?w = "snd (handle_admin env q call w)"
  have "held_before (request_actors rest) (vq_now q) (identity_in ?w) t' (identity_in (admin_run rest ?w))"
    using 2 request_keeps(1) by simp
  moreover have "held_before ({} \<union> {vq_actor q}) t (identity_in w) (vq_now q) (identity_in ?w)"
    using 2 held_before_trans [OF held_before_later request_keeps(2)] by simp
  ultimately show ?case using held_before_trans by fastforce
qed

text \<open>
  C11: requests to the administration of users and groups, made one after another by any callers, with any failures
  of the database: whoever holds all permissions, a permission or a connection afterwards held it before, or
  one of the callers did. No caller, and no group of callers together, can give anybody what none of them has.
\<close>

theorem no_privilege_gained:
  assumes "admin_wf (vw_db w)" and "sorted (t # request_times reqs @ [t'])"
  shows "(HasAllPermissions t' (identity_in (admin_run reqs w)) v \<longrightarrow>
      (\<exists>a \<in> insert v (request_actors reqs). HasAllPermissions t (identity_in w) a)) \<and>
    set (GetEffectivePermissionKeys t' (identity_in (admin_run reqs w)) v) \<subseteq>
      (\<Union>a \<in> insert v (request_actors reqs). set (GetEffectivePermissionKeys t (identity_in w) a)) \<and>
    set (GetEffectiveDBConnectionIDs t' (identity_in (admin_run reqs w)) v) \<subseteq>
      (\<Union>a \<in> insert v (request_actors reqs). set (GetEffectiveDBConnectionIDs t (identity_in w) a))"
  using held_beforeD [OF run_held_before [OF assms], of v] by simp

text \<open>
  C12: callers none of whom holds all permissions never change a protected account, its credentials, its sessions
  or its direct grants, nor a protected group or what it gives to its members, whatever they send.
\<close>

theorem protected_out_of_reach:
  assumes "admin_wf (vw_db w)" and "sorted (t # request_times reqs)"
    and "\<forall>a \<in> request_actors reqs. \<not> HasAllPermissions t (identity_in w) a"
  shows "protected_accounts (vw_db (admin_run reqs w)) = protected_accounts (vw_db w) \<and>
    protected_groups (identity_in (admin_run reqs w)) = protected_groups (identity_in w)"
  using assms
proof (induction reqs w arbitrary: t rule: admin_run.induct)
  case (2 env q call rest w)
  let ?w = "snd (handle_admin env q call w)"
  have le: "t \<le> vq_now q" using "2.prems"(2) by simp
  have weak: "\<not> HasAllPermissions (vq_now q) (identity_in ?w) a" if "a \<in> request_actors rest" for a
  proof -
    have "held_before ({} \<union> {vq_actor q}) t (identity_in w) (vq_now q) (identity_in ?w)"
      using held_before_trans [OF held_before_later [OF le] request_keeps(2) [OF "2.prems"(1)]] .
    then show ?thesis using that "2.prems"(3) held_beforeD(1) by fastforce
  qed
  have "\<not> HasAllPermissions (vq_now q) (identity_in w) (vq_actor q)" using "2.prems"(3) all_earlier [OF le] by auto
  then have "protected_accounts (vw_db ?w) = protected_accounts (vw_db w) \<and> protected_groups (identity_in ?w) = protected_groups (identity_in w)"
    by (rule request_keeps(3) [OF "2.prems"(1)])
  then show ?case using "2.IH" [OF request_keeps(1) [OF "2.prems"(1)], of "vq_now q"] "2.prems"(2) weak by simp
qed simp

end
