(* ===== verification/Administration_Cases.thy ===== *)
theory Administration_Cases
  imports Administration_Bounds
begin

text \<open>
  The administration of users and groups on single requests: a user who is deactivated has no session left,
  and what a small installation shows of the checks and of their limits.
\<close>

section \<open>Deactivation\<close>

text \<open>A step that was passed has left accounts and sessions as they were.\<close>

definition same_accounts :: "admin_world \<Rightarrow> admin_world \<Rightarrow> bool" where
  "same_accounts w v \<longleftrightarrow> ad_accounts (vw_db v) = ad_accounts (vw_db w) \<and> ad_sessions (vw_db v) = ad_sessions (vw_db w)"

definition passed :: "admin_handler \<Rightarrow> admin_world \<Rightarrow> admin_world \<Rightarrow> bool" where
  "passed k w w' \<longleftrightarrow> (\<exists>v. same_accounts w v \<and> k v = (AdminOK, w'))"

lemma same_accounts_refl: "same_accounts w w"
  by (simp add: same_accounts_def)

lemma same_accounts_trans: "same_accounts w v \<Longrightarrow> same_accounts v u \<Longrightarrow> same_accounts w u"
  by (simp add: same_accounts_def)

lemma same_accounts_identity: "same_accounts w (set_identity db w)"
  by (simp add: same_accounts_def set_identity_def)

lemma passed_here: "k w = (AdminOK, w') \<Longrightarrow> passed k w w'"
  unfolding passed_def using same_accounts_refl by blast

lemma not_refused [simp]: "refuse code msg w \<noteq> (AdminOK, w')"
  by (simp add: refuse_def)

lemma guarded_passed: "guarded action q i check k w = (AdminOK, w') \<Longrightarrow> k w = (AdminOK, w')"
  by (auto simp: guarded_def audited_def split: option.splits)

lemma require_passed: "require b code msg k w = (AdminOK, w') \<Longrightarrow> b \<and> k w = (AdminOK, w')"
  by (simp add: require_def split: if_splits)

lemma value_passed: "with_value v code msg k w = (AdminOK, w') \<Longrightarrow> \<exists>x. v = Some x \<and> k x w = (AdminOK, w')"
  by (auto simp: with_value_def split: option.splits)

lemma group_passed: "with_group env key code msg k w = (AdminOK, w') \<Longrightarrow> \<exists>g. k g w = (AdminOK, w')"
  unfolding with_group_def by (auto dest!: require_passed value_passed)

lemma try_passed: "try_identity b msg f k w = (AdminOK, w') \<Longrightarrow> passed k w w'"
  unfolding try_identity_def passed_def using same_accounts_identity
  by (auto split: if_splits prod.splits option.splits write_error.splits)

lemma check_next_groups_passed: "check_next_groups env q i raws acc k w = (AdminOK, w') \<Longrightarrow> \<exists>next. k next w = (AdminOK, w')"
  by (induction raws arbitrary: acc) (auto simp: Let_def split: if_splits dest!: group_passed guarded_passed)

lemma check_dropped_groups_passed: "check_dropped_groups env q i gs k w = (AdminOK, w') \<Longrightarrow> k w = (AdminOK, w')"
  by (induction gs) (auto dest!: require_passed guarded_passed)

lemma check_next_permissions_passed: "check_next_permissions env q i raws acc k w = (AdminOK, w') \<Longrightarrow> \<exists>next. k next w = (AdminOK, w')"
  by (induction raws arbitrary: acc) (auto simp: Let_def split: if_splits dest!: guarded_passed)

lemma check_next_connections_passed: "check_next_connections env q i cs acc k w = (AdminOK, w') \<Longrightarrow> \<exists>next. k next w = (AdminOK, w')"
  by (induction cs arbitrary: acc) (auto split: if_splits dest!: guarded_passed)

lemma patch_groups_passed: "patch_groups env q i gs k w = (AdminOK, w') \<Longrightarrow> passed k w w'"
proof (cases gs)
  case (Some raws)
  assume "patch_groups env q i gs k w = (AdminOK, w')"
  then obtain ds f b m where "check_dropped_groups env q i ds (try_identity b m f k) w = (AdminOK, w')"
    unfolding patch_groups_def Some option.case Let_def by (blast dest: require_passed check_next_groups_passed)
  then show ?thesis by (blast dest: check_dropped_groups_passed try_passed)
qed (simp add: patch_groups_def passed_here)

lemma patch_permissions_passed: "patch_permissions env q i keys k w = (AdminOK, w') \<Longrightarrow> passed k w w'"
  by (cases keys) (auto simp: patch_permissions_def passed_here dest!: check_next_permissions_passed intro: try_passed)

lemma patch_connections_passed: "patch_connections env q i ids k w = (AdminOK, w') \<Longrightarrow> passed k w w'"
  by (cases ids) (auto simp: patch_connections_def passed_here dest!: check_next_connections_passed intro: try_passed)

lemma update_where_all: "(\<And>r. r \<in> set rows \<Longrightarrow> Q (if P r then f r else r)) \<Longrightarrow> s \<in> set (update_where P f rows) \<Longrightarrow> Q s"
  unfolding update_where_def by fastforce

lemma revoked_all:
  assumes "s \<in> set (ad_sessions (RevokeAllForUser now i db))"
  shows "se_user s = i \<longrightarrow> se_revoked_at s \<noteq> None"
proof (rule update_where_all [where Q = "\<lambda>s. se_user s = i \<longrightarrow> se_revoked_at s \<noteq> None"])
  show "s \<in> set (update_where (\<lambda>s. se_user s = i \<and> se_revoked_at s = None) (\<lambda>s. s\<lparr>se_revoked_at := Some now\<rparr>) (ad_sessions db))"
    using assms by (simp add: RevokeAllForUser_def revoke_sessions_def)
qed simp

lemma inactive_all:
  assumes "a \<in> set (ad_accounts (RevokeAllForUser now i (UpdateActive now i False db)))"
  shows "u_id a = i \<longrightarrow> \<not> u_is_active a"
proof (rule update_where_all [where Q = "\<lambda>a. u_id a = i \<longrightarrow> \<not> u_is_active a"])
  show "a \<in> set (update_where (\<lambda>a. u_id a = i) (\<lambda>a. a\<lparr>u_is_active := False, ac_updated_at := now\<rparr>) (ad_accounts db))"
    using assms by (simp add: RevokeAllForUser_def revoke_sessions_def UpdateActive_def update_account_def)
qed simp

lemma deactivated:
  assumes "patch_active env q i (Some False) k w = (AdminOK, w')"
  shows "\<exists>v. k v = (AdminOK, w') \<and> (\<forall>s \<in> set (ad_sessions (vw_db v)). se_user s = i \<longrightarrow> se_revoked_at s \<noteq> None) \<and>
    (\<forall>a \<in> set (ad_accounts (vw_db v)). u_id a = i \<longrightarrow> \<not> u_is_active a)"
proof -
  let ?u = "set_admin_db (UpdateActive (vq_now q) i False (vw_db w)) w"
  let ?v = "set_admin_db (RevokeAllForUser (vq_now q) i (vw_db ?u)) ?u"
  have "k ?v = (AdminOK, w')" using assms by (simp add: patch_active_def write_db_def split: if_splits)
  moreover have "\<forall>a \<in> set (ad_accounts (vw_db ?v)). u_id a = i \<longrightarrow> \<not> u_is_active a"
    using inactive_all by simp
  moreover have "\<forall>s \<in> set (ad_sessions (vw_db ?v)). se_user s = i \<longrightarrow> se_revoked_at s \<noteq> None" using revoked_all by simp
  ultimately show ?thesis by blast
qed

text \<open>
  C13: when a request to deactivate a user is answered with success, the account is inactive and none of its
  sessions is left open, whatever else the request changes.
\<close>

theorem deactivated_user_out:
  assumes ok: "UserPatch env q raw (Some f) w = (AdminOK, w')" and "pf_is_active f = Some False" and i: "parse_uint64 raw = Some i"
  shows "(\<forall>s \<in> set (ad_sessions (vw_db w')). se_user s = i \<longrightarrow> se_revoked_at s \<noteq> None) \<and>
    (\<forall>a \<in> set (ad_accounts (vw_db w')). u_id a = i \<longrightarrow> \<not> u_is_active a)"
proof -
  define finish where "finish = audited ''user_update'' (vq_actor q) i (answer AdminOK)"
  define grants where "grants = patch_groups env q i (pf_auth_groups f) (patch_permissions env q i (pf_direct_permissions f)
    (patch_connections env q i (pf_direct_connections f) finish))"
  obtain a where "patch_profile env q a f (patch_password env q i (pf_password f) (patch_active env q i (pf_is_active f) grants)) w = (AdminOK, w')"
    using ok i unfolding UserPatch_def with_id_def with_user_def grants_def finish_def by (auto dest!: value_passed guarded_passed)
  then obtain u where "patch_password env q i (pf_password f) (patch_active env q i (pf_is_active f) grants) u = (AdminOK, w')"
    by (auto simp: patch_profile_def split: if_splits prod.splits bool.splits)
  then obtain u' where "patch_active env q i (Some False) grants u' = (AdminOK, w')" unfolding assms(2)
    by (auto simp: patch_password_def write_db_def split: option.splits if_splits dest!: require_passed value_passed)
  from deactivated [OF this] obtain v where v: "grants v = (AdminOK, w')"
      "\<forall>s \<in> set (ad_sessions (vw_db v)). se_user s = i \<longrightarrow> se_revoked_at s \<noteq> None"
      "\<forall>a \<in> set (ad_accounts (vw_db v)). u_id a = i \<longrightarrow> \<not> u_is_active a" by blast
  have "passed finish v w'" using v(1) unfolding grants_def
    by (metis passed_def same_accounts_trans patch_groups_passed patch_permissions_passed patch_connections_passed)
  then have "same_accounts v w'"
    unfolding passed_def finish_def by (auto simp: audited_def answer_def same_accounts_def)
  then show ?thesis using v(2,3) unfolding same_accounts_def by simp
qed

section \<open>A small installation\<close>

text \<open>
  Root (1) is protected, Ann (2) is a member of the group of administrators, Max (5) may manage users and
  nothing else, Bob (6) has an open session.
\<close>

definition sample_admin_session :: session where
  "sample_admin_session = \<lparr>se_id = 1, se_user = 6, se_token_hash = ''h'', se_user_agent = None, se_ip_address = None,
     se_auth_method = ''password'', se_auth_provider = [], se_mfa_satisfied = False, se_mfa_source = [], se_expires_at = 900,
     se_revoked_at = None, se_created_at = 0\<rparr>"

definition sample_admin_db :: auth_db where
  "sample_admin_db = \<lparr>
     ad_accounts = [(default_account 0 1 ''root'' ''r@x'' ''p1'')\<lparr>u_is_protected := True\<rparr>, default_account 0 2 ''ann'' ''a@x'' ''p2'',
       default_account 0 5 ''max'' ''m@x'' ''p5'', default_account 0 6 ''bob'' ''b@x'' ''p6''],
     ad_next_account = 7,
     ad_identity = \<lparr>i_users = [],
       i_groups = [\<lparr>ag_id = 1, ag_key = ''admin'', ag_all_permissions = True, ag_name = ''Admin'', ag_description = [],
                    ag_is_system = True, ag_is_protected = True\<rparr>,
                   \<lparr>ag_id = 2, ag_key = ''dba'', ag_all_permissions = False, ag_name = ''DBA'', ag_description = [],
                    ag_is_system = True, ag_is_protected = False\<rparr>],
       i_permissions = [\<lparr>p_id = 1, p_key = ''users.write''\<rparr>, \<lparr>p_id = 2, p_key = ''tickets.execute''\<rparr>],
       i_user_groups = [], i_memberships = [\<lparr>agm_user = 2, agm_group = ''admin'', agm_expires_at = None\<rparr>,
         \<lparr>agm_user = 6, agm_group = ''dba'', agm_expires_at = None\<rparr>],
       i_user_permissions = [(5, 1)], i_group_permissions = [(2, 2)], i_connections = [(7, False)],
       i_user_connections = [], i_group_connections = [], i_next_group = 3\<rparr>,
     ad_sessions = [sample_admin_session], ad_next_session = 2, ad_challenges = [], ad_next_challenge = 1,
     ad_lark_logins = [], ad_next_lark = 1, ad_sso_logins = [], ad_next_sso = 1\<rparr>"

definition sample_admin_world :: admin_world where
  "sample_admin_world = \<lparr>vw_db = sample_admin_db, vw_audit = []\<rparr>"

definition sample_admin_env :: admin_env where
  "sample_admin_env = \<lparr>ve_fails = (\<lambda>_. False), ve_error = [], ve_password_hash = (\<lambda>p. Some (CHR ''#'' # p)), ve_parse_time = (\<lambda>_. None)\<rparr>"

definition sample_caller :: "id64 \<Rightarrow> admin_caller" where
  "sample_caller u = \<lparr>vq_actor = u, vq_now = 10\<rparr>"

definition empty_patch :: user_patch where
  "empty_patch = \<lparr>pf_username = None, pf_email = None, pf_lark_recipient = None, pf_lark_recipient_type = None, pf_lark_union_id = None,
     pf_password = None, pf_is_active = None, pf_auth_groups = None, pf_direct_permissions = None, pf_direct_connections = None\<rparr>"

lemma sample_admin_wf: "admin_wf (vw_db sample_admin_world)"
  by code_simp

lemma sample_not_all: "\<not> HasAllPermissions 0 (identity_in sample_admin_world) 5"
  by code_simp

theorem no_privilege_gained_witness:
  "''tickets.execute'' \<notin> set (GetEffectivePermissionKeys 20
     (identity_in (admin_run [(sample_admin_env, sample_caller 5, AddMembershipCall ''5'' (Some \<lparr>mf_auth_group = ''dba'', mf_expires_at = None\<rparr>)),
        (sample_admin_env, sample_caller 5, AddPermissionCall ''5'' (Some ''tickets.execute''))] sample_admin_world)) 5)"
proof -
  have "sorted (0 # request_times [(sample_admin_env, sample_caller 5, AddMembershipCall ''5'' (Some \<lparr>mf_auth_group = ''dba'', mf_expires_at = None\<rparr>)),
        (sample_admin_env, sample_caller 5, AddPermissionCall ''5'' (Some ''tickets.execute''))] @ [20])"
    by (simp add: sample_caller_def)
  moreover have "GetEffectivePermissionKeys 0 (identity_in sample_admin_world) 5 = [''users.write'']" by code_simp
  ultimately show ?thesis
    using no_privilege_gained [OF sample_admin_wf, of 0 _ 20 5] by (fastforce simp: sample_caller_def)
qed

theorem protected_out_of_reach_witness:
  "filter u_is_protected (ad_accounts (vw_db (admin_run [(sample_admin_env, sample_caller 5, PatchUserCall ''1'' (Some (empty_patch\<lparr>pf_is_active := Some False\<rparr>))),
      (sample_admin_env, sample_caller 5, DeleteUserCall ''1'')] sample_admin_world))) = [(default_account 0 1 ''root'' ''r@x'' ''p1'')\<lparr>u_is_protected := True\<rparr>]"
proof -
  define reqs where "reqs = [(sample_admin_env, sample_caller 5, PatchUserCall ''1'' (Some (empty_patch\<lparr>pf_is_active := Some False\<rparr>))),
      (sample_admin_env, sample_caller 5, DeleteUserCall ''1'')]"
  have "sorted (0 # request_times reqs)" "\<forall>a \<in> request_actors reqs. \<not> HasAllPermissions 0 (identity_in sample_admin_world) a"
    by (simp_all add: reqs_def sample_caller_def sample_not_all)
  note kept = protected_out_of_reach [OF sample_admin_wf this]
  have "filter u_is_protected (ad_accounts (vw_db sample_admin_world)) = [(default_account 0 1 ''root'' ''r@x'' ''p1'')\<lparr>u_is_protected := True\<rparr>]"
    by code_simp
  with kept show ?thesis unfolding reqs_def [symmetric] by (simp add: protected_accounts_def)
qed

text \<open>A request of a caller who may change the account, with no failure of the database.\<close>

definition patch_ready :: "admin_env \<Rightarrow> admin_caller \<Rightarrow> string \<Rightarrow> id64 \<Rightarrow> account \<Rightarrow> user_patch \<Rightarrow> admin_world \<Rightarrow> auth_db \<Rightarrow> bool" where
  "patch_ready env q raw i a f w db \<longleftrightarrow> parse_uint64 raw = Some i \<and> GetAccount (vw_db w) i = Some a \<and> \<not> u_is_protected a \<and>
     (\<forall>op. \<not> ve_fails env op) \<and>
     UpdateUser (vq_now q) i (or_current (pf_username f) (u_username a)) (or_current (pf_email f) (ac_email a))
       (case pf_lark_recipient f of None \<Rightarrow> ac_lark_recipient a | Some v \<Rightarrow> trim_space v)
       (normalizeLarkRecipientType (case pf_lark_recipient_type f of None \<Rightarrow> ac_lark_recipient_type a | Some v \<Rightarrow> v))
       (case pf_lark_union_id f of None \<Rightarrow> ac_lark_union_id a | Some v \<Rightarrow> trim_space v) (vw_db w) = (True, db)"

lemma patch_started:
  assumes "patch_ready env q raw i a f w db"
  shows "UserPatch env q raw (Some f) w =
    patch_password env q i (pf_password f) (patch_active env q i (pf_is_active f) (patch_groups env q i (pf_auth_groups f)
      (patch_permissions env q i (pf_direct_permissions f) (patch_connections env q i (pf_direct_connections f)
      (audited ''user_update'' (vq_actor q) i (answer AdminOK)))))) (set_admin_db db w)"
proof -
  have "u_id a = i" using assms GetAccount_id unfolding patch_ready_def by blast
  then show ?thesis using assms unfolding patch_ready_def UserPatch_def with_id_def with_user_def
    by (simp add: with_value_def guarded_def protected_check_def requireProtectedUserAdmin_def patch_profile_def)
qed

lemma patch_nothing_more [simp]:
  "patch_password env q i None k = k" "patch_active env q i None k = k" "patch_groups env q i None k = k"
  "patch_permissions env q i None k = k" "patch_connections env q i None k = k"
  by (simp_all add: patch_password_def patch_active_def patch_groups_def patch_permissions_def patch_connections_def)

lemma sample_bob: "GetAccount sample_admin_db 6 = Some (default_account 0 6 ''bob'' ''b@x'' ''p6'')"
  by (simp add: GetAccount_def sample_admin_db_def default_account_def)

lemma sample_profile_kept: "fst (UpdateUser 10 6 ''bob'' ''b@x'' [] t [] sample_admin_db)"
  by (simp add: UpdateUser_def sample_admin_db_def default_account_def)

lemma sample_id: "parse_uint64 ''6'' = Some 6"
proof -
  have "nat_show 6 = ''6''" by code_simp
  then show ?thesis using parse_uint64_nat_show [of 6] by simp
qed

lemma sample_patch_ready:
  "patch_ready sample_admin_env (sample_caller 5) ''6'' 6 (default_account 0 6 ''bob'' ''b@x'' ''p6'') (empty_patch\<lparr>pf_is_active := Some False\<rparr>)
     sample_admin_world (snd (UpdateUser 10 6 ''bob'' ''b@x'' [] (normalizeLarkRecipientType ''open_id'') [] sample_admin_db))"
proof -
  have a: "u_username (default_account 0 6 ''bob'' ''b@x'' ''p6'') = ''bob''" "ac_email (default_account 0 6 ''bob'' ''b@x'' ''p6'') = ''b@x''"
    "ac_lark_recipient (default_account 0 6 ''bob'' ''b@x'' ''p6'') = []" "ac_lark_recipient_type (default_account 0 6 ''bob'' ''b@x'' ''p6'') = ''open_id''"
    "ac_lark_union_id (default_account 0 6 ''bob'' ''b@x'' ''p6'') = []" "\<not> u_is_protected (default_account 0 6 ''bob'' ''b@x'' ''p6'')"
    by (simp_all add: default_account_def)
  have "vw_db sample_admin_world = sample_admin_db" "\<And>op. \<not> ve_fails sample_admin_env op" "vq_now (sample_caller 5) = 10"
    by (simp_all add: sample_admin_world_def sample_admin_env_def sample_caller_def)
  then show ?thesis using sample_profile_kept
    by (simp add: patch_ready_def a sample_id sample_bob empty_patch_def or_current_def prod_eq_iff)
qed

theorem deactivated_user_out_witness:
  "\<exists>w'. UserPatch sample_admin_env (sample_caller 5) ''6'' (Some (empty_patch\<lparr>pf_is_active := Some False\<rparr>)) sample_admin_world = (AdminOK, w') \<and>
     (\<forall>s \<in> set (ad_sessions (vw_db w')). se_user s = 6 \<longrightarrow> se_revoked_at s \<noteq> None)"
proof -
  let ?f = "empty_patch\<lparr>pf_is_active := Some False\<rparr>"
  have "\<exists>w'. patch_active sample_admin_env q i (Some False) (audited x y z (answer AdminOK)) w = (AdminOK, w')" for q i x y z w
    by (simp add: patch_active_def write_db_def audited_def answer_def sample_admin_env_def)
  then obtain w' where w': "UserPatch sample_admin_env (sample_caller 5) ''6'' (Some ?f) sample_admin_world = (AdminOK, w')"
    unfolding patch_started [OF sample_patch_ready] by (simp add: empty_patch_def) blast
  then show ?thesis using deactivated_user_out [OF w' _ sample_id] by (simp add: empty_patch_def)
qed

section \<open>Limits of the checks\<close>

text \<open>
  The check on the target of a request looks at the flag of the account only: whoever may manage users sets the
  password of every account without the flag, also of one that holds all permissions, and the sessions of the
  account stay open.
\<close>

lemma password_set_by_anyone:
  assumes "patch_ready env q raw i a (empty_patch\<lparr>pf_password := Some pw\<rparr>) w db" and "validatePassword pw" and "ve_password_hash env pw = Some h"
  shows "\<exists>w'. UserPatch env q raw (Some (empty_patch\<lparr>pf_password := Some pw\<rparr>)) w = (AdminOK, w') \<and>
    vw_db w' = UpdatePassword (vq_now q) i h db \<and> ad_sessions (vw_db w') = ad_sessions (vw_db w)"
proof -
  have "pw \<noteq> []" using assms(2) by (auto simp: validatePassword_def)
  moreover have "ad_sessions db = ad_sessions (vw_db w)"
    using assms(1) unfolding patch_ready_def by (auto simp: UpdateUser_def update_account_def split: if_splits)
  ultimately show ?thesis using assms patch_started [OF assms(1)] unfolding patch_ready_def
    by (simp add: empty_patch_def patch_password_def require_def with_value_def write_db_def audited_def answer_def
        UpdatePassword_def update_account_def)
qed

lemma administrator_without_flag:
  "HasAllPermissions 10 (identity_in sample_admin_world) 2" "\<not> HasAllPermissions 10 (identity_in sample_admin_world) 5"
  "map_option u_is_protected (GetAccount (vw_db sample_admin_world) 2) = Some False"
  by code_simp+

text \<open>
  A caller who may not take a member out of a guarded group may delete the account of the member.
\<close>

lemma member_deleted_instead:
  assumes "parse_uint64 raw = Some i" and "GetAccount (vw_db w) i = Some a" and "\<not> u_is_protected a" and "\<forall>op. \<not> ve_fails env op"
    and "GroupByKey (identity_in w) key = Some g" and "guarded_group g" and "trim_space key = key"
    and "\<not> HasAllPermissions (vq_now q) (identity_in w) (vq_actor q)"
  shows "fst (UserRemoveMembership env q raw key w) = AdminErr 403 ''protected auth group can only be changed by all-permissions admin''"
    and "fst (UserDelete env q raw w) = AdminNoContent"
  using assms unfolding UserRemoveMembership_def UserDelete_def with_id_def with_user_def with_group_def
  by (simp_all add: with_value_def require_def guarded_def protected_check_def requireProtectedUserAdmin_def mutation_check_def
      requireAuthGroupMutationAllowed_def requireAllPermissionsAdmin_def audited_def refuse_def write_db_def answer_def)

text \<open>A request that is refused because of the groups it asks for has already changed the profile.\<close>

lemma refused_patch_written:
  assumes "patch_ready env q raw i a (empty_patch\<lparr>pf_username := Some name, pf_auth_groups := Some [key]\<rparr>) w db"
    and "trim_space key = key" and "key \<noteq> []" and "GroupByKey (identity_in (set_admin_db db w)) key = Some g" and "guarded_group g"
    and "\<not> HasAllPermissions (vq_now q) (identity_in (set_admin_db db w)) (vq_actor q)"
  shows "\<exists>w'. UserPatch env q raw (Some (empty_patch\<lparr>pf_username := Some name, pf_auth_groups := Some [key]\<rparr>)) w =
    (AdminErr 403 ''cannot grant protected or all-permissions auth group'', w') \<and> vw_db w' = db"
  using assms patch_started [OF assms(1)] unfolding patch_ready_def
  by (simp add: empty_patch_def patch_groups_def Let_def require_def with_group_def with_value_def guarded_def contents_check_def
      requireAuthGroupContentsGrantAllowed_def requireAuthGroupGrantAllowed_def requireAllPermissionsAdmin_def audited_def refuse_def)

text \<open>
  Deleting a group keeps its members in the older table of memberships: a group created later under the same
  key, without naming a member, has them.
\<close>

lemma deleted_group_members_return:
  assumes "member_by_key now db v k" and "CreateGroup k name desc sys prot (DeleteGroup i db) = (Some g, db')"
  shows "k \<in> set (GetAuthGroups now db' v)"
proof -
  have "i_memberships db' = i_memberships db" using assms(2) by (auto simp: CreateGroup_def DeleteGroup_def Let_def split: if_splits)
  then show ?thesis using assms(1) by (simp add: GetAuthGroups_iff member_by_key_def)
qed

text \<open>A group asked for with an unknown permission is refused, but it exists afterwards.\<close>

lemma refused_group_exists:
  assumes "ValidateAuthGroupKey (GenerateAuthGroupKey (gf_name f)) = None" and "trim_space (gf_name f) \<noteq> []"
    and "gf_users f = []" and "gf_connections f = []" and "gf_permissions f = [p]"
    and "permission_check env q (trim_space p) (identity_in w) = None" and "p \<notin> p_key ` set (i_permissions (identity_in w))"
    and "\<forall>op. \<not> ve_fails env op"
    and c: "CreateGroup (GenerateAuthGroupKey (gf_name f)) (trim_space (gf_name f)) (trim_space (gf_description f)) False False (identity_in w) = (Some g, db')"
  shows "GroupCreate env q (Some f) w = (AdminErr 422 ''invalid permission_key'', set_identity db' w)"
proof -
  have db: "identity_in (set_identity db' w) = db'" using CreateGroup_member [OF c] by (simp add: identity_in_set_identity)
  have "i_permissions db' = i_permissions (identity_in w)" using c by (auto simp: CreateGroup_def Let_def split: if_splits)
  then have none: "[(ag_id g, p_id r). r \<leftarrow> i_permissions db', p_key r = p] = []" using assms(7) by (auto simp: image_iff)
  then have "ReplacePermissionKeys (ag_id g) [p] db' = (Some NoRows, db')" unfolding ReplacePermissionKeys_def insert_permissions.simps none by simp
  then show ?thesis using assms db
    by (simp add: GroupCreate_def with_value_def Let_def require_def guarded_def try_identity_def refuse_def)
qed

end
