(* ===== verification/Spec2Isabelle.thy ===== *)
theory Spec2Isabelle
  imports Ticket_Runs Online_DDL_Runner Masking_Runtime Metadata_Jobs Redis_Review Host_Policy Sign_In_Laws Ticket_Submission_Laws Shadow_Laws Query_Editor_Samples Administration_Cases
begin

text \<open>
  Verification of dbre-maestro, a server through which developers query and change databases: a query is
  checked against access rules and its sensitive columns are masked, a change is a ticket that is reviewed by
  others and executed by the server. The program is the Go code under \<open>src/backend\<close>; file names below
  are relative to \<open>src/backend/internal\<close>.

  \<^bold>\<open>Parts and their interaction.\<close> A request is authenticated (\<open>middleware\<close>, \<open>auth\<close>), its handler (\<open>handler\<close>)
  checks permissions against the tables of users and groups (\<open>repository/user.go\<close>), reads and writes the
  program's own MySQL tables (\<open>repository\<close>), and sends statements to target databases. Tickets carry the
  changes: submission reviews the SQL (\<open>sqlparse\<close>, \<open>sqlpolicy\<close>, \<open>sqlreview\<close>), a workflow rule names
  approvers and executors, and an approved ticket is run statement by statement or handed to an online DDL
  tool (\<open>onlineddl\<close>). The SQL editor runs read-only queries under query access rules (\<open>queryaccess\<close>) and
  masks results (\<open>masking\<close>) by the lineage of their columns. Background jobs (\<open>job\<close>) collect metadata.

  \<^bold>\<open>Conventions.\<close> The tables of the program are lists of rows (\<open>Sql_Table\<close>), a statement is a function on them
  and a transaction that fails leaves them as they are; unique keys of the schema are conditions of inserts.
  Handlers take the state and return an answer with the new state, with every guard and early return of the
  code. Failures of the database are chosen by an argument. Strings are lists of characters and are compared by
  value; upper and lower case concern ASCII. Identifiers are natural numbers, times are integers (nanoseconds,
  minutes for schedules); 64-bit arithmetic is written with its wrap-around where the code can overflow.
  Parsers, drivers, target databases, cryptography, clocks and external services are arguments of the
  definitions; where a property rests on their behaviour it is a named hypothesis with a witness.

  \<^bold>\<open>Shared theories.\<close> \<open>Go_Prelude\<close>: the functions of Go's \<open>strings\<close> and \<open>strconv\<close> the code uses, and the
  interfaces of state machines, one-shot attempts and exclusive locks. \<open>Sql_Table\<close>: rows, guarded updates
  and registries of grants as interfaces.

  \<^bold>\<open>Tickets.\<close>
  \<^item> \<open>Ticket_State\<close> (\<open>model/ticket.go\<close>, \<open>ticket/state_machine.go\<close>): statuses and the transition table.
  \<^item> \<open>Identity\<close> (\<open>repository/user.go\<close>): the authorisation queries; the query that finds approvers and the one
    that loads a user's permissions agree.
  \<^item> \<open>Workflow\<close> (\<open>handler/workflow_resolution.go\<close>, \<open>MatchWorkflowRule\<close>): the rule chosen is the most specific one,
    and submitters neither approve nor execute their own tickets unless a bypass applies.
  \<^item> \<open>Ticket_Store\<close>, \<open>Ticket_Store_Laws\<close> (\<open>repository/ticket.go\<close>, \<open>query_access.go\<close>): keys stay unique, what was
    submitted never changes, of several attempts to start a ticket one wins, approval of query access is atomic.
  \<^item> \<open>Ticket_Access\<close>, \<open>Ticket_Handlers\<close>, \<open>Ticket_Handler_Laws\<close> (\<open>handler/ticket.go\<close>): every status change follows
    the table, approval needs a reviewer, execution an executor other than the submitter.
  \<^item> \<open>Ticket_Runs\<close> (\<open>handler/ticket.go\<close>): batch and whole-ticket runs as functions, single runs with concurrent stop
    requests as steps of a relation; statements are sent once and in order, a whole-ticket run commits only if
    all succeed, and a stop request does not halt a full run.
  \<^item> \<open>Sql_Policy\<close>, \<open>Sql_Review\<close>, \<open>Sql_Review_Laws\<close> (\<open>sqlparse/parser.go\<close>, \<open>sqlpolicy\<close>, \<open>sqlreview\<close>): splitting,
    classification, static rules and reading of plans; a statement is refused exactly if it breaks a rule.
  \<^item> \<open>Shadow_Validation\<close>, \<open>Shadow_Laws\<close> (\<open>handler/ticket_review.go\<close>): trial runs of DDL as a trace of commands; they
    touch shadow databases only, apart from tables an \<open>ALTER TABLE\<close> moves, and drop what they create.
  \<^item> \<open>Ticket_Submission\<close>, \<open>Ticket_Submission_Laws\<close> (\<open>handler/ticket.go\<close>): what the SQL of a submitted ticket has passed.

  \<^bold>\<open>Online DDL.\<close> \<open>Online_DDL\<close>, \<open>Online_DDL_Store\<close>, \<open>Online_DDL_Runner\<close> (\<open>onlineddl\<close>, \<open>repository/online_ddl.go\<close>,
  \<open>handler/ticket_online_ddl_coordinator.go\<close>): one active run per connection, finished runs are final, the
  dispatcher respects its limits, and a tuned run has the parameters the store records.

  \<^bold>\<open>Queries.\<close>
  \<^item> \<open>Query_Access\<close> (\<open>queryaccess\<close>): the tables a query names and their check, sound for the tables in FROM clauses.
  \<^item> \<open>Masking\<close>, \<open>Masking_Runtime\<close> (\<open>masking\<close>, \<open>handler/masking_runtime.go\<close>): mask modes, rules and exemptions.
  \<^item> \<open>Sql_Lineage\<close>, \<open>Sql_Lineage_Laws\<close> (\<open>handler/mysql_lineage.go\<close>): which stored columns a result column depends on,
    complete for plain queries by a typing judgement, and incomplete for set operations and computed columns.
  \<^item> \<open>Query_Context\<close> (\<open>handler/query_context_token.go\<close>): the token that vouches for a run.
  \<^item> \<open>Query_Editor\<close>, \<open>Query_Requests\<close>, \<open>Query_Editor_Laws\<close>, \<open>Query_Editor_Samples\<close> (\<open>handler/query.go\<close>,
    \<open>sqlparse/limit_rewrite.go\<close>): the path of a query and the other requests of the editor; nothing is sent before
    the checks, sensitive cells are masked, saved queries are bounded.
  \<^item> \<open>Redis_Review\<close> (\<open>sqlreview/redis_check.go\<close>): tokenising, classification and limits of Redis commands.

  \<^bold>\<open>Users.\<close>
  \<^item> \<open>Sign_In_Store\<close>, \<open>Sign_In\<close>, \<open>Sign_In_Laws\<close> (\<open>handler/auth.go\<close>, \<open>auth/jwt.go\<close>, \<open>middleware\<close>, \<open>oidcbearer\<close>):
    setup, sign-in by password and by external providers, second factor, sessions; every session is vouched for,
    and the reuse of a refresh token is detected.
  \<^item> \<open>Administration\<close>, \<open>Administration_Laws\<close>, \<open>Administration_Bounds\<close>, \<open>Administration_Cases\<close> (\<open>handler/user.go\<close>,
    \<open>auth_group.go\<close>, \<open>security_guards.go\<close>, \<open>repository/auth_group.go\<close>): managing users and groups. The handlers are
    proved over the interface \<open>granting\<close>, which the tables interpret; no sequence of requests gives anybody what
    neither he nor a caller had, protected accounts and groups are out of reach of callers without all
    permissions, and a deactivated user has no session left. The bound speaks of stored grants: that a caller
    may set the password of another account is shown as a limit of the checks.

  \<^bold>\<open>Services.\<close> \<open>Runtime\<close> (\<open>handler/rate_limiter.go\<close>, \<open>realtime/broker.go\<close>, the registry of \<open>handler/query.go\<close>): the
  window of the limiter, subscriptions, and a cancel that reaches its query before or after registration.
  \<open>Cron\<close>, \<open>Metadata_Jobs\<close> (\<open>job\<close>): the next time of a schedule and the decision to run. \<open>Host_Policy\<close>
  (\<open>netguard/host_policy.go\<close>): which hosts a connection may name.

  \<^bold>\<open>Bounds and termination.\<close> Loops are recursive functions with termination proofs. \<open>NextCronTime\<close> counts minutes up
  to one year, as the code does. The search for a free user name may run forever in the code: it is a partial
  function, proved to return on every finite table. The walk of parse trees is structural on the trees the
  parser returns. No definition is cut off by fuel.

  \<^bold>\<open>Shown to go wrong.\<close> Lemmas with concrete inputs or general premises show where the code does not do what it
  means to; they stand in the theory of the component they concern, under the properties.

  \<^bold>\<open>Not modelled.\<close> Rollback capture, exports to files, connection pools, the browser of metadata, settings pages,
  dashboards, notifications and Lark cards, scheduled reports, management of sessions of target servers, schema
  comparison, binlog export, the forms that edit rules, the command line and the output of the online DDL tool,
  clients of identity providers, configuration, encryption and routing: they are input and output around drivers,
  processes, files and external services, or forms over single rows. Of the modelled parts, log messages, texts of
  notifications, details of audit entries and read-only lists are left out. The front end is not Go code.
\<close>

end
